(* ===== verification/Prelude.thy ===== *)
theory Prelude
  imports Main "HOL-Library.Sublist" "HOL-Library.Char_ord" "HOL-Library.List_Lexorder"
begin

text \<open>
  Shared vocabulary of the development: the typed failures of \<open>errors.py\<close> as a datatype, the
  result type every fallible operation returns, list tables (the rows of one SQLite table in
  rowid order) with their query and update functions, and the operations on Python strings that
  the runtime uses.

  A Python \<open>str\<close> is modelled by its UTF-8 encoding, a \<open>string\<close> of HOL.  Every delimiter
  the runtime splits on is ASCII, so the encoding is exact for slicing, prefixes and comparison;
  only Unicode white space and Unicode case folding are not modelled.
\<close>

section \<open>Failures and results\<close>

text \<open>The exception classes of \<open>errors.py\<close>, with the fixed part of the message, and the
  Python exceptions the modelled code lets escape.\<close>

datatype error =
    ContractError string
  | NotFoundError string
  | TransitionError string
  | LeaseError string
  | AuthorizationError string
  | EvidenceError string
  | FreshnessError string
  | IntegrityError string
  | SimulatedCrash string
  | ValueError string
  | SqliteIntegrityError string
  | PyKeyError string
  | PyTypeError string

type_synonym 'a res = "error + 'a"

named_theorems result_simps "rewrite rules for results"

definition bindr :: "'a res \<Rightarrow> ('a \<Rightarrow> 'b res) \<Rightarrow> 'b res" where
  "bindr m f = (case m of Inl e \<Rightarrow> Inl e | Inr a \<Rightarrow> f a)"

definition ensure :: "bool \<Rightarrow> error \<Rightarrow> unit res" where
  "ensure b e = (if b then Inr () else Inl e)"

definition require :: "'a option \<Rightarrow> error \<Rightarrow> 'a res" where
  "require m e = (case m of None \<Rightarrow> Inl e | Some a \<Rightarrow> Inr a)"

fun mapr :: "('a \<Rightarrow> 'b res) \<Rightarrow> 'a list \<Rightarrow> 'b list res" where
  "mapr f [] = Inr []"
| "mapr f (x # xs) = bindr (f x) (\<lambda>y. bindr (mapr f xs) (\<lambda>ys. Inr (y # ys)))"

text \<open>A loop over a list that threads a state and stops at the first failure.\<close>

fun foldm :: "('a \<Rightarrow> 's \<Rightarrow> 's res) \<Rightarrow> 'a list \<Rightarrow> 's \<Rightarrow> 's res" where
  "foldm f [] s = Inr s"
| "foldm f (x # xs) s = bindr (f x s) (foldm f xs)"

lemma bindr_Inl [simp]: "bindr (Inl e) f = Inl e"
  by (simp add: bindr_def)

lemma bindr_Inr [simp]: "bindr (Inr a) f = f a"
  by (simp add: bindr_def)

lemma bindr_eq_Inr [result_simps]: "bindr m f = Inr b \<longleftrightarrow> (\<exists>a. m = Inr a \<and> f a = Inr b)"
  by (cases m) auto

lemma bindr_eq_Inl [result_simps]:
  "bindr m f = Inl e \<longleftrightarrow> m = Inl e \<or> (\<exists>a. m = Inr a \<and> f a = Inl e)"
  by (cases m) auto

lemma ensure_eq_Inr [simp]: "ensure b e = Inr u \<longleftrightarrow> b"
  by (simp add: ensure_def)

lemma ensure_eq_Inl [simp]: "ensure b e = Inl e' \<longleftrightarrow> \<not> b \<and> e' = e"
  by (auto simp: ensure_def)

lemma ensure_True [simp]: "ensure True e = Inr ()"
  by (simp add: ensure_def)

lemma ensure_False [simp]: "ensure False e = Inl e"
  by (simp add: ensure_def)

lemma require_eq_Inr [simp]: "require m e = Inr a \<longleftrightarrow> m = Some a"
  by (cases m) (auto simp: require_def)

lemma require_eq_Inl [simp]: "require m e = Inl e' \<longleftrightarrow> m = None \<and> e' = e"
  by (cases m) (auto simp: require_def)

lemma require_Some [simp]: "require (Some a) e = Inr a"
  by simp

lemma require_None [simp]: "require None e = Inl e"
  by simp

lemma bindr_cong [fundef_cong]:
  "m = m' \<Longrightarrow> (\<And>a. m' = Inr a \<Longrightarrow> f a = f' a) \<Longrightarrow> bindr m f = bindr m' f'"
  by (cases m') auto

text \<open>Evaluation of a chain of steps enters the continuation only when its argument is known.\<close>

lemma bindr_weak_cong: "m = m' \<Longrightarrow> bindr m f = bindr m' f"
  by simp

lemmas bind_eval = bindr_weak_cong let_weak_cong

lemma mapr_cong [fundef_cong]:
  "xs = ys \<Longrightarrow> (\<And>x. x \<in> set ys \<Longrightarrow> f x = g x) \<Longrightarrow> mapr f xs = mapr g ys"
  by (induction ys arbitrary: xs) auto

lemma mapr_eq_Inr [result_simps]: "mapr f xs = Inr ys \<longleftrightarrow> list_all2 (\<lambda>x y. f x = Inr y) xs ys"
  by (induction xs arbitrary: ys) (auto simp: result_simps list_all2_Cons1)

lemma mapr_map_Inr: "(\<And>x. x \<in> set xs \<Longrightarrow> f (g x) = Inr (h x)) \<Longrightarrow> mapr f (map g xs) = Inr (map h xs)"
  by (induction xs) auto

lemma mapr_length: "mapr f xs = Inr ys \<Longrightarrow> length ys = length xs"
  by (auto simp: result_simps dest: list_all2_lengthD)

text \<open>The loop rule: a relation on states that is reflexive, transitive and kept by every
  iteration is kept by the loop.\<close>

lemma foldm_invariant:
  assumes "foldm f xs s = Inr s'"
    and "\<And>x s s'. x \<in> set xs \<Longrightarrow> f x s = Inr s' \<Longrightarrow> P s \<Longrightarrow> P s'"
    and "P s"
  shows "P s'"
  using assms by (induction xs arbitrary: s) (auto simp: result_simps)

text \<open>What holds of the value if a computation returns one, computed backwards through its steps.\<close>

definition returns :: "'a res \<Rightarrow> ('a \<Rightarrow> bool) \<Rightarrow> bool" where
  "returns m P \<longleftrightarrow> (\<forall>a. m = Inr a \<longrightarrow> P a)"

lemma returns_Inr [simp]: "returns (Inr a) P \<longleftrightarrow> P a"
  by (simp add: returns_def)

lemma returns_Inl [simp]: "returns (Inl e) P"
  by (simp add: returns_def)

lemma returns_bindr [result_simps]: "returns (bindr m f) P \<longleftrightarrow> returns m (\<lambda>a. returns (f a) P)"
  by (auto simp: returns_def bindr_eq_Inr)

lemma returns_mono: "returns m P \<Longrightarrow> (\<And>a. P a \<Longrightarrow> Q a) \<Longrightarrow> returns m Q"
  by (auto simp: returns_def)

lemma returnsD: "returns m P \<Longrightarrow> m = Inr a \<Longrightarrow> P a"
  by (auto simp: returns_def)

lemma returnsI: "(\<And>a. m = Inr a \<Longrightarrow> P a) \<Longrightarrow> returns m P"
  by (auto simp: returns_def)

lemma returns_seq: "returns m P \<Longrightarrow> (\<And>a. P a \<Longrightarrow> returns (f a) Q) \<Longrightarrow> returns (bindr m f) Q"
  unfolding returns_bindr by (erule returns_mono)

lemma returns_skip: "(\<And>a. returns (f a) Q) \<Longrightarrow> returns (bindr m f) Q"
  unfolding returns_bindr by (simp add: returns_def)

lemma returns_foldm:
  assumes "\<And>x s. x \<in> set xs \<Longrightarrow> P s \<Longrightarrow> returns (f x s) P" "P s"
  shows "returns (foldm f xs s) P"
  by (rule returnsI, rule foldm_invariant [where P = P])
    (use assms in \<open>auto intro: returnsD\<close>)

text \<open>Step by step through an operation, keeping what each step returned.\<close>

lemma returns_bind: "(\<And>a. m = Inr a \<Longrightarrow> returns (f a) Q) \<Longrightarrow> returns (bindr m f) Q"
  by (auto simp: returns_def bindr_eq_Inr)

lemma returns_if: "(b \<Longrightarrow> returns m Q) \<Longrightarrow> (\<not> b \<Longrightarrow> returns n Q) \<Longrightarrow> returns (if b then m else n) Q"
  by simp

lemma returns_let: "(\<And>x. x = e \<Longrightarrow> returns (f x) Q) \<Longrightarrow> returns (let x = e in f x) Q"
  by simp

lemma returns_split: "(\<And>a b. p = (a, b) \<Longrightarrow> returns (f a b) Q) \<Longrightarrow> returns (case p of (a, b) \<Rightarrow> f a b) Q"
  by (cases p) simp

lemmas returns_steps = returns_bind returns_if returns_let returns_split returns_Inl

section \<open>Tables as lists of rows\<close>

text \<open>\<open>fetchone\<close> of a query without an order returns the first row that satisfies the
  condition; an \<open>UPDATE\<close> rewrites every row that does.\<close>

definition fetch_one :: "('r \<Rightarrow> bool) \<Rightarrow> 'r list \<Rightarrow> 'r option" where
  "fetch_one P rows = List.find P rows"

definition exists_row :: "('r \<Rightarrow> bool) \<Rightarrow> 'r list \<Rightarrow> bool" where
  "exists_row P rows \<longleftrightarrow> list_ex P rows"

definition update_where :: "('r \<Rightarrow> bool) \<Rightarrow> ('r \<Rightarrow> 'r) \<Rightarrow> 'r list \<Rightarrow> 'r list" where
  "update_where P f rows = map (\<lambda>r. if P r then f r else r) rows"

lemma fetch_one_Nil [simp]: "fetch_one P [] = None"
  by (simp add: fetch_one_def)

lemma fetch_one_Cons [simp]: "fetch_one P (r # rs) = (if P r then Some r else fetch_one P rs)"
  by (simp add: fetch_one_def)

lemma fetch_one_None [simp]: "fetch_one P rows = None \<longleftrightarrow> (\<forall>r \<in> set rows. \<not> P r)"
  by (auto simp: fetch_one_def find_None_iff)

lemma fetch_one_SomeD: "fetch_one P rows = Some r \<Longrightarrow> r \<in> set rows \<and> P r"
  by (induction rows) (auto split: if_splits)

lemma fetch_one_append:
  "fetch_one P (xs @ ys) = (case fetch_one P xs of None \<Rightarrow> fetch_one P ys | Some r \<Rightarrow> Some r)"
  by (induction xs) auto

lemma fetch_one_snoc_new:
  "(\<And>r. r \<in> set rows \<Longrightarrow> \<not> P r) \<Longrightarrow> fetch_one P (rows @ [r]) = (if P r then Some r else None)"
  by (induction rows) auto

lemma fetch_one_snoc_other: "\<not> P r \<Longrightarrow> fetch_one P (rows @ [r]) = fetch_one P rows"
  by (induction rows) auto

lemma fetch_one_update_same:
  assumes "fetch_one P rows = Some r" and "\<And>r. P (f r) = P r"
  shows "fetch_one P (update_where P f rows) = Some (f r)"
  using assms by (induction rows) (auto simp: update_where_def split: if_splits)

lemma fetch_one_update_other:
  assumes "\<And>r. P r \<Longrightarrow> \<not> Q r" and "\<And>r. Q r \<Longrightarrow> \<not> P (f r)"
  shows "fetch_one P (update_where Q f rows) = fetch_one P rows"
  using assms by (induction rows) (auto simp: update_where_def)

lemma fetch_one_update_frame:
  assumes "\<And>r. P (f r) = P r"
  shows "fetch_one P (update_where Q f rows) =
         map_option (\<lambda>r. if Q r then f r else r) (fetch_one P rows)"
  using assms by (induction rows) (auto simp: update_where_def)

lemma exists_row_iff [simp]: "exists_row P rows \<longleftrightarrow> (\<exists>r \<in> set rows. P r)"
  by (simp add: exists_row_def list_ex_iff)

lemma set_update_where: "set (update_where P f rows) = (\<lambda>r. if P r then f r else r) ` set rows"
  by (simp add: update_where_def)

lemma update_where_Nil [simp]: "update_where P f [] = []"
  by (simp add: update_where_def)

lemma update_where_Cons [simp]:
  "update_where P f (r # rs) = (if P r then f r else r) # update_where P f rs"
  by (simp add: update_where_def)

lemma map_update_where: "(\<And>r. k (f r) = k r) \<Longrightarrow> map k (update_where P f rows) = map k rows"
  by (induction rows) auto

lemma update_where_none: "(\<And>r. r \<in> set rows \<Longrightarrow> \<not> P r) \<Longrightarrow> update_where P f rows = rows"
  by (induction rows) auto

lemma length_update_where [simp]: "length (update_where P f rows) = length rows"
  by (simp add: update_where_def)

text \<open>A primary key: two rows with the same key are the same row.\<close>

lemma key_unique:
  "distinct (map k rows) \<Longrightarrow> r \<in> set rows \<Longrightarrow> s \<in> set rows \<Longrightarrow> k r = k s \<Longrightarrow> r = s"
  by (induction rows) (auto simp: image_iff)

lemma fetch_one_key:
  assumes "distinct (map k rows)" "r \<in> set rows"
  shows "fetch_one (\<lambda>x. k x = k r) rows = Some r"
  using assms by (induction rows) (auto simp: image_iff)

section \<open>Strings\<close>

text \<open>ASCII white space in the sense of \<open>str.strip\<close>.\<close>

definition is_space :: "char \<Rightarrow> bool" where
  "is_space c \<longleftrightarrow> (let n = of_char c :: nat in (9 \<le> n \<and> n \<le> 13) \<or> (28 \<le> n \<and> n \<le> 32))"

definition lstrip :: "string \<Rightarrow> string" where
  "lstrip s = dropWhile is_space s"

definition strip :: "string \<Rightarrow> string" where
  "strip s = rev (lstrip (rev (lstrip s)))"

definition rstrip_char :: "char \<Rightarrow> string \<Rightarrow> string" where
  "rstrip_char c s = rev (dropWhile (\<lambda>x. x = c) (rev s))"

definition lstrip_char :: "char \<Rightarrow> string \<Rightarrow> string" where
  "lstrip_char c s = dropWhile (\<lambda>x. x = c) s"

definition lower_char :: "char \<Rightarrow> char" where
  "lower_char c = (let n = of_char c :: nat in
     if 65 \<le> n \<and> n \<le> 90 then char_of (n + 32) else c)"

definition lower :: "string \<Rightarrow> string" where
  "lower s = map lower_char s"

definition is_alpha :: "char \<Rightarrow> bool" where
  "is_alpha c \<longleftrightarrow> (let n = of_char c :: nat in (65 \<le> n \<and> n \<le> 90) \<or> (97 \<le> n \<and> n \<le> 122))"

abbreviation startswith :: "string \<Rightarrow> string \<Rightarrow> bool" where
  "startswith s p \<equiv> prefix p s"

abbreviation endswith :: "string \<Rightarrow> string \<Rightarrow> bool" where
  "endswith s p \<equiv> suffix p s"

text \<open>\<open>s.split(c)\<close> for a one-character separator, and \<open>c.join\<close>.\<close>

fun split_on :: "char \<Rightarrow> string \<Rightarrow> string list" where
  "split_on c [] = [[]]"
| "split_on c (x # xs) =
     (if x = c then [] # split_on c xs
      else (case split_on c xs of [] \<Rightarrow> [[x]] | w # ws \<Rightarrow> (x # w) # ws))"

fun join_with :: "string \<Rightarrow> string list \<Rightarrow> string" where
  "join_with sep [] = []"
| "join_with sep [w] = w"
| "join_with sep (w # v # ws) = w @ sep @ join_with sep (v # ws)"

text \<open>\<open>tuple(dict.fromkeys(xs))\<close>: duplicates removed, first occurrences kept in order.\<close>

definition dedup :: "'a list \<Rightarrow> 'a list" where
  "dedup xs = rev (remdups (rev xs))"

lemma set_dedup [simp]: "set (dedup xs) = set xs"
  by (simp add: dedup_def)

lemma distinct_dedup [simp]: "distinct (dedup xs)"
  by (simp add: dedup_def)

lemma split_on_nonempty [simp]: "split_on c s \<noteq> []"
  by (induction s) (auto split: list.splits)

lemma join_split [simp]: "join_with [c] (split_on c s) = s"
proof (induction s)
  case Nil
  show ?case by simp
next
  case (Cons x s)
  obtain w ws where w: "split_on c s = w # ws"
    by (cases "split_on c s") auto
  with Cons.IH show ?case
    by (cases ws) auto
qed

lemma split_on_no_sep: "w \<in> set (split_on c s) \<Longrightarrow> c \<notin> set w"
proof (induction s arbitrary: w)
  case Nil
  then show ?case by simp
next
  case (Cons x s)
  obtain v vs where v: "split_on c s = v # vs"
    by (cases "split_on c s") auto
  from Cons.prems Cons.IH v show ?case
    by (auto split: if_splits)
qed

lemma lstrip_idem [simp]: "lstrip (lstrip s) = lstrip s"
  by (simp add: lstrip_def dropWhile_idem)

lemma hd_lstrip: "lstrip s \<noteq> [] \<Longrightarrow> \<not> is_space (hd (lstrip s))"
  by (simp add: lstrip_def hd_dropWhile)

lemma rev_lstrip_hd:
  assumes "s \<noteq> []" "\<not> is_space (hd s)"
  shows "lstrip (rev (lstrip (rev s))) = rev (lstrip (rev s))"
proof -
  obtain x xs where s: "s = x # xs" using assms(1) by (cases s) auto
  have "lstrip (rev xs @ [x]) = lstrip (rev xs) @ [x]" if "\<not> is_space x"
    using that by (induction "rev xs" rule: rev_induct)
      (auto simp: lstrip_def dropWhile_append dropWhile_eq_Nil_conv)
  with assms s show ?thesis by (simp add: lstrip_def)
qed

lemma strip_idem [simp]: "strip (strip s) = strip s"
proof (cases "lstrip s = []")
  case True
  have "lstrip [] = []" by (simp add: lstrip_def)
  with True show ?thesis by (simp add: strip_def)
next
  case False
  with hd_lstrip rev_lstrip_hd [of "lstrip s"] have "lstrip (rev (lstrip (rev (lstrip s)))) = rev (lstrip (rev (lstrip s)))"
    by blast
  then show ?thesis by (simp add: strip_def)
qed

text \<open>A text field: \<open>isinstance(value, str)\<close> is given by the type, so what remains is the
  emptiness check and the stripping.\<close>

definition non_blank :: "string \<Rightarrow> bool" where
  "non_blank s \<longleftrightarrow> strip s \<noteq> []"

definition text_field :: "(string \<Rightarrow> error) \<Rightarrow> string \<Rightarrow> string res" where
  "text_field err s = (if non_blank s then Inr (strip s) else Inl (err ''must be a non-empty string''))"

lemma text_field_Inr [simp]: "text_field err s = Inr t \<longleftrightarrow> non_blank s \<and> t = strip s"
  by (auto simp: text_field_def)

lemma non_blank_strip [simp]: "non_blank (strip s) = non_blank s"
  by (simp add: non_blank_def)

lemma text_field_strip: "text_field err s = Inr t \<Longrightarrow> text_field err t = Inr t"
  by auto

end
