(* ===== verification/Json.thy ===== *)
theory Json
  imports Prelude "HOL-Library.Multiset"
begin

text \<open>
  JSON values, their canonical text \<open>json.dumps(value, ensure_ascii=False, sort_keys=True,
  separators=(",", ":"))\<close> of \<open>types.py\<close>, and the content digest.  A Python dict is an
  association list with distinct keys; floating point numbers do not occur in the runtime's
  records.  The digest algorithm is a parameter \<open>H\<close>.  The main result is that the canonical
  text determines the value up to the order of the keys.
\<close>

datatype json =
    JNull
  | JBool bool
  | JInt int
  | JStr string
  | JList "json list"
  | JObj "(string \<times> json) list"

section \<open>Rendering\<close>

fun show_nat :: "nat \<Rightarrow> string" where
  "show_nat n = (if n < 10 then [char_of (48 + n)] else show_nat (n div 10) @ [char_of (48 + n mod 10)])"

declare show_nat.simps [simp del]

definition show_int :: "int \<Rightarrow> string" where
  "show_int i = (if i < 0 then CHR ''-'' # show_nat (nat (- i)) else show_nat (nat i))"

definition hex_digit :: "nat \<Rightarrow> char" where
  "hex_digit n = ''0123456789abcdef'' ! n"

definition escape_char :: "char \<Rightarrow> string" where
  "escape_char c =
     (if c = CHR 0x22 \<or> c = CHR 0x5C then [CHR 0x5C, c]
      else if c = CHR 0x08 then [CHR 0x5C, CHR ''b'']
      else if c = CHR 0x0C then [CHR 0x5C, CHR ''f'']
      else if c = CHR 0x0A then [CHR 0x5C, CHR ''n'']
      else if c = CHR 0x0D then [CHR 0x5C, CHR ''r'']
      else if c = CHR 0x09 then [CHR 0x5C, CHR ''t'']
      else if (of_char c :: nat) < 32
        then [CHR 0x5C, CHR ''u'', CHR ''0'', CHR ''0'',
              hex_digit (of_char c div 16), hex_digit (of_char c mod 16)]
      else [c])"

definition quote :: "string \<Rightarrow> string" where
  "quote s = CHR 0x22 # concat (map escape_char s) @ [CHR 0x22]"

fun render :: "json \<Rightarrow> string" where
  "render JNull = ''null''"
| "render (JBool b) = (if b then ''true'' else ''false'')"
| "render (JInt i) = show_int i"
| "render (JStr s) = quote s"
| "render (JList vs) = ''['' @ join_with '','' (map render vs) @ '']''"
| "render (JObj kvs) = ''{'' @ join_with '','' (map (\<lambda>(k, v). quote k @ '':'' @ render v) kvs) @ ''}''"

fun sort_obj :: "json \<Rightarrow> json" where
  "sort_obj (JList vs) = JList (map sort_obj vs)"
| "sort_obj (JObj kvs) = JObj (sort_key fst (map (\<lambda>(k, v). (k, sort_obj v)) kvs))"
| "sort_obj v = v"

definition canonical_json :: "json \<Rightarrow> string" where
  "canonical_json v = render (sort_obj v)"

text \<open>Equality of Python values: dicts compare without regard to the order of their keys.\<close>

definition json_eq :: "json \<Rightarrow> json \<Rightarrow> bool" where
  "json_eq v w \<longleftrightarrow> sort_obj v = sort_obj w"

definition content_hash :: "(string \<Rightarrow> string) \<Rightarrow> json \<Rightarrow> string" where
  "content_hash H v = (case v of JStr s \<Rightarrow> H s | _ \<Rightarrow> H (canonical_json v))"

definition keys :: "(string \<times> json) list \<Rightarrow> string list" where
  "keys kvs = map fst kvs"

definition jopt :: "string option \<Rightarrow> json" where
  "jopt m = (case m of None \<Rightarrow> JNull | Some s \<Rightarrow> JStr s)"

definition jintopt :: "int option \<Rightarrow> json" where
  "jintopt m = (case m of None \<Rightarrow> JNull | Some i \<Rightarrow> JInt i)"

lemma jopt_inject [simp]: "jopt a = jopt b \<longleftrightarrow> a = b"
  by (auto simp: jopt_def split: option.splits)

lemma sort_obj_jopt [simp]: "sort_obj (jopt a) = jopt a"
  by (cases a) (auto simp: jopt_def)

lemma json_eq_refl [simp]: "json_eq v v"
  by (simp add: json_eq_def)

section \<open>The canonical text is unambiguous\<close>

text \<open>A rest that can follow a value: the end of the text or a structural character.\<close>

definition delimited :: "string \<Rightarrow> bool" where
  "delimited r \<longleftrightarrow> (case r of [] \<Rightarrow> True | c # _ \<Rightarrow> c = CHR '','' \<or> c = CHR '']'' \<or> c = CHR ''}'')"

definition is_digit :: "char \<Rightarrow> bool" where
  "is_digit c \<longleftrightarrow> 48 \<le> (of_char c :: nat) \<and> (of_char c :: nat) \<le> 57"

lemma delimited_simps [simp]:
  "delimited []" "delimited (c # r) \<longleftrightarrow> c = CHR '','' \<or> c = CHR '']'' \<or> c = CHR ''}''"
  by (simp_all add: delimited_def)

lemma of_char_digit [simp]: "n < 10 \<Longrightarrow> (of_char (char_of (48 + n :: nat)) :: nat) = 48 + n"
  by (simp add: of_char_of)

lemma is_digit_char_of: "n < 10 \<Longrightarrow> is_digit (char_of (48 + n :: nat))"
  by (simp add: is_digit_def)

lemma digit_inject: "m < 10 \<Longrightarrow> n < 10 \<Longrightarrow> char_of (48 + m :: nat) = (char_of (48 + n :: nat) :: char) \<Longrightarrow> m = n"
  by (metis of_char_digit add_left_cancel)

lemma show_nat_digits: "\<forall>c \<in> set (show_nat n). is_digit c"
proof (induction n rule: show_nat.induct)
  case (1 n)
  then show ?case
    by (subst show_nat.simps) (auto simp: is_digit_char_of)
qed

lemma show_nat_nonempty [simp]: "show_nat n \<noteq> []"
  by (subst show_nat.simps) simp

lemma show_nat_inject: "show_nat m = show_nat n \<Longrightarrow> m = n"
proof (induction m arbitrary: n rule: show_nat.induct)
  case (1 m)
  show ?case
  proof (cases "m < 10")
    case True
    with 1(2) show ?thesis
      using show_nat_nonempty [of "n div 10", symmetric]
      by (auto simp: show_nat.simps [of m] show_nat.simps [of n] digit_inject split: if_splits)
  next
    case False
    with 1(2) have n: "\<not> n < 10"
      by (auto simp: show_nat.simps [of m] show_nat.simps [of n] split: if_splits)
    from 1(2) False n have eq: "show_nat (m div 10) = show_nat (n div 10)"
      and last: "char_of (48 + m mod 10) = (char_of (48 + n mod 10) :: char)"
      by (simp_all add: show_nat.simps [of m] show_nat.simps [of n])
    from 1(1) [OF False eq] have "m div 10 = n div 10" .
    moreover from last have "m mod 10 = n mod 10" by (rule digit_inject [rotated -1]) simp_all
    ultimately show ?thesis by (metis div_mult_mod_eq)
  qed
qed

lemma takeWhile_digits:
  assumes "\<forall>c \<in> set ds. is_digit c" "delimited r"
  shows "takeWhile is_digit (ds @ r) = ds" "dropWhile is_digit (ds @ r) = r"
proof -
  have "takeWhile is_digit r = [] \<and> dropWhile is_digit r = r"
    using assms(2) by (cases r) (auto simp: is_digit_def)
  with assms(1) show "takeWhile is_digit (ds @ r) = ds" "dropWhile is_digit (ds @ r) = r"
    by (simp_all add: takeWhile_append2 dropWhile_append2)
qed

lemma show_nat_unambiguous:
  assumes "show_nat m @ r = show_nat n @ s" "delimited r" "delimited s"
  shows "m = n \<and> r = s"
  by (metis assms show_nat_digits takeWhile_digits show_nat_inject)

lemma show_nat_hd: "is_digit (hd (show_nat n))"
  using show_nat_digits [of n] by (cases "show_nat n") (auto dest: arg_cong [of _ _ "\<lambda>x. x = []"])

lemma show_int_unambiguous:
  assumes "show_int i @ r = show_int j @ s" "delimited r" "delimited s"
  shows "i = j \<and> r = s"
proof -
  have "\<not> is_digit (CHR ''-'')" by (simp add: is_digit_def)
  then have hd: "hd (show_nat n) \<noteq> CHR ''-''" for n using show_nat_hd [of n] by metis
  then have ne: "show_nat n @ x \<noteq> CHR ''-'' # y" for n x y
    by (metis hd_append2 list.sel(1) show_nat_nonempty)
  show ?thesis
  proof (cases "i < 0"; cases "j < 0")
    assume "i < 0" "j < 0"
    with assms show ?thesis
      using show_nat_unambiguous [of "nat (- i)" r "nat (- j)" s] by (auto simp: show_int_def)
  next
    assume "i < 0" "\<not> j < 0"
    with assms(1) have "show_nat (nat j) @ s = CHR ''-'' # show_nat (nat (- i)) @ r"
      by (simp add: show_int_def)
    with ne show ?thesis by blast
  next
    assume "\<not> i < 0" "j < 0"
    with assms(1) have "show_nat (nat i) @ r = CHR ''-'' # show_nat (nat (- j)) @ s"
      by (simp add: show_int_def)
    with ne show ?thesis by blast
  next
    assume "\<not> i < 0" "\<not> j < 0"
    with assms show ?thesis
      using show_nat_unambiguous [of "nat i" r "nat j" s] by (auto simp: show_int_def)
  qed
qed

lemma show_int_hd: "hd (show_int i) = CHR ''-'' \<or> is_digit (hd (show_int i))"
  by (simp add: show_int_def show_nat_hd)

lemma show_int_nonempty [simp]: "show_int i \<noteq> []"
  by (simp add: show_int_def)

subsection \<open>Strings\<close>

lemma hex_digit_inject: "m < 16 \<Longrightarrow> n < 16 \<Longrightarrow> hex_digit m = hex_digit n \<Longrightarrow> m = n"
  unfolding hex_digit_def by (subst (asm) nth_eq_iff_index_eq) simp_all

lemma escape_unambiguous:
  assumes "escape_char c @ r = escape_char d @ s"
  shows "c = d \<and> r = s"
proof -
  have ctrl: "c = d"
    if "(of_char c :: nat) < 32" "(of_char d :: nat) < 32"
      "hex_digit (of_char c div 16) = hex_digit (of_char d div 16)"
      "hex_digit (of_char c mod 16) = hex_digit (of_char d mod 16)"
  proof -
    from that have "(of_char c :: nat) div 16 = of_char d div 16"
      by (intro hex_digit_inject) simp_all
    moreover from that(4) have "(of_char c :: nat) mod 16 = of_char d mod 16"
      by (rule hex_digit_inject [rotated 2]) simp_all
    ultimately have "(of_char c :: nat) = of_char d" by (metis div_mult_mod_eq)
    then show ?thesis by simp
  qed
  from assms ctrl show ?thesis
    by (auto simp: escape_char_def split: if_splits)
qed

lemma escape_not_quote: "escape_char c @ r \<noteq> CHR 0x22 # s"
  by (auto simp: escape_char_def)

lemma escaped_unambiguous:
  "concat (map escape_char s) @ CHR 0x22 # r = concat (map escape_char t) @ CHR 0x22 # u
   \<Longrightarrow> s = t \<and> r = u"
proof (induction s arbitrary: t)
  case Nil
  show ?case
  proof (cases t)
    case Nil
    with Nil.prems show ?thesis by simp
  next
    case (Cons d t')
    with Nil.prems have "escape_char d @ (concat (map escape_char t') @ CHR 0x22 # u) = CHR 0x22 # r"
      by simp
    then show ?thesis using escape_not_quote by blast
  qed
next
  case (Cons c s)
  show ?case
  proof (cases t)
    case Nil
    with Cons.prems have "escape_char c @ (concat (map escape_char s) @ CHR 0x22 # r) = CHR 0x22 # u"
      by simp
    then show ?thesis using escape_not_quote by blast
  next
    case (Cons d t')
    with Cons.prems have "escape_char c @ (concat (map escape_char s) @ CHR 0x22 # r)
        = escape_char d @ (concat (map escape_char t') @ CHR 0x22 # u)" by simp
    from escape_unambiguous [OF this] Cons.IH [of t'] Cons show ?thesis by simp
  qed
qed

lemma quote_unambiguous:
  assumes "quote s @ r = quote t @ u"
  shows "s = t \<and> r = u"
proof (rule escaped_unambiguous)
  show "concat (map escape_char s) @ CHR 0x22 # r = concat (map escape_char t) @ CHR 0x22 # u"
    using assms by (simp add: quote_def)
qed

lemma quote_Cons: "\<exists>x. quote s = CHR 0x22 # x"
  by (simp add: quote_def)

subsection \<open>Lists and objects\<close>

lemma join_Cons: "join_with sep (w # ws) = w @ concat (map ((@) sep) ws)"
  by (induction ws arbitrary: w) auto

text \<open>A rendering of elements that is unambiguous before a structural character stays so when
  the elements are joined by commas and closed by a bracket.\<close>

definition unambiguous :: "('a \<Rightarrow> string) \<Rightarrow> 'a \<Rightarrow> bool" where
  "unambiguous f x \<longleftrightarrow> (\<forall>y r s. delimited r \<longrightarrow> delimited s \<longrightarrow> f x @ r = f y @ s \<longrightarrow> x = y \<and> r = s)"

lemma unambiguousD:
  "unambiguous f x \<Longrightarrow> f x @ r = f y @ s \<Longrightarrow> delimited r \<Longrightarrow> delimited s \<Longrightarrow> x = y \<and> r = s"
  by (auto simp: unambiguous_def)

lemma delimited_tail:
  assumes "c = CHR '']'' \<or> c = CHR ''}''"
  shows "delimited (concat (map (\<lambda>x. CHR '','' # f x) xs) @ c # r)"
  using assms by (cases xs) auto

lemma tail_unambiguous:
  assumes "\<forall>x \<in> set xs. unambiguous f x" "c = CHR '']'' \<or> c = CHR ''}''"
    "concat (map (\<lambda>x. CHR '','' # f x) xs) @ c # r = concat (map (\<lambda>x. CHR '','' # f x) ys) @ c # s"
  shows "xs = ys \<and> r = s"
  using assms(1, 3)
proof (induction xs arbitrary: ys)
  case Nil
  with assms(2) show ?case by (cases ys) auto
next
  case (Cons x xs)
  from Cons.prems assms(2) obtain y ys' where ys: "ys = y # ys'"
    by (cases ys) auto
  with Cons.prems have eq: "f x @ (concat (map (\<lambda>x. CHR '','' # f x) xs) @ c # r)
      = f y @ (concat (map (\<lambda>x. CHR '','' # f x) ys') @ c # s)"
    by simp
  from unambiguousD [where f = f and x = x and y = y, OF _ eq delimited_tail delimited_tail] Cons.prems(1) assms(2)
  have "x = y \<and> concat (map (\<lambda>x. CHR '','' # f x) xs) @ c # r
      = concat (map (\<lambda>x. CHR '','' # f x) ys') @ c # s" by simp
  with Cons ys show ?case by simp
qed

lemma joined_unambiguous:
  assumes un: "\<forall>x \<in> set xs. unambiguous f x" and c: "c = CHR '']'' \<or> c = CHR ''}''"
    and ne: "\<And>x. f x \<noteq> [] \<and> hd (f x) \<noteq> c"
    and eq: "join_with '','' (map f xs) @ c # r = join_with '','' (map f ys) @ c # s"
  shows "xs = ys \<and> r = s"
proof -
  have not_c: "f x @ z \<noteq> c # z'" for x z z'
    using ne [of x] by (cases "f x") auto
  have tl: "concat (map ((@) '','') (map f zs)) = concat (map (\<lambda>x. CHR '','' # f x) zs)" for zs
    by (induction zs) auto
  show ?thesis
  proof (cases xs)
    case Nil
    with eq not_c [symmetric] show ?thesis
      by (cases ys) (auto simp: join_Cons simp del: join_with.simps(2,3))
  next
    case xs: (Cons x xs')
    show ?thesis
    proof (cases ys)
      case Nil
      with eq xs not_c show ?thesis
        by (auto simp: join_Cons simp del: join_with.simps(2,3))
    next
      case ys: (Cons y ys')
      from eq xs ys have e: "f x @ (concat (map (\<lambda>x. CHR '','' # f x) xs') @ c # r)
          = f y @ (concat (map (\<lambda>x. CHR '','' # f x) ys') @ c # s)"
        using tl by (simp add: join_Cons del: join_with.simps(2,3))
      from unambiguousD [where f = f and x = x and y = y, OF _ e delimited_tail delimited_tail] un xs c
      have "x = y \<and> concat (map (\<lambda>x. CHR '','' # f x) xs') @ c # r
          = concat (map (\<lambda>x. CHR '','' # f x) ys') @ c # s" by simp
      with tail_unambiguous [of xs' f c r ys' s] un xs ys c show ?thesis by simp
    qed
  qed
qed

text \<open>The first character tells the kinds of values apart.\<close>

fun kind :: "json \<Rightarrow> nat" where
  "kind JNull = 0"
| "kind (JBool b) = (if b then 1 else 2)"
| "kind (JInt i) = 3"
| "kind (JStr s) = 4"
| "kind (JList vs) = 5"
| "kind (JObj kvs) = 6"

definition kind_of_first :: "char \<Rightarrow> nat" where
  "kind_of_first c =
     (if c = CHR ''n'' then 0 else if c = CHR ''t'' then 1 else if c = CHR ''f'' then 2
      else if c = CHR 0x22 then 4 else if c = CHR ''['' then 5 else if c = CHR ''{'' then 6 else 3)"

lemma render_first: "render v \<noteq> [] \<and> kind_of_first (hd (render v)) = kind v"
proof (cases v)
  case (JInt i)
  have "\<not> is_digit (CHR ''n'')" "\<not> is_digit (CHR ''t'')" "\<not> is_digit (CHR ''f'')"
    "\<not> is_digit (CHR 0x22)" "\<not> is_digit (CHR ''['')" "\<not> is_digit (CHR ''{'')"
    by (simp_all add: is_digit_def)
  then have "kind_of_first c = 3" if "c = CHR ''-'' \<or> is_digit c" for c
    using that by (auto simp: kind_of_first_def)
  with JInt show_int_hd show ?thesis by simp
qed (auto simp: kind_of_first_def quote_def)

lemma render_not_closing: "render v \<noteq> [] \<and> hd (render v) \<noteq> CHR '']'' \<and> hd (render v) \<noteq> CHR ''}''"
proof (cases v)
  case (JInt i)
  have "\<not> is_digit (CHR '']'')" "\<not> is_digit (CHR ''}'')" by (simp_all add: is_digit_def)
  with show_int_hd [of i] JInt show ?thesis by auto
qed (auto simp: quote_def)

lemma same_kind: "render v @ r = render w @ s \<Longrightarrow> kind v = kind w"
  by (metis hd_append2 render_first)

lemma quote_hd: "quote s \<noteq> [] \<and> hd (quote s) = CHR 0x22"
  by (simp add: quote_def)

lemma render_unambiguous: "unambiguous render v"
proof (induction v)
  case JNull
  have "w = JNull" if "render JNull @ r = render w @ s" for w r s
    using same_kind [OF that] by (cases w) (auto split: if_splits)
  then show ?case by (fastforce simp: unambiguous_def)
next
  case (JBool b)
  have "w = JBool b" if "render (JBool b) @ r = render w @ s" for w r s
    using same_kind [OF that] by (cases w) (auto split: if_splits)
  then show ?case by (fastforce simp: unambiguous_def)
next
  case (JInt i)
  show ?case unfolding unambiguous_def
  proof (intro allI impI)
    fix w r s assume d: "delimited r" "delimited s" and eq: "render (JInt i) @ r = render w @ s"
    from same_kind [OF eq] obtain j where "w = JInt j" by (cases w) (auto split: if_splits)
    with eq d show_int_unambiguous [of i r j s] show "JInt i = w \<and> r = s" by simp
  qed
next
  case (JStr t)
  show ?case unfolding unambiguous_def
  proof (intro allI impI)
    fix w r s assume eq: "render (JStr t) @ r = render w @ s"
    from same_kind [OF eq] obtain u where "w = JStr u" by (cases w) (auto split: if_splits)
    with eq quote_unambiguous [of t r u s] show "JStr t = w \<and> r = s" by simp
  qed
next
  case (JList vs)
  show ?case unfolding unambiguous_def
  proof (intro allI impI)
    fix w r s assume eq: "render (JList vs) @ r = render w @ s"
    from same_kind [OF eq] obtain ws where w: "w = JList ws" by (cases w) (auto split: if_splits)
    with eq have "join_with '','' (map render vs) @ CHR '']'' # r = join_with '','' (map render ws) @ CHR '']'' # s"
      by simp
    from joined_unambiguous [OF _ _ _ this] JList.IH render_not_closing w
    show "JList vs = w \<and> r = s" by simp
  qed
next
  case (JObj kvs)
  let ?f = "\<lambda>(k, v). quote k @ '':'' @ render v"
  have un: "\<forall>kv \<in> set kvs. unambiguous ?f kv"
  proof
    fix kv assume kv: "kv \<in> set kvs"
    obtain k v where kvd: "kv = (k, v)" by (cases kv)
    with JObj.IH kv have v: "unambiguous render v" by force
    have "kv = y \<and> r = s"
      if d: "delimited r" "delimited s" and eq: "?f kv @ r = ?f y @ s" for y r s
    proof -
      obtain k' v' where y: "y = (k', v')" by (cases y)
      with eq kvd have "quote k @ (CHR '':'' # render v @ r) = quote k' @ (CHR '':'' # render v' @ s)"
        by simp
      from quote_unambiguous [OF this] have "k = k'" "render v @ r = render v' @ s" by simp_all
      with unambiguousD [OF v _ d] kvd y show ?thesis by simp
    qed
    then show "unambiguous ?f kv" by (simp add: unambiguous_def)
  qed
  have ne: "?f x \<noteq> [] \<and> hd (?f x) \<noteq> CHR ''}''" for x
    using quote_hd [of "fst x"] by (cases x) (simp add: hd_append)
  show ?case unfolding unambiguous_def
  proof (intro allI impI)
    fix w r s assume eq: "render (JObj kvs) @ r = render w @ s"
    from same_kind [OF eq] obtain ws where w: "w = JObj ws" by (cases w) (auto split: if_splits)
    with eq have "join_with '','' (map ?f kvs) @ CHR ''}'' # r = join_with '','' (map ?f ws) @ CHR ''}'' # s"
      by simp
    from joined_unambiguous [OF un _ ne this] w show "JObj kvs = w \<and> r = s" by simp
  qed
qed

lemma render_inject: "render v = render w \<Longrightarrow> v = w"
  using unambiguousD [OF render_unambiguous, of v "[]" w "[]"] by simp

lemma canonical_json_eq [simp]: "canonical_json v = canonical_json w \<longleftrightarrow> json_eq v w"
  unfolding canonical_json_def json_eq_def using render_inject by metis

text \<open>With a collision-free digest, equal digests of two non-text values mean equal values.\<close>

lemma content_hash_inject:
  assumes "inj H" "\<nexists>s. v = JStr s" "\<nexists>s. w = JStr s" "content_hash H v = content_hash H w"
  shows "json_eq v w"
proof -
  have "content_hash H u = H (canonical_json u)" if "\<nexists>s. u = JStr s" for u
    using that by (cases u) (simp_all add: content_hash_def)
  with assms show ?thesis by (simp add: inj_eq)
qed

text \<open>Objects over one fixed list of keys: equal up to key order means equal value by value.\<close>

lemma sort_obj_JObj_fixed_keys:
  assumes "json_eq (JObj kvs) (JObj kvs')" "keys kvs = keys kvs'" "distinct (keys kvs)"
  shows "list_all2 (\<lambda>a b. fst a = fst b \<and> json_eq (snd a) (snd b)) kvs kvs'"
proof -
  let ?g = "\<lambda>(k, v). (k, sort_obj v)"
  from assms(1) have "sort_key fst (map ?g kvs) = sort_key fst (map ?g kvs')"
    by (simp add: json_eq_def)
  then have "mset (map ?g kvs) = mset (map ?g kvs')"
    by (metis mset_sort)
  then have sets: "set (map ?g kvs) = set (map ?g kvs')" by (metis set_mset_mset)
  have len: "length kvs = length kvs'" using assms(2) by (metis keys_def length_map)
  have "fst (kvs ! i) = fst (kvs' ! i) \<and> json_eq (snd (kvs ! i)) (snd (kvs' ! i))"
    if i: "i < length kvs" for i
  proof
    show k: "fst (kvs ! i) = fst (kvs' ! i)"
      using assms(2) i len unfolding keys_def by (metis nth_map)
    from i sets have "?g (kvs ! i) \<in> set (map ?g kvs')" by (metis length_map nth_map nth_mem)
    then obtain j where j: "j < length kvs'" "?g (kvs ! i) = ?g (kvs' ! j)"
      by (auto simp: in_set_conv_nth)
    then have "fst (kvs' ! i) = fst (kvs' ! j)" using k by (simp add: case_prod_beta)
    moreover have "distinct (map fst kvs')" using assms(2, 3) by (simp add: keys_def)
    ultimately have "i = j" using i j(1) len by (metis length_map nth_eq_iff_index_eq nth_map)
    with j(2) show "json_eq (snd (kvs ! i)) (snd (kvs' ! i))"
      by (simp add: json_eq_def case_prod_beta)
  qed
  with len show ?thesis by (simp add: list_all2_conv_all_nth)
qed

lemma json_eq_scalars [simp]:
  "json_eq (JStr a) (JStr b) \<longleftrightarrow> a = b" "json_eq (JInt i) (JInt j) \<longleftrightarrow> i = j"
  "json_eq (jopt x) (jopt y) \<longleftrightarrow> x = y"
  by (simp_all add: json_eq_def)

lemma show_nat_eq [simp]: "show_nat m = show_nat n \<longleftrightarrow> m = n"
  using show_nat_inject by blast



end
