(* ===== verification/Specs.thy ===== *)
theory Specs
  imports Contracts
begin

text \<open>
  The strict decoders of \<open>types.py\<close>: \<open>RuntimeSurfaceSpec\<close>, \<open>GoalSpec\<close> and \<open>TaskSpec\<close> from a
  JSON object, with every failure in the order in which the code tests it, and the encoders
  \<open>to_dict\<close>.  A spec decoded from any document satisfies the well-formedness predicate of its
  type, and a well-formed spec survives the trip through its encoding.
\<close>

section \<open>Field validation\<close>

definition strict_keys :: "(string \<times> json) list \<Rightarrow> string list \<Rightarrow> string list \<Rightarrow> unit res" where
  "strict_keys data required allowed =
     (if \<exists>k \<in> set required. k \<notin> set (keys data) then Inl (ContractError ''missing required fields'')
      else if \<exists>k \<in> set (keys data). k \<notin> set allowed then Inl (ContractError ''contains unknown fields'')
      else Inr ())"

definition get_field :: "string \<Rightarrow> (string \<times> json) list \<Rightarrow> json res" where
  "get_field k data = require (map_of data k) (PyKeyError k)"

definition get_or :: "string \<Rightarrow> json \<Rightarrow> (string \<times> json) list \<Rightarrow> json" where
  "get_or k d data = (case map_of data k of None \<Rightarrow> d | Some v \<Rightarrow> v)"

definition non_empty_string :: "json \<Rightarrow> string res" where
  "non_empty_string v = (case v of
       JStr s \<Rightarrow> text_field ContractError s
     | _ \<Rightarrow> Inl (ContractError ''must be a non-empty string''))"

fun plain_string :: "json \<Rightarrow> string res" where
  "plain_string (JStr s) =
     (if non_blank s then Inr s else Inl (ContractError ''must be a list of non-empty strings''))"
| "plain_string v = Inl (ContractError ''must be a list of non-empty strings'')"

definition string_list :: "bool \<Rightarrow> json \<Rightarrow> string list res" where
  "string_list allow_empty v = (case v of
       JList vs \<Rightarrow> bindr (mapr plain_string vs) (\<lambda>ss.
         if \<not> allow_empty \<and> vs = [] then Inl (ContractError ''must not be empty'')
         else if distinct (map strip ss) then Inr (map strip ss)
         else Inl (ContractError ''must not contain duplicates''))
     | _ \<Rightarrow> Inl (ContractError ''must be a list of non-empty strings''))"

text \<open>An integer within bounds; \<open>True\<close> and \<open>False\<close> are not integers here.\<close>

definition int_from :: "int \<Rightarrow> int option \<Rightarrow> string \<Rightarrow> json \<Rightarrow> int res" where
  "int_from lo hi msg v = (case v of
       JInt i \<Rightarrow> (if lo \<le> i \<and> (case hi of None \<Rightarrow> True | Some h \<Rightarrow> i \<le> h) then Inr i
                  else Inl (ContractError msg))
     | _ \<Rightarrow> Inl (ContractError msg))"

definition bool_field :: "string \<Rightarrow> json \<Rightarrow> bool res" where
  "bool_field msg v = (case v of JBool b \<Rightarrow> Inr b | _ \<Rightarrow> Inl (ContractError msg))"

text \<open>Iterating over a JSON value as Python does: a string yields its characters, an object
  its keys, a number or \<open>null\<close> raises \<open>TypeError\<close>.\<close>

definition iter_json :: "json \<Rightarrow> json list res" where
  "iter_json v = (case v of
       JList vs \<Rightarrow> Inr vs
     | JStr s \<Rightarrow> Inr (map (\<lambda>c. JStr [c]) s)
     | JObj kvs \<Rightarrow> Inr (map (\<lambda>kv. JStr (fst kv)) kvs)
     | _ \<Rightarrow> Inl (PyTypeError ''not iterable''))"

definition capabilities_of :: "json \<Rightarrow> capability list res" where
  "capabilities_of v = bindr (iter_json v) (mapr capability_of)"

text \<open>\<open>except ValueError\<close> of \<open>GoalSpec.from_dict\<close>, \<open>except (TypeError, ValueError)\<close> of
  \<open>TaskSpec.from_dict\<close>.\<close>

fun value_error_to_contract :: "error \<Rightarrow> error" where
  "value_error_to_contract (ValueError m) = ContractError m"
| "value_error_to_contract e = e"

fun type_value_error_to_contract :: "error \<Rightarrow> error" where
  "type_value_error_to_contract (ValueError m) = ContractError m"
| "type_value_error_to_contract (PyTypeError m) = ContractError m"
| "type_value_error_to_contract e = e"

definition except_map :: "(error \<Rightarrow> error) \<Rightarrow> 'a res \<Rightarrow> 'a res" where
  "except_map h m = (case m of Inl e \<Rightarrow> Inl (h e) | Inr a \<Rightarrow> Inr a)"

definition upper_char :: "char \<Rightarrow> char" where
  "upper_char c = (let n = of_char c :: nat in if 97 \<le> n \<and> n \<le> 122 then char_of (n - 32) else c)"

section \<open>RuntimeSurfaceSpec\<close>

record surface_spec =
  surface_key :: string
  target_identity :: string
  allowed_probes :: "string list"
  max_ttl_seconds :: int
  trigger_event_required :: bool

definition surface_from_dict :: "(string \<times> json) list \<Rightarrow> surface_spec res" where
  "surface_from_dict data =
     bindr (strict_keys data [''surface_key'', ''target_identity'', ''allowed_probes'']
              [''surface_key'', ''target_identity'', ''allowed_probes'', ''max_ttl_seconds'',
               ''trigger_event_required'']) (\<lambda>_.
     bindr (int_from 1 (Some 86400) ''max_ttl_seconds must be an integer from 1 to 86400''
              (get_or ''max_ttl_seconds'' (JInt 300) data)) (\<lambda>ttl.
     bindr (bool_field ''trigger_event_required must be a boolean''
              (get_or ''trigger_event_required'' (JBool True) data)) (\<lambda>trig.
     bindr (bindr (get_field ''surface_key'' data) non_empty_string) (\<lambda>key.
     bindr (bindr (get_field ''target_identity'' data) non_empty_string) (\<lambda>target.
     bindr (bindr (get_field ''allowed_probes'' data) (string_list False)) (\<lambda>probes.
       Inr \<lparr>surface_key = key, target_identity = target, allowed_probes = probes,
            max_ttl_seconds = ttl, trigger_event_required = trig\<rparr>))))))"

definition surface_to_dict :: "surface_spec \<Rightarrow> (string \<times> json) list" where
  "surface_to_dict s =
     [(''surface_key'', JStr (surface_key s)),
      (''target_identity'', JStr (target_identity s)),
      (''allowed_probes'', JList (map JStr (allowed_probes s))),
      (''max_ttl_seconds'', JInt (max_ttl_seconds s)),
      (''trigger_event_required'', JBool (trigger_event_required s))]"

fun surface_item :: "json \<Rightarrow> ((string \<times> json) list) res" where
  "surface_item (JObj kvs) = Inr kvs"
| "surface_item v = Inl (ContractError ''must contain only runtime surface objects'')"

definition runtime_surfaces :: "json \<Rightarrow> surface_spec list res" where
  "runtime_surfaces v = (case v of
       JList vs \<Rightarrow> bindr (mapr surface_item vs) (\<lambda>objs.
         bindr (mapr surface_from_dict objs) (\<lambda>surfaces.
         if distinct (map surface_key surfaces) then Inr surfaces
         else Inl (ContractError ''must not contain duplicate surface_key values'')))
     | _ \<Rightarrow> Inl (ContractError ''must be a list of runtime surface objects''))"

section \<open>Workflow steps\<close>

record workflow_step =
  step_id :: string
  step_adapter :: string
  step_action :: string
  step_resource :: string
  step_request_digest :: string

definition hex_digest :: "string \<Rightarrow> bool" where
  "hex_digest d \<longleftrightarrow> length d = 64 \<and> (\<forall>c \<in> set d. c \<in> set ''0123456789abcdef'')"

fun step_item :: "json \<Rightarrow> ((string \<times> json) list) res" where
  "step_item (JObj kvs) = Inr kvs"
| "step_item v = Inl (ContractError ''workflow_steps must be a list of objects'')"

definition step_fields :: "string list" where
  "step_fields = [''step_id'', ''adapter'', ''action'', ''resource'', ''request_digest'']"

definition step_from_dict :: "(string \<times> json) list \<Rightarrow> workflow_step res" where
  "step_from_dict step =
     bindr (strict_keys step step_fields step_fields) (\<lambda>_.
     bindr (bindr (get_field ''request_digest'' step) non_empty_string) (\<lambda>digest.
     if \<not> hex_digest digest then Inl (ContractError ''request_digest must be lowercase SHA-256 hex'')
     else
     bindr (bindr (get_field ''step_id'' step) non_empty_string) (\<lambda>sid.
     bindr (bindr (get_field ''adapter'' step) non_empty_string) (\<lambda>ad.
     bindr (bindr (get_field ''action'' step) non_empty_string) (\<lambda>act.
     bindr (bindr (get_field ''resource'' step) non_empty_string) (\<lambda>rs.
       Inr \<lparr>step_id = sid, step_adapter = ad, step_action = act, step_resource = rs,
            step_request_digest = digest\<rparr>))))))"

definition step_to_dict :: "workflow_step \<Rightarrow> (string \<times> json) list" where
  "step_to_dict s =
     [(''step_id'', JStr (step_id s)), (''adapter'', JStr (step_adapter s)),
      (''action'', JStr (step_action s)), (''resource'', JStr (step_resource s)),
      (''request_digest'', JStr (step_request_digest s))]"

definition workflow_steps :: "json \<Rightarrow> workflow_step list res" where
  "workflow_steps v = (case v of
       JList vs \<Rightarrow> bindr (mapr step_item vs) (\<lambda>objs.
         bindr (mapr step_from_dict objs) (\<lambda>steps.
         if distinct (map step_id steps) then Inr steps
         else Inl (ContractError ''workflow_steps require unique step_id values'')))
     | _ \<Rightarrow> Inl (ContractError ''workflow_steps must be a list of objects''))"

section \<open>GoalSpec\<close>

record goal_spec =
  gs_goal_id :: string
  gs_target_outcome :: string
  gs_success_evidence_states :: "evidence_state list"
  gs_read_scope :: "string list"
  gs_write_scope :: "string list"
  gs_forbidden_scope :: "string list"
  gs_allowed_capabilities :: "capability list"
  gs_required_runtime_surfaces :: "surface_spec list"
  gs_evaluator_required :: bool
  gs_max_iterations_without_evidence :: int
  gs_provider_budget_minor_units :: int
  gs_provider_call_limit :: int
  gs_budget_currency :: string
  gs_non_goals :: "string list"

definition goal_fields :: "string list" where
  "goal_fields = [''goal_id'', ''target_outcome'', ''success_evidence_states'', ''read_scope'',
     ''write_scope'', ''forbidden_scope'', ''allowed_capabilities'', ''required_runtime_surfaces'',
     ''evaluator_required'', ''max_iterations_without_evidence'', ''provider_budget_minor_units'',
     ''provider_call_limit'', ''budget_currency'', ''non_goals'']"

definition currency_of :: "json \<Rightarrow> string res" where
  "currency_of v = bindr (non_empty_string v) (\<lambda>s.
     let c = map upper_char s in
     if length c = 3 \<and> list_all is_alpha c then Inr c
     else Inl (ContractError ''budget_currency must be a three-letter ASCII currency code''))"

definition goal_from_dict :: "(string \<times> json) list \<Rightarrow> goal_spec res" where
  "goal_from_dict data =
     bindr (strict_keys data [''goal_id'', ''target_outcome'', ''success_evidence_states''] goal_fields) (\<lambda>_.
     bindr (bindr (get_field ''success_evidence_states'' data) (string_list False)) (\<lambda>evidence.
     bindr (except_map value_error_to_contract (mapr (\<lambda>s. evidence_state_parse (JStr s)) evidence)) (\<lambda>states.
     bindr (except_map value_error_to_contract (capabilities_of
              (get_or ''allowed_capabilities'' (JList [JStr ''read_local'']) data))) (\<lambda>caps.
     bindr (int_from 1 None ''max_iterations_without_evidence must be a positive integer''
              (get_or ''max_iterations_without_evidence'' (JInt 3) data)) (\<lambda>iterations.
     bindr (bool_field ''evaluator_required must be a boolean''
              (get_or ''evaluator_required'' (JBool False) data)) (\<lambda>evaluator.
     bindr (ensure (distinct caps) (ContractError ''allowed_capabilities must not contain duplicates'')) (\<lambda>_.
     bindr (int_from 0 None ''provider_budget_minor_units must be a non-negative integer''
              (get_or ''provider_budget_minor_units'' (JInt 0) data)) (\<lambda>budget.
     bindr (int_from 0 None ''provider_call_limit must be a non-negative integer''
              (get_or ''provider_call_limit'' (JInt 0) data)) (\<lambda>calls.
     bindr (currency_of (get_or ''budget_currency'' (JStr ''USD'') data)) (\<lambda>currency.
     bindr (bindr (get_field ''goal_id'' data) non_empty_string) (\<lambda>gid.
     bindr (bindr (get_field ''target_outcome'' data) non_empty_string) (\<lambda>outcome.
     bindr (string_list True (get_or ''read_scope'' (JList []) data)) (\<lambda>reads.
     bindr (string_list True (get_or ''write_scope'' (JList []) data)) (\<lambda>writes.
     bindr (string_list True (get_or ''forbidden_scope'' (JList []) data)) (\<lambda>forbidden.
     bindr (runtime_surfaces (get_or ''required_runtime_surfaces'' (JList []) data)) (\<lambda>surfaces.
     bindr (string_list True (get_or ''non_goals'' (JList []) data)) (\<lambda>non_goals.
       Inr \<lparr>gs_goal_id = gid, gs_target_outcome = outcome, gs_success_evidence_states = states,
            gs_read_scope = reads, gs_write_scope = writes, gs_forbidden_scope = forbidden,
            gs_allowed_capabilities = caps, gs_required_runtime_surfaces = surfaces,
            gs_evaluator_required = evaluator, gs_max_iterations_without_evidence = iterations,
            gs_provider_budget_minor_units = budget, gs_provider_call_limit = calls,
            gs_budget_currency = currency, gs_non_goals = non_goals\<rparr>)))))))))))))))))"

definition goal_to_dict :: "goal_spec \<Rightarrow> (string \<times> json) list" where
  "goal_to_dict g =
     [(''goal_id'', JStr (gs_goal_id g)),
      (''target_outcome'', JStr (gs_target_outcome g)),
      (''success_evidence_states'', JList (map (\<lambda>e. JStr (evidence_state_value e)) (gs_success_evidence_states g))),
      (''read_scope'', JList (map JStr (gs_read_scope g))),
      (''write_scope'', JList (map JStr (gs_write_scope g))),
      (''forbidden_scope'', JList (map JStr (gs_forbidden_scope g))),
      (''allowed_capabilities'', JList (map (\<lambda>c. JStr (capability_value c)) (gs_allowed_capabilities g))),
      (''required_runtime_surfaces'', JList (map (\<lambda>s. JObj (surface_to_dict s)) (gs_required_runtime_surfaces g))),
      (''evaluator_required'', JBool (gs_evaluator_required g)),
      (''max_iterations_without_evidence'', JInt (gs_max_iterations_without_evidence g)),
      (''provider_budget_minor_units'', JInt (gs_provider_budget_minor_units g)),
      (''provider_call_limit'', JInt (gs_provider_call_limit g)),
      (''budget_currency'', JStr (gs_budget_currency g)),
      (''non_goals'', JList (map JStr (gs_non_goals g)))]"

section \<open>TaskSpec\<close>

record task_spec =
  ts_task_id :: string
  ts_goal_id :: string
  ts_objective :: string
  ts_expected_delta :: string
  ts_primary_surface :: string
  ts_evidence_target :: evidence_state
  ts_capabilities :: "capability list"
  ts_read_scope :: "string list"
  ts_write_scope :: "string list"
  ts_forbidden_scope :: "string list"
  ts_required_runtime_surfaces :: "surface_spec list"
  ts_evaluator_required :: bool
  ts_integration_required :: bool
  ts_workflow_steps :: "workflow_step list"
  ts_max_attempts :: int

definition task_required_fields :: "string list" where
  "task_required_fields = [''task_id'', ''goal_id'', ''objective'', ''expected_delta'',
     ''primary_surface'', ''evidence_target'']"

definition task_fields :: "string list" where
  "task_fields = task_required_fields @ [''capabilities'', ''read_scope'', ''write_scope'',
     ''forbidden_scope'', ''required_runtime_surfaces'', ''evaluator_required'',
     ''integration_required'', ''workflow_steps'', ''max_attempts'']"

definition task_from_dict :: "(string \<times> json) list \<Rightarrow> task_spec res" where
  "task_from_dict data =
     bindr (strict_keys data task_required_fields task_fields) (\<lambda>_.
     bindr (except_map type_value_error_to_contract
              (bindr (get_field ''evidence_target'' data) evidence_state_parse)) (\<lambda>target.
     bindr (except_map type_value_error_to_contract (capabilities_of
              (get_or ''capabilities'' (JList [JStr ''read_local'']) data))) (\<lambda>caps.
     bindr (workflow_steps (get_or ''workflow_steps'' (JList []) data)) (\<lambda>steps.
     bindr (int_from 1 None ''max_attempts must be a positive integer''
              (get_or ''max_attempts'' (JInt 3) data)) (\<lambda>attempts.
     bindr (bool_field ''evaluator_required must be a boolean''
              (get_or ''evaluator_required'' (JBool False) data)) (\<lambda>evaluator.
     bindr (ensure (distinct caps) (ContractError ''capabilities must not contain duplicates'')) (\<lambda>_.
     bindr (bool_field ''integration_required must be a boolean''
              (get_or ''integration_required'' (JBool True) data)) (\<lambda>integration.
     bindr (bindr (get_field ''task_id'' data) non_empty_string) (\<lambda>tid.
     bindr (bindr (get_field ''goal_id'' data) non_empty_string) (\<lambda>gid.
     bindr (bindr (get_field ''objective'' data) non_empty_string) (\<lambda>objective.
     bindr (bindr (get_field ''expected_delta'' data) non_empty_string) (\<lambda>delta.
     bindr (bindr (get_field ''primary_surface'' data) non_empty_string) (\<lambda>primary.
     bindr (string_list True (get_or ''read_scope'' (JList []) data)) (\<lambda>reads.
     bindr (string_list True (get_or ''write_scope'' (JList []) data)) (\<lambda>writes.
     bindr (string_list True (get_or ''forbidden_scope'' (JList []) data)) (\<lambda>forbidden.
     bindr (runtime_surfaces (get_or ''required_runtime_surfaces'' (JList []) data)) (\<lambda>surfaces.
       Inr \<lparr>ts_task_id = tid, ts_goal_id = gid, ts_objective = objective, ts_expected_delta = delta,
            ts_primary_surface = primary, ts_evidence_target = target, ts_capabilities = caps,
            ts_read_scope = reads, ts_write_scope = writes, ts_forbidden_scope = forbidden,
            ts_required_runtime_surfaces = surfaces, ts_evaluator_required = evaluator,
            ts_integration_required = integration, ts_workflow_steps = steps,
            ts_max_attempts = attempts\<rparr>)))))))))))))))))"

definition task_to_dict :: "task_spec \<Rightarrow> (string \<times> json) list" where
  "task_to_dict t =
     [(''task_id'', JStr (ts_task_id t)),
      (''goal_id'', JStr (ts_goal_id t)),
      (''objective'', JStr (ts_objective t)),
      (''expected_delta'', JStr (ts_expected_delta t)),
      (''primary_surface'', JStr (ts_primary_surface t)),
      (''evidence_target'', JStr (evidence_state_value (ts_evidence_target t))),
      (''capabilities'', JList (map (\<lambda>c. JStr (capability_value c)) (ts_capabilities t))),
      (''read_scope'', JList (map JStr (ts_read_scope t))),
      (''write_scope'', JList (map JStr (ts_write_scope t))),
      (''forbidden_scope'', JList (map JStr (ts_forbidden_scope t))),
      (''required_runtime_surfaces'', JList (map (\<lambda>s. JObj (surface_to_dict s)) (ts_required_runtime_surfaces t))),
      (''evaluator_required'', JBool (ts_evaluator_required t)),
      (''integration_required'', JBool (ts_integration_required t)),
      (''workflow_steps'', JList (map (\<lambda>s. JObj (step_to_dict s)) (ts_workflow_steps t))),
      (''max_attempts'', JInt (ts_max_attempts t))]"

text \<open>\<open>TaskSpec.from_dict(json.loads(row["spec_json"]))\<close> and its \<open>GoalSpec\<close> counterpart: the
  stored column is the canonical document.\<close>

definition load_task_spec :: "json \<Rightarrow> task_spec res" where
  "load_task_spec v = (case v of JObj d \<Rightarrow> task_from_dict d | _ \<Rightarrow> Inl (PyTypeError ''not a mapping''))"

definition load_goal_spec :: "json \<Rightarrow> goal_spec res" where
  "load_goal_spec v = (case v of JObj d \<Rightarrow> goal_from_dict d | _ \<Rightarrow> Inl (PyTypeError ''not a mapping''))"

section \<open>Well-formed contracts\<close>

definition clean :: "string \<Rightarrow> bool" where
  "clean s \<longleftrightarrow> non_blank s \<and> strip s = s"

definition clean_list :: "string list \<Rightarrow> bool" where
  "clean_list xs \<longleftrightarrow> list_all clean xs \<and> distinct xs"

definition wf_surface :: "surface_spec \<Rightarrow> bool" where
  "wf_surface s \<longleftrightarrow> clean (surface_key s) \<and> clean (target_identity s) \<and>
     clean_list (allowed_probes s) \<and> allowed_probes s \<noteq> [] \<and>
     1 \<le> max_ttl_seconds s \<and> max_ttl_seconds s \<le> 86400"

definition wf_surfaces :: "surface_spec list \<Rightarrow> bool" where
  "wf_surfaces ss \<longleftrightarrow> list_all wf_surface ss \<and> distinct (map surface_key ss)"

definition wf_step :: "workflow_step \<Rightarrow> bool" where
  "wf_step s \<longleftrightarrow> clean (step_id s) \<and> clean (step_adapter s) \<and> clean (step_action s) \<and>
     clean (step_resource s) \<and> clean (step_request_digest s) \<and> hex_digest (step_request_digest s)"

definition wf_steps :: "workflow_step list \<Rightarrow> bool" where
  "wf_steps ss \<longleftrightarrow> list_all wf_step ss \<and> distinct (map step_id ss)"

definition wf_goal :: "goal_spec \<Rightarrow> bool" where
  "wf_goal g \<longleftrightarrow> clean (gs_goal_id g) \<and> clean (gs_target_outcome g) \<and>
     gs_success_evidence_states g \<noteq> [] \<and> distinct (gs_success_evidence_states g) \<and>
     clean_list (gs_read_scope g) \<and> clean_list (gs_write_scope g) \<and> clean_list (gs_forbidden_scope g) \<and>
     distinct (gs_allowed_capabilities g) \<and> wf_surfaces (gs_required_runtime_surfaces g) \<and>
     1 \<le> gs_max_iterations_without_evidence g \<and> 0 \<le> gs_provider_budget_minor_units g \<and>
     0 \<le> gs_provider_call_limit g \<and> currency_of (JStr (gs_budget_currency g)) = Inr (gs_budget_currency g) \<and>
     clean_list (gs_non_goals g)"

definition wf_task :: "task_spec \<Rightarrow> bool" where
  "wf_task t \<longleftrightarrow> clean (ts_task_id t) \<and> clean (ts_goal_id t) \<and> clean (ts_objective t) \<and>
     clean (ts_expected_delta t) \<and> clean (ts_primary_surface t) \<and> distinct (ts_capabilities t) \<and>
     clean_list (ts_read_scope t) \<and> clean_list (ts_write_scope t) \<and> clean_list (ts_forbidden_scope t) \<and>
     wf_surfaces (ts_required_runtime_surfaces t) \<and> wf_steps (ts_workflow_steps t) \<and> 1 \<le> ts_max_attempts t"

lemma non_empty_string_Inr: "non_empty_string v = Inr s \<Longrightarrow> clean s"
  by (auto simp: non_empty_string_def clean_def split: json.splits)

lemma non_empty_string_clean [simp]: "clean s \<Longrightarrow> non_empty_string (JStr s) = Inr s"
  by (simp add: non_empty_string_def clean_def)

lemma plain_string_Inr: "plain_string v = Inr s \<longleftrightarrow> v = JStr s \<and> non_blank s"
  by (cases v) auto

lemma string_list_Inr: "string_list ae v = Inr xs \<Longrightarrow> clean_list xs \<and> (ae \<or> xs \<noteq> [])"
  by (auto simp: string_list_def clean_list_def clean_def list_all_iff result_simps plain_string_Inr
      list_all2_conv_all_nth in_set_conv_nth split: json.splits if_splits)

lemma string_list_clean [simp]:
  assumes "clean_list xs" "ae \<or> xs \<noteq> []"
  shows "string_list ae (JList (map JStr xs)) = Inr xs"
proof -
  have "mapr plain_string (map JStr xs) = Inr (map id xs)"
    by (rule mapr_map_Inr) (use assms(1) in \<open>auto simp: clean_list_def list_all_iff clean_def\<close>)
  moreover have "map strip xs = xs"
    using assms(1) by (auto simp: clean_list_def list_all_iff clean_def intro: map_idI)
  ultimately show ?thesis using assms by (simp add: string_list_def clean_list_def)
qed

lemma string_list_True [simp]: "clean_list xs \<Longrightarrow> string_list True (JList (map JStr xs)) = Inr xs"
  by simp

lemma int_from_Inr: "int_from lo hi m v = Inr i \<longleftrightarrow> v = JInt i \<and> lo \<le> i \<and> (case hi of None \<Rightarrow> True | Some h \<Rightarrow> i \<le> h)"
  by (cases v) (auto simp: int_from_def)

lemma bool_field_Inr [simp]: "bool_field m v = Inr b \<longleftrightarrow> v = JBool b"
  by (cases v) (auto simp: bool_field_def)

lemma bool_field_JBool [simp]: "bool_field m (JBool b) = Inr b"
  by simp

lemma surface_from_dict_wf: "surface_from_dict d = Inr s \<Longrightarrow> wf_surface s"
  by (auto simp: surface_from_dict_def wf_surface_def result_simps int_from_Inr
      dest!: non_empty_string_Inr string_list_Inr)

lemma surface_roundtrip [simp]: "wf_surface s \<Longrightarrow> surface_from_dict (surface_to_dict s) = Inr s"
  by (simp add: surface_from_dict_def surface_to_dict_def wf_surface_def strict_keys_def keys_def
      get_or_def get_field_def int_from_def)

lemma runtime_surfaces_wf: "runtime_surfaces v = Inr ss \<Longrightarrow> wf_surfaces ss"
  by (auto simp: runtime_surfaces_def wf_surfaces_def result_simps list_all2_conv_all_nth
      list_all_length dest: surface_from_dict_wf split: json.splits if_splits)

lemma runtime_surfaces_roundtrip [simp]:
  assumes "wf_surfaces ss"
  shows "runtime_surfaces (JList (map (\<lambda>s. JObj (surface_to_dict s)) ss)) = Inr ss"
proof -
  have "mapr surface_item (map (\<lambda>s. JObj (surface_to_dict s)) ss) = Inr (map surface_to_dict ss)"
    by (rule mapr_map_Inr) simp
  moreover have "mapr surface_from_dict (map surface_to_dict ss) = Inr (map id ss)"
    by (rule mapr_map_Inr) (use assms in \<open>auto simp: wf_surfaces_def list_all_iff\<close>)
  ultimately show ?thesis using assms by (simp add: runtime_surfaces_def wf_surfaces_def)
qed

lemma step_from_dict_wf: "step_from_dict d = Inr s \<Longrightarrow> wf_step s"
  by (auto simp: step_from_dict_def wf_step_def result_simps split: if_splits dest!: non_empty_string_Inr)

lemma step_roundtrip [simp]: "wf_step s \<Longrightarrow> step_from_dict (step_to_dict s) = Inr s"
  by (simp add: step_from_dict_def step_to_dict_def wf_step_def strict_keys_def keys_def
      get_field_def step_fields_def)

lemma workflow_steps_wf: "workflow_steps v = Inr ss \<Longrightarrow> wf_steps ss"
  by (auto simp: workflow_steps_def wf_steps_def result_simps list_all2_conv_all_nth
      list_all_length dest: step_from_dict_wf split: json.splits if_splits)

lemma workflow_steps_roundtrip [simp]:
  assumes "wf_steps ss"
  shows "workflow_steps (JList (map (\<lambda>s. JObj (step_to_dict s)) ss)) = Inr ss"
proof -
  have "mapr step_item (map (\<lambda>s. JObj (step_to_dict s)) ss) = Inr (map step_to_dict ss)"
    by (rule mapr_map_Inr) simp
  moreover have "mapr step_from_dict (map step_to_dict ss) = Inr (map id ss)"
    by (rule mapr_map_Inr) (use assms in \<open>auto simp: wf_steps_def list_all_iff\<close>)
  ultimately show ?thesis using assms by (simp add: workflow_steps_def wf_steps_def)
qed

lemma except_map_eq_Inr [result_simps]: "except_map h m = Inr a \<longleftrightarrow> m = Inr a"
  by (cases m) (auto simp: except_map_def)

lemma except_map_Inr [simp]: "except_map h (Inr a) = Inr a"
  by (simp add: except_map_def)

lemma capabilities_of_values [simp]: "capabilities_of (JList (map (\<lambda>c. JStr (capability_value c)) cs)) = Inr cs"
proof -
  have "mapr capability_of (map (\<lambda>c. JStr (capability_value c)) cs) = Inr (map id cs)"
    by (rule mapr_map_Inr) simp
  then show ?thesis by (simp add: capabilities_of_def iter_json_def)
qed

lemma evidence_values:
  "mapr (\<lambda>s. evidence_state_parse (JStr s)) ss = Inr es \<longleftrightarrow> ss = map evidence_state_value es"
  by (induction ss arbitrary: es)
     (auto simp: result_simps evidence_state_parse_Inr Cons_eq_map_conv)

lemma clean_evidence_values: "distinct es \<Longrightarrow> clean_list (map evidence_state_value es)"
proof -
  assume "distinct es"
  moreover have "clean (evidence_state_value e)" for e
    by (cases e) (simp_all add: clean_def non_blank_def strip_def lstrip_def is_space_def)
  ultimately show ?thesis by (simp add: clean_list_def list_all_iff distinct_map inj_on_def)
qed

lemma upper_char_idem [simp]: "upper_char (upper_char c) = upper_char c"
proof -
  have "(of_char c :: nat) < 256" by simp
  then show ?thesis by (auto simp: upper_char_def Let_def of_char_of)
qed

lemma alpha_not_space: "is_alpha c \<Longrightarrow> \<not> is_space c"
  by (auto simp: is_alpha_def is_space_def Let_def)

lemma strip_no_space: "\<forall>c \<in> set s. \<not> is_space c \<Longrightarrow> strip s = s"
proof -
  assume *: "\<forall>c \<in> set s. \<not> is_space c"
  have "dropWhile is_space t = t" if "\<forall>c \<in> set t. \<not> is_space c" for t
    using that by (cases t) auto
  from this [of s] this [of "rev s"] * have "dropWhile is_space s = s" "dropWhile is_space (rev s) = rev s"
    by simp_all
  then show ?thesis by (simp add: strip_def lstrip_def)
qed

lemma currency_of_fixed:
  assumes "currency_of v = Inr c"
  shows "currency_of (JStr c) = Inr c"
proof -
  from assms obtain s where c: "c = map upper_char s" "length c = 3" "list_all is_alpha c"
    by (auto simp: currency_of_def result_simps Let_def split: if_splits)
  then have "strip c = c" by (intro strip_no_space) (auto simp: list_all_iff alpha_not_space)
  moreover from c have "c \<noteq> []" by auto
  ultimately have "non_empty_string (JStr c) = Inr c"
    by (intro non_empty_string_clean) (simp add: clean_def non_blank_def)
  moreover have "map upper_char c = c" using c(1) by simp
  ultimately show ?thesis using c(2, 3) by (simp add: currency_of_def)
qed

lemma evidence_values_all2:
  "list_all2 (\<lambda>s e. evidence_state_parse (JStr s) = Inr e) ss es \<Longrightarrow> ss = map evidence_state_value es"
  by (induction rule: list_all2_induct) (simp_all add: evidence_state_parse_Inr)

lemma goal_from_dict_wf: "goal_from_dict d = Inr g \<Longrightarrow> wf_goal g"
  unfolding goal_from_dict_def wf_goal_def
  by (clarsimp simp: result_simps int_from_Inr,
      (drule non_empty_string_Inr string_list_Inr runtime_surfaces_wf evidence_values_all2)+,
      simp add: clean_list_def distinct_map, erule currency_of_fixed)

lemma goal_dict_get:
  "get_field ''success_evidence_states'' (goal_to_dict g) = Inr (JList (map (\<lambda>e. JStr (evidence_state_value e)) (gs_success_evidence_states g)))"
  "get_field ''goal_id'' (goal_to_dict g) = Inr (JStr (gs_goal_id g))"
  "get_field ''target_outcome'' (goal_to_dict g) = Inr (JStr (gs_target_outcome g))"
  "get_or ''read_scope'' d (goal_to_dict g) = JList (map JStr (gs_read_scope g))"
  "get_or ''write_scope'' d (goal_to_dict g) = JList (map JStr (gs_write_scope g))"
  "get_or ''forbidden_scope'' d (goal_to_dict g) = JList (map JStr (gs_forbidden_scope g))"
  "get_or ''allowed_capabilities'' d (goal_to_dict g) = JList (map (\<lambda>c. JStr (capability_value c)) (gs_allowed_capabilities g))"
  "get_or ''required_runtime_surfaces'' d (goal_to_dict g) = JList (map (\<lambda>s. JObj (surface_to_dict s)) (gs_required_runtime_surfaces g))"
  "get_or ''evaluator_required'' d (goal_to_dict g) = JBool (gs_evaluator_required g)"
  "get_or ''max_iterations_without_evidence'' d (goal_to_dict g) = JInt (gs_max_iterations_without_evidence g)"
  "get_or ''provider_budget_minor_units'' d (goal_to_dict g) = JInt (gs_provider_budget_minor_units g)"
  "get_or ''provider_call_limit'' d (goal_to_dict g) = JInt (gs_provider_call_limit g)"
  "get_or ''budget_currency'' d (goal_to_dict g) = JStr (gs_budget_currency g)"
  "get_or ''non_goals'' d (goal_to_dict g) = JList (map JStr (gs_non_goals g))"
  by (simp_all add: goal_to_dict_def get_field_def get_or_def)

lemma goal_roundtrip:
  assumes "wf_goal g"
  shows "goal_from_dict (goal_to_dict g) = Inr g"
proof -
  let ?es = "map evidence_state_value (gs_success_evidence_states g)"
  have ev: "string_list False (JList (map (\<lambda>e. JStr (evidence_state_value e)) (gs_success_evidence_states g))) = Inr ?es"
    using string_list_clean [of ?es False] clean_evidence_values assms by (simp add: wf_goal_def comp_def)
  have st: "mapr (\<lambda>s. evidence_state_parse (JStr s)) ?es = Inr (gs_success_evidence_states g)"
    by (simp add: evidence_values)
  have keys: "strict_keys (goal_to_dict g) [''goal_id'', ''target_outcome'', ''success_evidence_states''] goal_fields = Inr ()"
    by (simp add: strict_keys_def keys_def goal_to_dict_def goal_fields_def)
  show ?thesis
    unfolding goal_from_dict_def keys
    using assms unfolding wf_goal_def
    by (simp add: goal_dict_get int_from_def ev st)
qed

lemma task_from_dict_wf: "task_from_dict d = Inr t \<Longrightarrow> wf_task t"
  unfolding task_from_dict_def wf_task_def
  by (clarsimp simp: result_simps int_from_Inr,
      (drule non_empty_string_Inr string_list_Inr runtime_surfaces_wf workflow_steps_wf)+, simp)

lemma task_roundtrip: "wf_task t \<Longrightarrow> task_from_dict (task_to_dict t) = Inr t"
  by (simp add: task_from_dict_def task_to_dict_def wf_task_def strict_keys_def keys_def task_fields_def
      task_required_fields_def get_or_def get_field_def int_from_def)

lemmas contract_simps = strict_keys_def keys_def get_or_def get_field_def int_from_def

text \<open>C24.  A contract that \<open>GoalSpec.from_dict\<close> or \<open>TaskSpec.from_dict\<close> accepts is well
  formed (stripped non-empty texts, no duplicates, positive bounds, unique surface and step keys),
  and the document its \<open>to_dict\<close> writes is accepted again with the same result.\<close>

theorem contract_roundtrip:
  "(goal_from_dict d = Inr g \<longrightarrow> wf_goal g \<and> goal_from_dict (goal_to_dict g) = Inr g) \<and>
   (task_from_dict d = Inr t \<longrightarrow> wf_task t \<and> task_from_dict (task_to_dict t) = Inr t)"
  using goal_from_dict_wf goal_roundtrip task_from_dict_wf task_roundtrip by blast

definition sample_goal_dict :: "(string \<times> json) list" where
  "sample_goal_dict = [(''goal_id'', JStr '' g1 ''), (''target_outcome'', JStr ''ship''),
     (''success_evidence_states'', JList [JStr ''structure_verification'']),
     (''budget_currency'', JStr ''eur''),
     (''required_runtime_surfaces'', JList [JObj [(''surface_key'', JStr ''api''),
        (''target_identity'', JStr ''https://x''), (''allowed_probes'', JList [JStr ''http''])]])]"

lemma contract_roundtrip_witness:
  "\<exists>g. goal_from_dict sample_goal_dict = Inr g \<and> gs_goal_id g = ''g1'' \<and> gs_budget_currency g = ''EUR'' \<and>
       goal_from_dict (goal_to_dict g) = Inr g"
proof -
  obtain g where g: "goal_from_dict sample_goal_dict = Inr g" "gs_goal_id g = ''g1''" "gs_budget_currency g = ''EUR''"
  proof -
    have "(case goal_from_dict sample_goal_dict of Inr g \<Rightarrow> gs_goal_id g = ''g1'' \<and> gs_budget_currency g = ''EUR'' | Inl _ \<Rightarrow> False)"
      by code_simp
    then show ?thesis using that by (auto split: sum.splits)
  qed
  with contract_roundtrip show ?thesis by blast
qed

text \<open>Capabilities are read with a plain iteration, so an object, a string or an empty object is
  taken where the other list fields insist on a list.\<close>

lemma capabilities_accept_object:
  "capabilities_of (JObj [(''read_local'', JNull)]) = Inr [READ_LOCAL] \<and> capabilities_of (JStr []) = Inr []"
  by code_simp

end
