(* ===== verification/Scope.thy ===== *)
theory Scope
  imports Specs
begin

text \<open>
  \<open>scope.py\<close>: normalisation of scope expressions and containment of a Task contract in its Goal
  contract.  \<open>urllib.parse.unquote\<close> and \<open>posixpath.normpath\<close> are written out, on the UTF-8
  encoding of the text.  The lemmas give the meaning of the prefix test of \<open>scope_covers\<close> on path
  segments, its transitivity, and what a Task that passes \<open>validate_task_within_goal\<close> may touch.
\<close>

section \<open>Normalisation\<close>

definition hex_value :: "char \<Rightarrow> nat option" where
  "hex_value c = (let n = of_char c :: nat in
     if 48 \<le> n \<and> n \<le> 57 then Some (n - 48)
     else if 65 \<le> n \<and> n \<le> 70 then Some (n - 55)
     else if 97 \<le> n \<and> n \<le> 102 then Some (n - 87)
     else None)"

fun unquote :: "string \<Rightarrow> string" where
  "unquote (c # a # b # r) =
     (if c = CHR ''%'' then
        (case (hex_value a, hex_value b) of
           (Some x, Some y) \<Rightarrow> char_of (16 * x + y) # unquote r
         | _ \<Rightarrow> c # unquote (a # b # r))
      else c # unquote (a # b # r))"
| "unquote s = s"

definition fix_slashes :: "string \<Rightarrow> string" where
  "fix_slashes s = map (\<lambda>c. if c = CHR 0x5C then CHR ''/'' else c) s"

text \<open>The decoding loop of at most twenty rounds; \<open>None\<close> is its \<open>else\<close> branch.\<close>

fun decode_loop :: "nat \<Rightarrow> string \<Rightarrow> string option" where
  "decode_loop 0 raw = None"
| "decode_loop (Suc n) raw =
     (let decoded = fix_slashes (unquote raw) in if decoded = raw then Some raw else decode_loop n decoded)"

fun push_comp :: "bool \<Rightarrow> string \<Rightarrow> string list \<Rightarrow> string list" where
  "push_comp absolute part acc =
     (if part = [] \<or> part = ''.'' then acc
      else if part \<noteq> ''..'' \<or> (\<not> absolute \<and> acc = []) \<or> (acc \<noteq> [] \<and> hd acc = ''..'') then part # acc
      else if acc \<noteq> [] then tl acc else acc)"

definition normpath :: "string \<Rightarrow> string" where
  "normpath path =
     (if path = [] then ''.''
      else
        let slashes = (if \<not> startswith path ''/'' then 0
                       else if startswith path ''//'' \<and> \<not> startswith path ''///'' then 2 else 1 :: nat);
            comps = rev (fold (push_comp (0 < slashes)) (split_on (CHR ''/'') path) []);
            result = replicate slashes (CHR ''/'') @ join_with ''/'' comps
        in if result = [] then ''.'' else result)"

definition is_drive :: "string \<Rightarrow> bool" where
  "is_drive s = (case s of c # d # e # _ \<Rightarrow> is_alpha c \<and> d = CHR '':'' \<and> e = CHR ''/'' | _ \<Rightarrow> False)"

fun split_scheme :: "string \<Rightarrow> (string \<times> string) option" where
  "split_scheme [] = None"
| "split_scheme (c # s) =
     (if startswith (c # s) ''://'' then Some ([], drop 3 (c # s))
      else map_option (\<lambda>(a, b). (c # a, b)) (split_scheme s))"

definition unsafe_body :: "string \<Rightarrow> bool" where
  "unsafe_body body \<longleftrightarrow> CHR 0x00 \<in> set body \<or> CHR ''*'' \<in> set body \<or> CHR ''?'' \<in> set body \<or>
     CHR ''#'' \<in> set body \<or> ''..'' \<in> set (split_on (CHR ''/'') body)"

definition drop_suffix :: "nat \<Rightarrow> string \<Rightarrow> string" where
  "drop_suffix n s = take (length s - n) s"

definition normalize_body :: "string \<Rightarrow> string res" where
  "normalize_body body = (case split_scheme body of
       Some (scheme, rest) \<Rightarrow>
         if scheme = [] \<or> rest = [] then Inl (ContractError ''invalid scope URI'')
         else Inr (lower scheme @ ''://'' @ lstrip_char (CHR ''/'') (normpath (CHR ''/'' # rest)))
     | None \<Rightarrow>
         let n = normpath body in
         Inr (if is_drive n then lower_char (hd n) # tl n else n))"

definition normalize_scope :: "string \<Rightarrow> string res" where
  "normalize_scope value =
     (if \<not> non_blank value then Inl (ContractError ''scope must be a non-empty string'')
      else bindr (require (decode_loop 20 (fix_slashes (strip value)))
                    (ContractError ''scope has excessive nested encoding'')) (\<lambda>raw.
      let recursive = endswith raw ''/**'';
          body = (if recursive then drop_suffix 3 raw else raw) in
      if unsafe_body body then Inl (ContractError ''unsafe or unsupported scope'')
      else bindr (normalize_body body) (\<lambda>normalized.
        let stripped = rstrip_char (CHR ''/'') normalized;
            result = (if stripped = [] then ''/'' else stripped)
        in Inr (result @ (if recursive then ''/**'' else [])))))"

section \<open>Coverage\<close>

definition scope_body :: "string \<Rightarrow> string" where
  "scope_body s = (if endswith s ''/**'' then rstrip_char (CHR ''/'') (drop_suffix 3 s) else s)"

definition covers_body :: "string \<Rightarrow> string \<Rightarrow> bool" where
  "covers_body parent child =
     (let fold = is_drive parent \<and> is_drive child;
          p = (if fold then lower parent else parent);
          c = (if fold then lower child else child) in
      if p = c then True
      else if p = ''/'' then startswith c ''/''
      else startswith c (p @ ''/''))"

definition scope_covers :: "string \<Rightarrow> string \<Rightarrow> bool res" where
  "scope_covers allowed candidate =
     bindr (normalize_scope allowed) (\<lambda>parent.
     bindr (normalize_scope candidate) (\<lambda>child.
       Inr (covers_body (scope_body parent) (scope_body child))))"

text \<open>\<open>any(...)\<close> over scopes stops at the first scope that covers.\<close>

fun scope_allowed :: "string list \<Rightarrow> string \<Rightarrow> bool res" where
  "scope_allowed [] candidate = Inr False"
| "scope_allowed (p # ps) candidate =
     bindr (scope_covers p candidate) (\<lambda>b. if b then Inr True else scope_allowed ps candidate)"

definition scopes_overlap :: "string \<Rightarrow> string \<Rightarrow> bool res" where
  "scopes_overlap left right =
     bindr (scope_covers left right) (\<lambda>b. if b then Inr True else scope_covers right left)"

definition reject_forbidden :: "string list \<Rightarrow> string list \<Rightarrow> unit res" where
  "reject_forbidden scopes forbidden =
     bindr (mapr (\<lambda>(s, d). scopes_overlap s d) (List.product scopes forbidden)) (\<lambda>conflicts.
       ensure (\<not> (\<exists>c \<in> set conflicts. c)) (ContractError ''intersects forbidden scope''))"

definition validate_goal_scope :: "goal_spec \<Rightarrow> unit res" where
  "validate_goal_scope spec =
     (if PROVIDER_COST \<in> set (gs_allowed_capabilities spec) \<and>
         (gs_provider_call_limit spec < 1 \<or> gs_provider_budget_minor_units spec < 0)
      then Inl (ContractError ''provider_cost authority requires explicit provider_call_limit and minor-unit budget'')
      else
      bindr (mapr normalize_scope (gs_read_scope spec @ gs_write_scope spec @ gs_forbidden_scope spec)) (\<lambda>_.
      bindr (reject_forbidden (gs_read_scope spec) (gs_forbidden_scope spec)) (\<lambda>_.
        reject_forbidden (gs_write_scope spec) (gs_forbidden_scope spec))))"

definition validate_task_within_goal :: "goal_spec \<Rightarrow> task_spec \<Rightarrow> unit res" where
  "validate_task_within_goal goal task =
     bindr (validate_goal_scope goal) (\<lambda>_.
     if ts_goal_id task \<noteq> gs_goal_id goal
     then Inl (ContractError ''task goal_id does not match containing goal'')
     else
     bindr (mapr normalize_scope (ts_read_scope task @ ts_write_scope task @ ts_forbidden_scope task)) (\<lambda>_.
     if \<not> set (ts_capabilities task) \<subseteq> set (gs_allowed_capabilities goal)
     then Inl (ContractError ''task capabilities exceed goal authority'')
     else
     bindr (mapr (scope_allowed (gs_read_scope goal)) (ts_read_scope task)) (\<lambda>reads.
     bindr (mapr (scope_allowed (gs_write_scope goal)) (ts_write_scope task)) (\<lambda>writes.
     if \<not> (\<forall>b \<in> set reads. b) then Inl (ContractError ''task read_scope exceeds goal authority'')
     else if \<not> (\<forall>b \<in> set writes. b) then Inl (ContractError ''task write_scope exceeds goal authority'')
     else
     bindr (reject_forbidden (ts_read_scope task) (gs_forbidden_scope goal @ ts_forbidden_scope task)) (\<lambda>_.
     bindr (reject_forbidden (ts_write_scope task) (gs_forbidden_scope goal @ ts_forbidden_scope task)) (\<lambda>_.
     let goal_surfaces = map_of (rev (map (\<lambda>s. (surface_key s, s)) (gs_required_runtime_surfaces goal))) in
     ensure (\<forall>s \<in> set (ts_required_runtime_surfaces task). goal_surfaces (surface_key s) = Some s)
       (ContractError ''task runtime surfaces exceed goal contract'')))))))"

section \<open>Coverage is containment of path segments\<close>

definition seg_le :: "string \<Rightarrow> string \<Rightarrow> bool" where
  "seg_le p c \<longleftrightarrow> p = c \<or> prefix (p @ ''/'') c \<or> (p = ''/'' \<and> prefix ''/'' c)"

lemma covers_body_seg:
  "covers_body p c =
     (if is_drive p \<and> is_drive c then seg_le (lower p) (lower c) else seg_le p c)"
proof -
  have *: "(if x = y then True else if x = ''/'' then prefix ''/'' y else prefix (x @ ''/'') y) = seg_le x y"
    for x y :: string
  proof (cases "x = ''/''")
    case True
    then have "prefix (x @ ''/'') y \<Longrightarrow> prefix ''/'' y"
      by (metis append_prefixD)
    with True show ?thesis by (auto simp: seg_le_def)
  qed (auto simp: seg_le_def)
  show ?thesis by (simp add: covers_body_def Let_def * del: if_True)
qed

lemma split_on_append_sep: "split_on c (xs @ c # ys) = split_on c xs @ split_on c ys"
proof (induction xs)
  case Nil
  show ?case by simp
next
  case (Cons x xs)
  obtain w ws where "split_on c xs = w # ws" by (cases "split_on c xs") auto
  with Cons show ?case by simp
qed

lemma join_append:
  "us \<noteq> [] \<Longrightarrow> vs \<noteq> [] \<Longrightarrow> join_with s (us @ vs) = join_with s us @ s @ join_with s vs"
proof (induction us)
  case (Cons u us)
  then show ?case by (cases us; cases vs) auto
qed simp

text \<open>Apart from the root, a path covers another exactly when its list of segments is a prefix
  of the other's.\<close>

lemma seg_le_segments:
  assumes "p \<noteq> ''/''"
  shows "seg_le p c \<longleftrightarrow> prefix (split_on (CHR ''/'') p) (split_on (CHR ''/'') c)"
proof
  assume "seg_le p c"
  with assms show "prefix (split_on (CHR ''/'') p) (split_on (CHR ''/'') c)"
    by (auto simp: seg_le_def prefix_def split_on_append_sep)
next
  assume "prefix (split_on (CHR ''/'') p) (split_on (CHR ''/'') c)"
  then obtain ws where ws: "split_on (CHR ''/'') c = split_on (CHR ''/'') p @ ws"
    by (auto simp: prefix_def)
  have c: "c = join_with ''/'' (split_on (CHR ''/'') p @ ws)"
    using ws join_split [of "CHR ''/''" c] by simp
  show "seg_le p c"
  proof (cases ws)
    case Nil
    with c show ?thesis by (simp add: seg_le_def)
  next
    case (Cons w ws')
    with c have "c = p @ ''/'' @ join_with ''/'' ws" by (simp add: join_append)
    then show ?thesis by (simp add: seg_le_def)
  qed
qed

lemma seg_le_refl [simp]: "seg_le p p"
  by (simp add: seg_le_def)

lemma seg_le_trans: "seg_le a b \<Longrightarrow> seg_le b c \<Longrightarrow> seg_le a c"
  unfolding seg_le_def
  by (elim disjE conjE) (auto simp: prefix_def append_eq_Cons_conv Cons_eq_append_conv)

lemma seg_le_comparable:
  assumes "seg_le a c" "seg_le b c"
  shows "seg_le a b \<or> seg_le b a"
proof -
  have sep: "seg_le x y \<or> seg_le y x" if "prefix (x @ ''/'') c" "prefix (y @ ''/'') c" for x y
  proof -
    from that have "prefix (x @ ''/'') (y @ ''/'') \<or> prefix (y @ ''/'') (x @ ''/'')"
      by (rule prefix_same_cases)
    then show ?thesis by (auto simp: seg_le_def)
  qed
  have root: "seg_le ''/'' y \<or> seg_le y ''/''" if "prefix ''/'' c" "prefix (y @ ''/'') c" for y
    using that by (cases y) (auto simp: seg_le_def prefix_def)
  from assms sep root show ?thesis
    unfolding seg_le_def [of a c] seg_le_def [of b c] by (metis assms seg_le_refl)
qed

lemma is_drive_iff: "is_drive s \<longleftrightarrow> (\<exists>c r. s = c # CHR '':'' # CHR ''/'' # r \<and> is_alpha c)"
  by (auto simp: is_drive_def split: list.splits)

lemma lower_char_alpha [simp]: "is_alpha (lower_char c) = is_alpha c"
proof -
  have "(of_char c :: nat) < 256" by simp
  then show ?thesis by (auto simp: is_alpha_def lower_char_def Let_def of_char_of)
qed

lemma lower_char_slash [simp]: "lower_char (CHR ''/'') = CHR ''/''" "lower_char (CHR '':'') = CHR '':''"
  by (simp_all add: lower_char_def)

lemma lower_simps [simp]: "lower [] = []" "lower (c # s) = lower_char c # lower s" "lower (s @ t) = lower s @ lower t"
  by (simp_all add: lower_def)

lemma is_drive_lower: "is_drive s \<Longrightarrow> is_drive (lower s)"
  by (auto simp: is_drive_iff)

lemma is_drive_seg_le: "is_drive a \<Longrightarrow> seg_le a b \<Longrightarrow> is_drive b"
  by (auto simp: is_drive_iff seg_le_def prefix_def)

lemma seg_le_drive:
  assumes "seg_le a b" "is_drive b" "\<not> is_drive a"
  shows "a = [hd b, CHR '':'']"
proof -
  obtain c r where b: "b = c # CHR '':'' # CHR ''/'' # r" "is_alpha c"
    using assms(2) by (auto simp: is_drive_iff)
  then have "c \<noteq> CHR ''/''" by (auto simp: is_alpha_def)
  moreover from assms b have "a \<noteq> b" by auto
  ultimately have "prefix (a @ ''/'') b" using assms(1) b by (auto simp: seg_le_def)
  then show ?thesis using b \<open>c \<noteq> CHR ''/''\<close> assms(3)
    by (cases a; cases "tl a"; cases "tl (tl a)") (auto simp: is_drive_iff)
qed

text \<open>Normalised drive paths start with a lower-case letter.\<close>

definition canon_drive :: "string \<Rightarrow> bool" where
  "canon_drive s \<longleftrightarrow> (is_drive s \<longrightarrow> lower_char (hd s) = hd s)"

lemma drive_heads:
  assumes "is_drive a" "is_drive b" "seg_le (lower a) (lower b)" "canon_drive a" "canon_drive b"
  shows "hd a = hd b"
proof -
  obtain c r d s where "a = c # CHR '':'' # CHR ''/'' # r" "b = d # CHR '':'' # CHR ''/'' # s"
    using assms(1, 2) by (auto simp: is_drive_iff)
  with assms show ?thesis by (auto simp: seg_le_def canon_drive_def)
qed

lemma covers_body_refl [simp]: "covers_body p p"
  by (simp add: covers_body_seg)

lemma covers_body_trans:
  assumes "covers_body a b" "covers_body b c" "canon_drive b" "canon_drive c"
  shows "covers_body a c"
proof (cases "is_drive b")
  case b: True
  have c: "is_drive c"
    using assms(2) b is_drive_seg_le by (auto simp: covers_body_seg split: if_splits)
  show ?thesis
  proof (cases "is_drive a")
    case True
    with assms b c show ?thesis by (auto simp: covers_body_seg intro: seg_le_trans)
  next
    case False
    with assms(1) b have "a = [hd b, CHR '':'']"
      by (auto simp: covers_body_seg intro: seg_le_drive)
    moreover have "hd b = hd c"
      using assms(2-4) b c by (intro drive_heads) (auto simp: covers_body_seg)
    ultimately show ?thesis using c False
      by (auto simp: covers_body_seg is_drive_iff seg_le_def)
  qed
next
  case b: False
  with assms(1) have a: "\<not> is_drive a"
    using is_drive_seg_le by (auto simp: covers_body_seg split: if_splits)
  with assms b show ?thesis
    by (auto simp: covers_body_seg intro: seg_le_trans split: if_splits)
qed

lemma covers_body_comparable:
  assumes "covers_body a r" "covers_body b r" "canon_drive a" "canon_drive b" "canon_drive r"
  shows "covers_body a b \<or> covers_body b a"
proof (cases "is_drive r")
  case r: False
  then have "\<not> is_drive a" "\<not> is_drive b"
    using assms(1, 2) is_drive_seg_le by (auto simp: covers_body_seg split: if_splits)
  with assms(1, 2) r show ?thesis by (auto simp: covers_body_seg dest: seg_le_comparable)
next
  case r: True
  have shape: "x = [hd r, CHR '':'']" if "covers_body x r" "\<not> is_drive x" for x
    using that r by (auto simp: covers_body_seg intro: seg_le_drive)
  have below: "covers_body [hd r, CHR '':''] x" if "covers_body x r" "canon_drive x" "is_drive x" for x
  proof -
    have "hd x = hd r" using that assms(5) r by (intro drive_heads) (auto simp: covers_body_seg)
    with that show ?thesis by (auto simp: covers_body_seg is_drive_iff seg_le_def)
  qed
  show ?thesis
  proof (cases "is_drive a"; cases "is_drive b")
    assume "is_drive a" "is_drive b"
    with assms(1, 2) r show ?thesis by (auto simp: covers_body_seg dest: seg_le_comparable)
  qed (use assms shape below in \<open>metis covers_body_refl\<close>)+
qed

section \<open>Scope expressions\<close>

lemma lower_char_idem [simp]: "lower_char (lower_char c) = lower_char c"
proof -
  have "(of_char c :: nat) < 256" by simp
  then show ?thesis by (auto simp: lower_char_def Let_def of_char_of)
qed

lemma canon_drive_prefix: "canon_drive s \<Longrightarrow> prefix t s \<Longrightarrow> canon_drive t"
  by (auto simp: canon_drive_def is_drive_iff prefix_def)

lemma rstrip_char_prefix: "prefix (rstrip_char c s) s"
  by (metis rstrip_char_def suffix_dropWhile suffix_to_prefix rev_rev_ident)

lemma drop_suffix_prefix: "prefix (drop_suffix n s) s"
  by (simp add: drop_suffix_def take_is_prefix)

lemma drop_suffix_append [simp]: "drop_suffix 3 (s @ ''/**'') = s"
  by (simp add: drop_suffix_def)

lemma normalize_body_canon:
  assumes "normalize_body body = Inr n"
  shows "canon_drive n"
proof (cases "split_scheme body")
  case None
  with assms show ?thesis
    by (auto simp: normalize_body_def canon_drive_def is_drive_iff Let_def split: if_splits)
next
  case (Some p)
  with assms obtain x xs where "fst p = x # xs" "\<exists>ys. n = lower (x # xs) @ ys"
    by (cases "fst p") (auto simp: normalize_body_def split: prod.splits if_splits)
  then show ?thesis by (auto simp: canon_drive_def)
qed

lemma scope_body_canon:
  assumes "normalize_scope s = Inr n"
  shows "canon_drive (scope_body n)"
proof -
  from assms obtain body m where m: "normalize_body body = Inr m"
    and n: "\<exists>suf \<in> {[], ''/**''}. n = (if rstrip_char (CHR ''/'') m = [] then ''/'' else rstrip_char (CHR ''/'') m) @ suf"
    by (force simp: normalize_scope_def Let_def result_simps split: if_splits)
  let ?r = "if rstrip_char (CHR ''/'') m = [] then ''/'' else rstrip_char (CHR ''/'') m"
  have r: "canon_drive ?r"
    using canon_drive_prefix [OF normalize_body_canon [OF m] rstrip_char_prefix]
    by (auto simp: canon_drive_def is_drive_def)
  have "prefix (scope_body n) ?r"
  proof -
    from n consider "n = ?r" | "n = ?r @ ''/**''" by blast
    then show ?thesis
    proof cases
      case 1
      have "prefix (scope_body n) n"
        using prefix_order.trans [OF rstrip_char_prefix drop_suffix_prefix]
        by (simp add: scope_body_def)
      with 1 show ?thesis by simp
    next
      case 2
      then show ?thesis by (simp only: scope_body_def drop_suffix_append suffixI if_True rstrip_char_prefix)
    qed
  qed
  with r show ?thesis by (rule canon_drive_prefix)
qed

lemma list_all2_in: "list_all2 P xs ys \<Longrightarrow> x \<in> set xs \<Longrightarrow> \<exists>y \<in> set ys. P x y"
  by (induction rule: list_all2_induct) auto

lemma scope_covers_True:
  "scope_covers a b = Inr True \<longleftrightarrow>
     (\<exists>m n. normalize_scope a = Inr m \<and> normalize_scope b = Inr n \<and> covers_body (scope_body m) (scope_body n))"
  by (auto simp: scope_covers_def result_simps)

lemma scope_covers_trans:
  assumes "scope_covers a b = Inr True" "scope_covers b c = Inr True"
  shows "scope_covers a c = Inr True"
proof -
  from assms obtain k m n where "normalize_scope a = Inr k" "normalize_scope b = Inr m" "normalize_scope c = Inr n"
    "covers_body (scope_body k) (scope_body m)" "covers_body (scope_body m) (scope_body n)"
    by (auto simp: scope_covers_True)
  with covers_body_trans scope_body_canon show ?thesis
    by (auto simp: scope_covers_True)
qed

lemma scope_covers_refl: "normalize_scope a = Inr n \<Longrightarrow> scope_covers a a = Inr True"
  by (simp add: scope_covers_True)

lemma scope_covers_comparable:
  assumes "scope_covers a r = Inr True" "scope_covers b r = Inr True"
  shows "scopes_overlap a b = Inr True"
proof -
  from assms obtain k m n where norm: "normalize_scope a = Inr k" "normalize_scope b = Inr m" "normalize_scope r = Inr n"
    and "covers_body (scope_body k) (scope_body n)" "covers_body (scope_body m) (scope_body n)"
    by (auto simp: scope_covers_True)
  then have "covers_body (scope_body k) (scope_body m) \<or> covers_body (scope_body m) (scope_body k)"
    by (intro covers_body_comparable) (auto intro: scope_body_canon)
  with norm show ?thesis
    by (auto simp: scopes_overlap_def scope_covers_def bindr_def)
qed

lemma scope_allowed_True:
  "scope_allowed ps r = Inr True \<Longrightarrow> \<exists>p \<in> set ps. scope_covers p r = Inr True"
  by (induction ps) (auto simp: result_simps split: if_splits)

lemma scope_allowed_total:
  assumes "\<And>p. p \<in> set ps \<Longrightarrow> \<exists>n. normalize_scope p = Inr n" and "normalize_scope r = Inr m"
  shows "scope_allowed ps r = Inr (\<exists>p \<in> set ps. scope_covers p r = Inr True)"
  using assms(1)
proof (induction ps)
  case (Cons p ps)
  obtain n where "normalize_scope p = Inr n" using Cons.prems [of p] by auto
  with assms(2) have "scope_covers p r = Inr (covers_body (scope_body n) (scope_body m))"
    by (simp add: scope_covers_def)
  with Cons show ?case by auto
qed simp

lemma reject_forbidden_Inr:
  assumes "reject_forbidden scopes forbidden = Inr u" "s \<in> set scopes" "d \<in> set forbidden"
  shows "scopes_overlap s d = Inr False"
proof -
  from assms(1) obtain cs where cs: "mapr (\<lambda>(s, d). scopes_overlap s d) (List.product scopes forbidden) = Inr cs"
    and no: "\<forall>c \<in> set cs. \<not> c"
    by (auto simp: reject_forbidden_def result_simps simp del: mapr_eq_Inr)
  from cs have "list_all2 (\<lambda>(s, d) c. scopes_overlap s d = Inr c) (List.product scopes forbidden) cs"
    by (simp add: result_simps case_prod_beta')
  moreover have "(s, d) \<in> set (List.product scopes forbidden)" using assms(2, 3) by simp
  ultimately obtain c where "c \<in> set cs" "scopes_overlap s d = Inr c"
    by (fastforce dest: list_all2_in [where x = "(s, d)"])
  with no show ?thesis by auto
qed

lemma not_overlapping:
  assumes "scopes_overlap s d = Inr False" "scope_covers s r = Inr True"
  shows "scope_covers d r \<noteq> Inr True"
  using scope_covers_comparable [OF assms(2)] assms(1) by auto

text \<open>What the containment check establishes for one of the two scope lists of a Task.\<close>

lemma contained_scope:
  assumes task: "list_all2 (\<lambda>s b. scope_allowed parents s = Inr b) scopes bs" "\<forall>b \<in> set bs. b"
    and reject: "reject_forbidden scopes forbidden = Inr u"
    and norms: "\<And>s. s \<in> set (parents @ forbidden) \<Longrightarrow> \<exists>n. normalize_scope s = Inr n"
    and r: "scope_allowed scopes r = Inr True"
  shows "scope_allowed parents r = Inr True" "scope_allowed forbidden r = Inr False"
proof -
  from r obtain s where s: "s \<in> set scopes" "scope_covers s r = Inr True"
    using scope_allowed_True by blast
  from s(2) obtain n where n: "normalize_scope r = Inr n" by (auto simp: scope_covers_True)
  from list_all2_in [OF task(1) s(1)] task(2) have "scope_allowed parents s = Inr True"
    by auto
  then obtain p where "p \<in> set parents" "scope_covers p s = Inr True"
    using scope_allowed_True by blast
  with s(2) have "\<exists>p \<in> set parents. scope_covers p r = Inr True"
    using scope_covers_trans by blast
  with norms n show "scope_allowed parents r = Inr True"
    by (subst scope_allowed_total) auto
  have "\<not> (\<exists>d \<in> set forbidden. scope_covers d r = Inr True)"
    using reject_forbidden_Inr [OF reject s(1)] not_overlapping [OF _ s(2)] by blast
  with norms n show "scope_allowed forbidden r = Inr False"
    by (subst scope_allowed_total) auto
qed

lemma mapr_normalize: "mapr f xs = Inr ys \<Longrightarrow> x \<in> set xs \<Longrightarrow> \<exists>y. f x = Inr y"
  by (induction xs arbitrary: ys) (auto simp: result_simps)

text \<open>C22.  A Task that \<open>validate_task_within_goal\<close> accepts has no authority its Goal lacks: a
  resource its read or write scope allows is allowed by the Goal's, and neither the Goal's nor the
  Task's forbidden scope allows it; its capabilities are among the Goal's and each of its runtime
  surfaces is, field by field, one the Goal declares.\<close>

theorem task_contained_in_goal:
  assumes "validate_task_within_goal g t = Inr ()"
  shows "(\<forall>r. scope_allowed (ts_read_scope t) r = Inr True \<longrightarrow>
            scope_allowed (gs_read_scope g) r = Inr True \<and>
            scope_allowed (gs_forbidden_scope g @ ts_forbidden_scope t) r = Inr False) \<and>
         (\<forall>r. scope_allowed (ts_write_scope t) r = Inr True \<longrightarrow>
            scope_allowed (gs_write_scope g) r = Inr True \<and>
            scope_allowed (gs_forbidden_scope g @ ts_forbidden_scope t) r = Inr False) \<and>
         set (ts_capabilities t) \<subseteq> set (gs_allowed_capabilities g) \<and>
         set (ts_required_runtime_surfaces t) \<subseteq> set (gs_required_runtime_surfaces g) \<and>
         ts_goal_id t = gs_goal_id g"
proof -
  let ?F = "gs_forbidden_scope g @ ts_forbidden_scope t"
  obtain reads writes ng nt where
    ng: "mapr normalize_scope (gs_read_scope g @ gs_write_scope g @ gs_forbidden_scope g) = Inr ng"
    and nt: "mapr normalize_scope (ts_read_scope t @ ts_write_scope t @ ts_forbidden_scope t) = Inr nt"
    and reads: "mapr (scope_allowed (gs_read_scope g)) (ts_read_scope t) = Inr reads" "\<forall>b \<in> set reads. b"
    and writes: "mapr (scope_allowed (gs_write_scope g)) (ts_write_scope t) = Inr writes" "\<forall>b \<in> set writes. b"
    and rej: "reject_forbidden (ts_read_scope t) ?F = Inr ()" "reject_forbidden (ts_write_scope t) ?F = Inr ()"
    and caps: "set (ts_capabilities t) \<subseteq> set (gs_allowed_capabilities g)"
    and goal: "ts_goal_id t = gs_goal_id g"
    and surf: "\<forall>s \<in> set (ts_required_runtime_surfaces t).
       map_of (rev (map (\<lambda>s. (surface_key s, s)) (gs_required_runtime_surfaces g))) (surface_key s) = Some s"
    using assms
    by (auto simp: validate_task_within_goal_def validate_goal_scope_def bindr_eq_Inr Let_def split: if_splits)
  have norms: "\<exists>n. normalize_scope s = Inr n"
    if "s \<in> set (gs_read_scope g @ ?F) \<or> s \<in> set (gs_write_scope g @ ?F)" for s
    using that mapr_normalize [OF ng, of s] mapr_normalize [OF nt, of s] by auto
  have "scope_allowed (gs_read_scope g) r = Inr True \<and> scope_allowed ?F r = Inr False"
    if "scope_allowed (ts_read_scope t) r = Inr True" for r
    using contained_scope [OF reads(1) [unfolded mapr_eq_Inr] reads(2) rej(1) norms that] by simp
  moreover have "scope_allowed (gs_write_scope g) r = Inr True \<and> scope_allowed ?F r = Inr False"
    if "scope_allowed (ts_write_scope t) r = Inr True" for r
    using contained_scope [OF writes(1) [unfolded mapr_eq_Inr] writes(2) rej(2) norms that] by simp
  moreover have "set (ts_required_runtime_surfaces t) \<subseteq> set (gs_required_runtime_surfaces g)"
    using surf by (auto dest!: map_of_SomeD)
  ultimately show ?thesis
    using caps goal by blast
qed

definition sample_goal :: goal_spec where
  "sample_goal = \<lparr>gs_goal_id = ''g1'', gs_target_outcome = ''ship'', gs_success_evidence_states = [ES_STRUCTURE],
     gs_read_scope = [''repo://App/src/**''], gs_write_scope = [''/work/out''],
     gs_forbidden_scope = [''/work/secret/**''], gs_allowed_capabilities = [READ_LOCAL, WRITE_LOCAL],
     gs_required_runtime_surfaces = [], gs_evaluator_required = False,
     gs_max_iterations_without_evidence = 3, gs_provider_budget_minor_units = 0, gs_provider_call_limit = 0,
     gs_budget_currency = ''USD'', gs_non_goals = []\<rparr>"

definition sample_task :: task_spec where
  "sample_task = \<lparr>ts_task_id = ''t1'', ts_goal_id = ''g1'', ts_objective = ''build'', ts_expected_delta = ''d'',
     ts_primary_surface = ''s'', ts_evidence_target = ES_STRUCTURE, ts_capabilities = [WRITE_LOCAL],
     ts_read_scope = [''REPO://App/src/./lib''], ts_write_scope = [''/work//out/a%20b''], ts_forbidden_scope = [],
     ts_required_runtime_surfaces = [], ts_evaluator_required = False, ts_integration_required = False,
     ts_workflow_steps = [], ts_max_attempts = 3\<rparr>"

lemma sample_task_valid: "validate_task_within_goal sample_goal sample_task = Inr ()"
  by code_simp

lemma task_contained_in_goal_witness:
  "scope_allowed (gs_write_scope sample_goal) ''/work/out/a b/c'' = Inr True \<and>
   scope_allowed (gs_forbidden_scope sample_goal @ ts_forbidden_scope sample_task) ''/work/out/a b/c'' = Inr False"
proof -
  have "scope_allowed (ts_write_scope sample_task) ''/work/out/a b/c'' = Inr True" by code_simp
  with task_contained_in_goal [OF sample_task_valid] show ?thesis by blast
qed

text \<open>\<open>scope_covers\<close> is transitive, and two scopes that cover a common resource overlap: the
  test \<open>_reject_forbidden\<close> makes on the scopes themselves is enough to keep every resource below
  an allowed scope out of the forbidden ones.\<close>

theorem scope_covers_order:
  "(scope_covers a b = Inr True \<and> scope_covers b c = Inr True \<longrightarrow> scope_covers a c = Inr True) \<and>
   (scope_covers a c = Inr True \<and> scope_covers b c = Inr True \<longrightarrow> scopes_overlap a b = Inr True)"
  using scope_covers_trans scope_covers_comparable by blast

lemma scope_covers_order_witness:
  "scope_covers ''C:/work'' ''c:/WORK/a/b'' = Inr True \<and> scopes_overlap ''/w/**'' ''/w/x'' = Inr True"
proof
  have "scope_covers ''C:/work'' ''c:/Work/A'' = Inr True" "scope_covers ''c:/Work/A'' ''c:/WORK/a/b'' = Inr True"
    by code_simp+
  with scope_covers_order [of "''C:/work''" "''c:/Work/A''" "''c:/WORK/a/b''"]
  show "scope_covers ''C:/work'' ''c:/WORK/a/b'' = Inr True" by blast
  have "scope_covers ''/w/**'' ''/w/x/y'' = Inr True" "scope_covers ''/w/x'' ''/w/x/y'' = Inr True"
    by code_simp+
  with scope_covers_order [of "''/w/**''" "''/w/x/y''" "''/w/x''"] scope_covers_order [of "''/w/**''" "''/w/x''" "''/w/x/y''"]
  show "scopes_overlap ''/w/**'' ''/w/x'' = Inr True" by blast
qed

section \<open>Divergences\<close>

text \<open>\<open>posixpath.normpath\<close> keeps exactly two leading slashes, so a forbidden absolute path is not
  recognised when the candidate starts with two; a forbidden root covers it.\<close>

lemma double_slash_escapes_forbidden:
  "scope_covers ''/etc'' ''//etc/passwd'' = Inr False \<and> scope_covers ''/'' ''//etc/passwd'' = Inr True"
  by code_simp

text \<open>The pattern \<open>/**\<close> has an empty body, which normalises to the current directory.\<close>

lemma root_pattern_covers_nothing:
  "normalize_scope ''/**'' = Inr ''./**'' \<and> scope_covers ''/**'' ''/etc/passwd'' = Inr False"
  by code_simp

lemma drive_root_covers_nothing: "scope_covers ''C:/'' ''C:/Windows'' = Inr False"
  by code_simp

end
