(* ===== verification/Authority.thy ===== *)
theory Authority
  imports Scope
begin

text \<open>
  \<open>authority.py\<close>: the contracts of the delegation spine Project, Program, Goal, Task.  Every level
  carries bounds (capabilities, scopes, surfaces, budget, decision gates), \<open>validate_child_bounds\<close>
  is the check between two levels, and a reference binds a level to the exact version and digest
  of its parent.  The lemmas show that a chain of accepted levels never widens authority and that
  a decoded contract survives the trip through its encoding.
\<close>

section \<open>Field validation\<close>

fun trimmed_text :: "json \<Rightarrow> string res" where
  "trimmed_text (JStr s) =
     (if non_blank s \<and> strip s = s then Inr s else Inl (ContractError ''must be a non-empty trimmed string''))"
| "trimmed_text v = Inl (ContractError ''must be a non-empty trimmed string'')"

definition at_least :: "int \<Rightarrow> json \<Rightarrow> int res" where
  "at_least lo = int_from lo None ''must be an integer in range''"

definition trimmed_strings :: "json \<Rightarrow> string list res" where
  "trimmed_strings v = (case v of
       JList vs \<Rightarrow> bindr (mapr trimmed_text vs) (\<lambda>ss.
         if distinct ss then Inr ss else Inl (ContractError ''must not contain duplicates''))
     | _ \<Rightarrow> Inl (ContractError ''must be a list''))"

fun mapping_field :: "json \<Rightarrow> (string \<times> json) list res" where
  "mapping_field (JObj d) = Inr d"
| "mapping_field v = Inl (ContractError ''must be an object'')"

definition currency_code :: "string \<Rightarrow> bool" where
  "currency_code c \<longleftrightarrow> length c = 3 \<and> list_all is_alpha c"

definition upper :: "string \<Rightarrow> string" where
  "upper s = map upper_char s"

section \<open>References\<close>

datatype program_state = PS_COMPILED | PS_ACTIVE | PS_DELIVERED | PS_CANCELED | PS_RETIRED

fun program_state_value :: "program_state \<Rightarrow> string" where
  "program_state_value PS_COMPILED = ''compiled''"
| "program_state_value PS_ACTIVE = ''active''"
| "program_state_value PS_DELIVERED = ''delivered''"
| "program_state_value PS_CANCELED = ''canceled''"
| "program_state_value PS_RETIRED = ''retired''"

definition program_terminal :: "program_state \<Rightarrow> bool" where
  "program_terminal s \<longleftrightarrow> s \<in> {PS_DELIVERED, PS_CANCELED, PS_RETIRED}"

definition program_state_of :: "json \<Rightarrow> program_state res" where
  "program_state_of v = require (List.find (\<lambda>s. v = JStr (program_state_value s))
     [PS_COMPILED, PS_ACTIVE, PS_DELIVERED, PS_CANCELED, PS_RETIRED]) (ContractError ''not a valid ProgramState'')"

record authority_ref =
  ar_kind :: string
  ar_object_id :: string
  ar_version :: int
  ar_digest :: string

definition ref_fields :: "string list" where
  "ref_fields = [''kind'', ''object_id'', ''version'', ''digest'']"

definition ref_from_dict :: "(string \<times> json) list \<Rightarrow> authority_ref res" where
  "ref_from_dict data =
     bindr (strict_keys data ref_fields ref_fields) (\<lambda>_.
     bindr (bindr (get_field ''kind'' data) trimmed_text) (\<lambda>kind.
     if kind \<notin> set [''project'', ''program'', ''goal''] then Inl (ContractError ''unsupported authority_ref.kind'')
     else
     bindr (bindr (get_field ''digest'' data) trimmed_text) (\<lambda>digest.
     if \<not> hex_digest digest then Inl (ContractError ''authority_ref.digest must be lowercase SHA-256 hex'')
     else
     bindr (bindr (get_field ''object_id'' data) trimmed_text) (\<lambda>object_id.
     bindr (bindr (get_field ''version'' data) (at_least 1)) (\<lambda>version.
       Inr \<lparr>ar_kind = kind, ar_object_id = object_id, ar_version = version, ar_digest = digest\<rparr>)))))"

definition ref_to_dict :: "authority_ref \<Rightarrow> (string \<times> json) list" where
  "ref_to_dict r = [(''kind'', JStr (ar_kind r)), (''object_id'', JStr (ar_object_id r)),
     (''version'', JInt (ar_version r)), (''digest'', JStr (ar_digest r))]"

section \<open>Bounds\<close>

record authority_bounds =
  ab_capabilities :: "capability list"
  ab_read_scope :: "string list"
  ab_write_scope :: "string list"
  ab_forbidden_scope :: "string list"
  ab_required_runtime_surfaces :: "surface_spec list"
  ab_provider_budget_minor_units :: int
  ab_provider_call_limit :: int
  ab_budget_currency :: string
  ab_evaluator_required :: bool
  ab_required_decision_gates :: "string list"

text \<open>\<open>[... for scope in scopes for denied in forbidden if scopes_overlap(scope, denied)]\<close>.\<close>

definition validate_bounds :: "authority_bounds \<Rightarrow> unit res" where
  "validate_bounds b =
     (if \<not> (currency_code (ab_budget_currency b) \<and> upper (ab_budget_currency b) = ab_budget_currency b)
      then Inl (ContractError ''budget currency must be three uppercase ASCII letters'')
      else if ab_provider_budget_minor_units b < 0 \<or> ab_provider_call_limit b < 0
      then Inl (ContractError ''must be a non-negative integer'')
      else
      bindr (mapr normalize_scope (ab_read_scope b @ ab_write_scope b @ ab_forbidden_scope b)) (\<lambda>_.
      bindr (reject_forbidden (ab_read_scope b @ ab_write_scope b) (ab_forbidden_scope b)) (\<lambda>_.
        ensure (\<not> (PROVIDER_COST \<in> set (ab_capabilities b) \<and> ab_provider_call_limit b < 1))
          (ContractError ''provider_cost requires a positive call limit''))))"

definition bounds_fields :: "string list" where
  "bounds_fields = [''capabilities'', ''read_scope'', ''write_scope'', ''forbidden_scope'', ''required_runtime_surfaces'',
     ''provider_budget_minor_units'', ''provider_call_limit'', ''budget_currency'', ''evaluator_required'',
     ''required_decision_gates'']"

fun json_list :: "json \<Rightarrow> json list res" where
  "json_list (JList vs) = Inr vs"
| "json_list v = Inl (ContractError ''must be a list'')"

definition bounds_from_dict :: "(string \<times> json) list \<Rightarrow> authority_bounds res" where
  "bounds_from_dict data =
     bindr (strict_keys data bounds_fields bounds_fields) (\<lambda>_.
     bindr (bindr (get_field ''capabilities'' data) json_list) (\<lambda>raw_capabilities.
     bindr (except_map value_error_to_contract (mapr capability_of raw_capabilities)) (\<lambda>capabilities.
     if \<not> distinct capabilities then Inl (ContractError ''authority_bounds.capabilities must not contain duplicates'')
     else
     bindr (bindr (get_field ''required_runtime_surfaces'' data) runtime_surfaces) (\<lambda>surfaces.
     bindr (bindr (get_field ''evaluator_required'' data)
              (bool_field ''authority_bounds.evaluator_required must be a boolean'')) (\<lambda>evaluator.
     bindr (bindr (get_field ''budget_currency'' data) trimmed_text) (\<lambda>raw_currency.
     let currency = upper raw_currency in
     if \<not> currency_code currency then Inl (ContractError ''budget_currency must be three ASCII letters'')
     else
     bindr (bindr (get_field ''read_scope'' data) trimmed_strings) (\<lambda>reads.
     bindr (bindr (get_field ''write_scope'' data) trimmed_strings) (\<lambda>writes.
     bindr (bindr (get_field ''forbidden_scope'' data) trimmed_strings) (\<lambda>forbidden.
     bindr (bindr (get_field ''provider_budget_minor_units'' data) (at_least 0)) (\<lambda>budget.
     bindr (bindr (get_field ''provider_call_limit'' data) (at_least 0)) (\<lambda>calls.
     bindr (bindr (get_field ''required_decision_gates'' data) trimmed_strings) (\<lambda>gates.
     let result = \<lparr>ab_capabilities = capabilities, ab_read_scope = reads, ab_write_scope = writes,
       ab_forbidden_scope = forbidden, ab_required_runtime_surfaces = surfaces,
       ab_provider_budget_minor_units = budget, ab_provider_call_limit = calls, ab_budget_currency = currency,
       ab_evaluator_required = evaluator, ab_required_decision_gates = gates\<rparr> in
     bindr (validate_bounds result) (\<lambda>_. Inr result)))))))))))))"

definition bounds_to_dict :: "authority_bounds \<Rightarrow> (string \<times> json) list" where
  "bounds_to_dict b =
     [(''capabilities'', JList (map (\<lambda>c. JStr (capability_value c)) (ab_capabilities b))),
      (''read_scope'', JList (map JStr (ab_read_scope b))),
      (''write_scope'', JList (map JStr (ab_write_scope b))),
      (''forbidden_scope'', JList (map JStr (ab_forbidden_scope b))),
      (''required_runtime_surfaces'', JList (map (\<lambda>s. JObj (surface_to_dict s)) (ab_required_runtime_surfaces b))),
      (''provider_budget_minor_units'', JInt (ab_provider_budget_minor_units b)),
      (''provider_call_limit'', JInt (ab_provider_call_limit b)),
      (''budget_currency'', JStr (ab_budget_currency b)),
      (''evaluator_required'', JBool (ab_evaluator_required b)),
      (''required_decision_gates'', JList (map JStr (ab_required_decision_gates b)))]"

text \<open>A dictionary built from a list: the last entry of a key wins.\<close>

definition surface_dict :: "surface_spec list \<Rightarrow> string \<Rightarrow> surface_spec option" where
  "surface_dict ss = map_of (rev (map (\<lambda>s. (surface_key s, s)) ss))"

definition scopes_within :: "string list \<Rightarrow> string list \<Rightarrow> unit res" where
  "scopes_within allowed requested =
     bindr (mapr (scope_allowed allowed) requested) (\<lambda>bs.
       ensure (\<forall>b \<in> set bs. b) (ContractError ''scope exceeds parent authority''))"

definition validate_child_bounds :: "authority_bounds \<Rightarrow> authority_bounds \<Rightarrow> unit res" where
  "validate_child_bounds parent child =
     bindr (validate_bounds parent) (\<lambda>_.
     bindr (validate_bounds child) (\<lambda>_.
     if \<not> set (ab_capabilities child) \<subseteq> set (ab_capabilities parent)
     then Inl (ContractError ''capabilities exceed parent authority'')
     else
     bindr (scopes_within (ab_read_scope parent) (ab_read_scope child)) (\<lambda>_.
     bindr (scopes_within (ab_write_scope parent) (ab_write_scope child)) (\<lambda>_.
     bindr (reject_forbidden (ab_read_scope child @ ab_write_scope child) (ab_forbidden_scope parent)) (\<lambda>_.
     let parents = surface_dict (ab_required_runtime_surfaces parent);
         children = surface_dict (ab_required_runtime_surfaces child) in
     if \<not> (\<forall>s \<in> set (ab_required_runtime_surfaces child). parents (surface_key s) = Some s)
     then Inl (ContractError ''runtime surfaces exceed parent authority'')
     else if \<not> (\<forall>s \<in> set (ab_required_runtime_surfaces parent). children (surface_key s) = parents (surface_key s))
     then Inl (ContractError ''cannot drop required runtime surfaces'')
     else if ab_budget_currency child \<noteq> ab_budget_currency parent
     then Inl (ContractError ''budget currency differs from parent'')
     else if ab_provider_budget_minor_units parent < ab_provider_budget_minor_units child
     then Inl (ContractError ''provider budget exceeds parent authority'')
     else if ab_provider_call_limit parent < ab_provider_call_limit child
     then Inl (ContractError ''provider call limit exceeds parent authority'')
     else if ab_evaluator_required parent \<and> \<not> ab_evaluator_required child
     then Inl (ContractError ''cannot remove required evaluator policy'')
     else ensure (set (ab_required_decision_gates parent) \<subseteq> set (ab_required_decision_gates child))
            (ContractError ''cannot remove parent decision gates''))))))"

section \<open>Project and Program\<close>

record project_spec =
  pj_project_id :: string
  pj_version :: int
  pj_target_outcome :: string
  pj_authority :: authority_bounds

definition schema_is :: "string \<Rightarrow> (string \<times> json) list \<Rightarrow> unit res" where
  "schema_is version data = bindr (get_field ''schema_version'' data) (\<lambda>v.
     ensure (v = JStr version) (ContractError ''unsupported schema_version''))"

definition project_fields :: "string list" where
  "project_fields = [''schema_version'', ''project_id'', ''version'', ''target_outcome'', ''authority'']"

definition project_from_dict :: "(string \<times> json) list \<Rightarrow> project_spec res" where
  "project_from_dict data =
     bindr (strict_keys data project_fields project_fields) (\<lambda>_.
     bindr (schema_is ''companyos.project-spec.v1'' data) (\<lambda>_.
     bindr (bindr (get_field ''authority'' data) mapping_field) (\<lambda>authority.
     bindr (bindr (get_field ''project_id'' data) trimmed_text) (\<lambda>pid.
     bindr (bindr (get_field ''version'' data) (at_least 1)) (\<lambda>version.
     bindr (bindr (get_field ''target_outcome'' data) trimmed_text) (\<lambda>outcome.
     bindr (bounds_from_dict authority) (\<lambda>bounds.
       Inr \<lparr>pj_project_id = pid, pj_version = version, pj_target_outcome = outcome, pj_authority = bounds\<rparr>)))))))"

definition project_to_dict :: "project_spec \<Rightarrow> (string \<times> json) list" where
  "project_to_dict p = [(''schema_version'', JStr ''companyos.project-spec.v1''),
     (''project_id'', JStr (pj_project_id p)), (''version'', JInt (pj_version p)),
     (''target_outcome'', JStr (pj_target_outcome p)), (''authority'', JObj (bounds_to_dict (pj_authority p)))]"

definition project_reference :: "(string \<Rightarrow> string) \<Rightarrow> project_spec \<Rightarrow> authority_ref" where
  "project_reference sha p = \<lparr>ar_kind = ''project'', ar_object_id = pj_project_id p, ar_version = pj_version p,
     ar_digest = content_hash sha (JObj (project_to_dict p))\<rparr>"

record program_spec =
  pg_program_id :: string
  pg_version :: int
  pg_project_ref :: authority_ref
  pg_objective :: string
  pg_state :: program_state
  pg_dependency_refs :: "authority_ref list"
  pg_wave :: int
  pg_authority :: authority_bounds

definition program_fields :: "string list" where
  "program_fields = [''schema_version'', ''program_id'', ''version'', ''project_ref'', ''objective'', ''state'',
     ''dependency_refs'', ''wave'', ''authority'']"

definition object_list :: "json \<Rightarrow> (string \<times> json) list list res" where
  "object_list v = bindr (json_list v) (mapr mapping_field)"

definition program_from_dict :: "(string \<times> json) list \<Rightarrow> program_spec res" where
  "program_from_dict data =
     bindr (strict_keys data program_fields program_fields) (\<lambda>_.
     bindr (schema_is ''companyos.program-spec.v1'' data) (\<lambda>_.
     bindr (bindr (get_field ''project_ref'' data) mapping_field) (\<lambda>raw_ref.
     bindr (bindr (get_field ''dependency_refs'' data) object_list) (\<lambda>raw_dependencies.
     bindr (bindr (get_field ''authority'' data) mapping_field) (\<lambda>authority.
     bindr (ref_from_dict raw_ref) (\<lambda>project_ref.
     if ar_kind project_ref \<noteq> ''project'' then Inl (ContractError ''program_spec.project_ref must reference a project'')
     else
     bindr (mapr ref_from_dict raw_dependencies) (\<lambda>dependencies.
     if \<exists>d \<in> set dependencies. ar_kind d \<noteq> ''program'' then Inl (ContractError ''program dependencies must reference programs'')
     else if \<not> distinct dependencies then Inl (ContractError ''program dependencies must not contain duplicates'')
     else
     bindr (bindr (get_field ''state'' data) program_state_of) (\<lambda>state.
     bindr (bindr (get_field ''wave'' data) (at_least 0)) (\<lambda>wave.
     bindr (bindr (get_field ''program_id'' data) trimmed_text) (\<lambda>program_id.
     if \<exists>d \<in> set dependencies. ar_object_id d = program_id then Inl (ContractError ''program cannot depend on itself'')
     else
     bindr (bindr (get_field ''version'' data) (at_least 1)) (\<lambda>version.
     bindr (bindr (get_field ''objective'' data) trimmed_text) (\<lambda>objective.
     bindr (bounds_from_dict authority) (\<lambda>bounds.
       Inr \<lparr>pg_program_id = program_id, pg_version = version, pg_project_ref = project_ref, pg_objective = objective,
            pg_state = state, pg_dependency_refs = dependencies, pg_wave = wave, pg_authority = bounds\<rparr>)))))))))))))"

definition program_to_dict :: "program_spec \<Rightarrow> (string \<times> json) list" where
  "program_to_dict p = [(''schema_version'', JStr ''companyos.program-spec.v1''),
     (''program_id'', JStr (pg_program_id p)), (''version'', JInt (pg_version p)),
     (''project_ref'', JObj (ref_to_dict (pg_project_ref p))), (''objective'', JStr (pg_objective p)),
     (''state'', JStr (program_state_value (pg_state p))),
     (''dependency_refs'', JList (map (\<lambda>r. JObj (ref_to_dict r)) (pg_dependency_refs p))),
     (''wave'', JInt (pg_wave p)), (''authority'', JObj (bounds_to_dict (pg_authority p)))]"

definition program_reference :: "(string \<Rightarrow> string) \<Rightarrow> program_spec \<Rightarrow> authority_ref" where
  "program_reference sha p = \<lparr>ar_kind = ''program'', ar_object_id = pg_program_id p, ar_version = pg_version p,
     ar_digest = content_hash sha (JObj (program_to_dict p))\<rparr>"

section \<open>Compiled Goal authority\<close>

record goal_authority =
  ga_version :: int
  ga_project_ref :: authority_ref
  ga_program_ref :: authority_ref
  ga_required_decision_gates :: "string list"
  ga_goal_spec :: goal_spec

definition goal_authority_fields :: "string list" where
  "goal_authority_fields = [''schema_version'', ''version'', ''project_ref'', ''program_ref'',
     ''required_decision_gates'', ''goal_spec'']"

definition goal_authority_from_dict :: "(string \<times> json) list \<Rightarrow> goal_authority res" where
  "goal_authority_from_dict data =
     bindr (strict_keys data goal_authority_fields goal_authority_fields) (\<lambda>_.
     bindr (schema_is ''companyos.compiled-goal-authority.v1'' data) (\<lambda>_.
     bindr (bindr (get_field ''project_ref'' data) mapping_field) (\<lambda>raw_project.
     bindr (bindr (get_field ''program_ref'' data) mapping_field) (\<lambda>raw_program.
     bindr (bindr (get_field ''goal_spec'' data) mapping_field) (\<lambda>raw_goal.
     bindr (ref_from_dict raw_project) (\<lambda>project_ref.
     bindr (ref_from_dict raw_program) (\<lambda>program_ref.
     if ar_kind project_ref \<noteq> ''project'' \<or> ar_kind program_ref \<noteq> ''program''
     then Inl (ContractError ''compiled_goal_authority has invalid parent ref kinds'')
     else
     bindr (bindr (get_field ''version'' data) (at_least 1)) (\<lambda>version.
     bindr (bindr (get_field ''required_decision_gates'' data) trimmed_strings) (\<lambda>gates.
     bindr (goal_from_dict raw_goal) (\<lambda>goal.
       Inr \<lparr>ga_version = version, ga_project_ref = project_ref, ga_program_ref = program_ref,
            ga_required_decision_gates = gates, ga_goal_spec = goal\<rparr>))))))))))"

definition goal_authority_to_dict :: "goal_authority \<Rightarrow> (string \<times> json) list" where
  "goal_authority_to_dict a = [(''schema_version'', JStr ''companyos.compiled-goal-authority.v1''),
     (''version'', JInt (ga_version a)), (''project_ref'', JObj (ref_to_dict (ga_project_ref a))),
     (''program_ref'', JObj (ref_to_dict (ga_program_ref a))),
     (''required_decision_gates'', JList (map JStr (ga_required_decision_gates a))),
     (''goal_spec'', JObj (goal_to_dict (ga_goal_spec a)))]"

definition goal_reference :: "(string \<Rightarrow> string) \<Rightarrow> goal_authority \<Rightarrow> authority_ref" where
  "goal_reference sha a = \<lparr>ar_kind = ''goal'', ar_object_id = gs_goal_id (ga_goal_spec a), ar_version = ga_version a,
     ar_digest = content_hash sha (JObj (goal_authority_to_dict a))\<rparr>"

section \<open>Decision gates\<close>

record gate_contract =
  gc_gate_id :: string
  gc_capability :: capability
  gc_action :: string
  gc_resource :: string
  gc_request_digest :: string

definition gate_fields :: "string list" where
  "gate_fields = [''gate_id'', ''capability'', ''action'', ''resource'', ''request_digest'']"

definition gate_from_dict :: "(string \<times> json) list \<Rightarrow> gate_contract res" where
  "gate_from_dict data =
     bindr (strict_keys data gate_fields gate_fields) (\<lambda>_.
     bindr (bindr (get_field ''capability'' data) trimmed_text) (\<lambda>raw.
     bindr (except_map value_error_to_contract (capability_of (JStr raw))) (\<lambda>capability.
     bindr (bindr (get_field ''resource'' data) trimmed_text) (\<lambda>resource.
     if split_scheme resource = None \<or> CHR ''*'' \<in> set resource
     then Inl (ContractError ''decision gate resource must be an exact typed resource'')
     else
     bindr (bindr (get_field ''request_digest'' data) trimmed_text) (\<lambda>digest.
     if \<not> hex_digest digest then Inl (ContractError ''decision gate request_digest must be lowercase SHA-256 hex'')
     else
     bindr (bindr (get_field ''gate_id'' data) trimmed_text) (\<lambda>gate_id.
     bindr (bindr (get_field ''action'' data) trimmed_text) (\<lambda>action.
       Inr \<lparr>gc_gate_id = gate_id, gc_capability = capability, gc_action = action, gc_resource = resource,
            gc_request_digest = digest\<rparr>)))))))"

definition gate_to_dict :: "gate_contract \<Rightarrow> (string \<times> json) list" where
  "gate_to_dict c = [(''gate_id'', JStr (gc_gate_id c)), (''capability'', JStr (capability_value (gc_capability c))),
     (''action'', JStr (gc_action c)), (''resource'', JStr (gc_resource c)), (''request_digest'', JStr (gc_request_digest c))]"

text \<open>An item of the list need not be an object: \<open>set(data)\<close> of a string yields its characters, of a
  list its items, and indexing either with a field name raises \<open>TypeError\<close>.\<close>

definition gate_item :: "json \<Rightarrow> gate_contract res" where
  "gate_item v = (case v of
       JObj d \<Rightarrow> gate_from_dict d
     | JStr s \<Rightarrow> bindr (strict_keys (map (\<lambda>c. ([c], JNull)) s) gate_fields gate_fields) (\<lambda>_. Inl (PyTypeError ''indices''))
     | JList vs \<Rightarrow>
         if \<exists>x \<in> set vs. case x of JList _ \<Rightarrow> True | JObj _ \<Rightarrow> True | _ \<Rightarrow> False then Inl (PyTypeError ''unhashable'')
         else bindr (strict_keys (map (\<lambda>x. (case x of JStr s \<Rightarrow> s | _ \<Rightarrow> [], JNull)) vs) gate_fields gate_fields)
                (\<lambda>_. Inl (PyTypeError ''indices''))
     | _ \<Rightarrow> Inl (PyTypeError ''not iterable''))"

definition decision_gate_definition :: "string \<Rightarrow> (capability \<times> string \<times> string) option" where
  "decision_gate_definition gate = map_of
     [(''provider'', (PROVIDER_COST, ''generate'', ''provider://'')),
      (''merge'', (REPO_REMOTE, ''merge'', ''repo://'')),
      (''release'', (PUBLIC_RELEASE, ''release'', ''release://''))] gate"

definition gate_contract_of :: "task_spec \<Rightarrow> string \<Rightarrow> gate_contract res" where
  "gate_contract_of task gate =
     bindr (require (decision_gate_definition gate)
              (ContractError ''Task decision gate has no explicit decision authority'')) (\<lambda>(capability, action, scheme).
     case filter (\<lambda>s. startswith (lower s) scheme \<and> CHR ''*'' \<notin> set s) (ts_write_scope task) of
       [resource] \<Rightarrow>
         (case filter (\<lambda>s. step_action s = action \<and> step_resource s = resource) (ts_workflow_steps task) of
            [step] \<Rightarrow> Inr \<lparr>gc_gate_id = gate, gc_capability = capability, gc_action = action, gc_resource = resource,
                          gc_request_digest = step_request_digest step\<rparr>
          | _ \<Rightarrow> Inl (ContractError ''Task decision gate requires exactly one exact workflow request''))
     | _ \<Rightarrow> Inl (ContractError ''Task decision gate requires exactly one exact write_scope''))"

definition canonical_decision_gate_contracts :: "task_spec \<Rightarrow> string list \<Rightarrow> gate_contract list res" where
  "canonical_decision_gate_contracts task gates = mapr (gate_contract_of task) gates"

section \<open>Compiled Task authority\<close>

record task_authority =
  ta_version :: int
  ta_project_ref :: authority_ref
  ta_program_ref :: authority_ref
  ta_goal_ref :: authority_ref
  ta_required_decision_gates :: "string list"
  ta_decision_gate_contracts :: "gate_contract list"
  ta_provider_budget_minor_units :: int
  ta_provider_call_limit :: int
  ta_budget_currency :: string
  ta_task_spec :: task_spec

definition task_authority_fields :: "string list" where
  "task_authority_fields = [''schema_version'', ''version'', ''project_ref'', ''program_ref'', ''goal_ref'',
     ''required_decision_gates'', ''provider_budget_minor_units'', ''decision_gate_contracts'',
     ''provider_call_limit'', ''budget_currency'', ''task_spec'']"

definition task_authority_from_dict :: "(string \<times> json) list \<Rightarrow> task_authority res" where
  "task_authority_from_dict data =
     bindr (strict_keys data task_authority_fields task_authority_fields) (\<lambda>_.
     bindr (schema_is ''companyos.compiled-task-authority.v1'' data) (\<lambda>_.
     bindr (bindr (get_field ''project_ref'' data) mapping_field) (\<lambda>raw_project.
     bindr (bindr (get_field ''program_ref'' data) mapping_field) (\<lambda>raw_program.
     bindr (bindr (get_field ''goal_ref'' data) mapping_field) (\<lambda>raw_goal.
     bindr (bindr (get_field ''task_spec'' data) mapping_field) (\<lambda>raw_task.
     bindr (ref_from_dict raw_project) (\<lambda>project_ref.
     bindr (ref_from_dict raw_program) (\<lambda>program_ref.
     bindr (ref_from_dict raw_goal) (\<lambda>goal_ref.
     if (ar_kind project_ref, ar_kind program_ref, ar_kind goal_ref) \<noteq> (''project'', ''program'', ''goal'')
     then Inl (ContractError ''compiled_task_authority has invalid parent ref kinds'')
     else
     bindr (bindr (get_field ''budget_currency'' data) trimmed_text) (\<lambda>raw_currency.
     let currency = upper raw_currency in
     bindr (bindr (get_field ''required_decision_gates'' data) trimmed_strings) (\<lambda>gates.
     bindr (task_from_dict raw_task) (\<lambda>task.
     bindr (bindr (get_field ''version'' data) (at_least 1)) (\<lambda>version.
     bindr (get_field ''decision_gate_contracts'' data) (\<lambda>raw_contracts.
     bindr (case raw_contracts of JList vs \<Rightarrow> mapr gate_item vs | _ \<Rightarrow> Inr []) (\<lambda>contracts.
     bindr (bindr (get_field ''provider_budget_minor_units'' data) (at_least 0)) (\<lambda>budget.
     bindr (bindr (get_field ''provider_call_limit'' data) (at_least 0)) (\<lambda>calls.
     if \<not> currency_code currency then Inl (ContractError ''task budget_currency must be three ASCII letters'')
     else
     bindr (json_list raw_contracts) (\<lambda>_.
     if map gc_gate_id contracts \<noteq> gates \<or> \<not> distinct (map gc_gate_id contracts)
     then Inl (ContractError ''decision_gate_contracts must exactly match required_decision_gates order'')
     else
     bindr (canonical_decision_gate_contracts task gates) (\<lambda>canonical.
     if contracts \<noteq> canonical then Inl (ContractError ''decision_gate_contracts do not match canonical Task gate authority'')
     else Inr \<lparr>ta_version = version, ta_project_ref = project_ref, ta_program_ref = program_ref, ta_goal_ref = goal_ref,
            ta_required_decision_gates = gates, ta_decision_gate_contracts = contracts,
            ta_provider_budget_minor_units = budget, ta_provider_call_limit = calls, ta_budget_currency = currency,
            ta_task_spec = task\<rparr>)))))))))))))))))))"

definition task_authority_to_dict :: "task_authority \<Rightarrow> (string \<times> json) list" where
  "task_authority_to_dict a = [(''schema_version'', JStr ''companyos.compiled-task-authority.v1''),
     (''version'', JInt (ta_version a)), (''project_ref'', JObj (ref_to_dict (ta_project_ref a))),
     (''program_ref'', JObj (ref_to_dict (ta_program_ref a))), (''goal_ref'', JObj (ref_to_dict (ta_goal_ref a))),
     (''required_decision_gates'', JList (map JStr (ta_required_decision_gates a))),
     (''decision_gate_contracts'', JList (map (\<lambda>c. JObj (gate_to_dict c)) (ta_decision_gate_contracts a))),
     (''provider_budget_minor_units'', JInt (ta_provider_budget_minor_units a)),
     (''provider_call_limit'', JInt (ta_provider_call_limit a)),
     (''budget_currency'', JStr (ta_budget_currency a)), (''task_spec'', JObj (task_to_dict (ta_task_spec a)))]"

section \<open>Delegation narrows authority\<close>

text \<open>What a resource must satisfy for a scope list of a child of \<open>parent\<close> to allow it.\<close>

definition scope_narrows :: "string list \<Rightarrow> string list \<Rightarrow> string list \<Rightarrow> string list \<Rightarrow> bool" where
  "scope_narrows parent forbidden child own \<longleftrightarrow> (\<forall>r. scope_allowed child r = Inr True \<longrightarrow>
     scope_allowed parent r = Inr True \<and> scope_allowed forbidden r = Inr False \<and> scope_allowed own r = Inr False)"

definition narrows :: "authority_bounds \<Rightarrow> authority_bounds \<Rightarrow> bool" where
  "narrows p c \<longleftrightarrow> set (ab_capabilities c) \<subseteq> set (ab_capabilities p) \<and>
     scope_narrows (ab_read_scope p) (ab_forbidden_scope p) (ab_read_scope c) (ab_forbidden_scope c) \<and>
     scope_narrows (ab_write_scope p) (ab_forbidden_scope p) (ab_write_scope c) (ab_forbidden_scope c) \<and>
     set (ab_required_runtime_surfaces c) \<subseteq> set (ab_required_runtime_surfaces p) \<and>
     surface_key ` set (ab_required_runtime_surfaces c) = surface_key ` set (ab_required_runtime_surfaces p) \<and>
     ab_budget_currency c = ab_budget_currency p \<and>
     ab_provider_budget_minor_units c \<le> ab_provider_budget_minor_units p \<and>
     ab_provider_call_limit c \<le> ab_provider_call_limit p \<and>
     (ab_evaluator_required p \<longrightarrow> ab_evaluator_required c) \<and>
     set (ab_required_decision_gates p) \<subseteq> set (ab_required_decision_gates c)"

lemma narrows_trans: "narrows a b \<Longrightarrow> narrows b c \<Longrightarrow> narrows a c"
  unfolding narrows_def scope_narrows_def by (elim conjE, intro conjI) auto

lemma surface_dict_Some: "surface_dict ss k = Some s \<Longrightarrow> s \<in> set ss \<and> surface_key s = k"
  by (auto simp: surface_dict_def dest!: map_of_SomeD)

lemma surface_dict_mem: "s \<in> set ss \<Longrightarrow> \<exists>t. surface_dict ss (surface_key s) = Some t"
  by (cases "surface_dict ss (surface_key s)") (auto simp: surface_dict_def map_of_eq_None_iff image_image)

lemma reject_forbidden_iff:
  "reject_forbidden xs fs = Inr () \<longleftrightarrow> (\<forall>s \<in> set xs. \<forall>d \<in> set fs. scopes_overlap s d = Inr False)"
proof
  assume r: "\<forall>s \<in> set xs. \<forall>d \<in> set fs. scopes_overlap s d = Inr False"
  have "mapr (\<lambda>(s, d). scopes_overlap s d) ps = Inr (map (\<lambda>_. False) ps)"
    if "\<forall>(s, d) \<in> set ps. scopes_overlap s d = Inr False" for ps
    using that by (induction ps) auto
  from this [of "List.product xs fs"] r show "reject_forbidden xs fs = Inr ()" by (simp add: reject_forbidden_def)
qed (blast intro: reject_forbidden_Inr)

lemma reject_forbidden_append:
  "reject_forbidden (xs @ ys) fs = Inr () \<Longrightarrow> reject_forbidden xs fs = Inr () \<and> reject_forbidden ys fs = Inr ()"
  by (simp add: reject_forbidden_iff)

lemma scope_narrows_check:
  assumes "scopes_within parent child = Inr ()" "reject_forbidden child forbidden = Inr ()" "reject_forbidden child own = Inr ()"
    and "\<And>s. s \<in> set (parent @ forbidden @ own) \<Longrightarrow> \<exists>n. normalize_scope s = Inr n"
  shows "scope_narrows parent forbidden child own"
  unfolding scope_narrows_def
proof (intro allI impI)
  fix r assume r: "scope_allowed child r = Inr True"
  from assms(1) obtain bs where bs: "list_all2 (\<lambda>s b. scope_allowed parent s = Inr b) child bs" "\<forall>b \<in> set bs. b"
    by (auto simp: scopes_within_def result_simps)
  have n: "\<And>s. s \<in> set (parent @ forbidden) \<Longrightarrow> \<exists>n. normalize_scope s = Inr n"
    "\<And>s. s \<in> set (parent @ own) \<Longrightarrow> \<exists>n. normalize_scope s = Inr n"
    by (auto intro!: assms(4))
  show "scope_allowed parent r = Inr True \<and> scope_allowed forbidden r = Inr False \<and> scope_allowed own r = Inr False"
    using contained_scope [OF bs assms(2) n(1) r] contained_scope [OF bs assms(3) n(2) r] by simp
qed

lemma validate_bounds_Inr:
  assumes "validate_bounds b = Inr ()"
  shows "(\<forall>s \<in> set (ab_read_scope b @ ab_write_scope b @ ab_forbidden_scope b). \<exists>n. normalize_scope s = Inr n) \<and>
     reject_forbidden (ab_read_scope b) (ab_forbidden_scope b) = Inr () \<and>
     reject_forbidden (ab_write_scope b) (ab_forbidden_scope b) = Inr () \<and>
     currency_code (ab_budget_currency b) \<and> 0 \<le> ab_provider_budget_minor_units b \<and> 0 \<le> ab_provider_call_limit b"
proof -
  from assms obtain ns where ns: "mapr normalize_scope (ab_read_scope b @ ab_write_scope b @ ab_forbidden_scope b) = Inr ns"
    and r: "reject_forbidden (ab_read_scope b @ ab_write_scope b) (ab_forbidden_scope b) = Inr ()"
    and c: "currency_code (ab_budget_currency b)" "0 \<le> ab_provider_budget_minor_units b" "0 \<le> ab_provider_call_limit b"
    by (auto simp: validate_bounds_def bindr_eq_Inr split: if_splits)
  from mapr_normalize [OF ns] reject_forbidden_append [OF r] c show ?thesis by blast
qed

lemma validate_child_bounds_narrows:
  assumes "validate_child_bounds p c = Inr ()"
  shows "narrows p c"
proof -
  let ?ps = "ab_required_runtime_surfaces p" and ?cs = "ab_required_runtime_surfaces c"
  from assms have v: "validate_bounds p = Inr ()" "validate_bounds c = Inr ()"
    and w: "scopes_within (ab_read_scope p) (ab_read_scope c) = Inr ()" "scopes_within (ab_write_scope p) (ab_write_scope c) = Inr ()"
    and r: "reject_forbidden (ab_read_scope c @ ab_write_scope c) (ab_forbidden_scope p) = Inr ()"
    and s: "\<forall>s \<in> set ?cs. surface_dict ?ps (surface_key s) = Some s"
      "\<forall>s \<in> set ?ps. surface_dict ?cs (surface_key s) = surface_dict ?ps (surface_key s)"
    and rest: "set (ab_capabilities c) \<subseteq> set (ab_capabilities p)" "ab_budget_currency c = ab_budget_currency p"
      "ab_provider_budget_minor_units c \<le> ab_provider_budget_minor_units p"
      "ab_provider_call_limit c \<le> ab_provider_call_limit p" "ab_evaluator_required p \<longrightarrow> ab_evaluator_required c"
      "set (ab_required_decision_gates p) \<subseteq> set (ab_required_decision_gates c)"
    by (auto simp: validate_child_bounds_def bindr_eq_Inr Let_def split: if_splits)
  have sub: "set ?cs \<subseteq> set ?ps" using s(1) surface_dict_Some by blast
  have "surface_key x \<in> surface_key ` set ?cs" if x: "x \<in> set ?ps" for x
    using surface_dict_mem [OF x] s(2) [rule_format, OF x] surface_dict_Some [of ?cs "surface_key x"] by (metis image_eqI)
  with sub have keys: "surface_key ` set ?cs = surface_key ` set ?ps" by blast
  have "scope_narrows (ab_read_scope p) (ab_forbidden_scope p) (ab_read_scope c) (ab_forbidden_scope c)"
    "scope_narrows (ab_write_scope p) (ab_forbidden_scope p) (ab_write_scope c) (ab_forbidden_scope c)"
    using validate_bounds_Inr [OF v(1)] validate_bounds_Inr [OF v(2)] reject_forbidden_append [OF r] w
    by (auto intro!: scope_narrows_check)
  with sub keys rest show ?thesis by (simp add: narrows_def)
qed

text \<open>Along a chain of delegations of any length.\<close>

lemma delegation_chain_narrows:
  assumes "successively (\<lambda>p c. validate_child_bounds p c = Inr ()) bs" "i < j" "j < length bs"
  shows "narrows (bs ! i) (bs ! j)"
proof -
  have "successively narrows bs"
    using assms(1) by (rule successively_mono) (rule validate_child_bounds_narrows)
  then have "sorted_wrt narrows bs"
    by (subst (asm) successively_conv_sorted_wrt) (auto intro: transpI narrows_trans)
  with assms(2, 3) show ?thesis by (simp add: sorted_wrt_iff_nth_less)
qed

section \<open>Encodings\<close>

lemma trimmed_text_Inr: "trimmed_text v = Inr s \<longleftrightarrow> v = JStr s \<and> clean s"
  by (cases v) (auto simp: clean_def)

lemma trimmed_strings_Inr: "trimmed_strings v = Inr xs \<longleftrightarrow> v = JList (map JStr xs) \<and> clean_list xs"
proof (cases v)
  case (JList vs)
  have "list_all2 (\<lambda>v s. v = JStr s \<and> clean s) vs ss \<longleftrightarrow> vs = map JStr ss \<and> list_all clean ss" for ss
    by (auto simp: list_all2_conv_all_nth list_eq_iff_nth_eq list_all_length)
  with JList show ?thesis
    by (auto simp: trimmed_strings_def clean_list_def result_simps trimmed_text_Inr)
qed (auto simp: trimmed_strings_def)

lemma mapping_field_Inr [simp]: "mapping_field v = Inr d \<longleftrightarrow> v = JObj d"
  by (cases v) auto

lemma json_list_Inr [simp]: "json_list v = Inr vs \<longleftrightarrow> v = JList vs"
  by (cases v) auto

lemma at_least_Inr: "at_least lo v = Inr i \<longleftrightarrow> v = JInt i \<and> lo \<le> i"
  by (simp add: at_least_def int_from_Inr)

lemma trimmed_text_clean [simp]: "clean s \<Longrightarrow> trimmed_text (JStr s) = Inr s"
  by (simp add: clean_def)

declare trimmed_text.simps [simp del]

lemmas field_Inr = trimmed_text_Inr trimmed_strings_Inr at_least_Inr

definition wf_ref :: "authority_ref \<Rightarrow> bool" where
  "wf_ref r \<longleftrightarrow> clean (ar_kind r) \<and> ar_kind r \<in> set [''project'', ''program'', ''goal''] \<and> clean (ar_object_id r) \<and> 1 \<le> ar_version r \<and>
     clean (ar_digest r) \<and> hex_digest (ar_digest r)"

definition wf_bounds :: "authority_bounds \<Rightarrow> bool" where
  "wf_bounds b \<longleftrightarrow> distinct (ab_capabilities b) \<and> wf_surfaces (ab_required_runtime_surfaces b) \<and>
     clean (ab_budget_currency b) \<and> currency_code (ab_budget_currency b) \<and> upper (ab_budget_currency b) = ab_budget_currency b \<and>
     clean_list (ab_read_scope b) \<and> clean_list (ab_write_scope b) \<and> clean_list (ab_forbidden_scope b) \<and>
     0 \<le> ab_provider_budget_minor_units b \<and> 0 \<le> ab_provider_call_limit b \<and>
     clean_list (ab_required_decision_gates b) \<and> validate_bounds b = Inr ()"

definition wf_project :: "project_spec \<Rightarrow> bool" where
  "wf_project p \<longleftrightarrow> clean (pj_project_id p) \<and> 1 \<le> pj_version p \<and> clean (pj_target_outcome p) \<and> wf_bounds (pj_authority p)"

definition wf_program :: "program_spec \<Rightarrow> bool" where
  "wf_program p \<longleftrightarrow> clean (pg_program_id p) \<and> 1 \<le> pg_version p \<and> wf_ref (pg_project_ref p) \<and>
     ar_kind (pg_project_ref p) = ''project'' \<and> clean (pg_objective p) \<and>
     (\<forall>d \<in> set (pg_dependency_refs p). wf_ref d \<and> ar_kind d = ''program'' \<and> ar_object_id d \<noteq> pg_program_id p) \<and>
     distinct (pg_dependency_refs p) \<and> 0 \<le> pg_wave p \<and> wf_bounds (pg_authority p)"

definition wf_goal_authority :: "goal_authority \<Rightarrow> bool" where
  "wf_goal_authority a \<longleftrightarrow> 1 \<le> ga_version a \<and> wf_ref (ga_project_ref a) \<and> wf_ref (ga_program_ref a) \<and>
     ar_kind (ga_project_ref a) = ''project'' \<and> ar_kind (ga_program_ref a) = ''program'' \<and>
     clean_list (ga_required_decision_gates a) \<and> wf_goal (ga_goal_spec a)"

definition wf_gate :: "gate_contract \<Rightarrow> bool" where
  "wf_gate c \<longleftrightarrow> clean (gc_gate_id c) \<and> clean (gc_action c) \<and> clean (gc_resource c) \<and> split_scheme (gc_resource c) \<noteq> None \<and>
     CHR ''*'' \<notin> set (gc_resource c) \<and> clean (gc_request_digest c) \<and> hex_digest (gc_request_digest c)"

definition wf_task_authority :: "task_authority \<Rightarrow> bool" where
  "wf_task_authority a \<longleftrightarrow> 1 \<le> ta_version a \<and> wf_ref (ta_project_ref a) \<and> wf_ref (ta_program_ref a) \<and> wf_ref (ta_goal_ref a) \<and>
     ar_kind (ta_project_ref a) = ''project'' \<and> ar_kind (ta_program_ref a) = ''program'' \<and> ar_kind (ta_goal_ref a) = ''goal'' \<and>
     clean_list (ta_required_decision_gates a) \<and> list_all wf_gate (ta_decision_gate_contracts a) \<and>
     map gc_gate_id (ta_decision_gate_contracts a) = ta_required_decision_gates a \<and>
     canonical_decision_gate_contracts (ta_task_spec a) (ta_required_decision_gates a) = Inr (ta_decision_gate_contracts a) \<and>
     0 \<le> ta_provider_budget_minor_units a \<and> 0 \<le> ta_provider_call_limit a \<and>
     clean (ta_budget_currency a) \<and> currency_code (ta_budget_currency a) \<and> upper (ta_budget_currency a) = ta_budget_currency a \<and>
     wf_task (ta_task_spec a)"

lemma upper_idem [simp]: "upper (upper s) = upper s"
  by (simp add: upper_def)

lemma clean_currency: "currency_code c \<Longrightarrow> clean c"
  using strip_no_space [of c]
  by (cases c) (auto simp: currency_code_def clean_def non_blank_def list_all_iff alpha_not_space)

lemma ref_from_dict_wf: "ref_from_dict d = Inr r \<Longrightarrow> wf_ref r"
  by (auto simp: ref_from_dict_def wf_ref_def result_simps field_Inr split: if_splits)

lemma ref_roundtrip [simp]: "wf_ref r \<Longrightarrow> ref_from_dict (ref_to_dict r) = Inr r"
  by (simp add: ref_from_dict_def ref_to_dict_def ref_fields_def wf_ref_def contract_simps at_least_def Let_def)

lemma capabilities_values [simp]: "mapr capability_of (map (\<lambda>c. JStr (capability_value c)) cs) = Inr cs"
  using mapr_map_Inr [of cs capability_of "\<lambda>c. JStr (capability_value c)" id] by simp

lemma bounds_from_dict_wf: "bounds_from_dict d = Inr b \<Longrightarrow> wf_bounds b"
  unfolding bounds_from_dict_def wf_bounds_def
  by (clarsimp simp: result_simps field_Inr Let_def split: if_split_asm)
    (auto dest: runtime_surfaces_wf clean_currency)

lemma trimmed_strings_values [simp]: "clean_list xs \<Longrightarrow> trimmed_strings (JList (map JStr xs)) = Inr xs"
  by (simp add: trimmed_strings_Inr)

lemma bounds_roundtrip [simp]: "wf_bounds b \<Longrightarrow> bounds_from_dict (bounds_to_dict b) = Inr b"
  by (cases b) (simp add: bounds_from_dict_def bounds_to_dict_def bounds_fields_def wf_bounds_def contract_simps at_least_def Let_def)

lemma project_from_dict_wf: "project_from_dict d = Inr p \<Longrightarrow> wf_project p"
  by (auto simp: project_from_dict_def wf_project_def result_simps field_Inr dest: bounds_from_dict_wf)

lemma project_roundtrip: "wf_project p \<Longrightarrow> project_from_dict (project_to_dict p) = Inr p"
  by (simp add: project_from_dict_def project_to_dict_def project_fields_def wf_project_def schema_is_def contract_simps
      at_least_def Let_def)

lemma program_state_of_value [simp]: "program_state_of (JStr (program_state_value s)) = Inr s"
  by (cases s) (simp_all add: program_state_of_def)

lemma object_list_values [simp]: "object_list (JList (map (\<lambda>r. JObj (f r)) rs)) = Inr (map f rs)"
  unfolding object_list_def by (simp add: mapr_map_Inr)

lemma refs_roundtrip [simp]: "\<forall>r \<in> set rs. wf_ref r \<Longrightarrow> mapr ref_from_dict (map ref_to_dict rs) = Inr rs"
  using mapr_map_Inr [of rs ref_from_dict ref_to_dict id] by simp

lemma refs_wf: "list_all2 (\<lambda>x y. ref_from_dict x = Inr y) xs rs \<Longrightarrow> \<forall>r \<in> set rs. wf_ref r"
  by (induction rule: list_all2_induct) (auto dest: ref_from_dict_wf)

lemma program_from_dict_wf: "program_from_dict d = Inr p \<Longrightarrow> wf_program p"
  unfolding program_from_dict_def wf_program_def
  by (clarsimp simp: result_simps field_Inr split: if_split_asm)
    (auto dest: bounds_from_dict_wf ref_from_dict_wf refs_wf)

lemma program_roundtrip: "wf_program p \<Longrightarrow> program_from_dict (program_to_dict p) = Inr p"
  by (simp add: program_from_dict_def program_to_dict_def program_fields_def wf_program_def schema_is_def contract_simps
      at_least_def Let_def)

lemma goal_authority_from_dict_wf: "goal_authority_from_dict d = Inr a \<Longrightarrow> wf_goal_authority a"
  by (auto simp: goal_authority_from_dict_def wf_goal_authority_def result_simps field_Inr split: if_splits
      dest: ref_from_dict_wf goal_from_dict_wf)

lemma goal_authority_roundtrip: "wf_goal_authority a \<Longrightarrow> goal_authority_from_dict (goal_authority_to_dict a) = Inr a"
  by (simp add: goal_authority_from_dict_def goal_authority_to_dict_def goal_authority_fields_def wf_goal_authority_def
      schema_is_def contract_simps at_least_def goal_roundtrip)

lemma gate_from_dict_wf: "gate_from_dict d = Inr c \<Longrightarrow> wf_gate c"
  by (auto simp: gate_from_dict_def wf_gate_def result_simps field_Inr split: if_splits)

lemma gate_item_wf: "gate_item v = Inr c \<Longrightarrow> wf_gate c"
  by (auto simp: gate_item_def result_simps split: json.splits if_splits intro: gate_from_dict_wf)

lemma clean_capability [simp]: "clean (capability_value c)"
  by (cases c) (simp_all add: clean_def non_blank_def strip_def lstrip_def is_space_def)

lemma gate_roundtrip [simp]: "wf_gate c \<Longrightarrow> gate_item (JObj (gate_to_dict c)) = Inr c"
  by (simp add: gate_item_def gate_from_dict_def gate_to_dict_def gate_fields_def wf_gate_def contract_simps)

lemma gates_roundtrip [simp]: "list_all wf_gate cs \<Longrightarrow> mapr gate_item (map (\<lambda>c. JObj (gate_to_dict c)) cs) = Inr cs"
  using mapr_map_Inr [of cs gate_item "\<lambda>c. JObj (gate_to_dict c)" id] by (simp add: list_all_iff)

lemma gates_wf: "list_all2 (\<lambda>x y. gate_item x = Inr y) xs cs \<Longrightarrow> list_all wf_gate cs"
  by (induction rule: list_all2_induct) (auto dest: gate_item_wf)

lemma task_authority_from_dict_wf: "task_authority_from_dict d = Inr a \<Longrightarrow> wf_task_authority a"
  unfolding task_authority_from_dict_def wf_task_authority_def
  by (clarsimp simp: result_simps field_Inr Let_def canonical_decision_gate_contracts_def split: if_split_asm)
    (auto dest: ref_from_dict_wf task_from_dict_wf gates_wf clean_currency)

lemma task_authority_roundtrip: "wf_task_authority a \<Longrightarrow> task_authority_from_dict (task_authority_to_dict a) = Inr a"
  by (simp add: task_authority_from_dict_def task_authority_to_dict_def task_authority_fields_def wf_task_authority_def
      schema_is_def contract_simps at_least_def task_roundtrip clean_list_def Let_def)

text \<open>C26. Every authority contract that is read back from storage is the one that was written: a
  Project, Program, compiled Goal or compiled Task authority accepted by its \<open>from_dict\<close> is
  well formed, and the document its \<open>to_dict\<close> writes decodes to itself.\<close>

theorem authority_roundtrip:
  "(project_from_dict d = Inr p \<longrightarrow> wf_project p \<and> project_from_dict (project_to_dict p) = Inr p) \<and>
   (program_from_dict d = Inr g \<longrightarrow> wf_program g \<and> program_from_dict (program_to_dict g) = Inr g) \<and>
   (goal_authority_from_dict d = Inr ga \<longrightarrow> wf_goal_authority ga \<and> goal_authority_from_dict (goal_authority_to_dict ga) = Inr ga) \<and>
   (task_authority_from_dict d = Inr ta \<longrightarrow> wf_task_authority ta \<and> task_authority_from_dict (task_authority_to_dict ta) = Inr ta)"
  using project_from_dict_wf project_roundtrip program_from_dict_wf program_roundtrip goal_authority_from_dict_wf
    goal_authority_roundtrip task_authority_from_dict_wf task_authority_roundtrip by blast

text \<open>A compiled Task's decision gates are exact requests of that Task: for every required gate,
  in order, the stored contract names the gate's own capability, action and resource scheme, its
  resource is the only wildcard-free scope of that scheme the Task may write, and its request
  digest is that of the Task's only workflow step with this action and resource.\<close>

theorem decision_gates_exact:
  assumes "task_authority_from_dict d = Inr a"
  shows "map gc_gate_id (ta_decision_gate_contracts a) = ta_required_decision_gates a \<and>
     (\<forall>c \<in> set (ta_decision_gate_contracts a). \<exists>scheme.
        decision_gate_definition (gc_gate_id c) = Some (gc_capability c, gc_action c, scheme) \<and>
        filter (\<lambda>s. startswith (lower s) scheme \<and> CHR ''*'' \<notin> set s) (ts_write_scope (ta_task_spec a)) = [gc_resource c] \<and>
        (\<exists>step. filter (\<lambda>s. step_action s = gc_action c \<and> step_resource s = gc_resource c)
                  (ts_workflow_steps (ta_task_spec a)) = [step] \<and> step_request_digest step = gc_request_digest c))"
proof -
  have one: "\<exists>scheme. decision_gate_definition (gc_gate_id c) = Some (gc_capability c, gc_action c, scheme) \<and>
        filter (\<lambda>s. startswith (lower s) scheme \<and> CHR ''*'' \<notin> set s) (ts_write_scope t) = [gc_resource c] \<and>
        (\<exists>step. filter (\<lambda>s. step_action s = gc_action c \<and> step_resource s = gc_resource c)
                  (ts_workflow_steps t) = [step] \<and> step_request_digest step = gc_request_digest c)"
    if "gate_contract_of t g = Inr c" for t g c
  proof -
    from that obtain cap act scheme where d: "decision_gate_definition g = Some (cap, act, scheme)"
      by (auto simp: gate_contract_of_def bindr_eq_Inr)
    from that d obtain r where r: "filter (\<lambda>s. startswith (lower s) scheme \<and> CHR ''*'' \<notin> set s) (ts_write_scope t) = [r]"
      by (auto simp: gate_contract_of_def split: list.split_asm)
    from that d r obtain st where "filter (\<lambda>s. step_action s = act \<and> step_resource s = r) (ts_workflow_steps t) = [st]"
      by (auto simp: gate_contract_of_def split: list.split_asm)
    with that d r show ?thesis by (auto simp: gate_contract_of_def)
  qed
  from task_authority_from_dict_wf [OF assms] have
    "map gc_gate_id (ta_decision_gate_contracts a) = ta_required_decision_gates a"
    "list_all2 (\<lambda>g c. gate_contract_of (ta_task_spec a) g = Inr c) (ta_required_decision_gates a) (ta_decision_gate_contracts a)"
    by (simp_all add: wf_task_authority_def canonical_decision_gate_contracts_def result_simps)
  moreover from this(2) have "\<exists>g. gate_contract_of (ta_task_spec a) g = Inr c" if "c \<in> set (ta_decision_gate_contracts a)" for c
    using that by (auto simp: list_all2_conv_all_nth in_set_conv_nth)
  ultimately show ?thesis using one by blast
qed

section \<open>Instances\<close>

definition sample_digest :: string where
  "sample_digest = replicate 64 (CHR ''a'')"

definition gated_task :: task_spec where
  "gated_task = sample_task\<lparr>ts_capabilities := [WRITE_LOCAL, REPO_REMOTE], ts_write_scope := [''/work/out'', ''repo://app/main''],
     ts_read_scope := [],
     ts_workflow_steps := [\<lparr>step_id = ''s1'', step_adapter = ''fake-provider'', step_action = ''merge'',
       step_resource = ''repo://app/main'', step_request_digest = sample_digest\<rparr>]\<rparr>"

definition sample_bounds :: authority_bounds where
  "sample_bounds = \<lparr>ab_capabilities = [READ_LOCAL, WRITE_LOCAL, REPO_REMOTE], ab_read_scope = [''/data''],
     ab_write_scope = [''/work/out'', ''repo://app''], ab_forbidden_scope = [''/work/secret''],
     ab_required_runtime_surfaces = [], ab_provider_budget_minor_units = 10, ab_provider_call_limit = 2,
     ab_budget_currency = ''EUR'', ab_evaluator_required = False, ab_required_decision_gates = [''merge'']\<rparr>"

definition sample_project :: project_spec where
  "sample_project = \<lparr>pj_project_id = ''p1'', pj_version = 1, pj_target_outcome = ''ship'', pj_authority = sample_bounds\<rparr>"

definition sample_ref :: "string \<Rightarrow> string \<Rightarrow> authority_ref" where
  "sample_ref k i = \<lparr>ar_kind = k, ar_object_id = i, ar_version = 1, ar_digest = sample_digest\<rparr>"

definition sample_task_authority :: task_authority where
  "sample_task_authority = \<lparr>ta_version = 1, ta_project_ref = sample_ref ''project'' ''p1'',
     ta_program_ref = sample_ref ''program'' ''pg1'', ta_goal_ref = sample_ref ''goal'' ''g1'',
     ta_required_decision_gates = [''merge''],
     ta_decision_gate_contracts = [\<lparr>gc_gate_id = ''merge'', gc_capability = REPO_REMOTE, gc_action = ''merge'',
       gc_resource = ''repo://app/main'', gc_request_digest = sample_digest\<rparr>],
     ta_provider_budget_minor_units = 0, ta_provider_call_limit = 0, ta_budget_currency = ''EUR'', ta_task_spec = gated_task\<rparr>"

lemma sample_project_decodes: "project_from_dict (project_to_dict sample_project) = Inr sample_project"
  by code_simp

lemma sample_task_authority_decodes: "task_authority_from_dict (task_authority_to_dict sample_task_authority) = Inr sample_task_authority"
  by code_simp

lemma authority_roundtrip_witness:
  "project_from_dict (project_to_dict sample_project) = Inr sample_project \<and> wf_project sample_project \<and>
   wf_task_authority sample_task_authority"
  using authority_roundtrip [where d = "project_to_dict sample_project" and p = sample_project]
    authority_roundtrip [where d = "task_authority_to_dict sample_task_authority" and ta = sample_task_authority]
    sample_project_decodes sample_task_authority_decodes by blast

lemma decision_gates_exact_witness:
  "filter (\<lambda>s. startswith (lower s) ''repo://'' \<and> CHR ''*'' \<notin> set s) (ts_write_scope gated_task) = [''repo://app/main'']"
  using decision_gates_exact [OF sample_task_authority_decodes]
  by (simp add: sample_task_authority_def decision_gate_definition_def)

end
