(* ===== verification/Compiler.thy ===== *)
theory Compiler
  imports Scope
begin

text \<open>
  \<open>compiler.py\<close>: from a human authoring packet to an executable \<open>GoalSpec\<close> or \<open>TaskSpec\<close>.  A packet
  wraps the contract in \<open>goal_contract\<close> or \<open>task_packet\<close>, mixes executable with contextual fields
  and, for a Task, states its gates; a source without the wrapper is a contract already.  The
  lemmas show that gates are closed unless opened and that contextual fields grant nothing.
\<close>

section \<open>Packets\<close>

definition GOAL_EXECUTABLE_FIELDS :: "string list" where
  "GOAL_EXECUTABLE_FIELDS = [''goal_id'', ''target_outcome'', ''success_evidence_states'', ''owner_authority'',
     ''required_runtime_surfaces'', ''evaluator_required'', ''circuit_breakers'', ''non_goals'']"

definition GOAL_CONTEXTUAL_FIELDS :: "string list" where
  "GOAL_CONTEXTUAL_FIELDS = [''source_request'', ''context_pack'', ''project_adoption_ref'', ''integration_policy'',
     ''stop_routes'', ''closeout_shape'']"

definition GOAL_AUTHORITY_FIELDS :: "string list" where
  "GOAL_AUTHORITY_FIELDS = [''read_scope'', ''write_scope'', ''forbidden_scope'', ''allowed_capabilities'']"

definition GOAL_CIRCUIT_BREAKER_FIELDS :: "string list" where
  "GOAL_CIRCUIT_BREAKER_FIELDS = [''max_iterations_without_new_evidence'', ''provider_budget'']"

definition PROVIDER_BUDGET_FIELDS :: "string list" where
  "PROVIDER_BUDGET_FIELDS = [''currency'', ''max_minor_units'', ''max_calls'']"

definition TASK_EXECUTABLE_FIELDS :: "string list" where
  "TASK_EXECUTABLE_FIELDS = [''task_id'', ''parent_goal_id'', ''objective'', ''expected_delta'',
     ''primary_artifact_or_surface'', ''read_scope'', ''write_scope'', ''forbidden_scope'', ''capabilities'',
     ''evaluator_policy'', ''evaluator_required'', ''integration_required'', ''required_runtime_surfaces'', ''gates'',
     ''workflow_steps'', ''evidence_target'', ''max_attempts'']"

definition TASK_CONTEXTUAL_FIELDS :: "string list" where
  "TASK_CONTEXTUAL_FIELDS = [''dirty_boundary'', ''worktree_policy'', ''worker_policy'', ''procedure'',
     ''verification_route'', ''integration_route'', ''stop_conditions'', ''close_condition'',
     ''delete_or_retire_condition'', ''requirement_closure_map'', ''non_claims'']"

record compilation =
  cr_kind :: string
  cr_source_digest :: string
  cr_compiled :: "(string \<times> json) list"
  cr_non_executable_authoring_fields :: "string list"
  cr_warnings :: "string list"

fun object_of :: "json \<Rightarrow> (string \<times> json) list res" where
  "object_of (JObj d) = Inr d"
| "object_of v = Inl (ContractError ''must be an object'')"

definition reject_unknown :: "(string \<times> json) list \<Rightarrow> string list \<Rightarrow> unit res" where
  "reject_unknown d allowed = ensure (set (keys d) \<subseteq> set allowed) (ContractError ''contains unsupported fields'')"

definition ignored_fields :: "(string \<times> json) list \<Rightarrow> string list \<Rightarrow> string list" where
  "ignored_fields packet executable = sort (remdups (filter (\<lambda>k. k \<notin> set executable) (keys packet)))"

definition field_warning :: "string \<Rightarrow> string" where
  "field_warning name = ''authoring field is contextual, not executable authority: '' @ name"

definition compiled_result :: "(string \<Rightarrow> string) \<Rightarrow> string \<Rightarrow> json \<Rightarrow> (string \<times> json) list \<Rightarrow> string list \<Rightarrow> compilation" where
  "compiled_result sha k source compiled ignored = \<lparr>cr_kind = k, cr_source_digest = content_hash sha source,
     cr_compiled = compiled, cr_non_executable_authoring_fields = ignored, cr_warnings = map field_warning ignored\<rparr>"

section \<open>Goals\<close>

definition goal_of_packet ::
    "(string \<times> json) list \<Rightarrow> (string \<times> json) list \<Rightarrow> (string \<times> json) list \<Rightarrow> (string \<times> json) list \<Rightarrow> (string \<times> json) list" where
  "goal_of_packet packet authority breakers provider_budget =
     [(''goal_id'', get_or ''goal_id'' JNull packet),
      (''target_outcome'', get_or ''target_outcome'' JNull packet),
      (''success_evidence_states'', get_or ''success_evidence_states'' (JList []) packet),
      (''read_scope'', get_or ''read_scope'' (JList []) authority),
      (''write_scope'', get_or ''write_scope'' (JList []) authority),
      (''forbidden_scope'', get_or ''forbidden_scope'' (JList []) authority),
      (''allowed_capabilities'', get_or ''allowed_capabilities'' (JList [JStr ''read_local'']) authority),
      (''required_runtime_surfaces'', get_or ''required_runtime_surfaces'' (JList []) packet),
      (''evaluator_required'', get_or ''evaluator_required'' (JBool False) packet),
      (''max_iterations_without_evidence'', get_or ''max_iterations_without_new_evidence'' (JInt 3) breakers),
      (''provider_budget_minor_units'', get_or ''max_minor_units'' (JInt 0) provider_budget),
      (''provider_call_limit'', get_or ''max_calls'' (JInt 0) provider_budget),
      (''budget_currency'', get_or ''currency'' (JStr ''USD'') provider_budget),
      (''non_goals'', get_or ''non_goals'' (JList []) packet)]"

definition compile_goal :: "(string \<Rightarrow> string) \<Rightarrow> json \<Rightarrow> (goal_spec \<times> compilation) res" where
  "compile_goal sha authoring =
     bindr (object_of authoring) (\<lambda>source.
     case map_of source ''goal_contract'' of
       None \<Rightarrow>
         bindr (goal_from_dict source) (\<lambda>spec.
         bindr (validate_goal_scope spec) (\<lambda>_.
           Inr (spec, compiled_result sha ''GoalSpec'' authoring (goal_to_dict spec) [])))
     | Some raw \<Rightarrow>
         bindr (object_of raw) (\<lambda>packet.
         bindr (object_of (get_or ''owner_authority'' (JObj []) packet)) (\<lambda>authority.
         bindr (object_of (get_or ''circuit_breakers'' (JObj []) packet)) (\<lambda>breakers.
         bindr (reject_unknown packet (GOAL_EXECUTABLE_FIELDS @ GOAL_CONTEXTUAL_FIELDS)) (\<lambda>_.
         bindr (reject_unknown authority GOAL_AUTHORITY_FIELDS) (\<lambda>_.
         bindr (reject_unknown breakers GOAL_CIRCUIT_BREAKER_FIELDS) (\<lambda>_.
         bindr (object_of (get_or ''provider_budget'' (JObj []) breakers)) (\<lambda>provider_budget.
         bindr (reject_unknown provider_budget PROVIDER_BUDGET_FIELDS) (\<lambda>_.
         bindr (goal_from_dict (goal_of_packet packet authority breakers provider_budget)) (\<lambda>spec.
         bindr (validate_goal_scope spec) (\<lambda>_.
           Inr (spec, compiled_result sha ''GoalSpec'' authoring (goal_to_dict spec)
                 (ignored_fields packet GOAL_EXECUTABLE_FIELDS)))))))))))))"

section \<open>Tasks\<close>

definition GATE_CAPABILITIES :: "(string \<times> string) list" where
  "GATE_CAPABILITIES = [(''network'', ''network''), (''external_download'', ''external_download''),
     (''repo_remote'', ''repo_remote''), (''server_write'', ''server_write''), (''provider'', ''provider_cost''),
     (''public_release'', ''public_release''), (''destructive_operations'', ''destructive'')]"

text \<open>Membership in the two sets of gate states.  In Python \<open>1 == True\<close> and \<open>0 == False\<close>, and a list
  or an object is not hashable.\<close>

fun gate_open :: "json \<Rightarrow> bool" where
  "gate_open (JBool b) = b"
| "gate_open (JInt i) = (i = 1)"
| "gate_open (JStr s) = (s \<in> set [''open'', ''allowed'', ''scoped_open'', ''write_allowed'', ''push_pr_allowed''])"
| "gate_open v = False"

fun gate_closed :: "json \<Rightarrow> bool" where
  "gate_closed JNull = True"
| "gate_closed (JBool b) = (\<not> b)"
| "gate_closed (JInt i) = (i = 0)"
| "gate_closed (JStr s) = (s \<in> set [''closed'', ''denied'', ''none''])"
| "gate_closed v = False"

fun hashable :: "json \<Rightarrow> bool" where
  "hashable (JList _) = False"
| "hashable (JObj _) = False"
| "hashable _ = True"

definition check_gate :: "(string \<times> json) list \<Rightarrow> json list \<Rightarrow> string \<times> string \<Rightarrow> unit res" where
  "check_gate gates capabilities gc = (case gc of (gate, capability) \<Rightarrow>
     (case map_of gates gate of
        None \<Rightarrow> ensure (JStr capability \<notin> set capabilities) (ContractError ''capability requires explicit open gate'')
      | Some v \<Rightarrow>
          if \<not> hashable v then Inl (PyTypeError ''unhashable'')
          else if \<not> gate_open v \<and> \<not> gate_closed v then Inl (ContractError ''gate has unsupported state'')
          else if gate_open v \<and> JStr capability \<notin> set capabilities
          then Inl (ContractError ''gate is open but exact capability is absent'')
          else ensure (\<not> (gate_closed v \<and> JStr capability \<in> set capabilities))
                 (ContractError ''gate is closed but capability is present'')))"

definition evaluator_policy_required :: "json \<Rightarrow> bool res" where
  "evaluator_policy_required v =
     (if \<not> hashable v then Inl (PyTypeError ''unhashable'')
      else if v = JStr ''not_required'' then Inr False
      else if v = JStr ''required_before_integration'' \<or> v = JStr ''required_before_claim'' then Inr True
      else Inl (ContractError ''evaluator_policy is not supported''))"

definition check_explicit_evaluator :: "bool \<Rightarrow> json \<Rightarrow> unit res" where
  "check_explicit_evaluator required v = (case v of
       JNull \<Rightarrow> Inr ()
     | JBool b \<Rightarrow> ensure (b = required) (ContractError ''evaluator_required contradicts evaluator_policy; policy is authoritative'')
     | _ \<Rightarrow> Inl (ContractError ''evaluator_required must be a boolean''))"

definition task_of_packet :: "(string \<times> json) list \<Rightarrow> json list \<Rightarrow> bool \<Rightarrow> (string \<times> json) list" where
  "task_of_packet packet capabilities evaluator_required =
     [(''task_id'', get_or ''task_id'' JNull packet),
      (''goal_id'', get_or ''parent_goal_id'' JNull packet),
      (''objective'', get_or ''objective'' JNull packet),
      (''expected_delta'', get_or ''expected_delta'' JNull packet),
      (''primary_surface'', get_or ''primary_artifact_or_surface'' JNull packet),
      (''evidence_target'', get_or ''evidence_target'' JNull packet),
      (''capabilities'', JList capabilities),
      (''read_scope'', get_or ''read_scope'' (JList []) packet),
      (''write_scope'', get_or ''write_scope'' (JList []) packet),
      (''forbidden_scope'', get_or ''forbidden_scope'' (JList []) packet),
      (''required_runtime_surfaces'', get_or ''required_runtime_surfaces'' (JList []) packet),
      (''evaluator_required'', JBool evaluator_required),
      (''integration_required'', get_or ''integration_required'' (JBool True) packet),
      (''workflow_steps'', get_or ''workflow_steps'' (JList []) packet),
      (''max_attempts'', get_or ''max_attempts'' (JInt 3) packet)]"

fun list_of_json :: "json \<Rightarrow> json list res" where
  "list_of_json (JList vs) = Inr vs"
| "list_of_json v = Inl (ContractError ''capabilities must be a list'')"

definition compile_task :: "(string \<Rightarrow> string) \<Rightarrow> goal_spec \<Rightarrow> json \<Rightarrow> (task_spec \<times> compilation) res" where
  "compile_task sha goal authoring =
     bindr (object_of authoring) (\<lambda>source.
     case map_of source ''task_packet'' of
       None \<Rightarrow>
         bindr (task_from_dict source) (\<lambda>spec.
         bindr (validate_task_within_goal goal spec) (\<lambda>_.
           Inr (spec, compiled_result sha ''TaskSpec'' authoring (task_to_dict spec) [])))
     | Some raw \<Rightarrow>
         bindr (object_of raw) (\<lambda>packet.
         bindr (reject_unknown packet (TASK_EXECUTABLE_FIELDS @ TASK_CONTEXTUAL_FIELDS)) (\<lambda>_.
         bindr (evaluator_policy_required (get_or ''evaluator_policy'' (JStr ''not_required'') packet)) (\<lambda>evaluator_required.
         bindr (list_of_json (get_or ''capabilities'' (JList [JStr ''read_local'']) packet)) (\<lambda>capabilities.
         bindr (object_of (get_or ''gates'' (JObj []) packet)) (\<lambda>gates.
         if \<not> set (keys gates) \<subseteq> set (map fst GATE_CAPABILITIES) then Inl (ContractError ''unsupported gates'')
         else
         bindr (mapr (check_gate gates capabilities) GATE_CAPABILITIES) (\<lambda>_.
         bindr (check_explicit_evaluator evaluator_required (get_or ''evaluator_required'' JNull packet)) (\<lambda>_.
         bindr (task_from_dict (task_of_packet packet capabilities evaluator_required)) (\<lambda>spec.
         bindr (validate_task_within_goal goal spec) (\<lambda>_.
           Inr (spec, compiled_result sha ''TaskSpec'' authoring (task_to_dict spec)
                 (ignored_fields packet TASK_EXECUTABLE_FIELDS))))))))))))"

section \<open>What a compiled contract is\<close>

lemma object_of_Inr [simp]: "object_of v = Inr d \<longleftrightarrow> v = JObj d"
  by (cases v) auto

lemma list_of_json_Inr [simp]: "list_of_json v = Inr vs \<longleftrightarrow> v = JList vs"
  by (cases v) auto

lemma goal_accepted: "goal_from_dict d = Inr g \<Longrightarrow> wf_goal g \<and> goal_from_dict (goal_to_dict g) = Inr g"
  using goal_from_dict_wf goal_roundtrip by blast

lemma task_accepted: "task_from_dict d = Inr t \<Longrightarrow> wf_task t \<and> task_from_dict (task_to_dict t) = Inr t"
  using task_from_dict_wf task_roundtrip by blast

lemma compile_goal_sound:
  assumes "compile_goal sha v = Inr (g, r)"
  shows "wf_goal g \<and> validate_goal_scope g = Inr () \<and> goal_from_dict (cr_compiled r) = Inr g \<and>
     cr_source_digest r = content_hash sha v"
proof -
  have "\<exists>d l. goal_from_dict d = Inr g \<and> validate_goal_scope g = Inr () \<and> r = compiled_result sha ''GoalSpec'' v (goal_to_dict g) l"
    using assms by (auto simp: compile_goal_def bindr_eq_Inr split: option.splits if_splits)
  then show ?thesis by (auto simp: compiled_result_def dest: goal_accepted)
qed

lemma compile_task_sound:
  assumes "compile_task sha goal v = Inr (t, r)"
  shows "wf_task t \<and> validate_task_within_goal goal t = Inr () \<and> task_from_dict (cr_compiled r) = Inr t \<and>
     cr_source_digest r = content_hash sha v"
proof -
  have "\<exists>d l. task_from_dict d = Inr t \<and> validate_task_within_goal goal t = Inr () \<and> r = compiled_result sha ''TaskSpec'' v (task_to_dict t) l"
    using assms by (auto simp: compile_task_def bindr_eq_Inr split: option.splits if_splits)
  then show ?thesis by (auto simp: compiled_result_def dest: task_accepted)
qed


section \<open>Gates\<close>

lemma check_gate_Inr:
  "check_gate gates caps (g, c) = Inr u \<Longrightarrow>
     JStr c \<in> set caps \<longleftrightarrow> (\<exists>v. map_of gates g = Some v \<and> gate_open v)"
  by (auto simp: check_gate_def split: option.splits if_splits)

lemma capabilities_mem:
  "capabilities_of (JList vs) = Inr cs \<Longrightarrow> c \<in> set cs \<longleftrightarrow> JStr (capability_value c) \<in> set vs"
proof -
  assume "capabilities_of (JList vs) = Inr cs"
  then have "list_all2 (\<lambda>v c. v = JStr (capability_value c)) vs cs"
    by (simp add: capabilities_of_def iter_json_def result_simps capability_of_Inr)
  then show ?thesis by (induction rule: list_all2_induct) auto
qed

text \<open>C28.  Gates are closed unless the packet opens them: a Task compiled from a packet has a gated
  capability exactly when the packet states that capability's gate and states it open; an absent,
  closed or unknown gate state never lets the capability through.\<close>

theorem gates_fail_closed:
  assumes "compile_task sha goal (JObj source) = Inr (t, r)" "map_of source ''task_packet'' = Some (JObj packet)"
    and "(gate, capability_value c) \<in> set GATE_CAPABILITIES"
  shows "c \<in> set (ts_capabilities t) \<longleftrightarrow>
     (\<exists>gates v. get_or ''gates'' (JObj []) packet = JObj gates \<and> map_of gates gate = Some v \<and> gate_open v)"
proof -
  from assms(1, 2) obtain ev caps gates us where
    g: "get_or ''gates'' (JObj []) packet = JObj gates"
    and chk: "mapr (check_gate gates caps) GATE_CAPABILITIES = Inr us"
    and t: "task_from_dict (task_of_packet packet caps ev) = Inr t"
    by (auto simp: compile_task_def bindr_eq_Inr split: if_split_asm)
  from mapr_normalize [OF chk assms(3)] obtain u where "check_gate gates caps (gate, capability_value c) = Inr u" by blast
  moreover from t have "capabilities_of (JList caps) = Inr (ts_capabilities t)"
    by (auto simp: task_from_dict_def bindr_eq_Inr except_map_eq_Inr task_of_packet_def get_or_def)
  ultimately show ?thesis using check_gate_Inr capabilities_mem g by auto
qed

section \<open>Contextual fields\<close>

definition only :: "string list \<Rightarrow> (string \<times> json) list \<Rightarrow> (string \<times> json) list" where
  "only ks d = filter (\<lambda>kv. fst kv \<in> set ks) d"

lemma get_or_filter:
  assumes "k \<in> set ks"
  shows "get_or k d (only ks packet) = get_or k d packet"
proof -
  have "map_of (only ks packet) k = map_of packet k"
    using assms by (induction packet) (auto simp: only_def)
  then show ?thesis by (simp add: get_or_def)
qed

lemma TASK_EXECUTABLE_FIELDS_mem:
  "k \<in> set TASK_EXECUTABLE_FIELDS \<longleftrightarrow> k \<in> {''task_id'', ''parent_goal_id'', ''objective'', ''expected_delta'',
     ''primary_artifact_or_surface'', ''read_scope'', ''write_scope'', ''forbidden_scope'', ''capabilities'',
     ''evaluator_policy'', ''evaluator_required'', ''integration_required'', ''required_runtime_surfaces'', ''gates'',
     ''workflow_steps'', ''evidence_target'', ''max_attempts''}"
  by (simp add: TASK_EXECUTABLE_FIELDS_def)

lemma GOAL_EXECUTABLE_FIELDS_mem:
  "k \<in> set GOAL_EXECUTABLE_FIELDS \<longleftrightarrow> k \<in> {''goal_id'', ''target_outcome'', ''success_evidence_states'', ''owner_authority'',
     ''required_runtime_surfaces'', ''evaluator_required'', ''circuit_breakers'', ''non_goals''}"
  by (simp add: GOAL_EXECUTABLE_FIELDS_def)

lemma task_of_packet_filter:
  "task_of_packet (only TASK_EXECUTABLE_FIELDS packet) caps ev = task_of_packet packet caps ev"
  by (simp add: task_of_packet_def get_or_filter TASK_EXECUTABLE_FIELDS_mem)

lemma goal_of_packet_filter:
  "goal_of_packet (only GOAL_EXECUTABLE_FIELDS packet) a b p = goal_of_packet packet a b p"
  by (simp add: goal_of_packet_def get_or_filter GOAL_EXECUTABLE_FIELDS_mem)

definition contract_of :: "('s \<times> compilation) res \<Rightarrow> ('s \<times> (string \<times> json) list) res" where
  "contract_of c = bindr c (\<lambda>(s, r). Inr (s, cr_compiled r))"

lemma contract_of_simps [simp]:
  "contract_of (Inl e) = Inl e" "contract_of (Inr (s, r)) = Inr (s, cr_compiled r)"
  "contract_of (bindr x f) = bindr x (\<lambda>v. contract_of (f v))"
  "contract_of (if b then m else n) = (if b then contract_of m else contract_of n)"
  by (auto simp: contract_of_def bindr_def split: sum.splits)

lemma reject_unknown_filter:
  "reject_unknown (only ks packet) (ks @ ls) = Inr ()"
  by (auto simp: reject_unknown_def only_def keys_def)

lemma packet_known: "set (keys d) \<subseteq> set ks \<Longrightarrow> reject_unknown d ks = Inr ()"
  by (simp add: reject_unknown_def)

text \<open>Contextual fields grant nothing: removing every field of a packet that is not executable
  changes neither the outcome of the compilation, refusals included, nor the compiled contract.\<close>

theorem contextual_fields_inert:
  assumes "set (keys packet) \<subseteq> set (TASK_EXECUTABLE_FIELDS @ TASK_CONTEXTUAL_FIELDS)"
    and "set (keys goal_packet) \<subseteq> set (GOAL_EXECUTABLE_FIELDS @ GOAL_CONTEXTUAL_FIELDS)"
    and "map_of source ''task_packet'' = Some (JObj packet)"
    and "map_of goal_source ''goal_contract'' = Some (JObj goal_packet)"
  shows "contract_of (compile_task sha goal (JObj source)) =
      contract_of (compile_task sha goal
        (JObj [(''task_packet'', JObj (only TASK_EXECUTABLE_FIELDS packet))])) \<and>
    contract_of (compile_goal sha (JObj goal_source)) =
      contract_of (compile_goal sha
        (JObj [(''goal_contract'', JObj (only GOAL_EXECUTABLE_FIELDS goal_packet))]))"
proof
  have k: "k \<in> set TASK_EXECUTABLE_FIELDS \<Longrightarrow>
      get_or k d (only TASK_EXECUTABLE_FIELDS packet) = get_or k d packet" for k d
    by (rule get_or_filter)
  show "contract_of (compile_task sha goal (JObj source)) =
      contract_of (compile_task sha goal
        (JObj [(''task_packet'', JObj (only TASK_EXECUTABLE_FIELDS packet))]))"
    using assms(3) packet_known [OF assms(1)]
    by (simp add: compile_task_def reject_unknown_filter task_of_packet_filter k TASK_EXECUTABLE_FIELDS_mem compiled_result_def cong: if_cong)
  have k: "k \<in> set GOAL_EXECUTABLE_FIELDS \<Longrightarrow>
      get_or k d (only GOAL_EXECUTABLE_FIELDS goal_packet) = get_or k d goal_packet" for k d
    by (rule get_or_filter)
  show "contract_of (compile_goal sha (JObj goal_source)) =
      contract_of (compile_goal sha
        (JObj [(''goal_contract'', JObj (only GOAL_EXECUTABLE_FIELDS goal_packet))]))"
    using assms(4) packet_known [OF assms(2)]
    by (simp add: compile_goal_def reject_unknown_filter goal_of_packet_filter k GOAL_EXECUTABLE_FIELDS_mem compiled_result_def)
qed

section \<open>A packet compiled\<close>

definition sample_goal_packet :: "(string \<times> json) list" where
  "sample_goal_packet = [(''goal_id'', JStr ''g''), (''target_outcome'', JStr ''ship''),
     (''success_evidence_states'', JList [JStr ''structure_verification'']),
     (''owner_authority'', JObj [(''write_scope'', JList [JStr ''src/**'']), (''allowed_capabilities'', JList [JStr ''network''])]),
     (''closeout_shape'', JStr ''report'')]"

definition sample_task_packet :: "(string \<times> json) list" where
  "sample_task_packet = [(''task_id'', JStr ''t''), (''parent_goal_id'', JStr ''g''), (''objective'', JStr ''fetch''),
     (''expected_delta'', JStr ''file''), (''primary_artifact_or_surface'', JStr ''src/a''), (''evidence_target'', JStr ''structure_verification''),
     (''capabilities'', JList [JStr ''network'']), (''gates'', JObj [(''network'', JStr ''open'')]),
     (''procedure'', JStr ''by hand'')]"

definition sample_compiled_goal :: "(goal_spec \<times> compilation) res" where
  "sample_compiled_goal = compile_goal id (JObj [(''goal_contract'', JObj sample_goal_packet)])"

definition sample_network_goal :: goal_spec where
  "sample_network_goal = (case sample_compiled_goal of Inr (g, r) \<Rightarrow> g | Inl e \<Rightarrow> undefined)"

lemma sample_goal_compiles: "\<exists>r. compile_goal id (JObj [(''goal_contract'', JObj sample_goal_packet)]) = Inr (sample_network_goal, r)"
proof -
  have "case sample_compiled_goal of Inr _ \<Rightarrow> True | Inl _ \<Rightarrow> False" by code_simp
  then show ?thesis by (auto simp: sample_network_goal_def sample_compiled_goal_def split: sum.splits)
qed

lemma sample_task_compiles:
  "\<exists>t q. compile_task id sample_network_goal (JObj [(''task_packet'', JObj sample_task_packet)]) = Inr (t, q)"
proof -
  have "case compile_task id sample_network_goal (JObj [(''task_packet'', JObj sample_task_packet)]) of
      Inr _ \<Rightarrow> True | Inl _ \<Rightarrow> False" by code_simp
  then show ?thesis by (auto split: sum.splits)
qed


theorem gates_fail_closed_witness:
  "\<exists>t r. compile_task id sample_network_goal (JObj [(''task_packet'', JObj sample_task_packet)]) = Inr (t, r) \<and>
     NETWORK \<in> set (ts_capabilities t) \<and> PROVIDER_COST \<notin> set (ts_capabilities t)"
proof -
  from sample_task_compiles obtain t r where
    c: "compile_task id sample_network_goal (JObj [(''task_packet'', JObj sample_task_packet)]) = Inr (t, r)" by blast
  have p: "map_of [(''task_packet'', JObj sample_task_packet)] ''task_packet'' = Some (JObj sample_task_packet)" by simp
  have "NETWORK \<in> set (ts_capabilities t) \<and> PROVIDER_COST \<notin> set (ts_capabilities t)"
    using gates_fail_closed [OF c p, of "''network''" NETWORK] gates_fail_closed [OF c p, of "''provider''" PROVIDER_COST]
    by (simp add: GATE_CAPABILITIES_def sample_task_packet_def get_or_def)
  with c show ?thesis by blast
qed

theorem contextual_fields_inert_witness:
  "contract_of (compile_task id sample_network_goal (JObj [(''task_packet'', JObj sample_task_packet)])) =
     contract_of (compile_task id sample_network_goal
       (JObj [(''task_packet'', JObj (filter (\<lambda>kv. fst kv \<noteq> ''procedure'') sample_task_packet))]))"
proof -
  have p: "set (keys sample_task_packet) \<subseteq> set (TASK_EXECUTABLE_FIELDS @ TASK_CONTEXTUAL_FIELDS)"
    and g: "set (keys sample_goal_packet) \<subseteq> set (GOAL_EXECUTABLE_FIELDS @ GOAL_CONTEXTUAL_FIELDS)" by (code_simp+)
  have only_exec: "only TASK_EXECUTABLE_FIELDS sample_task_packet = filter (\<lambda>kv. fst kv \<noteq> ''procedure'') sample_task_packet"
    by code_simp
  show ?thesis
    using contextual_fields_inert [OF p g, of "[(''task_packet'', JObj sample_task_packet)]"
        "[(''goal_contract'', JObj sample_goal_packet)]" id sample_network_goal] by (simp add: only_exec)
qed

end
