(* ===== verification/Authority_Compiler.thy ===== *)
theory Authority_Compiler
  imports Authority Compiler
begin

text \<open>
  \<open>authority_compiler.py\<close>: compilation of a Project, Program, Goal and Task into versioned
  authority, each level checked against the exact version of its parent.  The provider of current
  Program versions is a trusted service outside the module, a parameter.  The depth-first search
  of \<open>validate_program_graph\<close> runs on fuel; \<open>program_graph_search_total\<close> shows that one unit
  more than there are programs is enough.
\<close>

section \<open>Programs\<close>

type_synonym program_provider = "authority_ref \<Rightarrow> string \<Rightarrow> program_spec option"

definition canonical_project :: "project_spec \<Rightarrow> project_spec res" where
  "canonical_project p = project_from_dict (project_to_dict p)"

definition canonical_program :: "program_spec \<Rightarrow> program_spec res" where
  "canonical_program p = program_from_dict (program_to_dict p)"

definition goal_bounds :: "goal_spec \<Rightarrow> string list \<Rightarrow> authority_bounds" where
  "goal_bounds g decision_gates = \<lparr>ab_capabilities = gs_allowed_capabilities g, ab_read_scope = gs_read_scope g,
     ab_write_scope = gs_write_scope g, ab_forbidden_scope = gs_forbidden_scope g,
     ab_required_runtime_surfaces = gs_required_runtime_surfaces g,
     ab_provider_budget_minor_units = gs_provider_budget_minor_units g,
     ab_provider_call_limit = gs_provider_call_limit g, ab_budget_currency = gs_budget_currency g,
     ab_evaluator_required = gs_evaluator_required g, ab_required_decision_gates = decision_gates\<rparr>"

text \<open>The inner function \<open>visit\<close> with its two sets \<open>(visiting, visited)\<close>.  \<open>None\<close> is running out
  of fuel, \<open>Some (Inl e)\<close> an exception.\<close>

type_synonym dfs = "string list \<times> string list"

fun visit_each :: "(string \<Rightarrow> dfs \<Rightarrow> dfs res option) \<Rightarrow> string list \<Rightarrow> dfs \<Rightarrow> dfs res option" where
  "visit_each f [] s = Some (Inr s)"
| "visit_each f (x # xs) s = (case f x s of Some (Inr s') \<Rightarrow> visit_each f xs s' | r \<Rightarrow> r)"

definition known_dependencies :: "(string \<Rightarrow> program_spec option) \<Rightarrow> program_spec \<Rightarrow> string list" where
  "known_dependencies by_id p = filter (\<lambda>d. by_id d \<noteq> None) (map ar_object_id (pg_dependency_refs p))"

fun visit :: "nat \<Rightarrow> (string \<Rightarrow> program_spec option) \<Rightarrow> string \<Rightarrow> dfs \<Rightarrow> dfs res option" where
  "visit 0 by_id program_id s = None"
| "visit (Suc n) by_id program_id (visiting, visited) =
     (if program_id \<in> set visiting then Some (Inl (ContractError ''program dependency cycle detected''))
      else if program_id \<in> set visited then Some (Inr (visiting, visited))
      else case by_id program_id of
          None \<Rightarrow> Some (Inl (PyKeyError program_id))
        | Some p \<Rightarrow>
            (case visit_each (visit n by_id) (known_dependencies by_id p) (program_id # visiting, visited) of
               Some (Inr (visiting', visited')) \<Rightarrow> Some (Inr (removeAll program_id visiting', program_id # visited'))
             | r \<Rightarrow> r))"

definition programs_by_id :: "program_spec list \<Rightarrow> string \<Rightarrow> program_spec option" where
  "programs_by_id programs = map_of (map (\<lambda>p. (pg_program_id p, p)) programs)"

definition search_graph :: "nat \<Rightarrow> program_spec list \<Rightarrow> dfs res option" where
  "search_graph fuel programs =
     visit_each (visit fuel (programs_by_id programs)) (map pg_program_id programs) ([], [])"

definition check_dependency ::
    "(string \<Rightarrow> string) \<Rightarrow> (string \<Rightarrow> program_spec option) \<Rightarrow> program_spec \<Rightarrow> authority_ref \<Rightarrow> unit res" where
  "check_dependency sha by_id program dependency = (case by_id (ar_object_id dependency) of
       None \<Rightarrow> Inl (ContractError ''program dependency ref is missing or stale'')
     | Some t \<Rightarrow>
         if dependency \<noteq> program_reference sha t then Inl (ContractError ''program dependency ref is missing or stale'')
         else ensure (pg_wave t < pg_wave program) (ContractError ''program dependencies must be in an earlier wave''))"

definition check_program ::
    "(string \<Rightarrow> string) \<Rightarrow> project_spec \<Rightarrow> (string \<Rightarrow> program_spec option) \<Rightarrow> program_spec \<Rightarrow> unit res" where
  "check_program sha project by_id program =
     (if pg_project_ref program \<noteq> project_reference sha project
      then Inl (ContractError ''program belongs to another project'')
      else
      bindr (validate_child_bounds (pj_authority project) (pg_authority program)) (\<lambda>_.
      bindr (mapr (check_dependency sha by_id program) (pg_dependency_refs program)) (\<lambda>_. Inr ())))"

definition validate_program_graph :: "(string \<Rightarrow> string) \<Rightarrow> project_spec \<Rightarrow> program_spec list \<Rightarrow> unit res" where
  "validate_program_graph sha project programs =
     (if \<not> distinct (map pg_program_id programs)
      then Inl (ContractError ''program graph contains duplicate program_id values'')
      else
      bindr (require (search_graph (Suc (length programs)) programs) (PyTypeError ''unreachable'')) (\<lambda>searched.
      bindr searched (\<lambda>_.
      bindr (mapr (check_program sha project (programs_by_id programs)) programs) (\<lambda>_. Inr ()))))"

definition compile_project :: "(string \<times> json) list \<Rightarrow> project_spec res" where
  "compile_project data = project_from_dict data"

definition check_current ::
    "(string \<Rightarrow> string) \<Rightarrow> program_provider option \<Rightarrow> project_spec \<Rightarrow> program_spec \<Rightarrow> unit res" where
  "check_current sha provider project program =
     (if pg_state program = PS_COMPILED then Inr ()
      else case provider of
          None \<Rightarrow> Inl (ContractError ''non-compiled Program requires a trusted current-state provider'')
        | Some current_program \<Rightarrow>
            (case current_program (project_reference sha project) (pg_program_id program) of
               None \<Rightarrow> Inl (ContractError ''Program is not the provider-verified current version'')
             | Some current \<Rightarrow>
                 bindr (canonical_program current) (\<lambda>c.
                   ensure (program_reference sha c = program_reference sha program)
                     (ContractError ''Program is not the provider-verified current version''))))"

definition check_graph_proof ::
    "(string \<Rightarrow> string) \<Rightarrow> program_spec list option \<Rightarrow> project_spec \<Rightarrow> program_spec \<Rightarrow> unit res" where
  "check_graph_proof sha program_graph project program =
     (if pg_dependency_refs program = [] then Inr ()
      else case program_graph of
          None \<Rightarrow> Inl (ContractError ''Program dependencies require a complete graph proof'')
        | Some graph \<Rightarrow>
            bindr (mapr canonical_program graph) (\<lambda>canonical_graph.
            if program_reference sha program \<notin> set (map (program_reference sha) canonical_graph)
            then Inl (ContractError ''Program graph proof does not contain the exact Program version'')
            else validate_program_graph sha project canonical_graph))"

definition compile_program ::
    "(string \<Rightarrow> string) \<Rightarrow> (string \<times> json) list \<Rightarrow> project_spec \<Rightarrow> program_spec list option \<Rightarrow>
     program_provider option \<Rightarrow> program_spec res" where
  "compile_program sha data project program_graph provider =
     bindr (canonical_project project) (\<lambda>cproject.
     bindr (program_from_dict data) (\<lambda>program.
     if pg_project_ref program \<noteq> project_reference sha cproject
     then Inl (ContractError ''program project_ref does not match exact ProjectSpec version/digest'')
     else
     bindr (validate_child_bounds (pj_authority cproject) (pg_authority program)) (\<lambda>_.
     bindr (check_current sha provider cproject program) (\<lambda>_.
     bindr (check_graph_proof sha program_graph cproject program) (\<lambda>_.
       Inr program)))))"

section \<open>Goals\<close>

definition validate_goal_authority ::
    "(string \<Rightarrow> string) \<Rightarrow> goal_authority \<Rightarrow> project_spec \<Rightarrow> program_spec \<Rightarrow> program_spec list option \<Rightarrow>
     program_provider option \<Rightarrow> goal_authority res" where
  "validate_goal_authority sha authority project program program_graph provider =
     bindr (canonical_project project) (\<lambda>cproject.
     bindr (compile_program sha (program_to_dict program) cproject program_graph provider) (\<lambda>cprogram.
     bindr (goal_authority_from_dict (goal_authority_to_dict authority)) (\<lambda>canonical.
     if program_terminal (pg_state cprogram) then Inl (ContractError ''terminal Program cannot accept a new Goal'')
     else if ga_project_ref canonical \<noteq> project_reference sha cproject
     then Inl (ContractError ''Goal cannot bypass Project authority'')
     else if ga_program_ref canonical \<noteq> program_reference sha cprogram
     then Inl (ContractError ''Goal cannot bypass Program authority'')
     else if ga_required_decision_gates canonical \<noteq> ab_required_decision_gates (pg_authority cprogram)
     then Inl (ContractError ''Goal decision gates do not match Program authority'')
     else
     bindr (validate_child_bounds (pg_authority cprogram)
              (goal_bounds (ga_goal_spec canonical) (ab_required_decision_gates (pg_authority cprogram)))) (\<lambda>_.
       Inr canonical))))"

definition compile_goal_authority ::
    "(string \<Rightarrow> string) \<Rightarrow> json \<Rightarrow> project_spec \<Rightarrow> program_spec \<Rightarrow> int \<Rightarrow> program_spec list option \<Rightarrow>
     program_provider option \<Rightarrow> (goal_authority \<times> compilation) res" where
  "compile_goal_authority sha authoring project program version program_graph provider =
     bindr (compile_goal sha authoring) (\<lambda>(goal, result).
     bindr (at_least 1 (JInt version)) (\<lambda>v.
     bindr (canonical_project project) (\<lambda>cproject.
     bindr (canonical_program program) (\<lambda>cprogram.
     bindr (validate_goal_authority sha
              \<lparr>ga_version = v, ga_project_ref = project_reference sha cproject,
               ga_program_ref = program_reference sha cprogram,
               ga_required_decision_gates = ab_required_decision_gates (pg_authority cprogram), ga_goal_spec = goal\<rparr>
              project program program_graph provider) (\<lambda>a.
       Inr (a, result))))))"

section \<open>Tasks\<close>

definition DECISION_GATE_CAPABILITIES :: "(string \<times> capability) list" where
  "DECISION_GATE_CAPABILITIES = [(''provider'', PROVIDER_COST), (''merge'', REPO_REMOTE), (''release'', PUBLIC_RELEASE)]"

definition check_gate_capability :: "task_spec \<Rightarrow> string \<Rightarrow> unit res" where
  "check_gate_capability task gate =
     bindr (require (map_of DECISION_GATE_CAPABILITIES gate)
              (ContractError ''Task decision gate has no explicit decision authority'')) (\<lambda>c.
       ensure (c \<in> set (ts_capabilities task)) (ContractError ''Task decision gate requires capability''))"

definition task_bounds :: "task_spec \<Rightarrow> int \<Rightarrow> int \<Rightarrow> string \<Rightarrow> string list \<Rightarrow> authority_bounds" where
  "task_bounds t budget calls currency decision_gates = \<lparr>ab_capabilities = ts_capabilities t, ab_read_scope = ts_read_scope t,
     ab_write_scope = ts_write_scope t, ab_forbidden_scope = ts_forbidden_scope t,
     ab_required_runtime_surfaces = ts_required_runtime_surfaces t, ab_provider_budget_minor_units = budget,
     ab_provider_call_limit = calls, ab_budget_currency = currency, ab_evaluator_required = ts_evaluator_required t,
     ab_required_decision_gates = decision_gates\<rparr>"

definition authority_bounds_of :: "task_authority \<Rightarrow> string list \<Rightarrow> authority_bounds" where
  "authority_bounds_of a = task_bounds (ta_task_spec a) (ta_provider_budget_minor_units a) (ta_provider_call_limit a)
     (ta_budget_currency a)"

definition validate_task_authority ::
    "(string \<Rightarrow> string) \<Rightarrow> task_authority \<Rightarrow> project_spec \<Rightarrow> program_spec \<Rightarrow> goal_authority \<Rightarrow>
     program_spec list option \<Rightarrow> program_provider option \<Rightarrow> task_authority res" where
  "validate_task_authority sha authority project program goal program_graph provider =
     bindr (canonical_project project) (\<lambda>cproject.
     bindr (compile_program sha (program_to_dict program) cproject program_graph provider) (\<lambda>cprogram.
     bindr (validate_goal_authority sha goal cproject cprogram program_graph provider) (\<lambda>cgoal.
     bindr (task_authority_from_dict (task_authority_to_dict authority)) (\<lambda>canonical.
     if program_terminal (pg_state cprogram) then Inl (ContractError ''terminal Program cannot accept a new Task'')
     else if ta_project_ref canonical \<noteq> project_reference sha cproject
     then Inl (ContractError ''Task cannot cross project authority'')
     else if ta_program_ref canonical \<noteq> program_reference sha cprogram
     then Inl (ContractError ''Task cannot bypass Program authority'')
     else if ta_goal_ref canonical \<noteq> goal_reference sha cgoal
     then Inl (ContractError ''Task cannot bypass Goal authority'')
     else if ta_required_decision_gates canonical \<noteq> ga_required_decision_gates cgoal
     then Inl (ContractError ''Task decision gates do not match compiled Goal authority'')
     else
     bindr (canonical_decision_gate_contracts (ta_task_spec canonical) (ta_required_decision_gates canonical)) (\<lambda>expected.
     if ta_decision_gate_contracts canonical \<noteq> expected
     then Inl (ContractError ''Task decision gate contracts do not match compiled Task scope'')
     else
     bindr (mapr (check_gate_capability (ta_task_spec canonical)) (ta_required_decision_gates canonical)) (\<lambda>_.
     if ''provider'' \<in> set (ta_required_decision_gates canonical) \<and>
        (ta_provider_budget_minor_units canonical < 1 \<or> ta_provider_call_limit canonical < 1)
     then Inl (ContractError ''Task provider decision gate requires a positive Task budget and call limit'')
     else if ts_goal_id (ta_task_spec canonical) \<noteq> gs_goal_id (ga_goal_spec cgoal)
     then Inl (ContractError ''Task goal_id does not match compiled Goal authority'')
     else
     bindr (validate_child_bounds
              (goal_bounds (ga_goal_spec cgoal) (ab_required_decision_gates (pg_authority cprogram)))
              (authority_bounds_of canonical (ab_required_decision_gates (pg_authority cprogram)))) (\<lambda>_.
       Inr canonical)))))))"

definition compile_task_authority ::
    "(string \<Rightarrow> string) \<Rightarrow> json \<Rightarrow> project_spec \<Rightarrow> program_spec \<Rightarrow> goal_authority \<Rightarrow> int \<Rightarrow> int \<Rightarrow> string option \<Rightarrow>
     int \<Rightarrow> program_spec list option \<Rightarrow> program_provider option \<Rightarrow> (task_authority \<times> compilation) res" where
  "compile_task_authority sha authoring project program goal budget calls budget_currency version program_graph provider =
     bindr (validate_goal_authority sha goal project program program_graph provider) (\<lambda>cgoal.
     bindr (compile_task sha (ga_goal_spec cgoal) authoring) (\<lambda>(task, result).
     let currency = upper (case budget_currency of
             None \<Rightarrow> gs_budget_currency (ga_goal_spec cgoal)
           | Some c \<Rightarrow> if c = [] then gs_budget_currency (ga_goal_spec cgoal) else c) in
     bindr (at_least 0 (JInt budget)) (\<lambda>b.
     bindr (at_least 0 (JInt calls)) (\<lambda>n.
     bindr (at_least 1 (JInt version)) (\<lambda>v.
     bindr (canonical_project project) (\<lambda>cproject.
     bindr (canonical_program program) (\<lambda>cprogram.
     bindr (canonical_decision_gate_contracts task (ga_required_decision_gates cgoal)) (\<lambda>contracts.
     bindr (validate_task_authority sha
              \<lparr>ta_version = v, ta_project_ref = project_reference sha cproject,
               ta_program_ref = program_reference sha cprogram, ta_goal_ref = goal_reference sha cgoal,
               ta_required_decision_gates = ga_required_decision_gates cgoal,
               ta_decision_gate_contracts = contracts, ta_provider_budget_minor_units = b,
               ta_provider_call_limit = n, ta_budget_currency = currency, ta_task_spec = task\<rparr>
              project program cgoal program_graph provider) (\<lambda>a.
       Inr (a, result))))))))))"

section \<open>The search of the program graph\<close>

definition depends :: "(string \<Rightarrow> program_spec option) \<Rightarrow> (string \<times> string) set" where
  "depends by_id = {(x, y). \<exists>p. by_id x = Some p \<and> y \<in> set (known_dependencies by_id p)}"

lemma visit_each_keeps:
  assumes "\<And>x d g' d'. f x (g, d) = Some (Inr (g', d')) \<Longrightarrow> g' = g"
    and "visit_each f xs (g, d) = Some (Inr (g', d'))"
  shows "g' = g"
  using assms(2) by (induction xs arbitrary: d) (auto split: option.splits sum.splits dest: assms(1))

lemma visit_keeps: "visit n by_id x (g, d) = Some (Inr (g', d')) \<Longrightarrow> g' = g"
proof (induction n arbitrary: x g d g' d')
  case (Suc n)
  then show ?case
    by (auto split: if_split_asm option.splits sum.splits dest!: visit_each_keeps [rotated])
qed simp

lemma visit_each_fails:
  assumes "\<And>x d g' d'. f x (g, d) = Some (Inr (g', d')) \<Longrightarrow> g' = g"
    and "visit_each f xs (g, d) = Some (Inl e)"
  shows "\<exists>x \<in> set xs. \<exists>d'. f x (g, d') = Some (Inl e)"
  using assms(2) by (induction xs arbitrary: d) (auto split: option.splits sum.splits dest: assms(1))

lemma visit_each_total:
  assumes "\<And>x d. f x (g, d) \<noteq> None" "\<And>x d g' d'. f x (g, d) = Some (Inr (g', d')) \<Longrightarrow> g' = g"
  shows "visit_each f xs (g, d) \<noteq> None"
  using assms by (induction xs arbitrary: d) (fastforce split: option.splits sum.splits)+

lemma visit_total: "finite (Map.dom by_id) \<Longrightarrow> card (Map.dom by_id - set g) < n \<Longrightarrow> visit n by_id x (g, d) \<noteq> None"
proof (induction n arbitrary: x g d)
  case (Suc n)
  show ?case
  proof (cases "x \<in> set g \<or> by_id x = None")
    case False
    then have "Map.dom by_id - set (x # g) \<subset> Map.dom by_id - set g" by auto
    with Suc.prems have less: "card (Map.dom by_id - set (x # g)) < n"
      by (meson finite_Diff less_Suc_eq_le order_less_le_trans psubset_card_mono)
    have "visit_each (visit n by_id) xs (x # g, d) \<noteq> None" for xs
      by (rule visit_each_total) (use Suc.IH [OF Suc.prems(1) less] visit_keeps in blast)+
    then show ?thesis by (auto simp del: not_None_eq split: option.splits sum.splits)
  qed auto
qed simp

lemma visit_cycle:
  assumes "visit n by_id x (g, d) = Some (Inl e)" "by_id x \<noteq> None" "\<forall>v \<in> set g. (v, x) \<in> (depends by_id)\<^sup>+"
  shows "\<not> acyclic (depends by_id)"
  using assms
proof (induction n arbitrary: x g d)
  case (Suc n)
  show ?case
  proof (cases "x \<in> set g")
    case True
    with Suc.prems(3) show ?thesis by (auto simp: acyclic_def)
  next
    case False
    with Suc.prems(1, 2) obtain p where p: "by_id x = Some p"
      and f: "visit_each (visit n by_id) (known_dependencies by_id p) (x # g, d) = Some (Inl e)"
      by (auto split: if_split_asm option.splits sum.splits)
    from f have "\<exists>y \<in> set (known_dependencies by_id p). \<exists>d'. visit n by_id y (x # g, d') = Some (Inl e)"
      by (rule visit_each_fails [rotated]) (rule visit_keeps)
    then obtain y d' where y: "y \<in> set (known_dependencies by_id p)" and e: "visit n by_id y (x # g, d') = Some (Inl e)"
      by blast
    from p y have xy: "(x, y) \<in> depends by_id" by (auto simp: depends_def)
    from y have "by_id y \<noteq> None" by (auto simp: known_dependencies_def)
    from Suc.IH [OF e this] Suc.prems(3) xy show ?thesis by (auto intro: trancl_into_trancl)
  qed
qed simp

text \<open>A search that succeeds has listed its nodes after their dependencies.\<close>

fun topological :: "('a \<Rightarrow> 'a set) \<Rightarrow> 'a list \<Rightarrow> bool" where
  "topological succ [] = True"
| "topological succ (x # xs) \<longleftrightarrow> succ x \<subseteq> set xs \<and> topological succ xs"

lemma topological_closed:
  assumes "topological (\<lambda>x. r `` {x}) xs" "(x, y) \<in> r\<^sup>*" "x \<in> set xs"
  shows "y \<in> set xs"
proof -
  have "topological (\<lambda>x. r `` {x}) ys \<Longrightarrow> u \<in> set ys \<Longrightarrow> (u, v) \<in> r \<Longrightarrow> v \<in> set ys" for u v ys
    by (induction ys) auto
  from assms(2, 3) this [OF assms(1)] show ?thesis by (induction rule: rtrancl_induct) auto
qed

lemma topological_acyclic:
  assumes "topological (\<lambda>x. r `` {x}) xs" "Domain r \<subseteq> set xs"
  shows "acyclic r"
proof -
  have "topological (\<lambda>x. r `` {x}) ys \<Longrightarrow> x \<in> set ys \<Longrightarrow> (x, x) \<notin> r\<^sup>+" for x ys
  proof (induction ys)
    case (Cons y ys)
    show ?case
    proof
      assume c: "(x, x) \<in> r\<^sup>+"
      then obtain z where z: "(x, z) \<in> r" "(z, x) \<in> r\<^sup>*" by (meson tranclD)
      have "x \<in> set ys"
      proof (cases "x = y")
        case True
        with Cons.prems(1) z(1) have "z \<in> set ys" "topological (\<lambda>x. r `` {x}) ys" by auto
        with z(2) show ?thesis using topological_closed by metis
      qed (use Cons.prems in simp)
      with Cons c show False by simp
    qed
  qed simp
  with assms show ?thesis unfolding acyclic_def by (metis Domain.DomainI subsetD tranclD)
qed

lemma visit_each_topological:
  assumes "\<And>x d g' d'. f x (g, d) = Some (Inr (g', d')) \<Longrightarrow> topological s d \<Longrightarrow>
      g' = g \<and> topological s d' \<and> set d \<subseteq> set d' \<and> x \<in> set d'"
    and "visit_each f xs (g, d) = Some (Inr (g', d'))" "topological s d"
  shows "topological s d' \<and> set d \<subseteq> set d' \<and> set xs \<subseteq> set d'"
  using assms(2, 3)
proof (induction xs arbitrary: d)
  case (Cons x xs)
  then obtain g1 d1 where f: "f x (g, d) = Some (Inr (g1, d1))" and r: "visit_each f xs (g1, d1) = Some (Inr (g', d'))"
    by (auto split: option.splits sum.splits)
  from assms(1) [OF f Cons.prems(2)] Cons.IH [of d1] r show ?case by auto
qed simp

lemma visit_topological:
  "visit n by_id x (g, d) = Some (Inr (g', d')) \<Longrightarrow> topological (\<lambda>x. depends by_id `` {x}) d \<Longrightarrow>
     g' = g \<and> topological (\<lambda>x. depends by_id `` {x}) d' \<and> set d \<subseteq> set d' \<and> x \<in> set d'"
proof (induction n arbitrary: x g d g' d')
  case (Suc n)
  show ?case
  proof (cases "x \<in> set d")
    case True
    with Suc.prems show ?thesis by (auto split: if_split_asm)
  next
    case False
    with Suc.prems(1) obtain p g1 d1 where p: "by_id x = Some p" and d': "d' = x # d1"
      and v: "visit_each (visit n by_id) (known_dependencies by_id p) (x # g, d) = Some (Inr (g1, d1))"
      by (auto split: if_split_asm option.splits sum.splits)
    from visit_each_topological [OF _ v Suc.prems(2)] Suc.IH
    have "topological (\<lambda>x. depends by_id `` {x}) d1 \<and> set d \<subseteq> set d1 \<and> set (known_dependencies by_id p) \<subseteq> set d1"
      by blast
    moreover have "depends by_id `` {x} = set (known_dependencies by_id p)" using p by (auto simp: depends_def)
    ultimately show ?thesis using d' visit_keeps [OF Suc.prems(1)] by auto
  qed
qed simp

lemma programs_by_id_Some: "(programs_by_id programs x \<noteq> None) = (x \<in> pg_program_id ` set programs)"
  by (simp add: programs_by_id_def map_of_eq_None_iff image_image)

lemma card_programs: "finite (Map.dom (programs_by_id programs)) \<and> card (Map.dom (programs_by_id programs)) \<le> length programs"
proof -
  have "Map.dom (programs_by_id programs) = set (map pg_program_id programs)"
    using programs_by_id_Some by (auto simp: Map.dom_def)
  then show ?thesis using card_length [of "map pg_program_id programs"] by simp
qed

lemma graph_search_total:
  "\<exists>r. search_graph (Suc (length programs)) programs = Some r \<and>
     ((\<exists>e. r = Inl e) \<longleftrightarrow> \<not> acyclic (depends (programs_by_id programs)))"
proof -
  let ?m = "programs_by_id programs" and ?n = "Suc (length programs)"
  have tot: "visit ?n ?m x ([], d) \<noteq> None" for x d
    using card_programs [of programs] by (intro visit_total) auto
  have "search_graph ?n programs \<noteq> None"
    unfolding search_graph_def by (rule visit_each_total) (use tot visit_keeps in blast)+
  then obtain r where r: "search_graph ?n programs = Some r" by blast
  show ?thesis
  proof (cases r)
    case (Inl e)
    with r have "visit_each (visit ?n ?m) (map pg_program_id programs) ([], []) = Some (Inl e)" by (simp only: search_graph_def)
    then have "\<exists>x \<in> set (map pg_program_id programs). \<exists>d'. visit ?n ?m x ([], d') = Some (Inl e)"
      by (rule visit_each_fails [rotated]) (rule visit_keeps)
    then obtain x d' where x: "x \<in> pg_program_id ` set programs" "visit ?n ?m x ([], d') = Some (Inl e)" by auto
    then have "?m x \<noteq> None" by (simp only: programs_by_id_Some)
    from visit_cycle [OF x(2) this] r Inl show ?thesis by simp
  next
    case (Inr s)
    obtain g d where s: "s = (g, d)" by (cases s)
    with r Inr have v: "visit_each (visit ?n ?m) (map pg_program_id programs) ([], []) = Some (Inr (g, d))"
      by (simp add: search_graph_def)
    have "topological (\<lambda>x. depends ?m `` {x}) d \<and> set [] \<subseteq> set d \<and> set (map pg_program_id programs) \<subseteq> set d"
      by (rule visit_each_topological [OF _ v], erule (1) visit_topological) simp
    moreover have "Domain (depends ?m) \<subseteq> pg_program_id ` set programs"
      using programs_by_id_Some [of programs] by (auto simp: depends_def)
    ultimately have "acyclic (depends ?m)" using topological_acyclic by (metis set_map subset_trans)
    with r Inr show ?thesis by simp
  qed
qed

text \<open>C29.  The cycle search of \<open>validate_program_graph\<close> terminates on every list of Programs, with
  recursion no deeper than one call more than there are Programs, and it raises exactly when the
  dependencies between the listed Programs have a cycle.\<close>

theorem program_graph_search_total:
  "\<exists>r. search_graph (Suc (length programs)) programs = Some r \<and>
     ((\<exists>e. r = Inl e) \<longleftrightarrow> \<not> acyclic (depends (programs_by_id programs)))"
  by (rule graph_search_total)

lemma mapr_checks: "bindr (mapr f xs) (\<lambda>_. Inr ()) = Inr () \<longleftrightarrow> (\<forall>x \<in> set xs. f x = Inr ())"
  by (induction xs) (auto simp: result_simps)

lemma programs_by_id_Inr:
  "distinct (map pg_program_id programs) \<Longrightarrow> programs_by_id programs x = Some p \<longleftrightarrow> p \<in> set programs \<and> pg_program_id p = x"
  by (auto simp: programs_by_id_def o_def)

lemma reference_object_id: "ar_object_id (program_reference sha t) = pg_program_id t"
  by (simp add: program_reference_def)

lemma check_dependency_Inr:
  assumes "distinct (map pg_program_id programs)"
  shows "check_dependency sha (programs_by_id programs) p d = Inr () \<longleftrightarrow>
     (\<exists>t \<in> set programs. d = program_reference sha t \<and> pg_wave t < pg_wave p)"
proof (cases "programs_by_id programs (ar_object_id d)")
  case None
  then have "\<forall>t \<in> set programs. d \<noteq> program_reference sha t"
    using programs_by_id_Inr [OF assms] by (metis option.distinct(1) reference_object_id)
  with None show ?thesis by (auto simp: check_dependency_def)
next
  case (Some t)
  have "t \<in> set programs" using Some by (simp add: programs_by_id_Inr [OF assms])
  moreover have "u = t" if "u \<in> set programs" "d = program_reference sha u" for u
    using that Some programs_by_id_Inr [OF assms, of "ar_object_id d" u] by (simp add: reference_object_id)
  ultimately have "(\<exists>u \<in> set programs. d = program_reference sha u \<and> pg_wave u < pg_wave p) \<longleftrightarrow>
      d = program_reference sha t \<and> pg_wave t < pg_wave p" by blast
  with Some show ?thesis by (simp add: check_dependency_def ensure_def)
qed

lemma earlier_waves_acyclic:
  assumes d: "distinct (map pg_program_id programs)"
    and w: "\<forall>p \<in> set programs. \<forall>d \<in> set (pg_dependency_refs p). \<exists>t \<in> set programs. d = program_reference sha t \<and> pg_wave t < pg_wave p"
    and n: "\<forall>p \<in> set programs. 0 \<le> pg_wave p"
  shows "acyclic (depends (programs_by_id programs))"
proof -
  let ?m = "programs_by_id programs"
  let ?w = "\<lambda>x. case ?m x of Some p \<Rightarrow> nat (pg_wave p) | None \<Rightarrow> 0"
  have "(x, y) \<in> depends ?m \<Longrightarrow> (y, x) \<in> measure ?w" for x y
  proof -
    assume "(x, y) \<in> depends ?m"
    then obtain p r where p: "?m x = Some p" and r: "r \<in> set (pg_dependency_refs p)" "y = ar_object_id r"
      by (auto simp: depends_def known_dependencies_def)
    from p d have "p \<in> set programs" by (simp add: programs_by_id_Inr)
    with w r(1) obtain t where t: "t \<in> set programs" "r = program_reference sha t" "pg_wave t < pg_wave p" by blast
    with r(2) d have "?m y = Some t" by (simp add: programs_by_id_Inr program_reference_def)
    with p t(1, 3) n show ?thesis by (auto intro: zless_nat_conj [THEN iffD2])
  qed
  then have "depends ?m \<subseteq> (measure ?w)\<inverse>" by auto
  moreover have "acyclic ((measure ?w)\<inverse>)" by (simp add: acyclic_converse wf_acyclic)
  ultimately show ?thesis by (rule acyclic_subset [rotated])
qed

text \<open>C30.  What the graph check accepts: a list of Programs with distinct identifiers, each bound to
  the exact Project and narrowing it, whose dependencies are the exact references of listed
  Programs in an earlier wave.  The wave rule alone excludes cycles, so on Programs with decoded
  (non-negative) waves the cycle search never refuses a graph the other checks would accept.\<close>

theorem program_graph_accepted:
  assumes "\<forall>p \<in> set programs. 0 \<le> pg_wave p"
  shows "validate_program_graph sha project programs = Inr () \<longleftrightarrow>
     distinct (map pg_program_id programs) \<and>
     (\<forall>p \<in> set programs. pg_project_ref p = project_reference sha project \<and>
        validate_child_bounds (pj_authority project) (pg_authority p) = Inr () \<and>
        (\<forall>d \<in> set (pg_dependency_refs p). \<exists>t \<in> set programs. d = program_reference sha t \<and> pg_wave t < pg_wave p))"
    (is "_ \<longleftrightarrow> ?dist \<and> ?ok")
proof (cases ?dist)
  case True
  obtain r where r: "search_graph (Suc (length programs)) programs = Some r"
    and e: "(\<exists>e. r = Inl e) \<longleftrightarrow> \<not> acyclic (depends (programs_by_id programs))"
    using graph_search_total by blast
  have c: "check_program sha project (programs_by_id programs) p = Inr () \<longleftrightarrow>
      pg_project_ref p = project_reference sha project \<and>
      validate_child_bounds (pj_authority project) (pg_authority p) = Inr () \<and>
      (\<forall>d \<in> set (pg_dependency_refs p). \<exists>t \<in> set programs. d = program_reference sha t \<and> pg_wave t < pg_wave p)" for p
    by (simp add: check_program_def mapr_checks check_dependency_Inr [OF True] bindr_eq_Inr [where m = "validate_child_bounds _ _"])
  have "validate_program_graph sha project programs = Inr () \<longleftrightarrow> (\<exists>s. r = Inr s) \<and> ?ok"
    using True r by (cases r) (simp_all add: validate_program_graph_def require_def mapr_checks c)
  moreover have "?ok \<Longrightarrow> \<exists>s. r = Inr s"
    using earlier_waves_acyclic [OF True _ assms] e by (cases r) blast+
  ultimately show ?thesis using True by blast
qed (simp add: validate_program_graph_def)

section \<open>Authority along the spine\<close>

lemma canonical_project_idem: "canonical_project p = Inr cp \<Longrightarrow> canonical_project cp = Inr cp"
  unfolding canonical_project_def using project_from_dict_wf project_roundtrip by blast

lemma canonical_program_idem: "program_from_dict d = Inr p \<Longrightarrow> program_from_dict (program_to_dict p) = Inr p"
  using program_from_dict_wf program_roundtrip by blast

lemma compile_program_Inr:
  assumes "compile_program sha d p g pr = Inr q"
  shows "\<exists>cp. canonical_project p = Inr cp \<and> program_from_dict d = Inr q \<and> pg_project_ref q = project_reference sha cp \<and>
     narrows (pj_authority cp) (pg_authority q)"
  using assms by (auto simp: compile_program_def bindr_eq_Inr split: if_split_asm intro: validate_child_bounds_narrows)

lemma validate_goal_authority_Inr:
  assumes "validate_goal_authority sha ga p pg g pr = Inr cg"
  shows "\<exists>cp cpg. canonical_project p = Inr cp \<and> canonical_program pg = Inr cpg \<and>
     pg_project_ref cpg = project_reference sha cp \<and> narrows (pj_authority cp) (pg_authority cpg) \<and>
     \<not> program_terminal (pg_state cpg) \<and> ga_project_ref cg = project_reference sha cp \<and>
     ga_program_ref cg = program_reference sha cpg \<and>
     ga_required_decision_gates cg = ab_required_decision_gates (pg_authority cpg) \<and>
     narrows (pg_authority cpg) (goal_bounds (ga_goal_spec cg) (ga_required_decision_gates cg))"
proof -
  from assms obtain cp cpg where "canonical_project p = Inr cp" "compile_program sha (program_to_dict pg) cp g pr = Inr cpg"
    "\<not> program_terminal (pg_state cpg)" "ga_project_ref cg = project_reference sha cp"
    "ga_program_ref cg = program_reference sha cpg"
    "ga_required_decision_gates cg = ab_required_decision_gates (pg_authority cpg)"
    "validate_child_bounds (pg_authority cpg) (goal_bounds (ga_goal_spec cg) (ga_required_decision_gates cg)) = Inr ()"
    by (auto simp: validate_goal_authority_def bindr_eq_Inr split: if_split_asm)
  with compile_program_Inr [OF this(2)] canonical_project_idem validate_child_bounds_narrows
  show ?thesis unfolding canonical_program_def by fastforce
qed

lemma validate_task_authority_Inr:
  assumes "validate_task_authority sha ta p pg ga g pr = Inr a"
  shows "\<exists>cp cpg cg. canonical_project p = Inr cp \<and> canonical_program pg = Inr cpg \<and>
     validate_goal_authority sha ga cp cpg g pr = Inr cg \<and> ta_project_ref a = project_reference sha cp \<and>
     ta_program_ref a = program_reference sha cpg \<and> ta_goal_ref a = goal_reference sha cg \<and>
     ta_required_decision_gates a = ga_required_decision_gates cg \<and> wf_task_authority a \<and>
     (''provider'' \<in> set (ta_required_decision_gates a) \<longrightarrow>
        1 \<le> ta_provider_budget_minor_units a \<and> 1 \<le> ta_provider_call_limit a) \<and>
     narrows (goal_bounds (ga_goal_spec cg) (ab_required_decision_gates (pg_authority cpg)))
       (authority_bounds_of a (ab_required_decision_gates (pg_authority cpg)))"
proof -
  from assms obtain cp cpg cg where c: "canonical_project p = Inr cp" "compile_program sha (program_to_dict pg) cp g pr = Inr cpg"
    "validate_goal_authority sha ga cp cpg g pr = Inr cg" "task_authority_from_dict (task_authority_to_dict ta) = Inr a"
    "ta_project_ref a = project_reference sha cp" "ta_program_ref a = program_reference sha cpg"
    "ta_goal_ref a = goal_reference sha cg" "ta_required_decision_gates a = ga_required_decision_gates cg"
    "''provider'' \<in> set (ta_required_decision_gates a) \<longrightarrow>
        1 \<le> ta_provider_budget_minor_units a \<and> 1 \<le> ta_provider_call_limit a"
    "validate_child_bounds (goal_bounds (ga_goal_spec cg) (ab_required_decision_gates (pg_authority cpg)))
       (authority_bounds_of a (ab_required_decision_gates (pg_authority cpg))) = Inr ()"
    by (auto simp: validate_task_authority_def bindr_eq_Inr split: if_split_asm)
  from compile_program_Inr [OF c(2)] have "canonical_program pg = Inr cpg" by (auto simp: canonical_program_def)
  with c task_authority_from_dict_wf [OF c(4)] validate_child_bounds_narrows [OF c(10)] show ?thesis by blast
qed

text \<open>C31.  No level of the spine widens authority: a Task authority accepted against a Project,
  Program and Goal names exactly their versions and digests, the Program is not terminal, and the
  Task's capabilities, scopes, surfaces, budget and call limit lie within those of the Goal, of
  the Program and of the Project; it carries every decision gate of its Program, and a provider
  gate only with a positive budget and call limit.\<close>

theorem task_authority_in_spine:
  assumes "validate_task_authority sha authority project program goal program_graph provider = Inr a"
  shows "\<exists>cp cpg cg. canonical_project project = Inr cp \<and> canonical_program program = Inr cpg \<and>
     ta_project_ref a = project_reference sha cp \<and> ta_program_ref a = program_reference sha cpg \<and>
     ta_goal_ref a = goal_reference sha cg \<and> pg_project_ref cpg = project_reference sha cp \<and>
     ga_project_ref cg = project_reference sha cp \<and> ga_program_ref cg = program_reference sha cpg \<and>
     \<not> program_terminal (pg_state cpg) \<and>
     ta_required_decision_gates a = ab_required_decision_gates (pg_authority cpg) \<and>
     (''provider'' \<in> set (ta_required_decision_gates a) \<longrightarrow>
        1 \<le> ta_provider_budget_minor_units a \<and> 1 \<le> ta_provider_call_limit a) \<and>
     narrows (goal_bounds (ga_goal_spec cg) (ta_required_decision_gates a)) (authority_bounds_of a (ta_required_decision_gates a)) \<and>
     narrows (pg_authority cpg) (authority_bounds_of a (ta_required_decision_gates a)) \<and>
     narrows (pj_authority cp) (authority_bounds_of a (ta_required_decision_gates a))"
proof -
  from validate_task_authority_Inr [OF assms] obtain cp cpg cg where
    t: "canonical_project project = Inr cp" "canonical_program program = Inr cpg"
      "validate_goal_authority sha goal cp cpg program_graph provider = Inr cg"
      "ta_project_ref a = project_reference sha cp" "ta_program_ref a = program_reference sha cpg"
      "ta_goal_ref a = goal_reference sha cg" "ta_required_decision_gates a = ga_required_decision_gates cg"
      "''provider'' \<in> set (ta_required_decision_gates a) \<longrightarrow>
        1 \<le> ta_provider_budget_minor_units a \<and> 1 \<le> ta_provider_call_limit a"
    and n: "narrows (goal_bounds (ga_goal_spec cg) (ab_required_decision_gates (pg_authority cpg)))
       (authority_bounds_of a (ab_required_decision_gates (pg_authority cpg)))" by blast
  have "canonical_program cpg = Inr cpg" using t(2) canonical_program_idem unfolding canonical_program_def by blast
  with validate_goal_authority_Inr [OF t(3)] canonical_project_idem [OF t(1)]
  have g: "pg_project_ref cpg = project_reference sha cp" "narrows (pj_authority cp) (pg_authority cpg)"
    "\<not> program_terminal (pg_state cpg)" "ga_project_ref cg = project_reference sha cp"
    "ga_program_ref cg = program_reference sha cpg"
    "ga_required_decision_gates cg = ab_required_decision_gates (pg_authority cpg)"
    "narrows (pg_authority cpg) (goal_bounds (ga_goal_spec cg) (ga_required_decision_gates cg))" by auto
  with t n narrows_trans [OF g(7)] narrows_trans [OF g(2) g(7)] show ?thesis
    by (intro exI [of _ cp] exI [of _ cpg] exI [of _ cg]) (auto intro: narrows_trans)
qed

lemma compile_task_authority_validated:
  assumes "compile_task_authority sha authoring p pg ga budget calls currency version g pr = Inr (a, r)"
  shows "\<exists>candidate cg. validate_goal_authority sha ga p pg g pr = Inr cg \<and>
     validate_task_authority sha candidate p pg cg g pr = Inr a"
  using assms by (auto simp: compile_task_authority_def bindr_eq_Inr Let_def split: prod.splits)

section \<open>A delegation evaluated\<close>

definition sample_sha :: "string \<Rightarrow> string" where
  "sample_sha s = sample_digest"

definition sample_program :: program_spec where
  "sample_program = \<lparr>pg_program_id = ''pg1'', pg_version = 1, pg_project_ref = sample_ref ''project'' ''p1'',
     pg_objective = ''build'', pg_state = PS_COMPILED, pg_dependency_refs = [], pg_wave = 0, pg_authority = sample_bounds\<rparr>"

definition later_program :: program_spec where
  "later_program = sample_program\<lparr>pg_program_id := ''pg2'', pg_dependency_refs := [sample_ref ''program'' ''pg1''], pg_wave := 1\<rparr>"

definition sample_goal_authority :: goal_authority where
  "sample_goal_authority = \<lparr>ga_version = 1, ga_project_ref = sample_ref ''project'' ''p1'',
     ga_program_ref = sample_ref ''program'' ''pg1'', ga_required_decision_gates = [''merge''],
     ga_goal_spec = sample_goal\<lparr>gs_read_scope := [], gs_write_scope := [''/work/out'', ''repo://app/main''],
       gs_forbidden_scope := [''/work/secret''], gs_allowed_capabilities := [WRITE_LOCAL, REPO_REMOTE],
       gs_budget_currency := ''EUR''\<rparr>\<rparr>"

lemma sample_graph_valid: "validate_program_graph sample_sha sample_project [sample_program, later_program] = Inr ()"
  by code_simp

lemma program_graph_accepted_witness:
  "validate_program_graph sample_sha sample_project [sample_program, later_program] = Inr () \<and>
   pg_dependency_refs later_program = [program_reference sample_sha sample_program]"
proof -
  have w: "\<forall>p \<in> set [sample_program, later_program]. 0 \<le> pg_wave p" by (simp add: later_program_def sample_program_def)
  from program_graph_accepted [OF w] sample_graph_valid
  have "\<exists>t \<in> set [sample_program, later_program]. sample_ref ''program'' ''pg1'' = program_reference sample_sha t \<and> pg_wave t < 1"
    by (simp add: later_program_def)
  with sample_graph_valid show ?thesis by (auto simp: later_program_def)
qed

lemma sample_hash [simp]: "content_hash sample_sha v = sample_digest"
  by (simp add: content_hash_def sample_sha_def split: json.split)

lemma sample_decodes:
  "program_from_dict (program_to_dict sample_program) = Inr sample_program"
  "goal_authority_from_dict (goal_authority_to_dict sample_goal_authority) = Inr sample_goal_authority"
  by (code_simp+)

lemma sample_bounds_checks:
  "validate_child_bounds sample_bounds sample_bounds = Inr ()"
  "validate_child_bounds sample_bounds (goal_bounds (ga_goal_spec sample_goal_authority) [''merge'']) = Inr ()"
  "validate_child_bounds (goal_bounds (ga_goal_spec sample_goal_authority) [''merge''])
     (authority_bounds_of sample_task_authority [''merge'']) = Inr ()"
  by (code_simp+)

lemma sample_gate_checks:
  "canonical_decision_gate_contracts gated_task [''merge''] = Inr (ta_decision_gate_contracts sample_task_authority)"
  "check_gate_capability gated_task ''merge'' = Inr ()"
  by (code_simp+)

lemma sample_fields:
  "pg_project_ref sample_program = project_reference sample_sha sample_project"
  "pg_state sample_program = PS_COMPILED" "pg_dependency_refs sample_program = []" "pg_authority sample_program = sample_bounds"
  "pj_authority sample_project = sample_bounds" "ab_required_decision_gates sample_bounds = [''merge'']"
  "ga_project_ref sample_goal_authority = project_reference sample_sha sample_project"
  "ga_program_ref sample_goal_authority = program_reference sample_sha sample_program"
  "ga_required_decision_gates sample_goal_authority = [''merge'']"
  "ta_project_ref sample_task_authority = project_reference sample_sha sample_project"
  "ta_program_ref sample_task_authority = program_reference sample_sha sample_program"
  "ta_goal_ref sample_task_authority = goal_reference sample_sha sample_goal_authority"
  "ta_required_decision_gates sample_task_authority = [''merge'']" "ta_task_spec sample_task_authority = gated_task"
  "ts_goal_id gated_task = gs_goal_id (ga_goal_spec sample_goal_authority)"
  by (simp_all add: sample_program_def sample_project_def sample_bounds_def sample_goal_authority_def sample_task_authority_def
      sample_ref_def project_reference_def program_reference_def goal_reference_def gated_task_def sample_goal_def sample_task_def)

lemma sample_program_compiles: "compile_program sample_sha (program_to_dict sample_program) sample_project None None = Inr sample_program"
  by (simp add: compile_program_def canonical_project_def sample_project_decodes sample_decodes check_current_def
      check_graph_proof_def sample_fields sample_bounds_checks)

lemma sample_goal_authority_valid:
  "validate_goal_authority sample_sha sample_goal_authority sample_project sample_program None None = Inr sample_goal_authority"
  by (simp add: validate_goal_authority_def canonical_project_def sample_project_decodes sample_program_compiles sample_decodes
      program_terminal_def sample_fields sample_bounds_checks)

lemma sample_task_authority_valid:
  "validate_task_authority sample_sha sample_task_authority sample_project sample_program sample_goal_authority None None =
     Inr sample_task_authority"
  by (simp add: validate_task_authority_def canonical_project_def sample_project_decodes sample_program_compiles
      sample_goal_authority_valid sample_task_authority_decodes program_terminal_def sample_fields sample_bounds_checks
      sample_gate_checks)

lemma task_authority_in_spine_witness:
  "\<exists>cp. canonical_project sample_project = Inr cp \<and>
     narrows (pj_authority cp) (authority_bounds_of sample_task_authority [''merge''])"
  using task_authority_in_spine [OF sample_task_authority_valid] by (auto simp: sample_task_authority_def)

end
