(* ===== verification/State_Machine.thy ===== *)
theory State_Machine
  imports Specs
begin

text \<open>
  \<open>state_machine.py\<close>: the table of loop transitions with their guards, \<open>apply_loop_event\<close>, the
  Task transition table and \<open>require_transition\<close>.

  The locale \<open>obligations\<close> states the contract that a table of guarded transitions gives to the
  code that drives it: a state carries a set of obligations, and a transition adds to it only
  what the transition itself discharged.  It is interpreted on the loop table (obligations are
  the guard lists that must have held), on the Task table (obligations are the states that must
  have been visited) and, in the integration queue, on its own table.
\<close>

section \<open>Guarded transition systems\<close>

locale obligations =
  fixes step :: "'e \<Rightarrow> 's \<Rightarrow> 's res"
    and owes :: "'s \<Rightarrow> 'g set"
    and pays :: "'s \<Rightarrow> 'e \<Rightarrow> 'g set"
  assumes step_owes: "step e s = Inr s' \<Longrightarrow> owes s' \<subseteq> owes s \<union> pays s e"
begin

lemma run_pays:
  assumes "foldm step es s = Inr s'" "g \<in> owes s'" "g \<notin> owes s"
  shows "\<exists>pre e post s1 s2. es = pre @ e # post \<and> foldm step pre s = Inr s1 \<and>
           step e s1 = Inr s2 \<and> foldm step post s2 = Inr s' \<and> g \<in> pays s1 e"
  using assms
proof (induction es arbitrary: s)
  case (Cons e es)
  then obtain t where t: "step e s = Inr t" "foldm step es t = Inr s'"
    by (auto simp: result_simps)
  show ?case
  proof (cases "g \<in> owes t")
    case True
    with step_owes [OF t(1)] Cons.prems(3) have "g \<in> pays s e" by blast
    with t show ?thesis by (intro exI [of _ "[]"]) auto
  next
    case False
    from Cons.IH [OF t(2) Cons.prems(2) False] obtain pre e' post s1 s2
      where "es = pre @ e' # post" "foldm step pre t = Inr s1" "step e' s1 = Inr s2"
        "foldm step post s2 = Inr s'" "g \<in> pays s1 e'" by blast
    with t(1) show ?thesis
      by (intro exI [of _ "e # pre"] exI [of _ e'] exI [of _ post] exI [of _ s1] exI [of _ s2]) simp
  qed
qed simp

end

section \<open>The loop\<close>

record loop_transition_rule =
  target :: loop_state
  guards :: "string list"

definition delivery_guards :: "string list" where
  "delivery_guards = [''evidence_satisfied'', ''evaluator_satisfied'', ''integration_satisfied'',
     ''freshness_satisfied'', ''tasks_terminal'']"

definition loop_rule :: "loop_state \<Rightarrow> string list \<Rightarrow> loop_transition_rule" where
  "loop_rule t gs = \<lparr>target = t, guards = gs\<rparr>"

definition LOOP_TRANSITIONS :: "((loop_state \<times> loop_event) \<times> loop_transition_rule) list" where
  "LOOP_TRANSITIONS = [
     ((LS_INTAKE, GOAL_COMPILED), loop_rule LS_COMPILED [''contract_valid'']),
     ((LS_INTAKE, MISSING_STATE_DETECTED), loop_rule LS_BLOCKED_MISSING_STATE []),
     ((LS_COMPILED, RUN_READY), loop_rule LS_READY [''readiness_gate_passed'']),
     ((LS_COMPILED, CAPABILITY_GAP_DETECTED), loop_rule LS_BLOCKED_CAPABILITY []),
     ((LS_READY, TASK_STARTED), loop_rule LS_RUNNING [''lease_valid'']),
     ((LS_READY, CAPABILITY_GAP_DETECTED), loop_rule LS_BLOCKED_CAPABILITY []),
     ((LS_RUNNING, HUMAN_APPROVAL_REQUESTED), loop_rule LS_SUSPENDED []),
     ((LS_RUNNING, EVIDENCE_SUBMITTED), loop_rule LS_EVIDENCE_PENDING []),
     ((LS_RUNNING, CIRCUIT_BREAKER_TRIGGERED), loop_rule LS_BLOCKED_DECISION []),
     ((LS_RUNNING, CAPABILITY_GAP_DETECTED), loop_rule LS_BLOCKED_CAPABILITY []),
     ((LS_SUSPENDED, HUMAN_APPROVAL_RECEIVED), loop_rule LS_RUNNING [''approval_valid'']),
     ((LS_SUSPENDED, RESUME_REQUESTED), loop_rule LS_RUNNING [''resume_authorized'']),
     ((LS_EVIDENCE_PENDING, EVALUATOR_VERDICT_RECEIVED), loop_rule LS_INTEGRATION_PENDING [''evidence_satisfied'', ''evaluator_satisfied'']),
     ((LS_EVIDENCE_PENDING, TASK_STARTED), loop_rule LS_RUNNING [''repair_route_selected'']),
     ((LS_INTEGRATION_PENDING, CI_CHECK_STARTED), loop_rule LS_CI_PENDING []),
     ((LS_INTEGRATION_PENDING, DEPLOY_DIRECTORY_UPDATED), loop_rule LS_DEPLOY_DIR_UPDATED []),
     ((LS_INTEGRATION_PENDING, DELIVERY_CONFIRMED), loop_rule LS_DELIVERED delivery_guards),
     ((LS_CI_PENDING, CI_CHECK_COMPLETED), loop_rule LS_INTEGRATION_PENDING [''ci_green'']),
     ((LS_CI_PENDING, CIRCUIT_BREAKER_TRIGGERED), loop_rule LS_BLOCKED_DECISION []),
     ((LS_DEPLOY_DIR_UPDATED, SERVICE_RESTART_ATTEMPTED), loop_rule LS_RUNTIME_CHECK_PENDING []),
     ((LS_DEPLOY_DIR_UPDATED, RUNTIME_DRIFT_DETECTED), loop_rule LS_RUNTIME_STALE []),
     ((LS_RUNTIME_STALE, SERVICE_RESTART_ATTEMPTED), loop_rule LS_RUNTIME_CHECK_PENDING []),
     ((LS_RUNTIME_CHECK_PENDING, RUNTIME_FRESHNESS_VERIFIED), loop_rule LS_RUNTIME_FRESH [''freshness_satisfied'']),
     ((LS_RUNTIME_CHECK_PENDING, RUNTIME_DRIFT_DETECTED), loop_rule LS_RUNTIME_STALE []),
     ((LS_RUNTIME_FRESH, DELIVERY_CONFIRMED), loop_rule LS_DELIVERED delivery_guards),
     ((LS_DELIVERED, IMPROVEMENT_REQUESTED), loop_rule LS_IMPROVEMENT_PENDING []),
     ((LS_BLOCKED_MISSING_STATE, OWNER_INTENT_RECEIVED), loop_rule LS_INTAKE []),
     ((LS_BLOCKED_CAPABILITY, RESUME_REQUESTED), loop_rule LS_READY [''capability_available'']),
     ((LS_BLOCKED_DECISION, RESUME_REQUESTED), loop_rule LS_READY [''owner_decision_recorded'']),
     ((LS_IMPROVEMENT_PENDING, DELIVERY_CONFIRMED), loop_rule LS_DELIVERED [''improvement_routed''])]"

definition apply_loop_event :: "loop_state \<Rightarrow> loop_event \<Rightarrow> (string \<rightharpoonup> bool) \<Rightarrow> loop_state res" where
  "apply_loop_event current event guard_results =
     (case map_of LOOP_TRANSITIONS (current, event) of
        None \<Rightarrow> Inl (TransitionError ''loop event not allowed'')
      | Some rule \<Rightarrow>
          if filter (\<lambda>g. guard_results g \<noteq> Some True) (guards rule) \<noteq> []
          then Inl (TransitionError ''loop transition guards failed'')
          else Inr (target rule))"

lemma apply_loop_event_Inr:
  "apply_loop_event s e r = Inr s' \<longleftrightarrow>
     (\<exists>rule. map_of LOOP_TRANSITIONS (s, e) = Some rule \<and> target rule = s' \<and> (\<forall>g \<in> set (guards rule). r g = Some True))"
  by (auto simp: apply_loop_event_def filter_empty_conv split: option.splits)

text \<open>A run of the loop: events with the guard results they were applied with.\<close>

definition loop_step :: "loop_event \<times> (string \<rightharpoonup> bool) \<Rightarrow> loop_state \<Rightarrow> loop_state res" where
  "loop_step e s = apply_loop_event s (fst e) (snd e)"

definition run_loop :: "(loop_event \<times> (string \<rightharpoonup> bool)) list \<Rightarrow> loop_state \<Rightarrow> loop_state res" where
  "run_loop = foldm loop_step"

text \<open>The guard lists that must have held, each at one event, before a state is reached.\<close>

fun loop_owes :: "loop_state \<Rightarrow> string list set" where
  "loop_owes LS_INTAKE = {}"
| "loop_owes LS_BLOCKED_MISSING_STATE = {}"
| "loop_owes LS_COMPILED = {[''contract_valid'']}"
| "loop_owes LS_BLOCKED_CAPABILITY = {[''contract_valid'']}"
| "loop_owes LS_READY = {[''contract_valid'']}"
| "loop_owes LS_BLOCKED_DECISION = {[''contract_valid''], [''lease_valid'']}"
| "loop_owes LS_RUNNING = {[''contract_valid''], [''lease_valid'']}"
| "loop_owes LS_SUSPENDED = {[''contract_valid''], [''lease_valid'']}"
| "loop_owes LS_EVIDENCE_PENDING = {[''contract_valid''], [''lease_valid'']}"
| "loop_owes LS_DELIVERED = {[''contract_valid''], [''lease_valid''],
     [''evidence_satisfied'', ''evaluator_satisfied''], delivery_guards}"
| "loop_owes LS_IMPROVEMENT_PENDING = {[''contract_valid''], [''lease_valid''],
     [''evidence_satisfied'', ''evaluator_satisfied''], delivery_guards}"
| "loop_owes LS_RUNTIME_FRESH = {[''contract_valid''], [''lease_valid''],
     [''evidence_satisfied'', ''evaluator_satisfied''], [''freshness_satisfied'']}"
| "loop_owes _ = {[''contract_valid''], [''lease_valid''], [''evidence_satisfied'', ''evaluator_satisfied'']}"

definition loop_pays :: "loop_state \<Rightarrow> loop_event \<times> (string \<rightharpoonup> bool) \<Rightarrow> string list set" where
  "loop_pays s e = (case map_of LOOP_TRANSITIONS (s, fst e) of None \<Rightarrow> {} | Some rule \<Rightarrow> {guards rule})"

lemma loop_table_owes:
  "map_of LOOP_TRANSITIONS (s, e) = Some rule \<Longrightarrow> loop_owes (target rule) \<subseteq> loop_owes s \<union> {guards rule}"
  by (drule map_of_SomeD) (auto simp: LOOP_TRANSITIONS_def loop_rule_def)

lemma delivery_rules:
  "map_of LOOP_TRANSITIONS (s, e) = Some rule \<Longrightarrow> guards rule = delivery_guards \<Longrightarrow>
     e = DELIVERY_CONFIRMED \<and> (s = LS_INTEGRATION_PENDING \<or> s = LS_RUNTIME_FRESH)"
  by (drule map_of_SomeD) (auto simp: LOOP_TRANSITIONS_def loop_rule_def delivery_guards_def)

interpretation loop: obligations loop_step loop_owes loop_pays
proof
  fix e s s'
  assume "loop_step e s = Inr s'"
  then show "loop_owes s' \<subseteq> loop_owes s \<union> loop_pays s e"
    using loop_table_owes [of s "fst e"] by (auto simp: loop_step_def loop_pays_def apply_loop_event_Inr)
qed

lemma loop_step_pays:
  assumes "loop_step e s = Inr s'" "gs \<in> loop_pays s e" "g \<in> set gs"
  shows "snd e g = Some True"
  using assms by (auto simp: loop_step_def loop_pays_def apply_loop_event_Inr)

text \<open>A loop that reaches \<open>DELIVERED\<close> from \<open>INTAKE\<close>, by whatever events, passed through one
  \<open>DELIVERY_CONFIRMED\<close> at which the evidence, evaluator, integration, freshness and
  terminal-task guards all held together, and at earlier events the contract guard, the lease
  guard, and the evidence and evaluator guards held.\<close>

theorem loop_delivery_guarded:
  assumes "run_loop es LS_INTAKE = Inr LS_DELIVERED"
  shows "\<exists>pre r post. es = pre @ (DELIVERY_CONFIRMED, r) # post \<and> (\<forall>g \<in> set delivery_guards. r g = Some True) \<and>
     (\<forall>gs \<in> {[''contract_valid''], [''lease_valid''], [''evidence_satisfied'', ''evaluator_satisfied'']}.
        \<exists>e \<in> set pre. \<forall>g \<in> set gs. snd e g = Some True)"
proof -
  have owed: "delivery_guards \<in> loop_owes LS_DELIVERED" "delivery_guards \<notin> loop_owes LS_INTAKE" by simp_all
  from loop.run_pays [OF assms [unfolded run_loop_def] owed] obtain pre e post s1 s2
    where es: "es = pre @ e # post" and pre: "foldm loop_step pre LS_INTAKE = Inr s1"
      and step: "loop_step e s1 = Inr s2" and pays: "delivery_guards \<in> loop_pays s1 e" by blast
  have confirmed: "fst e = DELIVERY_CONFIRMED" "s1 = LS_INTEGRATION_PENDING \<or> s1 = LS_RUNTIME_FRESH"
    using pays delivery_rules [of s1 "fst e"] by (auto simp: loop_pays_def split: option.splits)
  have "\<exists>e' \<in> set pre. \<forall>g \<in> set gs. snd e' g = Some True"
    if "gs \<in> {[''contract_valid''], [''lease_valid''], [''evidence_satisfied'', ''evaluator_satisfied'']}" for gs
  proof -
    from that confirmed(2) have "gs \<in> loop_owes s1" "gs \<notin> loop_owes LS_INTAKE" by auto
    from loop.run_pays [OF pre this] loop_step_pays show ?thesis by fastforce
  qed
  with es confirmed(1) loop_step_pays [OF step pays] show ?thesis
    by (metis prod.collapse)
qed

definition all_true :: "string list \<Rightarrow> (string \<rightharpoonup> bool)" where
  "all_true gs = map_of (map (\<lambda>g. (g, True)) gs)"

definition sample_loop :: "(loop_event \<times> (string \<rightharpoonup> bool)) list" where
  "sample_loop = [(GOAL_COMPILED, all_true [''contract_valid'']), (RUN_READY, all_true [''readiness_gate_passed'']),
     (TASK_STARTED, all_true [''lease_valid'']), (EVIDENCE_SUBMITTED, Map.empty),
     (EVALUATOR_VERDICT_RECEIVED, all_true [''evidence_satisfied'', ''evaluator_satisfied'']),
     (DELIVERY_CONFIRMED, all_true delivery_guards)]"

lemma sample_loop_delivers: "run_loop sample_loop LS_INTAKE = Inr LS_DELIVERED"
  by code_simp

lemma loop_delivery_guarded_witness:
  "\<exists>pre r post. sample_loop = pre @ (DELIVERY_CONFIRMED, r) # post \<and> r ''tasks_terminal'' = Some True"
  using loop_delivery_guarded [OF sample_loop_delivers] by (fastforce simp: delivery_guards_def)

section \<open>Tasks\<close>

fun TASK_TRANSITIONS :: "task_state \<Rightarrow> task_state list" where
  "TASK_TRANSITIONS TS_READY = [TS_LEASED, TS_CANCELED, TS_BLOCKED, TS_DELETED]"
| "TASK_TRANSITIONS TS_LEASED = [TS_RUNNING, TS_READY, TS_RETRY_PENDING, TS_BLOCKED]"
| "TASK_TRANSITIONS TS_RUNNING = [TS_SUSPENDED, TS_EVIDENCE_PENDING, TS_RETRY_PENDING, TS_FAILED, TS_BLOCKED]"
| "TASK_TRANSITIONS TS_SUSPENDED = [TS_LEASED, TS_CANCELED, TS_BLOCKED]"
| "TASK_TRANSITIONS TS_EVIDENCE_PENDING = [TS_EVALUATOR_PENDING, TS_INTEGRATION_PENDING, TS_RUNNING, TS_BLOCKED]"
| "TASK_TRANSITIONS TS_EVALUATOR_PENDING = [TS_INTEGRATION_PENDING, TS_RUNNING, TS_BLOCKED]"
| "TASK_TRANSITIONS TS_INTEGRATION_PENDING = [TS_DELIVERED, TS_RUNNING, TS_BLOCKED]"
| "TASK_TRANSITIONS TS_RETRY_PENDING = [TS_READY, TS_FAILED, TS_BLOCKED]"
| "TASK_TRANSITIONS TS_BLOCKED = [TS_READY, TS_CANCELED, TS_DELETED, TS_RETIRED]"
| "TASK_TRANSITIONS TS_DELIVERED = [TS_RETIRED]"
| "TASK_TRANSITIONS TS_FAILED = [TS_RETRY_PENDING, TS_RETIRED]"
| "TASK_TRANSITIONS TS_CANCELED = [TS_RETIRED]"
| "TASK_TRANSITIONS TS_DELETED = []"
| "TASK_TRANSITIONS TS_RETIRED = []"

fun GOAL_TRANSITIONS :: "goal_state \<Rightarrow> goal_state list" where
  "GOAL_TRANSITIONS GS_COMPILED = []"

text \<open>\<open>require_transition\<close> takes any two \<open>StrEnum\<close> values.\<close>

datatype state_value = Loop_Value loop_state | Goal_Value goal_state | Task_Value task_state
  | Integration_Value integration_state

fun require_transition :: "state_value \<Rightarrow> state_value \<Rightarrow> unit res" where
  "require_transition (Loop_Value _) (Loop_Value _) =
     Inl (TransitionError ''LoopState transitions require apply_loop_event with an explicit LoopEvent'')"
| "require_transition (Goal_Value c) (Goal_Value t) =
     ensure (t \<in> set (GOAL_TRANSITIONS c)) (TransitionError ''transition not allowed'')"
| "require_transition (Task_Value c) (Task_Value t) =
     ensure (t \<in> set (TASK_TRANSITIONS c)) (TransitionError ''transition not allowed'')"
| "require_transition (Integration_Value _) (Integration_Value _) = Inl (TransitionError ''unsupported state type'')"
| "require_transition _ _ = Inl (TransitionError ''state types differ'')"

definition task_step :: "task_state \<Rightarrow> task_state \<Rightarrow> task_state res" where
  "task_step t s = bindr (require_transition (Task_Value s) (Task_Value t)) (\<lambda>_. Inr t)"

definition run_task :: "task_state list \<Rightarrow> task_state \<Rightarrow> task_state res" where
  "run_task = foldm task_step"

text \<open>The states a Task must have entered before it is in a state.  \<open>RETIRED\<close> is entered from
  \<open>BLOCKED\<close>, so nothing is owed there.\<close>

fun task_owes :: "task_state \<Rightarrow> task_state set" where
  "task_owes TS_DELIVERED = {TS_LEASED, TS_RUNNING, TS_EVIDENCE_PENDING, TS_INTEGRATION_PENDING, TS_DELIVERED}"
| "task_owes TS_INTEGRATION_PENDING = {TS_LEASED, TS_RUNNING, TS_EVIDENCE_PENDING, TS_INTEGRATION_PENDING}"
| "task_owes TS_EVALUATOR_PENDING = {TS_LEASED, TS_RUNNING, TS_EVIDENCE_PENDING, TS_EVALUATOR_PENDING}"
| "task_owes TS_EVIDENCE_PENDING = {TS_LEASED, TS_RUNNING, TS_EVIDENCE_PENDING}"
| "task_owes TS_RUNNING = {TS_LEASED, TS_RUNNING}"
| "task_owes TS_SUSPENDED = {TS_LEASED, TS_RUNNING, TS_SUSPENDED}"
| "task_owes TS_FAILED = {TS_LEASED, TS_FAILED}"
| "task_owes TS_RETRY_PENDING = {TS_LEASED, TS_RETRY_PENDING}"
| "task_owes TS_READY = {}"
| "task_owes s = {s}"

lemma task_step_Inr [simp]: "task_step t s = Inr s' \<longleftrightarrow> s' = t \<and> t \<in> set (TASK_TRANSITIONS s)"
  by (auto simp: task_step_def result_simps)

interpretation task: obligations task_step task_owes "\<lambda>s t. {t}"
proof
  fix t s s'
  assume "task_step t s = Inr s'"
  then show "task_owes s' \<subseteq> task_owes s \<union> {t}" by (cases s) auto
qed

lemma deleted_retired_final: "s = TS_DELETED \<or> s = TS_RETIRED \<Longrightarrow> run_task ts s = Inr s' \<Longrightarrow> s' = s \<and> ts = []"
  by (cases ts) (auto simp: run_task_def result_simps)

lemma terminal_retires:
  assumes "s \<in> set TERMINAL_TASK_STATES" "run_task ts s = Inr s'"
  shows "s' = s \<or> s' = TS_RETIRED"
proof (cases ts)
  case Nil
  with assms show ?thesis by (simp add: run_task_def)
next
  case (Cons t ts')
  with assms have "t = TS_RETIRED" "run_task ts' t = Inr s'"
    by (auto simp: run_task_def result_simps TERMINAL_TASK_STATES_def)
  then show ?thesis using deleted_retired_final by blast
qed

text \<open>C23.  A sequence of allowed Task transitions that ends in \<open>DELIVERED\<close> entered \<open>LEASED\<close>,
  \<open>RUNNING\<close>, \<open>EVIDENCE_PENDING\<close> and \<open>INTEGRATION_PENDING\<close> on the way, and from a terminal
  state nothing but \<open>RETIRED\<close> can be reached.\<close>

theorem task_delivery_path:
  assumes "run_task ts TS_READY = Inr s"
  shows "(s = TS_DELIVERED \<longrightarrow>
            {TS_LEASED, TS_RUNNING, TS_EVIDENCE_PENDING, TS_INTEGRATION_PENDING, TS_DELIVERED} \<subseteq> set ts) \<and>
         (s \<in> set TERMINAL_TASK_STATES \<longrightarrow> (\<forall>us s'. run_task us s = Inr s' \<longrightarrow> s' = s \<or> s' = TS_RETIRED))"
proof -
  have "t \<in> set ts" if "t \<in> task_owes s" for t
    using task.run_pays [OF assms [unfolded run_task_def] that] by auto
  then have "task_owes s \<subseteq> set ts" by blast
  moreover have "s' = s \<or> s' = TS_RETIRED" if "s \<in> set TERMINAL_TASK_STATES" "run_task us s = Inr s'" for us s'
    using terminal_retires that .
  ultimately show ?thesis by (intro conjI impI allI) auto
qed

lemma task_delivery_path_witness:
  "\<not> (\<exists>ts. run_task ts TS_READY = Inr TS_DELIVERED \<and> TS_LEASED \<notin> set ts) \<and>
   TS_RUNNING \<in> set [TS_LEASED, TS_RUNNING, TS_EVIDENCE_PENDING, TS_INTEGRATION_PENDING, TS_DELIVERED]"
proof -
  have "run_task [TS_LEASED, TS_RUNNING, TS_EVIDENCE_PENDING, TS_INTEGRATION_PENDING, TS_DELIVERED] TS_READY
          = Inr TS_DELIVERED" by code_simp
  from task_delivery_path [OF this] task_delivery_path show ?thesis by auto
qed

end
