(* ===== verification/Schema.thy ===== *)
theory Schema
  imports Scope State_Machine
begin

text \<open>
  \<open>schema.py\<close>: one record per modelled table and the database state \<open>db\<close>, in which a table is
  the list of its rows in rowid order.  Columns that hold an enumeration value hold the
  constructor, \<open>*_json\<close> columns hold the document, and time stamps are integers (the order of
  instants is all the runtime uses of them).  \<open>insert_row\<close> is an \<open>INSERT\<close> under the primary key
  and the unique constraints of the table.
\<close>

section \<open>Roles\<close>

datatype role = OWNER | WORKER | EVALUATOR | RELEASE | OBSERVER | PROVIDER_ATTESTOR
  | HUMAN_ACCEPTOR | BUSINESS_REVIEWER | SYSTEM

fun role_value :: "role \<Rightarrow> string" where
  "role_value OWNER = ''owner''"
| "role_value WORKER = ''worker''"
| "role_value EVALUATOR = ''evaluator''"
| "role_value RELEASE = ''release''"
| "role_value OBSERVER = ''observer''"
| "role_value PROVIDER_ATTESTOR = ''provider_attestor''"
| "role_value HUMAN_ACCEPTOR = ''human_acceptor''"
| "role_value BUSINESS_REVIEWER = ''business_reviewer''"
| "role_value SYSTEM = ''system''"

lemma role_value_inject [simp]: "role_value a = role_value b \<longleftrightarrow> a = b"
  by (cases a; cases b) simp_all

text \<open>Roles are ordered as their values are, which is the order of \<open>sorted\<close> and \<open>ORDER BY\<close>.\<close>

instantiation role :: linorder
begin

definition less_eq_role :: "role \<Rightarrow> role \<Rightarrow> bool" where
  "a \<le> b \<longleftrightarrow> role_value a \<le> role_value b"

definition less_role :: "role \<Rightarrow> role \<Rightarrow> bool" where
  "a < b \<longleftrightarrow> role_value a < role_value b"

instance
  by standard (auto simp: less_eq_role_def less_role_def intro: le_neq_trans)

end

section \<open>Rows\<close>

record principal_row =
  p_principal_id :: string
  p_principal_key :: string
  p_display_name :: string
  p_credential_salt :: string
  p_credential_hash :: string
  p_credential_iterations :: int
  p_credential_version :: int
  p_enabled :: bool
  p_created_at :: int
  p_updated_at :: int
  p_disabled_at :: "int option"

record role_row =
  ro_principal_id :: string
  ro_role :: role
  ro_granted_at :: int

record session_row =
  s_session_id :: string
  s_principal_id :: string
  s_token_hash :: string
  s_credential_version :: int
  s_issued_at :: int
  s_expires_at :: int
  s_revoked_at :: "int option"

record event_row =
  e_event_id :: string
  e_aggregate_type :: string
  e_aggregate_id :: string
  e_aggregate_version :: int
  e_project_id :: string
  e_run_id :: "string option"
  e_task_id :: "string option"
  e_event_type :: string
  e_schema_version :: int
  e_actor :: string
  e_auth_context :: "(string \<times> json) list"
  e_command_id :: string
  e_idempotency_key :: "string option"
  e_correlation_id :: string
  e_causation_id :: "string option"
  e_policy_version :: string
  e_occurred_at :: int
  e_recorded_at :: int
  e_confidentiality :: string
  e_payload :: "(string \<times> json) list"
  e_payload_digest :: string
  e_previous_event_hash :: string
  e_event_hash :: string

record idempotency_row =
  i_project_id :: string
  i_scope :: string
  i_key :: string
  i_payload_digest :: string
  i_result :: json
  i_event_id :: string
  i_created_at :: int

record goal_row =
  g_goal_id :: string
  g_project_id :: string
  g_state :: goal_state
  g_spec :: json
  g_version :: int
  g_created_at :: int
  g_updated_at :: int

record adopted_project_row =
  apj_project_id :: string
  apj_version :: int
  apj_digest :: string
  apj_spec :: json
  apj_current_program_id :: string
  apj_adopted_at :: int

record adopted_program_row =
  apg_program_id :: string
  apg_project_id :: string
  apg_version :: int
  apg_digest :: string
  apg_state :: string
  apg_graph_digest :: string
  apg_spec :: json
  apg_adopted_at :: int

record goal_binding_row =
  gb_goal_id :: string
  gb_project_id :: string
  gb_program_id :: string
  gb_authority_digest :: string
  gb_authority :: json
  gb_source_event_id :: string

record task_binding_row =
  tb_task_id :: string
  tb_project_id :: string
  tb_program_id :: string
  tb_goal_id :: string
  tb_authority_digest :: string
  tb_authority :: json
  tb_provider_budget_minor_units :: int
  tb_provider_call_limit :: int
  tb_required_decision_gates :: json
  tb_source_event_id :: string

record run_row =
  r_run_id :: string
  r_goal_id :: string
  r_project_id :: string
  r_loop_state :: loop_state
  r_policy_version :: string
  r_version :: int
  r_created_at :: int
  r_updated_at :: int

record task_row =
  t_task_id :: string
  t_goal_id :: string
  t_run_id :: "string option"
  t_project_id :: string
  t_state :: task_state
  t_spec :: json
  t_version :: int
  t_attempt_count :: int
  t_due_at :: "int option"
  t_last_error :: "string option"
  t_created_at :: int
  t_updated_at :: int

record attempt_row =
  at_attempt_id :: string
  at_task_id :: string
  at_run_id :: string
  at_number :: int
  at_worker_id :: string
  at_state :: string
  at_started_at :: int
  at_ended_at :: "int option"
  at_failure_id :: "string option"

record step_row =
  ws_task_id :: string
  ws_step_id :: string
  ws_status :: string
  ws_input_digest :: string
  ws_result :: "json option"
  ws_effect_id :: "string option"
  ws_started_at :: int
  ws_completed_at :: "int option"

record lease_row =
  l_resource_key :: string
  l_project_id :: string
  l_task_id :: string
  l_holder :: string
  l_fence :: int
  l_issued_at :: int
  l_expires_at :: int
  l_released_at :: "int option"

record approval_row =
  ap_approval_id :: string
  ap_project_id :: string
  ap_goal_id :: string
  ap_run_id :: string
  ap_task_id :: string
  ap_requester :: string
  ap_approver :: "string option"
  ap_capability :: capability
  ap_action :: string
  ap_resource :: string
  ap_request_digest :: string
  ap_binding_digest :: "string option"
  ap_binding_version :: "int option"
  ap_decision_gate :: "string option"
  ap_policy_version :: string
  ap_decision :: string
  ap_requested_at :: int
  ap_decided_at :: "int option"
  ap_expires_at :: "int option"

record grant_row =
  gr_grant_id :: string
  gr_project_id :: string
  gr_goal_id :: string
  gr_run_id :: string
  gr_task_id :: string
  gr_approval_id :: "string option"
  gr_issuer :: string
  gr_principal :: string
  gr_capability :: capability
  gr_action :: string
  gr_resource :: string
  gr_request_digest :: string
  gr_policy_version :: string
  gr_not_before :: int
  gr_expires_at :: int
  gr_max_uses :: int
  gr_used_count :: int
  gr_cost_limit :: int
  gr_cost_used :: int
  gr_required_fence :: "int option"
  gr_revoked_at :: "int option"

record usage_row =
  u_grant_id :: string
  u_idempotency_key :: string
  u_request_digest :: string
  u_cost :: int
  u_used_at :: int
  u_effect_id :: "string option"

record outbox_row =
  o_effect_id :: string
  o_project_id :: string
  o_run_id :: string
  o_task_id :: string
  o_step_id :: string
  o_adapter :: string
  o_idempotency_key :: string
  o_request_digest :: string
  o_request :: json
  o_status :: string
  o_created_at :: int
  o_dispatched_at :: "int option"
  o_reconciled_at :: "int option"
  o_last_error :: "string option"

record receipt_row =
  rc_receipt_id :: string
  rc_effect_id :: string
  rc_status :: string
  rc_provider_receipt :: "string option"
  rc_result :: json
  rc_result_digest :: string
  rc_recorded_at :: int

record artifact_row =
  af_artifact_id :: string
  af_project_id :: string
  af_run_id :: string
  af_task_id :: string
  af_producer :: string
  af_kind :: string
  af_uri :: string
  af_content_digest :: string
  af_confidentiality :: string
  af_created_at :: int

record evidence_row =
  ev_evidence_id :: string
  ev_project_id :: string
  ev_run_id :: string
  ev_task_id :: string
  ev_claim :: string
  ev_state :: evidence_state
  ev_artifact_refs :: "string list"
  ev_verifier :: string
  ev_verifier_version :: string
  ev_environment :: string
  ev_verdict :: evaluator_verdict
  ev_non_claims :: "string list"
  ev_created_at :: int

record observation_row =
  ob_observation_id :: string
  ob_project_id :: string
  ob_run_id :: string
  ob_surface_key :: string
  ob_target_identity :: string
  ob_observer :: string
  ob_probe_name :: string
  ob_probe_version :: string
  ob_trigger_event_id :: "string option"
  ob_status :: string
  ob_value :: json
  ob_value_digest :: string
  ob_observed_at :: int
  ob_recorded_at :: int
  ob_expires_at :: int

record negative_row =
  n_failure_id :: string
  n_project_id :: string
  n_run_id :: string
  n_task_id :: string
  n_fingerprint :: string
  n_failure_class :: string
  n_severity :: string
  n_evidence_refs :: "string list"
  n_repair_route :: string
  n_first_seen :: int
  n_last_seen :: int
  n_recurrence_count :: int
  n_expires_at :: "int option"

record proposal_row =
  ip_proposal_id :: string
  ip_project_id :: string
  ip_source_run_id :: string
  ip_hypothesis :: string
  ip_candidate_digest :: string
  ip_editable_surface :: string
  ip_expected_benefit :: string
  ip_risk :: string
  ip_rollback_route :: string
  ip_held_in_eval_id :: "string option"
  ip_held_out_eval_id :: "string option"
  ip_sealed_eval_id :: "string option"
  ip_state :: string
  ip_owner_approval_id :: "string option"
  ip_created_at :: int
  ip_updated_at :: int

record integration_row =
  in_integration_id :: string
  in_project_id :: string
  in_run_id :: string
  in_task_id :: string
  in_state :: integration_state
  in_source_ref :: string
  in_target_ref :: string
  in_owner :: string
  in_evidence_refs :: "string list"
  in_updated_at :: int

record context_item_row =
  ci_context_id :: string
  ci_project_id :: string
  ci_scope :: string
  ci_source_ref :: string
  ci_source_digest :: string
  ci_content :: string
  ci_classification :: string
  ci_normative_status :: string
  ci_priority :: int
  ci_token_estimate :: int
  ci_observed_at :: int
  ci_effective_at :: int
  ci_expires_at :: "int option"
  ci_supersedes :: "string option"
  ci_created_at :: int

record assembly_row =
  ca_assembly_id :: string
  ca_project_id :: string
  ca_run_id :: string
  ca_task_id :: string
  ca_token_budget :: int
  ca_selected :: json
  ca_rejected :: json
  ca_assembly_digest :: string
  ca_created_at :: int

record memory_row =
  m_memory_id :: string
  m_project_id :: string
  m_source_evidence_id :: string
  m_source_digest :: string
  m_scope :: string
  m_classification :: string
  m_content :: string
  m_status :: string
  m_effective_at :: int
  m_expires_at :: "int option"
  m_supersedes :: "string option"
  m_promotion_approval_id :: "string option"
  m_heldout_eval_id :: "string option"
  m_created_at :: int

record eval_row =
  el_eval_id :: string
  el_project_id :: string
  el_candidate_digest :: string
  el_dataset_name :: string
  el_dataset_split :: string
  el_dataset_digest :: string
  el_evaluator :: string
  el_evaluator_version :: string
  el_status :: string
  el_metrics :: json
  el_safety_failures :: json
  el_attestation_id :: string
  el_attestation_digest :: string
  el_created_at :: int

record custody_row =
  ct_attestation_id :: string
  ct_proposal_id :: string
  ct_eval_id :: string
  ct_project_id :: string
  ct_candidate_digest :: string
  ct_dataset_digest :: string
  ct_eval_attestation_digest :: string
  ct_evaluator_principal_id :: string
  ct_custody_provider :: string
  ct_custodian_id :: string
  ct_policy_version :: string
  ct_attestation_digest :: string
  ct_verified_at :: int

section \<open>The database\<close>

text \<open>\<open>uuid_next\<close> counts the identifiers drawn from \<open>uuid.uuid4\<close>.\<close>

record db =
  principals :: "principal_row list"
  principal_roles :: "role_row list"
  sessions :: "session_row list"
  events :: "event_row list"
  idempotency_records :: "idempotency_row list"
  goals :: "goal_row list"
  adopted_projects :: "adopted_project_row list"
  adopted_programs :: "adopted_program_row list"
  goal_bindings :: "goal_binding_row list"
  task_bindings :: "task_binding_row list"
  runs :: "run_row list"
  tasks :: "task_row list"
  attempts :: "attempt_row list"
  workflow_step_rows :: "step_row list"
  leases :: "lease_row list"
  approvals :: "approval_row list"
  grants :: "grant_row list"
  usages :: "usage_row list"
  outbox :: "outbox_row list"
  receipts :: "receipt_row list"
  artifacts :: "artifact_row list"
  evidence_claims :: "evidence_row list"
  observations :: "observation_row list"
  negative_results :: "negative_row list"
  improvement_proposals :: "proposal_row list"
  integration_items :: "integration_row list"
  context_items :: "context_item_row list"
  context_assemblies :: "assembly_row list"
  memory_items :: "memory_row list"
  eval_runs :: "eval_row list"
  custody_attestations :: "custody_row list"
  uuid_next :: nat

definition empty_db :: db where
  "empty_db = \<lparr>principals = [], principal_roles = [], sessions = [], events = [], idempotency_records = [],
     goals = [], adopted_projects = [], adopted_programs = [], goal_bindings = [], task_bindings = [], runs = [], tasks = [], attempts = [],
     workflow_step_rows = [], leases = [], approvals = [], grants = [], usages = [], outbox = [],
     receipts = [], artifacts = [], evidence_claims = [], observations = [], negative_results = [],
     improvement_proposals = [], integration_items = [], context_items = [],
     context_assemblies = [], memory_items = [], eval_runs = [], custody_attestations = [], uuid_next = 0\<rparr>"

text \<open>An \<open>INSERT\<close> fails when the new row clashes with a row on a key.\<close>

definition insert_row :: "('r \<Rightarrow> 'r \<Rightarrow> bool) \<Rightarrow> 'r \<Rightarrow> 'r list \<Rightarrow> 'r list res" where
  "insert_row clash row rows =
     (if exists_row (clash row) rows then Inl (SqliteIntegrityError ''UNIQUE constraint failed'')
      else Inr (rows @ [row]))"

lemma insert_row_Inr [simp]:
  "insert_row clash row rows = Inr rows' \<longleftrightarrow> (\<forall>r \<in> set rows. \<not> clash row r) \<and> rows' = rows @ [row]"
  by (auto simp: insert_row_def)

text \<open>\<open>ORDER BY\<close> key: the first row of the least key, ties in rowid order.\<close>

fun min_by :: "('r \<Rightarrow> 'k :: linorder) \<Rightarrow> 'r list \<Rightarrow> 'r option" where
  "min_by k [] = None"
| "min_by k (r # rs) = (case min_by k rs of None \<Rightarrow> Some r | Some s \<Rightarrow> if k r \<le> k s then Some r else Some s)"

lemma min_by_None [simp]: "min_by k rows = None \<longleftrightarrow> rows = []"
  by (cases rows) (auto split: option.splits)

lemma min_by_SomeD:
  "min_by k rows = Some r \<Longrightarrow> r \<in> set rows \<and> (\<forall>s \<in> set rows. k r \<le> k s)"
proof (induction rows arbitrary: r)
  case (Cons a rows)
  then show ?case by (cases "min_by k rows") (auto split: if_splits intro: order_trans)
qed simp

end
