(* ===== verification/Store.thy ===== *)
theory Store
  imports Schema "HOL-Library.AList"
begin

text \<open>
  \<open>store.py\<close>: command authorities bound to service objects, the append-only event log with its
  hash chain, its verification, and the idempotency records.

  SHA-256 is the parameter \<open>sha256\<close> of the environment (text to hexadecimal digest), \<open>uuid4\<close>
  the sequence of identifiers that are drawn, \<open>now\<close> the clock reading of the transaction.
  An object is a \<open>service\<close>: its exact class and its identity.  An operation is a function from
  the database to a result and the database after it; a failure is a transaction rolled back.
\<close>

type_synonym dict = "(string \<times> json) list"

section \<open>Command authorities\<close>

record service =
  sv_class :: string
  sv_id :: nat

record command_binding =
  cb_handler :: string
  cb_owner :: nat
  cb_owner_alive :: bool
  cb_kind :: string
  cb_binding_id :: string
  cb_config_digest :: string

record authority_domain =
  command_authorities :: "(nat \<times> command_binding) list"
  protected_handler_configs :: "(string \<times> string) list"
  protected_runtime_types :: "(string \<times> string list) list"
  next_token :: nat

record env =
  sha256 :: "string \<Rightarrow> string"
  uuid4 :: "nat \<Rightarrow> string"
  now :: int
  domain :: authority_domain

definition CORE_AUTHORITY_VERSION :: string where
  "CORE_AUTHORITY_VERSION = ''opaque-command-v1''"

definition CORE_HANDLERS :: "(string \<times> string list) list" where
  "CORE_HANDLERS = [(''goal'', [''runtime_kernel'']), (''run'', [''runtime_kernel'']),
     (''task'', [''runtime_kernel'', ''task_scheduler''])]"

definition CORE_AUTH_CONTEXT_FIELDS :: "string list" where
  "CORE_AUTH_CONTEXT_FIELDS = [''handler'', ''authorized_role'', ''session_id'', ''command_authority_version'']"

definition PROTECTED_EVENT_HANDLERS :: "((string \<times> string) \<times> string list) list" where
  "PROTECTED_EVENT_HANDLERS = [
     ((''approval'', ''approval_decided''), [''policy_engine'']),
     ((''artifact'', ''artifact_registered''), [''evidence_registry'']),
     ((''evidence'', ''evidence_claim_recorded''), [''evidence_registry'']),
     ((''eval'', ''eval_recorded''), [''evaluation_registry'']),
     ((''improvement'', ''improvement_proposed''), [''evaluation_registry'']),
     ((''improvement'', ''improvement_eval_attached''), [''evaluation_registry'']),
     ((''improvement'', ''improvement_promoted''), [''evaluation_registry'']),
     ((''sealed_custody'', ''sealed_custody_attested''), [''evaluation_registry''])]"

definition PROTECTED_AGGREGATES :: "string list" where
  "PROTECTED_AGGREGATES = map (\<lambda>p. fst (fst p)) PROTECTED_EVENT_HANDLERS"

definition PROTECTED_AUTH_CONTEXT_FIELDS :: "string list" where
  "PROTECTED_AUTH_CONTEXT_FIELDS = [''handler'', ''handler_binding_id'', ''handler_config_digest'',
     ''protected_event'', ''command_authority_version'']"

definition prune_dead :: "authority_domain \<Rightarrow> authority_domain" where
  "prune_dead ad = ad\<lparr>command_authorities := filter (\<lambda>p. cb_owner_alive (snd p)) (command_authorities ad)\<rparr>"

definition owner_bound :: "service \<Rightarrow> authority_domain \<Rightarrow> bool" where
  "owner_bound owner ad \<longleftrightarrow>
     list_ex (\<lambda>p. cb_owner_alive (snd p) \<and> cb_owner (snd p) = sv_id owner) (command_authorities ad)"

definition add_authority :: "command_binding \<Rightarrow> authority_domain \<Rightarrow> nat \<times> authority_domain" where
  "add_authority b ad = (next_token ad,
     ad\<lparr>command_authorities := command_authorities ad @ [(next_token ad, b)], next_token := Suc (next_token ad)\<rparr>)"

definition bind_core_command_authority ::
    "(string \<Rightarrow> string) \<Rightarrow> string \<Rightarrow> service \<Rightarrow> string \<Rightarrow> authority_domain \<Rightarrow> (nat \<times> authority_domain) res" where
  "bind_core_command_authority hash binding_id owner handler ad =
     bindr (require (map_of [(''runtime_kernel'', ''RuntimeKernel''), (''task_scheduler'', ''TaskScheduler'')] handler)
              (IntegrityError ''unsupported core command handler'')) (\<lambda>expected.
     if sv_class owner \<noteq> expected
     then Inl (IntegrityError ''core command authority cannot bind untrusted handler'')
     else
       let ad = prune_dead ad in
       if owner_bound owner ad then Inl (IntegrityError ''core command handler already has bound authority'')
       else Inr (add_authority \<lparr>cb_handler = handler, cb_owner = sv_id owner, cb_owner_alive = True,
              cb_kind = ''core'', cb_binding_id = binding_id,
              cb_config_digest = content_hash hash (JObj [(''authority_kind'', JStr ''core''),
                 (''handler'', JStr handler), (''version'', JStr CORE_AUTHORITY_VERSION)])\<rparr> ad))"

definition bind_protected_command_authority ::
    "string \<Rightarrow> service \<Rightarrow> string \<Rightarrow> string \<Rightarrow> string list \<Rightarrow> authority_domain \<Rightarrow> (nat \<times> authority_domain) res" where
  "bind_protected_command_authority binding_id owner handler config_digest component_types ad =
     bindr (require (map_of [(''policy_engine'', ''PolicyEngine''), (''evidence_registry'', ''EvidenceRegistry''),
               (''evaluation_registry'', ''EvaluationRegistry'')] handler)
              (IntegrityError ''unsupported protected command handler'')) (\<lambda>expected.
     if sv_class owner \<noteq> expected
     then Inl (IntegrityError ''protected command authority cannot bind untrusted handler'')
     else if \<not> hex_digest config_digest then Inl (IntegrityError ''protected handler config digest is invalid'')
     else
       let ad = prune_dead ad in
       if owner_bound owner ad then Inl (IntegrityError ''trusted command handler already has bound authority'')
       else if handler = ''evaluation_registry'' \<and>
          list_ex (\<lambda>p. cb_kind (snd p) = ''protected'' \<and> cb_handler (snd p) = handler \<and> cb_owner_alive (snd p))
            (command_authorities ad)
       then Inl (IntegrityError ''evaluation registry authority is already bound for this database'')
       else if map_of (protected_handler_configs ad) handler \<notin> {None, Some config_digest}
       then Inl (IntegrityError ''protected handler configuration drift'')
       else if map_of (protected_runtime_types ad) handler \<notin> {None, Some component_types}
       then Inl (IntegrityError ''protected handler implementation drift'')
       else Inr (add_authority \<lparr>cb_handler = handler, cb_owner = sv_id owner, cb_owner_alive = True,
              cb_kind = ''protected'', cb_binding_id = binding_id, cb_config_digest = config_digest\<rparr>
            (ad\<lparr>protected_handler_configs := AList.update handler config_digest (protected_handler_configs ad),
                 protected_runtime_types := AList.update handler component_types (protected_runtime_types ad)\<rparr>)))"

text \<open>The garbage collector takes a service object.\<close>

definition collect_owner :: "nat \<Rightarrow> authority_domain \<Rightarrow> authority_domain" where
  "collect_owner i ad = ad\<lparr>command_authorities := map (\<lambda>(t, b). (t, if cb_owner b = i then b\<lparr>cb_owner_alive := False\<rparr> else b))
     (command_authorities ad)\<rparr>"

section \<open>Roles of core events\<close>

fun run_event_roles :: "loop_event \<Rightarrow> role list" where
  "run_event_roles OWNER_INTENT_RECEIVED = [OWNER, SYSTEM]"
| "run_event_roles GOAL_COMPILED = [SYSTEM]"
| "run_event_roles RUN_READY = [SYSTEM]"
| "run_event_roles TASK_STARTED = [WORKER, SYSTEM]"
| "run_event_roles HUMAN_APPROVAL_REQUESTED = [WORKER, SYSTEM]"
| "run_event_roles HUMAN_APPROVAL_RECEIVED = [OWNER, SYSTEM]"
| "run_event_roles EVIDENCE_SUBMITTED = [WORKER, SYSTEM]"
| "run_event_roles EVALUATOR_VERDICT_RECEIVED = [EVALUATOR]"
| "run_event_roles CI_CHECK_STARTED = [RELEASE, SYSTEM]"
| "run_event_roles CI_CHECK_COMPLETED = [RELEASE, SYSTEM]"
| "run_event_roles DEPLOY_DIRECTORY_UPDATED = [RELEASE]"
| "run_event_roles SERVICE_RESTART_ATTEMPTED = [RELEASE]"
| "run_event_roles RUNTIME_FRESHNESS_VERIFIED = [OBSERVER]"
| "run_event_roles RUNTIME_DRIFT_DETECTED = [OBSERVER, SYSTEM]"
| "run_event_roles DELIVERY_CONFIRMED = [RELEASE]"
| "run_event_roles IMPROVEMENT_REQUESTED = [OWNER, SYSTEM]"
| "run_event_roles RESUME_REQUESTED = [OWNER, SYSTEM]"
| "run_event_roles CAPABILITY_GAP_DETECTED = [SYSTEM]"
| "run_event_roles MISSING_STATE_DETECTED = [SYSTEM]"
| "run_event_roles CIRCUIT_BREAKER_TRIGGERED = [WORKER, SYSTEM]"

fun task_target_roles :: "task_state \<Rightarrow> role list" where
  "task_target_roles TS_LEASED = [WORKER, SYSTEM]"
| "task_target_roles TS_RUNNING = [WORKER, SYSTEM]"
| "task_target_roles TS_EVIDENCE_PENDING = [WORKER, SYSTEM]"
| "task_target_roles TS_EVALUATOR_PENDING = [EVALUATOR, SYSTEM]"
| "task_target_roles TS_INTEGRATION_PENDING = [EVALUATOR, SYSTEM]"
| "task_target_roles TS_DELIVERED = [RELEASE]"
| "task_target_roles TS_RETRY_PENDING = [WORKER, SYSTEM]"
| "task_target_roles TS_FAILED = [WORKER, SYSTEM]"
| "task_target_roles TS_BLOCKED = [OWNER, SYSTEM]"
| "task_target_roles TS_CANCELED = [OWNER, SYSTEM]"
| "task_target_roles TS_DELETED = [OWNER, SYSTEM]"
| "task_target_roles TS_RETIRED = [OWNER, SYSTEM]"
| "task_target_roles TS_SUSPENDED = [OWNER, WORKER, SYSTEM]"
| "task_target_roles TS_READY = [SYSTEM]"

definition all_loop_events :: "loop_event list" where
  "all_loop_events = [OWNER_INTENT_RECEIVED, GOAL_COMPILED, RUN_READY, TASK_STARTED, HUMAN_APPROVAL_REQUESTED,
     HUMAN_APPROVAL_RECEIVED, EVIDENCE_SUBMITTED, EVALUATOR_VERDICT_RECEIVED, CI_CHECK_STARTED, CI_CHECK_COMPLETED,
     DEPLOY_DIRECTORY_UPDATED, SERVICE_RESTART_ATTEMPTED, RUNTIME_FRESHNESS_VERIFIED, RUNTIME_DRIFT_DETECTED,
     CAPABILITY_GAP_DETECTED, MISSING_STATE_DETECTED, CIRCUIT_BREAKER_TRIGGERED, IMPROVEMENT_REQUESTED,
     DELIVERY_CONFIRMED, RESUME_REQUESTED]"

definition all_task_states :: "task_state list" where
  "all_task_states = [TS_READY, TS_LEASED, TS_RUNNING, TS_SUSPENDED, TS_EVIDENCE_PENDING, TS_EVALUATOR_PENDING,
     TS_INTEGRATION_PENDING, TS_DELIVERED, TS_RETRY_PENDING, TS_FAILED, TS_BLOCKED, TS_CANCELED, TS_DELETED, TS_RETIRED]"

definition core_roles :: "string \<Rightarrow> string \<Rightarrow> dict \<Rightarrow> string option \<Rightarrow> role list res" where
  "core_roles aggregate_type event_type payload handler =
     (if aggregate_type = ''goal'' then
        if event_type \<noteq> ''goal_created'' then Inl (IntegrityError ''unsupported goal event type'') else Inr [OWNER]
      else if aggregate_type = ''run'' then
        (case List.find (\<lambda>e. loop_event_value e = event_type) all_loop_events of
           None \<Rightarrow> Inl (IntegrityError ''unsupported run event type'') | Some e \<Rightarrow> Inr (run_event_roles e))
      else if event_type = ''task_added'' then Inr [OWNER, SYSTEM]
      else if event_type \<noteq> ''task_state_changed'' then Inl (IntegrityError ''unsupported task event type'')
      else (case List.find (\<lambda>s. map_of payload ''target'' = Some (JStr (task_state_value s))) all_task_states of
           None \<Rightarrow> Inl (IntegrityError ''unsupported task transition target'')
         | Some tgt \<Rightarrow>
             Inr (task_target_roles tgt @
               (if handler = Some ''runtime_kernel'' \<and> tgt \<in> {TS_LEASED, TS_READY} then [OWNER] else []))))"

definition handler_supports_event :: "string \<Rightarrow> string \<Rightarrow> string \<Rightarrow> bool" where
  "handler_supports_event handler aggregate_type event_type =
     (if handler = ''runtime_kernel'' then aggregate_type \<in> set (map fst CORE_HANDLERS)
      else handler = ''task_scheduler'' \<and> aggregate_type = ''task'' \<and> event_type = ''task_state_changed'')"

section \<open>Authorization of events\<close>

text \<open>The opaque bearer session: \<open>None\<close> stands for an object without its slots.\<close>

record auth_session =
  as_session_id :: string
  as_session_secret :: string
  as_principal_id :: string
  as_display_name :: string

definition session_live :: "env \<Rightarrow> session_row \<Rightarrow> principal_row \<Rightarrow> bool" where
  "session_live env s p \<longleftrightarrow> s_principal_id s = p_principal_id p \<and> s_revoked_at s = None \<and> p_enabled p \<and>
     s_credential_version s = p_credential_version p \<and> s_issued_at s \<le> now env \<and> now env < s_expires_at s"

text \<open>The query of \<open>_authorize_core_event\<close>: the least allowed role of a live session.\<close>

definition session_roles :: "env \<Rightarrow> db \<Rightarrow> string \<Rightarrow> string \<Rightarrow> role list \<Rightarrow> (role \<times> string) list" where
  "session_roles env db session_id actor allowed =
     [(ro_role r, s_token_hash s). s \<leftarrow> sessions db, s_session_id s = session_id \<and> s_principal_id s = actor,
        p \<leftarrow> principals db, session_live env s p,
        r \<leftarrow> principal_roles db, ro_principal_id r = p_principal_id p \<and> ro_role r \<in> set allowed]"

definition lookup_authority :: "env \<Rightarrow> nat option \<Rightarrow> command_binding option" where
  "lookup_authority env command_authority = Option.bind command_authority (map_of (command_authorities (domain env)))"

definition authorize_core_event ::
    "env \<Rightarrow> db \<Rightarrow> string \<Rightarrow> string \<Rightarrow> string \<Rightarrow> dict \<Rightarrow> auth_session option \<Rightarrow> nat option \<Rightarrow> (string \<times> role \<times> string) res" where
  "authorize_core_event env db aggregate_type event_type actor payload auth_session command_authority =
     bindr (require (lookup_authority env command_authority)
              (IntegrityError ''core event requires opaque command authority'')) (\<lambda>binding.
     if \<not> cb_owner_alive binding \<or> cb_kind binding \<noteq> ''core''
     then Inl (IntegrityError ''core event requires opaque command authority'')
     else if \<not> handler_supports_event (cb_handler binding) aggregate_type event_type
     then Inl (IntegrityError ''core command handler cannot append'')
     else
     bindr (require auth_session (IntegrityError ''core event requires an authenticated bearer session'')) (\<lambda>session.
     if as_session_id session = [] \<or> as_principal_id session \<noteq> actor
     then Inl (IntegrityError ''core event bearer session is malformed'')
     else
     bindr (core_roles aggregate_type event_type payload (Some (cb_handler binding))) (\<lambda>allowed.
     bindr (require (min_by fst (session_roles env db (as_session_id session) actor allowed))
              (IntegrityError ''core event actor/session/role is not authorized'')) (\<lambda>row.
     if sha256 env (as_session_secret session) \<noteq> snd row
     then Inl (IntegrityError ''core event actor/session/role is not authorized'')
     else Inr (cb_handler binding, fst row, as_session_id session)))))"

definition authorize_protected_event ::
    "env \<Rightarrow> string \<Rightarrow> string \<Rightarrow> nat option \<Rightarrow> nat option \<Rightarrow> (string \<times> string \<times> string) res" where
  "authorize_protected_event env aggregate_type event_type command_authority command_owner =
     bindr (require (map_of PROTECTED_EVENT_HANDLERS (aggregate_type, event_type))
              (IntegrityError ''unsupported protected event'')) (\<lambda>handlers.
     bindr (require (lookup_authority env command_authority)
              (IntegrityError ''protected event requires opaque command authority'')) (\<lambda>binding.
     if \<not> cb_owner_alive binding \<or> Some (cb_owner binding) \<noteq> command_owner \<or>
        cb_kind binding \<noteq> ''protected'' \<or> cb_handler binding \<notin> set handlers
     then Inl (IntegrityError ''protected event requires opaque command authority'')
     else Inr (cb_handler binding, cb_binding_id binding, cb_config_digest binding)))"

section \<open>The event-insert guard\<close>

text \<open>One connection: the pending event the trigger will let through, once.\<close>

type_synonym guard = "(string \<times> string) option"

definition arm_event_insert :: "string \<Rightarrow> string \<Rightarrow> guard \<Rightarrow> guard res" where
  "arm_event_insert event_id event_hash pending =
     (if pending \<noteq> None then Inl (IntegrityError ''event insert authority is already armed'')
      else Inr (Some (event_id, event_hash)))"

definition guard_authorize :: "string \<Rightarrow> string \<Rightarrow> guard \<Rightarrow> bool \<times> guard" where
  "guard_authorize event_id event_hash pending = (pending = Some (event_id, event_hash), None)"

definition event_clash :: "event_row \<Rightarrow> event_row \<Rightarrow> bool" where
  "event_clash a b \<longleftrightarrow> e_event_id a = e_event_id b \<or> e_event_hash a = e_event_hash b \<or>
     (e_aggregate_type a = e_aggregate_type b \<and> e_aggregate_id a = e_aggregate_id b \<and>
      e_aggregate_version a = e_aggregate_version b)"

text \<open>\<open>INSERT INTO events\<close> through any connection: the authorizer denies it while the guard is
  not armed, and the trigger aborts it for any other event than the armed one.\<close>

definition insert_event :: "event_row \<Rightarrow> guard \<Rightarrow> event_row list \<Rightarrow> (event_row list \<times> guard) res" where
  "insert_event row pending rows =
     (if pending = None then Inl (SqliteIntegrityError ''not authorized'')
      else let (ok, pending') = guard_authorize (e_event_id row) (e_event_hash row) pending in
        if \<not> ok then Inl (SqliteIntegrityError ''event inserts require store command authority'')
        else bindr (insert_row event_clash row rows) (\<lambda>rows'. Inr (rows', pending')))"

section \<open>Appending events\<close>

record event_cmd =
  c_aggregate_type :: string
  c_aggregate_id :: string
  c_expected_version :: int
  c_project_id :: string
  c_event_type :: string
  c_actor :: string
  c_command_id :: string
  c_correlation_id :: string
  c_policy_version :: string
  c_payload :: dict
  c_auth_context :: dict
  c_auth_session :: "auth_session option"
  c_command_authority :: "nat option"
  c_command_owner :: "nat option"
  c_run_id :: "string option"
  c_task_id :: "string option"
  c_idempotency_key :: "string option"
  c_causation_id :: "string option"
  c_confidentiality :: string
  c_occurred_at :: "int option"

definition reserved_free :: "string list \<Rightarrow> dict \<Rightarrow> bool" where
  "reserved_free reserved auth \<longleftrightarrow> (\<forall>k \<in> set reserved. k \<notin> set (keys auth))"

definition authorize_event :: "env \<Rightarrow> db \<Rightarrow> event_cmd \<Rightarrow> dict res" where
  "authorize_event env db c =
     (if c_aggregate_type c \<in> set (map fst CORE_HANDLERS) then
        bindr (authorize_core_event env db (c_aggregate_type c) (c_event_type c) (c_actor c) (c_payload c)
                 (c_auth_session c) (c_command_authority c)) (\<lambda>(handler, role, session_id).
        if \<not> reserved_free CORE_AUTH_CONTEXT_FIELDS (c_auth_context c)
        then Inl (IntegrityError ''core event authority metadata is store-owned'')
        else Inr (c_auth_context c @ [(''handler'', JStr handler), (''authorized_role'', JStr (role_value role)),
               (''session_id'', JStr session_id), (''command_authority_version'', JStr CORE_AUTHORITY_VERSION)]))
      else if c_aggregate_type c \<in> set PROTECTED_AGGREGATES then
        bindr (authorize_protected_event env (c_aggregate_type c) (c_event_type c)
                 (c_command_authority c) (c_command_owner c)) (\<lambda>(handler, binding_id, config).
        if \<not> reserved_free PROTECTED_AUTH_CONTEXT_FIELDS (c_auth_context c)
        then Inl (IntegrityError ''protected event authority metadata is store-owned'')
        else Inr (c_auth_context c @ [(''handler'', JStr handler), (''handler_binding_id'', JStr binding_id),
               (''handler_config_digest'', JStr config),
               (''protected_event'', JStr (c_aggregate_type c @ ''/'' @ c_event_type c)),
               (''command_authority_version'', JStr CORE_AUTHORITY_VERSION)]))
      else Inr (c_auth_context c))"

definition aggregate_events :: "string \<Rightarrow> string \<Rightarrow> event_row list \<Rightarrow> event_row list" where
  "aggregate_events ty i rows = filter (\<lambda>e. e_aggregate_type e = ty \<and> e_aggregate_id e = i) rows"

definition current_version :: "string \<Rightarrow> string \<Rightarrow> event_row list \<Rightarrow> int" where
  "current_version ty i rows = fold max (map e_aggregate_version (aggregate_events ty i rows)) 0"

definition head_hash :: "event_row list \<Rightarrow> string" where
  "head_hash rows = (if rows = [] then ''GENESIS'' else e_event_hash (last rows))"

definition envelope :: "event_row \<Rightarrow> dict" where
  "envelope e = [
     (''event_id'', JStr (e_event_id e)), (''aggregate_type'', JStr (e_aggregate_type e)),
     (''aggregate_id'', JStr (e_aggregate_id e)), (''aggregate_version'', JInt (e_aggregate_version e)),
     (''project_id'', JStr (e_project_id e)), (''run_id'', jopt (e_run_id e)), (''task_id'', jopt (e_task_id e)),
     (''event_type'', JStr (e_event_type e)), (''schema_version'', JInt (e_schema_version e)),
     (''actor'', JStr (e_actor e)), (''auth_context'', JObj (e_auth_context e)),
     (''command_id'', JStr (e_command_id e)), (''idempotency_key'', jopt (e_idempotency_key e)),
     (''correlation_id'', JStr (e_correlation_id e)), (''causation_id'', jopt (e_causation_id e)),
     (''policy_version'', JStr (e_policy_version e)), (''occurred_at'', JInt (e_occurred_at e)),
     (''recorded_at'', JInt (e_recorded_at e)), (''confidentiality'', JStr (e_confidentiality e)),
     (''payload_digest'', JStr (e_payload_digest e)), (''previous_event_hash'', JStr (e_previous_event_hash e))]"

definition hash_text :: "event_row \<Rightarrow> string" where
  "hash_text e = e_previous_event_hash e @ canonical_json (JObj (envelope e))"

definition payload_text :: "event_row \<Rightarrow> string" where
  "payload_text e = canonical_json (JObj (e_payload e))"

definition new_event :: "env \<Rightarrow> db \<Rightarrow> event_cmd \<Rightarrow> dict \<Rightarrow> event_row" where
  "new_event env db c auth =
     (let e = \<lparr>e_event_id = uuid4 env (uuid_next db), e_aggregate_type = c_aggregate_type c,
        e_aggregate_id = c_aggregate_id c,
        e_aggregate_version = current_version (c_aggregate_type c) (c_aggregate_id c) (events db) + 1,
        e_project_id = c_project_id c, e_run_id = c_run_id c, e_task_id = c_task_id c,
        e_event_type = c_event_type c, e_schema_version = 1, e_actor = c_actor c, e_auth_context = auth,
        e_command_id = c_command_id c, e_idempotency_key = c_idempotency_key c,
        e_correlation_id = c_correlation_id c, e_causation_id = c_causation_id c,
        e_policy_version = c_policy_version c,
        e_occurred_at = (case c_occurred_at c of None \<Rightarrow> now env | Some t \<Rightarrow> t), e_recorded_at = now env,
        e_confidentiality = c_confidentiality c, e_payload = c_payload c,
        e_payload_digest = sha256 env (canonical_json (JObj (c_payload c))),
        e_previous_event_hash = head_hash (events db), e_event_hash = []\<rparr>
      in e\<lparr>e_event_hash := sha256 env (hash_text e)\<rparr>)"

definition append_event :: "env \<Rightarrow> event_cmd \<Rightarrow> db \<Rightarrow> (event_row \<times> db) res" where
  "append_event env c db =
     bindr (authorize_event env db c) (\<lambda>auth.
     if current_version (c_aggregate_type c) (c_aggregate_id c) (events db) \<noteq> c_expected_version c
     then Inl (IntegrityError ''aggregate version conflict'')
     else if (case c_causation_id c of None \<Rightarrow> False | Some i \<Rightarrow> \<not> exists_row (\<lambda>e. e_event_id e = i) (events db))
     then Inl (IntegrityError ''causation event does not exist'')
     else
       let e = new_event env db c auth in
       bindr (arm_event_insert (e_event_id e) (e_event_hash e) None) (\<lambda>pending.
       bindr (insert_event e pending (events db)) (\<lambda>(rows, _).
         Inr (e, db\<lparr>events := rows, uuid_next := Suc (uuid_next db)\<rparr>))))"

text \<open>The defaults of the keyword arguments, and the next identifier of \<open>uuid.uuid4\<close>.\<close>

definition event_defaults :: event_cmd where
  "event_defaults = \<lparr>c_aggregate_type = [], c_aggregate_id = [], c_expected_version = 0, c_project_id = [],
     c_event_type = [], c_actor = [], c_command_id = [], c_correlation_id = [], c_policy_version = [],
     c_payload = [], c_auth_context = [], c_auth_session = None, c_command_authority = None,
     c_command_owner = None, c_run_id = None, c_task_id = None, c_idempotency_key = None,
     c_causation_id = None, c_confidentiality = ''internal'', c_occurred_at = None\<rparr>"

definition draw_uuid :: "env \<Rightarrow> db \<Rightarrow> string \<times> db" where
  "draw_uuid env db = (uuid4 env (uuid_next db), db\<lparr>uuid_next := Suc (uuid_next db)\<rparr>)"

definition correlation :: "string option \<Rightarrow> string \<Rightarrow> string" where
  "correlation run_id goal_id = (case run_id of None \<Rightarrow> goal_id | Some r \<Rightarrow> if r = [] then goal_id else r)"

section \<open>Verification of the chain\<close>

definition auth_text :: "dict \<Rightarrow> string \<Rightarrow> string option" where
  "auth_text auth k = (case map_of auth k of Some (JStr s) \<Rightarrow> Some s | _ \<Rightarrow> None)"

definition core_metadata_ok :: "event_row \<Rightarrow> role list \<Rightarrow> bool" where
  "core_metadata_ok e allowed \<longleftrightarrow>
     auth_text (e_auth_context e) ''command_authority_version'' = Some CORE_AUTHORITY_VERSION \<and>
     (\<exists>handler \<in> set (case map_of CORE_HANDLERS (e_aggregate_type e) of None \<Rightarrow> [] | Some hs \<Rightarrow> hs).
        auth_text (e_auth_context e) ''handler'' = Some handler \<and>
        handler_supports_event handler (e_aggregate_type e) (e_event_type e)) \<and>
     (\<exists>role \<in> set allowed. auth_text (e_auth_context e) ''authorized_role'' = Some (role_value role))"

definition session_valid_at :: "session_row \<Rightarrow> int \<Rightarrow> bool" where
  "session_valid_at s t \<longleftrightarrow> s_issued_at s \<le> t \<and> t < s_expires_at s \<and>
     (case s_revoked_at s of None \<Rightarrow> True | Some r \<Rightarrow> t \<le> r)"

definition verify_core_event :: "session_row list \<Rightarrow> event_row \<Rightarrow> unit res" where
  "verify_core_event session_rows e =
     bindr (core_roles (e_aggregate_type e) (e_event_type e) (e_payload e) (auth_text (e_auth_context e) ''handler'')) (\<lambda>allowed.
     if \<not> core_metadata_ok e allowed then Inl (IntegrityError ''core event authority metadata invalid'')
     else (case fetch_one (\<lambda>s. auth_text (e_auth_context e) ''session_id'' = Some (s_session_id s) \<and>
                               s_principal_id s = e_actor e) session_rows of
         None \<Rightarrow> Inl (IntegrityError ''core event session missing'')
       | Some s \<Rightarrow> ensure (session_valid_at s (e_occurred_at e)) (IntegrityError ''core event session was not valid'')))"

definition verify_protected_event :: "event_row \<Rightarrow> unit res" where
  "verify_protected_event e =
     (let auth = e_auth_context e in
      ensure (set (keys auth) = set PROTECTED_AUTH_CONTEXT_FIELDS \<and>
        (\<exists>handler \<in> set (case map_of PROTECTED_EVENT_HANDLERS (e_aggregate_type e, e_event_type e) of None \<Rightarrow> [] | Some hs \<Rightarrow> hs).
            auth_text auth ''handler'' = Some handler) \<and>
        auth_text auth ''command_authority_version'' = Some CORE_AUTHORITY_VERSION \<and>
        auth_text auth ''protected_event'' = Some (e_aggregate_type e @ ''/'' @ e_event_type e) \<and>
        (case auth_text auth ''handler_binding_id'' of None \<Rightarrow> False | Some b \<Rightarrow> b \<noteq> []) \<and>
        (case auth_text auth ''handler_config_digest'' of None \<Rightarrow> False | Some d \<Rightarrow> hex_digest d))
       (IntegrityError ''protected event authority metadata invalid''))"

definition verify_authority :: "session_row list \<Rightarrow> event_row \<Rightarrow> unit res" where
  "verify_authority session_rows e =
     (if e_aggregate_type e \<in> set (map fst CORE_HANDLERS) then verify_core_event session_rows e
      else if e_aggregate_type e \<in> set PROTECTED_AGGREGATES then verify_protected_event e
      else Inr ())"

fun verify_rows :: "(string \<Rightarrow> string) \<Rightarrow> session_row list \<Rightarrow> string \<Rightarrow> event_row list \<Rightarrow> unit res" where
  "verify_rows hash session_rows previous [] = Inr ()"
| "verify_rows hash session_rows previous (e # es) =
     (if e_previous_event_hash e \<noteq> previous then Inl (IntegrityError ''event chain break'')
      else if hash (hash_text e) \<noteq> e_event_hash e then Inl (IntegrityError ''event hash mismatch'')
      else if hash (payload_text e) \<noteq> e_payload_digest e then Inl (IntegrityError ''event payload digest mismatch'')
      else bindr (verify_authority session_rows e) (\<lambda>_. verify_rows hash session_rows (e_event_hash e) es))"

definition verify_event_chain :: "(string \<Rightarrow> string) \<Rightarrow> db \<Rightarrow> nat res" where
  "verify_event_chain hash db =
     bindr (verify_rows hash (sessions db) ''GENESIS'' (events db)) (\<lambda>_. Inr (length (events db)))"

definition verify_protected_event_authority :: "event_row \<Rightarrow> string \<Rightarrow> string \<Rightarrow> string res" where
  "verify_protected_event_authority e expected_handler expected_config_digest =
     (let auth = e_auth_context e in
      case auth_text auth ''handler_binding_id'' of
        None \<Rightarrow> Inl (IntegrityError ''protected event authority metadata is invalid'')
      | Some binding_id \<Rightarrow>
        if set (keys auth) \<noteq> set PROTECTED_AUTH_CONTEXT_FIELDS \<or>
           expected_handler \<notin> set (case map_of PROTECTED_EVENT_HANDLERS (e_aggregate_type e, e_event_type e) of None \<Rightarrow> [] | Some hs \<Rightarrow> hs) \<or>
           auth_text auth ''handler'' \<noteq> Some expected_handler \<or>
           auth_text auth ''handler_config_digest'' \<noteq> Some expected_config_digest \<or>
           auth_text auth ''command_authority_version'' \<noteq> Some CORE_AUTHORITY_VERSION \<or>
           auth_text auth ''protected_event'' \<noteq> Some (e_aggregate_type e @ ''/'' @ e_event_type e) \<or>
           binding_id = []
        then Inl (IntegrityError ''protected event authority metadata is invalid'')
        else Inr binding_id)"

section \<open>Idempotency records\<close>

definition get_idempotent_result :: "string \<times> string \<times> string \<Rightarrow> string \<Rightarrow> db \<Rightarrow> json option res" where
  "get_idempotent_result key payload_digest db =
     (case fetch_one (\<lambda>i. (i_project_id i, i_scope i, i_key i) = key) (idempotency_records db) of
        None \<Rightarrow> Inr None
      | Some row \<Rightarrow>
          if i_payload_digest row \<noteq> payload_digest
          then Inl (IntegrityError ''idempotency key reused with different payload'')
          else Inr (Some (i_result row)))"

definition save_idempotent_result ::
    "env \<Rightarrow> string \<times> string \<times> string \<Rightarrow> string \<Rightarrow> json \<Rightarrow> string \<Rightarrow> db \<Rightarrow> db res" where
  "save_idempotent_result env key payload_digest result event_id db =
     (if \<not> exists_row (\<lambda>e. e_event_id e = event_id) (events db)
      then Inl (SqliteIntegrityError ''FOREIGN KEY constraint failed'')
      else bindr (insert_row (\<lambda>a b. (i_project_id a, i_scope a, i_key a) = (i_project_id b, i_scope b, i_key b))
             \<lparr>i_project_id = fst key, i_scope = fst (snd key), i_key = snd (snd key),
              i_payload_digest = payload_digest, i_result = result, i_event_id = event_id, i_created_at = now env\<rparr>
             (idempotency_records db)) (\<lambda>rows. Inr (db\<lparr>idempotency_records := rows\<rparr>)))"

section \<open>What an append does\<close>

lemma append_event_Inr:
  "append_event env c db = Inr (e, db') \<longleftrightarrow>
     (\<exists>auth. authorize_event env db c = Inr auth \<and> e = new_event env db c auth \<and>
        current_version (c_aggregate_type c) (c_aggregate_id c) (events db) = c_expected_version c \<and>
        (\<forall>i. c_causation_id c = Some i \<longrightarrow> (\<exists>x \<in> set (events db). e_event_id x = i)) \<and>
        (\<forall>x \<in> set (events db). \<not> event_clash e x) \<and>
        db' = db\<lparr>events := events db @ [e], uuid_next := Suc (uuid_next db)\<rparr>)"
  unfolding append_event_def
  by (auto simp: bindr_eq_Inr Let_def arm_event_insert_def insert_event_def guard_authorize_def
      split: option.splits)

lemma new_event_simps [simp]:
  "e_aggregate_type (new_event env db c auth) = c_aggregate_type c"
  "e_aggregate_id (new_event env db c auth) = c_aggregate_id c"
  "e_aggregate_version (new_event env db c auth) = current_version (c_aggregate_type c) (c_aggregate_id c) (events db) + 1"
  "e_event_type (new_event env db c auth) = c_event_type c"
  "e_actor (new_event env db c auth) = c_actor c"
  "e_auth_context (new_event env db c auth) = auth"
  "e_payload (new_event env db c auth) = c_payload c"
  "e_project_id (new_event env db c auth) = c_project_id c"
  "e_run_id (new_event env db c auth) = c_run_id c"
  "e_task_id (new_event env db c auth) = c_task_id c"
  "e_event_id (new_event env db c auth) = uuid4 env (uuid_next db)"
  "e_recorded_at (new_event env db c auth) = now env"
  "e_occurred_at (new_event env db c auth) = (case c_occurred_at c of None \<Rightarrow> now env | Some t \<Rightarrow> t)"
  "e_previous_event_hash (new_event env db c auth) = head_hash (events db)"
  "e_payload_digest (new_event env db c auth) = sha256 env (canonical_json (JObj (c_payload c)))"
  by (simp_all add: new_event_def Let_def)

lemma new_event_hash:
  "e_event_hash (new_event env db c auth) = sha256 env (hash_text (new_event env db c auth))"
  by (simp add: new_event_def Let_def hash_text_def envelope_def)

lemma append_event_frame:
  assumes "append_event env c db = Inr (e, db')"
  shows "db' = db\<lparr>events := events db @ [e], uuid_next := Suc (uuid_next db)\<rparr>"
  using assms by (auto simp: append_event_Inr)

section \<open>The guard\<close>

text \<open>No connection can insert an event that \<open>append_event\<close> did not announce: without an
  armed guard every insert is denied, an armed guard admits only the event with exactly the
  announced identifier and hash, and after that one insert the guard is disarmed.\<close>

theorem event_insert_guarded:
  "insert_event row None rows = Inl (SqliteIntegrityError ''not authorized'') \<and>
   (insert_event row (Some (i, h)) rows = Inr (rows', pending) \<longrightarrow>
      e_event_id row = i \<and> e_event_hash row = h \<and> rows' = rows @ [row] \<and> pending = None \<and>
      (\<forall>row2. insert_event row2 pending rows' = Inl (SqliteIntegrityError ''not authorized'')))"
  by (auto simp: insert_event_def guard_authorize_def bindr_eq_Inr)

section \<open>Verification after an append\<close>

lemma verify_rows_append:
  "verify_rows h ss p (es @ [e]) = Inr () \<longleftrightarrow>
     verify_rows h ss p es = Inr () \<and> e_previous_event_hash e = (if es = [] then p else e_event_hash (last es)) \<and>
     h (hash_text e) = e_event_hash e \<and> h (payload_text e) = e_payload_digest e \<and> verify_authority ss e = Inr ()"
  by (induction es arbitrary: p) (auto simp: result_simps)

lemma verify_event_chain_Inr:
  "verify_event_chain h db = Inr n \<longleftrightarrow> verify_rows h (sessions db) ''GENESIS'' (events db) = Inr () \<and> n = length (events db)"
  by (auto simp: verify_event_chain_def result_simps)

text \<open>What the binding operations keep of an authority domain.\<close>

definition domain_ok :: "authority_domain \<Rightarrow> bool" where
  "domain_ok ad \<longleftrightarrow> (\<forall>(t, b) \<in> set (command_authorities ad).
     t < next_token ad \<and> (cb_kind b = ''protected'' \<longrightarrow> cb_binding_id b \<noteq> [] \<and> hex_digest (cb_config_digest b)))"

lemma domain_ok_binding:
  assumes "domain_ok ad" "map_of (command_authorities ad) t = Some b" "cb_kind b = ''protected''"
  shows "cb_binding_id b \<noteq> []" "hex_digest (cb_config_digest b)"
  using assms map_of_SomeD by (fastforce simp: domain_ok_def)+

lemma domain_ok_prune [simp]: "domain_ok ad \<Longrightarrow> domain_ok (prune_dead ad)"
  by (auto simp: domain_ok_def prune_dead_def)

lemma domain_ok_update [simp]:
  "domain_ok (ad\<lparr>protected_handler_configs := cs, protected_runtime_types := ts\<rparr>) = domain_ok ad"
  by (simp add: domain_ok_def)

lemma add_authority_ok:
  assumes "add_authority b ad = (t, ad')" "domain_ok ad"
    "cb_kind b = ''protected'' \<Longrightarrow> cb_binding_id b \<noteq> [] \<and> hex_digest (cb_config_digest b)"
  shows "domain_ok ad'"
  using assms by (auto simp: domain_ok_def add_authority_def less_Suc_eq)

lemma bind_core_domain_ok:
  assumes "bind_core_command_authority h i owner handler ad = Inr (t, ad')" "domain_ok ad"
  shows "domain_ok ad'"
proof -
  from assms(1) obtain b where b: "add_authority b (prune_dead ad) = (t, ad')" "cb_kind b = ''core''"
    unfolding bind_core_command_authority_def bindr_eq_Inr Let_def
    by (auto split: if_split_asm intro: that)
  show ?thesis using add_authority_ok [OF b(1)] assms(2) b(2) by simp
qed

lemma bind_protected_domain_ok:
  assumes "bind_protected_command_authority i owner handler cfg types ad = Inr (t, ad')" "domain_ok ad" "i \<noteq> []"
  shows "domain_ok ad'"
proof -
  from assms(1) obtain b cs ts where b:
    "add_authority b (prune_dead ad\<lparr>protected_handler_configs := cs, protected_runtime_types := ts\<rparr>) = (t, ad')"
    "cb_binding_id b = i" "hex_digest (cb_config_digest b)"
    unfolding bind_protected_command_authority_def bindr_eq_Inr Let_def
    by (elim exE conjE) (auto split: if_split_asm intro: that)
  show ?thesis using add_authority_ok [OF b(1)] assms(2, 3) b(2, 3) by simp
qed

lemma session_roles_member:
  assumes "(role, token) \<in> set (session_roles env db sid actor allowed)"
  shows "\<exists>s p. s \<in> set (sessions db) \<and> p \<in> set (principals db) \<and> s_session_id s = sid \<and> s_principal_id s = actor \<and>
     session_live env s p \<and> s_token_hash s = token \<and> role \<in> set allowed \<and>
     (\<exists>r \<in> set (principal_roles db). ro_principal_id r = actor \<and> ro_role r = role)"
  using assms by (fastforce simp: session_roles_def session_live_def split: if_splits)

text \<open>What an authorised core event shows about its caller.\<close>

definition core_authority ::
    "env \<Rightarrow> db \<Rightarrow> event_cmd \<Rightarrow> command_binding \<Rightarrow> auth_session \<Rightarrow> session_row \<Rightarrow> principal_row \<Rightarrow> role \<Rightarrow> bool" where
  "core_authority env db c b a s p role \<longleftrightarrow>
     lookup_authority env (c_command_authority c) = Some b \<and>
     cb_owner_alive b \<and> cb_kind b = ''core'' \<and>
     handler_supports_event (cb_handler b) (c_aggregate_type c) (c_event_type c) \<and>
     c_auth_session c = Some a \<and> as_principal_id a = c_actor c \<and>
     s \<in> set (sessions db) \<and> s_session_id s = as_session_id a \<and> s_principal_id s = c_actor c \<and>
     s_token_hash s = sha256 env (as_session_secret a) \<and> p \<in> set (principals db) \<and> session_live env s p \<and>
     (\<exists>r \<in> set (principal_roles db). ro_principal_id r = c_actor c \<and> ro_role r = role) \<and>
     (\<exists>allowed. core_roles (c_aggregate_type c) (c_event_type c) (c_payload c) (Some (cb_handler b)) = Inr allowed \<and>
        role \<in> set allowed)"

lemma authorize_core_event_Inr:
  assumes "authorize_core_event env db (c_aggregate_type c) (c_event_type c) (c_actor c) (c_payload c)
             (c_auth_session c) (c_command_authority c) = Inr (handler, role, session_id)"
  shows "\<exists>b a s p. core_authority env db c b a s p role \<and> handler = cb_handler b \<and> session_id = as_session_id a"
proof -
  from assms obtain b a allowed token where b: "lookup_authority env (c_command_authority c) = Some b"
    "cb_owner_alive b" "cb_kind b = ''core''"
    "handler_supports_event (cb_handler b) (c_aggregate_type c) (c_event_type c)"
    and a: "c_auth_session c = Some a" "as_principal_id a = c_actor c"
    and allowed: "core_roles (c_aggregate_type c) (c_event_type c) (c_payload c) (Some (cb_handler b)) = Inr allowed"
    and m: "min_by fst (session_roles env db (as_session_id a) (c_actor c) allowed) = Some (role, token)"
    "sha256 env (as_session_secret a) = token"
    and eqs: "handler = cb_handler b" "session_id = as_session_id a"
    by (auto simp: authorize_core_event_def bindr_eq_Inr split: if_splits)
  from m(1) have "(role, token) \<in> set (session_roles env db (as_session_id a) (c_actor c) allowed)"
    by (auto dest: min_by_SomeD)
  from session_roles_member [OF this] obtain s p where sp: "s \<in> set (sessions db)" "p \<in> set (principals db)"
    "s_session_id s = as_session_id a" "s_principal_id s = c_actor c" "session_live env s p" "s_token_hash s = token"
    "role \<in> set allowed" "\<exists>r \<in> set (principal_roles db). ro_principal_id r = c_actor c \<and> ro_role r = role"
    by blast
  with b a allowed m(2) have "core_authority env db c b a s p role"
    unfolding core_authority_def by auto
  with eqs show ?thesis by blast
qed

lemma authorize_core_auth:
  assumes "authorize_event env db c = Inr auth" "c_aggregate_type c \<in> set (map fst CORE_HANDLERS)"
  shows "\<exists>b a s p role. core_authority env db c b a s p role \<and>
     auth_text auth ''handler'' = Some (cb_handler b) \<and> auth_text auth ''authorized_role'' = Some (role_value role) \<and>
     auth_text auth ''session_id'' = Some (as_session_id a) \<and>
     auth_text auth ''command_authority_version'' = Some CORE_AUTHORITY_VERSION"
proof -
  from assms obtain handler role session_id where
    ok: "authorize_core_event env db (c_aggregate_type c) (c_event_type c) (c_actor c) (c_payload c)
             (c_auth_session c) (c_command_authority c) = Inr (handler, role, session_id)"
    and free: "reserved_free CORE_AUTH_CONTEXT_FIELDS (c_auth_context c)"
    and auth: "auth = c_auth_context c @ [(''handler'', JStr handler), (''authorized_role'', JStr (role_value role)),
               (''session_id'', JStr session_id), (''command_authority_version'', JStr CORE_AUTHORITY_VERSION)]"
    by (auto simp: authorize_event_def bindr_eq_Inr split: if_splits)
  have none: "map_of (c_auth_context c) k = None" if "k \<in> set CORE_AUTH_CONTEXT_FIELDS" for k
    using free that by (simp add: reserved_free_def keys_def map_of_eq_None_iff)
  have "auth_text auth ''handler'' = Some handler" "auth_text auth ''authorized_role'' = Some (role_value role)"
    "auth_text auth ''session_id'' = Some session_id"
    "auth_text auth ''command_authority_version'' = Some CORE_AUTHORITY_VERSION"
    using none by (simp_all add: auth auth_text_def map_of_append map_add_def CORE_AUTH_CONTEXT_FIELDS_def)
  with authorize_core_event_Inr [OF ok] show ?thesis by blast
qed

lemma authorize_protected_auth:
  assumes "authorize_event env db c = Inr auth" "c_aggregate_type c \<notin> set (map fst CORE_HANDLERS)"
    "c_aggregate_type c \<in> set PROTECTED_AGGREGATES"
  shows "\<exists>b. lookup_authority env (c_command_authority c) = Some b \<and> cb_kind b = ''protected'' \<and> cb_owner_alive b \<and>
     Some (cb_owner b) = c_command_owner c \<and>
     (\<exists>hs. map_of PROTECTED_EVENT_HANDLERS (c_aggregate_type c, c_event_type c) = Some hs \<and> cb_handler b \<in> set hs) \<and>
     auth = c_auth_context c @ [(''handler'', JStr (cb_handler b)), (''handler_binding_id'', JStr (cb_binding_id b)),
               (''handler_config_digest'', JStr (cb_config_digest b)),
               (''protected_event'', JStr (c_aggregate_type c @ ''/'' @ c_event_type c)),
               (''command_authority_version'', JStr CORE_AUTHORITY_VERSION)]"
  using assms
  by (auto simp: authorize_event_def authorize_protected_event_def bindr_eq_Inr split: if_splits)

lemma fetch_session:
  assumes "distinct (map s_session_id ss)" "s \<in> set ss" "s_principal_id s = a"
  shows "fetch_one (\<lambda>x. Some (s_session_id s) = Some (s_session_id x) \<and> s_principal_id x = a) ss = Some s"
  using assms by (induction ss) (auto simp: image_iff)

text \<open>The store as the runtime keeps it: session identifiers are the primary key, and the authority
  domain was built by the binding operations.\<close>

definition store_ok :: "env \<Rightarrow> db \<Rightarrow> bool" where
  "store_ok env db \<longleftrightarrow> distinct (map s_session_id (sessions db)) \<and> domain_ok (domain env)"

lemma new_event_authority_verifies:
  assumes auth: "authorize_event env db c = Inr auth" and ok: "store_ok env db"
    and time: "c_occurred_at c = None"
    and clean: "c_aggregate_type c \<in> set PROTECTED_AGGREGATES \<Longrightarrow> c_auth_context c = []"
  shows "verify_authority (sessions db) (new_event env db c auth) = Inr ()"
proof (cases "c_aggregate_type c \<in> set (map fst CORE_HANDLERS)")
  case True
  from authorize_core_auth [OF auth True] obtain b a s p role where
    core: "core_authority env db c b a s p role" and texts:
    "auth_text auth ''handler'' = Some (cb_handler b)" "auth_text auth ''authorized_role'' = Some (role_value role)"
    "auth_text auth ''session_id'' = Some (as_session_id a)"
    "auth_text auth ''command_authority_version'' = Some CORE_AUTHORITY_VERSION" by blast
  from core obtain allowed where allowed: "core_roles (c_aggregate_type c) (c_event_type c) (c_payload c) (Some (cb_handler b)) = Inr allowed"
    "role \<in> set allowed" and supports: "handler_supports_event (cb_handler b) (c_aggregate_type c) (c_event_type c)"
    and s: "s \<in> set (sessions db)" "s_session_id s = as_session_id a" "s_principal_id s = c_actor c" "session_live env s p"
    by (auto simp: core_authority_def)
  have "cb_handler b \<in> set (case map_of CORE_HANDLERS (c_aggregate_type c) of None \<Rightarrow> [] | Some hs \<Rightarrow> hs)"
    using supports True by (auto simp: handler_supports_event_def CORE_HANDLERS_def split: if_splits)
  with allowed supports texts have "core_metadata_ok (new_event env db c auth) allowed"
    by (auto simp: core_metadata_ok_def)
  moreover have "fetch_one (\<lambda>x. auth_text auth ''session_id'' = Some (s_session_id x) \<and> s_principal_id x = c_actor c)
      (sessions db) = Some s"
    using fetch_session [of "sessions db" s "c_actor c"] s ok texts by (simp add: store_ok_def)
  moreover have "session_valid_at s (now env)"
    using s(4) by (simp add: session_valid_at_def session_live_def)
  ultimately show ?thesis
    using True allowed texts time by (simp add: verify_authority_def verify_core_event_def)
next
  case False
  show ?thesis
  proof (cases "c_aggregate_type c \<in> set PROTECTED_AGGREGATES")
    case True
    from authorize_protected_auth [OF auth False True] obtain b hs where
      b: "lookup_authority env (c_command_authority c) = Some b" "cb_kind b = ''protected''"
      "map_of PROTECTED_EVENT_HANDLERS (c_aggregate_type c, c_event_type c) = Some hs" "cb_handler b \<in> set hs"
      and a: "auth = [(''handler'', JStr (cb_handler b)), (''handler_binding_id'', JStr (cb_binding_id b)),
               (''handler_config_digest'', JStr (cb_config_digest b)),
               (''protected_event'', JStr (c_aggregate_type c @ ''/'' @ c_event_type c)),
               (''command_authority_version'', JStr CORE_AUTHORITY_VERSION)]"
      using clean [OF True] by auto
    from b(1) obtain t where "map_of (command_authorities (domain env)) t = Some b"
      by (auto simp: lookup_authority_def bind_eq_Some_conv)
    with b(2) ok have "cb_binding_id b \<noteq> []" "hex_digest (cb_config_digest b)"
      using domain_ok_binding by (auto simp: store_ok_def)
    with False True b(3, 4) show ?thesis
      by (simp add: verify_authority_def verify_protected_event_def Let_def a keys_def
          PROTECTED_AUTH_CONTEXT_FIELDS_def auth_text_def insert_commute)
  next
    case not_protected: False
    with False show ?thesis by (simp add: verify_authority_def)
  qed
qed


section \<open>Tamper evidence\<close>

lemma GENESIS_not_digest: "hex_digest d \<Longrightarrow> d \<noteq> ''GENESIS'' \<and> d @ x \<noteq> ''GENESIS'' @ y"
  by (cases d) (auto simp: hex_digest_def)

text \<open>Two rows that the chain does not tell apart: equal in every column, the two documents equal
  up to the order of their keys.\<close>

definition same_event :: "event_row \<Rightarrow> event_row \<Rightarrow> bool" where
  "same_event e e' \<longleftrightarrow> e' = e\<lparr>e_auth_context := e_auth_context e', e_payload := e_payload e'\<rparr> \<and>
     json_eq (JObj (e_auth_context e)) (JObj (e_auth_context e')) \<and>
     json_eq (JObj (e_payload e)) (JObj (e_payload e'))"

definition hashed_texts :: "event_row list \<Rightarrow> string set" where
  "hashed_texts es = set (map hash_text es) \<union> set (map payload_text es)"

definition collision :: "(string \<Rightarrow> string) \<Rightarrow> event_row list \<Rightarrow> event_row list \<Rightarrow> bool" where
  "collision h es es' \<longleftrightarrow> (\<exists>x \<in> hashed_texts es. \<exists>y \<in> hashed_texts es'. x \<noteq> y \<and> h x = h y)"

lemma envelope_same:
  assumes "json_eq (JObj (envelope e)) (JObj (envelope e'))" "e_event_hash e = e_event_hash e'"
    and "json_eq (JObj (e_payload e)) (JObj (e_payload e'))"
  shows "same_event e e'"
proof -
  have k: "keys (envelope e) = keys (envelope e')" "distinct (keys (envelope e))"
    by (simp_all add: envelope_def keys_def)
  from sort_obj_JObj_fixed_keys [OF assms(1) k] assms(2, 3) show ?thesis
    by (cases e; cases e') (simp add: envelope_def same_event_def json_eq_def)
qed

lemma payload_digest_of_envelope:
  assumes "json_eq (JObj (envelope e)) (JObj (envelope e'))"
  shows "e_payload_digest e = e_payload_digest e'"
proof -
  have k: "keys (envelope e) = keys (envelope e')" "distinct (keys (envelope e))"
    by (simp_all add: envelope_def keys_def)
  from sort_obj_JObj_fixed_keys [OF assms k] show ?thesis by (simp add: envelope_def)
qed

lemma head_digest:
  assumes "\<forall>x. hex_digest (h x)" "verify_rows h ss ''GENESIS'' es = Inr ()" "es \<noteq> []"
  shows "hex_digest (head_hash es)"
proof -
  obtain xs e where es: "es = xs @ [e]" using assms(3) by (cases es rule: rev_cases) auto
  with assms(2) have "h (hash_text e) = e_event_hash e" by (simp add: verify_rows_append)
  with assms(1) es show ?thesis by (metis head_hash_def last_snoc snoc_eq_iff_butlast)
qed

lemma head_GENESIS:
  assumes "\<forall>x. hex_digest (h x)" "verify_rows h ss ''GENESIS'' es = Inr ()" "head_hash es = ''GENESIS''"
  shows "es = []"
  using head_digest [OF assms(1, 2)] GENESIS_not_digest assms(3) by auto

lemma link_prefix:
  assumes "a @ x = b @ y" "a = ''GENESIS'' \<or> hex_digest a" "b = ''GENESIS'' \<or> hex_digest b"
  shows "a = b"
proof (cases "hex_digest a \<longleftrightarrow> hex_digest b")
  case True
  have len: "hex_digest d \<Longrightarrow> length d = 64" for d by (simp add: hex_digest_def)
  from True assms(2, 3) have "length a = length b" by (metis len)
  with assms(1) show ?thesis by simp
next
  case False
  with assms(2, 3) consider "a = ''GENESIS''" "hex_digest b" | "b = ''GENESIS''" "hex_digest a" by blast
  then show ?thesis
  proof cases
    case 1
    with assms(1) have "b @ y = ''GENESIS'' @ x" by metis
    with GENESIS_not_digest [OF 1(2)] show ?thesis by blast
  next
    case 2
    with assms(1) have "a @ x = ''GENESIS'' @ y" by metis
    with GENESIS_not_digest [OF 2(2)] show ?thesis by blast
  qed
qed

lemma ledger_same:
  assumes hex: "\<forall>x. hex_digest (h x)"
  shows "verify_rows h ss ''GENESIS'' es = Inr () \<Longrightarrow> verify_rows h ss' ''GENESIS'' es' = Inr () \<Longrightarrow>
    head_hash es = head_hash es' \<Longrightarrow> list_all2 same_event es es' \<or> collision h es es'"
proof (induction es arbitrary: es' rule: rev_induct)
  case Nil
  have "es' = []"
    by (rule head_GENESIS [OF hex Nil.prems(2)]) (use Nil.prems(3) in \<open>simp add: head_hash_def\<close>)
  then show ?case by simp
next
  case (snoc e es)
  have "es' \<noteq> []"
    using head_GENESIS [OF hex snoc.prems(1)] snoc.prems(3) by (auto simp: head_hash_def)
  then obtain e' xs where es': "es' = xs @ [e']" by (cases es' rule: rev_cases) auto
  have e: "verify_rows h ss ''GENESIS'' es = Inr ()" "e_previous_event_hash e = head_hash es"
    "h (hash_text e) = e_event_hash e" "h (payload_text e) = e_payload_digest e"
    using snoc.prems(1) by (auto simp: verify_rows_append head_hash_def)
  have e': "verify_rows h ss' ''GENESIS'' xs = Inr ()" "e_previous_event_hash e' = head_hash xs"
    "h (hash_text e') = e_event_hash e'" "h (payload_text e') = e_payload_digest e'"
    using snoc.prems(2) by (auto simp: es' verify_rows_append head_hash_def)
  have heads: "head_hash ys = ''GENESIS'' \<or> hex_digest (head_hash ys)" if "verify_rows h s ''GENESIS'' ys = Inr ()" for s ys
    using head_digest [OF hex that] by (auto simp: head_hash_def)
  have eq: "e_event_hash e = e_event_hash e'"
    using snoc.prems(3) by (simp add: es' head_hash_def)
  show ?case
  proof (cases "collision h (es @ [e]) es'")
    case no: False
    then have inj: "x = y" if "x \<in> hashed_texts (es @ [e])" "y \<in> hashed_texts es'" "h x = h y" for x y
      using that by (auto simp: collision_def)
    have "hash_text e = hash_text e'"
      by (rule inj) (use e e' eq in \<open>auto simp: hashed_texts_def es'\<close>)
    then have whole: "head_hash es @ canonical_json (JObj (envelope e)) = head_hash xs @ canonical_json (JObj (envelope e'))"
      using e(2) e'(2) by (simp add: hash_text_def)
    have prev: "head_hash es = head_hash xs"
      using link_prefix [OF whole heads [OF e(1)] heads [OF e'(1)]] .
    with whole have env: "json_eq (JObj (envelope e)) (JObj (envelope e'))" by simp
    have "payload_text e = payload_text e'"
      by (rule inj) (use e e' payload_digest_of_envelope [OF env] in \<open>auto simp: hashed_texts_def es'\<close>)
    then have "same_event e e'"
      using envelope_same [OF env eq] by (simp add: payload_text_def)
    moreover have "\<not> collision h es xs"
      using no by (auto simp: collision_def hashed_texts_def es')
    ultimately show ?thesis
      using snoc.IH [OF e(1) e'(1) prev] by (simp add: es' list_all2_appendI)
  qed simp
qed

text \<open>C12.  The hash of the last event fixes the whole ledger.  Two event logs that both verify and
  end in the same event hash have the same events, column by column and up to the key order of
  the two documents, unless two different texts hashed by them collide.\<close>

theorem ledger_tamper_evident:
  assumes "\<forall>x. hex_digest (h x)"
    and "verify_event_chain h db = Inr n" "verify_event_chain h db' = Inr n'"
    and "head_hash (events db) = head_hash (events db')"
  shows "(n' = n \<and> list_all2 same_event (events db) (events db')) \<or> collision h (events db) (events db')"
proof -
  from assms(2, 3) have v: "verify_rows h (sessions db) ''GENESIS'' (events db) = Inr ()" "n = length (events db)"
    "verify_rows h (sessions db') ''GENESIS'' (events db') = Inr ()" "n' = length (events db')"
    by (auto simp: verify_event_chain_Inr)
  from ledger_same [OF assms(1) v(1, 3) assms(4)] v(2, 4) show ?thesis
    by (auto dest: list_all2_lengthD)
qed

section \<open>Aggregate versions\<close>

definition versions_ok :: "event_row list \<Rightarrow> bool" where
  "versions_ok rows \<longleftrightarrow> (\<forall>ty i. map e_aggregate_version (aggregate_events ty i rows) =
     map int [1..<Suc (length (aggregate_events ty i rows))])"

lemma fold_max_upto: "fold max (map int [1..<Suc n]) 0 = int n"
  by (induction n) (auto simp: max_def)

lemma current_version_length:
  assumes "versions_ok rows"
  shows "current_version ty i rows = int (length (aggregate_events ty i rows))"
  using assms unfolding current_version_def versions_ok_def by (metis fold_max_upto)

lemma aggregate_events_append [simp]:
  "aggregate_events ty i (rows @ [e]) = aggregate_events ty i rows @
     (if e_aggregate_type e = ty \<and> e_aggregate_id e = i then [e] else [])"
  by (simp add: aggregate_events_def)

text \<open>The versions of every aggregate are 1, 2, 3, \<dots> without gaps: an append succeeds only
  with the number of events the aggregate has as expected version, and gives the next number.\<close>

theorem append_event_versions:
  assumes "append_event env c db = Inr (e, db')" "versions_ok (events db)"
  shows "versions_ok (events db') \<and>
     c_expected_version c = int (length (aggregate_events (c_aggregate_type c) (c_aggregate_id c) (events db))) \<and>
     e_aggregate_version e = c_expected_version c + 1 \<and> events db' = events db @ [e]"
proof -
  from assms(1) obtain auth where e: "e = new_event env db c auth"
    and v: "current_version (c_aggregate_type c) (c_aggregate_id c) (events db) = c_expected_version c"
    and db': "events db' = events db @ [e]"
    by (auto simp: append_event_Inr)
  have "versions_ok (events db @ [e])"
    using assms(2) current_version_length [OF assms(2)]
    by (auto simp: versions_ok_def e)
  with v db' show ?thesis
    by (simp add: e current_version_length [OF assms(2)])
qed

text \<open>C11.  A core event (of a goal, run or task) is recorded only for a caller that holds the live
  command authority of a handler that may append it and a bearer session that is not revoked or
  expired, whose secret hashes to the stored token and whose enabled principal has, under the
  credential version of the session, a role the event allows.\<close>

theorem core_event_authorized:
  assumes "append_event env c db = Inr (e, db')" "c_aggregate_type c \<in> set (map fst CORE_HANDLERS)"
  shows "\<exists>b a s p role. core_authority env db c b a s p role \<and>
     auth_text (e_auth_context e) ''handler'' = Some (cb_handler b) \<and>
     auth_text (e_auth_context e) ''session_id'' = Some (s_session_id s) \<and>
     auth_text (e_auth_context e) ''authorized_role'' = Some (role_value role)"
proof -
  from assms(1) obtain auth where auth: "authorize_event env db c = Inr auth" and e: "e = new_event env db c auth"
    by (auto simp: append_event_Inr)
  from authorize_core_auth [OF auth assms(2)] show ?thesis
    by (fastforce simp: e core_authority_def)
qed

section \<open>Idempotent commands\<close>

text \<open>What the command handlers rely on: a saved result is found again under its key and payload
  digest, another digest is refused, and other keys are not touched.  The handlers all have
  the shape of \<open>once\<close>: look the key up, return the stored result when there is one, otherwise do
  the work and save.\<close>

definition once :: "('k \<Rightarrow> string \<Rightarrow> 'db \<Rightarrow> json option res) \<Rightarrow> ('k \<Rightarrow> string \<Rightarrow> json \<Rightarrow> string \<Rightarrow> 'db \<Rightarrow> 'db res) \<Rightarrow>
    'k \<Rightarrow> string \<Rightarrow> ('db \<Rightarrow> (json \<times> string \<times> 'db) res) \<Rightarrow> 'db \<Rightarrow> (json \<times> 'db) res" where
  "once get save k d work db = bindr (get k d db) (\<lambda>existing.
     case existing of Some r \<Rightarrow> Inr (r, db)
     | None \<Rightarrow> bindr (work db) (\<lambda>(r, i, db1). bindr (save k d r i db1) (\<lambda>db2. Inr (r, db2))))"

locale idempotency =
  fixes get :: "'k \<Rightarrow> string \<Rightarrow> 'db \<Rightarrow> json option res"
    and save :: "'k \<Rightarrow> string \<Rightarrow> json \<Rightarrow> string \<Rightarrow> 'db \<Rightarrow> 'db res"
  assumes get_save: "save k d r i db = Inr db' \<Longrightarrow> get k d db' = Inr (Some r)"
    and get_other_digest: "get k d db = Inr (Some r) \<Longrightarrow> d' \<noteq> d \<Longrightarrow> \<exists>m. get k d' db = Inl (IntegrityError m)"
    and get_other_key: "save k d r i db = Inr db' \<Longrightarrow> k' \<noteq> k \<Longrightarrow> get k' d' db' = get k' d' db"
begin

lemma once_stores: "once get save k d work db = Inr (r, db') \<Longrightarrow> get k d db' = Inr (Some r)"
  by (auto simp: once_def bindr_eq_Inr dest: get_save split: option.splits)

lemma once_replay: "get k d db = Inr (Some r) \<Longrightarrow> once get save k d work db = Inr (r, db)"
  by (simp add: once_def)

lemma once_twice: "once get save k d work db = Inr (r, db') \<Longrightarrow> once get save k d work' db' = Inr (r, db')"
  using once_stores once_replay by blast

lemma once_conflict: "once get save k d work db = Inr (r, db') \<Longrightarrow> d' \<noteq> d \<Longrightarrow> \<exists>m. once get save k d' work' db' = Inl (IntegrityError m)"
  using once_stores get_other_digest by (fastforce simp: once_def)

end

lemma save_idempotent_Inr:
  "save_idempotent_result env key d r i db = Inr db' \<Longrightarrow>
     (\<forall>x \<in> set (idempotency_records db). (i_project_id x, i_scope x, i_key x) \<noteq> key) \<and>
     db' = db\<lparr>idempotency_records := idempotency_records db @ [\<lparr>i_project_id = fst key, i_scope = fst (snd key),
        i_key = snd (snd key), i_payload_digest = d, i_result = r, i_event_id = i, i_created_at = now env\<rparr>]\<rparr>"
  by (cases key) (auto simp: save_idempotent_result_def bindr_eq_Inr split: if_splits)

interpretation idem: idempotency get_idempotent_result "save_idempotent_result env" for env
proof
  fix k d r i db db'
  assume s: "save_idempotent_result env k d r i db = Inr db'"
  note s = save_idempotent_Inr [OF s]
  then show "get_idempotent_result k d db' = Inr (Some r)"
    by (auto simp: get_idempotent_result_def fetch_one_snoc_new)
  show "get_idempotent_result k' d' db' = get_idempotent_result k' d' db" if "k' \<noteq> k" for k' d'
    using s that by (cases k) (auto simp: get_idempotent_result_def fetch_one_snoc_other)
next
  fix k d db r d'
  assume "get_idempotent_result k d db = Inr (Some r)" "d' \<noteq> (d :: string)"
  then show "\<exists>m. get_idempotent_result k d' db = Inl (IntegrityError m)"
    by (auto simp: get_idempotent_result_def simp del: fetch_one_None split: option.splits if_splits)
qed

abbreviation idempotent ::
    "env \<Rightarrow> string \<times> string \<times> string \<Rightarrow> string \<Rightarrow> (db \<Rightarrow> (json \<times> string \<times> db) res) \<Rightarrow> db \<Rightarrow> (json \<times> db) res" where
  "idempotent env \<equiv> once get_idempotent_result (save_idempotent_result env)"

section \<open>A sample store\<close>

text \<open>A small deployment on which the theorems of the development are instantiated.  Its digest
  puts a letter in front of the text, so it is injective.\<close>

definition toy_hash :: "string \<Rightarrow> string" where
  "toy_hash s = CHR ''h'' # s"

lemma toy_hash_inject [simp]: "toy_hash s = toy_hash t \<longleftrightarrow> s = t"
  by (simp add: toy_hash_def)

definition sample_domain :: authority_domain where
  "sample_domain = \<lparr>command_authorities = [
       (0, \<lparr>cb_handler = ''runtime_kernel'', cb_owner = 10, cb_owner_alive = True, cb_kind = ''core'',
            cb_binding_id = ''b0'', cb_config_digest = []\<rparr>),
       (1, \<lparr>cb_handler = ''task_scheduler'', cb_owner = 11, cb_owner_alive = True, cb_kind = ''core'',
            cb_binding_id = ''b1'', cb_config_digest = []\<rparr>),
       (2, \<lparr>cb_handler = ''policy_engine'', cb_owner = 12, cb_owner_alive = True, cb_kind = ''protected'',
            cb_binding_id = ''b2'', cb_config_digest = replicate 64 (CHR ''a'')\<rparr>)],
     protected_handler_configs = [], protected_runtime_types = [], next_token = 3\<rparr>"

definition sample_env :: "int \<Rightarrow> env" where
  "sample_env t = \<lparr>sha256 = toy_hash, uuid4 = (\<lambda>k. CHR ''u'' # show_nat k), now = t, domain = sample_domain\<rparr>"

definition sample_principal :: "string \<Rightarrow> principal_row" where
  "sample_principal i = \<lparr>p_principal_id = i, p_principal_key = i, p_display_name = i, p_credential_salt = [],
     p_credential_hash = [], p_credential_iterations = 100000, p_credential_version = 1, p_enabled = True,
     p_created_at = 0, p_updated_at = 0, p_disabled_at = None\<rparr>"

definition sample_session_row :: "string \<Rightarrow> session_row" where
  "sample_session_row i = \<lparr>s_session_id = ''s-'' @ i, s_principal_id = i, s_token_hash = toy_hash (''secret-'' @ i),
     s_credential_version = 1, s_issued_at = 0, s_expires_at = 1000000, s_revoked_at = None\<rparr>"

definition sample_session :: "string \<Rightarrow> auth_session" where
  "sample_session i = \<lparr>as_session_id = ''s-'' @ i, as_session_secret = ''secret-'' @ i, as_principal_id = i,
     as_display_name = i\<rparr>"

definition sample_db :: db where
  "sample_db = empty_db\<lparr>
     principals := map sample_principal [''olga'', ''will'', ''eve'', ''rex'', ''sys''],
     principal_roles := map (\<lambda>(i, r). \<lparr>ro_principal_id = i, ro_role = r, ro_granted_at = 0\<rparr>)
       [(''olga'', OWNER), (''will'', WORKER), (''eve'', EVALUATOR), (''rex'', RELEASE), (''sys'', SYSTEM)],
     sessions := map sample_session_row [''olga'', ''will'', ''eve'', ''rex'', ''sys'']\<rparr>"

definition sample_event :: "int \<Rightarrow> event_cmd" where
  "sample_event v = \<lparr>c_aggregate_type = ''task'', c_aggregate_id = ''t1'', c_expected_version = v,
     c_project_id = ''p1'', c_event_type = ''task_state_changed'', c_actor = ''will'', c_command_id = ''c1'',
     c_correlation_id = ''r1'', c_policy_version = ''v1'', c_payload = [(''target'', JStr ''leased'')],
     c_auth_context = [], c_auth_session = Some (sample_session ''will''), c_command_authority = Some 1,
     c_command_owner = None, c_run_id = Some ''r1'', c_task_id = Some ''t1'', c_idempotency_key = None,
     c_causation_id = None, c_confidentiality = ''internal'', c_occurred_at = None\<rparr>"


lemmas store_eval = append_event_def authorize_event_def authorize_core_event_def lookup_authority_def
  session_roles_def session_live_def handler_supports_event_def core_roles_def run_event_roles.simps
  CORE_HANDLERS_def CORE_AUTH_CONTEXT_FIELDS_def PROTECTED_AGGREGATES_def PROTECTED_EVENT_HANDLERS_def
  PROTECTED_AUTH_CONTEXT_FIELDS_def all_task_states_def all_loop_events_def reserved_free_def keys_def
  current_version_def aggregate_events_def arm_event_insert_def insert_event_def guard_authorize_def
  insert_row_def event_clash_def head_hash_def exists_row_def authorize_protected_event_def

lemmas sample_eval = sample_env_def sample_domain_def sample_principal_def sample_session_row_def sample_session_def
  sample_db_def empty_db_def

definition sample_auth :: dict where
  "sample_auth = [(''handler'', JStr ''task_scheduler''), (''authorized_role'', JStr ''worker''),
     (''session_id'', JStr ''s-will''), (''command_authority_version'', JStr ''opaque-command-v1'')]"

definition sample_log :: db where
  "sample_log = sample_db\<lparr>events := [new_event (sample_env 5) sample_db (sample_event 0) sample_auth], uuid_next := 1\<rparr>"

lemma sample_append:
  "append_event (sample_env 5) (sample_event 0) sample_db =
     Inr (new_event (sample_env 5) sample_db (sample_event 0) sample_auth, sample_log)"
  by (simp add: store_eval sample_eval sample_event_def sample_auth_def sample_log_def CORE_AUTHORITY_VERSION_def
      Let_def cong: bind_eval)

lemma sample_append2:
  "\<exists>e db. append_event (sample_env 6) (sample_event 1) sample_log = Inr (e, db)"
  by (simp add: store_eval sample_eval sample_event_def sample_auth_def sample_log_def CORE_AUTHORITY_VERSION_def
      new_event_def hash_text_def toy_hash_def Let_def cong: bind_eval)

lemma sample_log_verifies: "verify_event_chain toy_hash sample_log = Inr 1"
  by (simp add: verify_event_chain_def sample_log_def verify_authority_def verify_core_event_def core_metadata_ok_def
      auth_text_def sample_auth_def store_eval sample_eval sample_event_def CORE_AUTHORITY_VERSION_def
      session_valid_at_def new_event_hash payload_text_def cong: bind_eval)

lemma sample_store_ok: "store_ok (sample_env t) sample_db" "store_ok (sample_env t) sample_log"
  by (simp_all add: store_ok_def sample_log_def sample_eval domain_ok_def hex_digest_def)


lemma event_insert_guarded_witness:
  "insert_event (new_event (sample_env 5) sample_db (sample_event 0) []) None [] =
     Inl (SqliteIntegrityError ''not authorized'') \<and>
   (\<exists>rows. insert_event (new_event (sample_env 5) sample_db (sample_event 0) [])
      (Some (e_event_id (new_event (sample_env 5) sample_db (sample_event 0) []), e_event_hash (new_event (sample_env 5) sample_db (sample_event 0) []))) [] = Inr (rows, None))"
proof -
  let ?e = "new_event (sample_env 5) sample_db (sample_event 0) []"
  obtain rows p where r: "insert_event ?e (Some (e_event_id ?e, e_event_hash ?e)) [] = Inr (rows, p)"
    by (simp add: insert_event_def guard_authorize_def insert_row_def)
  with event_insert_guarded [of ?e "[]"] show ?thesis by blast
qed


lemma append_event_versions_witness:
  "\<exists>e db. append_event (sample_env 6) (sample_event 1) sample_log = Inr (e, db) \<and> versions_ok (events db) \<and>
     e_aggregate_version e = 2"
proof -
  obtain e db where a: "append_event (sample_env 6) (sample_event 1) sample_log = Inr (e, db)"
    using sample_append2 by blast
  have "versions_ok (events sample_log)"
    by (simp add: versions_ok_def sample_log_def store_eval sample_eval)
  note v = append_event_versions [OF a this]
  from v have "versions_ok (events db)" by blast
  moreover from v have "e_aggregate_version e = 2" by (simp add: sample_event_def)
  ultimately have "versions_ok (events db)" "e_aggregate_version e = 2" by blast+
  with a show ?thesis by blast
qed

lemma core_event_authorized_witness:
  "\<exists>b a s p. core_authority (sample_env 5) sample_db (sample_event 0) b a s p WORKER"
proof -
  have "c_aggregate_type (sample_event 0) \<in> set (map fst CORE_HANDLERS)"
    by (simp add: sample_event_def store_eval)
  from core_event_authorized [OF sample_append this] obtain b a s p role where
    core: "core_authority (sample_env 5) sample_db (sample_event 0) b a s p role"
    and role: "auth_text (e_auth_context (new_event (sample_env 5) sample_db (sample_event 0) sample_auth)) ''authorized_role''
      = Some (role_value role)" by blast
  from role have "role_value role = role_value WORKER" by (simp add: sample_auth_def auth_text_def)
  then have "role = WORKER" by (simp only: role_value_inject)
  with core show ?thesis by blast
qed

text \<open>A digest of the format of SHA-256.\<close>

definition toy_sum :: "string \<Rightarrow> int" where
  "toy_sum s = fold (\<lambda>c a. (3 * a + of_char c) mod 65521) s 1"

definition toy_sha :: "string \<Rightarrow> string" where
  "toy_sha s = (let n = toy_sum s in
     replicate 60 (CHR ''0'') @ map (\<lambda>d. hex_digit (nat (n div d mod 16))) [4096, 256, 16, 1])"

lemma hex_digit_set: "n < 16 \<Longrightarrow> list_ex ((=) (hex_digit n)) ''0123456789abcdef''"
proof -
  have "\<forall>n \<in> set [0..<16]. list_ex ((=) (hex_digit n)) ''0123456789abcdef''" by code_simp
  then show "n < 16 \<Longrightarrow> list_ex ((=) (hex_digit n)) ''0123456789abcdef''" by simp
qed

lemma list_all_replicate: "list_all P (replicate n c) \<longleftrightarrow> n = 0 \<or> P c"
  by (induction n) auto

lemma hex_digest_list: "hex_digest d \<longleftrightarrow> length d = 64 \<and> list_all (\<lambda>c. list_ex ((=) c) ''0123456789abcdef'') d"
  unfolding hex_digest_def list_all_iff list_ex_iff by blast

lemma toy_sha_hex [simp]: "hex_digest (toy_sha s)"
proof -
  have "list_ex ((=) (hex_digit (nat (n mod 16)))) ''0123456789abcdef''" for n :: int
    by (rule hex_digit_set) (simp add: nat_less_iff)
  then show ?thesis
    unfolding hex_digest_list toy_sha_def Let_def
    by (simp add: list_all_replicate)
qed

definition sample_ledger :: "dict \<Rightarrow> db" where
  "sample_ledger payload = sample_db\<lparr>events := [new_event (sample_env 5\<lparr>sha256 := toy_sha\<rparr>) sample_db
     (sample_event 0\<lparr>c_aggregate_type := ''note'', c_payload := payload\<rparr>) []]\<rparr>"

lemma ledger_tamper_evident_witness:
  "list_all2 same_event (events (sample_ledger [(''a'', JInt 1), (''b'', JNull)])) (events (sample_ledger [(''b'', JNull), (''a'', JInt 1)])) \<or>
   collision toy_sha (events (sample_ledger [(''a'', JInt 1), (''b'', JNull)])) (events (sample_ledger [(''b'', JNull), (''a'', JInt 1)]))"
proof -
  have v: "verify_event_chain toy_sha (sample_ledger p) = Inr 1" for p
    by (simp add: verify_event_chain_def sample_ledger_def verify_authority_def store_eval sample_eval
        sample_event_def new_event_hash payload_text_def cong: bind_eval)
  have c: "canonical_json (JObj [(''a'', JInt 1), (''b'', JNull)]) = canonical_json (JObj [(''b'', JNull), (''a'', JInt 1)])"
    by code_simp
  have "head_hash (events (sample_ledger [(''a'', JInt 1), (''b'', JNull)])) = head_hash (events (sample_ledger [(''b'', JNull), (''a'', JInt 1)]))"
    by (simp add: c sample_ledger_def head_hash_def new_event_def sample_event_def hash_text_def envelope_def Let_def)
  from ledger_tamper_evident [OF _ v v this] show ?thesis by auto
qed

text \<open>Running several appends in an instance: with \<open>toy_hash\<close> event hashes grow along the chain, so
  that no comparison of hashed texts has to be evaluated.\<close>

definition heads_ok :: "event_row list \<Rightarrow> bool" where
  "heads_ok es \<longleftrightarrow> (\<forall>e \<in> set es. length (e_event_hash e) \<le> length (head_hash es))"

lemma sample_hash_length:
  "length (head_hash (events db)) < length (e_event_hash (new_event (sample_env t) db c a))"
  by (simp add: new_event_hash hash_text_def sample_env_def toy_hash_def)

lemma heads_ok_append:
  assumes "heads_ok es" "es = events db"
  shows "heads_ok (es @ [new_event (sample_env t) db c a])"
  using assms sample_hash_length [of db t c a] by (fastforce simp: heads_ok_def head_hash_def)

lemma heads_ok_Nil [simp]: "heads_ok []"
  by (simp add: heads_ok_def)

lemma heads_ok_simps [simp]:
  "events db = [] \<Longrightarrow> heads_ok [new_event (sample_env t) db c a]"
  "events db = [x] \<Longrightarrow> heads_ok [x] \<Longrightarrow> heads_ok [x, new_event (sample_env t) db c a]"
  "events db = [x, y] \<Longrightarrow> heads_ok [x, y] \<Longrightarrow> heads_ok [x, y, new_event (sample_env t) db c a]"
  "events db = [x, y, z] \<Longrightarrow> heads_ok [x, y, z] \<Longrightarrow> heads_ok [x, y, z, new_event (sample_env t) db c a]"
  by (rule heads_ok_append [of "[]", simplified] heads_ok_append [of "[x]", simplified] heads_ok_append [of "[x, y]", simplified]
    heads_ok_append [of "[x, y, z]", simplified]; simp)+

lemma sample_append_eval:
  assumes "heads_ok (events db)"
  shows "append_event (sample_env t) c db =
     bindr (authorize_event (sample_env t) db c) (\<lambda>auth.
     if current_version (c_aggregate_type c) (c_aggregate_id c) (events db) \<noteq> c_expected_version c
     then Inl (IntegrityError ''aggregate version conflict'')
     else if (case c_causation_id c of None \<Rightarrow> False | Some i \<Rightarrow> \<not> exists_row (\<lambda>e. e_event_id e = i) (events db))
     then Inl (IntegrityError ''causation event does not exist'')
     else if exists_row (\<lambda>e. e_event_id e = CHR ''u'' # show_nat (uuid_next db) \<or>
            (e_aggregate_type e = c_aggregate_type c \<and> e_aggregate_id e = c_aggregate_id c \<and>
             e_aggregate_version e = c_expected_version c + 1)) (events db)
     then Inl (SqliteIntegrityError ''UNIQUE constraint failed'')
     else Inr (new_event (sample_env t) db c auth,
               db\<lparr>events := events db @ [new_event (sample_env t) db c auth], uuid_next := Suc (uuid_next db)\<rparr>))"
proof -
  have h: "e_event_hash (new_event (sample_env t) db c auth) \<noteq> e_event_hash e" if "e \<in> set (events db)" for e auth
    using assms that sample_hash_length [of db t c auth] by (auto simp: heads_ok_def)
  have x: "exists_row (event_clash (new_event (sample_env t) db c auth)) (events db) \<longleftrightarrow>
      exists_row (\<lambda>e. e_event_id e = CHR ''u'' # show_nat (uuid_next db) \<or>
            (e_aggregate_type e = c_aggregate_type c \<and> e_aggregate_id e = c_aggregate_id c \<and>
             e_aggregate_version e = c_expected_version c + 1)) (events db)"
    if "current_version (c_aggregate_type c) (c_aggregate_id c) (events db) = c_expected_version c" for auth
    unfolding exists_row_iff using h that
    by (intro bex_cong refl) (auto simp: event_clash_def sample_env_def)
  have ins: "(let e = new_event (sample_env t) db c auth in
       bindr (arm_event_insert (e_event_id e) (e_event_hash e) None) (\<lambda>pending.
       bindr (insert_event e pending (events db)) (\<lambda>(rows, _).
         Inr (e, db\<lparr>events := rows, uuid_next := Suc (uuid_next db)\<rparr>)))) =
     (if exists_row (event_clash (new_event (sample_env t) db c auth)) (events db)
      then Inl (SqliteIntegrityError ''UNIQUE constraint failed'')
      else Inr (new_event (sample_env t) db c auth,
               db\<lparr>events := events db @ [new_event (sample_env t) db c auth], uuid_next := Suc (uuid_next db)\<rparr>))" for auth
    by (cases "exists_row (event_clash (new_event (sample_env t) db c auth)) (events db)")
      (simp_all add: arm_event_insert_def insert_event_def guard_authorize_def insert_row_def Let_def del: exists_row_iff new_event_simps)
  show ?thesis
  proof (cases "authorize_event (sample_env t) db c")
    case (Inr auth)
    show ?thesis
      unfolding append_event_def Inr bindr_Inr ins
      by (cases "current_version (c_aggregate_type c) (c_aggregate_id c) (events db) = c_expected_version c")
        (simp_all only: x simp_thms if_True if_False)
  qed (simp add: append_event_def)
qed

lemmas event_run = sample_append_eval authorize_event_def authorize_core_event_def lookup_authority_def
  session_roles_def session_live_def handler_supports_event_def core_roles_def run_event_roles.simps
  CORE_HANDLERS_def CORE_AUTH_CONTEXT_FIELDS_def PROTECTED_AGGREGATES_def PROTECTED_EVENT_HANDLERS_def
  PROTECTED_AUTH_CONTEXT_FIELDS_def all_task_states_def all_loop_events_def reserved_free_def keys_def
  current_version_def aggregate_events_def insert_row_def exists_row_def authorize_protected_event_def

lemmas sample_rows = sample_domain_def sample_principal_def sample_session_row_def sample_session_def
  sample_db_def empty_db_def

lemma sample_env_simps [simp]:
  "sha256 (sample_env t) = toy_hash" "uuid4 (sample_env t) k = CHR ''u'' # show_nat k" "now (sample_env t) = t"
  "domain (sample_env t) = sample_domain"
  by (simp_all add: sample_env_def)


end
