(* ===== verification/Identity.thy ===== *)
theory Identity
  imports Store
begin

text \<open>
  \<open>identity.py\<close>: local principals, their roles and credentials, and short-lived bearer sessions.
  The key derivation function (PBKDF2) is a parameter; the random salt and session secret that an
  operation draws are its arguments.  The lemmas show that an enabled owner always remains, that
  a session is honoured only under the identity, credential version and role the registry holds
  now, that a revoked session stays dead, and that no operation invalidates recorded events.
\<close>

section \<open>Input checks\<close>

type_synonym kdf = "string \<Rightarrow> string \<Rightarrow> int \<Rightarrow> string"

definition PBKDF2_ITERATIONS :: int where
  "PBKDF2_ITERATIONS = 600000"

definition MAX_SESSION_TTL_SECONDS :: int where
  "MAX_SESSION_TTL_SECONDS = 900"

text \<open>One second on the clock of the model, which counts microseconds.\<close>

definition seconds :: "int \<Rightarrow> int" where
  "seconds n = n * 1000000"

definition control_char :: "char \<Rightarrow> bool" where
  "control_char c \<longleftrightarrow> (of_char c :: int) < 32 \<or> (of_char c :: int) = 127"

definition principal_name :: "string \<Rightarrow> (string \<times> string) res" where
  "principal_name value =
     (let normalized = strip value in
      if normalized = [] \<or> 128 < length normalized
      then Inl (ValueError ''display_name must contain 1 to 128 characters'')
      else if list_ex control_char normalized then Inl (ValueError ''display_name cannot contain control characters'')
      else Inr (lower normalized, normalized))"

definition credential_bytes :: "bool \<Rightarrow> string \<Rightarrow> string res" where
  "credential_bytes require_strength raw =
     (if length raw < (if require_strength then 12 else 1) \<or> 4096 < length raw
      then Inl (if require_strength then ValueError ''credential must contain 12 to 4096 UTF-8 bytes''
                else AuthorizationError ''invalid principal or credential'')
      else Inr raw)"

definition session_ttl :: "int \<Rightarrow> int res" where
  "session_ttl v = (if v \<le> 0 \<or> MAX_SESSION_TTL_SECONDS < v
     then Inl (ValueError ''session_ttl_seconds must be between 1 and 900'') else Inr v)"

definition normalized_roles :: "role list \<Rightarrow> role list res" where
  "normalized_roles roles = (if roles = [] then Inl (ValueError ''at least one role is required'')
     else Inr (remdups (sort roles)))"

section \<open>Reading the registry\<close>

record principal_record =
  pr_principal_id :: string
  pr_display_name :: string
  pr_roles :: "role list"
  pr_enabled :: bool
  pr_credential_version :: int

definition role_set :: "db \<Rightarrow> string \<Rightarrow> role list" where
  "role_set db principal_id = map ro_role (filter (\<lambda>r. ro_principal_id r = principal_id) (principal_roles db))"

definition principal_by_key :: "db \<Rightarrow> string \<Rightarrow> principal_row res" where
  "principal_by_key db key = require (fetch_one (\<lambda>p. p_principal_key p = key) (principals db))
     (AuthorizationError ''principal does not exist'')"

definition read_principal :: "db \<Rightarrow> string \<Rightarrow> principal_record res" where
  "read_principal db principal_id =
     bindr (require (fetch_one (\<lambda>p. p_principal_id p = principal_id) (principals db))
              (AuthorizationError ''principal does not exist'')) (\<lambda>row.
       Inr \<lparr>pr_principal_id = principal_id, pr_display_name = p_display_name row,
            pr_roles = role_set db principal_id, pr_enabled = p_enabled row,
            pr_credential_version = p_credential_version row\<rparr>)"

definition enabled_owners :: "db \<Rightarrow> string list" where
  "enabled_owners db = [p_principal_id p. p \<leftarrow> principals db, p_enabled p,
     r \<leftarrow> principal_roles db, ro_principal_id r = p_principal_id p \<and> ro_role r = OWNER]"

definition assert_not_last_enabled_owner :: "db \<Rightarrow> unit res" where
  "assert_not_last_enabled_owner db =
     (if length (enabled_owners db) \<le> 1 then Inl (AuthorizationError ''the last enabled owner cannot be removed'')
      else Inr ())"

definition session_principal :: "db \<Rightarrow> string \<Rightarrow> (session_row \<times> principal_row) option" where
  "session_principal db session_id =
     fetch_one (\<lambda>_. True) [(s, p). s \<leftarrow> sessions db, s_session_id s = session_id,
        p \<leftarrow> principals db, p_principal_id p = s_principal_id s]"

definition verify_session :: "env \<Rightarrow> role option \<Rightarrow> auth_session option \<Rightarrow> db \<Rightarrow> principal_record res" where
  "verify_session env required_role session db =
     bindr (require session (AuthorizationError ''authenticated session is required'')) (\<lambda>a.
     bindr (require (session_principal db (as_session_id a))
              (AuthorizationError ''authenticated session is invalid or expired'')) (\<lambda>row.
     let s = fst row; p = snd row in
     if \<not> (sha256 env (as_session_secret a) = s_token_hash s \<and> s_revoked_at s = None \<and> p_enabled p \<and>
           s_credential_version s = p_credential_version p \<and> now env < s_expires_at s \<and>
           s_principal_id s = as_principal_id a \<and> p_display_name p = as_display_name a)
     then Inl (AuthorizationError ''authenticated session is invalid or expired'')
     else
     let roles = role_set db (s_principal_id s) in
     if (case required_role of None \<Rightarrow> False | Some r \<Rightarrow> r \<notin> set roles)
     then Inl (AuthorizationError ''required role is missing'')
     else if roles = [] then Inl (AuthorizationError ''principal has no authorized role'')
     else Inr \<lparr>pr_principal_id = s_principal_id s, pr_display_name = p_display_name p, pr_roles = roles,
               pr_enabled = True, pr_credential_version = p_credential_version p\<rparr>))"

abbreviation require_role :: "env \<Rightarrow> role \<Rightarrow> auth_session option \<Rightarrow> db \<Rightarrow> principal_record res" where
  "require_role env r \<equiv> verify_session env (Some r)"

section \<open>Operations\<close>

definition issue_session ::
    "env \<Rightarrow> string \<Rightarrow> string \<Rightarrow> string \<Rightarrow> int \<Rightarrow> int \<Rightarrow> db \<Rightarrow> (auth_session \<times> db) res" where
  "issue_session env secret principal_id display_name credential_version ttl db =
     (let session_id = uuid4 env (uuid_next db);
          row = \<lparr>s_session_id = session_id, s_principal_id = principal_id, s_token_hash = sha256 env secret,
                 s_credential_version = credential_version, s_issued_at = now env,
                 s_expires_at = now env + seconds ttl, s_revoked_at = None\<rparr>
      in bindr (insert_row (\<lambda>a b. s_session_id a = s_session_id b \<or> s_token_hash a = s_token_hash b) row (sessions db)) (\<lambda>rows.
           Inr (\<lparr>as_session_id = session_id, as_session_secret = secret, as_principal_id = principal_id,
                 as_display_name = display_name\<rparr>, db\<lparr>sessions := rows, uuid_next := Suc (uuid_next db)\<rparr>)))"

definition insert_principal :: "principal_row \<Rightarrow> db \<Rightarrow> db res" where
  "insert_principal row db =
     bindr (insert_row (\<lambda>a b. p_principal_id a = p_principal_id b \<or> p_principal_key a = p_principal_key b)
              row (principals db)) (\<lambda>rows. Inr (db\<lparr>principals := rows\<rparr>))"

definition insert_roles :: "env \<Rightarrow> string \<Rightarrow> role list \<Rightarrow> db \<Rightarrow> db res" where
  "insert_roles env principal_id roles db =
     foldm (\<lambda>role db. bindr (insert_row (\<lambda>a b. ro_principal_id a = ro_principal_id b \<and> ro_role a = ro_role b)
         \<lparr>ro_principal_id = principal_id, ro_role = role, ro_granted_at = now env\<rparr> (principal_roles db))
         (\<lambda>rows. Inr (db\<lparr>principal_roles := rows\<rparr>))) roles db"

definition new_principal :: "env \<Rightarrow> kdf \<Rightarrow> string \<Rightarrow> string \<Rightarrow> string \<Rightarrow> string \<Rightarrow> string \<Rightarrow> principal_row" where
  "new_principal env kdf salt principal_id key name credential =
     \<lparr>p_principal_id = principal_id, p_principal_key = key, p_display_name = name, p_credential_salt = salt,
      p_credential_hash = kdf credential salt PBKDF2_ITERATIONS, p_credential_iterations = PBKDF2_ITERATIONS,
      p_credential_version = 1, p_enabled = True, p_created_at = now env, p_updated_at = now env,
      p_disabled_at = None\<rparr>"

definition bootstrap_owner ::
    "env \<Rightarrow> kdf \<Rightarrow> string \<Rightarrow> string \<Rightarrow> string \<Rightarrow> string \<Rightarrow> int \<Rightarrow> db \<Rightarrow> (auth_session \<times> db) res" where
  "bootstrap_owner env kdf salt secret display_name credential ttl_seconds db =
     bindr (principal_name display_name) (\<lambda>(key, name).
     bindr (credential_bytes True credential) (\<lambda>raw.
     bindr (session_ttl ttl_seconds) (\<lambda>ttl.
     let principal_id = uuid4 env (uuid_next db); db = db\<lparr>uuid_next := Suc (uuid_next db)\<rparr> in
     if principals db \<noteq> [] then Inl (AuthorizationError ''owner bootstrap is closed'')
     else
     bindr (insert_principal (new_principal env kdf salt principal_id key name raw) db) (\<lambda>db1.
     bindr (insert_roles env principal_id [OWNER] db1) (\<lambda>db2.
       issue_session env secret principal_id name 1 ttl db2)))))"

definition DUMMY_SALT :: string where
  "DUMMY_SALT = map char_of [0x82 :: nat, 0x4a, 0x30, 0x17, 0x92, 0x84, 0x6f, 0x82, 0x88, 0xca, 0xe3, 0x38, 0xda, 0x71, 0x7c, 0xcd]"

definition DUMMY_HASH :: string where
  "DUMMY_HASH = replicate 32 (CHR 0x00)"

definition authenticate ::
    "env \<Rightarrow> kdf \<Rightarrow> string \<Rightarrow> string \<Rightarrow> string \<Rightarrow> int \<Rightarrow> db \<Rightarrow> (auth_session \<times> db) res" where
  "authenticate env kdf secret display_name credential ttl_seconds db =
     bindr (principal_name display_name) (\<lambda>(key, _).
     bindr (credential_bytes False credential) (\<lambda>raw.
     bindr (session_ttl ttl_seconds) (\<lambda>ttl.
     let row = fetch_one (\<lambda>p. p_principal_key p = key) (principals db);
         salt = (case row of None \<Rightarrow> DUMMY_SALT | Some p \<Rightarrow> p_credential_salt p);
         iterations = (case row of None \<Rightarrow> PBKDF2_ITERATIONS | Some p \<Rightarrow> p_credential_iterations p);
         expected = (case row of None \<Rightarrow> DUMMY_HASH | Some p \<Rightarrow> p_credential_hash p);
         valid_credential = (kdf raw salt iterations = expected)
     in bindr (require row (AuthorizationError ''invalid principal or credential'')) (\<lambda>p.
     if \<not> valid_credential \<or> \<not> p_enabled p then Inl (AuthorizationError ''invalid principal or credential'')
     else issue_session env secret (p_principal_id p) (p_display_name p) (p_credential_version p) ttl db))))"

fun sqlite_to_value_error :: "error \<Rightarrow> error" where
  "sqlite_to_value_error (SqliteIntegrityError m) = ValueError ''principal already exists''"
| "sqlite_to_value_error e = e"

definition create_principal ::
    "env \<Rightarrow> kdf \<Rightarrow> string \<Rightarrow> auth_session option \<Rightarrow> string \<Rightarrow> string \<Rightarrow> role list \<Rightarrow> db \<Rightarrow> (principal_record \<times> db) res" where
  "create_principal env kdf salt owner_session display_name credential roles db =
     bindr (principal_name display_name) (\<lambda>(key, name).
     bindr (credential_bytes True credential) (\<lambda>raw.
     bindr (normalized_roles roles) (\<lambda>rs.
     let principal_id = uuid4 env (uuid_next db); db = db\<lparr>uuid_next := Suc (uuid_next db)\<rparr> in
     bindr (require_role env OWNER owner_session db) (\<lambda>_.
     bindr (except_map sqlite_to_value_error
              (insert_principal (new_principal env kdf salt principal_id key name raw) db)) (\<lambda>db1.
     bindr (insert_roles env principal_id rs db1) (\<lambda>db2.
     bindr (read_principal db2 principal_id) (\<lambda>record. Inr (record, db2))))))))"

definition set_roles ::
    "env \<Rightarrow> auth_session option \<Rightarrow> string \<Rightarrow> role list \<Rightarrow> db \<Rightarrow> (principal_record \<times> db) res" where
  "set_roles env owner_session display_name roles db =
     bindr (principal_name display_name) (\<lambda>(key, _).
     bindr (normalized_roles roles) (\<lambda>rs.
     bindr (require_role env OWNER owner_session db) (\<lambda>_.
     bindr (principal_by_key db key) (\<lambda>target.
     let i = p_principal_id target in
     bindr (if p_enabled target \<and> OWNER \<in> set (role_set db i) \<and> OWNER \<notin> set rs
            then assert_not_last_enabled_owner db else Inr ()) (\<lambda>_.
     bindr (insert_roles env i rs
              (db\<lparr>principal_roles := filter (\<lambda>r. ro_principal_id r \<noteq> i) (principal_roles db)\<rparr>)) (\<lambda>db1.
     let db2 = db1\<lparr>principals := update_where (\<lambda>p. p_principal_id p = i) (\<lambda>p. p\<lparr>p_updated_at := now env\<rparr>) (principals db1)\<rparr> in
     bindr (read_principal db2 i) (\<lambda>record. Inr (record, db2))))))))"

definition revoke_sessions_of :: "env \<Rightarrow> string \<Rightarrow> db \<Rightarrow> db" where
  "revoke_sessions_of env i db = db\<lparr>sessions := update_where (\<lambda>s. s_principal_id s = i \<and> s_revoked_at s = None)
     (\<lambda>s. s\<lparr>s_revoked_at := Some (now env)\<rparr>) (sessions db)\<rparr>"

definition disable_principal :: "env \<Rightarrow> auth_session option \<Rightarrow> string \<Rightarrow> db \<Rightarrow> (principal_record \<times> db) res" where
  "disable_principal env owner_session display_name db =
     bindr (principal_name display_name) (\<lambda>(key, _).
     bindr (require_role env OWNER owner_session db) (\<lambda>_.
     bindr (principal_by_key db key) (\<lambda>target.
     let i = p_principal_id target in
     bindr (if p_enabled target \<and> OWNER \<in> set (role_set db i)
            then assert_not_last_enabled_owner db else Inr ()) (\<lambda>_.
     let db1 = db\<lparr>principals := update_where (\<lambda>p. p_principal_id p = i)
                  (\<lambda>p. p\<lparr>p_enabled := False, p_disabled_at := Some (now env), p_updated_at := now env\<rparr>) (principals db)\<rparr>;
         db2 = revoke_sessions_of env i db1 in
     bindr (read_principal db2 i) (\<lambda>record. Inr (record, db2))))))"

definition enable_principal :: "env \<Rightarrow> auth_session option \<Rightarrow> string \<Rightarrow> db \<Rightarrow> (principal_record \<times> db) res" where
  "enable_principal env owner_session display_name db =
     bindr (principal_name display_name) (\<lambda>(key, _).
     bindr (require_role env OWNER owner_session db) (\<lambda>_.
     bindr (principal_by_key db key) (\<lambda>target.
     let i = p_principal_id target;
         db1 = db\<lparr>principals := update_where (\<lambda>p. p_principal_id p = i)
                  (\<lambda>p. p\<lparr>p_enabled := True, p_disabled_at := None, p_updated_at := now env\<rparr>) (principals db)\<rparr> in
     bindr (read_principal db1 i) (\<lambda>record. Inr (record, db1)))))"

definition rotate_credential ::
    "env \<Rightarrow> kdf \<Rightarrow> string \<Rightarrow> string \<Rightarrow> auth_session option \<Rightarrow> string \<Rightarrow> string \<Rightarrow> int \<Rightarrow> db \<Rightarrow> (auth_session \<times> db) res" where
  "rotate_credential env kdf new_salt secret session current_credential new_credential ttl_seconds db =
     bindr (credential_bytes False current_credential) (\<lambda>current_raw.
     bindr (credential_bytes True new_credential) (\<lambda>new_raw.
     bindr (session_ttl ttl_seconds) (\<lambda>ttl.
     bindr (verify_session env None session db) (\<lambda>principal.
     let i = pr_principal_id principal in
     bindr (require (fetch_one (\<lambda>p. p_principal_id p = i) (principals db)) (PyTypeError ''NoneType'')) (\<lambda>row.
     if kdf current_raw (p_credential_salt row) (p_credential_iterations row) \<noteq> p_credential_hash row
     then Inl (AuthorizationError ''invalid principal or credential'')
     else
     let next_version = p_credential_version row + 1;
         db1 = db\<lparr>principals := update_where (\<lambda>p. p_principal_id p = i \<and> p_enabled p)
                  (\<lambda>p. p\<lparr>p_credential_salt := new_salt, p_credential_hash := kdf new_raw new_salt PBKDF2_ITERATIONS,
                         p_credential_iterations := PBKDF2_ITERATIONS, p_credential_version := next_version,
                         p_updated_at := now env\<rparr>) (principals db)\<rparr>;
         db2 = revoke_sessions_of env i db1 in
     issue_session env secret i (pr_display_name principal) next_version ttl db2)))))"

definition revoke_session :: "env \<Rightarrow> auth_session option \<Rightarrow> db \<Rightarrow> (unit \<times> db) res" where
  "revoke_session env session db =
     bindr (verify_session env None session db) (\<lambda>_.
     bindr (require session (AuthorizationError ''authenticated session is required'')) (\<lambda>a.
       Inr ((), db\<lparr>sessions := update_where (\<lambda>s. s_session_id s = as_session_id a)
         (\<lambda>s. s\<lparr>s_revoked_at := Some (now env)\<rparr>) (sessions db)\<rparr>)))"

section \<open>Steps of the registry\<close>

inductive identity_step :: "env \<Rightarrow> db \<Rightarrow> db \<Rightarrow> bool" for env where
  step_bootstrap: "bootstrap_owner env kdf salt secret name cred ttl db = Inr (a, db') \<Longrightarrow> identity_step env db db'"
| step_authenticate: "authenticate env kdf secret name cred ttl db = Inr (a, db') \<Longrightarrow> identity_step env db db'"
| step_create: "create_principal env kdf salt s name cred roles db = Inr (p, db') \<Longrightarrow> identity_step env db db'"
| step_set_roles: "set_roles env s name roles db = Inr (p, db') \<Longrightarrow> identity_step env db db'"
| step_disable: "disable_principal env s name db = Inr (p, db') \<Longrightarrow> identity_step env db db'"
| step_enable: "enable_principal env s name db = Inr (p, db') \<Longrightarrow> identity_step env db db'"
| step_rotate: "rotate_credential env kdf salt secret s cur new ttl db = Inr (a, db') \<Longrightarrow> identity_step env db db'"
| step_revoke: "revoke_session env s db = Inr (u, db') \<Longrightarrow> identity_step env db db'"

inductive identity_steps :: "db \<Rightarrow> db \<Rightarrow> bool" where
  steps_none: "identity_steps db db"
| steps_next: "identity_steps db db' \<Longrightarrow> identity_step env db' db'' \<Longrightarrow> identity_steps db db''"

section \<open>What the steps change\<close>

lemma insert_roles_Inr:
  "insert_roles env i rs db = Inr db' \<Longrightarrow>
     db' = db\<lparr>principal_roles := principal_roles db @
       map (\<lambda>r. \<lparr>ro_principal_id = i, ro_role = r, ro_granted_at = now env\<rparr>) rs\<rparr> \<and>
     (distinct (map (\<lambda>r. (ro_principal_id r, ro_role r)) (principal_roles db)) \<longrightarrow>
      distinct (map (\<lambda>r. (ro_principal_id r, ro_role r)) (principal_roles db')))"
proof (induction rs arbitrary: db)
  case Nil
  then show ?case by (simp add: insert_roles_def)
next
  case (Cons r rs)
  let ?row = "\<lparr>ro_principal_id = i, ro_role = r, ro_granted_at = now env\<rparr>"
  let ?db = "db\<lparr>principal_roles := principal_roles db @ [?row]\<rparr>"
  from Cons.prems have step: "insert_roles env i rs ?db = Inr db'"
    and new: "\<forall>x \<in> set (principal_roles db). \<not> (ro_principal_id x = i \<and> ro_role x = r)"
    by (auto simp: insert_roles_def bindr_eq_Inr)
  note ih = Cons.IH [OF step]
  have "distinct (map (\<lambda>r. (ro_principal_id r, ro_role r)) (principal_roles ?db))"
    if "distinct (map (\<lambda>r. (ro_principal_id r, ro_role r)) (principal_roles db))"
    using that new by auto
  with ih have "distinct (map (\<lambda>r. (ro_principal_id r, ro_role r)) (principal_roles db))
    \<longrightarrow> distinct (map (\<lambda>r. (ro_principal_id r, ro_role r)) (principal_roles db'))" by blast
  moreover from ih have "db' = db\<lparr>principal_roles := principal_roles db @
       map (\<lambda>r. \<lparr>ro_principal_id = i, ro_role = r, ro_granted_at = now env\<rparr>) (r # rs)\<rparr>" by simp
  ultimately show ?case by blast
qed

lemma issue_session_Inr:
  "issue_session env secret i name v ttl db = Inr (a, db') \<Longrightarrow>
     \<exists>row. db' = db\<lparr>sessions := sessions db @ [row], uuid_next := Suc (uuid_next db)\<rparr> \<and>
       (\<forall>s \<in> set (sessions db). s_session_id s \<noteq> s_session_id row) \<and> s_principal_id row = i \<and>
       s_session_id row = as_session_id a \<and> s_revoked_at row = None"
  by (rule exI [of _ "\<lparr>s_session_id = uuid4 env (uuid_next db), s_principal_id = i, s_token_hash = sha256 env secret,
       s_credential_version = v, s_issued_at = now env, s_expires_at = now env + seconds ttl, s_revoked_at = None\<rparr>"])
    (auto simp: issue_session_def bindr_eq_Inr Let_def)

lemma insert_principal_Inr:
  "insert_principal row db = Inr db' \<longleftrightarrow>
     (\<forall>p \<in> set (principals db). p_principal_id row \<noteq> p_principal_id p \<and> p_principal_key row \<noteq> p_principal_key p) \<and>
     db' = db\<lparr>principals := principals db @ [row]\<rparr>"
  by (auto simp: insert_principal_def bindr_eq_Inr)

lemma session_principal_Some:
  assumes "session_principal db i = Some (s, p)"
  shows "s \<in> set (sessions db)" "s_session_id s = i" "p \<in> set (principals db)" "p_principal_id p = s_principal_id s"
proof -
  from fetch_one_SomeD [OF assms [unfolded session_principal_def]]
  show "s \<in> set (sessions db)" "s_session_id s = i" "p \<in> set (principals db)" "p_principal_id p = s_principal_id s"
    by (auto split: if_splits)
qed

lemma verify_session_Inr:
  assumes "verify_session env r session db = Inr pr"
  shows "\<exists>a s p. session = Some a \<and> s \<in> set (sessions db) \<and> s_session_id s = as_session_id a \<and>
     s_token_hash s = sha256 env (as_session_secret a) \<and> s_revoked_at s = None \<and> now env < s_expires_at s \<and>
     p \<in> set (principals db) \<and> p_principal_id p = s_principal_id s \<and> p_enabled p \<and>
     s_credential_version s = p_credential_version p \<and> as_principal_id a = p_principal_id p \<and>
     as_display_name a = p_display_name p \<and>
     pr_principal_id pr = p_principal_id p \<and> pr_display_name pr = p_display_name p \<and>
     pr_roles pr = role_set db (p_principal_id p) \<and> pr_roles pr \<noteq> [] \<and>
     (case r of None \<Rightarrow> True | Some role \<Rightarrow> role \<in> set (pr_roles pr))"
proof -
  from assms obtain a s p where a: "session = Some a" "session_principal db (as_session_id a) = Some (s, p)"
    and rest: "s_token_hash s = sha256 env (as_session_secret a)" "s_revoked_at s = None" "now env < s_expires_at s"
    "p_enabled p" "s_credential_version s = p_credential_version p" "as_principal_id a = s_principal_id s"
    "as_display_name a = p_display_name p" "pr_principal_id pr = s_principal_id s" "pr_display_name pr = p_display_name p"
    "pr_roles pr = role_set db (s_principal_id s)" "pr_roles pr \<noteq> []"
    "case r of None \<Rightarrow> True | Some role \<Rightarrow> role \<in> set (pr_roles pr)"
    by (auto simp: verify_session_def bindr_eq_Inr Let_def split: if_splits option.splits)
  with session_principal_Some [OF a(2)] show ?thesis by metis
qed

text \<open>What a step does to the sessions that exist: it leaves them or revokes them now.\<close>

definition session_after :: "int \<Rightarrow> session_row \<Rightarrow> session_row \<Rightarrow> bool" where
  "session_after t s s' \<longleftrightarrow> s' = s \<or> (s_revoked_at s = None \<and> s' = s\<lparr>s_revoked_at := Some t\<rparr>)"

definition sessions_after :: "int \<Rightarrow> session_row list \<Rightarrow> session_row list \<Rightarrow> bool" where
  "sessions_after t ss ss' \<longleftrightarrow> (\<exists>olds news. ss' = olds @ news \<and> list_all2 (session_after t) ss olds \<and>
     (\<forall>n \<in> set news. \<forall>s \<in> set ss. s_session_id s \<noteq> s_session_id n) \<and> distinct (map s_session_id news))"

lemma sessions_after_refl [simp]: "sessions_after t ss ss"
  unfolding sessions_after_def
  by (rule exI [of _ ss], rule exI [of _ "[]"]) (simp add: session_after_def list.rel_refl)

lemma sessions_after_new:
  "\<forall>s \<in> set ss. s_session_id s \<noteq> s_session_id row \<Longrightarrow> sessions_after t ss (ss @ [row])"
  unfolding sessions_after_def
  by (rule exI [of _ ss], rule exI [of _ "[row]"]) (simp add: session_after_def list.rel_refl)

lemma sessions_after_update:
  assumes "\<And>s. s \<in> set ss \<Longrightarrow> P s \<Longrightarrow> s_revoked_at s = None"
  shows "sessions_after t ss (update_where P (\<lambda>s. s\<lparr>s_revoked_at := Some t\<rparr>) ss)"
proof -
  have "list_all2 (session_after t) ss (update_where P (\<lambda>s. s\<lparr>s_revoked_at := Some t\<rparr>) ss)"
    using assms by (induction ss) (auto simp: session_after_def)
  then show ?thesis unfolding sessions_after_def
    by (intro exI [of _ "update_where P (\<lambda>s. s\<lparr>s_revoked_at := Some t\<rparr>) ss"] exI [of _ "[]"]) simp
qed

lemma sessions_after_ids:
  "list_all2 (session_after t) ss olds \<Longrightarrow> map s_session_id olds = map s_session_id ss"
  by (induction rule: list_all2_induct) (auto simp: session_after_def)

lemma sessions_after_distinct:
  assumes "sessions_after t ss ss'" "distinct (map s_session_id ss)"
  shows "distinct (map s_session_id ss')"
proof -
  from assms(1) obtain olds news where o: "ss' = olds @ news" "list_all2 (session_after t) ss olds"
    "\<forall>n \<in> set news. \<forall>s \<in> set ss. s_session_id s \<noteq> s_session_id n" "distinct (map s_session_id news)"
    by (auto simp: sessions_after_def)
  have ids: "map s_session_id olds = map s_session_id ss" using sessions_after_ids o(2) .
  then have "s_session_id ` set olds = s_session_id ` set ss" by (metis list.set_map)
  with o assms(2) ids show ?thesis by auto
qed

text \<open>The registry as it is kept: identifiers are keys, and unless it is empty some enabled
  principal is an owner.\<close>

definition owner_alive :: "db \<Rightarrow> bool" where
  "owner_alive db \<longleftrightarrow> (\<exists>p \<in> set (principals db). p_enabled p \<and> OWNER \<in> set (role_set db (p_principal_id p)))"

definition identity_ok :: "db \<Rightarrow> bool" where
  "identity_ok db \<longleftrightarrow> distinct (map p_principal_id (principals db)) \<and> distinct (map s_session_id (sessions db)) \<and>
     distinct (map (\<lambda>r. (ro_principal_id r, ro_role r)) (principal_roles db)) \<and>
     (principals db \<noteq> [] \<longrightarrow> owner_alive db)"

lemma role_set_iff: "R \<in> set (role_set db i) \<longleftrightarrow> (\<exists>r \<in> set (principal_roles db). ro_principal_id r = i \<and> ro_role r = R)"
  by (auto simp: role_set_def)

lemma owner_rows_le_1:
  assumes "distinct (map (\<lambda>r. (ro_principal_id r, ro_role r)) rs)"
  shows "length (concat (map (\<lambda>r. if ro_principal_id r = i \<and> ro_role r = R then [x] else []) rs)) \<le> 1"
  using assms
proof (induction rs)
  case (Cons r rs)
  then show ?case
  proof (cases "ro_principal_id r = i \<and> ro_role r = R")
    case True
    with Cons.prems have "\<forall>s \<in> set rs. \<not> (ro_principal_id s = i \<and> ro_role s = R)" by (auto simp: image_iff)
    then have "concat (map (\<lambda>r. if ro_principal_id r = i \<and> ro_role r = R then [x] else []) rs) = []" by auto
    with True show ?thesis by simp
  next
    case False
    with Cons show ?thesis by auto
  qed
qed simp

text \<open>When more than one owner is counted, one of them is somebody else.\<close>

lemma another_owner:
  assumes "distinct (map p_principal_id ps)" "distinct (map (\<lambda>r. (ro_principal_id r, ro_role r)) rs)"
    and "1 < length [p_principal_id p. p \<leftarrow> ps, p_enabled p, r \<leftarrow> rs, ro_principal_id r = p_principal_id p \<and> ro_role r = OWNER]"
  shows "\<exists>p \<in> set ps. p_enabled p \<and> p_principal_id p \<noteq> i \<and> (\<exists>r \<in> set rs. ro_principal_id r = p_principal_id p \<and> ro_role r = OWNER)"
  using assms(1, 3)
proof (induction ps)
  case (Cons p ps)
  define own where "own = concat (map (\<lambda>r. if ro_principal_id r = p_principal_id p \<and> ro_role r = OWNER then [p_principal_id p] else []) rs)"
  define rest where "rest = [p_principal_id p. p \<leftarrow> ps, p_enabled p, r \<leftarrow> rs, ro_principal_id r = p_principal_id p \<and> ro_role r = OWNER]"
  have len: "1 < length ((if p_enabled p then own else []) @ rest)" using Cons.prems(2) by (cases "p_enabled p") (simp_all add: own_def rest_def)
  show ?case
  proof (cases "p_enabled p \<and> own \<noteq> []")
    case False
    then have "(if p_enabled p then own else []) = []" by auto
    with len have "1 < length rest" by simp
    with Cons show ?thesis by (auto simp: rest_def)
  next
    case own: True
    then have r: "\<exists>r \<in> set rs. ro_principal_id r = p_principal_id p \<and> ro_role r = OWNER"
      by (auto simp: own_def split: if_splits)
    show ?thesis
    proof (cases "p_principal_id p = i")
      case False
      with own r show ?thesis by auto
    next
      case True
      have "length own \<le> 1" unfolding own_def using owner_rows_le_1 [OF assms(2)] .
      with len have "rest \<noteq> []" by (auto split: if_splits)
      then obtain q where "q \<in> set ps" "p_enabled q" "\<exists>r \<in> set rs. ro_principal_id r = p_principal_id q \<and> ro_role r = OWNER"
        by (fastforce simp: rest_def split: if_splits)
      moreover from this True Cons.prems(1) have "p_principal_id q \<noteq> i" by (auto simp: image_iff)
      ultimately show ?thesis by auto
    qed
  qed
qed simp

lemma another_owner_db:
  assumes "identity_ok db" "assert_not_last_enabled_owner db = Inr u"
  shows "\<exists>p \<in> set (principals db). p_enabled p \<and> p_principal_id p \<noteq> i \<and> OWNER \<in> set (role_set db (p_principal_id p))"
proof -
  have "1 < length (enabled_owners db)"
    using assms(2) by (auto simp: assert_not_last_enabled_owner_def split: if_splits)
  with assms(1) obtain p where "p \<in> set (principals db)" "p_enabled p" "p_principal_id p \<noteq> i"
    "\<exists>r \<in> set (principal_roles db). ro_principal_id r = p_principal_id p \<and> ro_role r = OWNER"
    using another_owner [of "principals db" "principal_roles db" i] by (auto simp: identity_ok_def enabled_owners_def)
  then show ?thesis by (auto simp: role_set_iff)
qed

lemma role_set_append:
  "role_set (db\<lparr>principal_roles := rs @ map (\<lambda>r. \<lparr>ro_principal_id = i, ro_role = r, ro_granted_at = t\<rparr>) xs\<rparr>) j =
     role_set (db\<lparr>principal_roles := rs\<rparr>) j @ (if j = i then xs else [])"
  by (induction xs) (auto simp: role_set_def)

lemma role_set_frame [simp]:
  "role_set (db\<lparr>principals := ps\<rparr>) i = role_set db i" "role_set (db\<lparr>sessions := ss\<rparr>) i = role_set db i"
  "role_set (db\<lparr>uuid_next := n\<rparr>) i = role_set db i"
  by (simp_all add: role_set_def)

lemma owner_alive_frame [simp]:
  "owner_alive (db\<lparr>sessions := ss\<rparr>) = owner_alive db" "owner_alive (db\<lparr>uuid_next := n\<rparr>) = owner_alive db"
  by (simp_all add: owner_alive_def)

lemma owner_alive_update:
  assumes "owner_alive db" "\<And>p. p_principal_id (f p) = p_principal_id p" "\<And>p. p_enabled (f p) = p_enabled p"
  shows "owner_alive (db\<lparr>principals := update_where P f (principals db)\<rparr>)"
proof -
  from assms(1) obtain p where p: "p \<in> set (principals db)" "p_enabled p" "OWNER \<in> set (role_set db (p_principal_id p))"
    by (auto simp: owner_alive_def)
  show ?thesis
    unfolding owner_alive_def
    by (rule bexI [of _ "if P p then f p else p"]) (use p assms(2, 3) in \<open>auto simp: set_update_where\<close>)
qed

section \<open>Preservation\<close>

lemma sessions_after_snoc:
  assumes "list_all2 (session_after t) ss olds" "\<forall>x \<in> set olds. s_session_id x \<noteq> s_session_id row"
  shows "sessions_after t ss (olds @ [row])"
proof -
  have "s_session_id ` set olds = s_session_id ` set ss"
    using sessions_after_ids [OF assms(1)] by (metis list.set_map)
  with assms(2) have "\<forall>s \<in> set ss. s_session_id s \<noteq> s_session_id row"
    by (metis imageE imageI)
  then show ?thesis unfolding sessions_after_def using assms(1)
    by (intro exI [of _ olds] exI [of _ "[row]"] conjI) simp_all
qed

lemma identity_step_sessions:
  assumes "identity_step env db db'" "identity_ok db"
  shows "sessions_after (now env) (sessions db) (sessions db') \<and> events db' = events db"
  using assms
proof cases
  case (step_bootstrap kdf salt secret name cred ttl a)
  then show ?thesis
    by (auto simp: bootstrap_owner_def bindr_eq_Inr Let_def insert_principal_Inr split: if_splits
        dest!: insert_roles_Inr issue_session_Inr intro!: sessions_after_new)
next
  case (step_authenticate kdf secret name cred ttl a)
  then show ?thesis
    by (auto simp: authenticate_def bindr_eq_Inr Let_def split: if_splits
        dest!: issue_session_Inr intro!: sessions_after_new)
next
  case (step_create kdf salt s name cred roles p)
  then show ?thesis
    by (auto simp: create_principal_def bindr_eq_Inr except_map_eq_Inr Let_def insert_principal_Inr dest!: insert_roles_Inr)
next
  case (step_set_roles s name roles p)
  then show ?thesis
    by (auto simp: set_roles_def bindr_eq_Inr Let_def dest!: insert_roles_Inr)
next
  case (step_disable s name p)
  then show ?thesis
    by (auto simp: disable_principal_def bindr_eq_Inr Let_def revoke_sessions_of_def intro!: sessions_after_update)
next
  case (step_enable s name p)
  then show ?thesis
    by (auto simp: enable_principal_def bindr_eq_Inr Let_def)
next
  case (step_rotate kdf salt secret s cur new ttl a)
  then obtain i row u where d: "db' = u\<lparr>sessions := sessions (revoke_sessions_of env i db) @ [row], uuid_next := Suc (uuid_next db)\<rparr>"
    "events u = events db"
    and fresh: "\<forall>x \<in> set (sessions (revoke_sessions_of env i db)). s_session_id x \<noteq> s_session_id row"
    by (auto simp: rotate_credential_def bindr_eq_Inr Let_def revoke_sessions_of_def split: if_splits
        dest!: issue_session_Inr)
  have "list_all2 (session_after (now env)) (sessions db) (sessions (revoke_sessions_of env i db))"
    by (auto simp: revoke_sessions_of_def update_where_def list_all2_map2 session_after_def list_all2_same)
  then have "sessions_after (now env) (sessions db) (sessions (revoke_sessions_of env i db) @ [row])"
    using fresh by (rule sessions_after_snoc)
  with d show ?thesis by simp
next
  case (step_revoke s u)
  then obtain pr a where v: "verify_session env None s db = Inr pr" "s = Some a"
    and db': "db' = db\<lparr>sessions := update_where (\<lambda>s. s_session_id s = as_session_id a)
         (\<lambda>s. s\<lparr>s_revoked_at := Some (now env)\<rparr>) (sessions db)\<rparr>"
    by (auto simp: revoke_session_def bindr_eq_Inr)
  from verify_session_Inr [OF v(1)] v(2) obtain x where x: "x \<in> set (sessions db)" "s_session_id x = as_session_id a"
    "s_revoked_at x = None" by auto
  have "s_revoked_at y = None" if "y \<in> set (sessions db)" "s_session_id y = as_session_id a" for y
    using key_unique [of s_session_id "sessions db" x y] x that assms(2) by (auto simp: identity_ok_def)
  then show ?thesis unfolding db' by (auto intro: sessions_after_update)
qed

lemma principals_update_ids [simp]:
  "map p_principal_id (update_where P (\<lambda>p. p\<lparr>p_updated_at := t\<rparr>) ps) = map p_principal_id ps"
  "map p_principal_id (update_where P (\<lambda>p. p\<lparr>p_enabled := b, p_disabled_at := d, p_updated_at := t\<rparr>) ps) = map p_principal_id ps"
  "map p_principal_id (update_where P (\<lambda>p. p\<lparr>p_credential_salt := cs, p_credential_hash := h,
      p_credential_iterations := n, p_credential_version := v, p_updated_at := t\<rparr>) ps) = map p_principal_id ps"
  by (rule map_update_where, simp)+

lemma distinct_filter_roles:
  "distinct (map f rs) \<Longrightarrow> distinct (map f (filter P rs))"
  by (induction rs) auto

lemma set_roles_owner:
  assumes ok: "identity_ok db" and s: "set_roles env s name roles db = Inr (p, db')"
  shows "owner_alive db'"
proof -
  from s obtain key nm rs target u db1 where
    guard: "(if p_enabled target \<and> OWNER \<in> set (role_set db (p_principal_id target)) \<and> OWNER \<notin> set rs
            then assert_not_last_enabled_owner db else Inr ()) = Inr u"
    and target: "principal_by_key db key = Inr target" and auth: "\<exists>pr. require_role env OWNER s db = Inr pr"
    and db1: "insert_roles env (p_principal_id target) rs
              (db\<lparr>principal_roles := filter (\<lambda>r. ro_principal_id r \<noteq> p_principal_id target) (principal_roles db)\<rparr>) = Inr db1"
    and db': "db' = db1\<lparr>principals := update_where (\<lambda>p. p_principal_id p = p_principal_id target)
        (\<lambda>p. p\<lparr>p_updated_at := now env\<rparr>) (principals db1)\<rparr>"
    by (auto simp: set_roles_def bindr_eq_Inr Let_def)
  let ?i = "p_principal_id target"
  have t: "target \<in> set (principals db)"
    using target by (auto simp: principal_by_key_def dest: fetch_one_SomeD)
  then have "owner_alive db" using ok by (auto simp: identity_ok_def)
  then obtain q where q: "q \<in> set (principals db)" "p_enabled q" "OWNER \<in> set (role_set db (p_principal_id q))"
    by (auto simp: owner_alive_def)
  have roles1: "OWNER \<in> set (role_set db1 j) \<longleftrightarrow> (if j = ?i then OWNER \<in> set rs else OWNER \<in> set (role_set db j))" for j
    using insert_roles_Inr [OF db1] by (auto simp: role_set_append) (auto simp: role_set_iff)
  have p1: "principals db1 = principals db" using insert_roles_Inr [OF db1] by auto
  have "owner_alive db1"
  proof (cases "p_principal_id q = ?i \<and> OWNER \<notin> set rs")
    case False
    with q roles1 p1 show ?thesis by (auto simp: owner_alive_def)
  next
    case True
    then have "q = target" using key_unique [of p_principal_id "principals db" q target] ok q(1) t
      by (auto simp: identity_ok_def)
    with True q guard have "assert_not_last_enabled_owner db = Inr u" by simp
    from another_owner_db [OF ok this, of ?i] roles1 p1 show ?thesis by (auto simp: owner_alive_def)
  qed
  then show ?thesis unfolding db' by (rule owner_alive_update) simp_all
qed

lemma disable_owner:
  assumes ok: "identity_ok db" and s: "disable_principal env s name db = Inr (p, db')"
  shows "owner_alive db'"
proof -
  from s obtain key target u where
    guard: "(if p_enabled target \<and> OWNER \<in> set (role_set db (p_principal_id target))
            then assert_not_last_enabled_owner db else Inr ()) = Inr u"
    and target: "principal_by_key db key = Inr target"
    and db': "db' = revoke_sessions_of env (p_principal_id target) (db\<lparr>principals := update_where (\<lambda>p. p_principal_id p = p_principal_id target)
        (\<lambda>p. p\<lparr>p_enabled := False, p_disabled_at := Some (now env), p_updated_at := now env\<rparr>) (principals db)\<rparr>)"
    by (auto simp: disable_principal_def bindr_eq_Inr Let_def)
  let ?i = "p_principal_id target"
  have t: "target \<in> set (principals db)"
    using target by (auto simp: principal_by_key_def dest: fetch_one_SomeD)
  then have "owner_alive db" using ok by (auto simp: identity_ok_def)
  then obtain q where q: "q \<in> set (principals db)" "p_enabled q" "OWNER \<in> set (role_set db (p_principal_id q))"
    by (auto simp: owner_alive_def)
  have "\<exists>q \<in> set (principals db). p_enabled q \<and> p_principal_id q \<noteq> ?i \<and> OWNER \<in> set (role_set db (p_principal_id q))"
  proof (cases "p_principal_id q = ?i")
    case False
    with q show ?thesis by blast
  next
    case True
    then have "q = target" using key_unique [of p_principal_id "principals db" q target] ok q(1) t
      by (auto simp: identity_ok_def)
    with q guard have "assert_not_last_enabled_owner db = Inr u" by simp
    from another_owner_db [OF ok this] show ?thesis .
  qed
  then show ?thesis
    by (auto simp: db' owner_alive_def revoke_sessions_of_def set_update_where)
qed

lemma identity_step_ok:
  assumes "identity_step env db db'" "identity_ok db"
  shows "identity_ok db'"
proof -
  have ids: "distinct (map s_session_id (sessions db'))"
    using identity_step_sessions [OF assms] sessions_after_distinct assms(2) by (auto simp: identity_ok_def)
  have *: "distinct (map p_principal_id (principals db)) \<and> (principals db \<noteq> [] \<longrightarrow> owner_alive db) \<and>
      distinct (map (\<lambda>r. (ro_principal_id r, ro_role r)) (principal_roles db))"
    using assms(2) by (simp add: identity_ok_def)
  from assms(1) have "distinct (map p_principal_id (principals db')) \<and> (principals db' \<noteq> [] \<longrightarrow> owner_alive db') \<and>
      distinct (map (\<lambda>r. (ro_principal_id r, ro_role r)) (principal_roles db'))"
  proof cases
    case (step_bootstrap kdf salt secret name cred ttl a)
    then obtain key nm raw db1 db2 x where p: "principals db = []"
      and db1: "insert_principal (new_principal env kdf salt (uuid4 env (uuid_next db)) key nm raw)
          (db\<lparr>uuid_next := Suc (uuid_next db)\<rparr>) = Inr db1"
      and db2: "insert_roles env (uuid4 env (uuid_next db)) [OWNER] db1 = Inr db2"
      and db': "issue_session env secret (uuid4 env (uuid_next db)) nm 1 x db2 = Inr (a, db')"
      by (auto simp: bootstrap_owner_def bindr_eq_Inr Let_def split: if_splits)
    have "principals db' = [new_principal env kdf salt (uuid4 env (uuid_next db)) key nm raw]"
      "principal_roles db' = principal_roles db @
         [\<lparr>ro_principal_id = uuid4 env (uuid_next db), ro_role = OWNER, ro_granted_at = now env\<rparr>]"
      "distinct (map (\<lambda>r. (ro_principal_id r, ro_role r)) (principal_roles db'))"
      using insert_roles_Inr [OF db2] issue_session_Inr [OF db'] * p db1 by (auto simp: insert_principal_Inr)
    then show ?thesis by (auto simp: owner_alive_def role_set_iff new_principal_def)
  next
    case (step_authenticate kdf secret name cred ttl a)
    then have "principals db' = principals db" "principal_roles db' = principal_roles db"
      by (auto simp: authenticate_def bindr_eq_Inr Let_def split: if_splits dest!: issue_session_Inr)
    with * show ?thesis by (simp add: owner_alive_def role_set_def)
  next
    case (step_create kdf salt s name cred roles p)
    then obtain key nm raw rs db1 pr where v: "require_role env OWNER s (db\<lparr>uuid_next := Suc (uuid_next db)\<rparr>) = Inr pr"
      and db1: "insert_principal (new_principal env kdf salt (uuid4 env (uuid_next db)) key nm raw)
          (db\<lparr>uuid_next := Suc (uuid_next db)\<rparr>) = Inr db1"
      and db': "insert_roles env (uuid4 env (uuid_next db)) rs db1 = Inr db'"
      by (auto simp: create_principal_def bindr_eq_Inr except_map_eq_Inr Let_def)
    define row where "row = new_principal env kdf salt (uuid4 env (uuid_next db)) key nm raw"
    have row: "\<forall>p \<in> set (principals db). p_principal_id row \<noteq> p_principal_id p"
      and db1: "db1 = db\<lparr>uuid_next := Suc (uuid_next db), principals := principals db @ [row]\<rparr>"
      using db1 by (auto simp: insert_principal_Inr row_def)
    from verify_session_Inr [OF v] have "principals db \<noteq> []" by auto
    with * have "owner_alive db" by blast
    moreover have "principals db' = principals db @ [row]" "set (principal_roles db) \<subseteq> set (principal_roles db')"
      using insert_roles_Inr [OF db', THEN conjunct1] by (auto simp: db1)
    moreover have "distinct (map (\<lambda>r. (ro_principal_id r, ro_role r)) (principal_roles db'))"
      using insert_roles_Inr [OF db', THEN conjunct2] * by (simp add: db1)
    ultimately show ?thesis using row * by (auto simp: owner_alive_def role_set_iff)
  next
    case (step_set_roles s name roles p)
    have "owner_alive db'" using set_roles_owner [OF assms(2) step_set_roles] .
    moreover from step_set_roles have "map p_principal_id (principals db') = map p_principal_id (principals db)"
      by (auto simp: set_roles_def bindr_eq_Inr Let_def dest!: insert_roles_Inr)
    moreover from step_set_roles obtain i rs db1 where i: "insert_roles env i rs
        (db\<lparr>principal_roles := filter (\<lambda>r. ro_principal_id r \<noteq> i) (principal_roles db)\<rparr>) = Inr db1"
      "principal_roles db' = principal_roles db1"
      by (auto simp: set_roles_def bindr_eq_Inr Let_def)
    have "distinct (map (\<lambda>r. (ro_principal_id r, ro_role r)) (filter (\<lambda>r. ro_principal_id r \<noteq> i) (principal_roles db)))"
      using * by (blast intro: distinct_filter_roles)
    with insert_roles_Inr [OF i(1), THEN conjunct2] i(2)
    have "distinct (map (\<lambda>r. (ro_principal_id r, ro_role r)) (principal_roles db'))" by simp
    ultimately show ?thesis using * by (metis map_is_Nil_conv)
  next
    case (step_disable s name p)
    have "owner_alive db'" using disable_owner [OF assms(2) step_disable] .
    moreover from step_disable have "map p_principal_id (principals db') = map p_principal_id (principals db)"
      "principal_roles db' = principal_roles db"
      by (auto simp: disable_principal_def bindr_eq_Inr Let_def revoke_sessions_of_def)
    ultimately show ?thesis using * by simp
  next
    case (step_enable s name p)
    then obtain i where db': "db' = db\<lparr>principals := update_where (\<lambda>p. p_principal_id p = i)
        (\<lambda>p. p\<lparr>p_enabled := True, p_disabled_at := None, p_updated_at := now env\<rparr>) (principals db)\<rparr>"
      by (auto simp: enable_principal_def bindr_eq_Inr Let_def)
    have "owner_alive db'" if "owner_alive db"
    proof -
      from that obtain q where "q \<in> set (principals db)" "p_enabled q" "OWNER \<in> set (role_set db (p_principal_id q))"
        by (auto simp: owner_alive_def)
      then show ?thesis unfolding owner_alive_def db'
        by (intro bexI [of _ "if p_principal_id q = i then q\<lparr>p_enabled := True, p_disabled_at := None, p_updated_at := now env\<rparr> else q"])
          (auto simp: set_update_where)
    qed
    moreover have "principals db' \<noteq> [] \<longrightarrow> principals db \<noteq> []" by (auto simp: db')
    ultimately show ?thesis using * by (simp add: db')
  next
    case (step_rotate kdf salt secret s cur new ttl a)
    then obtain i raw v nm x where db': "issue_session env secret i nm v x (revoke_sessions_of env i
        (db\<lparr>principals := update_where (\<lambda>p. p_principal_id p = i \<and> p_enabled p)
          (\<lambda>p. p\<lparr>p_credential_salt := salt, p_credential_hash := kdf raw salt PBKDF2_ITERATIONS,
                 p_credential_iterations := PBKDF2_ITERATIONS, p_credential_version := v,
                 p_updated_at := now env\<rparr>) (principals db)\<rparr>)) = Inr (a, db')"
      by (auto simp: rotate_credential_def bindr_eq_Inr Let_def split: if_splits)
    define P :: "principal_row \<Rightarrow> bool" where "P = (\<lambda>p. p_principal_id p = i \<and> p_enabled p)"
    define cs h n where "cs = salt" and "h = kdf raw salt PBKDF2_ITERATIONS" and "n = PBKDF2_ITERATIONS"
    have db': "principals db' = update_where P (\<lambda>p. p\<lparr>p_credential_salt := cs, p_credential_hash := h,
      p_credential_iterations := n, p_credential_version := v, p_updated_at := now env\<rparr>) (principals db)"
      "principal_roles db' = principal_roles db"
      using issue_session_Inr [OF db'] by (auto simp: revoke_sessions_of_def P_def cs_def h_def n_def)
    let ?f = "\<lambda>p. p\<lparr>p_credential_salt := cs, p_credential_hash := h, p_credential_iterations := n,
        p_credential_version := v, p_updated_at := now env\<rparr>"
    have "owner_alive db'" if "owner_alive db"
    proof -
      have "owner_alive (db\<lparr>principals := update_where P ?f (principals db)\<rparr>)"
        using that by (rule owner_alive_update) simp_all
      then show ?thesis by (simp add: owner_alive_def db' role_set_def)
    qed
    with * db' show ?thesis by auto
  next
    case (step_revoke s u)
    then have "principals db' = principals db" "principal_roles db' = principal_roles db"
      by (auto simp: revoke_session_def bindr_eq_Inr)
    with * show ?thesis by (simp add: owner_alive_def role_set_def)
  qed
  with ids show ?thesis by (auto simp: identity_ok_def)
qed

lemma identity_steps_ok: "identity_steps db db' \<Longrightarrow> identity_ok db \<Longrightarrow> identity_ok db'"
  by (induction rule: identity_steps.induct) (auto dest: identity_step_ok)

section \<open>Properties of the registry\<close>

text \<open>C20.  Whatever is done to the registry from an empty one, in any order and at any times,
  principal and session identifiers stay unique and, once there is a principal, some enabled
  principal is an owner: neither removing roles nor disabling can lock everybody out.\<close>

theorem registry_keeps_an_owner:
  assumes "identity_steps db db'" "principals db = []" "principal_roles db = []" "sessions db = []"
    and "principals db' \<noteq> []"
  shows "identity_ok db' \<and> owner_alive db'"
proof -
  have "identity_ok db" using assms(2-4) by (simp add: identity_ok_def)
  with identity_steps_ok [OF assms(1)] assms(5) show ?thesis by (auto simp: identity_ok_def)
qed

definition revoked :: "db \<Rightarrow> string \<Rightarrow> bool" where
  "revoked db i \<longleftrightarrow> (\<exists>s \<in> set (sessions db). s_session_id s = i \<and> s_revoked_at s \<noteq> None)"

lemma sessions_after_revoked:
  assumes "sessions_after t ss ss'" "s \<in> set ss" "s_session_id s = i" "s_revoked_at s \<noteq> None"
  shows "\<exists>s' \<in> set ss'. s_session_id s' = i \<and> s_revoked_at s' \<noteq> None"
proof -
  from assms(1) obtain olds news where "ss' = olds @ news" "list_all2 (session_after t) ss olds"
    by (auto simp: sessions_after_def)
  moreover from this assms(2) obtain s' where "s' \<in> set olds" "session_after t s s'"
    by (auto dest: list_all2_in)
  ultimately show ?thesis using assms(3, 4) by (auto simp: session_after_def)
qed

lemma identity_steps_revoked:
  "identity_steps db db' \<Longrightarrow> identity_ok db \<Longrightarrow> revoked db i \<Longrightarrow> revoked db' i"
proof (induction rule: identity_steps.induct)
  case (steps_next db db' env db'')
  then have "identity_ok db'" "revoked db' i" using identity_steps_ok by auto
  with identity_step_sessions [OF steps_next.hyps(2)] show ?case
    unfolding revoked_def using sessions_after_revoked by blast
qed

lemma revoked_rejected:
  assumes "identity_ok db" "revoked db (as_session_id a)"
  shows "\<exists>m. verify_session env r (Some a) db = Inl (AuthorizationError m)"
proof (cases "verify_session env r (Some a) db")
  case (Inr pr)
  from verify_session_Inr [OF this] obtain s where "s \<in> set (sessions db)" "s_session_id s = as_session_id a"
    "s_revoked_at s = None" by auto
  with assms show ?thesis
    using key_unique [of s_session_id "sessions db"] by (fastforce simp: revoked_def identity_ok_def)
next
  case (Inl e)
  then have "\<exists>m. e = AuthorizationError m"
    by (auto simp: verify_session_def bindr_eq_Inl Let_def split: if_splits)
  with Inl show ?thesis by blast
qed

text \<open>C21.  A disabled principal's sessions are dead for good: every session it held is rejected
  after the disabling and after any later sequence of registry operations, enabling it again
  included.\<close>

theorem disabled_sessions_stay_dead:
  assumes "disable_principal env s name db = Inr (p, db1)" "identity_ok db" "identity_steps db1 db'"
    and "x \<in> set (sessions db)" "s_principal_id x = pr_principal_id p" "as_session_id a = s_session_id x"
  shows "\<exists>m. verify_session env' r (Some a) db' = Inl (AuthorizationError m)"
proof -
  have step: "identity_step env db db1" by (rule step_disable) (rule assms(1))
  from assms(1) obtain db0 where db1: "db1 = revoke_sessions_of env (pr_principal_id p) db0" "sessions db0 = sessions db"
    by (auto simp: disable_principal_def bindr_eq_Inr Let_def read_principal_def)
  let ?x = "if s_principal_id x = pr_principal_id p \<and> s_revoked_at x = None then x\<lparr>s_revoked_at := Some (now env)\<rparr> else x"
  have "?x \<in> set (sessions db1)"
    using assms(4) by (auto simp: db1 revoke_sessions_of_def set_update_where)
  moreover have "s_session_id ?x = as_session_id a" "s_revoked_at ?x \<noteq> None"
    using assms(5, 6) by auto
  ultimately have "revoked db1 (as_session_id a)" unfolding revoked_def by blast
  with identity_steps_revoked [OF assms(3)] identity_step_ok [OF step assms(2)] identity_steps_ok [OF assms(3)]
  show ?thesis by (intro revoked_rejected) auto
qed

text \<open>\<open>require_role\<close> accepts exactly what the registry holds now: the bearer secret hashes to
  the stored token of an unrevoked, unexpired session issued under the current credential version
  of an enabled principal that has the very role asked for (an owner does not stand in).\<close>

theorem require_role_sound:
  assumes "require_role env role session db = Inr pr"
  shows "\<exists>a s p. session = Some a \<and> s \<in> set (sessions db) \<and> p \<in> set (principals db) \<and>
     s_session_id s = as_session_id a \<and> s_token_hash s = sha256 env (as_session_secret a) \<and>
     s_revoked_at s = None \<and> now env < s_expires_at s \<and> s_principal_id s = p_principal_id p \<and> p_enabled p \<and>
     s_credential_version s = p_credential_version p \<and> pr_principal_id pr = p_principal_id p \<and>
     role \<in> set (role_set db (p_principal_id p))"
  using verify_session_Inr [OF assms] by force

lemma fetch_after:
  assumes "list_all2 (session_after t) ss olds" "fetch_one (\<lambda>s. Q (s_session_id s) \<and> s_principal_id s = p) ss = Some s"
  shows "\<exists>s'. fetch_one (\<lambda>s. Q (s_session_id s) \<and> s_principal_id s = p) (olds @ news) = Some s' \<and> session_after t s s'"
  using assms
proof (induction rule: list_all2_induct)
  case (Cons x xs y ys)
  have "s_session_id y = s_session_id x" "s_principal_id y = s_principal_id x"
    using Cons.hyps(1) by (auto simp: session_after_def)
  with Cons show ?case by (auto split: if_splits)
qed simp

lemma verify_authority_after:
  assumes "verify_authority ss e = Inr ()" "sessions_after t ss ss'" "e_occurred_at e \<le> t"
  shows "verify_authority ss' e = Inr ()"
proof (cases "e_aggregate_type e \<in> set (map fst CORE_HANDLERS)")
  case False
  with assms(1) show ?thesis by (simp add: verify_authority_def)
next
  case True
  let ?Q = "\<lambda>i. auth_text (e_auth_context e) ''session_id'' = Some i"
  from assms(1) True obtain allowed s where
    c: "core_roles (e_aggregate_type e) (e_event_type e) (e_payload e) (auth_text (e_auth_context e) ''handler'') = Inr allowed"
    "core_metadata_ok e allowed"
    and s: "fetch_one (\<lambda>s. ?Q (s_session_id s) \<and> s_principal_id s = e_actor e) ss = Some s"
    "session_valid_at s (e_occurred_at e)"
    by (auto simp: verify_authority_def verify_core_event_def bindr_eq_Inr simp del: fetch_one_None
        split: if_splits option.splits)
  from assms(2) obtain olds news where o: "ss' = olds @ news" "list_all2 (session_after t) ss olds"
    by (auto simp: sessions_after_def)
  from fetch_after [OF o(2), of ?Q "e_actor e" s news] s(1) obtain s' where
    s': "fetch_one (\<lambda>s. ?Q (s_session_id s) \<and> s_principal_id s = e_actor e) ss' = Some s'" "session_after t s s'"
    by (auto simp: o(1))
  have "session_valid_at s' (e_occurred_at e)"
    using s'(2) s(2) assms(3) by (auto simp: session_after_def session_valid_at_def)
  with True c s' show ?thesis by (simp add: verify_authority_def verify_core_event_def)
qed

lemma verify_rows_after:
  assumes "sessions_after t ss ss'"
  shows "verify_rows h ss p es = Inr () \<Longrightarrow> (\<And>e. e \<in> set es \<Longrightarrow> e_occurred_at e \<le> t) \<Longrightarrow> verify_rows h ss' p es = Inr ()"
  by (induction es arbitrary: p)
    (auto simp: bindr_eq_Inr split: if_splits intro: verify_authority_after [OF _ assms])

text \<open>Registry operations never invalidate history: if the event chain verifies and no event
  lies in the future, it still verifies after any registry operation, such as the revocation of
  the session under which an event was recorded.\<close>

theorem registry_keeps_history:
  assumes "identity_step env db db'" "identity_ok db" "verify_event_chain h db = Inr n"
    and "\<forall>e \<in> set (events db). e_occurred_at e \<le> now env"
  shows "verify_event_chain h db' = Inr n"
proof -
  note s = identity_step_sessions [OF assms(1, 2)]
  from assms(3) have "verify_rows h (sessions db) ''GENESIS'' (events db) = Inr ()" "n = length (events db)"
    by (auto simp: verify_event_chain_Inr)
  with verify_rows_after [OF s [THEN conjunct1]] s assms(4) show ?thesis by (auto simp: verify_event_chain_Inr)
qed

section \<open>Instances\<close>

definition sample_kdf :: kdf where
  "sample_kdf credential salt iterations = credential @ salt"

lemmas identity_eval = verify_session_def session_principal_def role_set_def principal_by_key_def
  read_principal_def disable_principal_def revoke_session_def revoke_sessions_of_def

lemma sample_names:
  "principal_name ''Olga'' = Inr (''olga'', ''Olga'')" "principal_name ''will'' = Inr (''will'', ''will'')"
  by code_simp+

lemma sample_identity_ok: "identity_ok sample_db" "identity_ok sample_log"
  by (simp_all add: identity_ok_def sample_log_def sample_eval owner_alive_def role_set_def)

lemma sample_bootstrap:
  "\<exists>a db. bootstrap_owner (sample_env 5) sample_kdf ''salt'' ''secret'' ''Olga'' ''correct horse'' 300 empty_db = Inr (a, db) \<and>
     principals db \<noteq> []"
  by (simp add: bootstrap_owner_def sample_names credential_bytes_def session_ttl_def MAX_SESSION_TTL_SECONDS_def
      insert_principal_def insert_roles_def issue_session_def insert_row_def empty_db_def Let_def cong: bind_eval)

lemma registry_keeps_an_owner_witness:
  "\<exists>db. identity_steps empty_db db \<and> owner_alive db"
proof -
  obtain a db where b: "bootstrap_owner (sample_env 5) sample_kdf ''salt'' ''secret'' ''Olga'' ''correct horse'' 300 empty_db = Inr (a, db)"
    "principals db \<noteq> []"
    using sample_bootstrap by blast
  then have s: "identity_steps empty_db db"
    by (blast intro: steps_next steps_none step_bootstrap)
  from registry_keeps_an_owner [OF s] b(2) s show ?thesis by (auto simp: empty_db_def)
qed

lemma sample_disable:
  "\<exists>p db. disable_principal (sample_env 5) (Some (sample_session ''olga'')) ''will'' sample_db = Inr (p, db) \<and>
     pr_principal_id p = ''will''"
  by (simp add: identity_eval sample_names sample_eval Let_def cong: bind_eval)

lemma disabled_sessions_stay_dead_witness:
  "\<exists>p db. disable_principal (sample_env 5) (Some (sample_session ''olga'')) ''will'' sample_db = Inr (p, db) \<and>
     (\<exists>m. verify_session (sample_env 7) None (Some (sample_session ''will'')) db = Inl (AuthorizationError m))"
proof -
  obtain p db where d: "disable_principal (sample_env 5) (Some (sample_session ''olga'')) ''will'' sample_db = Inr (p, db)"
    "pr_principal_id p = ''will''"
    using sample_disable by blast
  have x: "sample_session_row ''will'' \<in> set (sessions sample_db)" by (simp add: sample_db_def)
  from disabled_sessions_stay_dead [OF d(1) sample_identity_ok(1) steps_none x] d show ?thesis
    by (auto simp: sample_session_row_def sample_session_def)
qed

lemma require_role_sound_witness:
  "\<exists>pr. require_role (sample_env 5) OWNER (Some (sample_session ''olga'')) sample_db = Inr pr \<and>
     OWNER \<in> set (role_set sample_db (pr_principal_id pr))"
proof -
  obtain pr where "require_role (sample_env 5) OWNER (Some (sample_session ''olga'')) sample_db = Inr pr"
    by (simp add: identity_eval sample_eval Let_def cong: bind_eval)
  with require_role_sound [OF this] show ?thesis by fastforce
qed

lemma registry_keeps_history_witness:
  "\<exists>db. identity_step (sample_env 9) sample_log db \<and> verify_event_chain toy_hash db = Inr 1 \<and> revoked db ''s-will''"
proof -
  let ?a = "sample_session ''will''"
  obtain db where db: "revoke_session (sample_env 9) (Some ?a) sample_log = Inr ((), db)" "revoked db ''s-will''"
    by (simp add: identity_eval sample_log_def sample_eval Let_def revoked_def cong: bind_eval)
  have s: "identity_step (sample_env 9) sample_log db" by (rule step_revoke) (rule db(1))
  have "\<forall>e \<in> set (events sample_log). e_occurred_at e \<le> now (sample_env 9)"
    by (simp add: sample_log_def sample_event_def sample_env_def)
  from registry_keeps_history [OF s sample_identity_ok(2) sample_log_verifies this] s db(2) show ?thesis by blast
qed

end
