(* ===== verification/Leases.thy ===== *)
theory Leases
  imports Identity
begin

text \<open>
  \<open>leases.py\<close>: leases on named resources with monotonic fencing tokens, one row per resource.
  The abstract contract is the step relation \<open>lease_step\<close> on the lease table; the locale
  \<open>fenced_leases\<close> proves what every service that only makes such steps guarantees, and is
  interpreted here for the operations of \<open>LeaseManager\<close> and in the scheduler for its own.
\<close>

section \<open>Operations\<close>

definition lease_text :: "string \<Rightarrow> string res" where
  "lease_text = text_field LeaseError"

definition positive_int :: "int \<Rightarrow> int res" where
  "positive_int v = (if v < 1 then Inl (LeaseError ''must be a positive integer'') else Inr v)"

definition lease_active :: "int \<Rightarrow> lease_row \<Rightarrow> bool" where
  "lease_active t l \<longleftrightarrow> l_released_at l = None \<and> t < l_expires_at l"

definition find_lease :: "string \<Rightarrow> lease_row list \<Rightarrow> lease_row option" where
  "find_lease key rows = fetch_one (\<lambda>l. l_resource_key l = key) rows"

definition holder_id :: "env \<Rightarrow> auth_session option \<Rightarrow> db \<Rightarrow> string res" where
  "holder_id env holder db =
     bindr (verify_session env None holder db) (\<lambda>principal.
     if WORKER \<notin> set (pr_roles principal) \<and> SYSTEM \<notin> set (pr_roles principal)
     then Inl (LeaseError ''lease holder requires worker or system role'')
     else Inr (pr_principal_id principal))"

definition assert_task_scope :: "string \<Rightarrow> string \<Rightarrow> db \<Rightarrow> task_row res" where
  "assert_task_scope project_id task_id db =
     require (fetch_one (\<lambda>t. t_task_id t = task_id \<and> t_project_id t = project_id) (tasks db))
       (LeaseError ''task is not in project scope'')"

definition append_audit ::
    "env \<Rightarrow> string \<Rightarrow> string \<Rightarrow> task_row \<Rightarrow> string \<Rightarrow> int \<Rightarrow> string \<Rightarrow> int \<Rightarrow> db \<Rightarrow> db res" where
  "append_audit env policy_version resource_key task holder fence event_type expires_at db =
     (let version = current_version ''lease'' resource_key (events db);
          (command_id, db) = draw_uuid env db in
      bindr (append_event env (event_defaults\<lparr>c_aggregate_type := ''lease'', c_aggregate_id := resource_key,
          c_expected_version := version, c_project_id := t_project_id task, c_run_id := t_run_id task,
          c_task_id := Some (t_task_id task), c_event_type := event_type, c_actor := holder,
          c_command_id := command_id, c_correlation_id := correlation (t_run_id task) (t_goal_id task),
          c_policy_version := policy_version,
          c_payload := [(''holder'', JStr holder), (''fence'', JInt fence), (''expires_at'', JInt expires_at)]\<rparr>) db)
        (\<lambda>(_, db). Inr db))"

definition require_match :: "env \<Rightarrow> lease_row option \<Rightarrow> string \<Rightarrow> string \<Rightarrow> string \<Rightarrow> int \<Rightarrow> bool \<Rightarrow> lease_row res" where
  "require_match env row project_id task_id holder fence require_active =
     bindr (require row (LeaseError ''lease does not exist'')) (\<lambda>l.
     if (l_project_id l, l_task_id l, l_holder l, l_fence l) \<noteq> (project_id, task_id, holder, fence)
     then Inl (LeaseError ''lease scope or fence mismatch'')
     else if require_active \<and> \<not> lease_active (now env) l then Inl (LeaseError ''lease is not active'')
     else Inr l)"

definition new_lease :: "env \<Rightarrow> string \<Rightarrow> string \<Rightarrow> string \<Rightarrow> string \<Rightarrow> int \<Rightarrow> int \<Rightarrow> lease_row" where
  "new_lease env key project_id task_id holder fence ttl_seconds =
     \<lparr>l_resource_key = key, l_project_id = project_id, l_task_id = task_id, l_holder = holder, l_fence = fence,
      l_issued_at = now env, l_expires_at = now env + seconds ttl_seconds, l_released_at = None\<rparr>"

definition take_over :: "env \<Rightarrow> string \<Rightarrow> string \<Rightarrow> string \<Rightarrow> int \<Rightarrow> lease_row \<Rightarrow> lease_row" where
  "take_over env project_id task_id holder ttl_seconds l =
     l\<lparr>l_project_id := project_id, l_task_id := task_id, l_holder := holder, l_fence := l_fence l + 1,
       l_issued_at := now env, l_expires_at := now env + seconds ttl_seconds, l_released_at := None\<rparr>"

definition acquire ::
    "env \<Rightarrow> string \<Rightarrow> string \<Rightarrow> string \<Rightarrow> string \<Rightarrow> auth_session option \<Rightarrow> int \<Rightarrow> db \<Rightarrow> ((lease_row \<times> bool) \<times> db) res" where
  "acquire env policy_version resource_key project_id task_id holder ttl_seconds db =
     bindr (lease_text resource_key) (\<lambda>key.
     bindr (lease_text project_id) (\<lambda>project.
     bindr (lease_text task_id) (\<lambda>task_id.
     bindr (positive_int ttl_seconds) (\<lambda>ttl.
     bindr (holder_id env holder db) (\<lambda>hid.
     bindr (assert_task_scope project task_id db) (\<lambda>task.
     let row = find_lease key (leases db) in
     if (case row of None \<Rightarrow> False | Some l \<Rightarrow> lease_active (now env) l) then
       bindr (require row (LeaseError ''resource is already leased'')) (\<lambda>l.
       if l_project_id l = project \<and> l_task_id l = task_id \<and> l_holder l = hid then Inr ((l, True), db)
       else Inl (LeaseError ''resource is already leased''))
     else
       let rows = (if row = None then leases db @ [new_lease env key project task_id hid 1 ttl]
                   else update_where (\<lambda>l. l_resource_key l = key) (take_over env project task_id hid ttl) (leases db));
           db1 = db\<lparr>leases := rows\<rparr> in
       bindr (require (find_lease key rows) (PyTypeError ''NoneType'')) (\<lambda>acquired.
       bindr (append_audit env policy_version key task hid (l_fence acquired)
                (if row = None then ''lease_acquired'' else ''lease_taken_over'') (l_expires_at acquired) db1) (\<lambda>db2.
         Inr ((acquired, False), db2)))))))))"

definition renew ::
    "env \<Rightarrow> string \<Rightarrow> string \<Rightarrow> string \<Rightarrow> string \<Rightarrow> auth_session option \<Rightarrow> int \<Rightarrow> int \<Rightarrow> db \<Rightarrow> ((lease_row \<times> bool) \<times> db) res" where
  "renew env policy_version resource_key project_id task_id holder fence ttl_seconds db =
     bindr (lease_text resource_key) (\<lambda>key.
     bindr (lease_text project_id) (\<lambda>project.
     bindr (lease_text task_id) (\<lambda>task_id.
     bindr (positive_int fence) (\<lambda>fence.
     bindr (positive_int ttl_seconds) (\<lambda>ttl.
     bindr (holder_id env holder db) (\<lambda>hid.
     bindr (require_match env (find_lease key (leases db)) project task_id hid fence True) (\<lambda>_.
     let rows = update_where (\<lambda>l. l_resource_key l = key \<and> l_fence l = fence)
                  (\<lambda>l. l\<lparr>l_expires_at := now env + seconds ttl\<rparr>) (leases db);
         db1 = db\<lparr>leases := rows\<rparr> in
     bindr (require (find_lease key rows) (PyTypeError ''NoneType'')) (\<lambda>renewed.
     bindr (assert_task_scope project task_id db1) (\<lambda>task.
     bindr (append_audit env policy_version key task hid fence ''lease_renewed'' (l_expires_at renewed) db1) (\<lambda>db2.
       Inr ((renewed, False), db2)))))))))))"

definition release ::
    "env \<Rightarrow> string \<Rightarrow> string \<Rightarrow> string \<Rightarrow> string \<Rightarrow> auth_session option \<Rightarrow> int \<Rightarrow> db \<Rightarrow> ((lease_row \<times> bool) \<times> db) res" where
  "release env policy_version resource_key project_id task_id holder fence db =
     bindr (lease_text resource_key) (\<lambda>key.
     bindr (lease_text project_id) (\<lambda>project.
     bindr (lease_text task_id) (\<lambda>task_id.
     bindr (positive_int fence) (\<lambda>fence.
     bindr (holder_id env holder db) (\<lambda>hid.
     bindr (require_match env (find_lease key (leases db)) project task_id hid fence False) (\<lambda>row.
     if l_released_at row \<noteq> None then Inr ((row, True), db)
     else if \<not> lease_active (now env) row then Inl (LeaseError ''lease has expired'')
     else
       let rows = update_where (\<lambda>l. l_resource_key l = key \<and> l_fence l = fence)
                    (\<lambda>l. l\<lparr>l_released_at := Some (now env)\<rparr>) (leases db);
           db1 = db\<lparr>leases := rows\<rparr> in
       bindr (require (find_lease key rows) (PyTypeError ''NoneType'')) (\<lambda>released.
       bindr (assert_task_scope project task_id db1) (\<lambda>task.
       bindr (append_audit env policy_version key task hid fence ''lease_released'' (l_expires_at released) db1) (\<lambda>db2.
         Inr ((released, False), db2))))))))))"

definition current_fence :: "string \<Rightarrow> db \<Rightarrow> int option res" where
  "current_fence resource_key db =
     bindr (lease_text resource_key) (\<lambda>key. Inr (map_option l_fence (find_lease key (leases db))))"

definition require_current_fence ::
    "env \<Rightarrow> string \<Rightarrow> string \<Rightarrow> string \<Rightarrow> auth_session option \<Rightarrow> int \<Rightarrow> bool \<Rightarrow> db \<Rightarrow> lease_row res" where
  "require_current_fence env resource_key project_id task_id holder fence require_active db =
     bindr (lease_text resource_key) (\<lambda>key.
     bindr (lease_text project_id) (\<lambda>project.
     bindr (lease_text task_id) (\<lambda>task_id.
     bindr (positive_int fence) (\<lambda>fence.
     bindr (holder_id env holder db) (\<lambda>hid.
       require_match env (find_lease key (leases db)) project task_id hid fence require_active)))))"

section \<open>The contract of a lease table\<close>

inductive lease_step :: "int \<Rightarrow> lease_row list \<Rightarrow> lease_row list \<Rightarrow> bool" for t where
  keep: "lease_step t rows rows"
| grant: "\<lbrakk>\<And>l. l \<in> set rows \<Longrightarrow> l_resource_key l \<noteq> l_resource_key new; l_fence new = 1; l_released_at new = None\<rbrakk>
    \<Longrightarrow> lease_step t rows (rows @ [new])"
| takeover: "\<lbrakk>find_lease k rows = Some l; \<not> lease_active t l;
     \<And>x. l_resource_key (f x) = l_resource_key x; l_fence (f l) = l_fence l + 1\<rbrakk>
    \<Longrightarrow> lease_step t rows (update_where (\<lambda>x. l_resource_key x = k) f rows)"
| extend: "\<lbrakk>find_lease k rows = Some l; lease_active t l; l_fence l = n\<rbrakk>
    \<Longrightarrow> lease_step t rows (update_where (\<lambda>x. l_resource_key x = k \<and> l_fence x = n) (\<lambda>x. x\<lparr>l_expires_at := e\<rparr>) rows)"
| give_up: "\<lbrakk>find_lease k rows = Some l; lease_active t l; l_fence l = n\<rbrakk>
    \<Longrightarrow> lease_step t rows (update_where (\<lambda>x. l_resource_key x = k \<and> l_fence x = n) (\<lambda>x. x\<lparr>l_released_at := Some t\<rparr>) rows)"

definition fence_at :: "string \<Rightarrow> lease_row list \<Rightarrow> int" where
  "fence_at k rows = (case find_lease k rows of None \<Rightarrow> 0 | Some l \<Rightarrow> l_fence l)"

definition lease_owner :: "lease_row \<Rightarrow> string \<times> string \<times> string" where
  "lease_owner l = (l_project_id l, l_task_id l, l_holder l)"

definition leases_ok :: "lease_row list \<Rightarrow> bool" where
  "leases_ok rows \<longleftrightarrow> distinct (map l_resource_key rows) \<and> (\<forall>l \<in> set rows. 1 \<le> l_fence l)"

lemma find_lease_SomeD: "find_lease k rows = Some l \<Longrightarrow> l \<in> set rows \<and> l_resource_key l = k"
  by (auto simp: find_lease_def dest: fetch_one_SomeD)

lemma find_lease_update:
  assumes "\<And>x. l_resource_key (f x) = l_resource_key x"
  shows "find_lease j (update_where P f rows) = map_option (\<lambda>x. if P x then f x else x) (find_lease j rows)"
  unfolding find_lease_def by (rule fetch_one_update_frame) (simp add: assms)

lemma find_lease_snoc:
  "find_lease j (rows @ [l]) = (case find_lease j rows of None \<Rightarrow> if l_resource_key l = j then Some l else None | Some x \<Rightarrow> Some x)"
  unfolding find_lease_def fetch_one_append by (simp del: fetch_one_None split: option.splits)

lemma lease_step_ok:
  assumes "lease_step t rows rows'" "leases_ok rows"
  shows "leases_ok rows'"
  using assms
proof cases
  case (takeover k l f)
  then have "map l_resource_key rows' = map l_resource_key rows" by (simp add: map_update_where)
  moreover have "x = l" if "x \<in> set rows" "l_resource_key x = k" for x
    using key_unique [of l_resource_key rows x l] that find_lease_SomeD [OF takeover(2)] assms(2)
    by (auto simp: leases_ok_def)
  ultimately show ?thesis using takeover assms(2) by (auto simp: leases_ok_def set_update_where)
next
  case (grant new)
  then have "l_resource_key new \<notin> l_resource_key ` set rows" by force
  with grant assms(2) show ?thesis by (auto simp: leases_ok_def)
next
  case (extend k l n e)
  then have "map l_resource_key rows' = map l_resource_key rows" by (simp add: map_update_where)
  with extend assms(2) show ?thesis by (auto simp: leases_ok_def set_update_where)
next
  case (give_up k l n)
  then have "map l_resource_key rows' = map l_resource_key rows" by (simp add: map_update_where)
  with give_up assms(2) show ?thesis by (auto simp: leases_ok_def set_update_where)
qed simp

text \<open>One step: the fence of a resource does not fall; while it stays, so does the owner; and as
  long as the lease is active it stays.\<close>

lemma lease_step_fence:
  assumes "lease_step t rows rows'" "find_lease j rows = Some x"
  shows "\<exists>y. find_lease j rows' = Some y \<and> l_fence x \<le> l_fence y \<and>
     (l_fence y = l_fence x \<longrightarrow> lease_owner y = lease_owner x) \<and> (lease_active t x \<longrightarrow> l_fence y = l_fence x)"
  using assms
proof cases
  case (takeover k l f)
  then show ?thesis
    using assms(2) find_lease_SomeD [OF assms(2)] by (cases "j = k") (auto simp: find_lease_update)
next
  case (grant new)
  then show ?thesis using assms(2) by (simp add: find_lease_snoc)
next
  case (extend k l n e)
  then show ?thesis using assms(2) by (auto simp: find_lease_update lease_owner_def)
next
  case (give_up k l n)
  then show ?thesis using assms(2) by (auto simp: find_lease_update lease_owner_def)
qed (use assms(2) in simp)

section \<open>Services on a lease table\<close>

text \<open>A service whose commands, executed at some time, only make steps of the contract.\<close>

locale fenced_leases =
  fixes exec :: "'c \<Rightarrow> int \<Rightarrow> lease_row list \<Rightarrow> lease_row list \<Rightarrow> bool"
  assumes exec_step: "exec c t rows rows' \<Longrightarrow> lease_step t rows rows'"
begin

inductive history :: "lease_row list \<Rightarrow> lease_row list \<Rightarrow> bool" where
  hist_none: "history rows rows"
| hist_more: "history rows rows' \<Longrightarrow> exec c t rows' rows'' \<Longrightarrow> history rows rows''"

lemma history_ok: "history rows rows' \<Longrightarrow> leases_ok rows \<Longrightarrow> leases_ok rows'"
  by (induction rule: history.induct) (auto dest: exec_step lease_step_ok)

lemma history_fence:
  assumes "history rows rows'" "find_lease j rows = Some x"
  shows "\<exists>y. find_lease j rows' = Some y \<and> l_fence x \<le> l_fence y \<and> (l_fence y = l_fence x \<longrightarrow> lease_owner y = lease_owner x)"
  using assms
proof (induction rule: history.induct)
  case (hist_more rows rows' c t rows'')
  then obtain y where y: "find_lease j rows' = Some y" "l_fence x \<le> l_fence y"
    "l_fence y = l_fence x \<longrightarrow> lease_owner y = lease_owner x" by blast
  from lease_step_fence [OF exec_step [OF hist_more.hyps(2)] y(1)] y show ?case by fastforce
qed simp

text \<open>One fence, one owner: a resource never has the same fence for two owners, whatever happens
  in between.\<close>

lemma fence_identifies_owner:
  assumes "history rows rows'" "find_lease j rows = Some x" "find_lease j rows' = Some y" "l_fence x = l_fence y"
  shows "lease_owner x = lease_owner y"
  using history_fence [OF assms(1, 2)] assms(3, 4) by auto

text \<open>A fence that has been passed never matches again.\<close>

lemma stale_fence:
  assumes "history rows rows'" "find_lease j rows = Some x" "n < l_fence x"
  shows "\<exists>y. find_lease j rows' = Some y \<and> l_fence y \<noteq> n"
  using history_fence [OF assms(1, 2)] assms(3) by force

text \<open>While a lease is active no command changes its owner.\<close>

lemma active_kept:
  assumes "exec c t rows rows'" "find_lease j rows = Some x" "lease_active t x"
  shows "\<exists>y. find_lease j rows' = Some y \<and> lease_owner y = lease_owner x \<and> l_fence y = l_fence x"
  using lease_step_fence [OF exec_step [OF assms(1)] assms(2)] assms(3) by auto

end

section \<open>LeaseManager\<close>

lemma append_audit_Inr:
  "append_audit env pv k task h n ty e db = Inr db' \<Longrightarrow>
     \<exists>ev. db' = db\<lparr>events := events db @ [ev], uuid_next := Suc (Suc (uuid_next db))\<rparr>"
  by (auto simp: append_audit_def draw_uuid_def Let_def bindr_eq_Inr dest!: append_event_frame)

lemma require_match_Inr:
  "require_match env row p t h n a = Inr l \<longleftrightarrow>
     row = Some l \<and> l_project_id l = p \<and> l_task_id l = t \<and> l_holder l = h \<and> l_fence l = n \<and> (a \<longrightarrow> lease_active (now env) l)"
  by (auto simp: require_match_def bindr_eq_Inr split: if_splits)

lemma holder_id_Inr:
  assumes "holder_id env holder db = Inr h"
  shows "\<exists>pr. verify_session env None holder db = Inr pr \<and> pr_principal_id pr = h \<and>
     (WORKER \<in> set (pr_roles pr) \<or> SYSTEM \<in> set (pr_roles pr))"
  using assms by (auto simp: holder_id_def bindr_eq_Inr split: if_splits)

datatype lease_cmd =
    Acquire string string string "auth_session option" int
  | Renew string string string "auth_session option" int int
  | Release string string string "auth_session option" int

fun run_lease_cmd :: "env \<Rightarrow> string \<Rightarrow> lease_cmd \<Rightarrow> db \<Rightarrow> ((lease_row \<times> bool) \<times> db) res" where
  "run_lease_cmd env pv (Acquire k p t h ttl) db = acquire env pv k p t h ttl db"
| "run_lease_cmd env pv (Renew k p t h n ttl) db = renew env pv k p t h n ttl db"
| "run_lease_cmd env pv (Release k p t h n) db = release env pv k p t h n db"

definition exec_lease :: "lease_cmd \<Rightarrow> int \<Rightarrow> lease_row list \<Rightarrow> lease_row list \<Rightarrow> bool" where
  "exec_lease c t rows rows' \<longleftrightarrow> (\<exists>env pv db r db'. now env = t \<and> leases db = rows \<and> leases db' = rows' \<and>
     run_lease_cmd env pv c db = Inr (r, db'))"

lemma acquire_cases:
  assumes "acquire env pv key p t h ttl db = Inr ((l, replayed), db')"
  shows "\<exists>hid. holder_id env h db = Inr hid \<and> lease_owner l = (strip p, strip t, hid) \<and>
     find_lease (strip key) (leases db') = Some l \<and> lease_active (now env) l \<and>
     (if replayed then db' = db \<and> find_lease (strip key) (leases db) = Some l
      else l_fence l = fence_at (strip key) (leases db) + 1 \<and>
        (\<forall>x. find_lease (strip key) (leases db) = Some x \<longrightarrow> \<not> lease_active (now env) x) \<and>
        (\<forall>j. j \<noteq> strip key \<longrightarrow> find_lease j (leases db') = find_lease j (leases db)))"
proof -
  from assms obtain hid task where hid: "holder_id env h db = Inr hid"
    and ttl: "1 \<le> ttl"
    and rest: "(let row = find_lease (strip key) (leases db) in
     if (case row of None \<Rightarrow> False | Some l \<Rightarrow> lease_active (now env) l) then
       bindr (require row (LeaseError ''resource is already leased'')) (\<lambda>l.
       if l_project_id l = strip p \<and> l_task_id l = strip t \<and> l_holder l = hid then Inr ((l, True), db)
       else Inl (LeaseError ''resource is already leased''))
     else
       let rows = (if row = None then leases db @ [new_lease env (strip key) (strip p) (strip t) hid 1 ttl]
                   else update_where (\<lambda>l. l_resource_key l = strip key) (take_over env (strip p) (strip t) hid ttl) (leases db));
           db1 = db\<lparr>leases := rows\<rparr> in
       bindr (require (find_lease (strip key) rows) (PyTypeError ''NoneType'')) (\<lambda>acquired.
       bindr (append_audit env pv (strip key) task hid (l_fence acquired)
                (if row = None then ''lease_acquired'' else ''lease_taken_over'') (l_expires_at acquired) db1) (\<lambda>db2.
         Inr ((acquired, False), db2)))) = Inr ((l, replayed), db')"
    by (auto simp: acquire_def lease_text_def positive_int_def bindr_eq_Inr simp del: bindr_Inr split: if_split_asm)
  have pos: "0 < seconds ttl" using ttl by (simp add: seconds_def)
  show ?thesis
  proof (cases "find_lease (strip key) (leases db)")
    case None
    with rest hid pos show ?thesis
      by (auto simp: Let_def bindr_eq_Inr new_lease_def lease_owner_def lease_active_def fence_at_def find_lease_snoc
          dest!: append_audit_Inr split: option.splits)
  next
    case (Some x)
    have other: "map_option (\<lambda>x. if l_resource_key x = strip key then f x else x) (find_lease j (leases db)) = find_lease j (leases db)"
      if "j \<noteq> strip key" for j f
      using that by (cases "find_lease j (leases db)") (auto dest: find_lease_SomeD)
    from Some rest hid pos find_lease_SomeD [OF Some] show ?thesis
      by (auto simp: Let_def bindr_eq_Inr take_over_def lease_owner_def lease_active_def fence_at_def find_lease_update other
          dest!: append_audit_Inr split: if_split_asm)
  qed
qed

lemma run_lease_cmd_step:
  assumes "run_lease_cmd env pv c db = Inr (r, db')"
  shows "lease_step (now env) (leases db) (leases db')"
proof (cases c)
  case (Acquire k p t h ttl)
  show ?thesis
  proof (cases "find_lease (strip k) (leases db)")
    case None
    then have "\<And>l. l \<in> set (leases db) \<Longrightarrow> l_resource_key l \<noteq> strip k"
      by (auto simp: find_lease_def)
    with None assms Acquire show ?thesis
      by (auto simp: acquire_def lease_text_def positive_int_def bindr_eq_Inr Let_def new_lease_def
          dest!: append_audit_Inr split: if_splits intro!: grant keep)
  next
    case (Some l)
    show ?thesis
    proof (cases "lease_active (now env) l")
      case True
      with Some assms Acquire show ?thesis
        by (auto simp: acquire_def lease_text_def bindr_eq_Inr Let_def split: if_splits intro: keep)
    next
      case False
      with Some assms Acquire obtain hid where
        "leases db' = update_where (\<lambda>l. l_resource_key l = strip k) (take_over env (strip p) (strip t) hid ttl) (leases db)"
        by (auto simp: acquire_def lease_text_def positive_int_def bindr_eq_Inr Let_def dest!: append_audit_Inr split: if_split_asm)
      moreover have "lease_step (now env) (leases db)
          (update_where (\<lambda>l. l_resource_key l = strip k) (take_over env (strip p) (strip t) hid ttl) (leases db))"
        by (rule takeover [OF Some False]) (simp_all add: take_over_def)
      ultimately show ?thesis by simp
    qed
  qed
next
  case (Renew k p t h n ttl)
  then obtain l e where r: "find_lease (strip k) (leases db) = Some l" "lease_active (now env) l" "l_fence l = n"
    "leases db' = update_where (\<lambda>x. l_resource_key x = strip k \<and> l_fence x = n) (\<lambda>x. x\<lparr>l_expires_at := e\<rparr>) (leases db)"
    using assms
    by (auto simp: renew_def lease_text_def positive_int_def bindr_eq_Inr Let_def require_match_Inr
        dest!: append_audit_Inr split: if_splits)
  show ?thesis unfolding r(4) by (rule extend [OF r(1-3)])
next
  case (Release k p t h n)
  from assms Release obtain l where l: "find_lease (strip k) (leases db) = Some l" "l_fence l = n"
    and cases: "leases db' = leases db \<or> lease_active (now env) l \<and>
      leases db' = update_where (\<lambda>x. l_resource_key x = strip k \<and> l_fence x = n) (\<lambda>x. x\<lparr>l_released_at := Some (now env)\<rparr>) (leases db)"
    by (auto simp: release_def lease_text_def positive_int_def bindr_eq_Inr Let_def require_match_Inr
        dest!: append_audit_Inr split: if_splits)
  from cases show ?thesis
  proof
    assume "leases db' = leases db"
    then show ?thesis by (simp add: keep)
  next
    assume "lease_active (now env) l \<and>
      leases db' = update_where (\<lambda>x. l_resource_key x = strip k \<and> l_fence x = n) (\<lambda>x. x\<lparr>l_released_at := Some (now env)\<rparr>) (leases db)"
    then show ?thesis using give_up [OF l(1) _ l(2)] by simp
  qed
qed

interpretation manager: fenced_leases exec_lease
proof
  fix c t rows rows'
  assume "exec_lease c t rows rows'"
  then show "lease_step t rows rows'" unfolding exec_lease_def using run_lease_cmd_step by blast
qed

text \<open>A granted lease is exclusive and fenced: when \<open>acquire\<close> returns a fresh lease, the
  resource had no active lease, the fence is one above the last one, the lease is active and held
  by the caller's own verified identity, and no other resource changed; a replay changes nothing
  and returns the caller's own active lease.\<close>

theorem acquire_exclusive:
  assumes "acquire env pv key p t h ttl db = Inr ((l, replayed), db')"
  shows "(\<exists>pr. verify_session env None h db = Inr pr \<and> l_holder l = pr_principal_id pr \<and>
            (WORKER \<in> set (pr_roles pr) \<or> SYSTEM \<in> set (pr_roles pr))) \<and>
     find_lease (strip key) (leases db') = Some l \<and> lease_active (now env) l \<and>
     (replayed \<longrightarrow> db' = db) \<and>
     (\<not> replayed \<longrightarrow> l_fence l = fence_at (strip key) (leases db) + 1 \<and>
        (\<forall>x. find_lease (strip key) (leases db) = Some x \<longrightarrow> \<not> lease_active (now env) x) \<and>
        (\<forall>j. j \<noteq> strip key \<longrightarrow> find_lease j (leases db') = find_lease j (leases db)))"
  using acquire_cases [OF assms] by (auto simp: lease_owner_def dest: holder_id_Inr)

definition stale :: "'a res \<Rightarrow> bool" where
  "stale r \<longleftrightarrow> (\<exists>m. r = Inl (LeaseError m))"

lemma stale_simp [simp]: "stale (Inl (LeaseError m))" "\<not> stale (Inr x)"
  by (simp_all add: stale_def)

text \<open>A fence that was passed is dead for good: once the fence of a resource is above \<open>n\<close>,
  then after any history of lease commands, at any later times and by any callers, renewing,
  releasing or presenting the lease under fence \<open>n\<close> fails with \<open>LeaseError\<close> for every
  authenticated worker or system principal.\<close>

theorem stale_fence_rejected:
  assumes "manager.history (leases db) (leases db')" "n < fence_at (strip key) (leases db)"
    and "non_blank key" "non_blank p" "non_blank t" "holder_id env h db' = Inr hid"
  shows "stale (renew env pv key p t h n ttl db') \<and> stale (release env pv key p t h n db') \<and>
     stale (require_current_fence env key p t h n active db')"
proof (cases "find_lease (strip key) (leases db)")
  case None
  with assms(2-6) show ?thesis
    by (simp add: renew_def release_def require_current_fence_def lease_text_def text_field_def positive_int_def fence_at_def)
next
  case (Some x)
  with assms(2) have "n < l_fence x" by (simp add: fence_at_def)
  from manager.stale_fence [OF assms(1) Some this] obtain y where
    "find_lease (strip key) (leases db') = Some y" "l_fence y \<noteq> n" by blast
  with assms(3-6) show ?thesis
    by (simp add: renew_def release_def require_current_fence_def lease_text_def text_field_def positive_int_def
        require_match_def)
qed


section \<open>Instances\<close>

definition sample_task_row :: "task_state \<Rightarrow> int \<Rightarrow> task_row" where
  "sample_task_row s v = \<lparr>t_task_id = ''t1'', t_goal_id = ''g1'', t_run_id = Some ''r1'', t_project_id = ''p1'',
     t_state = s, t_spec = JObj (task_to_dict sample_task), t_version = v, t_attempt_count = 0, t_due_at = None,
     t_last_error = None, t_created_at = 0, t_updated_at = 0\<rparr>"

definition lease_db :: db where
  "lease_db = sample_db\<lparr>tasks := [sample_task_row TS_READY 0]\<rparr>"

lemmas lease_eval = lease_text_def text_field_def positive_int_def holder_id_def assert_task_scope_def
  find_lease_def require_match_def new_lease_def take_over_def lease_active_def append_audit_def draw_uuid_def
  event_defaults_def correlation_def seconds_def

lemma sample_strip [simp]:
  "strip ''task://t1'' = ''task://t1''" "strip ''p1'' = ''p1''" "strip ''t1'' = ''t1''" "strip ''r1'' = ''r1''"
  "non_blank ''task://t1''" "non_blank ''p1''" "non_blank ''t1''" "non_blank ''r1''"
  by (simp_all add: strip_def lstrip_def is_space_def non_blank_def)

lemma sample_acquire:
  "\<exists>l db. acquire (sample_env 5) ''v1'' ''task://t1'' ''p1'' ''t1'' (Some (sample_session ''will'')) 60 lease_db = Inr ((l, False), db)"
  by (simp add: acquire_def lease_eval identity_eval lease_db_def sample_task_row_def sample_eval store_eval Let_def cong: bind_eval)

lemma acquire_exclusive_witness:
  "\<exists>l db. acquire (sample_env 5) ''v1'' ''task://t1'' ''p1'' ''t1'' (Some (sample_session ''will'')) 60 lease_db = Inr ((l, False), db) \<and>
     find_lease ''task://t1'' (leases db) = Some l \<and> l_fence l = 1"
proof -
  obtain l db where a: "acquire (sample_env 5) ''v1'' ''task://t1'' ''p1'' ''t1'' (Some (sample_session ''will'')) 60 lease_db = Inr ((l, False), db)"
    using sample_acquire by blast
  from acquire_exclusive [OF a] a show ?thesis
    by (simp add: fence_at_def find_lease_def lease_db_def sample_db_def empty_db_def)
qed

definition old_lease :: lease_row where
  "old_lease = new_lease (sample_env 5) ''task://t1'' ''p1'' ''t1'' ''will'' 3 60"

lemma stale_fence_rejected_witness:
  "stale (renew (sample_env 9) ''v1'' ''task://t1'' ''p1'' ''t1'' (Some (sample_session ''will'')) 2 60
     (sample_db\<lparr>leases := [old_lease]\<rparr>))"
proof -
  let ?db = "sample_db\<lparr>leases := [old_lease]\<rparr>"
  have "holder_id (sample_env 9) (Some (sample_session ''will'')) ?db = Inr ''will''"
    by (simp add: lease_eval identity_eval sample_eval Let_def cong: bind_eval)
  moreover have "2 < fence_at (strip ''task://t1'') (leases ?db)"
    by (simp add: fence_at_def find_lease_def old_lease_def new_lease_def)
  ultimately show ?thesis
    using stale_fence_rejected [of ?db ?db 2 "''task://t1''" "''p1''" "''t1''" "sample_env 9" "Some (sample_session ''will'')" "''will''" "''v1''" 60]
    by (simp add: manager.hist_none)
qed


end
