(* ===== verification/Policy.thy ===== *)
theory Policy
  imports Authority_Compiler Leases
begin

text \<open>
  \<open>policy.py\<close>: approvals, capability grants and their consumption.  An approval is one owner's
  decision on one exact request (capability, action, resource, digest) of one Task; a grant is
  issued on a live approval and bounds uses and cost; consumption checks the live state again,
  counts the use and is idempotent per key.  The locale \<open>budgeted\<close> is the accounting contract of
  a grant table, interpreted on the operations of \<open>PolicyEngine\<close>.
\<close>

section \<open>Parameters\<close>

definition policy_text :: "string \<Rightarrow> string res" where
  "policy_text = text_field AuthorizationError"

definition policy_digest :: "string \<Rightarrow> string res" where
  "policy_digest v = bindr (policy_text v) (\<lambda>s.
     if hex_digest (lower s) then Inr (lower s)
     else Inl (AuthorizationError ''request_digest must be a lowercase SHA-256 hex digest''))"

definition policy_positive :: "int \<Rightarrow> int res" where
  "policy_positive v = (if v < 1 then Inl (AuthorizationError ''must be a positive integer'') else Inr v)"

definition policy_cost :: "int \<Rightarrow> int res" where
  "policy_cost v = (if v < 0 then Inl (AuthorizationError ''must be a non-negative minor-unit integer'') else Inr v)"

definition policy_capability :: "string \<Rightarrow> capability res" where
  "policy_capability v = require (List.find (\<lambda>c. capability_value c = v) all_capabilities)
     (AuthorizationError ''unsupported capability'')"

definition policy_fence :: "int option \<Rightarrow> int option res" where
  "policy_fence v = (case v of None \<Rightarrow> Inr None | Some f \<Rightarrow> bindr (policy_positive f) (\<lambda>f. Inr (Some f)))"

text \<open>\<open>except (ContractError, TypeError, ValueError)\<close> that raises \<open>AuthorizationError\<close>.\<close>

fun to_authorization :: "error \<Rightarrow> error" where
  "to_authorization (ContractError m) = AuthorizationError m"
| "to_authorization (PyTypeError m) = AuthorizationError m"
| "to_authorization (ValueError m) = AuthorizationError m"
| "to_authorization e = e"

section \<open>The stored authority of a Task\<close>

fun decoded_object :: "json \<Rightarrow> (string \<times> json) list res" where
  "decoded_object (JObj d) = Inr d"
| "decoded_object v = Inl (PyTypeError ''not a mapping'')"

definition source_event_matches :: "env \<Rightarrow> string \<Rightarrow> task_binding_row \<Rightarrow> task_authority \<Rightarrow> event_row option \<Rightarrow> bool" where
  "source_event_matches env task_id binding authority source_event =
     (let text = canonical_json (JObj (task_authority_to_dict authority)) in
      case source_event of None \<Rightarrow> False | Some e \<Rightarrow>
        e_aggregate_type e = ''task_authority'' \<and> e_aggregate_id e = task_id \<and>
        e_project_id e = tb_project_id binding \<and> e_task_id e = Some task_id \<and>
        e_event_type e = ''task_authority_bound'' \<and> payload_text e = text \<and>
        e_payload_digest e = content_hash (sha256 env) (JStr text) \<and> canonical_json (tb_authority binding) = text)"

definition binding_matches :: "env \<Rightarrow> string \<Rightarrow> task_row \<Rightarrow> task_binding_row \<Rightarrow> task_authority \<Rightarrow> bool" where
  "binding_matches env task_id task binding authority \<longleftrightarrow>
     ts_task_id (ta_task_spec authority) = task_id \<and> ts_goal_id (ta_task_spec authority) = t_goal_id task \<and>
     ar_object_id (ta_project_ref authority) = t_project_id task \<and> ar_object_id (ta_goal_ref authority) = t_goal_id task \<and>
     content_hash (sha256 env) (JObj (task_authority_to_dict authority)) = tb_authority_digest binding \<and>
     tb_provider_budget_minor_units binding = ta_provider_budget_minor_units authority \<and>
     tb_provider_call_limit binding = ta_provider_call_limit authority \<and>
     json_eq (tb_required_decision_gates binding)
       (JList (map (\<lambda>c. JObj (gate_to_dict c)) (ta_decision_gate_contracts authority)))"

definition load_parents :: "adopted_project_row \<Rightarrow> adopted_program_row \<Rightarrow> goal_binding_row \<Rightarrow>
    (project_spec \<times> program_spec \<times> goal_authority) res" where
  "load_parents pr pg gb =
     bindr (bindr (decoded_object (apj_spec pr)) project_from_dict) (\<lambda>project.
     bindr (bindr (decoded_object (apg_spec pg)) program_from_dict) (\<lambda>program.
     bindr (bindr (decoded_object (gb_authority gb)) goal_authority_from_dict) (\<lambda>goal.
       Inr (project, program, goal))))"

definition validated_task_authority_binding ::
    "env \<Rightarrow> db \<Rightarrow> string \<Rightarrow> (task_authority \<times> task_binding_row) option res" where
  "validated_task_authority_binding env db task_id =
     bindr (require (fetch_one (\<lambda>t. t_task_id t = task_id) (tasks db)) (AuthorizationError ''task does not exist'')) (\<lambda>task.
     case fetch_one (\<lambda>b. tb_task_id b = task_id) (task_bindings db) of
       None \<Rightarrow>
         if exists_row (\<lambda>p. apj_project_id p = t_project_id task) (adopted_projects db)
         then Inl (AuthorizationError ''adopted Task authority binding is missing'')
         else Inr None
     | Some binding \<Rightarrow>
         bindr (except_map to_authorization (bindr (decoded_object (tb_authority binding)) task_authority_from_dict)) (\<lambda>authority.
         if \<not> source_event_matches env task_id binding authority
               (fetch_one (\<lambda>e. e_event_id e = tb_source_event_id binding) (events db))
         then Inl (AuthorizationError ''persisted Task authority source event mismatch'')
         else if \<not> binding_matches env task_id task binding authority
         then Inl (AuthorizationError ''persisted Task authority binding mismatch'')
         else
         bindr (require (fetch_one (\<lambda>p. apj_project_id p = t_project_id task) (adopted_projects db))
                  (AuthorizationError ''persisted Task authority parent binding is missing'')) (\<lambda>project_row.
         bindr (require (fetch_one (\<lambda>p. apg_program_id p = tb_program_id binding \<and> apg_project_id p = t_project_id task)
                   (adopted_programs db))
                  (AuthorizationError ''persisted Task authority parent binding is missing'')) (\<lambda>program_row.
         bindr (require (fetch_one (\<lambda>g. gb_goal_id g = t_goal_id task \<and> gb_project_id g = t_project_id task) (goal_bindings db))
                  (AuthorizationError ''persisted Task authority parent binding is missing'')) (\<lambda>goal_row.
         bindr (except_map to_authorization (load_parents project_row program_row goal_row)) (\<lambda>(project, program, goal).
         if ta_project_ref authority \<noteq> project_reference (sha256 env) project \<or>
            ta_program_ref authority \<noteq> program_reference (sha256 env) program \<or>
            ta_goal_ref authority \<noteq> goal_reference (sha256 env) goal \<or>
            content_hash (sha256 env) (JObj (goal_authority_to_dict goal)) \<noteq> gb_authority_digest goal_row
         then Inl (AuthorizationError ''persisted Task authority parent reference is stale'')
         else Inr (Some (authority, binding)))))))) "

section \<open>Decision gates of a request\<close>

type_synonym request = "capability \<times> string \<times> string \<times> string"

definition gate_request :: "gate_contract \<Rightarrow> request" where
  "gate_request c = (gc_capability c, gc_action c, gc_resource c, gc_request_digest c)"

text \<open>\<open>except AuthorizationError\<close>.\<close>

definition on_authorization_error :: "'a \<Rightarrow> 'a res \<Rightarrow> 'a res" where
  "on_authorization_error d m = (case m of Inl (AuthorizationError e) \<Rightarrow> Inr d | r \<Rightarrow> r)"

definition gate_approved :: "env \<Rightarrow> db \<Rightarrow> string \<Rightarrow> task_authority \<Rightarrow> task_binding_row \<Rightarrow> string \<Rightarrow> request \<Rightarrow> bool" where
  "gate_approved env db task_id authority binding gate req \<longleftrightarrow>
     exists_row (\<lambda>a. ap_task_id a = task_id \<and> ap_project_id a = tb_project_id binding \<and> ap_decision_gate a = Some gate \<and>
       ap_binding_digest a = Some (tb_authority_digest binding) \<and> ap_binding_version a = Some (ta_version authority) \<and>
       (ap_capability a, ap_action a, ap_resource a, ap_request_digest a) = req \<and> ap_decision a = ''approved'' \<and>
       (case ap_expires_at a of None \<Rightarrow> False | Some t \<Rightarrow> now env < t)) (approvals db)"

definition gate_satisfied ::
    "env \<Rightarrow> db \<Rightarrow> string \<Rightarrow> request option \<Rightarrow> task_authority \<Rightarrow> task_binding_row \<Rightarrow> string \<Rightarrow> bool" where
  "gate_satisfied env db task_id exact_request authority binding gate =
     (case map_of (rev (map (\<lambda>c. (gc_gate_id c, c)) (ta_decision_gate_contracts authority))) gate of
        None \<Rightarrow> False
      | Some c \<Rightarrow> (exact_request = None \<or> exact_request = Some (gate_request c)) \<and>
                 gate_approved env db task_id authority binding gate (gate_request c))"

definition required_decision_gates_satisfied ::
    "env \<Rightarrow> db \<Rightarrow> string \<Rightarrow> string list option \<Rightarrow> request option \<Rightarrow> bool res" where
  "required_decision_gates_satisfied env db task_id required_gates exact_request =
     (case validated_task_authority_binding env db task_id of
        Inl (AuthorizationError m) \<Rightarrow> Inr False
      | Inl e \<Rightarrow> Inl e
      | Inr None \<Rightarrow> Inr True
      | Inr (Some (authority, binding)) \<Rightarrow>
          Inr (\<forall>gate \<in> set (case required_gates of Some gs \<Rightarrow> gs
                          | None \<Rightarrow> map gc_gate_id (ta_decision_gate_contracts authority)).
            gate_satisfied env db task_id exact_request authority binding gate))"

definition decision_gates_for_request :: "env \<Rightarrow> db \<Rightarrow> string \<Rightarrow> capability \<Rightarrow> string \<Rightarrow> string \<Rightarrow> string list res" where
  "decision_gates_for_request env db task_id capability action resource =
     on_authorization_error [] (bindr (validated_task_authority_binding env db task_id) (\<lambda>validated.
       Inr (case validated of
              None \<Rightarrow> []
            | Some (authority, _) \<Rightarrow>
                map gc_gate_id (filter (\<lambda>c. (gc_capability c, gc_action c, gc_resource c) = (capability, action, resource))
                  (ta_decision_gate_contracts authority)))))"

section \<open>Capabilities, actions and roles\<close>

definition network_read :: "string \<Rightarrow> bool" where
  "network_read a \<longleftrightarrow> (a \<in> set [''download'', ''fetch'', ''get'', ''head'', ''inspect'', ''list'', ''probe'', ''query'', ''read''])"

definition network_write :: "string \<Rightarrow> bool" where
  "network_write a \<longleftrightarrow> (a \<in> set [''call'', ''connect'', ''invoke'', ''patch'', ''post'', ''publish'', ''put'', ''send'', ''upload'', ''write''])"

text \<open>\<open>Some True\<close> is the read scope of the Task, \<open>Some False\<close> its write scope.\<close>

fun capability_scope_kind :: "capability \<Rightarrow> bool option" where
  "capability_scope_kind READ_LOCAL = Some True"
| "capability_scope_kind EXTERNAL_DOWNLOAD = Some True"
| "capability_scope_kind SERVER_READ = Some True"
| "capability_scope_kind NETWORK = None"
| "capability_scope_kind c = Some False"

fun capability_actions :: "capability \<Rightarrow> string list" where
  "capability_actions READ_LOCAL = [''exists'', ''hash'', ''inspect'', ''list'', ''read'', ''stat'']"
| "capability_actions WRITE_LOCAL = [''copy'', ''create'', ''format'', ''mkdir'', ''patch'', ''synthetic_write'', ''update'', ''write'']"
| "capability_actions EXTERNAL_DOWNLOAD = [''download'', ''fetch'', ''get'', ''head'']"
| "capability_actions REPO_REMOTE = [''merge'', ''open_pr'', ''push'', ''update_pr'']"
| "capability_actions SERVER_READ = [''inspect'', ''list'', ''logs'', ''probe'', ''query'', ''read'', ''status'']"
| "capability_actions SERVER_WRITE = [''configure'', ''deploy'', ''reload'', ''restart'', ''start'', ''stop'', ''upload'', ''write'']"
| "capability_actions PROVIDER_COST = [''call'', ''embed'', ''generate'', ''invoke'', ''synthesize'', ''transcribe'']"
| "capability_actions PUBLIC_RELEASE = [''publish'', ''release'']"
| "capability_actions DESTRUCTIVE = [''delete'', ''drop'', ''purge'', ''remove'', ''truncate'']"
| "capability_actions DURABLE_MEMORY_PROMOTION = [''promote_memory'']"
| "capability_actions ACTIVE_RULE_PROMOTION = [''promote_improvement:active'', ''promote_improvement:limited'']"
| "capability_actions CONTROL_RESUME = [''resume'', ''resume_run'', ''resume_task'']"
| "capability_actions NETWORK = []"

definition read_kind :: "capability \<Rightarrow> string \<Rightarrow> bool res" where
  "read_kind capability action =
     (if action \<noteq> lower (strip action) then Inl (AuthorizationError ''action must use its canonical lowercase spelling'')
      else if capability = NETWORK then
        if network_read action then Inr True else if network_write action then Inr False
        else Inl (AuthorizationError ''network action has no fail-closed scope mapping'')
      else
      bindr (require (capability_scope_kind capability)
               (AuthorizationError ''capability has no fail-closed scope mapping'')) (\<lambda>read.
        if action \<notin> set (capability_actions capability) then Inl (AuthorizationError ''action is not allowed for capability'')
        else Inr read))"

fun execution_roles :: "capability \<Rightarrow> role list" where
  "execution_roles REPO_REMOTE = [WORKER, RELEASE, SYSTEM]"
| "execution_roles SERVER_WRITE = [WORKER, RELEASE, SYSTEM]"
| "execution_roles PUBLIC_RELEASE = [RELEASE, SYSTEM]"
| "execution_roles DESTRUCTIVE = [WORKER, OWNER, SYSTEM]"
| "execution_roles DURABLE_MEMORY_PROMOTION = [OWNER, SYSTEM]"
| "execution_roles ACTIVE_RULE_PROMOTION = [OWNER, SYSTEM]"
| "execution_roles CONTROL_RESUME = [OWNER, SYSTEM]"
| "execution_roles c = [WORKER, SYSTEM]"

definition assert_execution_role :: "role list \<Rightarrow> capability \<Rightarrow> unit res" where
  "assert_execution_role roles capability =
     ensure (set roles \<inter> set (execution_roles capability) \<noteq> {}) (AuthorizationError ''principal lacks an execution role'')"

definition typed_resource_scheme :: "capability \<Rightarrow> string option" where
  "typed_resource_scheme c = map_of
     [(PROVIDER_COST, ''provider://''), (REPO_REMOTE, ''repo://''), (PUBLIC_RELEASE, ''release://'')] c"

section \<open>The Task behind a request\<close>

type_synonym task_scope = "task_row \<times> goal_row \<times> run_row"

definition find_task_scope :: "string \<Rightarrow> string \<Rightarrow> string \<Rightarrow> string \<Rightarrow> db \<Rightarrow> task_scope res" where
  "find_task_scope project_id goal_id run_id task_id db =
     bindr (require (fetch_one (\<lambda>t. t_task_id t = task_id \<and> t_project_id t = project_id \<and> t_goal_id t = goal_id \<and>
               t_run_id t = Some run_id) (tasks db)) (AuthorizationError ''task scope does not exist'')) (\<lambda>t.
     bindr (require (fetch_one (\<lambda>g. g_goal_id g = goal_id \<and> g_project_id g = project_id) (goals db))
              (AuthorizationError ''task scope does not exist'')) (\<lambda>g.
     bindr (require (fetch_one (\<lambda>r. r_run_id r = run_id \<and> r_project_id r = project_id \<and> r_goal_id r = goal_id) (runs db))
              (AuthorizationError ''task scope does not exist'')) (\<lambda>r.
       Inr (t, g, r))))"

datatype phase = Approval | Grant | Consume

definition integration_capabilities :: "capability list" where
  "integration_capabilities = [REPO_REMOTE, SERVER_READ, SERVER_WRITE, PUBLIC_RELEASE, DESTRUCTIVE]"

definition promotion_capabilities :: "capability list" where
  "promotion_capabilities = [DURABLE_MEMORY_PROMOTION, ACTIVE_RULE_PROMOTION]"

definition integration_run_states :: "loop_state list" where
  "integration_run_states = [LS_READY, LS_RUNNING, LS_EVIDENCE_PENDING, LS_INTEGRATION_PENDING, LS_CI_PENDING,
     LS_DEPLOY_DIR_UPDATED, LS_RUNTIME_STALE, LS_RUNTIME_CHECK_PENDING, LS_RUNTIME_FRESH]"

definition integration_task_states :: "task_state list" where
  "integration_task_states = [TS_READY, TS_LEASED, TS_RUNNING, TS_EVIDENCE_PENDING, TS_EVALUATOR_PENDING, TS_INTEGRATION_PENDING]"

definition allowed_run_states :: "capability \<Rightarrow> phase \<Rightarrow> loop_state list" where
  "allowed_run_states c phase =
     (if c \<in> set integration_capabilities
      then if phase = Consume then removeAll LS_READY integration_run_states else integration_run_states
      else if phase = Consume then [LS_RUNNING] else [LS_READY, LS_RUNNING])"

definition allowed_task_states :: "capability \<Rightarrow> phase \<Rightarrow> task_state list" where
  "allowed_task_states c phase =
     (if c \<in> set integration_capabilities
      then if phase = Consume then removeAll TS_READY (removeAll TS_LEASED integration_task_states) else integration_task_states
      else if phase = Consume then [TS_RUNNING] else [TS_READY, TS_LEASED, TS_RUNNING])"

definition assert_task_lifecycle :: "task_scope \<Rightarrow> capability \<Rightarrow> phase \<Rightarrow> unit res" where
  "assert_task_lifecycle scope capability phase = (case scope of (t, g, r) \<Rightarrow>
     if capability \<in> set promotion_capabilities then
       if phase \<noteq> Approval then Inl (AuthorizationError ''memory/rule promotion is not an executable capability grant'')
       else ensure (t_state t \<notin> set [TS_CANCELED, TS_DELETED, TS_RETIRED])
              (AuthorizationError ''canceled/deleted/retired task cannot authorize promotion'')
     else if capability = CONTROL_RESUME then
       if r_loop_state r \<notin> set [LS_SUSPENDED, LS_BLOCKED_CAPABILITY, LS_BLOCKED_DECISION, LS_BLOCKED_MISSING_STATE]
       then Inl (AuthorizationError ''control_resume requires a suspended/blocked run'')
       else ensure (t_state t \<notin> set [TS_DELIVERED, TS_CANCELED, TS_DELETED, TS_RETIRED])
              (AuthorizationError ''terminal task is sealed against authorization'')
     else if r_loop_state r \<notin> set (allowed_run_states capability phase)
     then Inl (AuthorizationError ''run is sealed or not executable for authorization'')
     else ensure (t_state t \<in> set (allowed_task_states capability phase))
            (AuthorizationError ''task is sealed or not executable for authorization''))"

definition assert_task_authority :: "task_scope \<Rightarrow> capability \<Rightarrow> string \<Rightarrow> string \<Rightarrow> unit res" where
  "assert_task_authority scope capability action resource = (case scope of (t, g, r) \<Rightarrow>
     except_map to_authorization (
       bindr (load_task_spec (t_spec t)) (\<lambda>spec.
       bindr (load_goal_spec (g_spec g)) (\<lambda>goal.
       bindr (validate_task_within_goal goal spec) (\<lambda>_.
       if capability \<notin> set (ts_capabilities spec)
       then Inl (AuthorizationError ''task contract does not allow capability'')
       else
       bindr (read_kind capability action) (\<lambda>read.
       if (case typed_resource_scheme capability of None \<Rightarrow> False | Some scheme \<Rightarrow> \<not> startswith (lower resource) scheme)
       then Inl (AuthorizationError ''capability requires a typed resource'')
       else
       bindr (foldm (\<lambda>forbidden _. bindr (scopes_overlap resource forbidden) (\<lambda>b.
                ensure (\<not> b) (AuthorizationError ''task contract forbids resource''))) (ts_forbidden_scope spec) ()) (\<lambda>_.
       bindr (scope_allowed (if read then ts_read_scope spec else ts_write_scope spec) resource) (\<lambda>allowed.
         ensure allowed (AuthorizationError ''task contract does not authorize resource''))))))))) "

definition assert_current_lease :: "env \<Rightarrow> db \<Rightarrow> string \<Rightarrow> string \<Rightarrow> string \<Rightarrow> string \<Rightarrow> int \<Rightarrow> unit res" where
  "assert_current_lease env db resource project_id task_id who fence =
     ensure (exists_row (\<lambda>l. l_resource_key l = resource \<and> l_project_id l = project_id \<and> l_task_id l = task_id \<and>
       l_holder l = who \<and> l_fence l = fence \<and> lease_active (now env) l) (leases db))
       (AuthorizationError ''required lease fence is not current'')"

definition assert_current_task_claim :: "env \<Rightarrow> db \<Rightarrow> string \<Rightarrow> string \<Rightarrow> string \<Rightarrow> unit res" where
  "assert_current_task_claim env db project_id task_id who =
     ensure (exists_row (\<lambda>l. l_resource_key l = ''task://'' @ task_id \<and> l_project_id l = project_id \<and>
       l_task_id l = task_id \<and> l_holder l = who \<and> lease_active (now env) l) (leases db))
       (AuthorizationError ''worker has no current task claim'')"

section \<open>Approvals\<close>

record policy_engine =
  pe_owner :: nat
  pe_authority :: nat

text \<open>\<open>PolicyEngine.__init__\<close>; the configuration digest is the constant of its handler.\<close>

definition make_policy_engine :: "string \<Rightarrow> nat \<Rightarrow> string \<Rightarrow> authority_domain \<Rightarrow> (policy_engine \<times> authority_domain) res" where
  "make_policy_engine binding_id owner config_digest ad =
     bindr (bind_protected_command_authority binding_id \<lparr>sv_class = ''PolicyEngine'', sv_id = owner\<rparr> ''policy_engine''
              config_digest [] ad) (\<lambda>(token, ad).
       Inr (\<lparr>pe_owner = owner, pe_authority = token\<rparr>, ad))"

record approval_request =
  rq_project_id :: string
  rq_goal_id :: string
  rq_run_id :: string
  rq_task_id :: string
  rq_requester :: "auth_session option"
  rq_approver :: "auth_session option"
  rq_capability :: string
  rq_action :: string
  rq_resource :: string
  rq_request_digest :: string
  rq_policy_version :: string
  rq_decision :: string
  rq_ttl_seconds :: int
  rq_approval_id :: "string option"

text \<open>\<open>given or str(uuid.uuid4())\<close>.\<close>

definition fresh_id :: "env \<Rightarrow> string option \<Rightarrow> db \<Rightarrow> string \<times> db" where
  "fresh_id env given db = (case given of Some s \<Rightarrow> if s = [] then draw_uuid env db else (s, db) | None \<Rightarrow> draw_uuid env db)"

definition jint_opt :: "int option \<Rightarrow> json" where
  "jint_opt v = (case v of None \<Rightarrow> JNull | Some i \<Rightarrow> JInt i)"

text \<open>The gate an exact request decides, and the binding it is recorded against.\<close>

definition approval_gate :: "(task_authority \<times> task_binding_row) option \<Rightarrow> request \<Rightarrow> string option \<times> int option \<times> string option" where
  "approval_gate validated req = (case validated of None \<Rightarrow> (None, None, None)
     | Some (authority, binding) \<Rightarrow> (Some (tb_authority_digest binding), Some (ta_version authority),
         map_option gc_gate_id (List.find (\<lambda>c. gate_request c = req) (ta_decision_gate_contracts authority))))"

definition approval_of_request ::
    "env \<Rightarrow> approval_request \<Rightarrow> string \<Rightarrow> string \<Rightarrow> string \<Rightarrow> request \<Rightarrow> int \<Rightarrow>
     string option \<times> int option \<times> string option \<Rightarrow> approval_row" where
  "approval_of_request env q approval_id requester approver req ttl gate =
     (case req of (capability, action, resource, digest) \<Rightarrow> case gate of (binding_digest, binding_version, decision_gate) \<Rightarrow>
      \<lparr>ap_approval_id = approval_id, ap_project_id = strip (rq_project_id q), ap_goal_id = strip (rq_goal_id q),
       ap_run_id = strip (rq_run_id q), ap_task_id = strip (rq_task_id q), ap_requester = requester, ap_approver = Some approver,
       ap_capability = capability, ap_action = action, ap_resource = resource, ap_request_digest = digest,
       ap_binding_digest = binding_digest, ap_binding_version = binding_version, ap_decision_gate = decision_gate,
       ap_policy_version = strip (rq_policy_version q), ap_decision = rq_decision q, ap_requested_at = now env,
       ap_decided_at = Some (now env), ap_expires_at = Some (now env + seconds ttl)\<rparr>)"

definition approval_event :: "policy_engine \<Rightarrow> approval_row \<Rightarrow> string \<Rightarrow> string \<Rightarrow> int \<Rightarrow> event_cmd" where
  "approval_event pe a approver command_id expires_at = event_defaults\<lparr>c_aggregate_type := ''approval'',
     c_aggregate_id := ap_approval_id a, c_expected_version := 0, c_project_id := ap_project_id a,
     c_run_id := Some (ap_run_id a), c_task_id := Some (ap_task_id a), c_event_type := ''approval_decided'',
     c_actor := approver, c_command_id := command_id, c_correlation_id := ap_run_id a,
     c_policy_version := ap_policy_version a,
     c_payload := [(''requester'', JStr (ap_requester a)), (''capability'', JStr (capability_value (ap_capability a))),
       (''action'', JStr (ap_action a)), (''resource'', JStr (ap_resource a)), (''request_digest'', JStr (ap_request_digest a)),
       (''decision'', JStr (ap_decision a)), (''expires_at'', JInt expires_at),
       (''authority_binding_digest'', jopt (ap_binding_digest a)),
       (''authority_binding_version'', jint_opt (ap_binding_version a)), (''decision_gate'', jopt (ap_decision_gate a))],
     c_command_authority := Some (pe_authority pe), c_command_owner := Some (pe_owner pe)\<rparr>"

definition approval_clash :: "approval_row \<Rightarrow> approval_row \<Rightarrow> bool" where
  "approval_clash a b \<longleftrightarrow> ap_approval_id a = ap_approval_id b"

definition record_approval :: "env \<Rightarrow> policy_engine \<Rightarrow> approval_request \<Rightarrow> db \<Rightarrow> (approval_row \<times> db) res" where
  "record_approval env pe q db =
     bindr (policy_text (rq_project_id q)) (\<lambda>project_id.
     bindr (policy_text (rq_goal_id q)) (\<lambda>goal_id.
     bindr (policy_text (rq_run_id q)) (\<lambda>run_id.
     bindr (policy_text (rq_task_id q)) (\<lambda>task_id.
     bindr (policy_capability (rq_capability q)) (\<lambda>capability.
     bindr (policy_text (rq_action q)) (\<lambda>action.
     bindr (policy_text (rq_resource q)) (\<lambda>resource.
     bindr (policy_digest (rq_request_digest q)) (\<lambda>digest.
     bindr (policy_text (rq_policy_version q)) (\<lambda>policy_version.
     if rq_decision q \<notin> set [''approved'', ''denied''] then Inl (AuthorizationError ''decision must be approved or denied'')
     else
     bindr (policy_positive (rq_ttl_seconds q)) (\<lambda>ttl.
     let (given, db) = fresh_id env (rq_approval_id q) db in
     bindr (policy_text given) (\<lambda>approval_id.
     bindr (verify_session env None (rq_requester q) db) (\<lambda>requester.
     bindr (require_role env OWNER (rq_approver q) db) (\<lambda>approver.
     if pr_principal_id requester = pr_principal_id approver
     then Inl (AuthorizationError ''requester and approver must be different principals'')
     else
     bindr (find_task_scope project_id goal_id run_id task_id db) (\<lambda>scope.
     bindr (assert_task_authority scope capability action resource) (\<lambda>_.
     bindr (assert_task_lifecycle scope capability Approval) (\<lambda>_.
     bindr (validated_task_authority_binding env db task_id) (\<lambda>validated.
     let req = (capability, action, resource, digest);
         row = approval_of_request env q approval_id (pr_principal_id requester) (pr_principal_id approver) req ttl
                 (approval_gate validated req);
         (command_id, db) = draw_uuid env db in
     bindr (append_event env (approval_event pe row (pr_principal_id approver) command_id (now env + seconds ttl)) db) (\<lambda>(_, db).
     bindr (insert_row approval_clash row (approvals db)) (\<lambda>rows.
       Inr (row, db\<lparr>approvals := rows\<rparr>))))))))))))))))))))"

section \<open>Grants\<close>

record grant_request =
  gq_approval_id :: string
  gq_issuer :: "auth_session option"
  gq_principal :: "auth_session option"
  gq_capability :: string
  gq_action :: string
  gq_resource :: string
  gq_request_digest :: string
  gq_policy_version :: string
  gq_ttl_seconds :: int
  gq_max_uses :: int
  gq_cost_limit :: int
  gq_required_fence :: "int option"
  gq_grant_id :: "string option"

definition live_grant :: "env \<Rightarrow> grant_row \<Rightarrow> bool" where
  "live_grant env g \<longleftrightarrow> gr_revoked_at g = None \<and> now env < gr_expires_at g"

definition reserved_cost :: "env \<Rightarrow> (grant_row \<Rightarrow> bool) \<Rightarrow> grant_row list \<Rightarrow> int" where
  "reserved_cost env P gs = sum_list (map gr_cost_limit (filter (\<lambda>g. P g \<and> gr_capability g = PROVIDER_COST \<and> live_grant env g) gs))"

definition reserved_calls :: "env \<Rightarrow> (grant_row \<Rightarrow> bool) \<Rightarrow> grant_row list \<Rightarrow> int" where
  "reserved_calls env P gs = sum_list (map gr_max_uses (filter (\<lambda>g. P g \<and> gr_capability g = PROVIDER_COST \<and> live_grant env g) gs))"

definition assert_reservation :: "env \<Rightarrow> db \<Rightarrow> approval_row \<Rightarrow> int \<Rightarrow> int \<Rightarrow> unit res" where
  "assert_reservation env db approval max_uses cost_limit =
     bindr (require (fetch_one (\<lambda>g. g_goal_id g = ap_goal_id approval) (goals db)) (PyTypeError ''NoneType'')) (\<lambda>goal_row.
     bindr (load_goal_spec (g_spec goal_row)) (\<lambda>goal.
     let of_run = (\<lambda>g. gr_run_id g = ap_run_id approval); of_task = (\<lambda>g. gr_task_id g = ap_task_id approval) in
     if gs_provider_budget_minor_units goal < reserved_cost env of_run (grants db) + cost_limit
     then Inl (AuthorizationError ''goal provider budget reservation would be exceeded'')
     else if gs_provider_call_limit goal < reserved_calls env of_run (grants db) + max_uses
     then Inl (AuthorizationError ''goal provider call limit reservation would be exceeded'')
     else
     bindr (validated_task_authority_binding env db (ap_task_id approval)) (\<lambda>validated.
     case validated of
       None \<Rightarrow> Inr ()
     | Some (authority, _) \<Rightarrow>
         if ta_provider_budget_minor_units authority < reserved_cost env of_task (grants db) + cost_limit
         then Inl (AuthorizationError ''compiled Task provider budget reservation would be exceeded'')
         else ensure (reserved_calls env of_task (grants db) + max_uses \<le> ta_provider_call_limit authority)
                (AuthorizationError ''compiled Task provider call limit reservation would be exceeded''))))"

definition assert_gates :: "env \<Rightarrow> db \<Rightarrow> string \<Rightarrow> request \<Rightarrow> unit res" where
  "assert_gates env db task_id req = (case req of (capability, action, resource, digest) \<Rightarrow>
     bindr (decision_gates_for_request env db task_id capability action resource) (\<lambda>required_gates.
     bindr (required_decision_gates_satisfied env db task_id (Some required_gates) (Some req)) (\<lambda>ok.
       ensure ok (AuthorizationError ''compiled Task required decision gates are not satisfied''))))"

definition grant_of_request ::
    "env \<Rightarrow> approval_row \<Rightarrow> string \<Rightarrow> string \<Rightarrow> string \<Rightarrow> int \<Rightarrow> int \<Rightarrow> int \<Rightarrow> int option \<Rightarrow> grant_row" where
  "grant_of_request env a grant_id issuer who ttl max_uses cost_limit required_fence =
     \<lparr>gr_grant_id = grant_id, gr_project_id = ap_project_id a, gr_goal_id = ap_goal_id a, gr_run_id = ap_run_id a,
      gr_task_id = ap_task_id a, gr_approval_id = Some (ap_approval_id a), gr_issuer = issuer, gr_principal = who,
      gr_capability = ap_capability a, gr_action = ap_action a, gr_resource = ap_resource a,
      gr_request_digest = ap_request_digest a, gr_policy_version = ap_policy_version a, gr_not_before = now env,
      gr_expires_at = now env + seconds ttl, gr_max_uses = max_uses, gr_used_count = 0, gr_cost_limit = cost_limit,
      gr_cost_used = 0, gr_required_fence = required_fence, gr_revoked_at = None\<rparr>"

definition grant_event :: "grant_row \<Rightarrow> string \<Rightarrow> string \<Rightarrow> string \<Rightarrow> dict \<Rightarrow> int \<Rightarrow> event_cmd" where
  "grant_event g event_type actor command_id payload version = event_defaults\<lparr>c_aggregate_type := ''grant'',
     c_aggregate_id := gr_grant_id g, c_expected_version := version, c_project_id := gr_project_id g,
     c_run_id := Some (gr_run_id g), c_task_id := Some (gr_task_id g), c_event_type := event_type,
     c_actor := actor, c_command_id := command_id, c_correlation_id := gr_run_id g,
     c_policy_version := gr_policy_version g, c_payload := payload\<rparr>"

definition grant_payload :: "grant_row \<Rightarrow> dict" where
  "grant_payload g = [(''approval_id'', jopt (gr_approval_id g)), (''principal'', JStr (gr_principal g)),
     (''capability'', JStr (capability_value (gr_capability g))), (''action'', JStr (gr_action g)),
     (''resource'', JStr (gr_resource g)), (''request_digest'', JStr (gr_request_digest g)),
     (''not_before'', JInt (gr_not_before g)), (''expires_at'', JInt (gr_expires_at g)),
     (''max_uses'', JInt (gr_max_uses g)), (''cost_limit'', JInt (gr_cost_limit g)),
     (''required_fence'', jint_opt (gr_required_fence g))]"

definition grant_clash :: "grant_row \<Rightarrow> grant_row \<Rightarrow> bool" where
  "grant_clash g h \<longleftrightarrow> gr_grant_id g = gr_grant_id h"

definition issue_grant :: "env \<Rightarrow> grant_request \<Rightarrow> db \<Rightarrow> (grant_row \<times> db) res" where
  "issue_grant env q db =
     bindr (policy_text (gq_approval_id q)) (\<lambda>approval_id.
     bindr (policy_capability (gq_capability q)) (\<lambda>capability.
     bindr (policy_text (gq_action q)) (\<lambda>action.
     bindr (policy_text (gq_resource q)) (\<lambda>resource.
     bindr (policy_digest (gq_request_digest q)) (\<lambda>digest.
     bindr (policy_text (gq_policy_version q)) (\<lambda>policy_version.
     bindr (policy_positive (gq_ttl_seconds q)) (\<lambda>ttl.
     bindr (policy_positive (gq_max_uses q)) (\<lambda>max_uses.
     bindr (policy_cost (gq_cost_limit q)) (\<lambda>cost_limit.
     bindr (policy_fence (gq_required_fence q)) (\<lambda>required_fence.
     let (given, db) = fresh_id env (gq_grant_id q) db in
     bindr (policy_text given) (\<lambda>grant_id.
     bindr (require_role env OWNER (gq_issuer q) db) (\<lambda>issuer.
     bindr (verify_session env None (gq_principal q) db) (\<lambda>who.
     bindr (assert_execution_role (pr_roles who) capability) (\<lambda>_.
     bindr (require (fetch_one (\<lambda>a. ap_approval_id a = approval_id) (approvals db))
              (AuthorizationError ''approval does not exist'')) (\<lambda>approval.
     let req = (capability, action, resource, digest) in
     if ap_decision approval \<noteq> ''approved'' then Inl (AuthorizationError ''approval is not approved'')
     else if ap_approver approval \<noteq> Some (pr_principal_id issuer) \<or> ap_requester approval \<noteq> pr_principal_id who
     then Inl (AuthorizationError ''issuer/principal do not match the approval actors'')
     else if (ap_capability approval, ap_action approval, ap_resource approval, ap_request_digest approval) \<noteq> req \<or>
             ap_policy_version approval \<noteq> policy_version
     then Inl (AuthorizationError ''grant request does not exactly match the approval'')
     else if \<not> (case ap_expires_at approval of None \<Rightarrow> False | Some t \<Rightarrow> now env < t)
     then Inl (AuthorizationError ''approval has expired'')
     else
     bindr (assert_gates env db (ap_task_id approval) req) (\<lambda>_.
     bindr (find_task_scope (ap_project_id approval) (ap_goal_id approval) (ap_run_id approval) (ap_task_id approval) db) (\<lambda>scope.
     bindr (assert_task_authority scope capability action resource) (\<lambda>_.
     bindr (assert_task_lifecycle scope capability Grant) (\<lambda>_.
     if capability \<noteq> PROVIDER_COST \<and> cost_limit \<noteq> 0
     then Inl (AuthorizationError ''cost_limit must be zero for other capabilities'')
     else
     bindr (if capability = PROVIDER_COST then assert_reservation env db approval max_uses cost_limit else Inr ()) (\<lambda>_.
     bindr (case required_fence of None \<Rightarrow> Inr ()
            | Some f \<Rightarrow> assert_current_lease env db resource (ap_project_id approval) (ap_task_id approval)
                          (pr_principal_id who) f) (\<lambda>_.
     let row = grant_of_request env approval grant_id (pr_principal_id issuer) (pr_principal_id who) ttl max_uses
                 cost_limit required_fence;
         (command_id, db) = draw_uuid env db in
     if \<not> (case ap_expires_at approval of None \<Rightarrow> False | Some t \<Rightarrow> now env + seconds ttl \<le> t)
     then Inl (AuthorizationError ''grant cannot outlive its approval'')
     else
     bindr (append_event env (grant_event row ''capability_grant_issued'' (pr_principal_id issuer) command_id
              (grant_payload row) 0) db) (\<lambda>(_, db).
     bindr (insert_row grant_clash row (grants db)) (\<lambda>rows.
       Inr (row, db\<lparr>grants := rows\<rparr>))))))))))))))))))))))))"

definition revoke_grant :: "env \<Rightarrow> string \<Rightarrow> auth_session option \<Rightarrow> db \<Rightarrow> (grant_row \<times> db) res" where
  "revoke_grant env grant_id actor db =
     bindr (policy_text grant_id) (\<lambda>grant_id.
     bindr (require_role env OWNER actor db) (\<lambda>owner.
     bindr (require (fetch_one (\<lambda>g. gr_grant_id g = grant_id) (grants db)) (AuthorizationError ''grant does not exist'')) (\<lambda>row.
     if gr_revoked_at row \<noteq> None then Inr (row, db)
     else
       let (command_id, db) = draw_uuid env db in
       bindr (append_event env (grant_event row ''capability_grant_revoked'' (pr_principal_id owner) command_id
                [(''grant_id'', JStr grant_id)] (current_version ''grant'' grant_id (events db))) db) (\<lambda>(_, db).
       let rows = update_where (\<lambda>g. gr_grant_id g = grant_id) (\<lambda>g. g\<lparr>gr_revoked_at := Some (now env)\<rparr>) (grants db) in
       bindr (require (fetch_one (\<lambda>g. gr_grant_id g = grant_id) rows) (PyTypeError ''NoneType'')) (\<lambda>updated.
         Inr (updated, db\<lparr>grants := rows\<rparr>))))))"

section \<open>Consumption\<close>

record use_request =
  uq_grant_id :: string
  uq_project_id :: string
  uq_goal_id :: string
  uq_run_id :: string
  uq_task_id :: string
  uq_capability :: string
  uq_action :: string
  uq_resource :: string
  uq_request_digest :: string
  uq_idempotency_key :: string
  uq_cost :: int
  uq_fence :: "int option"
  uq_effect_id :: "string option"

record capability_use =
  cu_grant_id :: string
  cu_idempotency_key :: string
  cu_request_digest :: string
  cu_cost :: int
  cu_used_at :: int
  cu_effect_id :: "string option"
  cu_used_count :: int
  cu_cost_used :: int
  cu_required_fence :: "int option"
  cu_replayed :: bool

definition grant_valid_now :: "env \<Rightarrow> grant_row \<Rightarrow> bool" where
  "grant_valid_now env g \<longleftrightarrow> gr_not_before g \<le> now env \<and> now env < gr_expires_at g"

text \<open>The principal and its live roles: of the session, or of the principal an effect was stored with.\<close>

definition acting_principal ::
    "env \<Rightarrow> string option \<Rightarrow> auth_session option \<Rightarrow> capability \<Rightarrow> db \<Rightarrow> (string \<times> role list) res" where
  "acting_principal env who session capability db = (case session of
       Some s \<Rightarrow>
         bindr (verify_session env None (Some s) db) (\<lambda>p.
         bindr (assert_execution_role (pr_roles p) capability) (\<lambda>_. Inr (pr_principal_id p, pr_roles p)))
     | None \<Rightarrow>
         bindr (require who (AuthorizationError ''must be a non-empty string'')) (\<lambda>pid.
         let roles = (if exists_row (\<lambda>p. p_principal_id p = pid \<and> p_enabled p) (principals db) then role_set db pid else []) in
         if roles = [] then Inl (AuthorizationError ''persisted effect principal is disabled or unauthorized'')
         else bindr (assert_execution_role roles capability) (\<lambda>_. Inr (pid, roles))))"

text \<open>The exact-match tuple of a grant.\<close>

definition grant_scope :: "grant_row \<Rightarrow> (string \<times> string \<times> string \<times> string) \<times> string \<times> request" where
  "grant_scope g = ((gr_project_id g, gr_goal_id g, gr_run_id g, gr_task_id g), gr_principal g,
     (gr_capability g, gr_action g, gr_resource g, gr_request_digest g))"

definition find_usage :: "string \<Rightarrow> string \<Rightarrow> db \<Rightarrow> usage_row option" where
  "find_usage grant_id key db = fetch_one (\<lambda>u. u_grant_id u = grant_id \<and> u_idempotency_key u = key) (usages db)"

definition provider_usages :: "db \<Rightarrow> string \<Rightarrow> usage_row list" where
  "provider_usages db task_id = [u. u \<leftarrow> usages db, g \<leftarrow> grants db,
     gr_grant_id g = u_grant_id u \<and> gr_task_id g = task_id \<and> gr_capability g = PROVIDER_COST]"

definition assert_task_budget :: "env \<Rightarrow> db \<Rightarrow> string \<Rightarrow> int \<Rightarrow> unit res" where
  "assert_task_budget env db task_id cost =
     bindr (validated_task_authority_binding env db task_id) (\<lambda>validated.
     case validated of
       None \<Rightarrow> Inr ()
     | Some (authority, _) \<Rightarrow>
         if ta_provider_budget_minor_units authority < sum_list (map u_cost (provider_usages db task_id)) + cost
         then Inl (AuthorizationError ''compiled Task provider budget exceeded'')
         else ensure (int (length (provider_usages db task_id)) + 1 \<le> ta_provider_call_limit authority)
                (AuthorizationError ''compiled Task provider call limit exceeded''))"

definition use_of :: "use_request \<Rightarrow> grant_row \<Rightarrow> int \<Rightarrow> bool \<Rightarrow> capability_use" where
  "use_of q g used_at replayed = \<lparr>cu_grant_id = uq_grant_id q, cu_idempotency_key = uq_idempotency_key q,
     cu_request_digest = uq_request_digest q, cu_cost = uq_cost q, cu_used_at = used_at, cu_effect_id = uq_effect_id q,
     cu_used_count = gr_used_count g, cu_cost_used = gr_cost_used g, cu_required_fence = gr_required_fence g,
     cu_replayed = replayed\<rparr>"

definition usage_clash :: "usage_row \<Rightarrow> usage_row \<Rightarrow> bool" where
  "usage_clash u v \<longleftrightarrow> u_grant_id u = u_grant_id v \<and> u_idempotency_key u = u_idempotency_key v"

definition spendable :: "env \<Rightarrow> string \<Rightarrow> int \<Rightarrow> grant_row \<Rightarrow> bool" where
  "spendable env grant_id cost g \<longleftrightarrow> gr_grant_id g = grant_id \<and> gr_revoked_at g = None \<and> grant_valid_now env g \<and>
     gr_used_count g < gr_max_uses g \<and> gr_cost_used g + cost \<le> gr_cost_limit g"

definition spend :: "int \<Rightarrow> grant_row \<Rightarrow> grant_row" where
  "spend cost g = g\<lparr>gr_used_count := gr_used_count g + 1, gr_cost_used := gr_cost_used g + cost\<rparr>"

definition use_event :: "env \<Rightarrow> use_request \<Rightarrow> grant_row \<Rightarrow> string \<Rightarrow> string \<Rightarrow> event_cmd" where
  "use_event env q g who command_id = event_defaults\<lparr>c_aggregate_type := ''capability_use'',
     c_aggregate_id := content_hash (sha256 env) (JObj [(''grant_id'', JStr (uq_grant_id q)),
       (''idempotency_key'', JStr (uq_idempotency_key q))]),
     c_expected_version := 0, c_project_id := uq_project_id q, c_run_id := Some (uq_run_id q),
     c_task_id := Some (uq_task_id q), c_event_type := ''capability_consumed'', c_actor := who,
     c_command_id := command_id, c_correlation_id := uq_run_id q, c_policy_version := gr_policy_version g,
     c_payload := [(''grant_id'', JStr (uq_grant_id q)), (''capability'', JStr (capability_value (gr_capability g))),
       (''action'', JStr (uq_action q)), (''resource'', JStr (uq_resource q)),
       (''request_digest'', JStr (uq_request_digest q)), (''cost'', JInt (uq_cost q)), (''effect_id'', jopt (uq_effect_id q))],
     c_idempotency_key := Some (uq_idempotency_key q)\<rparr>"

text \<open>A use that is not a replay: limits, the usage row, the counters and the event.\<close>

definition spend_grant :: "env \<Rightarrow> use_request \<Rightarrow> string \<Rightarrow> grant_row \<Rightarrow> db \<Rightarrow> (capability_use \<times> db) res" where
  "spend_grant env q who g db =
     (if gr_max_uses g \<le> gr_used_count g then Inl (AuthorizationError ''grant use limit exhausted'')
      else if gr_cost_limit g < gr_cost_used g + uq_cost q then Inl (AuthorizationError ''grant cost limit exceeded'')
      else
      bindr (if gr_capability g = PROVIDER_COST then assert_task_budget env db (uq_task_id q) (uq_cost q) else Inr ()) (\<lambda>_.
      bindr (insert_row usage_clash \<lparr>u_grant_id = uq_grant_id q, u_idempotency_key = uq_idempotency_key q,
               u_request_digest = uq_request_digest q, u_cost = uq_cost q, u_used_at = now env,
               u_effect_id = uq_effect_id q\<rparr> (usages db)) (\<lambda>usage_rows.
      if length (filter (spendable env (uq_grant_id q) (uq_cost q)) (grants db)) \<noteq> 1
      then Inl (AuthorizationError ''grant became invalid during consumption'')
      else
      let rows = update_where (spendable env (uq_grant_id q) (uq_cost q)) (spend (uq_cost q)) (grants db);
          (command_id, db) = draw_uuid env (db\<lparr>usages := usage_rows, grants := rows\<rparr>) in
      bindr (append_event env (use_event env q g who command_id) db) (\<lambda>(_, db).
      bindr (require (fetch_one (\<lambda>h. gr_grant_id h = uq_grant_id q) (grants db)) (PyTypeError ''NoneType'')) (\<lambda>updated.
        Inr (use_of q updated (now env) False, db))))))"

text \<open>The checks every use repeats, replays included; the usage row of the key is returned.\<close>

definition check_use ::
    "env \<Rightarrow> use_request \<Rightarrow> capability \<Rightarrow> string \<Rightarrow> role list \<Rightarrow> grant_row \<Rightarrow> db \<Rightarrow> usage_row option res" where
  "check_use env q capability who roles g db =
     (let req = (capability, uq_action q, uq_resource q, uq_request_digest q) in
      if grant_scope g \<noteq> ((uq_project_id q, uq_goal_id q, uq_run_id q, uq_task_id q), who, req)
      then Inl (AuthorizationError ''capability request does not exactly match the grant'')
      else
      bindr (find_task_scope (uq_project_id q) (uq_goal_id q) (uq_run_id q) (uq_task_id q) db) (\<lambda>scope.
      bindr (assert_task_authority scope capability (uq_action q) (uq_resource q)) (\<lambda>_.
      bindr (assert_task_lifecycle scope capability Consume) (\<lambda>_.
      bindr (assert_gates env db (uq_task_id q) req) (\<lambda>_.
      bindr (if WORKER \<in> set roles then assert_current_task_claim env db (uq_project_id q) (uq_task_id q) who else Inr ()) (\<lambda>_.
      if gr_required_fence g \<noteq> uq_fence q then Inl (AuthorizationError ''fence mismatch'')
      else
      let usage = find_usage (uq_grant_id q) (uq_idempotency_key q) db in
      if (case usage of None \<Rightarrow> False | Some u \<Rightarrow>
            u_request_digest u \<noteq> uq_request_digest q \<or> u_cost u \<noteq> uq_cost q \<or> u_effect_id u \<noteq> uq_effect_id q)
      then Inl (AuthorizationError ''idempotency key was already used for a different request'')
      else if gr_revoked_at g \<noteq> None then Inl (AuthorizationError ''grant is revoked'')
      else if \<not> grant_valid_now env g then Inl (AuthorizationError ''grant is not currently valid'')
      else
      bindr (case gr_required_fence g of None \<Rightarrow> Inr ()
             | Some f \<Rightarrow> assert_current_lease env db (uq_resource q) (uq_project_id q) (uq_task_id q) who f) (\<lambda>_.
        Inr usage)))))))"

definition clean_use ::
    "string option \<Rightarrow> auth_session option \<Rightarrow> use_request \<Rightarrow> (use_request \<times> capability \<times> string option) res" where
  "clean_use who session q =
     bindr (policy_text (uq_grant_id q)) (\<lambda>grant_id.
     bindr (policy_text (uq_project_id q)) (\<lambda>project_id.
     bindr (policy_text (uq_goal_id q)) (\<lambda>goal_id.
     bindr (policy_text (uq_run_id q)) (\<lambda>run_id.
     bindr (policy_text (uq_task_id q)) (\<lambda>task_id.
     bindr (if session = None
            then bindr (require who (AuthorizationError ''must be a non-empty string'')) (\<lambda>w.
                 bindr (policy_text w) (\<lambda>w. Inr (Some w)))
            else Inr None) (\<lambda>stored.
     bindr (policy_capability (uq_capability q)) (\<lambda>capability.
     bindr (policy_text (uq_action q)) (\<lambda>action.
     bindr (policy_text (uq_resource q)) (\<lambda>resource.
     bindr (policy_digest (uq_request_digest q)) (\<lambda>digest.
     bindr (policy_text (uq_idempotency_key q)) (\<lambda>key.
     bindr (policy_cost (uq_cost q)) (\<lambda>cost.
     bindr (policy_fence (uq_fence q)) (\<lambda>fence.
     bindr (case uq_effect_id q of None \<Rightarrow> Inr None | Some e \<Rightarrow> bindr (policy_text e) (\<lambda>e. Inr (Some e))) (\<lambda>effect_id.
       Inr (\<lparr>uq_grant_id = grant_id, uq_project_id = project_id, uq_goal_id = goal_id, uq_run_id = run_id,
             uq_task_id = task_id, uq_capability = capability_value capability, uq_action = action,
             uq_resource = resource, uq_request_digest = digest, uq_idempotency_key = key, uq_cost = cost,
             uq_fence = fence, uq_effect_id = effect_id\<rparr>, capability, stored)))))))))))))))"

definition consume_as_principal ::
    "env \<Rightarrow> string option \<Rightarrow> auth_session option \<Rightarrow> use_request \<Rightarrow> db \<Rightarrow> (capability_use \<times> db) res" where
  "consume_as_principal env who session q0 db =
     bindr (clean_use who session q0) (\<lambda>(q, capability, stored).
     bindr (acting_principal env stored session capability db) (\<lambda>(pid, roles).
     bindr (require (fetch_one (\<lambda>g. gr_grant_id g = uq_grant_id q) (grants db)) (AuthorizationError ''grant does not exist'')) (\<lambda>g.
     bindr (check_use env q capability pid roles g db) (\<lambda>usage.
     case usage of
       Some u \<Rightarrow> Inr (use_of q g (u_used_at u) True, db)
     | None \<Rightarrow> spend_grant env q pid g db))))"

definition consume :: "env \<Rightarrow> auth_session option \<Rightarrow> use_request \<Rightarrow> db \<Rightarrow> (capability_use \<times> db) res" where
  "consume env session q db = consume_as_principal env None session q db"

text \<open>\<open>_consume_effect\<close>: the authority envelope of a stored effect.  A value of another JSON type is
  refused by the check of its field.\<close>

fun envelope_text :: "json \<Rightarrow> string res" where
  "envelope_text (JStr s) = Inr s"
| "envelope_text v = Inl (AuthorizationError ''must be a non-empty string'')"

fun envelope_fence :: "json \<Rightarrow> int option res" where
  "envelope_fence JNull = Inr None"
| "envelope_fence (JInt i) = Inr (Some i)"
| "envelope_fence v = Inl (AuthorizationError ''must be a positive integer'')"

definition envelope_field :: "(string \<times> json) list \<Rightarrow> string \<Rightarrow> json res" where
  "envelope_field d k = require (map_of d k) (AuthorizationError ''outbox effect has no valid authority envelope'')"

definition authority_envelope :: "json \<Rightarrow> (string \<times> string \<times> string \<times> string \<times> string \<times> int option) res" where
  "authority_envelope v = (case v of
       JObj d \<Rightarrow>
         bindr (mapr (envelope_field d) [''grant_id'', ''principal'', ''capability'', ''action'', ''resource'', ''fence'']) (\<lambda>vs.
         bindr (mapr envelope_text (butlast vs)) (\<lambda>ts.
         bindr (envelope_fence (last vs)) (\<lambda>fence.
         case ts of [grant_id, who, capability, action, resource] \<Rightarrow>
             Inr (grant_id, who, capability, action, resource, fence)
         | _ \<Rightarrow> Inl (PyTypeError ''unreachable''))))
     | _ \<Rightarrow> Inl (AuthorizationError ''outbox effect has no valid authority envelope''))"

definition consume_effect :: "env \<Rightarrow> string \<Rightarrow> db \<Rightarrow> (capability_use \<times> db) res" where
  "consume_effect env effect_id db =
     bindr (policy_text effect_id) (\<lambda>effect_id.
     bindr (require (fetch_one (\<lambda>e. o_effect_id e = effect_id \<and> exists_row (\<lambda>t. t_task_id t = o_task_id e) (tasks db)) (outbox db))
              (AuthorizationError ''outbox effect does not exist'')) (\<lambda>effect.
     bindr (require (fetch_one (\<lambda>t. t_task_id t = o_task_id effect) (tasks db)) (PyTypeError ''NoneType'')) (\<lambda>task.
     bindr (authority_envelope (o_request effect)) (\<lambda>(grant_id, who, capability, action, resource, fence).
       consume_as_principal env (Some who) None
         \<lparr>uq_grant_id = grant_id, uq_project_id = o_project_id effect, uq_goal_id = t_goal_id task,
          uq_run_id = o_run_id effect, uq_task_id = o_task_id effect, uq_capability = capability, uq_action = action,
          uq_resource = resource, uq_request_digest = o_request_digest effect,
          uq_idempotency_key = ''effect:'' @ effect_id, uq_cost = 0, uq_fence = fence,
          uq_effect_id = Some effect_id\<rparr> db))))"

section \<open>Preflight\<close>

definition preflight_effect_authority :: "env \<Rightarrow> auth_session option \<Rightarrow> use_request \<Rightarrow> string \<Rightarrow> db \<Rightarrow> unit res" where
  "preflight_effect_authority env session q policy_version db =
     bindr (policy_text (uq_grant_id q)) (\<lambda>grant_id.
     bindr (policy_capability (uq_capability q)) (\<lambda>capability.
     bindr (policy_text (uq_action q)) (\<lambda>action.
     bindr (policy_text (uq_resource q)) (\<lambda>resource.
     bindr (policy_digest (uq_request_digest q)) (\<lambda>digest.
     bindr (policy_text policy_version) (\<lambda>version.
     bindr (policy_fence (uq_fence q)) (\<lambda>fence.
     bindr (verify_session env None session db) (\<lambda>p.
     bindr (assert_execution_role (pr_roles p) capability) (\<lambda>_.
     bindr (find_task_scope (uq_project_id q) (uq_goal_id q) (uq_run_id q) (uq_task_id q) db) (\<lambda>scope.
     bindr (assert_task_authority scope capability action resource) (\<lambda>_.
     bindr (assert_task_lifecycle scope capability Consume) (\<lambda>_.
     bindr (if WORKER \<in> set (pr_roles p)
            then assert_current_task_claim env db (uq_project_id q) (uq_task_id q) (pr_principal_id p) else Inr ()) (\<lambda>_.
     bindr (require (fetch_one (\<lambda>g. gr_grant_id g = grant_id) (grants db)) (AuthorizationError ''grant does not exist'')) (\<lambda>g.
     if grant_scope g \<noteq> ((uq_project_id q, uq_goal_id q, uq_run_id q, uq_task_id q), pr_principal_id p,
          (capability, action, resource, digest)) \<or> gr_policy_version g \<noteq> version
     then Inl (AuthorizationError ''effect envelope does not exactly match the grant'')
     else if gr_revoked_at g \<noteq> None then Inl (AuthorizationError ''grant is revoked'')
     else if \<not> grant_valid_now env g then Inl (AuthorizationError ''grant is not currently valid'')
     else if gr_max_uses g \<le> gr_used_count g then Inl (AuthorizationError ''grant use limit exhausted'')
     else if gr_required_fence g \<noteq> fence then Inl (AuthorizationError ''fence mismatch'')
     else
       (case gr_required_fence g of None \<Rightarrow> Inr ()
        | Some f \<Rightarrow> assert_current_lease env db resource (uq_project_id q) (uq_task_id q) (pr_principal_id p) f)))))))))))))))"

section \<open>The contract of the books\<close>

text \<open>The tables the accounting of capabilities is kept in.\<close>

type_synonym book = "approval_row list \<times> grant_row list \<times> usage_row list"

definition book :: "db \<Rightarrow> book" where
  "book db = (approvals db, grants db, usages db)"

text \<open>A grant rests on an approval of its exact request by its issuer, for its principal, and ends
  no later.\<close>

definition backed :: "approval_row list \<Rightarrow> grant_row \<Rightarrow> bool" where
  "backed as g \<longleftrightarrow> (\<exists>a \<in> set as. gr_approval_id g = Some (ap_approval_id a) \<and> ap_decision a = ''approved'' \<and>
     ap_approver a = Some (gr_issuer g) \<and> ap_requester a = gr_principal g \<and>
     (ap_project_id a, ap_goal_id a, ap_run_id a, ap_task_id a) = (gr_project_id g, gr_goal_id g, gr_run_id g, gr_task_id g) \<and>
     (ap_capability a, ap_action a, ap_resource a, ap_request_digest a) = (gr_capability g, gr_action g, gr_resource g, gr_request_digest g) \<and>
     (\<exists>e. ap_expires_at a = Some e \<and> gr_expires_at g \<le> e))"

definition grant_uses :: "string \<Rightarrow> usage_row list \<Rightarrow> usage_row list" where
  "grant_uses i us = filter (\<lambda>u. u_grant_id u = i) us"

definition account_ok :: "usage_row list \<Rightarrow> grant_row \<Rightarrow> bool" where
  "account_ok us g \<longleftrightarrow> gr_used_count g = int (length (grant_uses (gr_grant_id g) us)) \<and> gr_used_count g \<le> gr_max_uses g \<and>
     gr_cost_used g = sum_list (map u_cost (grant_uses (gr_grant_id g) us)) \<and> gr_cost_used g \<le> gr_cost_limit g \<and>
     gr_not_before g < gr_expires_at g \<and> (gr_capability g \<noteq> PROVIDER_COST \<longrightarrow> gr_cost_limit g = 0)"

fun book_ok :: "book \<Rightarrow> bool" where
  "book_ok (as, gs, us) \<longleftrightarrow> distinct (map ap_approval_id as) \<and> (\<forall>a \<in> set as. ap_approver a \<noteq> Some (ap_requester a)) \<and>
     distinct (map gr_grant_id gs) \<and> (\<forall>g \<in> set gs. backed as g \<and> account_ok us g) \<and>
     distinct (map (\<lambda>u. (u_grant_id u, u_idempotency_key u)) us) \<and>
     (\<forall>u \<in> set us. u_grant_id u \<in> gr_grant_id ` set gs \<and> 0 \<le> u_cost u)"

definition payable :: "int \<Rightarrow> int \<Rightarrow> grant_row \<Rightarrow> bool" where
  "payable t c g \<longleftrightarrow> gr_revoked_at g = None \<and> gr_not_before g \<le> t \<and> t < gr_expires_at g \<and>
     gr_used_count g < gr_max_uses g \<and> gr_cost_used g + c \<le> gr_cost_limit g"

inductive book_step :: "int \<Rightarrow> book \<Rightarrow> book \<Rightarrow> bool" for t where
  book_same: "book_step t b b"
| book_approve: "\<lbrakk>\<And>b. b \<in> set as \<Longrightarrow> ap_approval_id a \<noteq> ap_approval_id b; ap_approver a \<noteq> Some (ap_requester a)\<rbrakk>
    \<Longrightarrow> book_step t (as, gs, us) (as @ [a], gs, us)"
| book_issue: "\<lbrakk>\<And>h. h \<in> set gs \<Longrightarrow> gr_grant_id g \<noteq> gr_grant_id h; backed as g; gr_used_count g = 0; gr_cost_used g = 0;
     0 < gr_max_uses g; 0 \<le> gr_cost_limit g; t = gr_not_before g; t < gr_expires_at g;
     gr_capability g \<noteq> PROVIDER_COST \<Longrightarrow> gr_cost_limit g = 0\<rbrakk>
    \<Longrightarrow> book_step t (as, gs, us) (as, gs @ [g], us)"
| book_revoke: "book_step t (as, gs, us) (as, update_where (\<lambda>g. gr_grant_id g = i) (\<lambda>g. g\<lparr>gr_revoked_at := Some t\<rparr>) gs, us)"
| book_spend: "\<lbrakk>filter P gs = [g]; payable t (u_cost u) g; u_grant_id u = gr_grant_id g; 0 \<le> u_cost u;
     \<And>v. v \<in> set us \<Longrightarrow> \<not> usage_clash u v\<rbrakk>
    \<Longrightarrow> book_step t (as, gs, us) (as, update_where P (spend (u_cost u)) gs, us @ [u])"

lemma backed_mono: "backed as g \<Longrightarrow> backed (as @ bs) g"
  by (auto simp: backed_def)

lemma backed_simps [simp]:
  "backed as (g\<lparr>gr_revoked_at := r\<rparr>) = backed as g" "backed as (spend c g) = backed as g"
  by (simp_all add: backed_def spend_def)

lemma spend_simps [simp]:
  "gr_grant_id (spend c g) = gr_grant_id g" "gr_revoked_at (spend c g) = gr_revoked_at g"
  "gr_used_count (spend c g) = gr_used_count g + 1" "gr_cost_used (spend c g) = gr_cost_used g + c"
  "gr_max_uses (spend c g) = gr_max_uses g" "gr_cost_limit (spend c g) = gr_cost_limit g"
  "gr_expires_at (spend c g) = gr_expires_at g" "gr_not_before (spend c g) = gr_not_before g"
  "gr_capability (spend c g) = gr_capability g"
  by (simp_all add: spend_def)

lemma grant_uses_simps [simp]:
  "grant_uses i [] = []" "grant_uses i (us @ [u]) = grant_uses i us @ (if u_grant_id u = i then [u] else [])"
  by (simp_all add: grant_uses_def)

lemma grant_uses_new: "(\<And>u. u \<in> set us \<Longrightarrow> u_grant_id u \<noteq> i) \<Longrightarrow> grant_uses i us = []"
  by (simp add: grant_uses_def filter_empty_conv)

lemma filter_singleton: "filter P xs = [x] \<Longrightarrow> x \<in> set xs \<and> P x \<and> (\<forall>y \<in> set xs. P y \<longrightarrow> y = x)"
proof -
  assume "filter P xs = [x]"
  then have "{y \<in> set xs. P y} = {x}" by (metis set_filter empty_set list.simps(15))
  then show ?thesis by blast
qed

lemma book_step_ok:
  assumes "book_step t b b'" "book_ok b"
  shows "book_ok b'"
  using assms
proof cases
  case (book_approve as a gs us)
  moreover from this have "ap_approval_id a \<notin> ap_approval_id ` set as" by force
  ultimately show ?thesis using assms(2) by (auto simp: backed_mono)
next
  case (book_issue gs g as us)
  from book_issue(3) have new: "gr_grant_id g \<notin> gr_grant_id ` set gs" by force
  have "grant_uses (gr_grant_id g) us = []"
  proof (rule grant_uses_new)
    fix u assume "u \<in> set us"
    then have "u_grant_id u \<in> gr_grant_id ` set gs" using assms(2) book_issue(1) by simp
    with new show "u_grant_id u \<noteq> gr_grant_id g" by auto
  qed
  then have "account_ok us g" using book_issue by (simp add: account_ok_def)
  then show ?thesis using new book_issue assms(2) by auto
next
  case (book_revoke as gs us i)
  let ?f = "\<lambda>g. g\<lparr>gr_revoked_at := Some t\<rparr>"
  have "map gr_grant_id (update_where (\<lambda>g. gr_grant_id g = i) ?f gs) = map gr_grant_id gs" by (rule map_update_where) simp
  moreover from this have "gr_grant_id ` set (update_where (\<lambda>g. gr_grant_id g = i) ?f gs) = gr_grant_id ` set gs"
    by (metis set_map)
  moreover have "account_ok us (?f g) = account_ok us g" for g by (simp add: account_ok_def)
  ultimately show ?thesis using book_revoke assms(2) by (auto simp: set_update_where)
next
  case (book_spend P gs g u us as)
  let ?gs = "update_where P (spend (u_cost u)) gs"
  from book_spend(3) have g: "g \<in> set gs" "P g" and only: "\<And>h. h \<in> set gs \<Longrightarrow> P h \<Longrightarrow> h = g"
    by (auto dest: filter_singleton)
  have ids: "map gr_grant_id ?gs = map gr_grant_id gs" by (rule map_update_where) simp
  then have idset: "gr_grant_id ` set ?gs = gr_grant_id ` set gs" by (metis set_map)
  have one: "h = g" if "h \<in> set gs" "gr_grant_id h = gr_grant_id g" for h
    using key_unique [of gr_grant_id gs h g] that g(1) book_spend(1) assms(2) by auto
  have "account_ok us g" using g(1) book_spend(1) assms(2) by auto
  then have "account_ok (us @ [u]) (spend (u_cost u) g)"
    using book_spend by (auto simp: account_ok_def payable_def)
  moreover have "account_ok (us @ [u]) h" if "h \<in> set gs" "gr_grant_id h \<noteq> gr_grant_id g" for h
    using that book_spend(1, 5) assms(2) by (auto simp: account_ok_def)
  ultimately have "\<forall>h \<in> set ?gs. account_ok (us @ [u]) h" using one only g(2) by (auto simp: set_update_where)
  moreover have "\<forall>h \<in> set ?gs. backed as h" using book_spend(1) assms(2) by (auto simp: set_update_where)
  moreover have "(u_grant_id u, u_idempotency_key u) \<notin> (\<lambda>u. (u_grant_id u, u_idempotency_key u)) ` set us"
    using book_spend(7) by (force simp: usage_clash_def)
  ultimately show ?thesis using g(1) book_spend(1, 2, 5, 6) assms(2) ids idset by auto
qed simp

text \<open>A grant that can never pay again: revoked, expired or used up.\<close>

definition dead_grant :: "int \<Rightarrow> grant_row \<Rightarrow> bool" where
  "dead_grant t g \<longleftrightarrow> gr_revoked_at g \<noteq> None \<or> gr_expires_at g \<le> t \<or> gr_max_uses g \<le> gr_used_count g"

lemma book_step_grant:
  assumes "book_step t (as, gs, us) (as', gs', us')" "book_ok (as, gs, us)" "g \<in> set gs"
  shows "\<exists>h \<in> set gs'. gr_grant_id h = gr_grant_id g \<and> gr_max_uses h = gr_max_uses g \<and> gr_cost_limit h = gr_cost_limit g \<and>
     gr_expires_at h = gr_expires_at g \<and> (gr_revoked_at g \<noteq> None \<longrightarrow> gr_revoked_at h \<noteq> None) \<and>
     gr_used_count g \<le> gr_used_count h \<and>
     (dead_grant t g \<longrightarrow> gr_used_count h = gr_used_count g \<and> grant_uses (gr_grant_id g) us' = grant_uses (gr_grant_id g) us)"
  using assms(1)
proof cases
  case (book_revoke i)
  then show ?thesis
    using assms(3) by (intro bexI [of _ "if gr_grant_id g = i then g\<lparr>gr_revoked_at := Some t\<rparr> else g"]) (auto simp: set_update_where)
next
  case (book_spend P k u)
  from \<open>filter P gs = [k]\<close> have k: "k \<in> set gs" "P k" and only: "\<And>h. h \<in> set gs \<Longrightarrow> P h \<Longrightarrow> h = k"
    by (auto dest: filter_singleton)
  have one: "gr_grant_id g = gr_grant_id k \<Longrightarrow> g = k"
    using key_unique [of gr_grant_id gs g k] assms(2, 3) k(1) by auto
  show ?thesis
  proof (cases "P g")
    case True
    with only assms(3) have g: "g = k" by blast
    have "spend (u_cost u) k \<in> set gs'" using book_spend(2) k by (auto simp: set_update_where image_iff)
    then show ?thesis
      by (rule bexI [rotated]) (use \<open>payable t (u_cost u) k\<close> g in \<open>auto simp: dead_grant_def payable_def\<close>)
  next
    case False
    then have "g \<in> set gs'" using book_spend(2) assms(3) by (auto simp: set_update_where image_iff)
    moreover have "gr_grant_id g \<noteq> gr_grant_id k" using False one k(2) by blast
    ultimately show ?thesis by (intro bexI [of _ g]) (use book_spend in auto)
  qed
qed (use assms(3) in auto)

locale budgeted =
  fixes exec :: "'c \<Rightarrow> int \<Rightarrow> book \<Rightarrow> book \<Rightarrow> bool"
  assumes exec_book: "exec c t b b' \<Longrightarrow> book_step t b b'"
begin

text \<open>Commands executed no earlier than \<open>T\<close>.\<close>

inductive ledger :: "int \<Rightarrow> book \<Rightarrow> book \<Rightarrow> bool" for T where
  ledger_none: "ledger T b b"
| ledger_more: "ledger T b b' \<Longrightarrow> exec c t b' b'' \<Longrightarrow> T \<le> t \<Longrightarrow> ledger T b b''"

lemma ledger_ok: "ledger T b b' \<Longrightarrow> book_ok b \<Longrightarrow> book_ok b'"
  by (induction rule: ledger.induct) (auto dest: exec_book book_step_ok)

lemma grant_stays:
  assumes "ledger T b b'" "b = (as, gs, us)" "b' = (as', gs', us')" "book_ok b" "g \<in> set gs"
  shows "\<exists>h \<in> set gs'. gr_grant_id h = gr_grant_id g \<and> gr_expires_at h = gr_expires_at g \<and> gr_max_uses h = gr_max_uses g \<and>
     gr_cost_limit h = gr_cost_limit g \<and> gr_used_count g \<le> gr_used_count h \<and> (gr_revoked_at g \<noteq> None \<longrightarrow> gr_revoked_at h \<noteq> None)"
  using assms
proof (induction arbitrary: as' gs' us' rule: ledger.induct)
  case (ledger_more b b1 c t b2)
  obtain as1 gs1 us1 where b1: "b1 = (as1, gs1, us1)" by (cases b1)
  from ledger_more.IH [OF ledger_more.prems(1) b1 ledger_more.prems(3, 4)]
  obtain h where h: "h \<in> set gs1" "gr_grant_id h = gr_grant_id g" "gr_expires_at h = gr_expires_at g" "gr_max_uses h = gr_max_uses g"
    "gr_cost_limit h = gr_cost_limit g" "gr_used_count g \<le> gr_used_count h" "gr_revoked_at g \<noteq> None \<longrightarrow> gr_revoked_at h \<noteq> None" by blast
  have ok: "book_ok (as1, gs1, us1)"
    using ledger_ok [OF ledger_more.hyps(1) ledger_more.prems(3)] b1 by simp
  have st: "book_step t (as1, gs1, us1) (as', gs', us')"
    using exec_book [OF ledger_more.hyps(2)] b1 ledger_more.prems(2) by simp
  from book_step_grant [OF st ok h(1)] h show ?case by fastforce
qed auto

lemma dead_grant_kept:
  assumes "ledger T b b'" "b = (as, gs, us)" "b' = (as', gs', us')" "book_ok b" "g \<in> set gs" "dead_grant T g"
  shows "\<exists>h \<in> set gs'. gr_grant_id h = gr_grant_id g \<and> dead_grant T h \<and> grant_uses (gr_grant_id g) us' = grant_uses (gr_grant_id g) us"
  using assms
proof (induction arbitrary: as' gs' us' rule: ledger.induct)
  case (ledger_more b b1 c t b2)
  obtain as1 gs1 us1 where b1: "b1 = (as1, gs1, us1)" by (cases b1)
  from ledger_more.IH [OF ledger_more.prems(1) b1 ledger_more.prems(3-5)]
  obtain h where h: "h \<in> set gs1" "gr_grant_id h = gr_grant_id g" "dead_grant T h"
    "grant_uses (gr_grant_id g) us1 = grant_uses (gr_grant_id g) us" by blast
  have ok: "book_ok (as1, gs1, us1)"
    using ledger_ok [OF ledger_more.hyps(1) ledger_more.prems(3)] b1 by simp
  have st: "book_step t (as1, gs1, us1) (as', gs', us')"
    using exec_book [OF ledger_more.hyps(2)] b1 ledger_more.prems(2) by simp
  have d: "dead_grant t h" using h(3) ledger_more.hyps(3) by (auto simp: dead_grant_def)
  from book_step_grant [OF st ok h(1)] d h show ?case unfolding dead_grant_def by fastforce
qed auto

end

section \<open>PolicyEngine keeps the books\<close>

lemma draw_uuid_frame: "(i, d) = draw_uuid env db \<Longrightarrow> d = db\<lparr>uuid_next := Suc (uuid_next db)\<rparr>"
  by (simp add: draw_uuid_def)

lemma fresh_id_frame: "(i, d) = fresh_id env given db \<Longrightarrow> \<exists>n. d = db\<lparr>uuid_next := n\<rparr>"
  by (cases "uuid_next db") (auto simp: fresh_id_def draw_uuid_def split: option.splits if_splits intro: exI [of _ "uuid_next db"])

lemmas policy_frame = append_event_frame draw_uuid_frame fresh_id_frame

lemma policy_positive_Inr [simp]: "policy_positive v = Inr n \<longleftrightarrow> 1 \<le> v \<and> n = v"
  by (auto simp: policy_positive_def)

lemma policy_cost_Inr [simp]: "policy_cost v = Inr n \<longleftrightarrow> 0 \<le> v \<and> n = v"
  by (auto simp: policy_cost_def)

lemma policy_text_Inr [simp]: "policy_text s = Inr t \<longleftrightarrow> non_blank s \<and> t = strip s"
  by (auto simp: policy_text_def)

lemma approval_of_request_simps [simp]:
  "ap_approval_id (approval_of_request env q i r a req ttl gate) = i"
  "ap_requester (approval_of_request env q i r a req ttl gate) = r"
  "ap_approver (approval_of_request env q i r a req ttl gate) = Some a"
  by (simp_all add: approval_of_request_def split: prod.splits)

lemma record_approval_book: "returns (record_approval env pe q db) (\<lambda>(a, db'). book_step (now env) (book db) (book db'))"
  unfolding record_approval_def
  by (intro returns_steps) (auto simp: book_def approval_clash_def dest!: policy_frame intro!: book_approve)

lemma grant_of_request_simps [simp]:
  "gr_grant_id (grant_of_request env a i issuer who ttl n c f) = i"
  "gr_used_count (grant_of_request env a i issuer who ttl n c f) = 0"
  "gr_cost_used (grant_of_request env a i issuer who ttl n c f) = 0"
  "gr_max_uses (grant_of_request env a i issuer who ttl n c f) = n"
  "gr_cost_limit (grant_of_request env a i issuer who ttl n c f) = c"
  "gr_not_before (grant_of_request env a i issuer who ttl n c f) = now env"
  "gr_expires_at (grant_of_request env a i issuer who ttl n c f) = now env + seconds ttl"
  "gr_revoked_at (grant_of_request env a i issuer who ttl n c f) = None"
  "gr_capability (grant_of_request env a i issuer who ttl n c f) = ap_capability a"
  by (simp_all add: grant_of_request_def)

lemma grant_of_request_backed:
  assumes "a \<in> set as" "ap_decision a = ''approved''" "ap_approver a = Some issuer" "ap_requester a = who"
    and "case ap_expires_at a of None \<Rightarrow> False | Some t \<Rightarrow> now env + seconds ttl \<le> t"
  shows "backed as (grant_of_request env a i issuer who ttl n c f)"
  using assms
  by (auto simp: backed_def grant_of_request_def split: option.splits intro!: bexI [of _ a])

lemma seconds_pos [simp]: "0 < seconds n \<longleftrightarrow> 0 < n"
  by (simp add: seconds_def)

lemma issue_grant_book: "returns (issue_grant env q db) (\<lambda>(g, db'). book_step (now env) (book db) (book db'))"
  unfolding issue_grant_def
  by (intro returns_steps)
    (auto simp: book_def grant_clash_def dest!: policy_frame fetch_one_SomeD intro!: book_issue grant_of_request_backed)

lemma revoke_grant_book: "returns (revoke_grant env i s db) (\<lambda>(g, db'). book_step (now env) (book db) (book db'))"
  unfolding revoke_grant_def
  by (intro returns_steps) (auto simp: book_def dest!: policy_frame intro!: book_same book_revoke)

lemma payable_spendable: "spendable env i c g \<longleftrightarrow> gr_grant_id g = i \<and> payable (now env) c g"
  by (auto simp: spendable_def payable_def grant_valid_now_def)

lemma book_spendI:
  assumes "filter (spendable env i c) gs = [h]" "u_grant_id u = i" "u_cost u = c" "0 \<le> c" "\<forall>v \<in> set us. \<not> usage_clash u v"
  shows "book_step (now env) (as, gs, us) (as, update_where (spendable env i c) (spend c) gs, us @ [u])"
  using book_spend [of "spendable env i c" gs h "now env" u us as] assms filter_singleton [OF assms(1)]
  by (auto simp: payable_spendable)

lemma spend_grant_book:
  assumes "0 \<le> uq_cost q"
  shows "returns (spend_grant env q pid g db) (\<lambda>(u, db'). book_step (now env) (book db) (book db'))"
  unfolding spend_grant_def
  by (intro returns_steps) (use assms in \<open>auto simp: book_def length_Suc_conv dest!: policy_frame intro!: book_spendI\<close>)

lemma clean_use_Inr:
  assumes "clean_use w s q0 = Inr (q, c, stored)"
  shows "0 \<le> uq_cost q \<and> uq_capability q = capability_value c \<and> uq_grant_id q = strip (uq_grant_id q0) \<and>
     uq_idempotency_key q = strip (uq_idempotency_key q0) \<and> uq_cost q = uq_cost q0 \<and>
     (s = None \<longrightarrow> (\<exists>p. w = Some p \<and> stored = Some (strip p)))"
  using assms by (auto simp: clean_use_def bindr_eq_Inr split: if_splits)

lemma policy_digest_Inr: "policy_digest s = Inr d \<Longrightarrow> d = lower (strip s)"
  by (auto simp: policy_digest_def bindr_eq_Inr split: if_splits)

lemma policy_capability_Inr: "policy_capability v = Inr c \<Longrightarrow> capability_value c = v"
  by (auto simp: policy_capability_def find_Some_iff)

lemma clean_use_texts:
  assumes "clean_use w s q0 = Inr (q, c, stored)"
  shows "uq_capability q0 = capability_value c \<and> uq_action q = strip (uq_action q0) \<and> uq_resource q = strip (uq_resource q0) \<and>
     uq_request_digest q = lower (strip (uq_request_digest q0))"
  using assms by (auto simp: clean_use_def bindr_eq_Inr dest: policy_digest_Inr policy_capability_Inr)

lemma consume_as_principal_book:
  "returns (consume_as_principal env w s q db) (\<lambda>(u, db'). book_step (now env) (book db) (book db'))"
  unfolding consume_as_principal_def
  by (intro returns_steps)
    (auto split: option.split intro: book_same intro!: returns_mono [OF spend_grant_book] dest: clean_use_Inr)

lemma consume_effect_book: "returns (consume_effect env e db) (\<lambda>(u, db'). book_step (now env) (book db) (book db'))"
  unfolding consume_effect_def by (intro returns_steps) (auto intro: consume_as_principal_book)

datatype policy_cmd =
    Record_Approval policy_engine approval_request
  | Issue_Grant grant_request
  | Revoke_Grant string "auth_session option"
  | Consume_Grant "auth_session option" use_request
  | Consume_Effect string

fun run_policy_cmd :: "env \<Rightarrow> policy_cmd \<Rightarrow> db \<Rightarrow> db res" where
  "run_policy_cmd env (Record_Approval pe q) db = bindr (record_approval env pe q db) (\<lambda>(_, db). Inr db)"
| "run_policy_cmd env (Issue_Grant q) db = bindr (issue_grant env q db) (\<lambda>(_, db). Inr db)"
| "run_policy_cmd env (Revoke_Grant i s) db = bindr (revoke_grant env i s db) (\<lambda>(_, db). Inr db)"
| "run_policy_cmd env (Consume_Grant s q) db = bindr (consume env s q db) (\<lambda>(_, db). Inr db)"
| "run_policy_cmd env (Consume_Effect e) db = bindr (consume_effect env e db) (\<lambda>(_, db). Inr db)"

definition exec_policy :: "policy_cmd \<Rightarrow> int \<Rightarrow> book \<Rightarrow> book \<Rightarrow> bool" where
  "exec_policy c t b b' \<longleftrightarrow> (\<exists>env db db'. now env = t \<and> book db = b \<and> book db' = b' \<and> run_policy_cmd env c db = Inr db')"

lemma run_policy_cmd_book:
  assumes "run_policy_cmd env c db = Inr db'"
  shows "book_step (now env) (book db) (book db')"
  using assms returnsD [OF record_approval_book] returnsD [OF issue_grant_book] returnsD [OF revoke_grant_book]
    returnsD [OF consume_as_principal_book] returnsD [OF consume_effect_book]
  by (cases c) (fastforce simp: bindr_eq_Inr consume_def)+

interpretation engine: budgeted exec_policy
  by unfold_locales (auto simp: exec_policy_def dest: run_policy_cmd_book)

text \<open>A history of policy commands, at clock readings no earlier than \<open>T\<close>.  What other services do
  between two commands does not touch the books.\<close>

inductive policy_history :: "int \<Rightarrow> db \<Rightarrow> db \<Rightarrow> bool" for T where
  policy_start: "policy_history T db db"
| policy_more: "policy_history T db db' \<Longrightarrow> run_policy_cmd env c db' = Inr db'' \<Longrightarrow> T \<le> now env \<Longrightarrow> policy_history T db db''"
| policy_other: "policy_history T db db' \<Longrightarrow> book db'' = book db' \<Longrightarrow> policy_history T db db''"

lemma policy_history_ledger: "policy_history T db db' \<Longrightarrow> engine.ledger T (book db) (book db')"
proof (induction rule: policy_history.induct)
  case (policy_more db db' env c db'')
  then have "exec_policy c (now env) (book db') (book db'')" by (auto simp: exec_policy_def)
  with policy_more show ?case by (blast intro: engine.ledger_more)
qed (auto intro: engine.ledger_none)

lemma policy_history_ok: "policy_history T db db' \<Longrightarrow> book_ok (book db) \<Longrightarrow> book_ok (book db')"
  using engine.ledger_ok policy_history_ledger by blast

text \<open>C32.  The books balance: whatever approvals, grants, revocations and uses follow each other, the
  counters of every grant are exactly the number and the cost of its recorded uses, within its
  limits, each idempotency key is used once per grant, and every grant rests on an approval of the
  same exact request, not outlived, given by its issuer to somebody else.\<close>

theorem policy_books_balance:
  assumes "policy_history T db db'" "book_ok (book db)" "g \<in> set (grants db')"
  shows "gr_used_count g = int (length (grant_uses (gr_grant_id g) (usages db'))) \<and> gr_used_count g \<le> gr_max_uses g \<and>
     gr_cost_used g = sum_list (map u_cost (grant_uses (gr_grant_id g) (usages db'))) \<and> gr_cost_used g \<le> gr_cost_limit g \<and>
     (gr_capability g \<noteq> PROVIDER_COST \<longrightarrow> gr_cost_used g = 0) \<and>
     distinct (map u_idempotency_key (grant_uses (gr_grant_id g) (usages db'))) \<and>
     backed (approvals db') g \<and> gr_issuer g \<noteq> gr_principal g"
proof -
  from policy_history_ok [OF assms(1, 2)] have ok: "book_ok (approvals db', grants db', usages db')" by (simp add: book_def)
  have keys: "distinct (map u_idempotency_key (filter (\<lambda>u. u_grant_id u = i) us))"
    if "distinct (map (\<lambda>u. (u_grant_id u, u_idempotency_key u)) us)" for i us
    using that by (induction us) (force simp: image_iff)+
  have "distinct (map u_idempotency_key (grant_uses (gr_grant_id g) (usages db')))"
    using keys [of "usages db'"] ok by (simp add: grant_uses_def)
  moreover have c: "\<forall>u \<in> set (grant_uses (gr_grant_id g) (usages db')). 0 \<le> u_cost u"
    using ok by (simp add: grant_uses_def)
  have "0 \<le> sum_list (map u_cost (grant_uses (gr_grant_id g) (usages db')))"
    by (rule sum_list_nonneg) (use c in auto)
  moreover have "account_ok (usages db') g" "backed (approvals db') g" using ok assms(3) by auto
  moreover have "gr_issuer g \<noteq> gr_principal g" using ok \<open>backed (approvals db') g\<close> by (auto simp: backed_def)
  ultimately show ?thesis by (auto simp: account_ok_def)
qed

lemma dead_grant_history:
  assumes "policy_history T db db'" "book_ok (book db)" "g \<in> set (grants db)" "dead_grant T g"
  shows "\<exists>h \<in> set (grants db'). gr_grant_id h = gr_grant_id g \<and> dead_grant T h \<and>
     grant_uses (gr_grant_id g) (usages db') = grant_uses (gr_grant_id g) (usages db)"
  using engine.dead_grant_kept [OF policy_history_ledger [OF assms(1)] book_def book_def] assms(2-4) by (simp add: book_def)

lemma grant_history:
  assumes "policy_history T db db'" "book_ok (book db)" "g \<in> set (grants db)"
  shows "\<exists>h \<in> set (grants db'). gr_grant_id h = gr_grant_id g \<and> gr_expires_at h = gr_expires_at g \<and>
     (gr_revoked_at g \<noteq> None \<longrightarrow> gr_revoked_at h \<noteq> None)"
  using engine.grant_stays [OF policy_history_ledger [OF assms(1)] book_def book_def] assms(2, 3) by (fastforce simp: book_def)

lemma consume_as_principal_Inr:
  assumes "consume_as_principal env w s q0 db = Inr (u, db')"
  shows "\<exists>q capability stored pid roles g usage. clean_use w s q0 = Inr (q, capability, stored) \<and>
     acting_principal env stored s capability db = Inr (pid, roles) \<and>
     fetch_one (\<lambda>g. gr_grant_id g = uq_grant_id q) (grants db) = Some g \<and>
     check_use env q capability pid roles g db = Inr usage \<and>
     (case usage of Some r \<Rightarrow> u = use_of q g (u_used_at r) True \<and> db' = db | None \<Rightarrow> spend_grant env q pid g db = Inr (u, db'))"
  using assms by (auto simp: consume_as_principal_def bindr_eq_Inr split: option.split_asm prod.split_asm) (auto split: option.split)

lemma check_use_Inr:
  assumes "check_use env q capability pid roles g db = Inr usage"
  shows "\<exists>scope. grant_scope g = ((uq_project_id q, uq_goal_id q, uq_run_id q, uq_task_id q), pid,
       (capability, uq_action q, uq_resource q, uq_request_digest q)) \<and>
     find_task_scope (uq_project_id q) (uq_goal_id q) (uq_run_id q) (uq_task_id q) db = Inr scope \<and>
     assert_task_authority scope capability (uq_action q) (uq_resource q) = Inr () \<and>
     assert_task_lifecycle scope capability Consume = Inr () \<and>
     assert_gates env db (uq_task_id q) (capability, uq_action q, uq_resource q, uq_request_digest q) = Inr () \<and>
     (WORKER \<in> set roles \<longrightarrow> assert_current_task_claim env db (uq_project_id q) (uq_task_id q) pid = Inr ()) \<and>
     gr_required_fence g = uq_fence q \<and> usage = find_usage (uq_grant_id q) (uq_idempotency_key q) db \<and>
     gr_revoked_at g = None \<and> grant_valid_now env g \<and>
     (\<forall>f. gr_required_fence g = Some f \<longrightarrow>
        assert_current_lease env db (uq_resource q) (uq_project_id q) (uq_task_id q) pid f = Inr ())"
  using assms by (auto simp: check_use_def Let_def bindr_eq_Inr split: if_split_asm option.split_asm)

text \<open>C33.  A dead grant never pays again: once a grant is revoked, expired or used up, no history of
  policy commands records another use of it, and a use of a revoked or expired grant is refused,
  replays of earlier uses included.\<close>

theorem dead_grant_never_pays:
  assumes "policy_history T db db'" "book_ok (book db)" "g \<in> set (grants db)" "dead_grant T g"
  shows "grant_uses (gr_grant_id g) (usages db') = grant_uses (gr_grant_id g) (usages db) \<and>
     ((gr_revoked_at g \<noteq> None \<or> gr_expires_at g \<le> T) \<and> T \<le> now env \<and> strip (uq_grant_id q) = gr_grant_id g \<longrightarrow>
        consume env s q db' \<noteq> Inr r)"
proof (intro conjI impI)
  show "grant_uses (gr_grant_id g) (usages db') = grant_uses (gr_grant_id g) (usages db)"
    using dead_grant_history [OF assms] by blast
  assume d: "(gr_revoked_at g \<noteq> None \<or> gr_expires_at g \<le> T) \<and> T \<le> now env \<and> strip (uq_grant_id q) = gr_grant_id g"
  obtain h where h: "h \<in> set (grants db')" "gr_grant_id h = gr_grant_id g" "gr_revoked_at h \<noteq> None \<or> gr_expires_at h \<le> T"
    using grant_history [OF assms(1-3)] d by fastforce
  have "distinct (map gr_grant_id (grants db'))" using policy_history_ok [OF assms(1, 2)] by (simp add: book_def)
  with h have f: "fetch_one (\<lambda>x. gr_grant_id x = gr_grant_id g) (grants db') = Some h"
    using fetch_one_key [of gr_grant_id "grants db'" h] by simp
  show "consume env s q db' \<noteq> Inr r"
  proof
    assume "consume env s q db' = Inr r"
    then obtain u db2 where "consume_as_principal env None s q db' = Inr (u, db2)" by (cases r) (simp add: consume_def)
    from consume_as_principal_Inr [OF this] obtain q' c stored pid roles x usage where
      x: "clean_use None s q = Inr (q', c, stored)" "fetch_one (\<lambda>x. gr_grant_id x = uq_grant_id q') (grants db') = Some x"
        "check_use env q' c pid roles x db' = Inr usage" by blast
    then have "x = h" using f d clean_use_Inr [OF x(1)] by simp
    with check_use_Inr [OF x(3)] h(3) d show False by (auto simp: grant_valid_now_def)
  qed
qed

lemma use_of_simps [simp]:
  "cu_grant_id (use_of q g t r) = uq_grant_id q" "cu_idempotency_key (use_of q g t r) = uq_idempotency_key q"
  "cu_cost (use_of q g t r) = uq_cost q" "cu_used_at (use_of q g t r) = t" "cu_replayed (use_of q g t r) = r"
  by (simp_all add: use_of_def)

lemma spend_grant_Inr:
  assumes "spend_grant env q pid g db = Inr (u, db')"
  shows "\<exists>x row. u = use_of q x (now env) False \<and> u_grant_id row = uq_grant_id q \<and> u_idempotency_key row = uq_idempotency_key q \<and>
     u_cost row = uq_cost q \<and> u_used_at row = now env \<and> usages db' = usages db @ [row] \<and>
     grants db' = update_where (spendable env (uq_grant_id q) (uq_cost q)) (spend (uq_cost q)) (grants db) \<and>
     approvals db' = approvals db \<and> (\<exists>h. filter (spendable env (uq_grant_id q) (uq_cost q)) (grants db) = [h])"
  using assms unfolding spend_grant_def
  by (auto simp: bindr_eq_Inr Let_def length_Suc_conv draw_uuid_def split: if_split_asm dest!: append_event_frame)

lemma find_task_scope_Inr:
  assumes "find_task_scope p g r t db = Inr (task, goal, run)"
  shows "task \<in> set (tasks db) \<and> t_task_id task = t \<and> t_project_id task = p \<and> t_goal_id task = g \<and> t_run_id task = Some r \<and>
     goal \<in> set (goals db) \<and> g_goal_id goal = g \<and> run \<in> set (runs db) \<and> r_run_id run = r"
  using assms by (auto simp: find_task_scope_def bindr_eq_Inr dest!: fetch_one_SomeD)

lemma except_map_passes: "except_map h m = Inr a \<longleftrightarrow> m = Inr a"
  by (cases m) (auto simp: except_map_def)

lemma foldm_checks: "foldm (\<lambda>x _. bindr (f x) (\<lambda>b. ensure (\<not> b) e)) xs () = Inr () \<longleftrightarrow> (\<forall>x \<in> set xs. f x = Inr False)"
  by (induction xs) (auto simp: bindr_eq_Inr)

lemma guard_Inr: "(if b then Inl e else m) = Inr x \<longleftrightarrow> \<not> b \<and> m = Inr x"
  by simp

lemma assert_task_authority_Inr:
  assumes "assert_task_authority (t, g, r) capability action resource = Inr ()"
  shows "\<exists>spec goal read. load_task_spec (t_spec t) = Inr spec \<and> load_goal_spec (g_spec g) = Inr goal \<and>
     validate_task_within_goal goal spec = Inr () \<and> capability \<in> set (ts_capabilities spec) \<and>
     read_kind capability action = Inr read \<and>
     scope_allowed (if read then ts_read_scope spec else ts_write_scope spec) resource = Inr True \<and>
     (\<forall>d \<in> set (ts_forbidden_scope spec). scopes_overlap resource d = Inr False)"
  using assms by (auto simp: assert_task_authority_def except_map_passes bindr_eq_Inr foldm_checks guard_Inr split del: if_split)

lemma acting_session:
  assumes "acting_principal env stored (Some s) capability db = Inr (pid, roles)"
  shows "\<exists>p. verify_session env None (Some s) db = Inr p \<and> pr_principal_id p = pid \<and> pr_roles p = roles \<and>
     set roles \<inter> set (execution_roles capability) \<noteq> {}"
  using assms by (auto simp: acting_principal_def bindr_eq_Inr assert_execution_role_def)

text \<open>What the stored authority of the Task demands of a request.\<close>

definition gates_open :: "env \<Rightarrow> db \<Rightarrow> string \<Rightarrow> request \<Rightarrow> bool" where
  "gates_open env db task_id req \<longleftrightarrow> (case validated_task_authority_binding env db task_id of
       Inl _ \<Rightarrow> False
     | Inr None \<Rightarrow> True
     | Inr (Some (authority, binding)) \<Rightarrow>
         (\<forall>c \<in> set (ta_decision_gate_contracts authority).
            (gc_capability c, gc_action c, gc_resource c) = (fst req, fst (snd req), fst (snd (snd req))) \<longrightarrow>
            gate_satisfied env db task_id (Some req) authority binding (gc_gate_id c)))"

lemma assert_gates_Inr: "assert_gates env db task_id req = Inr () \<Longrightarrow> gates_open env db task_id req"
proof -
  assume g: "assert_gates env db task_id req = Inr ()"
  show ?thesis
  proof (cases "validated_task_authority_binding env db task_id")
    case (Inl e)
    with g show ?thesis
      by (cases e; cases req) (simp_all add: assert_gates_def decision_gates_for_request_def on_authorization_error_def
          required_decision_gates_satisfied_def)
  next
    case (Inr v)
    with g show ?thesis
      by (cases v; cases req) (auto simp: assert_gates_def gates_open_def decision_gates_for_request_def
          on_authorization_error_def required_decision_gates_satisfied_def)
  qed
qed


section \<open>Replays and the abstract purse\<close>

lemma book_step_usages:
  assumes "book_step t (as, gs, us) (as', gs', us')"
  shows "\<exists>vs. us' = us @ vs"
  using assms by cases auto

lemma policy_history_usages: "policy_history T db db' \<Longrightarrow> \<exists>vs. usages db' = usages db @ vs"
proof (induction rule: policy_history.induct)
  case (policy_more db db' env c db'')
  from book_step_usages run_policy_cmd_book [OF policy_more.hyps(2)] obtain vs where "usages db'' = usages db' @ vs"
    unfolding book_def by blast
  with policy_more.IH show ?case by auto
qed (auto simp: book_def)

lemma find_usage_unique:
  assumes "book_ok (book db)" "row \<in> set (usages db)" "u_grant_id row = i" "u_idempotency_key row = k"
  shows "find_usage i k db = Some row"
proof -
  have "distinct (map (\<lambda>u. (u_grant_id u, u_idempotency_key u)) (usages db))" using assms(1) by (simp add: book_def)
  from fetch_one_key [OF this assms(2)] assms(3, 4) show ?thesis by (simp add: find_usage_def)
qed

text \<open>One key, one use: after a use of a grant under an idempotency key, any later request with
  this grant and key that succeeds, whatever happened in between, is a replay of it: it returns the
  time of the first use and changes nothing.\<close>

theorem consume_idempotent:
  assumes "book_ok (book db)" "consume env s q db = Inr (u, db1)" "policy_history T db1 db2"
    and "consume env' s' q' db2 = Inr (u', db3)"
    and "cu_grant_id u' = cu_grant_id u" "cu_idempotency_key u' = cu_idempotency_key u"
  shows "cu_replayed u' \<and> db3 = db2 \<and> cu_used_at u' = cu_used_at u \<and> cu_cost u' = cu_cost u"
proof -
  from consume_as_principal_Inr [OF assms(2) [unfolded consume_def]] obtain p c stored pid roles g usage where
    chk: "check_use env p c pid roles g db = Inr usage"
    and res: "case usage of Some r \<Rightarrow> u = use_of p g (u_used_at r) True \<and> db1 = db | None \<Rightarrow> spend_grant env p pid g db = Inr (u, db1)"
    by blast
  have "\<exists>row \<in> set (usages db1). u_grant_id row = cu_grant_id u \<and> u_idempotency_key row = cu_idempotency_key u \<and>
      u_used_at row = cu_used_at u \<and> u_cost row = cu_cost u"
  proof (cases usage)
    case (Some r)
    with check_use_Inr [OF chk] have "find_usage (uq_grant_id p) (uq_idempotency_key p) db = Some r" by auto
    moreover have "u_cost r = uq_cost p" using chk Some by (auto simp: check_use_def Let_def bindr_eq_Inr split: if_split_asm)
    ultimately show ?thesis using Some res by (auto simp: find_usage_def dest!: fetch_one_SomeD)
  next
    case None
    with res spend_grant_Inr show ?thesis by fastforce
  qed
  then obtain row where row: "row \<in> set (usages db1)" "u_grant_id row = cu_grant_id u" "u_idempotency_key row = cu_idempotency_key u"
    "u_used_at row = cu_used_at u" "u_cost row = cu_cost u" by blast
  have ok1: "book_ok (book db1)"
    using book_step_ok [OF _ assms(1)] returnsD [OF consume_as_principal_book assms(2) [unfolded consume_def]] by auto
  have "row \<in> set (usages db2)" using policy_history_usages [OF assms(3)] row(1) by auto
  from find_usage_unique [OF policy_history_ok [OF assms(3) ok1] this]
  have f: "find_usage (cu_grant_id u) (cu_idempotency_key u) db2 = Some row" using row(2, 3) by simp
  from consume_as_principal_Inr [OF assms(4) [unfolded consume_def]] obtain p' c' stored' pid' roles' g' usage' where
    chk': "check_use env' p' c' pid' roles' g' db2 = Inr usage'"
    and res': "case usage' of Some r \<Rightarrow> u' = use_of p' g' (u_used_at r) True \<and> db3 = db2
      | None \<Rightarrow> spend_grant env' p' pid' g' db2 = Inr (u', db3)" by blast
  have ids: "cu_grant_id u' = uq_grant_id p' \<and> cu_idempotency_key u' = uq_idempotency_key p'"
    using res' by (auto split: option.splits dest!: spend_grant_Inr)
  with check_use_Inr [OF chk'] f assms(5, 6) have "usage' = Some row" by auto
  moreover from this chk' have "u_cost row = uq_cost p'" by (auto simp: check_use_def Let_def bindr_eq_Inr split: if_split_asm)
  ultimately show ?thesis using res' row(4, 5) by auto
qed

text \<open>What a grant is to its holder: the uses and the money left.\<close>

type_synonym purse = "string \<Rightarrow> (int \<times> int) option"

definition purse :: "db \<Rightarrow> purse" where
  "purse db i = map_option (\<lambda>g. (gr_max_uses g - gr_used_count g, gr_cost_limit g - gr_cost_used g))
     (fetch_one (\<lambda>g. gr_grant_id g = i) (grants db))"

definition pay :: "string \<Rightarrow> int \<Rightarrow> purse \<Rightarrow> purse option" where
  "pay i c p = (case p i of None \<Rightarrow> None | Some (n, m) \<Rightarrow> if 0 < n \<and> c \<le> m then Some (p(i \<mapsto> (n - 1, m - c))) else None)"

lemma purse_book: "book db' = book db \<Longrightarrow> purse db' = purse db"
  by (simp add: book_def purse_def fun_eq_iff)

lemma spend_grant_pays:
  assumes "book_ok (book db)" "spend_grant env q pid g db = Inr (u, db')"
  shows "pay (uq_grant_id q) (uq_cost q) (purse db) = Some (purse db')"
proof -
  let ?P = "spendable env (uq_grant_id q) (uq_cost q)" and ?i = "uq_grant_id q"
  from spend_grant_Inr [OF assms(2)] obtain h where h: "filter ?P (grants db) = [h]"
    and gs: "grants db' = update_where ?P (spend (uq_cost q)) (grants db)" by blast
  from filter_singleton [OF h] have m: "h \<in> set (grants db)" "?P h" and only: "\<And>x. x \<in> set (grants db) \<Longrightarrow> ?P x \<Longrightarrow> x = h" by auto
  have dist: "distinct (map gr_grant_id (grants db))" using assms(1) by (simp add: book_def)
  have f: "fetch_one (\<lambda>x. gr_grant_id x = ?i) (grants db) = Some h"
    using fetch_one_key [OF dist m(1)] m(2) by (simp add: payable_spendable)
  have "purse db' j = (if j = ?i then Some (gr_max_uses h - gr_used_count h - 1, gr_cost_limit h - gr_cost_used h - uq_cost q) else purse db j)" for j
  proof -
    have "fetch_one (\<lambda>x. gr_grant_id x = j) (grants db') =
        map_option (\<lambda>x. if ?P x then spend (uq_cost q) x else x) (fetch_one (\<lambda>x. gr_grant_id x = j) (grants db))"
      unfolding gs by (rule fetch_one_update_frame) simp
    then show ?thesis
      using f m(2) by (auto simp: purse_def option.map_comp o_def payable_spendable
          intro!: option.map_cong0 dest!: fetch_one_SomeD)
  qed
  then have "purse db' = (purse db)(?i \<mapsto> (gr_max_uses h - gr_used_count h - 1, gr_cost_limit h - gr_cost_used h - uq_cost q))"
    by (auto simp: fun_eq_iff)
  moreover have "purse db ?i = Some (gr_max_uses h - gr_used_count h, gr_cost_limit h - gr_cost_used h)" using f by (simp add: purse_def)
  moreover have "gr_used_count h < gr_max_uses h" "gr_cost_used h + uq_cost q \<le> gr_cost_limit h"
    using m(2) by (auto simp: payable_spendable payable_def)
  ultimately show ?thesis by (simp add: pay_def)
qed

lemma consume_outcome:
  assumes "consume env s q db = Inr (u, db1)"
  shows "if cu_replayed u then db1 = db
     else (book_ok (book db) \<longrightarrow> pay (cu_grant_id u) (cu_cost u) (purse db) = Some (purse db1)) \<and> (\<exists>row. usages db1 = usages db @ [row])"
proof -
  from consume_as_principal_Inr [OF assms [unfolded consume_def]] obtain p c stored pid roles x usage where
    "check_use env p c pid roles x db = Inr usage"
    and "case usage of Some r \<Rightarrow> u = use_of p x (u_used_at r) True \<and> db1 = db | None \<Rightarrow> spend_grant env p pid x db = Inr (u, db1)"
    by blast
  then show ?thesis
    using spend_grant_pays spend_grant_Inr by (cases usage) fastforce+
qed

text \<open>C35.  The operations of the engine implement a purse per grant: a use pays one use and its cost out
  of the purse of its grant and nothing else, a replay pays nothing, issuing a grant fills one new
  purse, and approvals and revocations leave every purse as it is.\<close>

theorem policy_refines_purse:
  assumes "book_ok (book db)"
  shows "(consume env s q db = Inr (u, db1) \<longrightarrow>
      (if cu_replayed u then purse db1 = purse db else pay (cu_grant_id u) (cu_cost u) (purse db) = Some (purse db1))) \<and>
    (issue_grant env gq db = Inr (g, db2) \<longrightarrow> purse db (gr_grant_id g) = None \<and>
      purse db2 = (purse db)(gr_grant_id g \<mapsto> (gq_max_uses gq, gq_cost_limit gq))) \<and>
    (record_approval env pe aq db = Inr (a, db3) \<longrightarrow> purse db3 = purse db) \<and>
    (revoke_grant env i s db = Inr (g', db4) \<longrightarrow> purse db4 = purse db)"
proof (intro conjI impI)
  assume "consume env s q db = Inr (u, db1)"
  from consume_outcome [OF this] assms
  show "if cu_replayed u then purse db1 = purse db else pay (cu_grant_id u) (cu_cost u) (purse db) = Some (purse db1)"
    by (auto split: if_split_asm)
next
  assume r: "record_approval env pe aq db = Inr (a, db3)"
  have "returns (record_approval env pe aq db) (\<lambda>(a, db'). grants db' = grants db)"
    unfolding record_approval_def by (intro returns_steps) (auto dest!: policy_frame)
  from returnsD [OF this r] show "purse db3 = purse db" by (simp add: purse_def fun_eq_iff)
next
  assume r: "revoke_grant env i s db = Inr (g', db4)"
  have "returns (revoke_grant env i s db) (\<lambda>(a, db'). purse db' = purse db)"
    unfolding revoke_grant_def
    by (intro returns_steps)
      (auto simp: purse_def fun_eq_iff fetch_one_update_frame option.map_comp o_def dest!: policy_frame intro!: option.map_cong0)
  from returnsD [OF this r] show "purse db4 = purse db" by simp
next
  assume r: "issue_grant env gq db = Inr (g, db2)"
  have i: "returns (issue_grant env gq db) (\<lambda>(g, db'). grants db' = grants db @ [g] \<and> gr_max_uses g = gq_max_uses gq \<and>
      gr_cost_limit g = gq_cost_limit gq \<and> gr_used_count g = 0 \<and> gr_cost_used g = 0 \<and> (\<forall>h \<in> set (grants db). gr_grant_id g \<noteq> gr_grant_id h))"
    unfolding issue_grant_def by (intro returns_steps) (auto simp: grant_clash_def dest!: policy_frame)
  note f = returnsD [OF i r, simplified]
  show "purse db (gr_grant_id g) = None" using f by (auto simp: purse_def)
  show "purse db2 = (purse db)(gr_grant_id g \<mapsto> (gq_max_uses gq, gq_cost_limit gq))"
  proof
    fix j
    have "fetch_one (\<lambda>x. gr_grant_id x = gr_grant_id g) (grants db) = None" using f by auto
    then show "purse db2 j = ((purse db)(gr_grant_id g \<mapsto> (gq_max_uses gq, gq_cost_limit gq))) j"
      using f by (simp add: purse_def fetch_one_append del: fetch_one_None split: option.splits)
  qed
qed

section \<open>Provider budgets\<close>

lemma reserved_snoc:
  "live_grant env g \<Longrightarrow> P g \<Longrightarrow> gr_capability g = PROVIDER_COST \<Longrightarrow>
     reserved_cost env P (gs @ [g]) = reserved_cost env P gs + gr_cost_limit g \<and>
     reserved_calls env P (gs @ [g]) = reserved_calls env P gs + gr_max_uses g"
  by (simp add: reserved_cost_def reserved_calls_def)

lemma reserved_later:
  assumes "now env \<le> t" "\<forall>g \<in> set gs. 0 \<le> gr_cost_limit g \<and> 0 \<le> gr_max_uses g"
  shows "reserved_cost (env\<lparr>now := t\<rparr>) P gs \<le> reserved_cost env P gs \<and> reserved_calls (env\<lparr>now := t\<rparr>) P gs \<le> reserved_calls env P gs"
  using assms(2) by (induction gs) (use assms(1) in \<open>auto simp: reserved_cost_def reserved_calls_def live_grant_def\<close>)

lemma issue_grant_Inr:
  "returns (issue_grant env q db) (\<lambda>(g, db'). grants db' = grants db @ [g] \<and> live_grant env g \<and> gr_max_uses g = gq_max_uses q \<and>
     gr_cost_limit g = gq_cost_limit q \<and> 0 \<le> gq_cost_limit q \<and> 1 \<le> gq_max_uses q \<and> goals db' = goals db \<and>
     (\<exists>n a. (gr_capability g = PROVIDER_COST \<longrightarrow> assert_reservation env (db\<lparr>uuid_next := n\<rparr>) a (gq_max_uses q) (gq_cost_limit q) = Inr ()) \<and>
        gr_run_id g = ap_run_id a \<and> gr_task_id g = ap_task_id a \<and> gr_goal_id g = ap_goal_id a))"
  unfolding issue_grant_def
  by (intro returns_steps) (auto simp: live_grant_def grant_of_request_def seconds_def dest!: policy_frame split: if_splits)


text \<open>A grant that has expired no longer counts, whatever was spent under it: the bound is on what is
  reserved at one time, not on what a run spends in total.\<close>

lemma lapsed_reservation_forgotten:
  "gr_expires_at g \<le> now env \<Longrightarrow> reserved_cost env P (gs @ [g]) = reserved_cost env P gs \<and>
     reserved_calls env P (gs @ [g]) = reserved_calls env P gs"
  by (simp add: reserved_cost_def reserved_calls_def live_grant_def)

section \<open>Instances\<close>

definition provider_task :: task_spec where
  "provider_task = sample_task\<lparr>ts_capabilities := [PROVIDER_COST], ts_read_scope := [], ts_write_scope := [''provider://fake'']\<rparr>"

definition provider_goal :: goal_spec where
  "provider_goal = sample_goal\<lparr>gs_allowed_capabilities := [PROVIDER_COST], gs_write_scope := [''provider://fake''],
     gs_provider_budget_minor_units := 10, gs_provider_call_limit := 2\<rparr>"

definition policy_task_row :: task_row where
  "policy_task_row = (sample_task_row TS_RUNNING 1)\<lparr>t_spec := JObj (task_to_dict provider_task)\<rparr>"

definition policy_goal_row :: goal_row where
  "policy_goal_row = \<lparr>g_goal_id = ''g1'', g_project_id = ''p1'', g_state = GS_COMPILED, g_spec = JObj (goal_to_dict provider_goal),
     g_version = 1, g_created_at = 0, g_updated_at = 0\<rparr>"

definition policy_run_row :: run_row where
  "policy_run_row = \<lparr>r_run_id = ''r1'', r_goal_id = ''g1'', r_project_id = ''p1'', r_loop_state = LS_RUNNING,
     r_policy_version = ''v1'', r_version = 1, r_created_at = 0, r_updated_at = 0\<rparr>"

definition policy_lease :: lease_row where
  "policy_lease = \<lparr>l_resource_key = ''task://t1'', l_project_id = ''p1'', l_task_id = ''t1'', l_holder = ''will'', l_fence = 1,
     l_issued_at = 0, l_expires_at = 1000, l_released_at = None\<rparr>"

definition sample_approval :: approval_row where
  "sample_approval = \<lparr>ap_approval_id = ''ap1'', ap_project_id = ''p1'', ap_goal_id = ''g1'', ap_run_id = ''r1'', ap_task_id = ''t1'',
     ap_requester = ''will'', ap_approver = Some ''olga'', ap_capability = PROVIDER_COST, ap_action = ''generate'',
     ap_resource = ''provider://fake'', ap_request_digest = sample_digest, ap_binding_digest = None,
     ap_binding_version = None, ap_decision_gate = None, ap_policy_version = ''v1'', ap_decision = ''approved'',
     ap_requested_at = 0, ap_decided_at = Some 0, ap_expires_at = Some (seconds 100)\<rparr>"

definition sample_grant :: grant_row where
  "sample_grant = \<lparr>gr_grant_id = ''gr1'', gr_project_id = ''p1'', gr_goal_id = ''g1'', gr_run_id = ''r1'', gr_task_id = ''t1'',
     gr_approval_id = Some ''ap1'', gr_issuer = ''olga'', gr_principal = ''will'', gr_capability = PROVIDER_COST,
     gr_action = ''generate'', gr_resource = ''provider://fake'', gr_request_digest = sample_digest,
     gr_policy_version = ''v1'', gr_not_before = 0, gr_expires_at = seconds 50, gr_max_uses = 1, gr_used_count = 0,
     gr_cost_limit = 5, gr_cost_used = 0, gr_required_fence = None, gr_revoked_at = None\<rparr>"

definition policy_db :: "grant_row list \<Rightarrow> usage_row list \<Rightarrow> db" where
  "policy_db gs us = sample_db\<lparr>goals := [policy_goal_row], runs := [policy_run_row], tasks := [policy_task_row],
     leases := [policy_lease], approvals := [sample_approval], grants := gs, usages := us\<rparr>"

definition sample_use :: use_request where
  "sample_use = \<lparr>uq_grant_id = ''gr1'', uq_project_id = ''p1'', uq_goal_id = ''g1'', uq_run_id = ''r1'', uq_task_id = ''t1'',
     uq_capability = ''provider_cost'', uq_action = ''generate'', uq_resource = ''provider://fake'',
     uq_request_digest = sample_digest, uq_idempotency_key = ''k1'', uq_cost = 4, uq_fence = None, uq_effect_id = None\<rparr>"

definition sample_usage :: usage_row where
  "sample_usage = \<lparr>u_grant_id = ''gr1'', u_idempotency_key = ''k1'', u_request_digest = sample_digest, u_cost = 4,
     u_used_at = 5, u_effect_id = None\<rparr>"

definition sample_grant_request :: grant_request where
  "sample_grant_request = \<lparr>gq_approval_id = ''ap1'', gq_issuer = Some (sample_session ''olga''),
     gq_principal = Some (sample_session ''will''), gq_capability = ''provider_cost'', gq_action = ''generate'',
     gq_resource = ''provider://fake'', gq_request_digest = sample_digest, gq_policy_version = ''v1'', gq_ttl_seconds = 50,
     gq_max_uses = 1, gq_cost_limit = 5, gq_required_fence = None, gq_grant_id = Some ''gr2''\<rparr>"

lemma sample_policy_checks:
  "clean_use None (Some s) sample_use = Inr (sample_use, PROVIDER_COST, None)"
  "assert_task_authority (policy_task_row, policy_goal_row, policy_run_row) PROVIDER_COST ''generate'' ''provider://fake'' = Inr ()"
  "load_goal_spec (g_spec policy_goal_row) = Inr provider_goal"
  "policy_digest sample_digest = Inr sample_digest" "policy_capability ''provider_cost'' = Inr PROVIDER_COST"
  "policy_text ''gr2'' = Inr ''gr2''" "policy_text ''ap1'' = Inr ''ap1''" "policy_text ''generate'' = Inr ''generate''"
  "policy_text ''provider://fake'' = Inr ''provider://fake''" "policy_text ''v1'' = Inr ''v1''"
  by (code_simp+)

lemma sample_scope:
  "find_task_scope ''p1'' ''g1'' ''r1'' ''t1'' (policy_db gs us) = Inr (policy_task_row, policy_goal_row, policy_run_row)"
  "find_task_scope ''p1'' ''g1'' ''r1'' ''t1'' (policy_db gs us\<lparr>uuid_next := n\<rparr>) = Inr (policy_task_row, policy_goal_row, policy_run_row)"
  by (simp_all add: find_task_scope_def policy_db_def policy_task_row_def sample_task_row_def policy_goal_row_def policy_run_row_def)

lemma sample_lifecycle: "assert_task_lifecycle (policy_task_row, policy_goal_row, policy_run_row) PROVIDER_COST ph = Inr ()"
  by (simp add: assert_task_lifecycle_def promotion_capabilities_def policy_task_row_def sample_task_row_def policy_run_row_def
      allowed_run_states_def allowed_task_states_def integration_capabilities_def)

lemma sample_unbound: "validated_task_authority_binding env (policy_db gs us) ''t1'' = Inr None"
  by (simp add: validated_task_authority_binding_def policy_db_def sample_db_def empty_db_def policy_task_row_def sample_task_row_def exists_row_def)

lemma sample_sessions:
  "verify_session (sample_env 5) None (Some (sample_session ''will'')) (policy_db gs us) =
     Inr \<lparr>pr_principal_id = ''will'', pr_display_name = ''will'', pr_roles = [WORKER], pr_enabled = True, pr_credential_version = 1\<rparr>"
  "require_role (sample_env 5) OWNER (Some (sample_session ''olga'')) (policy_db gs us) =
     Inr \<lparr>pr_principal_id = ''olga'', pr_display_name = ''olga'', pr_roles = [OWNER], pr_enabled = True, pr_credential_version = 1\<rparr>"
  by (simp_all add: policy_db_def identity_eval sample_eval Let_def cong: bind_eval)

lemma sample_check_use:
  "check_use (sample_env 5) sample_use PROVIDER_COST ''will'' [WORKER] (sample_grant\<lparr>gr_used_count := n, gr_cost_used := c\<rparr>) (policy_db gs us) =
     (if \<exists>u. find_usage ''gr1'' ''k1'' (policy_db gs us) = Some u \<and>
          (u_request_digest u \<noteq> sample_digest \<or> u_cost u \<noteq> 4 \<or> u_effect_id u \<noteq> None)
      then Inl (AuthorizationError ''idempotency key was already used for a different request'')
      else Inr (find_usage ''gr1'' ''k1'' (policy_db gs us)))"
proof -
  have "assert_current_task_claim (sample_env 5) (policy_db gs us) ''p1'' ''t1'' ''will'' = Inr ()"
    by (simp add: assert_current_task_claim_def policy_db_def policy_lease_def lease_active_def sample_env_def)
  then show ?thesis
    by (auto simp: check_use_def sample_use_def sample_grant_def grant_scope_def sample_scope sample_policy_checks sample_lifecycle
        assert_gates_def decision_gates_for_request_def on_authorization_error_def required_decision_gates_satisfied_def sample_unbound
        grant_valid_now_def sample_env_def seconds_def Let_def split: option.splits)
qed

lemma policy_db_sel [simp]:
  "goals (policy_db gs us) = [policy_goal_row]" "grants (policy_db gs us) = gs" "usages (policy_db gs us) = us"
  "approvals (policy_db gs us) = [sample_approval]" "events (policy_db gs us) = []"
  by (simp_all add: policy_db_def sample_db_def empty_db_def)

lemma sample_acting:
  "acting_principal (sample_env 5) None (Some (sample_session ''will'')) PROVIDER_COST (policy_db gs us) = Inr (''will'', [WORKER])"
  by (simp add: acting_principal_def sample_sessions assert_execution_role_def)

lemma sample_spend:
  "\<exists>u db. spend_grant (sample_env 5) sample_use ''will'' sample_grant (policy_db [sample_grant] []) = Inr (u, db)"
proof -
  have "assert_task_budget (sample_env 5) (policy_db [sample_grant] []) ''t1'' 4 = Inr ()"
    by (simp add: assert_task_budget_def sample_unbound)
  then show ?thesis
    by (simp add: spend_grant_def sample_use_def sample_grant_def spendable_def grant_valid_now_def seconds_def draw_uuid_def
        spend_def use_event_def event_defaults_def policy_db_def sample_eval store_eval Let_def cong: bind_eval)
qed

definition used_grant :: grant_row where
  "used_grant = sample_grant\<lparr>gr_used_count := 1, gr_cost_used := 4\<rparr>"

lemma sample_ids [simp]:
  "uq_grant_id sample_use = ''gr1''" "gr_grant_id sample_grant = ''gr1''" "gr_grant_id used_grant = ''gr1''"
  by (simp_all add: sample_use_def sample_grant_def used_grant_def)

lemma sample_consume:
  "\<exists>u db. consume (sample_env 5) (Some (sample_session ''will'')) sample_use (policy_db [sample_grant] []) = Inr (u, db) \<and> \<not> cu_replayed u"
proof -
  obtain u db where sp: "spend_grant (sample_env 5) sample_use ''will'' sample_grant (policy_db [sample_grant] []) = Inr (u, db)"
    using sample_spend by blast
  have "sample_grant\<lparr>gr_used_count := 0, gr_cost_used := 0\<rparr> = sample_grant" by (simp add: sample_grant_def)
  with sample_check_use [where n = 0 and c = 0 and gs = "[sample_grant]" and us = "[]"]
  have "check_use (sample_env 5) sample_use PROVIDER_COST ''will'' [WORKER] sample_grant (policy_db [sample_grant] []) = Inr None"
    by (simp add: find_usage_def policy_db_def)
  then have "consume (sample_env 5) (Some (sample_session ''will'')) sample_use (policy_db [sample_grant] []) = Inr (u, db)"
    using sp by (simp add: consume_def consume_as_principal_def sample_policy_checks sample_acting)
  then show ?thesis using spend_grant_Inr [OF sp] by auto
qed

lemma sample_usage_at: "u_used_at sample_usage = 5"
  by (simp add: sample_usage_def)

lemma sample_replay:
  "consume (sample_env 5) (Some (sample_session ''will'')) sample_use (policy_db [used_grant] [sample_usage]) =
     Inr (use_of sample_use used_grant 5 True, policy_db [used_grant] [sample_usage])"
proof -
  have "find_usage ''gr1'' ''k1'' (policy_db [used_grant] [sample_usage]) = Some sample_usage"
    by (simp add: find_usage_def policy_db_def sample_usage_def)
  then have "check_use (sample_env 5) sample_use PROVIDER_COST ''will'' [WORKER] used_grant (policy_db [used_grant] [sample_usage]) = Inr (Some sample_usage)"
    using sample_check_use [where n = 1 and c = 4 and gs = "[used_grant]" and us = "[sample_usage]"] by (simp add: used_grant_def sample_usage_def)
  then show ?thesis
    by (simp add: consume_def consume_as_principal_def sample_policy_checks sample_acting sample_usage_at)
qed

lemma sample_book_ok: "book_ok (book (policy_db [sample_grant] []))" "book_ok (book (policy_db [used_grant] [sample_usage]))"
  by (simp_all add: book_def policy_db_def sample_approval_def sample_grant_def used_grant_def sample_usage_def account_ok_def
      backed_def grant_uses_def seconds_def)

lemma policy_books_balance_witness:
  "\<exists>db. policy_history 5 (policy_db [sample_grant] []) db \<and> usages db \<noteq> [] \<and> (\<forall>g \<in> set (grants db). gr_used_count g \<le> gr_max_uses g)"
proof -
  obtain u db where c: "consume (sample_env 5) (Some (sample_session ''will'')) sample_use (policy_db [sample_grant] []) = Inr (u, db)" "\<not> cu_replayed u"
    using sample_consume by blast
  have "run_policy_cmd (sample_env 5) (Consume_Grant (Some (sample_session ''will'')) sample_use) (policy_db [sample_grant] []) = Inr db"
    using c(1) by simp
  then have h: "policy_history 5 (policy_db [sample_grant] []) db" by (rule policy_more [OF policy_start]) (simp add: sample_env_def)
  from consume_outcome [OF c(1)] c(2) have "usages db \<noteq> []" by auto
  with h policy_books_balance [OF h sample_book_ok(1)] show ?thesis by blast
qed

lemma dead_grant_never_pays_witness:
  "\<not> (\<exists>r. consume (sample_env 9) (Some (sample_session ''will'')) sample_use
          (policy_db [sample_grant\<lparr>gr_revoked_at := Some 3\<rparr>] []) = Inr r)"
proof -
  let ?g = "sample_grant\<lparr>gr_revoked_at := Some 3\<rparr>"
  have ok: "book_ok (book (policy_db [?g] []))"
    by (simp add: book_def policy_db_def sample_approval_def sample_grant_def account_ok_def backed_def grant_uses_def seconds_def)
  have g: "?g \<in> set (grants (policy_db [?g] []))" and d: "dead_grant 5 ?g" by (simp_all add: policy_db_def dead_grant_def)
  have "strip ''gr1'' = ''gr1''" by code_simp
  then have "consume (sample_env 9) (Some (sample_session ''will'')) sample_use (policy_db [?g] []) \<noteq> Inr r" for r
    using dead_grant_never_pays [OF policy_start ok g d] by (simp add: sample_env_def sample_use_def sample_grant_def)
  then show ?thesis by blast
qed


lemma consume_idempotent_witness:
  "cu_replayed (use_of sample_use used_grant 5 True) \<and> cu_used_at (use_of sample_use used_grant 5 True) = 5"
  using consume_idempotent [OF sample_book_ok(2) sample_replay policy_start sample_replay] by simp

lemma policy_refines_purse_witness:
  "\<exists>u db. consume (sample_env 5) (Some (sample_session ''will'')) sample_use (policy_db [sample_grant] []) = Inr (u, db) \<and>
     pay (cu_grant_id u) (cu_cost u) (purse (policy_db [sample_grant] [])) = Some (purse db)"
proof -
  obtain u db where c: "consume (sample_env 5) (Some (sample_session ''will'')) sample_use (policy_db [sample_grant] []) = Inr (u, db)" "\<not> cu_replayed u"
    using sample_consume by blast
  with policy_refines_purse [OF sample_book_ok(1), of "sample_env 5" "Some (sample_session ''will'')" sample_use u db] show ?thesis by auto
qed

lemma sample_approval_fields:
  "ap_approval_id sample_approval = ''ap1''" "ap_project_id sample_approval = ''p1''" "ap_goal_id sample_approval = ''g1''"
  "ap_run_id sample_approval = ''r1''" "ap_task_id sample_approval = ''t1''" "ap_requester sample_approval = ''will''"
  "ap_approver sample_approval = Some ''olga''" "ap_capability sample_approval = PROVIDER_COST" "ap_action sample_approval = ''generate''"
  "ap_resource sample_approval = ''provider://fake''" "ap_request_digest sample_approval = sample_digest"
  "ap_policy_version sample_approval = ''v1''" "ap_decision sample_approval = ''approved''" "ap_expires_at sample_approval = Some (seconds 100)"
  by (simp_all add: sample_approval_def)

lemma sample_env_now: "now (sample_env t) = t"
  by (simp add: sample_env_def)

lemma sample_issue:
  "\<exists>g db. issue_grant (sample_env 5) sample_grant_request (policy_db [sample_grant] []) = Inr (g, db) \<and> gr_capability g = PROVIDER_COST"
proof -
  have "assert_gates (sample_env 5) (policy_db gs us) ''t1'' req = Inr ()" for gs us req
    by (cases req) (simp add: assert_gates_def decision_gates_for_request_def on_authorization_error_def
        required_decision_gates_satisfied_def sample_unbound)
  moreover have "assert_reservation (sample_env 5) (policy_db [sample_grant] []) sample_approval 1 5 = Inr ()"
  proof -
    have "reserved_cost (sample_env 5) (\<lambda>g. gr_run_id g = ''r1'') [sample_grant] = 5"
      "reserved_calls (sample_env 5) (\<lambda>g. gr_run_id g = ''r1'') [sample_grant] = 1"
      by (simp_all add: reserved_cost_def reserved_calls_def live_grant_def sample_grant_def seconds_def sample_env_def)
    moreover have "g_goal_id policy_goal_row = ''g1''"
      by (simp add: policy_goal_row_def)
    ultimately show ?thesis
      by (simp add: sample_approval_fields assert_reservation_def policy_db_sel sample_policy_checks sample_unbound provider_goal_def Let_def)
  qed
  ultimately show ?thesis
    by (simp add: issue_grant_def sample_grant_request_def sample_policy_checks fresh_id_def sample_sessions sample_approval_fields
        policy_positive_def policy_cost_def policy_fence_def assert_execution_role_def sample_scope sample_lifecycle sample_env_now
        seconds_def draw_uuid_def grant_of_request_def grant_event_def grant_payload_def event_defaults_def grant_clash_def
        store_eval Let_def cong: bind_eval)
qed


end
