(* ===== verification/Scheduler.thy ===== *)
theory Scheduler
  imports Leases "HOL-Library.Option_ord" "HOL-Library.Product_Lexorder"
begin

text \<open>
  \<open>scheduler.py\<close>: bounded supervision of Tasks.  A worker claims the next due Task under a fenced
  lease, starts, completes or fails it; expired claims are reaped and due retries promoted by the
  system role.  The scheduler's own lease commands interpret \<open>fenced_leases\<close> together with those of
  \<open>LeaseManager\<close>, so a stale claim is refused whichever of the two has passed its fence.  The
  attempts invariant shows that no Task is ever tried more often than its contract allows.

  The role check that \<open>_worker_id\<close> and \<open>_system_id\<close> make in a transaction of their own is
  evaluated in the same state as the operation that follows it.
\<close>

section \<open>Claims\<close>

record scheduler =
  sc_authority :: "nat option"
  sc_policy_version :: string
  sc_retry_base_seconds :: int
  sc_retry_max_seconds :: int

definition make_scheduler :: "nat \<Rightarrow> string \<Rightarrow> int \<Rightarrow> int \<Rightarrow> scheduler res" where
  "make_scheduler authority policy_version retry_base retry_max =
     (if retry_base < 1 \<or> retry_max < retry_base then Inl (ValueError ''retry bounds must be positive and ordered'')
      else Inr \<lparr>sc_authority = Some authority, sc_policy_version = policy_version,
                sc_retry_base_seconds = retry_base, sc_retry_max_seconds = retry_max\<rparr>)"

record task_claim =
  cl_task_id :: string
  cl_run_id :: string
  cl_attempt_id :: string
  cl_attempt_number :: int
  cl_worker_id :: string
  cl_resource_key :: string
  cl_fence :: int
  cl_expires_at :: int

record failure_outcome =
  fo_task_id :: string
  fo_attempt_id :: string
  fo_state :: task_state
  fo_retry_due_at :: "int option"
  fo_circuit_open :: bool
  fo_fingerprint :: string

definition worker_id :: "env \<Rightarrow> auth_session option \<Rightarrow> db \<Rightarrow> string res" where
  "worker_id env worker db = bindr (require_role env WORKER worker db) (\<lambda>p. Inr (pr_principal_id p))"

definition system_id :: "env \<Rightarrow> auth_session option \<Rightarrow> db \<Rightarrow> string res" where
  "system_id env actor db = bindr (require_role env SYSTEM actor db) (\<lambda>p. Inr (pr_principal_id p))"

definition task_resource :: "string \<Rightarrow> string" where
  "task_resource task_id = ''task://'' @ task_id"

definition retry_due :: "env \<Rightarrow> scheduler \<Rightarrow> int \<Rightarrow> int" where
  "retry_due env sc attempt_number =
     now env + seconds (min (sc_retry_base_seconds sc * 2 ^ nat (max (attempt_number - 1) 0)) (sc_retry_max_seconds sc))"

definition require_executable_run :: "task_row \<Rightarrow> db \<Rightarrow> unit res" where
  "require_executable_run row db =
     (case fetch_one (\<lambda>r. Some (r_run_id r) = t_run_id row) (runs db) of
        None \<Rightarrow> Inl (LeaseError ''task parent run is not executable'')
      | Some r \<Rightarrow> ensure (r_project_id r = t_project_id row \<and> r_goal_id r = t_goal_id row \<and> r_loop_state r = LS_RUNNING)
                   (LeaseError ''task parent run is not executable''))"

definition task_transition ::
    "env \<Rightarrow> scheduler \<Rightarrow> task_row \<Rightarrow> task_state \<Rightarrow> string \<Rightarrow> string \<Rightarrow> auth_session option \<Rightarrow> db \<Rightarrow> (task_row \<times> db) res" where
  "task_transition env sc row tgt actor reason session db =
     bindr (require_transition (Task_Value (t_state row)) (Task_Value tgt)) (\<lambda>_.
     let (command_id, db) = draw_uuid env db in
     bindr (append_event env (event_defaults\<lparr>c_aggregate_type := ''task'', c_aggregate_id := t_task_id row,
         c_expected_version := t_version row, c_project_id := t_project_id row, c_run_id := t_run_id row,
         c_task_id := Some (t_task_id row), c_event_type := ''task_state_changed'', c_actor := actor,
         c_auth_session := session, c_command_authority := sc_authority sc, c_command_id := command_id,
         c_correlation_id := correlation (t_run_id row) (t_goal_id row), c_policy_version := sc_policy_version sc,
         c_payload := [(''from'', JStr (task_state_value (t_state row))), (''target'', JStr (task_state_value tgt)),
                       (''reason'', JStr reason)]\<rparr>) db) (\<lambda>(_, db).
       Inr (row\<lparr>t_state := tgt, t_version := t_version row + 1\<rparr>,
            db\<lparr>tasks := update_where (\<lambda>t. t_task_id t = t_task_id row)
                 (\<lambda>t. t\<lparr>t_state := tgt, t_version := t_version row + 1, t_updated_at := now env\<rparr>) (tasks db)\<rparr>)))"

definition sql_limit :: "int \<Rightarrow> 'a list \<Rightarrow> 'a list" where
  "sql_limit n rows = (if n < 0 then rows else take (nat n) rows)"

text \<open>The rows of the queries of \<open>promote_due_retries\<close> and \<open>claim_next\<close>: Tasks of the project in a
  state, due, whose run belongs to the same project and goal and may execute.\<close>

definition due_tasks :: "env \<Rightarrow> string \<Rightarrow> task_state \<Rightarrow> db \<Rightarrow> task_row list" where
  "due_tasks env project_id st db = filter (\<lambda>t. t_project_id t = project_id \<and> t_state t = st \<and>
     exists_row (\<lambda>r. Some (r_run_id r) = t_run_id t \<and> r_project_id r = t_project_id t \<and> r_goal_id r = t_goal_id t \<and>
                     r_loop_state r \<in> {LS_READY, LS_RUNNING}) (runs db) \<and>
     (case t_due_at t of None \<Rightarrow> True | Some d \<Rightarrow> d \<le> now env)) (tasks db)"

definition promote_due_retries :: "env \<Rightarrow> scheduler \<Rightarrow> string \<Rightarrow> auth_session option \<Rightarrow> int \<Rightarrow> db \<Rightarrow> (int \<times> db) res" where
  "promote_due_retries env sc project_id actor limit db =
     bindr (system_id env actor db) (\<lambda>actor_id.
     let rows = sql_limit limit (sort_key (\<lambda>t. (t_due_at t, t_task_id t)) (due_tasks env project_id TS_RETRY_PENDING db)) in
     bindr (foldm (\<lambda>row db. bindr (task_transition env sc row TS_READY actor_id ''retry backoff elapsed'' actor db)
                               (\<lambda>(_, db). Inr db)) rows db) (\<lambda>db.
       Inr (int (length rows), db)))"

fun select_task :: "task_row list \<Rightarrow> (task_row \<times> task_spec) option res" where
  "select_task [] = Inr None"
| "select_task (row # rows) =
     bindr (load_task_spec (t_spec row)) (\<lambda>candidate.
     if t_attempt_count row < ts_max_attempts candidate \<and> t_run_id row \<noteq> None then Inr (Some (row, candidate))
     else select_task rows)"

definition upsert_lease :: "lease_row \<Rightarrow> lease_row list \<Rightarrow> lease_row list" where
  "upsert_lease new rows =
     (if find_lease (l_resource_key new) rows = None then rows @ [new]
      else update_where (\<lambda>l. l_resource_key l = l_resource_key new)
        (\<lambda>l. l\<lparr>l_project_id := l_project_id new, l_task_id := l_task_id new, l_holder := l_holder new,
               l_fence := l_fence new, l_issued_at := l_issued_at new, l_expires_at := l_expires_at new,
               l_released_at := None\<rparr>) rows)"

definition attempt_clash :: "attempt_row \<Rightarrow> attempt_row \<Rightarrow> bool" where
  "attempt_clash a b \<longleftrightarrow> at_attempt_id a = at_attempt_id b \<or> (at_task_id a = at_task_id b \<and> at_number a = at_number b)"

definition claim_task ::
    "env \<Rightarrow> scheduler \<Rightarrow> string \<Rightarrow> string \<Rightarrow> auth_session option \<Rightarrow> int \<Rightarrow> task_row \<Rightarrow> string \<Rightarrow> int \<Rightarrow> db \<Rightarrow> (task_claim \<times> db) res" where
  "claim_task env sc project_id wid worker ttl_seconds selected run_id fence db =
     (let resource = task_resource (t_task_id selected);
          lease = new_lease env resource project_id (t_task_id selected) wid fence ttl_seconds;
          db1 = db\<lparr>leases := upsert_lease lease (leases db)\<rparr>;
          attempt_number = t_attempt_count selected + 1;
          (attempt_id, db2) = draw_uuid env db1 in
      bindr (insert_row attempt_clash \<lparr>at_attempt_id = attempt_id, at_task_id = t_task_id selected, at_run_id = run_id,
               at_number = attempt_number, at_worker_id = wid, at_state = ''leased'', at_started_at = now env,
               at_ended_at = None, at_failure_id = None\<rparr> (attempts db2)) (\<lambda>rows.
      bindr (task_transition env sc selected TS_LEASED wid (''scheduler claim fence '' @ show_int fence) worker
               (db2\<lparr>attempts := rows\<rparr>)) (\<lambda>(updated, db3).
      Inr (\<lparr>cl_task_id = t_task_id selected, cl_run_id = run_id, cl_attempt_id = attempt_id,
            cl_attempt_number = attempt_number, cl_worker_id = wid, cl_resource_key = resource, cl_fence = fence,
            cl_expires_at = l_expires_at lease\<rparr>,
           db3\<lparr>tasks := update_where (\<lambda>t. t_task_id t = t_task_id updated)
             (\<lambda>t. t\<lparr>t_attempt_count := attempt_number, t_due_at := None\<rparr>) (tasks db3)\<rparr>))))"

definition claim_next ::
    "env \<Rightarrow> scheduler \<Rightarrow> string \<Rightarrow> auth_session option \<Rightarrow> int \<Rightarrow> db \<Rightarrow> (task_claim option \<times> db) res" where
  "claim_next env sc project_id worker ttl_seconds db =
     bindr (worker_id env worker db) (\<lambda>wid.
     if ttl_seconds < 1 then Inl (LeaseError ''ttl_seconds must be positive'')
     else
     bindr (select_task (sort_key (\<lambda>t. (t_due_at t, t_created_at t, t_task_id t)) (due_tasks env project_id TS_READY db))) (\<lambda>sel.
     case sel of None \<Rightarrow> Inr (None, db)
     | Some (selected, _) \<Rightarrow>
         let existing = find_lease (task_resource (t_task_id selected)) (leases db) in
         if (case existing of None \<Rightarrow> False | Some l \<Rightarrow> lease_active (now env) l) then Inr (None, db)
         else
         let fence = (case existing of None \<Rightarrow> 1 | Some l \<Rightarrow> l_fence l + 1) in
         bindr (require (t_run_id selected) (PyTypeError ''NoneType'')) (\<lambda>run_id.
         bindr (claim_task env sc project_id wid worker ttl_seconds selected run_id fence db) (\<lambda>(claim, db).
           Inr (Some claim, db)))))"

definition require_claim :: "env \<Rightarrow> task_claim \<Rightarrow> db \<Rightarrow> unit res" where
  "require_claim env c db =
     (if \<not> exists_row (\<lambda>l. l_resource_key l = cl_resource_key c \<and> l_task_id l = cl_task_id c \<and>
               l_holder l = cl_worker_id c \<and> l_fence l = cl_fence c \<and> lease_active (now env) l) (leases db)
      then Inl (LeaseError ''task claim is stale'')
      else if \<not> exists_row (\<lambda>a. at_attempt_id a = cl_attempt_id c \<and> at_task_id a = cl_task_id c \<and>
               at_worker_id a = cl_worker_id c \<and> at_ended_at a = None) (attempts db)
      then Inl (LeaseError ''attempt is not active'') else Inr ())"

definition own_claim :: "env \<Rightarrow> task_claim \<Rightarrow> auth_session option \<Rightarrow> db \<Rightarrow> string res" where
  "own_claim env c worker db =
     bindr (worker_id env worker db) (\<lambda>wid.
     if wid \<noteq> cl_worker_id c then Inl (LeaseError ''authenticated worker does not own the task claim'')
     else bindr (require_claim env c db) (\<lambda>_. Inr wid))"

definition fetch_task :: "string \<Rightarrow> db \<Rightarrow> task_row res" where
  "fetch_task task_id db = require (fetch_one (\<lambda>t. t_task_id t = task_id) (tasks db)) (PyTypeError ''NoneType'')"

definition start_claim :: "env \<Rightarrow> scheduler \<Rightarrow> task_claim \<Rightarrow> auth_session option \<Rightarrow> db \<Rightarrow> (unit \<times> db) res" where
  "start_claim env sc c worker db =
     bindr (own_claim env c worker db) (\<lambda>_.
     bindr (fetch_task (cl_task_id c) db) (\<lambda>row.
     bindr (require_executable_run row db) (\<lambda>_.
     bindr (task_transition env sc row TS_RUNNING (cl_worker_id c)
              (''attempt '' @ show_int (cl_attempt_number c) @ '' started'') worker db) (\<lambda>(_, db).
       Inr ((), db\<lparr>attempts := update_where (\<lambda>a. at_attempt_id a = cl_attempt_id c \<and> at_state a = ''leased'')
         (\<lambda>a. a\<lparr>at_state := ''running''\<rparr>) (attempts db)\<rparr>)))))"

definition release_claim :: "env \<Rightarrow> task_claim \<Rightarrow> db \<Rightarrow> db" where
  "release_claim env c db = db\<lparr>leases := update_where (\<lambda>l. l_resource_key l = cl_resource_key c \<and> l_fence l = cl_fence c)
     (\<lambda>l. l\<lparr>l_released_at := Some (now env)\<rparr>) (leases db)\<rparr>"

definition complete_claim :: "env \<Rightarrow> scheduler \<Rightarrow> task_claim \<Rightarrow> auth_session option \<Rightarrow> db \<Rightarrow> (unit \<times> db) res" where
  "complete_claim env sc c worker db =
     bindr (own_claim env c worker db) (\<lambda>_.
     bindr (fetch_task (cl_task_id c) db) (\<lambda>row.
     bindr (task_transition env sc row TS_EVIDENCE_PENDING (cl_worker_id c)
              (''attempt '' @ show_int (cl_attempt_number c) @ '' completed; evidence pending'') worker db) (\<lambda>(_, db).
     let db = db\<lparr>attempts := update_where (\<lambda>a. at_attempt_id a = cl_attempt_id c)
                (\<lambda>a. a\<lparr>at_state := ''succeeded'', at_ended_at := Some (now env)\<rparr>) (attempts db)\<rparr> in
       Inr ((), release_claim env c db))))"

definition record_negative ::
    "env \<Rightarrow> task_row \<Rightarrow> string \<Rightarrow> string \<Rightarrow> string \<Rightarrow> string \<Rightarrow> db \<Rightarrow> (string \<times> db) res" where
  "record_negative env row fingerprint failure_class severity repair_route db =
     (case fetch_one (\<lambda>n. n_project_id n = t_project_id row \<and> n_task_id n = t_task_id row \<and> n_fingerprint n = fingerprint)
             (negative_results db) of
        Some prior \<Rightarrow> Inr (n_failure_id prior, db\<lparr>negative_results := update_where (\<lambda>n. n_failure_id n = n_failure_id prior)
          (\<lambda>n. n\<lparr>n_last_seen := now env, n_recurrence_count := n_recurrence_count n + 1\<rparr>) (negative_results db)\<rparr>)
      | None \<Rightarrow>
          let (failure_id, db) = draw_uuid env db in
          bindr (require (t_run_id row) (SqliteIntegrityError ''NOT NULL constraint failed'')) (\<lambda>run_id.
          bindr (insert_row (\<lambda>a b. n_failure_id a = n_failure_id b)
                   \<lparr>n_failure_id = failure_id, n_project_id = t_project_id row, n_run_id = run_id,
                    n_task_id = t_task_id row, n_fingerprint = fingerprint, n_failure_class = failure_class,
                    n_severity = severity, n_evidence_refs = [], n_repair_route = repair_route, n_first_seen = now env,
                    n_last_seen = now env, n_recurrence_count = 1, n_expires_at = None\<rparr> (negative_results db)) (\<lambda>rows.
            Inr (failure_id, db\<lparr>negative_results := rows\<rparr>))))"

definition set_task_failure :: "string \<Rightarrow> int option \<Rightarrow> string \<Rightarrow> db \<Rightarrow> db" where
  "set_task_failure task_id due fingerprint db = db\<lparr>tasks := update_where (\<lambda>t. t_task_id t = task_id)
     (\<lambda>t. t\<lparr>t_due_at := due, t_last_error := Some fingerprint\<rparr>) (tasks db)\<rparr>"

definition fail_claim ::
    "env \<Rightarrow> scheduler \<Rightarrow> task_claim \<Rightarrow> auth_session option \<Rightarrow> string \<Rightarrow> string \<Rightarrow> string \<Rightarrow> string \<Rightarrow> db \<Rightarrow> (failure_outcome \<times> db) res" where
  "fail_claim env sc c worker failure_class message severity repair_route db =
     (let fingerprint = content_hash (sha256 env) (JObj [(''failure_class'', JStr failure_class), (''message'', JStr message)]) in
     bindr (own_claim env c worker db) (\<lambda>wid.
     bindr (fetch_task (cl_task_id c) db) (\<lambda>row0.
     bindr (load_task_spec (t_spec row0)) (\<lambda>spec.
     bindr (record_negative env row0 fingerprint failure_class severity repair_route db) (\<lambda>(failure_id, db).
     bindr (task_transition env sc row0 TS_FAILED (cl_worker_id c) failure_class worker db) (\<lambda>(row1, db).
     let circuit_open = (ts_max_attempts spec \<le> t_attempt_count row1) in
     bindr (if circuit_open then Inr (row1, db, None)
            else bindr (task_transition env sc row1 TS_RETRY_PENDING wid ''bounded retry scheduled'' worker db) (\<lambda>(row2, db).
                   Inr (row2, db, Some (retry_due env sc (cl_attempt_number c))))) (\<lambda>(row, db, due).
     let db = set_task_failure (cl_task_id c) due fingerprint db;
         db = db\<lparr>attempts := update_where (\<lambda>a. at_attempt_id a = cl_attempt_id c)
                (\<lambda>a. a\<lparr>at_state := ''failed'', at_ended_at := Some (now env), at_failure_id := Some failure_id\<rparr>) (attempts db)\<rparr>
     in Inr (\<lparr>fo_task_id = cl_task_id c, fo_attempt_id = cl_attempt_id c, fo_state = t_state row,
              fo_retry_due_at = due, fo_circuit_open = circuit_open, fo_fingerprint = fingerprint\<rparr>,
             release_claim env c db))))))))"

definition expired_claims :: "env \<Rightarrow> string \<Rightarrow> db \<Rightarrow> task_row list" where
  "expired_claims env project_id db = filter (\<lambda>t. t_project_id t = project_id \<and> t_state t \<in> {TS_LEASED, TS_RUNNING} \<and>
     (case find_lease (task_resource (t_task_id t)) (leases db) of None \<Rightarrow> True | Some l \<Rightarrow> \<not> lease_active (now env) l)) (tasks db)"

definition reap_task :: "env \<Rightarrow> scheduler \<Rightarrow> string \<Rightarrow> auth_session option \<Rightarrow> task_row \<Rightarrow> db \<Rightarrow> db res" where
  "reap_task env sc actor_id actor row db =
     bindr (load_task_spec (t_spec row)) (\<lambda>spec.
     let fingerprint = content_hash (sha256 env) (JObj [(''failure_class'', JStr ''WorkerLeaseExpired''), (''task_id'', JStr (t_task_id row))]) in
     bindr (record_negative env row fingerprint ''WorkerLeaseExpired'' ''error'' ''scheduler_reclaim'' db) (\<lambda>(failure_id, db).
     let circuit_open = (ts_max_attempts spec \<le> t_attempt_count row) in
     bindr (task_transition env sc row TS_RETRY_PENDING actor_id
              (if t_state row = TS_RUNNING then ''worker lease expired'' else ''worker lease expired before start'') actor db) (\<lambda>(row1, db).
     bindr (if circuit_open
            then bindr (task_transition env sc row1 TS_FAILED actor_id ''attempt limit exhausted'' actor db) (\<lambda>(_, db). Inr (db, None))
            else Inr (db, Some (retry_due env sc (t_attempt_count row1)))) (\<lambda>(db, due).
     let db = set_task_failure (t_task_id row) due fingerprint db in
       Inr (db\<lparr>attempts := update_where (\<lambda>a. at_task_id a = t_task_id row \<and> at_ended_at a = None)
         (\<lambda>a. a\<lparr>at_state := ''abandoned'', at_ended_at := Some (now env), at_failure_id := Some failure_id\<rparr>) (attempts db)\<rparr>)))))"

definition reap_expired :: "env \<Rightarrow> scheduler \<Rightarrow> string \<Rightarrow> auth_session option \<Rightarrow> int \<Rightarrow> db \<Rightarrow> (int \<times> db) res" where
  "reap_expired env sc project_id actor limit db =
     bindr (system_id env actor db) (\<lambda>actor_id.
     let rows = sql_limit limit (sort_key t_updated_at (expired_claims env project_id db)) in
     bindr (foldm (reap_task env sc actor_id actor) rows db) (\<lambda>db. Inr (int (length rows), db)))"


section \<open>Commands\<close>

datatype sched_cmd =
    Promote string "auth_session option" int
  | Claim_Next string "auth_session option" int
  | Start task_claim "auth_session option"
  | Complete task_claim "auth_session option"
  | Fail task_claim "auth_session option" string string string string
  | Reap string "auth_session option" int

fun run_sched :: "env \<Rightarrow> scheduler \<Rightarrow> sched_cmd \<Rightarrow> db \<Rightarrow> db res" where
  "run_sched env sc (Promote p a n) db = bindr (promote_due_retries env sc p a n db) (\<lambda>(_, db). Inr db)"
| "run_sched env sc (Claim_Next p w ttl) db = bindr (claim_next env sc p w ttl db) (\<lambda>(_, db). Inr db)"
| "run_sched env sc (Start c w) db = bindr (start_claim env sc c w db) (\<lambda>(_, db). Inr db)"
| "run_sched env sc (Complete c w) db = bindr (complete_claim env sc c w db) (\<lambda>(_, db). Inr db)"
| "run_sched env sc (Fail c w f m s r) db = bindr (fail_claim env sc c w f m s r db) (\<lambda>(_, db). Inr db)"
| "run_sched env sc (Reap p a n) db = bindr (reap_expired env sc p a n db) (\<lambda>(_, db). Inr db)"

inductive sched_history :: "db \<Rightarrow> db \<Rightarrow> bool" where
  sched_none: "sched_history db db"
| sched_more: "sched_history db db' \<Longrightarrow> run_sched env sc c db' = Inr db'' \<Longrightarrow> sched_history db db''"

section \<open>Frames\<close>

lemma task_transition_Inr:
  assumes "task_transition env sc row tgt actor reason s db = Inr (row', db')"
  shows "tgt \<in> set (TASK_TRANSITIONS (t_state row)) \<and> row' = row\<lparr>t_state := tgt, t_version := t_version row + 1\<rparr> \<and>
    (\<exists>ev. db' = db\<lparr>events := events db @ [ev], uuid_next := Suc (Suc (uuid_next db)),
       tasks := update_where (\<lambda>t. t_task_id t = t_task_id row)
                 (\<lambda>t. t\<lparr>t_state := tgt, t_version := t_version row + 1, t_updated_at := now env\<rparr>) (tasks db)\<rparr>)"
  using assms by (auto simp: task_transition_def draw_uuid_def Let_def bindr_eq_Inr dest!: append_event_frame)

lemma record_negative_frame:
  assumes "record_negative env row f c s r db = Inr (i, db')"
  shows "tasks db' = tasks db \<and> attempts db' = attempts db \<and> leases db' = leases db \<and> events db' = events db \<and> runs db' = runs db"
  using assms
  by (cases "fetch_one (\<lambda>n. n_project_id n = t_project_id row \<and> n_task_id n = t_task_id row \<and> n_fingerprint n = f) (negative_results db)")
    (auto simp: record_negative_def draw_uuid_def Let_def bindr_eq_Inr)

lemma own_claim_Inr:
  assumes "own_claim env c w db = Inr wid"
  shows "wid = cl_worker_id c \<and> worker_id env w db = Inr wid \<and>
     (\<exists>l \<in> set (leases db). l_resource_key l = cl_resource_key c \<and> l_task_id l = cl_task_id c \<and>
        l_holder l = cl_worker_id c \<and> l_fence l = cl_fence c \<and> lease_active (now env) l) \<and>
     (\<exists>a \<in> set (attempts db). at_attempt_id a = cl_attempt_id c \<and> at_task_id a = cl_task_id c \<and>
        at_worker_id a = cl_worker_id c \<and> at_ended_at a = None)"
  using assms by (auto simp: own_claim_def require_claim_def bindr_eq_Inr split: if_splits)

text \<open>What bounds the attempts of a Task depends on these parts of its row and of its attempts.\<close>

definition task_core :: "task_row \<Rightarrow> string \<times> json \<times> int" where
  "task_core t = (t_task_id t, t_spec t, t_attempt_count t)"

definition attempt_core :: "attempt_row \<Rightarrow> string \<times> int" where
  "attempt_core a = (at_task_id a, at_number a)"

definition same_work :: "db \<Rightarrow> db \<Rightarrow> bool" where
  "same_work db db' \<longleftrightarrow> map task_core (tasks db') = map task_core (tasks db) \<and>
     map attempt_core (attempts db') = map attempt_core (attempts db)"

lemma same_work_refl [simp]: "same_work db db"
  by (simp add: same_work_def)

lemma same_work_trans [trans]: "same_work a b \<Longrightarrow> same_work b c \<Longrightarrow> same_work a c"
  by (simp add: same_work_def)

lemma same_work_tasks:
  "(\<And>t. task_core (f t) = task_core t) \<Longrightarrow> same_work db (db\<lparr>tasks := update_where P f (tasks db)\<rparr>)"
  by (simp add: same_work_def map_update_where)

lemma same_work_attempts:
  "(\<And>a. attempt_core (f a) = attempt_core a) \<Longrightarrow> same_work db (db\<lparr>attempts := update_where P f (attempts db)\<rparr>)"
  by (simp add: same_work_def map_update_where)

lemma same_work_eq: "tasks db' = tasks db \<Longrightarrow> attempts db' = attempts db \<Longrightarrow> same_work db db'"
  by (simp add: same_work_def)

lemma task_transition_same:
  assumes "task_transition env sc row tgt actor reason s db = Inr (row', db')"
  shows "same_work db db'" "leases db' = leases db" "runs db' = runs db" "attempts db' = attempts db"
  using task_transition_Inr [OF assms] by (auto simp: same_work_def map_update_where task_core_def)

lemma record_negative_same: "record_negative env row f c s r db = Inr (i, db') \<Longrightarrow> same_work db db'"
  by (rule same_work_eq) (auto dest: record_negative_frame)

lemma set_task_failure_same: "same_work db (set_task_failure i d f db)"
  unfolding set_task_failure_def by (rule same_work_tasks) (simp add: task_core_def)

lemma release_claim_same: "same_work db (release_claim env c db)"
  by (simp add: same_work_def release_claim_def)

text \<open>A step that leaves leases alone.\<close>

definition quiet :: "db \<Rightarrow> db \<Rightarrow> bool" where
  "quiet db db' \<longleftrightarrow> same_work db db' \<and> leases db' = leases db"

lemma quiet_refl [simp]: "quiet db db"
  by (simp add: quiet_def)

lemma quiet_trans [trans]: "quiet a b \<Longrightarrow> quiet b c \<Longrightarrow> quiet a c"
  using same_work_trans by (auto simp: quiet_def)

lemma quiet_bind:
  assumes "returns (m d) (\<lambda>(_, d'). quiet d d')" "quiet db d" "\<And>x d'. quiet db d' \<Longrightarrow> returns (f x d') Q"
  shows "returns (bindr (m d) (\<lambda>(x, d). f x d)) Q"
  unfolding returns_bindr by (rule returns_mono [OF assms(1)]) (auto intro: assms(3) quiet_trans [OF assms(2)])

lemma task_transition_quiet: "returns (task_transition env sc r t x y a d) (\<lambda>(_, d'). quiet d d')"
  by (rule returnsI) (auto simp: quiet_def dest: task_transition_same)

lemma record_negative_quiet: "returns (record_negative env row f x y z d) (\<lambda>(_, d'). quiet d d')"
  by (rule returnsI) (auto simp: quiet_def dest: record_negative_same record_negative_frame)

lemma set_task_failure_quiet: "quiet db d \<Longrightarrow> quiet db (set_task_failure x due f d)"
  using quiet_trans set_task_failure_same by (auto simp: quiet_def set_task_failure_def)

lemma attempts_quiet:
  "quiet db d \<Longrightarrow> (\<And>a. attempt_core (f a) = attempt_core a) \<Longrightarrow> as = attempts d \<Longrightarrow> quiet db (d\<lparr>attempts := update_where P f as\<rparr>)"
  by (simp add: quiet_def same_work_def map_update_where)

lemma task_transition_step:
  assumes "quiet db d" "\<And>r d'. quiet db d' \<Longrightarrow> returns (f r d') Q"
  shows "returns (bindr (task_transition env sc row t x y a d) (\<lambda>(r, d). f r d)) Q"
  by (rule quiet_bind [where m = "task_transition env sc row t x y a", OF task_transition_quiet assms])

lemma record_negative_step:
  assumes "quiet db d" "\<And>r d'. quiet db d' \<Longrightarrow> returns (f r d') Q"
  shows "returns (bindr (record_negative env row n x y z d) (\<lambda>(r, d). f r d)) Q"
  by (rule quiet_bind [where m = "record_negative env row n x y z", OF record_negative_quiet assms])

lemma retry_or_fail_quiet:
  assumes "quiet db d"
  shows "returns (if b then bindr (task_transition env sc r TS_FAILED i m a d) (\<lambda>(_, d). Inr (d, None)) else Inr (d, e :: int option))
      (\<lambda>(d, _). quiet db d)"
  by (cases b) (simp_all add: assms task_transition_step [OF assms])

lemma reap_task_quiet: "returns (reap_task env sc i a row db) (quiet db)"
  unfolding reap_task_def Let_def
  apply (rule returns_skip)
  apply (rule record_negative_step [OF quiet_refl])
  apply (rule task_transition_step, assumption)
  apply (rule returns_seq [OF retry_or_fail_quiet], assumption)
  apply (auto simp: attempts_quiet set_task_failure_quiet attempt_core_def)
  done

text \<open>What the worker's operations do to the tables: at most the caller's own lease is released.\<close>

definition gives_up :: "env \<Rightarrow> task_claim \<Rightarrow> db \<Rightarrow> db \<Rightarrow> bool" where
  "gives_up env c db db' \<longleftrightarrow> (\<exists>d. quiet db d \<and> db' = release_claim env c d) \<and>
     (\<exists>l \<in> set (leases db). l_resource_key l = cl_resource_key c \<and> l_fence l = cl_fence c \<and> lease_active (now env) l)"

lemma gives_upI:
  "quiet db d \<Longrightarrow> \<exists>l \<in> set (leases db). l_resource_key l = cl_resource_key c \<and> l_fence l = cl_fence c \<and> lease_active (now env) l
    \<Longrightarrow> gives_up env c db (release_claim env c d)"
  by (auto simp: gives_up_def)

lemma own_claim_seq:
  assumes "\<And>w. (\<exists>l \<in> set (leases db). l_resource_key l = cl_resource_key c \<and> l_fence l = cl_fence c \<and> lease_active (now env) l)
      \<Longrightarrow> returns (f w) Q"
  shows "returns (bindr (own_claim env c w db) f) Q"
  by (rule returns_seq [OF returnsI, OF own_claim_Inr], assumption) (rule assms, blast)

lemma start_claim_quiet: "returns (start_claim env sc c w db) (\<lambda>(_, db'). quiet db db')"
  unfolding start_claim_def
  apply (rule returns_skip, rule returns_skip, rule returns_skip)
  apply (rule task_transition_step [OF quiet_refl])
  apply (simp add: attempts_quiet attempt_core_def)
  done

lemma complete_claim_gives_up: "returns (complete_claim env sc c w db) (\<lambda>(_, db'). gives_up env c db db')"
  unfolding complete_claim_def Let_def
  apply (rule own_claim_seq, rule returns_skip)
  apply (rule task_transition_step [OF quiet_refl])
  apply (auto simp: attempt_core_def intro!: gives_upI attempts_quiet)
  done

lemma fail_claim_gives_up: "returns (fail_claim env sc c w f m s r db) (\<lambda>(_, db'). gives_up env c db db')"
proof -
  have inner: "returns (if b then Inr (r1, d, None)
            else bindr (task_transition env sc r1 TS_RETRY_PENDING i x w d) (\<lambda>(r2, d).
                   Inr (r2, d, Some e))) (\<lambda>(_, d, _). quiet db d)" if "quiet db d" for b r1 i x d and e :: int
    by (cases b) (simp_all add: that task_transition_step [OF that])
  show ?thesis
    unfolding fail_claim_def Let_def
    apply (rule own_claim_seq, rule returns_skip, rule returns_skip)
    apply (rule record_negative_step [OF quiet_refl])
    apply (rule task_transition_step, assumption)
    apply (rule returns_seq [OF inner], assumption)
    apply (auto simp: attempt_core_def intro!: gives_upI attempts_quiet set_task_failure_quiet)
    done
qed

lemma foldm_quiet:
  assumes "\<And>x d. returns (f x d) (quiet d)"
  shows "returns (foldm f xs db) (quiet db)"
  by (rule returns_foldm) (auto intro: returns_mono [OF assms] quiet_trans)

lemma reap_expired_quiet: "returns (reap_expired env sc p a n db) (\<lambda>(_, db'). quiet db db')"
  unfolding reap_expired_def Let_def
  by (rule returns_skip, rule returns_seq [OF foldm_quiet [OF reap_task_quiet]]) simp

lemma promote_quiet: "returns (promote_due_retries env sc p a n db) (\<lambda>(_, db'). quiet db db')"
  unfolding promote_due_retries_def Let_def
  by (rule returns_skip, rule returns_seq [OF foldm_quiet]) (simp_all add: task_transition_step [OF quiet_refl])

section \<open>Claiming\<close>

lemma select_task_SomeD:
  "select_task rows = Inr (Some (row, spec)) \<Longrightarrow>
     row \<in> set rows \<and> load_task_spec (t_spec row) = Inr spec \<and> t_attempt_count row < ts_max_attempts spec \<and> t_run_id row \<noteq> None"
  by (induction rows) (auto simp: bindr_eq_Inr split: if_splits)

lemma due_tasksD:
  "t \<in> set (due_tasks env p s db) \<Longrightarrow> t \<in> set (tasks db) \<and> t_project_id t = p \<and> t_state t = s"
  by (auto simp: due_tasks_def)

lemma claim_task_Inr:
  assumes "claim_task env sc p wid w ttl sel run n db = Inr (cl, db')"
  shows "cl_task_id cl = t_task_id sel \<and> cl_fence cl = n \<and> cl_worker_id cl = wid \<and> cl_run_id cl = run \<and>
     cl_resource_key cl = task_resource (t_task_id sel) \<and> cl_attempt_number cl = t_attempt_count sel + 1 \<and>
     TS_LEASED \<in> set (TASK_TRANSITIONS (t_state sel)) \<and>
     leases db' = upsert_lease (new_lease env (task_resource (t_task_id sel)) p (t_task_id sel) wid n ttl) (leases db) \<and>
     attempts db' = attempts db @ [\<lparr>at_attempt_id = cl_attempt_id cl, at_task_id = t_task_id sel, at_run_id = run,
               at_number = t_attempt_count sel + 1, at_worker_id = wid, at_state = ''leased'', at_started_at = now env,
               at_ended_at = None, at_failure_id = None\<rparr>] \<and>
     tasks db' = update_where (\<lambda>t. t_task_id t = t_task_id sel)
       (\<lambda>t. t\<lparr>t_state := TS_LEASED, t_version := t_version sel + 1, t_attempt_count := t_attempt_count sel + 1,
             t_due_at := None, t_updated_at := now env\<rparr>) (tasks db)"
  using assms
  by (auto simp: claim_task_def draw_uuid_def Let_def bindr_eq_Inr update_where_def dest!: task_transition_Inr)

lemma claim_next_cases:
  assumes "claim_next env sc p w ttl db = Inr (r, db')"
  shows "r = None \<and> db' = db \<or>
    (\<exists>cl sel spec run wid. r = Some cl \<and> worker_id env w db = Inr wid \<and> 1 \<le> ttl \<and>
       sel \<in> set (due_tasks env p TS_READY db) \<and> load_task_spec (t_spec sel) = Inr spec \<and>
       t_attempt_count sel < ts_max_attempts spec \<and> t_run_id sel = Some run \<and>
       (\<forall>l. find_lease (task_resource (t_task_id sel)) (leases db) = Some l \<longrightarrow> \<not> lease_active (now env) l) \<and>
       claim_task env sc p wid w ttl sel run (fence_at (task_resource (t_task_id sel)) (leases db) + 1) db = Inr (cl, db'))"
proof -
  from assms obtain wid q where w: "worker_id env w db = Inr wid" "1 \<le> ttl"
    and q: "select_task (sort_key (\<lambda>t. (t_due_at t, t_created_at t, t_task_id t)) (due_tasks env p TS_READY db)) = Inr q"
    and rest: "(case q of None \<Rightarrow> Inr (None, db)
     | Some (selected, _) \<Rightarrow>
         let existing = find_lease (task_resource (t_task_id selected)) (leases db) in
         if (case existing of None \<Rightarrow> False | Some l \<Rightarrow> lease_active (now env) l) then Inr (None, db)
         else
         let fence = (case existing of None \<Rightarrow> 1 | Some l \<Rightarrow> l_fence l + 1) in
         bindr (require (t_run_id selected) (PyTypeError ''NoneType'')) (\<lambda>run_id.
         bindr (claim_task env sc p wid w ttl selected run_id fence db) (\<lambda>(claim, db).
           Inr (Some claim, db)))) = Inr (r, db')"
    by (auto simp: claim_next_def bindr_eq_Inr simp del: bindr_Inr split: if_split_asm)
  show ?thesis
  proof (cases q)
    case None
    with rest show ?thesis by simp
  next
    case (Some x)
    obtain sel spec where x: "x = (sel, spec)" by (cases x)
    from select_task_SomeD [of _ sel spec] q Some x have s: "sel \<in> set (due_tasks env p TS_READY db)"
      "load_task_spec (t_spec sel) = Inr spec" "t_attempt_count sel < ts_max_attempts spec" by fastforce+
    have f: "(case find_lease k rows of None \<Rightarrow> 1 | Some l \<Rightarrow> l_fence l + 1) = fence_at k rows + 1" for k rows
      by (simp add: fence_at_def split: option.split)
    have a: "(case find_lease k rows of None \<Rightarrow> False | Some l \<Rightarrow> lease_active (now env) l) \<longleftrightarrow>
        (\<exists>l. find_lease k rows = Some l \<and> lease_active (now env) l)" for k rows
      by (simp split: option.split)
    from rest Some x have "r = None \<and> db' = db \<or> (\<exists>cl run. r = Some cl \<and> t_run_id sel = Some run \<and>
        \<not> (\<exists>l. find_lease (task_resource (t_task_id sel)) (leases db) = Some l \<and> lease_active (now env) l) \<and>
        claim_task env sc p wid w ttl sel run (fence_at (task_resource (t_task_id sel)) (leases db) + 1) db = Inr (cl, db'))"
      by (auto simp: Let_def f a bindr_eq_Inr split: if_split_asm)
    with s w show ?thesis by blast
  qed
qed

section \<open>The scheduler as a service on the lease table\<close>

lemma upsert_lease_step:
  assumes "\<forall>l. find_lease (l_resource_key new) rows = Some l \<longrightarrow> \<not> lease_active t l"
    and "l_fence new = fence_at (l_resource_key new) rows + 1" "l_released_at new = None"
  shows "lease_step t rows (upsert_lease new rows)"
proof (cases "find_lease (l_resource_key new) rows")
  case None
  then have "\<And>l. l \<in> set rows \<Longrightarrow> l_resource_key l \<noteq> l_resource_key new" by (auto simp: find_lease_def)
  with None assms show ?thesis by (auto simp: upsert_lease_def fence_at_def intro!: grant)
next
  case (Some l)
  with assms have "\<not> lease_active t l" by blast
  from takeover [OF Some this] Some assms(2) show ?thesis by (simp add: upsert_lease_def fence_at_def)
qed

lemma gives_up_step:
  assumes "gives_up env c db db'" "leases_ok (leases db)"
  shows "lease_step (now env) (leases db) (leases db')"
proof -
  from assms(1) obtain d l where d: "quiet db d" "db' = release_claim env c d" and l: "l \<in> set (leases db)"
    "l_resource_key l = cl_resource_key c" "l_fence l = cl_fence c" "lease_active (now env) l"
    by (auto simp: gives_up_def)
  have "find_lease (cl_resource_key c) (leases db) = Some l"
    using fetch_one_key [of l_resource_key "leases db" l] assms(2) l by (simp add: find_lease_def leases_ok_def)
  from give_up [OF this l(4) l(3)] d show ?thesis by (simp add: release_claim_def quiet_def)
qed

lemma run_sched_lease_step:
  assumes "run_sched env sc c db = Inr db'" "leases_ok (leases db)"
  shows "lease_step (now env) (leases db) (leases db')"
proof (cases c)
  case (Claim_Next p w ttl)
  with assms obtain r where "claim_next env sc p w ttl db = Inr (r, db')" by (auto simp: bindr_eq_Inr)
  from claim_next_cases [OF this] show ?thesis
  proof (elim disjE exE conjE)
    fix cl spec run wid and sel :: task_row
    let ?k = "task_resource (t_task_id sel)"
    assume inactive: "\<forall>l. find_lease ?k (leases db) = Some l \<longrightarrow> \<not> lease_active (now env) l"
      and cl: "claim_task env sc p wid w ttl sel run (fence_at ?k (leases db) + 1) db = Inr (cl, db')"
    from claim_task_Inr [OF cl] upsert_lease_step [of "new_lease env ?k p (t_task_id sel) wid (fence_at ?k (leases db) + 1) ttl" "leases db" "now env"]
      inactive show ?thesis by (simp add: new_lease_def)
  qed (simp add: keep)
qed (use assms in \<open>auto simp: bindr_eq_Inr quiet_def
    dest!: returnsD [OF promote_quiet] returnsD [OF start_claim_quiet] returnsD [OF reap_expired_quiet]
      returnsD [OF complete_claim_gives_up] returnsD [OF fail_claim_gives_up] intro: keep gives_up_step\<close>)

text \<open>Both services on the one lease table: commands of \<open>LeaseManager\<close> and of the scheduler, in any
  interleaving.\<close>

definition exec_fenced :: "lease_cmd + sched_cmd \<Rightarrow> int \<Rightarrow> lease_row list \<Rightarrow> lease_row list \<Rightarrow> bool" where
  "exec_fenced c t rows rows' \<longleftrightarrow> (case c of Inl m \<Rightarrow> exec_lease m t rows rows'
    | Inr s \<Rightarrow> leases_ok rows \<and> (\<exists>env sc db db'. now env = t \<and> leases db = rows \<and> leases db' = rows' \<and> run_sched env sc s db = Inr db'))"

interpretation fenced: fenced_leases exec_fenced
proof
  fix c t rows rows'
  assume e: "exec_fenced c t rows rows'"
  show "lease_step t rows rows'"
  proof (cases c)
    case (Inl m)
    with e show ?thesis by (auto simp: exec_fenced_def intro: manager.exec_step)
  next
    case (Inr s)
    with e show ?thesis by (auto simp: exec_fenced_def intro: run_sched_lease_step)
  qed
qed

lemma dead_claim:
  assumes "fenced.history (leases db) (leases db')" "leases_ok (leases db)"
    and "cl_fence c < fence_at (cl_resource_key c) (leases db)" "worker_id env w db' = Inr wid"
  shows "stale (own_claim env c w db')"
proof (cases "find_lease (cl_resource_key c) (leases db)")
  case None
  have "\<forall>l \<in> set (leases db'). 1 \<le> l_fence l"
    using fenced.history_ok [OF assms(1, 2)] by (simp add: leases_ok_def)
  with None assms(3) have "\<not> (\<exists>l \<in> set (leases db'). l_resource_key l = cl_resource_key c \<and> l_fence l = cl_fence c)"
    by (auto simp: fence_at_def)
  with assms(4) show ?thesis by (auto simp: own_claim_def require_claim_def)
next
  case (Some x)
  with assms(3) have "cl_fence c < l_fence x" by (simp add: fence_at_def)
  from fenced.stale_fence [OF assms(1) Some this] obtain y where
    y: "find_lease (cl_resource_key c) (leases db') = Some y" "l_fence y \<noteq> cl_fence c" by blast
  have "l = y" if "l \<in> set (leases db')" "l_resource_key l = cl_resource_key c" for l
    using key_unique [of l_resource_key "leases db'" l y] that find_lease_SomeD [OF y(1)]
      fenced.history_ok [OF assms(1, 2)] by (simp add: leases_ok_def)
  with y(2) assms(4) show ?thesis by (auto simp: own_claim_def require_claim_def)
qed

text \<open>C15.  A worker that lost its claim can no longer write: once the Task's fence has passed the
  claim's, then after any interleaving of scheduler and lease commands starting, completing and
  failing the Task under that claim all stop with \<open>LeaseError\<close> and change nothing.\<close>

theorem stale_claim_rejected:
  assumes "fenced.history (leases db) (leases db')" "leases_ok (leases db)"
    and "cl_fence c < fence_at (cl_resource_key c) (leases db)" "worker_id env w db' = Inr wid"
  shows "stale (start_claim env sc c w db') \<and> stale (complete_claim env sc c w db') \<and>
     stale (fail_claim env sc c w f m s r db')"
  using dead_claim [OF assms] by (auto simp: stale_def start_claim_def complete_claim_def fail_claim_def Let_def)

section \<open>Attempts\<close>

text \<open>Task ids are unique; the attempts of a Task are numbered \<open>1, 2, \<dots>\<close> without gaps up to its
  attempt count; and the count is within the \<open>max_attempts\<close> of its contract.\<close>

definition work_ok :: "(string \<times> json \<times> int) list \<Rightarrow> (string \<times> int) list \<Rightarrow> bool" where
  "work_ok ts as \<longleftrightarrow> distinct (map fst ts) \<and>
     (\<forall>(i, spec, n) \<in> set ts. 0 \<le> n \<and> map snd (filter (\<lambda>a. fst a = i) as) = [1..n] \<and>
        (\<forall>s. load_task_spec spec = Inr s \<longrightarrow> n \<le> ts_max_attempts s))"

definition attempts_ok :: "db \<Rightarrow> bool" where
  "attempts_ok db \<longleftrightarrow> work_ok (map task_core (tasks db)) (map attempt_core (attempts db))"

lemma same_work_attempts_ok: "same_work db db' \<Longrightarrow> attempts_ok db \<Longrightarrow> attempts_ok db'"
  by (simp add: same_work_def attempts_ok_def)

lemma work_ok_claim:
  assumes "work_ok ts as" "(i, spec, n) \<in> set ts" "load_task_spec spec = Inr s" "n < ts_max_attempts s"
  shows "work_ok (map (\<lambda>(j, x, k). if j = i then (j, x, n + 1) else (j, x, k)) ts) (as @ [(i, n + 1)])"
proof -
  have u: "t = (i, spec, n)" if "t \<in> set ts" "fst t = i" for t
    using key_unique [of fst ts t "(i, spec, n)"] that assms(1, 2) by (simp add: work_ok_def)
  have fsts: "map fst (map (\<lambda>(j, x, k). if j = i then (j, x, n + 1) else (j, x, k)) ts) = map fst ts"
    by (auto split: prod.splits)
  have "0 \<le> k' \<and> map snd (filter (\<lambda>a. fst a = j) (as @ [(i, n + 1)])) = [1..k'] \<and>
      (\<forall>s. load_task_spec x = Inr s \<longrightarrow> k' \<le> ts_max_attempts s)"
    if "(j, x, k) \<in> set ts" and k': "k' = (if j = i then n + 1 else k)" for j x k k'
  proof -
    from assms(1) that(1) have o: "0 \<le> k" "map snd (filter (\<lambda>a. fst a = j) as) = [1..k]"
      "\<forall>s. load_task_spec x = Inr s \<longrightarrow> k \<le> ts_max_attempts s" by (auto simp: work_ok_def)
    show ?thesis
    proof (cases "j = i")
      case True
      with u [OF that(1)] have "x = spec" "k = n" by auto
      with True o k' assms(3, 4) show ?thesis by (simp add: upto_rec2)
    next
      case False
      with o k' show ?thesis by simp
    qed
  qed
  note row = this
  have "distinct (map fst (map (\<lambda>(j, x, k). if j = i then (j, x, n + 1) else (j, x, k)) ts))"
    unfolding fsts using assms(1) by (simp add: work_ok_def)
  then show ?thesis unfolding work_ok_def
  proof (intro conjI ballI)
    fix t assume "t \<in> set (map (\<lambda>(j, x, k). if j = i then (j, x, n + 1) else (j, x, k)) ts)"
    then obtain j x k where t: "(j, x, k) \<in> set ts" "t = (j, x, if j = i then n + 1 else k)" by (auto split: if_splits)
    show "case t of (j, spec, n') \<Rightarrow> 0 \<le> n' \<and> map snd (filter (\<lambda>a. fst a = j) (as @ [(i, n + 1)])) = [1..n'] \<and>
        (\<forall>s. load_task_spec spec = Inr s \<longrightarrow> n' \<le> ts_max_attempts s)"
      unfolding t(2) prod.case by (rule row [OF t(1) refl])
  qed
qed

lemma claim_next_attempts_ok:
  assumes "claim_next env sc p w ttl db = Inr (r, db')" "attempts_ok db"
  shows "attempts_ok db'"
  using claim_next_cases [OF assms(1)]
proof (elim disjE exE conjE)
  fix cl spec run wid and sel :: task_row
  let ?n = "fence_at (task_resource (t_task_id sel)) (leases db) + 1"
  assume sel: "sel \<in> set (due_tasks env p TS_READY db)" "load_task_spec (t_spec sel) = Inr spec"
    "t_attempt_count sel < ts_max_attempts spec"
    and cl: "claim_task env sc p wid w ttl sel run ?n db = Inr (cl, db')"
  from claim_task_Inr [OF cl] have t: "map task_core (tasks db') =
      map (\<lambda>(j, x, k). if j = t_task_id sel then (j, x, t_attempt_count sel + 1) else (j, x, k)) (map task_core (tasks db))"
    "map attempt_core (attempts db') = map attempt_core (attempts db) @ [(t_task_id sel, t_attempt_count sel + 1)]"
    by (auto simp: update_where_def task_core_def attempt_core_def)
  have "task_core sel \<in> set (map task_core (tasks db))" using due_tasksD [OF sel(1)] by auto
  with sel assms(2) show ?thesis unfolding attempts_ok_def t by (intro work_ok_claim) (auto simp: task_core_def)
qed (use assms(2) in simp)

lemma gives_up_same: "gives_up env c db db' \<Longrightarrow> same_work db db'"
  using same_work_trans release_claim_same by (auto simp: gives_up_def quiet_def)

lemma run_sched_attempts_ok:
  assumes "run_sched env sc c db = Inr db'" "attempts_ok db"
  shows "attempts_ok db'"
  using assms
  by (cases c) (auto simp: bindr_eq_Inr quiet_def intro: claim_next_attempts_ok
    dest!: returnsD [OF promote_quiet] returnsD [OF start_claim_quiet] returnsD [OF reap_expired_quiet]
      returnsD [OF complete_claim_gives_up] returnsD [OF fail_claim_gives_up]
    dest: gives_up_same intro: same_work_attempts_ok)

text \<open>C14.  No Task is tried more often than its contract allows: along every history of scheduler
  commands, by any actors and with any claims, the attempts of each Task stay numbered
  \<open>1, \<dots>, attempt_count\<close> without a gap or a repetition, and \<open>attempt_count\<close> stays within
  \<open>max_attempts\<close> of the Task's contract.\<close>

theorem attempts_within_contract:
  assumes "sched_history db db'" "attempts_ok db"
  shows "attempts_ok db' \<and> (\<forall>t \<in> set (tasks db'). \<forall>spec. load_task_spec (t_spec t) = Inr spec \<longrightarrow>
     int (length (filter (\<lambda>a. at_task_id a = t_task_id t) (attempts db'))) \<le> ts_max_attempts spec)"
proof
  show ok: "attempts_ok db'"
    using assms by (induction rule: sched_history.induct) (auto intro: run_sched_attempts_ok)
  show "\<forall>t \<in> set (tasks db'). \<forall>spec. load_task_spec (t_spec t) = Inr spec \<longrightarrow>
     int (length (filter (\<lambda>a. at_task_id a = t_task_id t) (attempts db'))) \<le> ts_max_attempts spec"
  proof (intro ballI allI impI)
    fix t spec assume t: "t \<in> set (tasks db')" "load_task_spec (t_spec t) = Inr spec"
    from ok t(1) have "task_core t \<in> set (map task_core (tasks db'))" by simp
    with ok t have "map snd (filter (\<lambda>a. fst a = t_task_id t) (map attempt_core (attempts db'))) = [1..t_attempt_count t]"
      "0 \<le> t_attempt_count t" "t_attempt_count t \<le> ts_max_attempts spec"
      by (auto simp: attempts_ok_def work_ok_def task_core_def)
    moreover from this(1) have "length (filter (\<lambda>a. at_task_id a = t_task_id t) (attempts db')) = length [1..t_attempt_count t]"
      by (metis (mono_tags, lifting) attempt_core_def comp_apply filter_cong filter_map fst_conv length_map)
    ultimately show "int (length (filter (\<lambda>a. at_task_id a = t_task_id t) (attempts db'))) \<le> ts_max_attempts spec"
      by simp
  qed
qed

section \<open>What a claim grants and a failure leaves\<close>

lemma find_lease_upsert:
  "find_lease (l_resource_key new) (upsert_lease new rows) =
     Some (case find_lease (l_resource_key new) rows of None \<Rightarrow> new
       | Some l \<Rightarrow> l\<lparr>l_project_id := l_project_id new, l_task_id := l_task_id new, l_holder := l_holder new,
               l_fence := l_fence new, l_issued_at := l_issued_at new, l_expires_at := l_expires_at new,
               l_released_at := None\<rparr>)"
  by (auto simp: upsert_lease_def find_lease_snoc find_lease_update dest: find_lease_SomeD split: option.splits)


lemma make_scheduler_bounds:
  "make_scheduler a v b m = Inr sc \<Longrightarrow> 1 \<le> sc_retry_base_seconds sc \<and> sc_retry_base_seconds sc \<le> sc_retry_max_seconds sc"
  by (auto simp: make_scheduler_def split: if_splits)

lemma retry_due_bounds:
  assumes "make_scheduler a v b m = Inr sc"
  shows "now env + seconds (sc_retry_base_seconds sc) \<le> retry_due env sc n \<and>
     retry_due env sc n \<le> now env + seconds (sc_retry_max_seconds sc)"
proof -
  from make_scheduler_bounds [OF assms] have b: "1 \<le> sc_retry_base_seconds sc" "sc_retry_base_seconds sc \<le> sc_retry_max_seconds sc"
    by auto
  have "sc_retry_base_seconds sc * 1 \<le> sc_retry_base_seconds sc * 2 ^ nat (max (n - 1) 0)"
    using b(1) by (intro mult_left_mono) auto
  with b(2) show ?thesis by (simp add: retry_due_def seconds_def min_def)
qed

lemma retry_due_mono:
  assumes "make_scheduler a v b m = Inr sc" "i \<le> j"
  shows "retry_due env sc i \<le> retry_due env sc j"
proof -
  from make_scheduler_bounds [OF assms(1)] have "1 \<le> sc_retry_base_seconds sc" by simp
  moreover have "(2 :: int) ^ nat (max (i - 1) 0) \<le> 2 ^ nat (max (j - 1) 0)"
    using assms(2) by (intro power_increasing) (auto simp: nat_mono)
  ultimately have "sc_retry_base_seconds sc * 2 ^ nat (max (i - 1) 0) \<le> sc_retry_base_seconds sc * 2 ^ nat (max (j - 1) 0)"
    by (intro mult_left_mono) auto
  then show ?thesis by (simp add: retry_due_def seconds_def)
qed

lemma fail_claim_Inr:
  assumes "fail_claim env sc c w f m s r db = Inr (out, db')"
  shows "\<exists>row spec. fetch_task (cl_task_id c) db = Inr row \<and> load_task_spec (t_spec row) = Inr spec \<and>
     (fo_circuit_open out \<longleftrightarrow> ts_max_attempts spec \<le> t_attempt_count row) \<and>
     (if fo_circuit_open out then fo_state out = TS_FAILED \<and> fo_retry_due_at out = None
      else fo_state out = TS_RETRY_PENDING \<and> fo_retry_due_at out = Some (retry_due env sc (cl_attempt_number c))) \<and>
     TS_FAILED \<in> set (TASK_TRANSITIONS (t_state row)) \<and>
     (\<forall>t \<in> set (tasks db'). t_task_id t = cl_task_id c \<longrightarrow> t_state t = fo_state out \<and> t_due_at t = fo_retry_due_at out) \<and>
     (\<forall>l \<in> set (leases db'). l_resource_key l = cl_resource_key c \<and> l_fence l = cl_fence c \<longrightarrow> l_released_at l \<noteq> None) \<and>
     (\<forall>a \<in> set (attempts db'). at_attempt_id a = cl_attempt_id c \<longrightarrow> at_ended_at a \<noteq> None)"
  using assms
  by (auto simp: fail_claim_def bindr_eq_Inr Let_def fetch_task_def set_task_failure_def release_claim_def set_update_where
      dest!: task_transition_Inr fetch_one_SomeD split: if_split_asm)

text \<open>C17.  A failure is bounded: failing a claim ends its attempt and releases its lease, and the
  Task either fails for good, exactly when the attempts of its contract are used up, or is due
  again after an exponential backoff that lies between the configured bounds and never shrinks
  with the attempt number.\<close>

theorem fail_claim_bounded:
  assumes "make_scheduler a v b x = Inr sc" "fail_claim env sc c w f m s r db = Inr (out, db')"
  shows "(\<exists>row spec. fetch_task (cl_task_id c) db = Inr row \<and> load_task_spec (t_spec row) = Inr spec \<and>
       (fo_circuit_open out \<longleftrightarrow> ts_max_attempts spec \<le> t_attempt_count row)) \<and>
     (\<forall>t \<in> set (tasks db'). t_task_id t = cl_task_id c \<longrightarrow> t_state t = fo_state out \<and> t_due_at t = fo_retry_due_at out) \<and>
     (fo_circuit_open out \<longrightarrow> fo_state out = TS_FAILED \<and> fo_retry_due_at out = None) \<and>
     (\<not> fo_circuit_open out \<longrightarrow> fo_state out = TS_RETRY_PENDING \<and>
        (\<exists>due. fo_retry_due_at out = Some due \<and> now env + seconds (sc_retry_base_seconds sc) \<le> due \<and>
           due \<le> now env + seconds (sc_retry_max_seconds sc) \<and> due \<le> retry_due env sc (cl_attempt_number c + 1))) \<and>
     (\<forall>l \<in> set (leases db'). l_resource_key l = cl_resource_key c \<and> l_fence l = cl_fence c \<longrightarrow> l_released_at l \<noteq> None) \<and>
     (\<forall>a \<in> set (attempts db'). at_attempt_id a = cl_attempt_id c \<longrightarrow> at_ended_at a \<noteq> None)"
proof -
  obtain row spec where f: "fetch_task (cl_task_id c) db = Inr row" "load_task_spec (t_spec row) = Inr spec"
    "fo_circuit_open out \<longleftrightarrow> ts_max_attempts spec \<le> t_attempt_count row"
    "if fo_circuit_open out then fo_state out = TS_FAILED \<and> fo_retry_due_at out = None
      else fo_state out = TS_RETRY_PENDING \<and> fo_retry_due_at out = Some (retry_due env sc (cl_attempt_number c))"
    "\<forall>t \<in> set (tasks db'). t_task_id t = cl_task_id c \<longrightarrow> t_state t = fo_state out \<and> t_due_at t = fo_retry_due_at out"
    "\<forall>l \<in> set (leases db'). l_resource_key l = cl_resource_key c \<and> l_fence l = cl_fence c \<longrightarrow> l_released_at l \<noteq> None"
    "\<forall>a \<in> set (attempts db'). at_attempt_id a = cl_attempt_id c \<longrightarrow> at_ended_at a \<noteq> None"
    using fail_claim_Inr [OF assms(2)] by blast
  from f(4) retry_due_bounds [OF assms(1), of env "cl_attempt_number c"]
    retry_due_mono [OF assms(1), of "cl_attempt_number c" "cl_attempt_number c + 1" env]
  show ?thesis using f(1-3, 5-7) by auto
qed

section \<open>Instances\<close>

definition sample_run :: "loop_state \<Rightarrow> run_row" where
  "sample_run s = \<lparr>r_run_id = ''r1'', r_goal_id = ''g1'', r_project_id = ''p1'', r_loop_state = s,
     r_policy_version = ''v1'', r_version = 0, r_created_at = 0, r_updated_at = 0\<rparr>"

definition sched_db :: db where
  "sched_db = lease_db\<lparr>runs := [sample_run LS_RUNNING]\<rparr>"

definition sample_scheduler :: scheduler where
  "sample_scheduler = \<lparr>sc_authority = Some 1, sc_policy_version = ''v1'', sc_retry_base_seconds = 5, sc_retry_max_seconds = 60\<rparr>"

lemma sample_make_scheduler: "make_scheduler 1 ''v1'' 5 60 = Inr sample_scheduler"
  by (simp add: make_scheduler_def sample_scheduler_def)

lemma sample_task_loads: "load_task_spec (JObj (task_to_dict sample_task)) = Inr sample_task"
  by code_simp

lemma sample_attempts [simp]: "ts_max_attempts sample_task = 3"
  by (simp add: sample_task_def)

lemmas sched_eval = worker_id_def system_id_def task_resource_def due_tasks_def claim_task_def upsert_lease_def
  attempt_clash_def task_transition_def require_transition.simps own_claim_def require_claim_def fetch_task_def
  require_executable_run_def sched_db_def lease_db_def sample_run_def sample_scheduler_def sample_task_row_def

lemma sample_claim:
  "\<exists>cl db. claim_next (sample_env 5) sample_scheduler ''p1'' (Some (sample_session ''will'')) 60 sched_db = Inr (Some cl, db)"
  by (simp add: claim_next_def sched_eval sample_task_loads lease_eval identity_eval sample_eval store_eval Let_def cong: bind_eval)



lemma sched_db_attempts_ok: "attempts_ok sched_db"
  by (simp add: attempts_ok_def work_ok_def task_core_def sched_db_def lease_db_def sample_db_def empty_db_def
      sample_task_row_def sample_task_loads)

lemma attempts_within_contract_witness:
  "\<exists>db. sched_history sched_db db \<and> db \<noteq> sched_db \<and> attempts_ok db"
proof -
  obtain cl db where c: "claim_next (sample_env 5) sample_scheduler ''p1'' (Some (sample_session ''will'')) 60 sched_db = Inr (Some cl, db)"
    using sample_claim by blast
  then have "run_sched (sample_env 5) sample_scheduler (Claim_Next ''p1'' (Some (sample_session ''will'')) 60) sched_db = Inr db"
    by simp
  then have h: "sched_history sched_db db" by (rule sched_more [OF sched_none])
  have "attempts db \<noteq> []" using claim_next_cases [OF c] by (auto dest: claim_task_Inr)
  then have "db \<noteq> sched_db" by (auto simp: sched_db_def lease_db_def sample_db_def empty_db_def)
  with h attempts_within_contract [OF h sched_db_attempts_ok] show ?thesis by blast
qed

definition sample_claim_of :: "int \<Rightarrow> task_claim" where
  "sample_claim_of n = \<lparr>cl_task_id = ''t1'', cl_run_id = ''r1'', cl_attempt_id = ''a1'', cl_attempt_number = 1,
     cl_worker_id = ''will'', cl_resource_key = ''task://t1'', cl_fence = n, cl_expires_at = 100\<rparr>"

definition running_db :: db where
  "running_db = sched_db\<lparr>tasks := [(sample_task_row TS_RUNNING 1)\<lparr>t_attempt_count := 1\<rparr>],
     attempts := [\<lparr>at_attempt_id = ''a1'', at_task_id = ''t1'', at_run_id = ''r1'', at_number = 1, at_worker_id = ''will'',
       at_state = ''running'', at_started_at = 0, at_ended_at = None, at_failure_id = None\<rparr>],
     leases := [old_lease],
     events := [new_event (sample_env 5) sample_db (sample_event 0) sample_auth], uuid_next := 1\<rparr>"

lemma sample_worker: "worker_id (sample_env 9) (Some (sample_session ''will'')) running_db = Inr ''will''"
  by (simp add: sched_eval running_db_def identity_eval sample_eval Let_def cong: bind_eval)

lemma stale_claim_rejected_witness:
  "stale (complete_claim (sample_env 9) sample_scheduler (sample_claim_of 2) (Some (sample_session ''will'')) running_db)"
proof -
  have "leases_ok (leases running_db)" "cl_fence (sample_claim_of 2) < fence_at (cl_resource_key (sample_claim_of 2)) (leases running_db)"
    by (simp_all add: leases_ok_def fence_at_def find_lease_def running_db_def sample_claim_of_def old_lease_def new_lease_def)
  from stale_claim_rejected [OF fenced.hist_none this sample_worker] show ?thesis by blast
qed

lemma sample_fail:
  "\<exists>out db. fail_claim (sample_env 9) sample_scheduler (sample_claim_of 3) (Some (sample_session ''will''))
     ''ToolError'' ''boom'' ''error'' ''retry'' running_db = Inr (out, db)"
  by (simp add: fail_claim_def record_negative_def sched_eval running_db_def sample_claim_of_def old_lease_def
      sample_task_loads lease_eval identity_eval sample_rows event_run sample_event_def set_task_failure_def
      Let_def cong: bind_eval)

lemma fail_claim_bounded_witness:
  "\<exists>out db. fail_claim (sample_env 9) sample_scheduler (sample_claim_of 3) (Some (sample_session ''will''))
     ''ToolError'' ''boom'' ''error'' ''retry'' running_db = Inr (out, db) \<and>
     (\<forall>t \<in> set (tasks db). t_task_id t = ''t1'' \<longrightarrow> t_state t = fo_state out)"
proof -
  obtain out db where f: "fail_claim (sample_env 9) sample_scheduler (sample_claim_of 3) (Some (sample_session ''will''))
     ''ToolError'' ''boom'' ''error'' ''retry'' running_db = Inr (out, db)" using sample_fail by blast
  with fail_claim_bounded [OF sample_make_scheduler f] show ?thesis by (auto simp: sample_claim_of_def)
qed

text \<open>Failing a claim that was never started is refused by the Task table: \<open>LEASED\<close> does not lead
  to \<open>FAILED\<close>.\<close>

lemma unstarted_claim_cannot_fail:
  assumes "fail_claim env sc c w f m s r db = Inr (out, db')" "fetch_task (cl_task_id c) db = Inr row"
  shows "t_state row \<noteq> TS_LEASED"
  using fail_claim_Inr [OF assms(1)] assms(2) by auto

end
