(* ===== verification/Gates.thy ===== *)
theory Gates
  imports Policy Scheduler
begin

text \<open>
  \<open>gates.py\<close>: the guards of the loop, computed from persisted facts.  \<open>resolve\<close> evaluates each
  guard of the transition rule against the tables; what a caller claims about a guard is no input.
  The lemmas read the guards of delivery as statements about Tasks, evidence, integration items
  and observations.

  A value that a query binds to a text column is compared by its text, one bound to an integer
  column by its number (\<open>sql_text\<close>, \<open>sql_int\<close>); of the texts that SQLite reads as numbers the
  integer literals are modelled.  \<open>ORDER BY\<close> breaks ties in rowid order.
\<close>

section \<open>Values bound to columns\<close>

definition int_overflow :: "int \<Rightarrow> bool" where
  "int_overflow i \<longleftrightarrow> i < - (2 ^ 63) \<or> 2 ^ 63 \<le> i"

fun sql_text :: "json \<Rightarrow> string option res" where
  "sql_text JNull = Inr None"
| "sql_text (JBool b) = Inr (Some (if b then ''1'' else ''0''))"
| "sql_text (JInt i) = (if int_overflow i then Inl (PyTypeError ''OverflowError'') else Inr (Some (show_int i)))"
| "sql_text (JStr s) = Inr (Some s)"
| "sql_text v = Inl (PyTypeError ''type is not supported'')"

definition read_nat :: "string \<Rightarrow> int option" where
  "read_nat s = (if s = [] \<or> \<not> list_all is_digit s then None
     else Some (fold (\<lambda>c n. 10 * n + (of_char c - 48)) s 0))"

definition read_int :: "string \<Rightarrow> int option" where
  "read_int s = (case strip s of
       [] \<Rightarrow> None
     | c # cs \<Rightarrow> if c = CHR ''-'' then map_option uminus (read_nat cs)
                else if c = CHR ''+'' then read_nat cs else read_nat (c # cs))"

fun sql_int :: "json \<Rightarrow> int option res" where
  "sql_int JNull = Inr None"
| "sql_int (JBool b) = Inr (Some (if b then 1 else 0))"
| "sql_int (JInt i) = (if int_overflow i then Inl (PyTypeError ''OverflowError'') else Inr (Some i))"
| "sql_int (JStr s) = Inr (read_int s)"
| "sql_int v = Inl (PyTypeError ''type is not supported'')"

text \<open>A payload entry that must be a string.\<close>

definition payload_text_of :: "dict \<Rightarrow> string \<Rightarrow> string option" where
  "payload_text_of payload k = (case map_of payload k of Some (JStr s) \<Rightarrow> Some s | _ \<Rightarrow> None)"

section \<open>Verdicts\<close>

definition passing_evidence :: "evaluator_verdict \<Rightarrow> bool" where
  "passing_evidence v \<longleftrightarrow> v \<in> set [VD_NOT_REQUIRED, VD_PASS, VD_PASS_WITH_RISK]"

definition passing_evaluator :: "evaluator_verdict \<Rightarrow> bool" where
  "passing_evaluator v \<longleftrightarrow> v \<in> set [VD_PASS, VD_PASS_WITH_RISK]"

definition integration_final :: "integration_state \<Rightarrow> bool" where
  "integration_final s \<longleftrightarrow> s \<in> set [IS_DELIVERED, IS_SUPERSEDED]"

definition healthy :: "string \<Rightarrow> bool" where
  "healthy s \<longleftrightarrow> s \<in> set [''healthy'', ''ok'', ''pass'']"

section \<open>The facts\<close>

definition run_goal :: "run_row \<Rightarrow> db \<Rightarrow> goal_spec res" where
  "run_goal run db =
     bindr (require (fetch_one (\<lambda>g. g_goal_id g = r_goal_id run \<and> g_project_id g = r_project_id run) (goals db))
              (ContractError ''run goal projection is missing'')) (\<lambda>row. load_goal_spec (g_spec row))"

definition task_rows :: "run_row \<Rightarrow> dict \<Rightarrow> db \<Rightarrow> task_row list" where
  "task_rows run payload db =
     (case map_of payload ''task_id'' of
        None \<Rightarrow> sort_key t_task_id (filter (\<lambda>t. t_run_id t = Some (r_run_id run) \<and> t_project_id t = r_project_id run) (tasks db))
      | Some JNull \<Rightarrow> sort_key t_task_id (filter (\<lambda>t. t_run_id t = Some (r_run_id run) \<and> t_project_id t = r_project_id run) (tasks db))
      | Some (JStr i) \<Rightarrow> if i = [] then []
          else filter (\<lambda>t. t_task_id t = i \<and> t_run_id t = Some (r_run_id run) \<and> t_project_id t = r_project_id run) (tasks db)
      | Some _ \<Rightarrow> [])"

definition contract_valid :: "run_row \<Rightarrow> db \<Rightarrow> bool" where
  "contract_valid run db =
     (case bindr (run_goal run db) (\<lambda>goal.
           bindr (validate_goal_scope goal) (\<lambda>_.
           if task_rows run [] db = [] then Inr False
           else
           bindr (mapr (\<lambda>row. bindr (load_task_spec (t_spec row)) (\<lambda>task.
                    bindr (validate_task_within_goal goal task) (\<lambda>_. Inr (ts_evidence_target task))))
                  (task_rows run [] db)) (\<lambda>targets.
             Inr (set (gs_success_evidence_states goal) \<subseteq> set targets)))) of
        Inl _ \<Rightarrow> False
      | Inr b \<Rightarrow> b)"

definition lease_valid :: "env \<Rightarrow> run_row \<Rightarrow> dict \<Rightarrow> string \<Rightarrow> db \<Rightarrow> bool res" where
  "lease_valid env run payload command_actor db =
     (case (map_of payload ''task_id'', map_of payload ''resource_key'', map_of payload ''holder'', map_of payload ''fence'') of
        (Some task_id, Some resource_key, Some holder, Some fence) \<Rightarrow>
          if holder \<noteq> JStr command_actor then Inr False
          else
          bindr (sql_text task_id) (\<lambda>task_id.
          bindr (sql_text resource_key) (\<lambda>resource_key.
          bindr (sql_int fence) (\<lambda>fence.
            Inr (exists_row (\<lambda>l. Some (l_task_id l) = task_id \<and> l_project_id l = r_project_id run \<and>
              Some (l_resource_key l) = resource_key \<and> l_holder l = command_actor \<and> Some (l_fence l) = fence \<and>
              lease_active (now env) l \<and>
              exists_row (\<lambda>t. t_task_id t = l_task_id l \<and> t_project_id t = r_project_id run \<and>
                 t_run_id t = Some (r_run_id run)) (tasks db)) (leases db)))))
      | _ \<Rightarrow> Inr False)"

definition resume_approval_valid :: "env \<Rightarrow> run_row \<Rightarrow> dict \<Rightarrow> db \<Rightarrow> bool" where
  "resume_approval_valid env run payload db =
     (case payload_text_of payload ''approval_id'' of
        None \<Rightarrow> False
      | Some i \<Rightarrow> i \<noteq> [] \<and>
          exists_row (\<lambda>a. ap_approval_id a = i \<and> ap_project_id a = r_project_id run \<and> ap_run_id a = r_run_id run \<and>
            ap_capability a = CONTROL_RESUME \<and> ap_action a = ''resume_run'' \<and> ap_resource a = ''run:'' @ r_run_id run \<and>
            ap_decision a = ''approved'' \<and> (case ap_expires_at a of None \<Rightarrow> False | Some t \<Rightarrow> now env < t)) (approvals db))"

text \<open>The verdicts of the claims of a Task for a target.\<close>

definition claim_verdicts :: "string \<Rightarrow> evidence_state \<Rightarrow> db \<Rightarrow> evaluator_verdict list" where
  "claim_verdicts task_id tgt db =
     map ev_verdict (filter (\<lambda>c. ev_task_id c = task_id \<and> ev_state c = tgt) (evidence_claims db))"

text \<open>One iteration of the loop over the Tasks: the two flags and the two sets.\<close>

type_synonym evidence_acc = "bool \<times> bool \<times> evidence_state list \<times> evidence_state list"

definition evidence_of_task :: "db \<Rightarrow> task_row \<Rightarrow> evidence_acc \<Rightarrow> evidence_acc res" where
  "evidence_of_task db task acc = (case acc of (evidence_ok, evaluator_ok, passing, independent) \<Rightarrow>
     bindr (load_task_spec (t_spec task)) (\<lambda>spec.
     let tgt = ts_evidence_target spec; claims = claim_verdicts (t_task_id task) tgt db in
     Inr (evidence_ok \<and> list_ex passing_evidence claims,
          evaluator_ok \<and> (\<not> ts_evaluator_required spec \<or> list_ex passing_evaluator claims),
          if list_ex passing_evidence claims then tgt # passing else passing,
          if list_ex passing_evaluator claims then tgt # independent else independent)))"

definition evidence_status :: "run_row \<Rightarrow> db \<Rightarrow> (bool \<times> bool) res" where
  "evidence_status run db =
     (if task_rows run [] db = [] then Inr (False, False)
      else
      bindr (run_goal run db) (\<lambda>goal.
      bindr (foldm (evidence_of_task db) (task_rows run [] db) (True, True, [], [])) (\<lambda>(evidence_ok, evaluator_ok, passing, independent).
      let required = gs_success_evidence_states goal in
        Inr (evidence_ok \<and> set required \<subseteq> set passing,
             if gs_evaluator_required goal then evaluator_ok \<and> set required \<subseteq> set independent else evaluator_ok))))"

definition decision_gates_satisfied :: "env \<Rightarrow> db \<Rightarrow> string \<Rightarrow> bool res" where
  "decision_gates_satisfied env db task_id = required_decision_gates_satisfied env db task_id None None"

text \<open>\<open>all\<close> and the loops with an early return stop at the first failing item.\<close>

fun all_res :: "('a \<Rightarrow> bool res) \<Rightarrow> 'a list \<Rightarrow> bool res" where
  "all_res f [] = Inr True"
| "all_res f (x # xs) = bindr (f x) (\<lambda>b. if b then all_res f xs else Inr False)"

definition tasks_terminal :: "env \<Rightarrow> run_row \<Rightarrow> db \<Rightarrow> bool res" where
  "tasks_terminal env run db =
     (if task_rows run [] db = [] then Inr False
      else all_res (\<lambda>t. if t_state t = TS_DELIVERED then decision_gates_satisfied env db (t_task_id t) else Inr False)
             (task_rows run [] db))"

definition items_final :: "string \<Rightarrow> db \<Rightarrow> bool" where
  "items_final task_id db =
     (let states = map in_state (filter (\<lambda>i. in_task_id i = task_id) (integration_items db)) in
      states \<noteq> [] \<and> list_all integration_final states)"

definition integration_satisfied :: "env \<Rightarrow> run_row \<Rightarrow> db \<Rightarrow> bool res" where
  "integration_satisfied env run db =
     (if task_rows run [] db = [] then Inr False
      else all_res (\<lambda>t.
             bindr (decision_gates_satisfied env db (t_task_id t)) (\<lambda>open.
             if \<not> open then Inr False
             else bindr (load_task_spec (t_spec t)) (\<lambda>spec.
               Inr (\<not> ts_integration_required spec \<or> items_final (t_task_id t) db))))
             (task_rows run [] db))"

text \<open>The observations of a surface, latest first.\<close>

definition surface_observations :: "run_row \<Rightarrow> string \<Rightarrow> db \<Rightarrow> observation_row list" where
  "surface_observations run surface db =
     sort_key (\<lambda>ob. (- ob_observed_at ob, - ob_recorded_at ob))
       (filter (\<lambda>ob. ob_run_id ob = r_run_id run \<and> ob_surface_key ob = surface) (observations db))"

definition whole_seconds :: "int \<Rightarrow> int" where
  "whole_seconds t = t div 1000000"

definition observation_fresh :: "env \<Rightarrow> run_row \<Rightarrow> surface_spec \<Rightarrow> observation_row list \<Rightarrow> observation_row \<Rightarrow> db \<Rightarrow> bool" where
  "observation_fresh env run requirement rows latest db \<longleftrightarrow>
     healthy (ob_status latest) \<and>
     ob_target_identity latest = target_identity requirement \<and>
     ob_probe_name latest \<in> set (allowed_probes requirement) \<and>
     (trigger_event_required requirement \<longrightarrow> ob_trigger_event_id latest \<noteq> None) \<and>
     (case ob_trigger_event_id latest of None \<Rightarrow> True
        | Some i \<Rightarrow> exists_row (\<lambda>e. e_event_id e = i \<and> e_run_id e = Some (r_run_id run)) (events db)) \<and>
     exists_row (\<lambda>p. p_principal_id p = ob_observer latest \<and> p_enabled p) (principals db) \<and>
     exists_row (\<lambda>r. ro_principal_id r = ob_observer latest \<and> ro_role r = OBSERVER) (principal_roles db) \<and>
     0 \<le> whole_seconds (ob_expires_at latest) - whole_seconds (ob_observed_at latest) \<and>
     whole_seconds (ob_expires_at latest) - whole_seconds (ob_observed_at latest) \<le> max_ttl_seconds requirement \<and>
     ob_observed_at latest \<le> now env \<and> now env < ob_expires_at latest \<and>
     list_all (\<lambda>ob. ob_observed_at ob = ob_observed_at latest \<longrightarrow>
        (ob_target_identity ob, ob_status ob, ob_value_digest ob) =
        (ob_target_identity latest, ob_status latest, ob_value_digest latest)) rows"

definition surface_fresh :: "env \<Rightarrow> run_row \<Rightarrow> db \<Rightarrow> surface_spec \<Rightarrow> bool" where
  "surface_fresh env run db requirement =
     (case surface_observations run (surface_key requirement) db of
        [] \<Rightarrow> False
      | latest # rest \<Rightarrow> observation_fresh env run requirement (latest # rest) latest db)"

definition freshness_satisfied :: "env \<Rightarrow> run_row \<Rightarrow> db \<Rightarrow> bool res" where
  "freshness_satisfied env run db =
     bindr (run_goal run db) (\<lambda>goal. Inr (list_all (surface_fresh env run db) (gs_required_runtime_surfaces goal)))"

definition ci_green :: "run_row \<Rightarrow> dict \<Rightarrow> db \<Rightarrow> bool" where
  "ci_green run payload db =
     (case payload_text_of payload ''integration_id'' of
        None \<Rightarrow> False
      | Some i \<Rightarrow> exists_row (\<lambda>x. in_integration_id x = i \<and> in_run_id x = r_run_id run \<and>
          in_state x \<in> {IS_MERGE_PENDING, IS_DEPLOY_PENDING, IS_DELIVERED}) (integration_items db))"

definition repair_route_selected :: "run_row \<Rightarrow> dict \<Rightarrow> db \<Rightarrow> bool" where
  "repair_route_selected run payload db =
     (case payload_text_of payload ''task_id'' of
        None \<Rightarrow> False
      | Some i \<Rightarrow> exists_row (\<lambda>n. n_task_id n = i \<and> n_run_id n = r_run_id run \<and> n_repair_route n \<noteq> []) (negative_results db))"

definition capability_available :: "env \<Rightarrow> run_row \<Rightarrow> dict \<Rightarrow> db \<Rightarrow> bool" where
  "capability_available env run payload db =
     (case payload_text_of payload ''grant_id'' of
        None \<Rightarrow> False
      | Some i \<Rightarrow> exists_row (\<lambda>g. gr_grant_id g = i \<and> gr_run_id g = r_run_id run \<and> gr_revoked_at g = None \<and>
          grant_valid_now env g \<and> gr_used_count g < gr_max_uses g \<and> gr_cost_used g \<le> gr_cost_limit g) (grants db))"

definition improvement_routed :: "run_row \<Rightarrow> db \<Rightarrow> bool" where
  "improvement_routed run db = exists_row (\<lambda>p. ip_source_run_id p = r_run_id run) (improvement_proposals db)"

section \<open>Resolution\<close>

definition resolve_one :: "env \<Rightarrow> run_row \<Rightarrow> string \<Rightarrow> dict \<Rightarrow> string \<Rightarrow> db \<Rightarrow> bool res" where
  "resolve_one env run name payload command_actor db =
     (if name \<in> {''contract_valid'', ''readiness_gate_passed''} then Inr (contract_valid run db)
      else if name = ''lease_valid'' then lease_valid env run payload command_actor db
      else if name \<in> {''approval_valid'', ''resume_authorized'', ''owner_decision_recorded''}
        then Inr (resume_approval_valid env run payload db)
      else if name = ''evidence_satisfied'' then bindr (evidence_status run db) (\<lambda>p. Inr (fst p))
      else if name = ''evaluator_satisfied'' then bindr (evidence_status run db) (\<lambda>p. Inr (snd p))
      else if name = ''integration_satisfied'' then integration_satisfied env run db
      else if name = ''freshness_satisfied'' then freshness_satisfied env run db
      else if name = ''tasks_terminal'' then tasks_terminal env run db
      else if name = ''ci_green'' then Inr (ci_green run payload db)
      else if name = ''repair_route_selected'' then Inr (repair_route_selected run payload db)
      else if name = ''capability_available'' then Inr (capability_available env run payload db)
      else if name = ''improvement_routed'' then Inr (improvement_routed run db)
      else Inl (ContractError ''no authoritative resolver exists for guard''))"

definition resolve :: "env \<Rightarrow> run_row \<Rightarrow> loop_event \<Rightarrow> dict \<Rightarrow> string \<Rightarrow> db \<Rightarrow> (string \<times> bool) list res" where
  "resolve env run event payload command_actor db =
     (case map_of LOOP_TRANSITIONS (r_loop_state run, event) of
        None \<Rightarrow> Inr []
      | Some rule \<Rightarrow> mapr (\<lambda>name. bindr (resolve_one env run name payload command_actor db) (\<lambda>b. Inr (name, b))) (guards rule))"

section \<open>What the guards of delivery say\<close>

lemma all_res_True: "all_res f xs = Inr True \<longleftrightarrow> (\<forall>x \<in> set xs. f x = Inr True)"
  by (induction xs) (auto simp: bindr_eq_Inr split: if_splits)

text \<open>A Task has the evidence its contract targets, and the independent verdict where one is required.\<close>

definition evidence_passes :: "db \<Rightarrow> task_row \<Rightarrow> task_spec \<Rightarrow> bool" where
  "evidence_passes db t spec \<longleftrightarrow> (\<exists>c \<in> set (evidence_claims db). ev_task_id c = t_task_id t \<and>
     ev_state c = ts_evidence_target spec \<and> passing_evidence (ev_verdict c))"

definition evaluator_passes :: "db \<Rightarrow> task_row \<Rightarrow> task_spec \<Rightarrow> bool" where
  "evaluator_passes db t spec \<longleftrightarrow> (\<exists>c \<in> set (evidence_claims db). ev_task_id c = t_task_id t \<and>
     ev_state c = ts_evidence_target spec \<and> passing_evaluator (ev_verdict c))"

lemma claim_verdicts_ex:
  "list_ex P (claim_verdicts i tgt db) \<longleftrightarrow>
     (\<exists>c \<in> set (evidence_claims db). ev_task_id c = i \<and> ev_state c = tgt \<and> P (ev_verdict c))"
  by (auto simp: claim_verdicts_def list_ex_iff)

lemma evidence_of_task_spec:
  assumes "load_task_spec (t_spec t) = Inr spec"
  shows "evidence_of_task db t (e, v, ps, is) = Inr (e \<and> evidence_passes db t spec,
     v \<and> (ts_evaluator_required spec \<longrightarrow> evaluator_passes db t spec),
     if evidence_passes db t spec then ts_evidence_target spec # ps else ps,
     if evaluator_passes db t spec then ts_evidence_target spec # is else is)"
  using assms by (simp add: evidence_of_task_def claim_verdicts_ex Let_def
      evidence_passes_def [symmetric] evaluator_passes_def [symmetric])

lemma evidence_loop:
  assumes "foldm (evidence_of_task db) ts (e0, v0, ps0, is0) = Inr (e, v, ps, is)"
  shows "(e \<longleftrightarrow> e0 \<and> (\<forall>t \<in> set ts. \<forall>spec. load_task_spec (t_spec t) = Inr spec \<longrightarrow> evidence_passes db t spec)) \<and>
     (v \<longleftrightarrow> v0 \<and> (\<forall>t \<in> set ts. \<forall>spec. load_task_spec (t_spec t) = Inr spec \<longrightarrow>
         ts_evaluator_required spec \<longrightarrow> evaluator_passes db t spec)) \<and>
     (\<forall>t \<in> set ts. \<exists>spec. load_task_spec (t_spec t) = Inr spec) \<and>
     set ps = set ps0 \<union> {tgt. \<exists>t \<in> set ts. \<exists>spec. load_task_spec (t_spec t) = Inr spec \<and>
                           tgt = ts_evidence_target spec \<and> evidence_passes db t spec} \<and>
     set is = set is0 \<union> {tgt. \<exists>t \<in> set ts. \<exists>spec. load_task_spec (t_spec t) = Inr spec \<and>
                           tgt = ts_evidence_target spec \<and> evaluator_passes db t spec}"
  using assms
proof (induction ts arbitrary: e0 v0 ps0 is0)
  case (Cons t ts)
  then obtain spec where spec: "load_task_spec (t_spec t) = Inr spec"
    by (auto simp: evidence_of_task_def bindr_eq_Inr)
  from Cons.prems have "foldm (evidence_of_task db) ts (e0 \<and> evidence_passes db t spec,
     v0 \<and> (ts_evaluator_required spec \<longrightarrow> evaluator_passes db t spec),
     if evidence_passes db t spec then ts_evidence_target spec # ps0 else ps0,
     if evaluator_passes db t spec then ts_evidence_target spec # is0 else is0) = Inr (e, v, ps, is)"
    by (simp add: evidence_of_task_spec [OF spec])
  note IH = Cons.IH [OF this]
  show ?case
  proof (intro conjI)
    show "e \<longleftrightarrow> e0 \<and> (\<forall>t \<in> set (t # ts). \<forall>spec. load_task_spec (t_spec t) = Inr spec \<longrightarrow> evidence_passes db t spec)"
      using IH spec by auto
    show "v \<longleftrightarrow> v0 \<and> (\<forall>t \<in> set (t # ts). \<forall>spec. load_task_spec (t_spec t) = Inr spec \<longrightarrow>
        ts_evaluator_required spec \<longrightarrow> evaluator_passes db t spec)"
      using IH spec by auto
    show "\<forall>t \<in> set (t # ts). \<exists>spec. load_task_spec (t_spec t) = Inr spec"
      using IH spec by auto
    show "set ps = set ps0 \<union> {tgt. \<exists>t \<in> set (t # ts). \<exists>spec. load_task_spec (t_spec t) = Inr spec \<and>
        tgt = ts_evidence_target spec \<and> evidence_passes db t spec}"
      using IH spec by (cases "evidence_passes db t spec") auto
    show "set is = set is0 \<union> {tgt. \<exists>t \<in> set (t # ts). \<exists>spec. load_task_spec (t_spec t) = Inr spec \<and>
        tgt = ts_evidence_target spec \<and> evaluator_passes db t spec}"
      using IH spec by (cases "evaluator_passes db t spec") auto
  qed
qed simp

text \<open>The facts a delivery rests on: the Goal of the run, every Task of it delivered with its
  decision gates, evidence, verdict and integration, every required state of the Goal evidenced,
  and every required surface freshly observed.\<close>

definition task_earned :: "env \<Rightarrow> db \<Rightarrow> task_row \<Rightarrow> task_spec \<Rightarrow> bool" where
  "task_earned env db t spec \<longleftrightarrow> load_task_spec (t_spec t) = Inr spec \<and>
     decision_gates_satisfied env db (t_task_id t) = Inr True \<and> evidence_passes db t spec \<and>
     (ts_evaluator_required spec \<longrightarrow> evaluator_passes db t spec) \<and>
     (ts_integration_required spec \<longrightarrow> items_final (t_task_id t) db)"

definition run_tasks :: "run_row \<Rightarrow> db \<Rightarrow> task_row list" where
  "run_tasks run db = filter (\<lambda>t. t_run_id t = Some (r_run_id run) \<and> t_project_id t = r_project_id run) (tasks db)"

definition delivery_earned :: "env \<Rightarrow> run_row \<Rightarrow> goal_spec \<Rightarrow> db \<Rightarrow> bool" where
  "delivery_earned env run goal db \<longleftrightarrow> run_goal run db = Inr goal \<and> run_tasks run db \<noteq> [] \<and>
     (\<forall>t \<in> set (run_tasks run db). t_state t = TS_DELIVERED \<and> (\<exists>spec. task_earned env db t spec)) \<and>
     (\<forall>tgt \<in> set (gs_success_evidence_states goal). \<exists>t \<in> set (run_tasks run db). \<exists>spec.
        load_task_spec (t_spec t) = Inr spec \<and> ts_evidence_target spec = tgt \<and> evidence_passes db t spec \<and>
        (gs_evaluator_required goal \<longrightarrow> (\<exists>t \<in> set (run_tasks run db). \<exists>spec.
           load_task_spec (t_spec t) = Inr spec \<and> ts_evidence_target spec = tgt \<and> evaluator_passes db t spec))) \<and>
     (\<forall>s \<in> set (gs_required_runtime_surfaces goal). surface_fresh env run db s)"

lemma task_rows_Nil: "task_rows run [] db = sort_key t_task_id (run_tasks run db)"
  by (simp add: task_rows_def run_tasks_def)

lemma task_rows_set [simp]: "set (task_rows run [] db) = set (run_tasks run db)"
  by (simp add: task_rows_Nil)

lemma task_rows_empty [simp]: "task_rows run [] db = [] \<longleftrightarrow> run_tasks run db = []"
  by (metis set_empty task_rows_set)

lemma evidence_status_True:
  assumes "evidence_status run db = Inr (True, evaluator_ok)"
  shows "\<exists>goal. run_goal run db = Inr goal \<and> run_tasks run db \<noteq> [] \<and>
     (\<forall>t \<in> set (run_tasks run db). \<exists>spec. load_task_spec (t_spec t) = Inr spec \<and> evidence_passes db t spec \<and>
        (evaluator_ok \<and> ts_evaluator_required spec \<longrightarrow> evaluator_passes db t spec)) \<and>
     (\<forall>tgt \<in> set (gs_success_evidence_states goal). \<exists>t \<in> set (run_tasks run db). \<exists>spec.
        load_task_spec (t_spec t) = Inr spec \<and> ts_evidence_target spec = tgt \<and> evidence_passes db t spec \<and>
        (evaluator_ok \<and> gs_evaluator_required goal \<longrightarrow> (\<exists>t \<in> set (run_tasks run db). \<exists>spec.
           load_task_spec (t_spec t) = Inr spec \<and> ts_evidence_target spec = tgt \<and> evaluator_passes db t spec)))"
proof -
  from assms have ne: "run_tasks run db \<noteq> []" by (auto simp: evidence_status_def)
  with assms obtain goal e v ps qs where g: "run_goal run db = Inr goal"
    and f: "foldm (evidence_of_task db) (task_rows run [] db) (True, True, [], []) = Inr (e, v, ps, qs)"
    and r: "e" "set (gs_success_evidence_states goal) \<subseteq> set ps"
      "evaluator_ok = (if gs_evaluator_required goal then v \<and> set (gs_success_evidence_states goal) \<subseteq> set qs else v)"
    by (auto simp: evidence_status_def bindr_eq_Inr Let_def split del: if_split)
  note L = evidence_loop [OF f]
  from L r(1) have t: "\<exists>spec. load_task_spec (t_spec t) = Inr spec \<and> evidence_passes db t spec \<and>
      (evaluator_ok \<and> ts_evaluator_required spec \<longrightarrow> evaluator_passes db t spec)" if "t \<in> set (run_tasks run db)" for t
    using that r(3) by (auto split: if_splits)
  have p: "\<exists>t \<in> set (run_tasks run db). \<exists>spec. load_task_spec (t_spec t) = Inr spec \<and> ts_evidence_target spec = tgt \<and>
      evidence_passes db t spec" if "tgt \<in> set (gs_success_evidence_states goal)" for tgt
  proof -
    from that r(2) have "tgt \<in> set ps" by blast
    with L show ?thesis by auto
  qed
  have q: "\<exists>t \<in> set (run_tasks run db). \<exists>spec. load_task_spec (t_spec t) = Inr spec \<and> ts_evidence_target spec = tgt \<and>
      evaluator_passes db t spec"
    if "tgt \<in> set (gs_success_evidence_states goal)" "evaluator_ok \<and> gs_evaluator_required goal" for tgt
  proof -
    from that r(3) have "tgt \<in> set qs" by auto
    with L show ?thesis by auto
  qed
  have "\<forall>tgt \<in> set (gs_success_evidence_states goal). \<exists>t \<in> set (run_tasks run db). \<exists>spec.
        load_task_spec (t_spec t) = Inr spec \<and> ts_evidence_target spec = tgt \<and> evidence_passes db t spec \<and>
        (evaluator_ok \<and> gs_evaluator_required goal \<longrightarrow> (\<exists>t \<in> set (run_tasks run db). \<exists>spec.
           load_task_spec (t_spec t) = Inr spec \<and> ts_evidence_target spec = tgt \<and> evaluator_passes db t spec))"
    using p q by blast
  with g(1) ne t show ?thesis by blast
qed

text \<open>A guard of the result is one of the rule, and its value is the resolved one.\<close>

lemma resolve_guard:
  assumes "resolve env run event payload actor db = Inr gs" "map_of gs g = Some b"
  shows "resolve_one env run g payload actor db = Inr b"
proof -
  from assms(2) have "(g, b) \<in> set gs" by (rule map_of_SomeD)
  with assms(1) show ?thesis
    by (auto simp: resolve_def mapr_eq_Inr bindr_eq_Inr list_all2_conv_all_nth in_set_conv_nth split: option.splits)
qed

lemma resolve_one_delivery:
  "resolve_one env run ''evidence_satisfied'' payload actor db = bindr (evidence_status run db) (\<lambda>p. Inr (fst p))"
  "resolve_one env run ''evaluator_satisfied'' payload actor db = bindr (evidence_status run db) (\<lambda>p. Inr (snd p))"
  "resolve_one env run ''integration_satisfied'' payload actor db = integration_satisfied env run db"
  "resolve_one env run ''freshness_satisfied'' payload actor db = freshness_satisfied env run db"
  "resolve_one env run ''tasks_terminal'' payload actor db = tasks_terminal env run db"
  by (simp_all add: resolve_one_def)

lemma delivery_guards_earned:
  assumes "resolve env run event payload actor db = Inr gs"
    and "\<forall>g \<in> set delivery_guards. map_of gs g = Some True"
  shows "\<exists>goal. delivery_earned env run goal db"
proof -
  have g: "resolve_one env run g payload actor db = Inr True" if "g \<in> set delivery_guards" for g
    using resolve_guard [OF assms(1)] assms(2) that by blast
  from g [of "''evidence_satisfied''"] g [of "''evaluator_satisfied''"] have "evidence_status run db = Inr (True, True)"
    by (auto simp: resolve_one_delivery delivery_guards_def bindr_eq_Inr)
  from evidence_status_True [OF this] obtain goal where goal: "run_goal run db = Inr goal" "run_tasks run db \<noteq> []"
    and t: "\<And>t. t \<in> set (run_tasks run db) \<Longrightarrow> \<exists>spec. load_task_spec (t_spec t) = Inr spec \<and> evidence_passes db t spec \<and>
        (ts_evaluator_required spec \<longrightarrow> evaluator_passes db t spec)"
    and s: "\<forall>tgt \<in> set (gs_success_evidence_states goal). \<exists>t \<in> set (run_tasks run db). \<exists>spec.
        load_task_spec (t_spec t) = Inr spec \<and> ts_evidence_target spec = tgt \<and> evidence_passes db t spec \<and>
        (gs_evaluator_required goal \<longrightarrow> (\<exists>t \<in> set (run_tasks run db). \<exists>spec.
           load_task_spec (t_spec t) = Inr spec \<and> ts_evidence_target spec = tgt \<and> evaluator_passes db t spec))"
    by auto
  from g [of "''integration_satisfied''"] have i: "decision_gates_satisfied env db (t_task_id t) = Inr True \<and>
      (\<exists>spec. load_task_spec (t_spec t) = Inr spec \<and> (ts_integration_required spec \<longrightarrow> items_final (t_task_id t) db))"
    if "t \<in> set (run_tasks run db)" for t
    using that by (auto simp: resolve_one_delivery delivery_guards_def integration_satisfied_def all_res_True bindr_eq_Inr
        split: if_splits)
  from g [of "''tasks_terminal''"] have d: "t_state t = TS_DELIVERED" if "t \<in> set (run_tasks run db)" for t
    using that by (auto simp: resolve_one_delivery delivery_guards_def tasks_terminal_def all_res_True split: if_splits)
  from g [of "''freshness_satisfied''"] goal(1) have f: "list_all (surface_fresh env run db) (gs_required_runtime_surfaces goal)"
    by (auto simp: resolve_one_delivery delivery_guards_def freshness_satisfied_def)
  have "\<exists>spec. task_earned env db t spec" if "t \<in> set (run_tasks run db)" for t
    using t [OF that] i [OF that] by (auto simp: task_earned_def)
  with goal s d f have "delivery_earned env run goal db" by (simp add: delivery_earned_def list_all_iff)
  then show ?thesis ..
qed

end
