(* ===== verification/Kernel.thy ===== *)
theory Kernel
  imports Gates
begin

text \<open>
  \<open>kernel.py\<close>: the application boundary for Goal, run and Task commands.  Every command checks its
  caller, returns the stored result when its idempotency key is known, and otherwise appends one
  event under the kernel's command authority and updates the projection in the same transaction.

  A command is a function from the kernel object and the database to a JSON result and the two
  after it.  The kernel object carries its command authority, the configured authority spines and
  the Goal authorities it has seen (\<open>_authority_goal_bindings\<close>).  The checks a command makes in a
  transaction of its own are evaluated in the same state as the operation that follows it.
\<close>

section \<open>The kernel object\<close>

type_synonym spine = "project_spec \<times> program_spec \<times> program_spec list"

record kernel =
  k_authority :: "nat option"
  k_policy_version :: string
  k_spines :: "(string \<times> spine) list"
  k_goal_authorities :: "(string \<times> goal_authority) list"

definition make_spine ::
    "(string \<Rightarrow> string) \<Rightarrow> program_provider option \<Rightarrow> string \<times> project_spec \<times> program_spec \<times> program_spec list option \<Rightarrow>
     (string \<times> spine) res" where
  "make_spine sha provider binding = (case binding of (project_id, raw_project, raw_program, raw_graph) \<Rightarrow>
     bindr (canonical_project raw_project) (\<lambda>project.
     if project_id \<noteq> pj_project_id project
     then Inl (ContractError ''authority_spines key must match ProjectSpec.project_id'')
     else
     bindr (mapr canonical_program (case raw_graph of None \<Rightarrow> [raw_program] | Some g \<Rightarrow> g)) (\<lambda>graph.
     bindr (validate_program_graph sha project graph) (\<lambda>_.
     bindr (compile_program sha (program_to_dict raw_program) project
              (if pg_dependency_refs raw_program = [] then None else Some graph) provider) (\<lambda>program.
     if program_reference sha program \<notin> set (map (program_reference sha) graph)
     then Inl (ContractError ''authority Program graph omits the current Program'')
     else Inr (project_id, project, program, graph))))))"

definition make_kernel ::
    "(string \<Rightarrow> string) \<Rightarrow> nat \<Rightarrow> string \<Rightarrow> (string \<times> project_spec \<times> program_spec \<times> program_spec list option) list \<Rightarrow>
     program_provider option \<Rightarrow> kernel res" where
  "make_kernel sha authority policy_version spines provider =
     bindr (mapr (make_spine sha provider) spines) (\<lambda>spines.
       Inr \<lparr>k_authority = Some authority, k_policy_version = policy_version, k_spines = spines, k_goal_authorities = []\<rparr>)"

definition actor_id :: "env \<Rightarrow> role list \<Rightarrow> auth_session option \<Rightarrow> db \<Rightarrow> string res" where
  "actor_id env allowed actor db =
     bindr (verify_session env None actor db) (\<lambda>p.
     if set (pr_roles p) \<inter> set allowed = {} then Inl (TransitionError ''authenticated actor requires one of roles'')
     else Inr (pr_principal_id p))"

fun loop_event_actors :: "loop_event \<Rightarrow> role list" where
  "loop_event_actors GOAL_COMPILED = [SYSTEM]"
| "loop_event_actors RUN_READY = [SYSTEM]"
| "loop_event_actors TASK_STARTED = [WORKER, SYSTEM]"
| "loop_event_actors HUMAN_APPROVAL_REQUESTED = [WORKER, SYSTEM]"
| "loop_event_actors HUMAN_APPROVAL_RECEIVED = [OWNER, SYSTEM]"
| "loop_event_actors EVIDENCE_SUBMITTED = [WORKER, SYSTEM]"
| "loop_event_actors EVALUATOR_VERDICT_RECEIVED = [EVALUATOR]"
| "loop_event_actors CI_CHECK_STARTED = [RELEASE, SYSTEM]"
| "loop_event_actors CI_CHECK_COMPLETED = [RELEASE, SYSTEM]"
| "loop_event_actors DEPLOY_DIRECTORY_UPDATED = [RELEASE]"
| "loop_event_actors SERVICE_RESTART_ATTEMPTED = [RELEASE]"
| "loop_event_actors RUNTIME_FRESHNESS_VERIFIED = [OBSERVER]"
| "loop_event_actors RUNTIME_DRIFT_DETECTED = [OBSERVER, SYSTEM]"
| "loop_event_actors DELIVERY_CONFIRMED = [RELEASE]"
| "loop_event_actors IMPROVEMENT_REQUESTED = [OWNER, SYSTEM]"
| "loop_event_actors RESUME_REQUESTED = [OWNER, SYSTEM]"
| "loop_event_actors _ = [SYSTEM]"

definition loop_actor_id :: "env \<Rightarrow> auth_session option \<Rightarrow> loop_event \<Rightarrow> db \<Rightarrow> string res" where
  "loop_actor_id env actor event db = actor_id env (loop_event_actors event) actor db"

definition command_text :: "string \<Rightarrow> string res" where
  "command_text v =
     (if v = [] then Inl (ContractError ''must be a non-empty string'')
      else if v \<noteq> strip v then Inl (ContractError ''must not contain surrounding whitespace'') else Inr v)"

definition canonical_goal_spec :: "goal_spec \<Rightarrow> goal_spec res" where
  "canonical_goal_spec spec =
     bindr (except_map (\<lambda>e. case e of ContractError m \<Rightarrow> ContractError m | _ \<Rightarrow> ContractError ''malformed directly constructed GoalSpec'')
              (goal_from_dict (goal_to_dict spec))) (\<lambda>canonical.
     bindr (validate_goal_scope canonical) (\<lambda>_. Inr canonical))"

definition canonical_task_spec :: "task_spec \<Rightarrow> task_spec res" where
  "canonical_task_spec spec =
     except_map (\<lambda>e. case e of ContractError m \<Rightarrow> ContractError m | _ \<Rightarrow> ContractError ''malformed directly constructed TaskSpec'')
       (task_from_dict (task_to_dict spec))"

section \<open>Adopted authority\<close>

definition graph_refs :: "(string \<Rightarrow> string) \<Rightarrow> program_spec list \<Rightarrow> json" where
  "graph_refs sha graph =
     JList (map (\<lambda>p. JObj (ref_to_dict (program_reference sha p))) (sort_key (\<lambda>p. (pg_wave p, pg_program_id p)) graph))"

definition graph_digest :: "(string \<Rightarrow> string) \<Rightarrow> program_spec list \<Rightarrow> string" where
  "graph_digest sha graph = content_hash sha (graph_refs sha graph)"

text \<open>Aggregate type, aggregate identifier, event type and payload of the adoption events.\<close>

definition authority_events :: "(string \<Rightarrow> string) \<Rightarrow> spine \<Rightarrow> (string \<times> string \<times> string \<times> dict) list" where
  "authority_events sha spine = (case spine of (project, program, graph) \<Rightarrow>
     (''project_authority'', pj_project_id project, ''project_authority_adopted'',
        [(''project_spec'', JObj (project_to_dict project)), (''current_program_id'', JStr (pg_program_id program))])
     # map (\<lambda>p. (''program_authority'', pg_program_id p, ''program_authority_adopted'',
        [(''program_spec'', JObj (program_to_dict p)), (''graph_refs'', graph_refs sha graph),
         (''graph_digest'', JStr (graph_digest sha graph))])) graph)"

definition adopt_event ::
    "env \<Rightarrow> kernel \<Rightarrow> string \<Rightarrow> string \<times> string \<times> string \<times> dict \<Rightarrow> db \<Rightarrow> db res" where
  "adopt_event env k project_id ev db = (case ev of (aggregate_type, aggregate_id, event_type, payload) \<Rightarrow>
     (case fetch_one (\<lambda>e. e_aggregate_type e = aggregate_type \<and> e_aggregate_id e = aggregate_id \<and> e_aggregate_version e = 1) (events db) of
        Some e \<Rightarrow>
          if json_eq (JObj (e_payload e)) (JObj payload) then Inr db
          else Inl (ContractError ''persisted authority adoption event conflicts with configuration'')
      | None \<Rightarrow>
          let (command_id, db) = draw_uuid env db in
          bindr (append_event env (event_defaults\<lparr>c_aggregate_type := aggregate_type, c_aggregate_id := aggregate_id,
              c_expected_version := 0, c_project_id := project_id, c_event_type := event_type, c_actor := ''system'',
              c_command_id := command_id, c_correlation_id := project_id, c_policy_version := k_policy_version k,
              c_payload := payload, c_command_authority := k_authority k\<rparr>) db) (\<lambda>(_, db). Inr db)))"

text \<open>The columns of \<open>adopted_programs\<close> that are compared, by identifier.\<close>

definition program_columns :: "(string \<Rightarrow> string) \<Rightarrow> program_spec list \<Rightarrow> program_spec \<Rightarrow> int \<times> string \<times> string \<times> string \<times> string" where
  "program_columns sha graph p = (pg_version p, ar_digest (program_reference sha p), program_state_value (pg_state p),
     graph_digest sha graph, canonical_json (JObj (program_to_dict p)))"

definition adopted_columns :: "adopted_program_row \<Rightarrow> int \<times> string \<times> string \<times> string \<times> string" where
  "adopted_columns r = (apg_version r, apg_digest r, apg_state r, apg_graph_digest r, canonical_json (apg_spec r))"

definition adopted_as :: "(string \<Rightarrow> string) \<Rightarrow> string \<Rightarrow> program_spec list \<Rightarrow> db \<Rightarrow> bool" where
  "adopted_as sha project_id graph db \<longleftrightarrow>
     (let rows = filter (\<lambda>r. apg_project_id r = project_id) (adopted_programs db);
          actual = map_of (map (\<lambda>r. (apg_program_id r, adopted_columns r)) rows);
          expected = map_of (map (\<lambda>p. (pg_program_id p, program_columns sha graph p)) graph) in
      (\<forall>i \<in> set (map apg_program_id rows @ map pg_program_id graph). actual i = expected i))"

definition adopt_program :: "env \<Rightarrow> string \<Rightarrow> program_spec list \<Rightarrow> program_spec \<Rightarrow> db \<Rightarrow> db res" where
  "adopt_program env project_id graph p db =
     bindr (insert_row (\<lambda>a b. apg_program_id a = apg_program_id b)
       \<lparr>apg_program_id = pg_program_id p, apg_project_id = project_id, apg_version = pg_version p,
        apg_digest = ar_digest (program_reference (sha256 env) p), apg_state = program_state_value (pg_state p),
        apg_graph_digest = graph_digest (sha256 env) graph, apg_spec = JObj (program_to_dict p), apg_adopted_at = now env\<rparr>
       (adopted_programs db)) (\<lambda>rows. Inr (db\<lparr>adopted_programs := rows\<rparr>))"

definition adopt_spine :: "env \<Rightarrow> kernel \<Rightarrow> string \<times> spine \<Rightarrow> db \<Rightarrow> db res" where
  "adopt_spine env k entry db = (case entry of (project_id, project, program, graph) \<Rightarrow>
     (let existing = fetch_one (\<lambda>r. apj_project_id r = project_id) (adopted_projects db);
          digest = ar_digest (project_reference (sha256 env) project) in
      bindr (foldm (adopt_event env k project_id) (authority_events (sha256 env) (project, program, graph)) db) (\<lambda>db.
      case existing of
        Some r \<Rightarrow>
          if apj_version r \<noteq> pj_version project \<or> apj_digest r \<noteq> digest \<or> apj_current_program_id r \<noteq> pg_program_id program
          then Inl (ContractError ''persisted adopted Project authority conflicts with configuration'')
          else if \<not> adopted_as (sha256 env) project_id graph db
          then Inl (ContractError ''persisted current Program authority conflicts with configuration'')
          else Inr db
      | None \<Rightarrow>
          foldm (adopt_program env project_id graph) graph
            (db\<lparr>adopted_projects := adopted_projects db @ [\<lparr>apj_project_id = project_id, apj_version = pj_version project,
               apj_digest = digest, apj_spec = JObj (project_to_dict project),
               apj_current_program_id = pg_program_id program, apj_adopted_at = now env\<rparr>]\<rparr>))))"

definition initialize_kernel :: "env \<Rightarrow> kernel \<Rightarrow> db \<Rightarrow> db res" where
  "initialize_kernel env k db = foldm (adopt_spine env k) (k_spines k) db"

text \<open>The registry row of a Program agrees with the Program it decodes to.\<close>

definition registry_matches :: "(string \<Rightarrow> string) \<Rightarrow> string \<Rightarrow> adopted_program_row \<times> program_spec \<Rightarrow> bool" where
  "registry_matches sha digest rp = (case rp of (row, p) \<Rightarrow>
     apg_version row = pg_version p \<and> apg_digest row = ar_digest (program_reference sha p) \<and>
     apg_state row = program_state_value (pg_state p) \<and> apg_graph_digest row = digest)"

definition persisted_authority_spine :: "(string \<Rightarrow> string) \<Rightarrow> string \<Rightarrow> db \<Rightarrow> spine option res" where
  "persisted_authority_spine sha project_id db =
     (case fetch_one (\<lambda>r. apj_project_id r = project_id) (adopted_projects db) of
        None \<Rightarrow> Inr None
      | Some project_row \<Rightarrow>
          let program_rows = sort_key apg_program_id (filter (\<lambda>r. apg_project_id r = project_id) (adopted_programs db)) in
          bindr (require (fetch_one (\<lambda>r. apg_program_id r = apj_current_program_id project_row) program_rows)
                   (ContractError ''adopted Project current Program projection is missing'')) (\<lambda>program_row.
          bindr (bindr (decoded_object (apj_spec project_row)) project_from_dict) (\<lambda>project.
          bindr (mapr (\<lambda>r. bindr (decoded_object (apg_spec r)) program_from_dict) program_rows) (\<lambda>graph.
          bindr (require (fetch_one (\<lambda>p. pg_program_id p = apg_program_id program_row) graph) (PyTypeError ''StopIteration'')) (\<lambda>program.
          bindr (validate_program_graph sha project graph) (\<lambda>_.
          if apj_version project_row \<noteq> pj_version project \<or>
             apg_version program_row \<noteq> pg_version program \<or>
             apj_digest project_row \<noteq> ar_digest (project_reference sha project) \<or>
             apg_digest program_row \<noteq> ar_digest (program_reference sha program) \<or>
             apg_state program_row \<noteq> program_state_value (pg_state program) \<or>
             apg_graph_digest program_row \<noteq> graph_digest sha graph \<or>
             pg_project_ref program \<noteq> project_reference sha project \<or>
             \<not> list_all (registry_matches sha (graph_digest sha graph)) (zip program_rows graph)
          then Inl (ContractError ''persisted authority registry digest/state mismatch'')
          else if program_terminal (pg_state program) then Inl (ContractError ''persisted current Program is terminal'')
          else Inr (Some (project, program, graph))))))))"

section \<open>Commands\<close>

text \<open>The shape of every command: a stored result is returned, otherwise the work is done, its result
  saved under the key, and what remains (\<open>rest\<close>) done in the same transaction.\<close>

definition commit_once ::
    "env \<Rightarrow> string \<times> string \<times> string \<Rightarrow> string \<Rightarrow> (db \<Rightarrow> (json \<times> string \<times> db) res) \<Rightarrow> (db \<Rightarrow> db res) \<Rightarrow> db \<Rightarrow> (json \<times> db) res" where
  "commit_once env key digest work rest db =
     bindr (get_idempotent_result key digest db) (\<lambda>prior.
     case prior of
       Some r \<Rightarrow> Inr (r, db)
     | None \<Rightarrow>
         bindr (work db) (\<lambda>(r, event_id, db).
         bindr (save_idempotent_result env key digest r event_id db) (\<lambda>db.
         bindr (rest db) (\<lambda>db. Inr (r, db)))))"

definition core_event :: "kernel \<Rightarrow> string \<Rightarrow> auth_session option \<Rightarrow> string \<Rightarrow> string \<Rightarrow> event_cmd" where
  "core_event k actor session command_id idempotency_key = event_defaults\<lparr>c_actor := actor, c_auth_session := session,
     c_command_id := command_id, c_policy_version := k_policy_version k, c_command_authority := k_authority k,
     c_idempotency_key := Some idempotency_key\<rparr>"

definition goal_authority_of ::
    "env \<Rightarrow> string \<Rightarrow> goal_spec \<Rightarrow> goal_authority option \<Rightarrow> db \<Rightarrow> goal_authority option res" where
  "goal_authority_of env project_id spec compiled db =
     bindr (persisted_authority_spine (sha256 env) project_id db) (\<lambda>spine.
     case spine of
       None \<Rightarrow> if compiled \<noteq> None then Inl (ContractError ''compiled Goal authority requires an authority-enabled project'')
               else Inr None
     | Some (project, program, graph) \<Rightarrow>
         bindr (require compiled (ContractError ''authority-enabled project requires CompiledGoalAuthority'')) (\<lambda>authority.
         bindr (validate_goal_authority (sha256 env) authority project program
                  (if pg_dependency_refs program = [] then None else Some graph) None) (\<lambda>canonical.
         if ga_goal_spec canonical \<noteq> spec
         then Inl (ContractError ''GoalSpec does not match the compiled authority binding'')
         else Inr (Some canonical))))"

definition bind_goal_authority :: "env \<Rightarrow> kernel \<Rightarrow> string \<Rightarrow> string \<Rightarrow> string \<Rightarrow> goal_authority \<Rightarrow> db \<Rightarrow> db res" where
  "bind_goal_authority env k project_id actor goal_id authority db =
     (let doc = goal_authority_to_dict authority;
          (command_id, db) = draw_uuid env db in
      bindr (append_event env (event_defaults\<lparr>c_aggregate_type := ''goal_authority'', c_aggregate_id := goal_id,
          c_expected_version := 0, c_project_id := project_id, c_event_type := ''goal_authority_bound'', c_actor := actor,
          c_command_id := command_id, c_correlation_id := goal_id, c_policy_version := k_policy_version k,
          c_payload := doc\<rparr>) db) (\<lambda>(ev, db).
      if \<not> exists_row (\<lambda>p. apg_program_id p = ar_object_id (ga_program_ref authority)) (adopted_programs db)
      then Inl (SqliteIntegrityError ''FOREIGN KEY constraint failed'')
      else
      bindr (insert_row (\<lambda>a b. gb_goal_id a = gb_goal_id b)
               \<lparr>gb_goal_id = goal_id, gb_project_id = project_id, gb_program_id = ar_object_id (ga_program_ref authority),
                gb_authority_digest = content_hash (sha256 env) (JObj doc), gb_authority = JObj doc,
                gb_source_event_id = e_event_id ev\<rparr> (goal_bindings db)) (\<lambda>rows.
        Inr (db\<lparr>goal_bindings := rows\<rparr>))))"

definition create_goal_work ::
    "env \<Rightarrow> kernel \<Rightarrow> string \<Rightarrow> goal_spec \<Rightarrow> string \<Rightarrow> auth_session option \<Rightarrow> string \<Rightarrow> db \<Rightarrow> (json \<times> string \<times> db) res" where
  "create_goal_work env k project_id spec actor session idempotency_key db =
     (if exists_row (\<lambda>g. g_goal_id g = gs_goal_id spec) (goals db)
      then Inl (SqliteIntegrityError ''goal already exists'')
      else
      let (command_id, db) = draw_uuid env db in
      bindr (append_event env ((core_event k actor session command_id idempotency_key)\<lparr>c_aggregate_type := ''goal'',
          c_aggregate_id := gs_goal_id spec, c_expected_version := 0, c_project_id := project_id,
          c_event_type := ''goal_created'', c_correlation_id := gs_goal_id spec, c_payload := goal_to_dict spec\<rparr>) db) (\<lambda>(ev, db).
      bindr (insert_row (\<lambda>a b. g_goal_id a = g_goal_id b)
               \<lparr>g_goal_id = gs_goal_id spec, g_project_id = project_id, g_state = GS_COMPILED,
                g_spec = JObj (goal_to_dict spec), g_version = 1, g_created_at = now env, g_updated_at = now env\<rparr>
               (goals db)) (\<lambda>rows.
        Inr (JObj [(''goal_id'', JStr (gs_goal_id spec)), (''state'', JStr (goal_state_value GS_COMPILED)),
                   (''event_id'', JStr (e_event_id ev))], e_event_id ev, db\<lparr>goals := rows\<rparr>))))"

definition remember_goal :: "goal_spec \<Rightarrow> goal_authority option \<Rightarrow> kernel \<Rightarrow> kernel" where
  "remember_goal spec authority k = (case authority of None \<Rightarrow> k
     | Some a \<Rightarrow> k\<lparr>k_goal_authorities := AList.update (gs_goal_id spec) a (k_goal_authorities k)\<rparr>)"

definition create_goal ::
    "env \<Rightarrow> kernel \<Rightarrow> string \<Rightarrow> goal_spec \<Rightarrow> auth_session option \<Rightarrow> string \<Rightarrow> goal_authority option \<Rightarrow> db \<Rightarrow> (json \<times> kernel \<times> db) res" where
  "create_goal env k project_id raw session idempotency_key compiled db =
     bindr (command_text project_id) (\<lambda>_.
     bindr (command_text idempotency_key) (\<lambda>_.
     bindr (actor_id env [OWNER] session db) (\<lambda>actor.
     bindr (canonical_goal_spec raw) (\<lambda>spec.
     bindr (goal_authority_of env project_id spec compiled db) (\<lambda>authority.
     bindr (commit_once env (project_id, ''goal.create'', idempotency_key)
              (content_hash (sha256 env) (JObj (goal_to_dict spec)))
              (create_goal_work env k project_id spec actor session idempotency_key)
              (\<lambda>db. case authority of None \<Rightarrow> Inr db
                    | Some a \<Rightarrow> bind_goal_authority env k project_id actor (gs_goal_id spec) a db) db) (\<lambda>(r, db).
       Inr (r, remember_goal spec authority k, db)))))))"

definition create_run_work ::
    "env \<Rightarrow> kernel \<Rightarrow> string \<Rightarrow> string \<Rightarrow> string \<Rightarrow> dict \<Rightarrow> string \<Rightarrow> auth_session option \<Rightarrow> string \<Rightarrow> db \<Rightarrow> (json \<times> string \<times> db) res" where
  "create_run_work env k project_id goal_id run_id payload actor session idempotency_key db =
     (if \<not> exists_row (\<lambda>g. g_goal_id g = goal_id \<and> g_project_id g = project_id) (goals db)
      then Inl (NotFoundError ''goal not found in project'')
      else
      let (command_id, db) = draw_uuid env db in
      bindr (append_event env ((core_event k actor session command_id idempotency_key)\<lparr>c_aggregate_type := ''run'',
          c_aggregate_id := run_id, c_expected_version := 0, c_project_id := project_id, c_run_id := Some run_id,
          c_event_type := loop_event_value OWNER_INTENT_RECEIVED, c_correlation_id := run_id, c_payload := payload\<rparr>) db) (\<lambda>(ev, db).
      bindr (insert_row (\<lambda>a b. r_run_id a = r_run_id b)
               \<lparr>r_run_id = run_id, r_goal_id = goal_id, r_project_id = project_id, r_loop_state = LS_INTAKE,
                r_policy_version = k_policy_version k, r_version = 1, r_created_at = now env, r_updated_at = now env\<rparr>
               (runs db)) (\<lambda>rows.
        Inr (JObj [(''run_id'', JStr run_id), (''goal_id'', JStr goal_id),
                   (''loop_state'', JStr (loop_state_value LS_INTAKE)), (''event_id'', JStr (e_event_id ev))],
             e_event_id ev, db\<lparr>runs := rows\<rparr>))))"

definition create_run ::
    "env \<Rightarrow> kernel \<Rightarrow> string \<Rightarrow> string \<Rightarrow> string \<Rightarrow> auth_session option \<Rightarrow> string \<Rightarrow> db \<Rightarrow> (json \<times> kernel \<times> db) res" where
  "create_run env k project_id goal_id run_id session idempotency_key db =
     bindr (command_text project_id) (\<lambda>_.
     bindr (command_text goal_id) (\<lambda>_.
     bindr (command_text run_id) (\<lambda>_.
     bindr (command_text idempotency_key) (\<lambda>_.
     bindr (actor_id env [OWNER, SYSTEM] session db) (\<lambda>actor.
     let payload = [(''goal_id'', JStr goal_id), (''run_id'', JStr run_id), (''policy_version'', JStr (k_policy_version k))] in
     bindr (commit_once env (project_id, ''run.create'', idempotency_key) (content_hash (sha256 env) (JObj payload))
              (create_run_work env k project_id goal_id run_id payload actor session idempotency_key) Inr db) (\<lambda>(r, db).
       Inr (r, k, db)))))))"

text \<open>The Goal authority a Task is checked against: the one the kernel remembers, or the stored one.\<close>

definition known_goal_authority :: "env \<Rightarrow> kernel \<Rightarrow> string \<Rightarrow> string \<Rightarrow> db \<Rightarrow> goal_authority res" where
  "known_goal_authority env k project_id goal_id db =
     (case map_of (k_goal_authorities k) goal_id of
        Some a \<Rightarrow> Inr a
      | None \<Rightarrow>
          (case fetch_one (\<lambda>b. gb_goal_id b = goal_id \<and> gb_project_id b = project_id) (goal_bindings db) of
             None \<Rightarrow> Inl (ContractError ''authority-enabled goal binding is unavailable'')
           | Some row \<Rightarrow>
               bindr (bindr (decoded_object (gb_authority row)) goal_authority_from_dict) (\<lambda>a.
               if content_hash (sha256 env) (JObj (goal_authority_to_dict a)) \<noteq> gb_authority_digest row
               then Inl (ContractError ''persisted Goal authority binding digest mismatch'') else Inr a)))"

definition task_authority_of ::
    "env \<Rightarrow> kernel \<Rightarrow> string \<Rightarrow> task_spec \<Rightarrow> task_authority option \<Rightarrow> db \<Rightarrow> task_authority option res" where
  "task_authority_of env k project_id spec compiled db =
     bindr (persisted_authority_spine (sha256 env) project_id db) (\<lambda>spine.
     case spine of
       None \<Rightarrow> if compiled \<noteq> None then Inl (ContractError ''compiled Task authority requires an authority-enabled project'')
               else Inr None
     | Some (project, program, graph) \<Rightarrow>
         bindr (known_goal_authority env k project_id (ts_goal_id spec) db) (\<lambda>goal.
         bindr (require compiled (ContractError ''authority-enabled project requires CompiledTaskAuthority'')) (\<lambda>authority.
         bindr (validate_task_authority (sha256 env) authority project program goal
                  (if pg_dependency_refs program = [] then None else Some graph) None) (\<lambda>canonical.
         if ta_task_spec canonical \<noteq> spec
         then Inl (ContractError ''TaskSpec does not match the compiled authority binding'')
         else Inr (Some canonical)))))"

definition bind_task_authority ::
    "env \<Rightarrow> kernel \<Rightarrow> string \<Rightarrow> string \<Rightarrow> string option \<Rightarrow> task_spec \<Rightarrow> task_authority \<Rightarrow> db \<Rightarrow> db res" where
  "bind_task_authority env k project_id actor run_id spec authority db =
     (let doc = task_authority_to_dict authority;
          (command_id, db) = draw_uuid env db in
      bindr (append_event env (event_defaults\<lparr>c_aggregate_type := ''task_authority'', c_aggregate_id := ts_task_id spec,
          c_expected_version := 0, c_project_id := project_id, c_task_id := Some (ts_task_id spec),
          c_event_type := ''task_authority_bound'', c_actor := actor, c_command_id := command_id,
          c_correlation_id := correlation run_id (ts_goal_id spec), c_policy_version := k_policy_version k,
          c_payload := doc\<rparr>) db) (\<lambda>(ev, db).
      if \<not> exists_row (\<lambda>b. gb_goal_id b = ts_goal_id spec) (goal_bindings db)
      then Inl (SqliteIntegrityError ''FOREIGN KEY constraint failed'')
      else
      bindr (insert_row (\<lambda>a b. tb_task_id a = tb_task_id b)
               \<lparr>tb_task_id = ts_task_id spec, tb_project_id = project_id,
                tb_program_id = ar_object_id (ta_program_ref authority), tb_goal_id = ts_goal_id spec,
                tb_authority_digest = content_hash (sha256 env) (JObj doc), tb_authority = JObj doc,
                tb_provider_budget_minor_units = ta_provider_budget_minor_units authority,
                tb_provider_call_limit = ta_provider_call_limit authority,
                tb_required_decision_gates = JList (map (\<lambda>c. JObj (gate_to_dict c)) (ta_decision_gate_contracts authority)),
                tb_source_event_id = e_event_id ev\<rparr> (task_bindings db)) (\<lambda>rows.
        Inr (db\<lparr>task_bindings := rows\<rparr>))))"

definition check_task_run :: "string \<Rightarrow> string \<Rightarrow> string option \<Rightarrow> db \<Rightarrow> unit res" where
  "check_task_run project_id goal_id run_id db = (case run_id of
       None \<Rightarrow> Inr ()
     | Some i \<Rightarrow>
         (case fetch_one (\<lambda>r. r_run_id r = i) (runs db) of
            None \<Rightarrow> Inl (NotFoundError ''run not found for goal/project'')
          | Some r \<Rightarrow>
              if r_project_id r \<noteq> project_id \<or> r_goal_id r \<noteq> goal_id
              then Inl (NotFoundError ''run not found for goal/project'')
              else ensure (r_loop_state r \<notin> set [LS_DELIVERED, LS_IMPROVEMENT_PENDING])
                     (TransitionError ''delivered run is sealed against new tasks'')))"

definition add_task_work ::
    "env \<Rightarrow> kernel \<Rightarrow> string \<Rightarrow> task_spec \<Rightarrow> string option \<Rightarrow> dict \<Rightarrow> string \<Rightarrow> auth_session option \<Rightarrow> string \<Rightarrow> db \<Rightarrow> (json \<times> string \<times> db) res" where
  "add_task_work env k project_id spec run_id payload actor session idempotency_key db =
     bindr (require (fetch_one (\<lambda>g. g_goal_id g = ts_goal_id spec \<and> g_project_id g = project_id) (goals db))
              (NotFoundError ''goal not found in project'')) (\<lambda>row.
     bindr (load_goal_spec (g_spec row)) (\<lambda>goal.
     bindr (validate_task_within_goal goal spec) (\<lambda>_.
     bindr (check_task_run project_id (ts_goal_id spec) run_id db) (\<lambda>_.
     let (command_id, db) = draw_uuid env db in
     bindr (append_event env ((core_event k actor session command_id idempotency_key)\<lparr>c_aggregate_type := ''task'',
         c_aggregate_id := ts_task_id spec, c_expected_version := 0, c_project_id := project_id, c_run_id := run_id,
         c_task_id := Some (ts_task_id spec), c_event_type := ''task_added'',
         c_correlation_id := correlation run_id (ts_goal_id spec), c_payload := payload\<rparr>) db) (\<lambda>(ev, db).
     bindr (insert_row (\<lambda>a b. t_task_id a = t_task_id b)
              \<lparr>t_task_id = ts_task_id spec, t_goal_id = ts_goal_id spec, t_run_id = run_id, t_project_id = project_id,
               t_state = TS_READY, t_spec = JObj (task_to_dict spec), t_version = 1, t_attempt_count = 0,
               t_due_at = None, t_last_error = None, t_created_at = now env, t_updated_at = now env\<rparr>
              (tasks db)) (\<lambda>rows.
       Inr (JObj [(''task_id'', JStr (ts_task_id spec)), (''state'', JStr (task_state_value TS_READY)),
                  (''event_id'', JStr (e_event_id ev))], e_event_id ev, db\<lparr>tasks := rows\<rparr>)))))))"

definition add_task ::
    "env \<Rightarrow> kernel \<Rightarrow> string \<Rightarrow> task_spec \<Rightarrow> auth_session option \<Rightarrow> string \<Rightarrow> string option \<Rightarrow> task_authority option \<Rightarrow> db \<Rightarrow> (json \<times> kernel \<times> db) res" where
  "add_task env k project_id raw session idempotency_key run_id compiled db =
     bindr (command_text project_id) (\<lambda>_.
     bindr (command_text idempotency_key) (\<lambda>_.
     bindr (case run_id of None \<Rightarrow> Inr [] | Some r \<Rightarrow> command_text r) (\<lambda>_.
     bindr (actor_id env [OWNER, SYSTEM] session db) (\<lambda>actor.
     bindr (canonical_task_spec raw) (\<lambda>spec.
     bindr (task_authority_of env k project_id spec compiled db) (\<lambda>authority.
     let payload = task_to_dict spec @ [(''run_id'', jopt run_id)] in
     bindr (commit_once env (project_id, ''task.add'', idempotency_key) (content_hash (sha256 env) (JObj payload))
              (add_task_work env k project_id spec run_id payload actor session idempotency_key)
              (\<lambda>db. case authority of None \<Rightarrow> Inr db
                    | Some a \<Rightarrow> bind_task_authority env k project_id actor run_id spec a db) db) (\<lambda>(r, db).
       Inr (r, k, db))))))))"

section \<open>The loop\<close>

definition last_evidence :: "string \<Rightarrow> db \<Rightarrow> int option" where
  "last_evidence run_id db =
     (let ts = map ev_created_at (filter (\<lambda>c. ev_run_id c = run_id) (evidence_claims db)) in
      if ts = [] then None else Some (Max (set ts)))"

definition starts_without_evidence :: "string \<Rightarrow> db \<Rightarrow> nat" where
  "starts_without_evidence run_id db =
     length (filter (\<lambda>e. e_aggregate_type e = ''run'' \<and> e_aggregate_id e = run_id \<and>
         e_event_type e = loop_event_value TASK_STARTED \<and>
         (case last_evidence run_id db of None \<Rightarrow> True | Some t \<Rightarrow> t < e_occurred_at e)) (events db))"

definition check_circuit_breaker :: "run_row \<Rightarrow> loop_event \<Rightarrow> db \<Rightarrow> unit res" where
  "check_circuit_breaker row event db =
     (if event = TASK_STARTED then
        bindr (require (fetch_one (\<lambda>g. g_goal_id g = r_goal_id row) (goals db)) (PyTypeError ''NoneType'')) (\<lambda>goal_row.
        bindr (load_goal_spec (g_spec goal_row)) (\<lambda>goal.
          ensure (int (starts_without_evidence (r_run_id row) db) < gs_max_iterations_without_evidence goal)
            (TransitionError ''max_iterations_without_evidence circuit breaker is open'')))
      else Inr ())"

text \<open>A guard that the caller states and the facts contradict.\<close>

definition contradicted :: "(string \<times> bool) list \<Rightarrow> (string \<times> bool) list \<Rightarrow> bool" where
  "contradicted supplied facts \<longleftrightarrow> list_ex (\<lambda>(key, v). map_of facts key = Some (\<not> v)) supplied"

definition guards_json :: "(string \<times> bool) list \<Rightarrow> json" where
  "guards_json gs = JObj (map (\<lambda>(g, b). (g, JBool b)) gs)"

definition advance_work ::
    "env \<Rightarrow> kernel \<Rightarrow> run_row \<Rightarrow> loop_event \<Rightarrow> (string \<times> bool) list \<Rightarrow> dict \<Rightarrow> string \<Rightarrow> auth_session option \<Rightarrow> string \<Rightarrow>
     string option \<Rightarrow> db \<Rightarrow> (json \<times> string \<times> db) res" where
  "advance_work env k row event supplied payload actor session idempotency_key causation_id db =
     bindr (resolve env row event payload actor db) (\<lambda>facts.
     if contradicted supplied facts
     then Inl (TransitionError ''caller guard results contradict persisted runtime facts'')
     else
     bindr (apply_loop_event (r_loop_state row) event (map_of facts)) (\<lambda>tgt.
     let (command_id, db) = draw_uuid env db in
     bindr (append_event env ((core_event k actor session command_id idempotency_key)\<lparr>c_aggregate_type := ''run'',
         c_aggregate_id := r_run_id row, c_expected_version := r_version row, c_project_id := r_project_id row,
         c_run_id := Some (r_run_id row), c_event_type := loop_event_value event, c_correlation_id := r_run_id row,
         c_policy_version := r_policy_version row, c_causation_id := causation_id,
         c_payload := [(''event'', JStr (loop_event_value event)), (''guards'', guards_json facts), (''payload'', JObj payload)]\<rparr>) db) (\<lambda>(ev, db).
       Inr (JObj [(''run_id'', JStr (r_run_id row)), (''previous_state'', JStr (loop_state_value (r_loop_state row))),
                  (''loop_state'', JStr (loop_state_value tgt)), (''event_id'', JStr (e_event_id ev))], e_event_id ev,
            db\<lparr>runs := update_where (\<lambda>r. r_run_id r = r_run_id row)
                 (\<lambda>r. r\<lparr>r_loop_state := tgt, r_version := r_version row + 1, r_updated_at := now env\<rparr>) (runs db)\<rparr>))))"

definition advance_loop ::
    "env \<Rightarrow> kernel \<Rightarrow> string \<Rightarrow> loop_event \<Rightarrow> auth_session option \<Rightarrow> string \<Rightarrow> (string \<times> bool) list option \<Rightarrow> dict option \<Rightarrow>
     string option \<Rightarrow> db \<Rightarrow> (json \<times> kernel \<times> db) res" where
  "advance_loop env k run_id event session idempotency_key guard_results payload causation_id db =
     bindr (command_text run_id) (\<lambda>_.
     bindr (command_text idempotency_key) (\<lambda>_.
     bindr (case causation_id of None \<Rightarrow> Inr [] | Some c \<Rightarrow> command_text c) (\<lambda>_.
     bindr (loop_actor_id env session event db) (\<lambda>actor.
     let event_payload = (case payload of None \<Rightarrow> [] | Some p \<Rightarrow> p);
         supplied = (case guard_results of None \<Rightarrow> [] | Some g \<Rightarrow> g) in
     bindr (require (fetch_one (\<lambda>r. r_run_id r = run_id) (runs db)) (NotFoundError ''run not found'')) (\<lambda>row.
     bindr (check_circuit_breaker row event db) (\<lambda>_.
     bindr (commit_once env (r_project_id row, ''run.event.'' @ run_id, idempotency_key)
              (content_hash (sha256 env) (JObj [(''event'', JStr (loop_event_value event)), (''payload'', JObj event_payload)]))
              (advance_work env k row event supplied event_payload actor session idempotency_key causation_id) Inr db) (\<lambda>(r, db).
       Inr (r, k, db))))))))"

section \<open>Tasks\<close>

definition task_evidence_status :: "task_row \<Rightarrow> db \<Rightarrow> (bool \<times> bool) res" where
  "task_evidence_status row db =
     bindr (load_task_spec (t_spec row)) (\<lambda>spec.
     let claims = claim_verdicts (t_task_id row) (ts_evidence_target spec) db in
       Inr (list_ex passing_evidence claims, \<not> ts_evaluator_required spec \<or> list_ex passing_evaluator claims))"

text \<open>The key check on \<open>event_fields\<close> never fails: the only field passed is \<open>accepted_evidence_id\<close>.\<close>

definition transition_task_projection ::
    "env \<Rightarrow> kernel \<Rightarrow> task_row \<Rightarrow> task_state \<Rightarrow> string \<Rightarrow> string \<Rightarrow> string \<Rightarrow> auth_session option \<Rightarrow> dict \<Rightarrow> db \<Rightarrow>
     (json \<times> string \<times> db) res" where
  "transition_task_projection env k row tgt actor reason idempotency_key session event_fields db =
     bindr (require_transition (Task_Value (t_state row)) (Task_Value tgt)) (\<lambda>_.
     let core = [(''from'', JStr (task_state_value (t_state row))), (''target'', JStr (task_state_value tgt)),
                 (''reason'', JStr reason)] in
     if set (keys core) \<inter> set (keys event_fields) \<noteq> {}
     then Inl (ContractError ''task transition event fields collide with core fields'')
     else
     let (command_id, db) = draw_uuid env db in
     bindr (append_event env ((core_event k actor session command_id idempotency_key)\<lparr>c_aggregate_type := ''task'',
         c_aggregate_id := t_task_id row, c_expected_version := t_version row, c_project_id := t_project_id row,
         c_run_id := t_run_id row, c_task_id := Some (t_task_id row), c_event_type := ''task_state_changed'',
         c_correlation_id := correlation (t_run_id row) (t_goal_id row), c_payload := core @ event_fields\<rparr>) db) (\<lambda>(ev, db).
       Inr (JObj [(''task_id'', JStr (t_task_id row)), (''previous_state'', JStr (task_state_value (t_state row))),
                  (''state'', JStr (task_state_value tgt)), (''event_id'', JStr (e_event_id ev))], e_event_id ev,
            db\<lparr>tasks := update_where (\<lambda>t. t_task_id t = t_task_id row)
                 (\<lambda>t. t\<lparr>t_state := tgt, t_version := t_version row + 1, t_updated_at := now env\<rparr>) (tasks db)\<rparr>)))"

definition claim_accepted :: "task_spec \<Rightarrow> evidence_row \<Rightarrow> bool" where
  "claim_accepted spec c \<longleftrightarrow> ev_state c = ts_evidence_target spec \<and>
     ev_verdict c \<in> set ([VD_PASS, VD_PASS_WITH_RISK] @ (if ts_evaluator_required spec then [] else [VD_NOT_REQUIRED]))"

definition evidence_target_state :: "task_state \<Rightarrow> bool \<Rightarrow> task_state res" where
  "evidence_target_state current evaluator_ok =
     (if current = TS_EVIDENCE_PENDING \<and> \<not> evaluator_ok then Inr TS_EVALUATOR_PENDING
      else if current \<in> {TS_EVIDENCE_PENDING, TS_EVALUATOR_PENDING} \<and> evaluator_ok then Inr TS_INTEGRATION_PENDING
      else Inl (TransitionError ''task cannot accept evidence''))"

definition accept_evidence_work ::
    "env \<Rightarrow> kernel \<Rightarrow> task_row \<Rightarrow> string \<Rightarrow> string \<Rightarrow> auth_session option \<Rightarrow> string \<Rightarrow> db \<Rightarrow> (json \<times> string \<times> db) res" where
  "accept_evidence_work env k row evidence_id actor session idempotency_key db =
     bindr (require (fetch_one (\<lambda>c. ev_evidence_id c = evidence_id \<and> ev_task_id c = t_task_id row) (evidence_claims db))
              (TransitionError ''evidence claim is missing or belongs to another task'')) (\<lambda>claim.
     bindr (load_task_spec (t_spec row)) (\<lambda>spec.
     if \<not> claim_accepted spec claim
     then Inl (TransitionError ''supplied evidence claim does not itself pass the task target'')
     else
     bindr (task_evidence_status row db) (\<lambda>(evidence_ok, evaluator_ok).
     if \<not> evidence_ok then Inl (TransitionError ''task evidence target is not satisfied'')
     else
     bindr (evidence_target_state (t_state row) evaluator_ok) (\<lambda>tgt.
       transition_task_projection env k row tgt actor (''authoritative evidence accepted: '' @ evidence_id) idempotency_key
         session [(''accepted_evidence_id'', JStr evidence_id)] db))))"

definition fetch_kernel_task :: "string \<Rightarrow> db \<Rightarrow> task_row res" where
  "fetch_kernel_task task_id db = require (fetch_one (\<lambda>t. t_task_id t = task_id) (tasks db)) (NotFoundError ''task not found'')"

definition accept_task_evidence ::
    "env \<Rightarrow> kernel \<Rightarrow> string \<Rightarrow> auth_session option \<Rightarrow> string \<Rightarrow> string \<Rightarrow> db \<Rightarrow> (json \<times> kernel \<times> db) res" where
  "accept_task_evidence env k task_id session idempotency_key evidence_id db =
     bindr (command_text task_id) (\<lambda>_.
     bindr (command_text idempotency_key) (\<lambda>_.
     bindr (command_text evidence_id) (\<lambda>_.
     bindr (actor_id env [EVALUATOR, SYSTEM] session db) (\<lambda>actor.
     bindr (fetch_kernel_task task_id db) (\<lambda>row.
     bindr (commit_once env (t_project_id row, ''task.evidence.'' @ task_id, idempotency_key)
              (content_hash (sha256 env) (JObj [(''evidence_id'', JStr evidence_id)]))
              (accept_evidence_work env k row evidence_id actor session idempotency_key) Inr db) (\<lambda>(r, db).
       Inr (r, k, db)))))))"

text \<open>The workflow steps of a Task are exactly the declared ones, and all succeeded.\<close>

definition steps_succeeded :: "task_spec \<Rightarrow> string \<Rightarrow> db \<Rightarrow> bool" where
  "steps_succeeded spec task_id db \<longleftrightarrow>
     (let declared = map step_id (ts_workflow_steps spec);
          rows = filter (\<lambda>w. ws_task_id w = task_id) (workflow_step_rows db) in
      declared = [] \<or> set (map ws_step_id rows) = set declared \<and> list_all (\<lambda>w. ws_status w = ''succeeded'') rows)"

definition delivery_work ::
    "env \<Rightarrow> kernel \<Rightarrow> task_row \<Rightarrow> string \<Rightarrow> auth_session option \<Rightarrow> string \<Rightarrow> db \<Rightarrow> (json \<times> string \<times> db) res" where
  "delivery_work env k row actor session idempotency_key db =
     (if t_state row \<noteq> TS_INTEGRATION_PENDING
      then Inl (TransitionError ''task must be integration_pending before delivery'')
      else
      bindr (task_evidence_status row db) (\<lambda>(evidence_ok, evaluator_ok).
      if \<not> evidence_ok \<or> \<not> evaluator_ok
      then Inl (TransitionError ''task evidence/evaluator requirements are not satisfied'')
      else
      bindr (decision_gates_satisfied env db (t_task_id row)) (\<lambda>gates.
      if \<not> gates then Inl (TransitionError ''compiled Task required decision gates are not satisfied'')
      else
      bindr (load_task_spec (t_spec row)) (\<lambda>spec.
      if \<not> steps_succeeded spec (t_task_id row) db
      then Inl (TransitionError ''task workflow steps are not exactly durably succeeded'')
      else if ts_integration_required spec \<and> \<not> items_final (t_task_id row) db
      then Inl (TransitionError ''task integration requirements are not satisfied'')
      else
      bindr (require (fetch_one (\<lambda>r. Some (r_run_id r) = t_run_id row) (runs db))
               (TransitionError ''task runtime freshness requirements are not satisfied'')) (\<lambda>run.
      bindr (freshness_satisfied env run db) (\<lambda>fresh.
      if \<not> fresh then Inl (TransitionError ''task runtime freshness requirements are not satisfied'')
      else transition_task_projection env k row TS_DELIVERED actor
             ''persisted evidence, evaluator, integration and freshness satisfied'' idempotency_key session [] db))))))"

definition confirm_task_delivery ::
    "env \<Rightarrow> kernel \<Rightarrow> string \<Rightarrow> auth_session option \<Rightarrow> string \<Rightarrow> db \<Rightarrow> (json \<times> kernel \<times> db) res" where
  "confirm_task_delivery env k task_id session idempotency_key db =
     bindr (command_text task_id) (\<lambda>_.
     bindr (command_text idempotency_key) (\<lambda>_.
     bindr (actor_id env [RELEASE] session db) (\<lambda>actor.
     bindr (fetch_kernel_task task_id db) (\<lambda>row.
     bindr (commit_once env (t_project_id row, ''task.delivery.'' @ task_id, idempotency_key)
              (content_hash (sha256 env) (JObj [(''command'', JStr ''confirm_task_delivery'')]))
              (delivery_work env k row actor session idempotency_key) Inr db) (\<lambda>(r, db).
       Inr (r, k, db))))))"

section \<open>Control\<close>

definition TASK_CONTROL_TARGETS :: "(string \<times> task_state) list" where
  "TASK_CONTROL_TARGETS = [(''block'', TS_BLOCKED), (''cancel'', TS_CANCELED), (''delete'', TS_DELETED),
     (''retire'', TS_RETIRED), (''suspend'', TS_SUSPENDED)]"

definition control_target :: "env \<Rightarrow> task_row \<Rightarrow> string \<Rightarrow> db \<Rightarrow> task_state res" where
  "control_target env row action db =
     (if action = ''resume'' then
        if t_state row = TS_BLOCKED then Inr TS_READY
        else if t_state row = TS_SUSPENDED then
          (if exists_row (\<lambda>l. l_resource_key l = task_resource (t_task_id row) \<and> l_project_id l = t_project_id row \<and>
                l_task_id l = t_task_id row \<and> lease_active (now env) l) (leases db)
           then Inr TS_LEASED
           else Inl (TransitionError ''suspended task cannot resume without its current worker claim''))
        else Inl (TransitionError ''task cannot resume'')
      else require (map_of TASK_CONTROL_TARGETS action) (PyKeyError ''action''))"

text \<open>Ending a Task releases its leases and closes its open attempts.\<close>

definition end_task_work :: "env \<Rightarrow> string \<Rightarrow> task_state \<Rightarrow> db \<Rightarrow> db" where
  "end_task_work env task_id tgt db =
     (if tgt \<in> set [TS_BLOCKED, TS_CANCELED, TS_DELETED, TS_RETIRED]
      then db\<lparr>leases := update_where (\<lambda>l. l_task_id l = task_id \<and> l_released_at l = None)
                (\<lambda>l. l\<lparr>l_released_at := Some (now env)\<rparr>) (leases db),
             attempts := update_where (\<lambda>a. at_task_id a = task_id \<and> at_ended_at a = None)
                (\<lambda>a. a\<lparr>at_state := task_state_value tgt, at_ended_at := Some (now env)\<rparr>) (attempts db)\<rparr>
      else db)"

definition control_work ::
    "env \<Rightarrow> kernel \<Rightarrow> task_row \<Rightarrow> string \<Rightarrow> string \<Rightarrow> string \<Rightarrow> auth_session option \<Rightarrow> string \<Rightarrow> db \<Rightarrow> (json \<times> string \<times> db) res" where
  "control_work env k row action reason actor session idempotency_key db =
     bindr (control_target env row action db) (\<lambda>tgt.
     bindr (transition_task_projection env k row tgt actor (''control:'' @ action @ '': '' @ reason) idempotency_key session [] db)
       (\<lambda>(r, event_id, db). Inr (r, event_id, end_task_work env (t_task_id row) tgt db)))"

definition control_task ::
    "env \<Rightarrow> kernel \<Rightarrow> string \<Rightarrow> string \<Rightarrow> string \<Rightarrow> auth_session option \<Rightarrow> string \<Rightarrow> db \<Rightarrow> (json \<times> kernel \<times> db) res" where
  "control_task env k task_id raw_action raw_reason session idempotency_key db =
     bindr (command_text task_id) (\<lambda>_.
     bindr (command_text idempotency_key) (\<lambda>_.
     bindr (actor_id env [OWNER, SYSTEM] session db) (\<lambda>actor.
     if strip raw_action = [] then Inl (ContractError ''task control action must be a non-empty string'')
     else
     let action = lower (strip raw_action); reason = strip raw_reason in
     if action \<notin> set (map fst TASK_CONTROL_TARGETS @ [''resume''])
     then Inl (ContractError ''task control action must be one of: block, cancel, delete, retire, resume, suspend'')
     else if reason = [] then Inl (ContractError ''task control reason must be a non-empty string'')
     else
     bindr (fetch_kernel_task task_id db) (\<lambda>row.
     bindr (commit_once env (t_project_id row, ''task.control.'' @ task_id, idempotency_key)
              (content_hash (sha256 env) (JObj [(''action'', JStr action), (''reason'', JStr reason)]))
              (control_work env k row action reason actor session idempotency_key) Inr db) (\<lambda>(r, db).
       Inr (r, k, db))))))"

section \<open>Reading projections\<close>

definition get_goal :: "string \<Rightarrow> db \<Rightarrow> goal_row res" where
  "get_goal goal_id db = bindr (command_text goal_id) (\<lambda>i.
     require (fetch_one (\<lambda>g. g_goal_id g = i) (goals db)) (NotFoundError ''goal not found''))"

definition get_run :: "string \<Rightarrow> db \<Rightarrow> run_row res" where
  "get_run run_id db = bindr (command_text run_id) (\<lambda>i.
     require (fetch_one (\<lambda>r. r_run_id r = i) (runs db)) (NotFoundError ''run not found''))"

definition get_task :: "string \<Rightarrow> db \<Rightarrow> task_row res" where
  "get_task task_id db = bindr (command_text task_id) (\<lambda>i.
     require (fetch_one (\<lambda>t. t_task_id t = i) (tasks db)) (NotFoundError ''task not found''))"

section \<open>What the commands do\<close>

lemma commit_once_Inr:
  "commit_once env key d work rest db = Inr (r, db') \<longleftrightarrow>
     (get_idempotent_result key d db = Inr (Some r) \<and> db' = db) \<or>
     (get_idempotent_result key d db = Inr None \<and>
        (\<exists>i db1 db2. work db = Inr (r, i, db1) \<and> save_idempotent_result env key d r i db1 = Inr db2 \<and> rest db2 = Inr db'))"
  by (auto simp: commit_once_def bindr_eq_Inr simp del: fetch_one_None split: option.splits)

text \<open>A saved result only adds an idempotency record.\<close>

lemma save_frame: "save_idempotent_result env key d r i db = Inr db' \<Longrightarrow> \<exists>rows. db' = db\<lparr>idempotency_records := rows\<rparr>"
  using save_idempotent_Inr by blast

text \<open>The event of a command: the command it was appended with, and where in the ledger.\<close>

definition appended :: "env \<Rightarrow> event_cmd \<Rightarrow> db \<Rightarrow> event_row \<Rightarrow> bool" where
  "appended env c db ev \<longleftrightarrow> (\<exists>auth. authorize_event env (db\<lparr>uuid_next := Suc (uuid_next db)\<rparr>) c = Inr auth \<and>
     ev = new_event env (db\<lparr>uuid_next := Suc (uuid_next db)\<rparr>) c auth \<and>
     current_version (c_aggregate_type c) (c_aggregate_id c) (events db) = c_expected_version c \<and>
     (\<forall>x \<in> set (events db). \<not> event_clash ev x))"

lemma append_after_draw:
  assumes "append_event env c (snd (draw_uuid env db)) = Inr (ev, db')"
  shows "appended env c db ev \<and> db' = db\<lparr>events := events db @ [ev], uuid_next := Suc (Suc (uuid_next db))\<rparr>"
  using assms by (auto simp: append_event_Inr appended_def draw_uuid_def)

text \<open>The command of a core event.\<close>

definition core_cmd :: "kernel \<Rightarrow> string \<Rightarrow> string \<Rightarrow> string \<Rightarrow> dict \<Rightarrow> event_cmd \<Rightarrow> bool" where
  "core_cmd k ty i event_type payload c \<longleftrightarrow> c_aggregate_type c = ty \<and> c_aggregate_id c = i \<and> c_event_type c = event_type \<and>
     c_payload c = payload \<and> c_command_authority c = k_authority k \<and> c_occurred_at c = None"

lemma core_event_simps [simp]:
  "c_command_authority (core_event k actor s i key) = k_authority k"
  "c_occurred_at (core_event k actor s i key) = None"
  by (simp_all add: core_event_def event_defaults_def)

lemma transition_task_Inr:
  assumes "transition_task_projection env k row tgt actor reason key s extra db = Inr (r, i, db')"
  shows "tgt \<in> set (TASK_TRANSITIONS (t_state row)) \<and>
     (\<exists>c ev. appended env c db ev \<and> c_expected_version c = t_version row \<and>
        core_cmd k ''task'' (t_task_id row) ''task_state_changed''
          ([(''from'', JStr (task_state_value (t_state row))), (''target'', JStr (task_state_value tgt)), (''reason'', JStr reason)] @ extra) c \<and>
        i = e_event_id ev \<and> db' = db\<lparr>events := events db @ [ev], uuid_next := Suc (Suc (uuid_next db)),
          tasks := update_where (\<lambda>t. t_task_id t = t_task_id row)
            (\<lambda>t. t\<lparr>t_state := tgt, t_version := t_version row + 1, t_updated_at := now env\<rparr>) (tasks db)\<rparr>)"
  using assms
  by (fastforce simp: transition_task_projection_def bindr_eq_Inr Let_def prod.case_eq_if core_cmd_def task_step_Inr
      split: if_splits dest!: append_after_draw)

lemma advance_work_Inr:
  assumes "advance_work env k row event supplied payload actor s key cause db = Inr (r, i, db')"
  shows "\<exists>facts tgt c ev. resolve env row event payload actor db = Inr facts \<and> \<not> contradicted supplied facts \<and>
     apply_loop_event (r_loop_state row) event (map_of facts) = Inr tgt \<and> appended env c db ev \<and>
     c_expected_version c = r_version row \<and>
     core_cmd k ''run'' (r_run_id row) (loop_event_value event)
       [(''event'', JStr (loop_event_value event)), (''guards'', guards_json facts), (''payload'', JObj payload)] c \<and>
     i = e_event_id ev \<and> db' = db\<lparr>events := events db @ [ev], uuid_next := Suc (Suc (uuid_next db)),
       runs := update_where (\<lambda>x. r_run_id x = r_run_id row)
         (\<lambda>x. x\<lparr>r_loop_state := tgt, r_version := r_version row + 1, r_updated_at := now env\<rparr>) (runs db)\<rparr>"
  using assms
  by (fastforce simp: advance_work_def bindr_eq_Inr Let_def prod.case_eq_if core_cmd_def
      split: if_splits dest!: append_after_draw)

lemma create_goal_work_Inr:
  assumes "create_goal_work env k project_id spec actor s key db = Inr (r, i, db')"
  shows "\<exists>c ev. appended env c db ev \<and> c_expected_version c = 0 \<and> c_project_id c = project_id \<and>
     core_cmd k ''goal'' (gs_goal_id spec) ''goal_created'' (goal_to_dict spec) c \<and> i = e_event_id ev \<and>
     (\<forall>g \<in> set (goals db). g_goal_id g \<noteq> gs_goal_id spec) \<and>
     db' = db\<lparr>events := events db @ [ev], uuid_next := Suc (Suc (uuid_next db)),
       goals := goals db @ [\<lparr>g_goal_id = gs_goal_id spec, g_project_id = project_id, g_state = GS_COMPILED,
         g_spec = JObj (goal_to_dict spec), g_version = 1, g_created_at = now env, g_updated_at = now env\<rparr>]\<rparr>"
  using assms
  by (fastforce simp: create_goal_work_def bindr_eq_Inr Let_def prod.case_eq_if core_cmd_def
      split: if_splits dest!: append_after_draw)

lemma create_run_work_Inr:
  assumes "create_run_work env k project_id goal_id run_id payload actor s key db = Inr (r, i, db')"
  shows "\<exists>c ev. appended env c db ev \<and> c_expected_version c = 0 \<and> c_project_id c = project_id \<and>
     core_cmd k ''run'' run_id (loop_event_value OWNER_INTENT_RECEIVED) payload c \<and> i = e_event_id ev \<and>
     (\<exists>g \<in> set (goals db). g_goal_id g = goal_id \<and> g_project_id g = project_id) \<and>
     (\<forall>x \<in> set (runs db). r_run_id x \<noteq> run_id) \<and>
     db' = db\<lparr>events := events db @ [ev], uuid_next := Suc (Suc (uuid_next db)),
       runs := runs db @ [\<lparr>r_run_id = run_id, r_goal_id = goal_id, r_project_id = project_id, r_loop_state = LS_INTAKE,
         r_policy_version = k_policy_version k, r_version = 1, r_created_at = now env, r_updated_at = now env\<rparr>]\<rparr>"
  using assms
  by (fastforce simp: create_run_work_def bindr_eq_Inr Let_def prod.case_eq_if core_cmd_def
      split: if_splits dest!: append_after_draw)

lemma add_task_work_Inr:
  assumes "add_task_work env k project_id spec run_id payload actor s key db = Inr (r, i, db')"
  shows "\<exists>row goal c ev. fetch_one (\<lambda>g. g_goal_id g = ts_goal_id spec \<and> g_project_id g = project_id) (goals db) = Some row \<and>
     load_goal_spec (g_spec row) = Inr goal \<and> validate_task_within_goal goal spec = Inr () \<and>
     check_task_run project_id (ts_goal_id spec) run_id db = Inr () \<and>
     appended env c db ev \<and> c_expected_version c = 0 \<and> c_project_id c = project_id \<and>
     core_cmd k ''task'' (ts_task_id spec) ''task_added'' payload c \<and> i = e_event_id ev \<and>
     (\<forall>t \<in> set (tasks db). t_task_id t \<noteq> ts_task_id spec) \<and>
     db' = db\<lparr>events := events db @ [ev], uuid_next := Suc (Suc (uuid_next db)),
       tasks := tasks db @ [\<lparr>t_task_id = ts_task_id spec, t_goal_id = ts_goal_id spec, t_run_id = run_id, t_project_id = project_id,
         t_state = TS_READY, t_spec = JObj (task_to_dict spec), t_version = 1, t_attempt_count = 0,
         t_due_at = None, t_last_error = None, t_created_at = now env, t_updated_at = now env\<rparr>]\<rparr>"
  using assms
  by (fastforce simp: add_task_work_def bindr_eq_Inr Let_def prod.case_eq_if core_cmd_def
      split: if_splits dest!: append_after_draw)

section \<open>Commands as values\<close>

datatype kernel_cmd =
    Create_Goal string goal_spec "auth_session option" string "goal_authority option"
  | Create_Run string string string "auth_session option" string
  | Add_Task string task_spec "auth_session option" string "string option" "task_authority option"
  | Advance string loop_event "auth_session option" string "(string \<times> bool) list option" "dict option" "string option"
  | Accept_Evidence string "auth_session option" string string
  | Confirm_Delivery string "auth_session option" string
  | Control string string string "auth_session option" string

fun run_kernel :: "env \<Rightarrow> kernel \<Rightarrow> kernel_cmd \<Rightarrow> db \<Rightarrow> (json \<times> kernel \<times> db) res" where
  "run_kernel env k (Create_Goal p g s key a) db = create_goal env k p g s key a db"
| "run_kernel env k (Create_Run p g r s key) db = create_run env k p g r s key db"
| "run_kernel env k (Add_Task p t s key r a) db = add_task env k p t s key r a db"
| "run_kernel env k (Advance r e s key g p c) db = advance_loop env k r e s key g p c db"
| "run_kernel env k (Accept_Evidence t s key e) db = accept_task_evidence env k t s key e db"
| "run_kernel env k (Confirm_Delivery t s key) db = confirm_task_delivery env k t s key db"
| "run_kernel env k (Control t a r s key) db = control_task env k t a r s key db"

text \<open>A command that is not answered from its idempotency record: the checks before, the work, the
  saved result and the rest.\<close>

lemma verify_session_cong:
  assumes "sessions db' = sessions db" "principals db' = principals db" "principal_roles db' = principal_roles db"
  shows "verify_session env ro s db' = verify_session env ro s db"
proof -
  have "role_set db' = role_set db" "session_principal db' = session_principal db"
    unfolding role_set_def session_principal_def fun_eq_iff assms by simp_all
  then show ?thesis by (simp only: verify_session_def)
qed

lemma actor_id_Inr:
  "actor_id env allowed s db = Inr a \<longleftrightarrow>
     (\<exists>p. verify_session env None s db = Inr p \<and> set (pr_roles p) \<inter> set allowed \<noteq> {} \<and> pr_principal_id p = a)"
  by (auto simp: actor_id_def bindr_eq_Inr)

lemma bind_goal_frame:
  "bind_goal_authority env k p a g auth db = Inr db' \<Longrightarrow>
     \<exists>es n rows. db' = db\<lparr>events := events db @ es, uuid_next := n, goal_bindings := rows\<rparr>"
  by (fastforce simp: bind_goal_authority_def bindr_eq_Inr Let_def prod.case_eq_if split: if_splits dest!: append_after_draw)

lemma bind_task_frame:
  "bind_task_authority env k p a r t auth db = Inr db' \<Longrightarrow>
     \<exists>es n rows. db' = db\<lparr>events := events db @ es, uuid_next := n, task_bindings := rows\<rparr>"
  by (fastforce simp: bind_task_authority_def bindr_eq_Inr Let_def prod.case_eq_if split: if_splits dest!: append_after_draw)

section \<open>Guards are facts\<close>

lemma bindr_or: "(\<And>a. f a = g a \<or> f a = Inl e) \<Longrightarrow> bindr m f = bindr m g \<or> bindr m f = Inl e"
  by (cases m) auto

text \<open>C37.  What a caller states about guards is no authority: \<open>advance_loop\<close> with stated guards does
  exactly what it does without them, or refuses them as contradicting the facts.\<close>

theorem caller_guards_inert:
  "advance_loop env k run_id event s key (Some stated) payload cause db =
     advance_loop env k run_id event s key None payload cause db \<or>
   advance_loop env k run_id event s key (Some stated) payload cause db =
     Inl (TransitionError ''caller guard results contradict persisted runtime facts'')"
proof -
  have w: "advance_work env k row event stated p actor s key cause db = advance_work env k row event [] p actor s key cause db \<or>
      advance_work env k row event stated p actor s key cause db =
        Inl (TransitionError ''caller guard results contradict persisted runtime facts'')" for row p actor
    by (cases "resolve env row event p actor db") (auto simp: advance_work_def contradicted_def)
  have c: "commit_once env i d (advance_work env k row event stated p actor s key cause) Inr db =
        commit_once env i d (advance_work env k row event [] p actor s key cause) Inr db \<or>
      commit_once env i d (advance_work env k row event stated p actor s key cause) Inr db =
        Inl (TransitionError ''caller guard results contradict persisted runtime facts'')" for i d row p actor
    using w [of row p actor] by (auto simp: commit_once_def bindr_def split: sum.splits option.splits)
  show ?thesis
    unfolding advance_loop_def Let_def option.case
  proof (intro bindr_or)
    fix actor row
    show "bindr (commit_once env i d (advance_work env k row event stated p actor s key cause) Inr db) f =
        bindr (commit_once env i d (advance_work env k row event [] p actor s key cause) Inr db) f \<or>
      bindr (commit_once env i d (advance_work env k row event stated p actor s key cause) Inr db) f =
        Inl (TransitionError ''caller guard results contradict persisted runtime facts'')" for i d p and f :: "json \<times> db \<Rightarrow> (json \<times> kernel \<times> db) res"
      using c [of i d row p actor] by auto
  qed
qed

section \<open>Delivery\<close>

text \<open>A successful command either was answered from its record, without any change, or did its work.\<close>

lemma advance_loop_Inr:
  assumes "advance_loop env k run_id event s key gs payload cause db = Inr (r, k', db')"
  shows "k' = k \<and> (\<exists>p row. verify_session env None s db = Inr p \<and> set (pr_roles p) \<inter> set (loop_event_actors event) \<noteq> {} \<and>
     fetch_one (\<lambda>x. r_run_id x = run_id) (runs db) = Some row \<and> check_circuit_breaker row event db = Inr () \<and>
     (db' = db \<or> (\<exists>supplied pl i db1 id d. advance_work env k row event supplied pl (pr_principal_id p) s key cause db = Inr (r, i, db1) \<and>
         save_idempotent_result env id d r i db1 = Inr db')))"
  using assms by (fastforce simp: advance_loop_def bindr_eq_Inr Let_def loop_actor_id_def actor_id_Inr commit_once_Inr)

lemma confirm_delivery_Inr:
  assumes "confirm_task_delivery env k task_id s key db = Inr (r, k', db')"
  shows "k' = k \<and> (\<exists>p row. verify_session env None s db = Inr p \<and> RELEASE \<in> set (pr_roles p) \<and>
     fetch_one (\<lambda>t. t_task_id t = task_id) (tasks db) = Some row \<and>
     (db' = db \<or> (\<exists>i db1 id d. delivery_work env k row (pr_principal_id p) s key db = Inr (r, i, db1) \<and>
         save_idempotent_result env id d r i db1 = Inr db')))"
  using assms by (fastforce simp: confirm_task_delivery_def fetch_kernel_task_def bindr_eq_Inr actor_id_Inr commit_once_Inr)

lemma accept_evidence_Inr:
  assumes "accept_task_evidence env k task_id s key e db = Inr (r, k', db')"
  shows "k' = k \<and> (\<exists>p row. verify_session env None s db = Inr p \<and> set (pr_roles p) \<inter> {EVALUATOR, SYSTEM} \<noteq> {} \<and>
     fetch_one (\<lambda>t. t_task_id t = task_id) (tasks db) = Some row \<and>
     (db' = db \<or> (\<exists>i db1 id d. accept_evidence_work env k row e (pr_principal_id p) s key db = Inr (r, i, db1) \<and>
         save_idempotent_result env id d r i db1 = Inr db')))"
  using assms by (fastforce simp: accept_task_evidence_def fetch_kernel_task_def bindr_eq_Inr actor_id_Inr commit_once_Inr)

lemma control_task_Inr:
  assumes "control_task env k task_id action reason s key db = Inr (r, k', db')"
  shows "k' = k \<and> (\<exists>p row. verify_session env None s db = Inr p \<and> set (pr_roles p) \<inter> {OWNER, SYSTEM} \<noteq> {} \<and>
     fetch_one (\<lambda>t. t_task_id t = task_id) (tasks db) = Some row \<and>
     (db' = db \<or> (\<exists>i db1 id d. control_work env k row (lower (strip action)) (strip reason) (pr_principal_id p) s key db = Inr (r, i, db1) \<and>
         strip reason \<noteq> [] \<and> save_idempotent_result env id d r i db1 = Inr db')))"
  using assms
  by (fastforce simp: control_task_def fetch_kernel_task_def bindr_eq_Inr actor_id_Inr commit_once_Inr Let_def split: if_splits)

lemma create_goal_Inr:
  assumes "create_goal env k project_id raw s key compiled db = Inr (r, k', db')"
  shows "\<exists>p spec authority. verify_session env None s db = Inr p \<and> OWNER \<in> set (pr_roles p) \<and> canonical_goal_spec raw = Inr spec \<and>
     goal_authority_of env project_id spec compiled db = Inr authority \<and> k' = remember_goal spec authority k \<and>
     (db' = db \<or> (\<exists>i db1 db2 id d. create_goal_work env k project_id spec (pr_principal_id p) s key db = Inr (r, i, db1) \<and>
         save_idempotent_result env id d r i db1 = Inr db2 \<and>
         (case authority of None \<Rightarrow> db' = db2
          | Some a \<Rightarrow> bind_goal_authority env k project_id (pr_principal_id p) (gs_goal_id spec) a db2 = Inr db')))"
  using assms by (fastforce simp: create_goal_def bindr_eq_Inr actor_id_Inr commit_once_Inr split: option.splits)

lemma create_run_Inr:
  assumes "create_run env k project_id goal_id run_id s key db = Inr (r, k', db')"
  shows "k' = k \<and> (\<exists>p. verify_session env None s db = Inr p \<and> set (pr_roles p) \<inter> {OWNER, SYSTEM} \<noteq> {} \<and>
     (db' = db \<or> (\<exists>i db1 id d. create_run_work env k project_id goal_id run_id
           [(''goal_id'', JStr goal_id), (''run_id'', JStr run_id), (''policy_version'', JStr (k_policy_version k))]
           (pr_principal_id p) s key db = Inr (r, i, db1) \<and>
         save_idempotent_result env id d r i db1 = Inr db')))"
  using assms by (fastforce simp: create_run_def bindr_eq_Inr Let_def actor_id_Inr commit_once_Inr)

lemma add_task_Inr:
  assumes "add_task env k project_id raw s key run_id compiled db = Inr (r, k', db')"
  shows "k' = k \<and> (\<exists>p spec authority. verify_session env None s db = Inr p \<and> set (pr_roles p) \<inter> {OWNER, SYSTEM} \<noteq> {} \<and>
     canonical_task_spec raw = Inr spec \<and> task_authority_of env k project_id spec compiled db = Inr authority \<and>
     (db' = db \<or> (\<exists>i db1 db2 id d. add_task_work env k project_id spec run_id (task_to_dict spec @ [(''run_id'', jopt run_id)])
           (pr_principal_id p) s key db = Inr (r, i, db1) \<and>
         save_idempotent_result env id d r i db1 = Inr db2 \<and>
         (case authority of None \<Rightarrow> db' = db2
          | Some a \<Rightarrow> bind_task_authority env k project_id (pr_principal_id p) run_id spec a db2 = Inr db'))))"
  using assms by (fastforce simp: add_task_def bindr_eq_Inr Let_def actor_id_Inr commit_once_Inr split: option.splits)

lemma loop_into_delivered:
  assumes "apply_loop_event s e (map_of facts) = Inr LS_DELIVERED" "s \<noteq> LS_IMPROVEMENT_PENDING"
  shows "e = DELIVERY_CONFIRMED \<and> (\<forall>g \<in> set delivery_guards. map_of facts g = Some True)"
proof -
  from assms(1) obtain rule where "((s, e), rule) \<in> set LOOP_TRANSITIONS" "target rule = LS_DELIVERED"
    "\<forall>g \<in> set (guards rule). map_of facts g = Some True"
    by (auto simp: apply_loop_event_Inr dest: map_of_SomeD)
  with assms(2) show ?thesis
    by (auto simp: LOOP_TRANSITIONS_def loop_rule_def)
qed

text \<open>The runs of the database, by identifier, are a table with a primary key.\<close>

abbreviation runs_keyed :: "db \<Rightarrow> bool" where
  "runs_keyed db \<equiv> distinct (map r_run_id (runs db))"

abbreviation tasks_keyed :: "db \<Rightarrow> bool" where
  "tasks_keyed db \<equiv> distinct (map t_task_id (tasks db))"

text \<open>Only \<open>advance_loop\<close> writes the loop state of a run that is there already.\<close>

lemma transition_task_runs:
  "transition_task_projection env k row tgt actor reason key s extra db = Inr (r, i, db') \<Longrightarrow> runs db' = runs db"
  by (auto dest!: transition_task_Inr)

lemma end_task_work_frame [simp]:
  "runs (end_task_work env i tgt db) = runs db" "tasks (end_task_work env i tgt db) = tasks db"
  "events (end_task_work env i tgt db) = events db" "goals (end_task_work env i tgt db) = goals db"
  "idempotency_records (end_task_work env i tgt db) = idempotency_records db"
  "adopted_projects (end_task_work env i tgt db) = adopted_projects db"
  by (simp_all add: end_task_work_def)

lemma run_kernel_runs:
  assumes "run_kernel env k cmd db = Inr (r, k', db')" "run' \<in> set (runs db')" "run' \<notin> set (runs db)"
  shows "(\<exists>p g i s key. cmd = Create_Run p g i s key \<and> r_loop_state run' = LS_INTAKE \<and> r_run_id run' \<notin> set (map r_run_id (runs db))) \<or>
     (\<exists>i e s key gs payload cause. cmd = Advance i e s key gs payload cause)"
proof (cases cmd)
  case (Create_Goal p g s key a)
  with assms show ?thesis
    by (auto dest!: create_goal_Inr create_goal_work_Inr save_frame bind_goal_frame split: option.splits)
next
  case (Create_Run p g i s key)
  with assms show ?thesis by (auto dest!: create_run_Inr create_run_work_Inr save_frame)
next
  case (Add_Task p t s key i a)
  with assms show ?thesis
    by (auto dest!: add_task_Inr add_task_work_Inr save_frame bind_task_frame split: option.splits)
next
  case (Accept_Evidence t s key e)
  with assms show ?thesis
    by (auto dest!: accept_evidence_Inr save_frame transition_task_runs
        simp: accept_evidence_work_def bindr_eq_Inr split: if_splits)
next
  case (Confirm_Delivery t s key)
  with assms show ?thesis
    by (auto dest!: confirm_delivery_Inr save_frame transition_task_runs
        simp: delivery_work_def bindr_eq_Inr split: if_splits)
next
  case (Control t a r s key)
  with assms show ?thesis
    by (auto dest!: control_task_Inr save_frame transition_task_runs simp: control_work_def bindr_eq_Inr)
qed auto

text \<open>C38.  A run is delivered only on persisted facts: whatever command makes a run DELIVERED (other
  than closing an improvement of an already delivered run) is a \<open>DELIVERY_CONFIRMED\<close> event of a live
  session with the release role, at a moment when every Task of the run is delivered with its decision
  gates, evidence, independent verdict and integration in place, every evidence state the Goal names is
  covered, and every required surface was freshly observed healthy.\<close>

theorem run_delivery_earned:
  assumes "run_kernel env k cmd db = Inr (r, k', db')" "runs_keyed db"
    and "run \<in> set (runs db)" "run' \<in> set (runs db')" "r_run_id run' = r_run_id run"
    and "r_loop_state run \<notin> {LS_DELIVERED, LS_IMPROVEMENT_PENDING}" "r_loop_state run' = LS_DELIVERED"
  shows "\<exists>s key gs payload cause p goal. cmd = Advance (r_run_id run) DELIVERY_CONFIRMED s key gs payload cause \<and>
     verify_session env None s db = Inr p \<and> RELEASE \<in> set (pr_roles p) \<and> delivery_earned env run goal db"
proof -
  have new: "run' \<notin> set (runs db)" using assms key_unique [OF assms(2), of run' run] by auto
  from run_kernel_runs [OF assms(1, 4) new] obtain i e s key gs payload cause where cmd: "cmd = Advance i e s key gs payload cause"
    using assms(3, 5, 7) by fastforce
  with assms(1) have "advance_loop env k i e s key gs payload cause db = Inr (r, k', db')" by simp
  from advance_loop_Inr [OF this] obtain p row where p: "verify_session env None s db = Inr p"
      "set (pr_roles p) \<inter> set (loop_event_actors e) \<noteq> {}"
    and row: "fetch_one (\<lambda>x. r_run_id x = i) (runs db) = Some row"
    and w: "db' = db \<or> (\<exists>supplied pl ev db1 id d. advance_work env k row e supplied pl (pr_principal_id p) s key cause db = Inr (r, ev, db1) \<and>
         save_idempotent_result env id d r ev db1 = Inr db')" by blast
  from w new assms(4) obtain supplied pl ev db1 id d where
    aw: "advance_work env k row e supplied pl (pr_principal_id p) s key cause db = Inr (r, ev, db1)"
    and sv: "save_idempotent_result env id d r ev db1 = Inr db'" by blast
  from advance_work_Inr [OF aw] obtain facts tgt where facts: "resolve env row e pl (pr_principal_id p) db = Inr facts"
      "apply_loop_event (r_loop_state row) e (map_of facts) = Inr tgt"
    and runs1: "runs db1 = update_where (\<lambda>x. r_run_id x = r_run_id row)
         (\<lambda>x. x\<lparr>r_loop_state := tgt, r_version := r_version row + 1, r_updated_at := now env\<rparr>) (runs db)" by auto
  from save_frame [OF sv] runs1 assms(4) new have "r_run_id run' = r_run_id row" "r_loop_state run' = tgt"
    by (auto simp: set_update_where split: if_splits)
  with fetch_one_SomeD [OF row] assms key_unique [OF assms(2), of row run] have eq: "row = run" "tgt = LS_DELIVERED" "i = r_run_id run"
    by auto
  with loop_into_delivered [of "r_loop_state run" e facts] facts(2) assms(6)
  have "e = DELIVERY_CONFIRMED" "\<forall>g \<in> set delivery_guards. map_of facts g = Some True" by auto
  with delivery_guards_earned [OF facts(1)] p cmd eq show ?thesis by auto
qed

lemma transition_task_tasks:
  assumes "transition_task_projection env k row tgt actor reason key s extra db = Inr (r, i, db')"
  shows "\<forall>t' \<in> set (tasks db'). t' \<in> set (tasks db) \<or> t_task_id t' = t_task_id row \<and> t_state t' = tgt"
  using assms by (auto dest!: transition_task_Inr simp: set_update_where split: if_splits)

lemma accept_evidence_tasks:
  assumes "accept_evidence_work env k row e actor s key db = Inr (r, i, db')" "t' \<in> set (tasks db')"
  shows "t' \<in> set (tasks db) \<or> t_state t' \<noteq> TS_DELIVERED"
proof -
  have "returns (accept_evidence_work env k row e actor s key db)
      (\<lambda>(r, i, db'). t' \<in> set (tasks db') \<longrightarrow> t' \<in> set (tasks db) \<or> t_state t' \<noteq> TS_DELIVERED)"
    unfolding accept_evidence_work_def
    by (intro returns_steps returnsI)
      (auto simp: evidence_target_state_def dest!: transition_task_tasks split: if_splits)
  with assms show ?thesis by (auto dest: returnsD)
qed

lemma control_tasks:
  assumes "control_work env k row a reason actor s key db = Inr (r, i, db')" "t' \<in> set (tasks db')"
  shows "t' \<in> set (tasks db) \<or> t_state t' \<noteq> TS_DELIVERED"
proof -
  have "returns (control_work env k row a reason actor s key db)
      (\<lambda>(r, i, db'). t' \<in> set (tasks db') \<longrightarrow> t' \<in> set (tasks db) \<or> t_state t' \<noteq> TS_DELIVERED)"
    unfolding control_work_def
    by (intro returns_steps returnsI)
      (auto simp: control_target_def TASK_CONTROL_TARGETS_def dest!: transition_task_tasks split: if_splits)
  with assms show ?thesis by (auto dest: returnsD)
qed

lemma task_evidence_status_True:
  "task_evidence_status row db = Inr (True, True) \<Longrightarrow> \<exists>spec. load_task_spec (t_spec row) = Inr spec \<and> evidence_passes db row spec \<and>
     (ts_evaluator_required spec \<longrightarrow> evaluator_passes db row spec)"
  by (auto simp: task_evidence_status_def bindr_eq_Inr claim_verdicts_ex Let_def evidence_passes_def evaluator_passes_def)

text \<open>C39.  A Task is delivered only on persisted facts: only \<open>confirm_task_delivery\<close> makes a Task
  DELIVERED, from INTEGRATION_PENDING, under a live session with the release role, when its evidence and
  verdict pass, its decision gates are approved, its declared workflow steps are exactly the succeeded
  ones, its integration is final and the surfaces of its run are fresh.\<close>

theorem task_delivery_earned:
  assumes "run_kernel env k cmd db = Inr (r, k', db')" "tasks_keyed db"
    and "t \<in> set (tasks db)" "t' \<in> set (tasks db')" "t_task_id t' = t_task_id t"
    and "t_state t \<noteq> TS_DELIVERED" "t_state t' = TS_DELIVERED"
  shows "\<exists>s key p spec run. cmd = Confirm_Delivery (t_task_id t) s key \<and> t_state t = TS_INTEGRATION_PENDING \<and>
     verify_session env None s db = Inr p \<and> RELEASE \<in> set (pr_roles p) \<and> task_earned env db t spec \<and>
     steps_succeeded spec (t_task_id t) db \<and> run \<in> set (runs db) \<and> t_run_id t = Some (r_run_id run) \<and>
     freshness_satisfied env run db = Inr True"
proof -
  have new: "t' \<notin> set (tasks db)" using assms key_unique [OF assms(2), of t' t] by auto
  show ?thesis
  proof (cases cmd)
    case (Create_Goal p g s key a)
    with assms(1, 4) new show ?thesis
      by (auto dest!: create_goal_Inr create_goal_work_Inr save_frame bind_goal_frame split: option.splits)
  next
    case (Create_Run p g i s key)
    with assms(1, 4) new show ?thesis by (auto dest!: create_run_Inr create_run_work_Inr save_frame)
  next
    case (Add_Task p spec s key i a)
    with assms(1, 3-5, 7) new show ?thesis
      by (auto dest!: add_task_Inr add_task_work_Inr save_frame bind_task_frame split: option.splits)
  next
    case (Advance i e s key gs payload cause)
    with assms(1, 4) new show ?thesis by (auto dest!: advance_loop_Inr advance_work_Inr save_frame)
  next
    case (Accept_Evidence i s key e)
    with assms(1, 4, 7) new show ?thesis
      by (auto dest!: accept_evidence_Inr save_frame dest: accept_evidence_tasks)
  next
    case (Control i a reason s key)
    with assms(1, 4, 7) new show ?thesis
      by (auto dest!: control_task_Inr save_frame dest: control_tasks)
  next
    case (Confirm_Delivery i s key)
    with assms(1) have "confirm_task_delivery env k i s key db = Inr (r, k', db')" by simp
    from confirm_delivery_Inr [OF this] assms(4) new obtain p row ev db1 id d where
      p: "verify_session env None s db = Inr p" "RELEASE \<in> set (pr_roles p)"
      and row: "fetch_one (\<lambda>t. t_task_id t = i) (tasks db) = Some row"
      and w: "delivery_work env k row (pr_principal_id p) s key db = Inr (r, ev, db1)"
      and sv: "save_idempotent_result env id d r ev db1 = Inr db'" by blast
    from save_frame [OF sv] assms(4) have t1: "t' \<in> set (tasks db1)" by auto
    have "returns (delivery_work env k row (pr_principal_id p) s key db) (\<lambda>(r, ev, db1). t' \<in> set (tasks db1) \<longrightarrow>
        t_task_id t' = t_task_id row \<and> t_state row = TS_INTEGRATION_PENDING \<and>
        (\<exists>spec run. task_earned env db row spec \<and> steps_succeeded spec (t_task_id row) db \<and>
           run \<in> set (runs db) \<and> t_run_id row = Some (r_run_id run) \<and> freshness_satisfied env run db = Inr True))"
      unfolding delivery_work_def
      by (intro returns_steps returnsI)
        (use new in \<open>auto simp: task_earned_def dest!: task_evidence_status_True fetch_one_SomeD transition_task_tasks\<close>)
    with w t1 have "t_task_id t' = t_task_id row" "t_state row = TS_INTEGRATION_PENDING"
      "\<exists>spec run. task_earned env db row spec \<and> steps_succeeded spec (t_task_id row) db \<and>
           run \<in> set (runs db) \<and> t_run_id row = Some (r_run_id run) \<and> freshness_satisfied env run db = Inr True"
      by (auto dest: returnsD)
    with fetch_one_SomeD [OF row] assms(3, 5) key_unique [OF assms(2), of row t] p Confirm_Delivery show ?thesis by auto
  qed
qed

section \<open>Commands run once\<close>

text \<open>The registries a command reads before its record is looked up.\<close>

definition same_registry :: "db \<Rightarrow> db \<Rightarrow> bool" where
  "same_registry db db' \<longleftrightarrow> sessions db' = sessions db \<and> principals db' = principals db \<and> principal_roles db' = principal_roles db \<and>
     adopted_projects db' = adopted_projects db \<and> adopted_programs db' = adopted_programs db"

lemma actor_id_cong:
  assumes "same_registry db db'"
  shows "actor_id env allowed s db' = actor_id env allowed s db"
proof -
  have "verify_session env None s db' = verify_session env None s db"
    by (rule verify_session_cong) (use assms in \<open>simp_all add: same_registry_def\<close>)
  then show ?thesis by (simp only: actor_id_def)
qed

lemma persisted_spine_cong:
  assumes "same_registry db db'"
  shows "persisted_authority_spine sha p db' = persisted_authority_spine sha p db"
proof -
  from assms have a: "adopted_projects db' = adopted_projects db" "adopted_programs db' = adopted_programs db"
    by (simp_all add: same_registry_def)
  show ?thesis unfolding persisted_authority_spine_def a ..
qed

lemma goal_authority_cong:
  assumes "same_registry db db'"
  shows "goal_authority_of env p g a db' = goal_authority_of env p g a db"
  unfolding goal_authority_of_def persisted_spine_cong [OF assms] ..

lemma task_authority_cong:
  assumes "same_registry db db'" "goal_bindings db' = goal_bindings db"
  shows "task_authority_of env k p t a db' = task_authority_of env k p t a db"
  unfolding task_authority_of_def persisted_spine_cong [OF assms(1)] known_goal_authority_def assms(2) ..

lemma commit_once_again:
  assumes "commit_once env key d work rest db = Inr (r, db')"
    and "\<And>db1 db2. rest db1 = Inr db2 \<Longrightarrow> idempotency_records db2 = idempotency_records db1"
  shows "commit_once env key d work' rest' db' = Inr (r, db')"
proof -
  have c: "get_idempotent_result key d db2 = get_idempotent_result key d db1"
    if "idempotency_records db2 = idempotency_records db1" for db1 db2
    using that by (simp add: get_idempotent_result_def)
  from assms(1) have "get_idempotent_result key d db' = Inr (Some r)"
    by (auto simp: commit_once_Inr dest!: idem.get_save assms(2) dest: c)
  then show ?thesis by (simp add: commit_once_def)
qed

lemma commit_again_done:
  "commit_once env key d work Inr db = Inr (r, db') \<Longrightarrow> \<forall>work' rest'. commit_once env key d work' rest' db' = Inr (r, db')"
  by (auto elim: commit_once_again)

lemma commit_again_goal:
  "commit_once env key d work (\<lambda>db. case x of None \<Rightarrow> Inr db | Some a \<Rightarrow> bind_goal_authority env k p who g a db) db = Inr (r, db') \<Longrightarrow>
     \<forall>work' rest'. commit_once env key d work' rest' db' = Inr (r, db')"
  by (auto elim!: commit_once_again dest!: bind_goal_frame split: option.splits)

lemma commit_again_task:
  "commit_once env key d work (\<lambda>db. case x of None \<Rightarrow> Inr db | Some a \<Rightarrow> bind_task_authority env k p who i t a db) db = Inr (r, db') \<Longrightarrow>
     \<forall>work' rest'. commit_once env key d work' rest' db' = Inr (r, db')"
  by (auto elim!: commit_once_again dest!: bind_task_frame split: option.splits)

lemmas commit_again = commit_again_done commit_again_goal commit_again_task

text \<open>What each work keeps: the registries, and the identity of every run and Task.\<close>

definition keeps_identity :: "db \<Rightarrow> db \<Rightarrow> bool" where
  "keeps_identity db db' \<longleftrightarrow> same_registry db db' \<and> goals db' = goals db \<and>
     (\<forall>i row. fetch_one (\<lambda>x. r_run_id x = i) (runs db) = Some row \<longrightarrow>
        (\<exists>row'. fetch_one (\<lambda>x. r_run_id x = i) (runs db') = Some row' \<and> r_project_id row' = r_project_id row \<and>
           r_goal_id row' = r_goal_id row \<and> r_run_id row' = r_run_id row)) \<and>
     (\<forall>i row. fetch_one (\<lambda>x. t_task_id x = i) (tasks db) = Some row \<longrightarrow>
        (\<exists>row'. fetch_one (\<lambda>x. t_task_id x = i) (tasks db') = Some row' \<and> t_project_id row' = t_project_id row))"

lemma keeps_identity_refl [simp]: "keeps_identity db db"
  by (simp add: keeps_identity_def same_registry_def)

lemma keeps_identity_save: "save_idempotent_result env key d r i db1 = Inr db2 \<Longrightarrow> keeps_identity db db1 \<Longrightarrow> keeps_identity db db2"
  by (auto simp: keeps_identity_def same_registry_def dest!: save_frame)

lemma transition_task_keeps:
  assumes "transition_task_projection env k row tgt actor reason key s extra db = Inr (r, i, db')"
  shows "keeps_identity db db'"
  using assms by (auto simp: keeps_identity_def same_registry_def fetch_one_update_frame dest!: transition_task_Inr)

lemma advance_work_keeps:
  assumes "advance_work env k row event supplied payload actor s key cause db = Inr (r, i, db')"
  shows "keeps_identity db db'"
  using assms by (auto simp: keeps_identity_def same_registry_def fetch_one_update_frame dest!: advance_work_Inr)

lemma end_task_keeps: "keeps_identity db db' \<Longrightarrow> keeps_identity db (end_task_work env i tgt db')"
  by (auto simp: keeps_identity_def same_registry_def end_task_work_def)

lemma task_work_keeps:
  "returns (accept_evidence_work env k row e actor s key db) (\<lambda>(r, i, db'). keeps_identity db db')"
  "returns (delivery_work env k row actor s key db) (\<lambda>(r, i, db'). keeps_identity db db')"
  "returns (control_work env k row a reason actor s key db) (\<lambda>(r, i, db'). keeps_identity db db')"
  unfolding accept_evidence_work_def delivery_work_def control_work_def
  by (intro returns_steps returnsI; auto intro: transition_task_keeps end_task_keeps)+

lemma remember_goal_twice [simp]: "remember_goal g a (remember_goal g a k) = remember_goal g a k"
  by (simp add: remember_goal_def split: option.split)

section \<open>A command answered twice\<close>

lemma create_goal_again:
  assumes "create_goal env k p g s key a db = Inr (r, k', db')"
  shows "create_goal env k' p g s key a db' = Inr (r, k', db')"
proof -
  have same: "same_registry db db'"
    using create_goal_Inr [OF assms]
    by (auto simp: same_registry_def dest!: create_goal_work_Inr save_frame bind_goal_frame split: option.splits)
  from assms show ?thesis
    by (auto simp: create_goal_def bindr_eq_Inr actor_id_cong [OF same] goal_authority_cong [OF same]
        dest!: commit_again split del: option.split)
qed

lemma create_run_again:
  assumes "create_run env k p g i s key db = Inr (r, k', db')"
  shows "create_run env k' p g i s key db' = Inr (r, k', db')"
proof -
  have same: "same_registry db db'"
    using create_run_Inr [OF assms] by (auto simp: same_registry_def dest!: create_run_work_Inr save_frame)
  from assms show ?thesis
    by (auto simp: create_run_def bindr_eq_Inr Let_def actor_id_cong [OF same] dest!: commit_again)
qed

lemma add_task_again:
  assumes "add_task env k p t s key i a db = Inr (r, k', db')"
  shows "add_task env k' p t s key i a db' = Inr (r, k', db')"
proof -
  have same: "same_registry db db'" "goal_bindings db' = goal_bindings db"
    using add_task_Inr [OF assms]
    by (auto simp: same_registry_def dest!: add_task_work_Inr save_frame bind_task_frame split: option.splits)
  from assms show ?thesis
    by (auto simp: add_task_def bindr_eq_Inr Let_def actor_id_cong [OF same(1)] task_authority_cong [OF same]
        dest!: commit_again split del: option.split)
qed

lemma task_command_again:
  assumes "keeps_identity db db'" "fetch_kernel_task i db = Inr row"
  shows "\<exists>row'. fetch_kernel_task i db' = Inr row' \<and> t_project_id row' = t_project_id row"
  using assms by (auto simp: keeps_identity_def fetch_kernel_task_def)

lemma confirm_again:
  assumes "confirm_task_delivery env k t s key db = Inr (r, k', db')"
  shows "confirm_task_delivery env k' t s key db' = Inr (r, k', db')"
proof -
  have keep: "keeps_identity db db'"
    using confirm_delivery_Inr [OF assms] by (auto intro: keeps_identity_save dest: returnsD [OF task_work_keeps(2)])
  then have same: "same_registry db db'" by (simp add: keeps_identity_def)
  from assms show ?thesis
    by (auto simp: confirm_task_delivery_def bindr_eq_Inr actor_id_cong [OF same] dest!: task_command_again [OF keep] commit_again)
qed

lemma accept_again:
  assumes "accept_task_evidence env k t s key e db = Inr (r, k', db')"
  shows "accept_task_evidence env k' t s key e db' = Inr (r, k', db')"
proof -
  have keep: "keeps_identity db db'"
    using accept_evidence_Inr [OF assms] by (auto intro: keeps_identity_save dest: returnsD [OF task_work_keeps(1)])
  then have same: "same_registry db db'" by (simp add: keeps_identity_def)
  from assms show ?thesis
    by (auto simp: accept_task_evidence_def bindr_eq_Inr actor_id_cong [OF same] dest!: task_command_again [OF keep] commit_again)
qed

lemma control_again:
  assumes "control_task env k t a reason s key db = Inr (r, k', db')"
  shows "control_task env k' t a reason s key db' = Inr (r, k', db')"
proof -
  have keep: "keeps_identity db db'"
    using control_task_Inr [OF assms] by (auto intro: keeps_identity_save dest: returnsD [OF task_work_keeps(3)])
  then have same: "same_registry db db'" by (simp add: keeps_identity_def)
  from assms show ?thesis
    by (auto simp: control_task_def bindr_eq_Inr Let_def actor_id_cong [OF same] split: if_splits
        dest!: task_command_again [OF keep] commit_again)
qed

lemma advance_again:
  assumes "advance_loop env k i event s key gs payload cause db = Inr (r, k', db')"
  shows "advance_loop env k' i event s key gs payload cause db' = Inr (r, k', db') \<or>
    event = TASK_STARTED \<and> advance_loop env k' i event s key gs payload cause db' =
      Inl (TransitionError ''max_iterations_without_evidence circuit breaker is open'')"
proof -
  have keep: "keeps_identity db db'"
    using advance_loop_Inr [OF assms] by (auto intro: keeps_identity_save advance_work_keeps)
  then have same: "same_registry db db'" and gl: "goals db' = goals db" by (simp_all add: keeps_identity_def)
  have row: "\<exists>row'. fetch_one (\<lambda>x. r_run_id x = i) (runs db') = Some row' \<and> r_project_id row' = r_project_id row \<and>
      r_goal_id row' = r_goal_id row" if "fetch_one (\<lambda>x. r_run_id x = i) (runs db) = Some row" for row
    using keep that unfolding keeps_identity_def by blast
  have breaker: "check_circuit_breaker row' event db' = Inr () \<or> event = TASK_STARTED \<and> check_circuit_breaker row' event db' =
      Inl (TransitionError ''max_iterations_without_evidence circuit breaker is open'')"
    if "check_circuit_breaker row event db = Inr ()" "r_goal_id row' = r_goal_id row" for row row'
    using that by (auto simp: check_circuit_breaker_def gl bindr_eq_Inr split: if_splits)
  from assms show ?thesis
    by (auto simp: advance_loop_def loop_actor_id_def bindr_eq_Inr Let_def actor_id_cong [OF same] dest!: row commit_again
        dest: breaker split del: option.split)
qed


section \<open>A Program that is no longer only compiled\<close>

text \<open>The kernel adopts a Program in a later state when its provider confirms it, but the Goal and Task
  commands validate without a provider: an adopted project whose Program is not COMPILED accepts no
  Goal.\<close>

lemma active_program_accepts_no_goal:
  assumes "persisted_authority_spine (sha256 env) project_id db = Inr (Some (project, program, graph))"
    and "pg_state program \<noteq> PS_COMPILED"
  shows "create_goal env k project_id g s key a db \<noteq> Inr x"
proof
  assume "create_goal env k project_id g s key a db = Inr x"
  then obtain spec authority where "goal_authority_of env project_id spec a db = Inr authority"
    by (auto simp: create_goal_def bindr_eq_Inr)
  with assms(1) obtain c where "validate_goal_authority (sha256 env) c project program
      (if pg_dependency_refs program = [] then None else Some graph) None = Inr (the authority)"
    by (auto simp: goal_authority_of_def bindr_eq_Inr split: if_splits)
  then obtain cproject cprogram where
    "compile_program (sha256 env) (program_to_dict program) cproject (if pg_dependency_refs program = [] then None else Some graph) None = Inr cprogram"
    by (auto simp: validate_goal_authority_def bindr_eq_Inr)
  then obtain p cp where p: "program_from_dict (program_to_dict program) = Inr p" "check_current (sha256 env) None cp p = Inr ()"
    by (auto simp: compile_program_def bindr_eq_Inr split: if_splits)
  from p(2) have "pg_state p = PS_COMPILED" by (simp add: check_current_def split: if_splits)
  moreover from p(1) have "pg_state p = pg_state program"
    by (auto simp: program_from_dict_def program_to_dict_def bindr_eq_Inr get_field_def program_state_of_value guard_Inr
        split del: if_split)
  ultimately show False using assms(2) by simp
qed

section \<open>Instances\<close>

definition sample_kernel :: kernel where
  "sample_kernel = \<lparr>k_authority = Some 0, k_policy_version = ''v1'', k_spines = [], k_goal_authorities = []\<rparr>"

lemma sample_make_kernel: "make_kernel toy_hash 0 ''v1'' [] None = Inr sample_kernel"
  by (simp add: make_kernel_def sample_kernel_def)

definition sample_goal_row :: goal_row where
  "sample_goal_row = \<lparr>g_goal_id = ''g1'', g_project_id = ''p1'', g_state = GS_COMPILED, g_spec = JObj (goal_to_dict sample_goal),
     g_version = 1, g_created_at = 0, g_updated_at = 0\<rparr>"

definition sample_evidence :: evidence_row where
  "sample_evidence = \<lparr>ev_evidence_id = ''e1'', ev_project_id = ''p1'', ev_run_id = ''r1'', ev_task_id = ''t1'', ev_claim = ''c'',
     ev_state = ES_STRUCTURE, ev_artifact_refs = [], ev_verifier = ''eve'', ev_verifier_version = ''1'', ev_environment = ''ci'',
     ev_verdict = VD_PASS, ev_non_claims = [], ev_created_at = 0\<rparr>"

definition kernel_db :: "loop_state \<Rightarrow> task_state \<Rightarrow> db" where
  "kernel_db l t = sample_db\<lparr>goals := [sample_goal_row], runs := [sample_run l], tasks := [sample_task_row t 0],
     evidence_claims := [sample_evidence]\<rparr>"

lemma sample_goal_loads: "load_goal_spec (JObj (goal_to_dict sample_goal)) = Inr sample_goal"
  by code_simp

lemma sample_command_texts [simp]:
  "command_text ''p1'' = Inr ''p1''" "command_text ''g1'' = Inr ''g1''" "command_text ''r1'' = Inr ''r1''"
  "command_text ''t1'' = Inr ''t1''" "command_text ''k1'' = Inr ''k1''"
  by (simp_all add: command_text_def) code_simp+

lemma sample_row_sel [simp]:
  "t_task_id (sample_task_row s v) = ''t1''" "t_state (sample_task_row s v) = s" "t_run_id (sample_task_row s v) = Some ''r1''"
  "t_spec (sample_task_row s v) = JObj (task_to_dict sample_task)" "r_run_id (sample_run l) = ''r1''"
  by (simp_all add: sample_task_row_def sample_run_def)

lemma sample_keyed [simp]: "runs_keyed (kernel_db l t)" "tasks_keyed (kernel_db l t)"
  "runs (kernel_db l t) = [sample_run l]" "tasks (kernel_db l t) = [sample_task_row t 0]"
  by (simp_all add: kernel_db_def)

lemma sample_unbound_task: "decision_gates_satisfied env (kernel_db l t) ''t1'' = Inr True"
  by (simp add: decision_gates_satisfied_def required_decision_gates_satisfied_def validated_task_authority_binding_def
      kernel_db_def sample_db_def empty_db_def sample_task_row_def exists_row_def)

lemma sample_run_goal: "run_goal (sample_run l) (kernel_db l' t) = Inr sample_goal"
  by (simp add: run_goal_def kernel_db_def sample_run_def sample_goal_row_def sample_goal_loads)

lemma sample_run_tasks: "task_rows (sample_run l) [] (kernel_db l' t) = [sample_task_row t 0]"
  by (simp add: task_rows_def kernel_db_def sample_run_def sample_task_row_def)

lemma sample_evidence_status: "evidence_status (sample_run l) (kernel_db l' t) = Inr (True, True)"
proof -
  have claims: "claim_verdicts ''t1'' ES_STRUCTURE (kernel_db l' t) = [VD_PASS]"
    by (simp add: claim_verdicts_def kernel_db_def sample_evidence_def)
  show ?thesis
    unfolding evidence_status_def sample_run_tasks sample_run_goal
    by (simp add: evidence_of_task_def sample_task_row_def sample_task_loads)
      (simp add: sample_task_def claims sample_goal_def passing_evidence_def passing_evaluator_def)
qed

lemma sample_freshness: "freshness_satisfied env (sample_run l) (kernel_db l' t) = Inr True"
  by (simp add: freshness_satisfied_def sample_run_goal sample_goal_def)

lemma sample_not_integrated [simp]:
  "\<not> ts_integration_required sample_task" "\<not> ts_evaluator_required sample_task" "ts_workflow_steps sample_task = []"
  by (simp_all add: sample_task_def)

lemma sample_kernel_actor:
  "actor_id (sample_env 5) [RELEASE] (Some (sample_session ''rex'')) (kernel_db l t) = Inr ''rex''"
  by (simp add: actor_id_def kernel_db_def identity_eval sample_eval Let_def cong: bind_eval)

lemma sample_resolve:
  "resolve env (sample_run LS_INTEGRATION_PENDING) DELIVERY_CONFIRMED pl who (kernel_db LS_INTEGRATION_PENDING TS_DELIVERED) =
     Inr (map (\<lambda>g. (g, True)) delivery_guards)"
proof -
  have "tasks_terminal env (sample_run LS_INTEGRATION_PENDING) (kernel_db LS_INTEGRATION_PENDING TS_DELIVERED) = Inr True"
    "integration_satisfied env (sample_run LS_INTEGRATION_PENDING) (kernel_db LS_INTEGRATION_PENDING TS_DELIVERED) = Inr True"
    unfolding tasks_terminal_def integration_satisfied_def sample_run_tasks
    by (simp_all add: sample_task_row_def sample_task_loads sample_unbound_task sample_not_integrated)
  then show ?thesis
    by (simp add: resolve_def sample_run_def [of LS_INTEGRATION_PENDING] LOOP_TRANSITIONS_def loop_rule_def delivery_guards_def resolve_one_delivery)
      (simp add: sample_run_def [symmetric] sample_evidence_status sample_freshness)
qed

lemma sample_into_delivered:
  "apply_loop_event LS_INTEGRATION_PENDING DELIVERY_CONFIRMED (map_of (map (\<lambda>g. (g, True)) delivery_guards)) = Inr LS_DELIVERED"
  by (simp add: apply_loop_event_def LOOP_TRANSITIONS_def loop_rule_def delivery_guards_def)

lemma sample_advance:
  "\<exists>r db. advance_loop (sample_env 5) sample_kernel ''r1'' DELIVERY_CONFIRMED (Some (sample_session ''rex'')) ''k1'' None None None
       (kernel_db LS_INTEGRATION_PENDING TS_DELIVERED) = Inr (r, sample_kernel, db) \<and>
     runs db = [(sample_run LS_DELIVERED)\<lparr>r_version := 1, r_updated_at := 5\<rparr>]"
proof -
  let ?db = "kernel_db LS_INTEGRATION_PENDING TS_DELIVERED"
  let ?f = "map (\<lambda>g. (g, True)) delivery_guards"
  have row: "fetch_one (\<lambda>r. r_run_id r = ''r1'') (runs ?db) = Some (sample_run LS_INTEGRATION_PENDING)"
    "check_circuit_breaker (sample_run LS_INTEGRATION_PENDING) DELIVERY_CONFIRMED ?db = Inr ()"
    by (simp_all add: kernel_db_def sample_run_def check_circuit_breaker_def)
  have none: "get_idempotent_result key d ?db = Inr None" for key d
    by (simp add: get_idempotent_result_def kernel_db_def sample_db_def empty_db_def)
  obtain r i db1 where w: "advance_work (sample_env 5) sample_kernel (sample_run LS_INTEGRATION_PENDING) DELIVERY_CONFIRMED [] [] ''rex''
      (Some (sample_session ''rex'')) ''k1'' None ?db = Inr (r, i, db1)"
    and db1: "runs db1 = [(sample_run LS_DELIVERED)\<lparr>r_version := 1, r_updated_at := 5\<rparr>]" "idempotency_records db1 = []"
      "\<exists>e \<in> set (events db1). e_event_id e = i"
    unfolding advance_work_def sample_resolve bindr_Inr
    by (simp add: contradicted_def sample_run_def [of LS_INTEGRATION_PENDING] sample_into_delivered)
      (simp add: draw_uuid_def core_event_def event_defaults_def sample_kernel_def kernel_db_def sample_rows event_run
        CORE_AUTHORITY_VERSION_def sample_run_def Let_def cong: bind_eval)
  have sv: "\<exists>db2. save_idempotent_result (sample_env 5) key d r i db1 = Inr db2 \<and> runs db2 = runs db1" for key d
    using db1(2, 3) by (simp add: save_idempotent_result_def insert_row_def)
  have c: "\<exists>r db2. bindr (commit_once (sample_env 5) key d (advance_work (sample_env 5) sample_kernel (sample_run LS_INTEGRATION_PENDING)
        DELIVERY_CONFIRMED [] [] ''rex'' (Some (sample_session ''rex'')) ''k1'' None) Inr ?db) (\<lambda>(r, db). Inr (r, sample_kernel, db)) =
      Inr (r, sample_kernel, db2) \<and> runs db2 = runs db1" for key d
    using sv [of key d] by (auto simp: commit_once_def none w)
  show ?thesis
    unfolding advance_loop_def loop_actor_id_def loop_event_actors.simps sample_kernel_actor sample_command_texts bindr_Inr option.case row
      require_Some Let_def db1(1) [symmetric]
    by (rule c)
qed

lemma run_delivery_earned_witness:
  "\<exists>goal. delivery_earned (sample_env 5) (sample_run LS_INTEGRATION_PENDING) goal (kernel_db LS_INTEGRATION_PENDING TS_DELIVERED)"
proof -
  obtain r db where "run_kernel (sample_env 5) sample_kernel (Advance ''r1'' DELIVERY_CONFIRMED (Some (sample_session ''rex'')) ''k1'' None None None)
       (kernel_db LS_INTEGRATION_PENDING TS_DELIVERED) = Inr (r, sample_kernel, db)"
    "runs db = [(sample_run LS_DELIVERED)\<lparr>r_version := 1, r_updated_at := 5\<rparr>]"
    using sample_advance by auto
  from run_delivery_earned [OF this(1) sample_keyed(1), of "sample_run LS_INTEGRATION_PENDING" "(sample_run LS_DELIVERED)\<lparr>r_version := 1, r_updated_at := 5\<rparr>"] this(2)
  show ?thesis by (auto simp: sample_run_def)
qed


lemma sample_confirm:
  "\<exists>r db. confirm_task_delivery (sample_env 5) sample_kernel ''t1'' (Some (sample_session ''rex'')) ''k1''
       (kernel_db LS_RUNNING TS_INTEGRATION_PENDING) = Inr (r, sample_kernel, db) \<and>
     tasks db = [(sample_task_row TS_DELIVERED 1)\<lparr>t_updated_at := 5\<rparr>]"
proof -
  let ?db = "kernel_db LS_RUNNING TS_INTEGRATION_PENDING" and ?t = "sample_task_row TS_INTEGRATION_PENDING 0"
  have row: "fetch_kernel_task ''t1'' ?db = Inr ?t"
    by (simp add: fetch_kernel_task_def sample_task_row_def)
  have none: "get_idempotent_result key d ?db = Inr None" for key d
    by (simp add: get_idempotent_result_def kernel_db_def sample_db_def empty_db_def)
  have claims: "claim_verdicts ''t1'' ES_STRUCTURE ?db = [VD_PASS]"
    by (simp add: claim_verdicts_def kernel_db_def sample_evidence_def)
  have target: "ts_evidence_target sample_task = ES_STRUCTURE" by (simp add: sample_task_def)
  have status: "task_evidence_status ?t ?db = Inr (True, True)"
    by (simp add: task_evidence_status_def sample_task_row_def sample_task_loads target claims passing_evidence_def)
  obtain r i db1 where w: "transition_task_projection (sample_env 5) sample_kernel ?t TS_DELIVERED ''rex''
      ''persisted evidence, evaluator, integration and freshness satisfied'' ''k1'' (Some (sample_session ''rex'')) [] ?db = Inr (r, i, db1)"
    and db1: "tasks db1 = [(sample_task_row TS_DELIVERED 1)\<lparr>t_updated_at := 5\<rparr>]" "idempotency_records db1 = []"
      "\<exists>e \<in> set (events db1). e_event_id e = i"
    by (simp add: transition_task_projection_def draw_uuid_def core_event_def event_defaults_def sample_kernel_def kernel_db_def
        sample_rows event_run CORE_AUTHORITY_VERSION_def sample_task_row_def Let_def cong: bind_eval)
  have sv: "\<exists>db2. save_idempotent_result (sample_env 5) key d r i db1 = Inr db2 \<and> tasks db2 = tasks db1" for key d
    using db1(2, 3) by (simp add: save_idempotent_result_def insert_row_def)
  have steps: "steps_succeeded sample_task ''t1'' ?db" by (simp add: steps_succeeded_def)
  have "delivery_work (sample_env 5) sample_kernel ?t ''rex'' (Some (sample_session ''rex'')) ''k1'' ?db = Inr (r, i, db1)"
    using w sample_freshness [of "sample_env 5" LS_RUNNING LS_RUNNING TS_INTEGRATION_PENDING]
    by (simp add: delivery_work_def status sample_unbound_task sample_task_loads steps)
  then have c: "\<exists>r db2. bindr (commit_once (sample_env 5) key d (delivery_work (sample_env 5) sample_kernel ?t ''rex'' (Some (sample_session ''rex'')) ''k1'')
        Inr ?db) (\<lambda>(r, db). Inr (r, sample_kernel, db)) = Inr (r, sample_kernel, db2) \<and> tasks db2 = tasks db1" for key d
    using sv [of key d] by (auto simp: commit_once_def none)
  show ?thesis
    unfolding confirm_task_delivery_def sample_kernel_actor sample_command_texts bindr_Inr row db1(1) [symmetric]
    by (rule c)
qed

lemma task_delivery_earned_witness:
  "\<exists>spec. task_earned (sample_env 5) (kernel_db LS_RUNNING TS_INTEGRATION_PENDING) (sample_task_row TS_INTEGRATION_PENDING 0) spec"
proof -
  obtain r db where c: "run_kernel (sample_env 5) sample_kernel (Confirm_Delivery ''t1'' (Some (sample_session ''rex'')) ''k1'')
       (kernel_db LS_RUNNING TS_INTEGRATION_PENDING) = Inr (r, sample_kernel, db)"
    "tasks db = [(sample_task_row TS_DELIVERED 1)\<lparr>t_updated_at := 5\<rparr>]"
    using sample_confirm by auto
  from task_delivery_earned [OF c(1) sample_keyed(2), of "sample_task_row TS_INTEGRATION_PENDING 0" "(sample_task_row TS_DELIVERED 1)\<lparr>t_updated_at := 5\<rparr>"] c(2)
  show ?thesis by (auto simp: sample_task_row_def)
qed

end
