(* ===== verification/Replay.thy ===== *)
theory Replay
  imports Kernel
begin

text \<open>
  \<open>replay.py\<close>: the projections of Goals, runs, Tasks and adopted authority rebuilt from the events
  alone, compared with the stored tables, and written back by \<open>repair\<close>.

  A dict of the replayer is a list of pairs, in insertion order; \<open>replay_event\<close> is one iteration of
  its loop.  The main result is a refinement: the handlers of the kernel and of the scheduler keep
  the tables equal to what a replay of the ledger computes, so \<open>verify\<close> finds no difference.
\<close>

section \<open>The replayed projections\<close>

record replayed_run =
  rr_run_id :: string
  rr_goal_id :: string
  rr_project_id :: string
  rr_loop_state :: loop_state
  rr_policy_version :: json
  rr_version :: int
  rr_created_at :: int
  rr_updated_at :: int

record replayed_task =
  rt_task_id :: string
  rt_goal_id :: string
  rt_run_id :: "string option"
  rt_project_id :: string
  rt_state :: task_state
  rt_spec :: json
  rt_version :: int
  rt_created_at :: int
  rt_updated_at :: int

record replayed_project =
  rj_spec :: project_spec
  rj_current :: json

record replayed_program =
  rg_spec :: program_spec
  rg_refs :: "json list"
  rg_digest :: string

record replayed_goal_authority =
  ra_authority :: goal_authority
  ra_event_id :: string

record replayed_task_authority =
  rb_authority :: task_authority
  rb_event_id :: string

record replay_result =
  rs_goals :: "(string \<times> goal_row) list"
  rs_runs :: "(string \<times> replayed_run) list"
  rs_tasks :: "(string \<times> replayed_task) list"
  rs_projects :: "(string \<times> replayed_project) list"
  rs_programs :: "(string \<times> replayed_program) list"
  rs_goal_authorities :: "(string \<times> replayed_goal_authority) list"
  rs_task_authorities :: "(string \<times> replayed_task_authority) list"
  rs_versions :: "string \<times> string \<Rightarrow> int"

definition no_projections :: replay_result where
  "no_projections = \<lparr>rs_goals = [], rs_runs = [], rs_tasks = [], rs_projects = [], rs_programs = [],
     rs_goal_authorities = [], rs_task_authorities = [], rs_versions = (\<lambda>_. 0)\<rparr>"

abbreviation unknown :: "(string \<times> 'v) list \<Rightarrow> string \<Rightarrow> bool" where
  "unknown dict i \<equiv> map_of dict i = None"

section \<open>Adopted authority\<close>

definition apply_project_authority :: "event_row \<Rightarrow> replay_result \<Rightarrow> replay_result res" where
  "apply_project_authority row st =
     (if e_event_type row \<noteq> ''project_authority_adopted'' \<or> \<not> unknown (rs_projects st) (e_aggregate_id row)
      then Inl (IntegrityError ''unsupported or duplicate Project authority event'')
      else if set (keys (e_payload row)) \<noteq> set [''project_spec'', ''current_program_id'']
      then Inl (IntegrityError ''Project authority event payload is invalid'')
      else
      bindr (bindr (bindr (get_field ''project_spec'' (e_payload row)) decoded_object) project_from_dict) (\<lambda>project.
      bindr (get_field ''current_program_id'' (e_payload row)) (\<lambda>current.
      if pj_project_id project \<noteq> e_aggregate_id row
      then Inl (IntegrityError ''Project authority aggregate and payload identifiers differ'')
      else Inr (st\<lparr>rs_projects := AList.update (e_aggregate_id row) \<lparr>rj_spec = project, rj_current = current\<rparr> (rs_projects st)\<rparr>))))"

definition known_project :: "(string \<Rightarrow> string) \<Rightarrow> authority_ref \<Rightarrow> replay_result \<Rightarrow> bool" where
  "known_project sha ref st = (case map_of (rs_projects st) (ar_object_id ref) of
       None \<Rightarrow> False | Some p \<Rightarrow> ref = project_reference sha (rj_spec p))"

definition known_program :: "(string \<Rightarrow> string) \<Rightarrow> authority_ref \<Rightarrow> replay_result \<Rightarrow> bool" where
  "known_program sha ref st = (case map_of (rs_programs st) (ar_object_id ref) of
       None \<Rightarrow> False | Some g \<Rightarrow> ref = program_reference sha (rg_spec g))"

definition program_in_project :: "string \<Rightarrow> string \<Rightarrow> replay_result \<Rightarrow> bool" where
  "program_in_project program_id project_id st = (case map_of (rs_programs st) program_id of
       None \<Rightarrow> False | Some g \<Rightarrow> ar_object_id (pg_project_ref (rg_spec g)) = project_id)"

definition apply_program_authority :: "(string \<Rightarrow> string) \<Rightarrow> event_row \<Rightarrow> replay_result \<Rightarrow> replay_result res" where
  "apply_program_authority sha row st =
     (if e_event_type row \<noteq> ''program_authority_adopted'' \<or> \<not> unknown (rs_programs st) (e_aggregate_id row)
      then Inl (IntegrityError ''unsupported or duplicate Program authority event'')
      else if set (keys (e_payload row)) \<noteq> set [''program_spec'', ''graph_refs'', ''graph_digest'']
      then Inl (IntegrityError ''Program authority event payload is invalid'')
      else
      bindr (bindr (bindr (get_field ''program_spec'' (e_payload row)) decoded_object) program_from_dict) (\<lambda>program.
      if pg_program_id program \<noteq> e_aggregate_id row \<or> \<not> known_project sha (pg_project_ref program) st
      then Inl (IntegrityError ''Program authority event has a missing/mismatched Project'')
      else (case map_of (e_payload row) ''graph_refs'' of
          Some (JList refs) \<Rightarrow>
            if map_of (e_payload row) ''graph_digest'' \<noteq> Some (JStr (content_hash sha (JList refs)))
            then Inl (IntegrityError ''Program authority graph digest is invalid'')
            else if \<not> list_ex (json_eq (JObj (ref_to_dict (program_reference sha program)))) refs
            then Inl (IntegrityError ''Program authority graph omits the adopted Program'')
            else Inr (st\<lparr>rs_programs := AList.update (e_aggregate_id row)
                   \<lparr>rg_spec = program, rg_refs = refs, rg_digest = content_hash sha (JList refs)\<rparr> (rs_programs st)\<rparr>)
        | _ \<Rightarrow> Inl (IntegrityError ''Program authority graph digest is invalid''))))"

text \<open>One Program of a Project: its references are exactly those of the Programs of the Project.\<close>

definition check_graph_refs :: "(string \<Rightarrow> string) \<Rightarrow> program_spec list \<Rightarrow> replayed_program \<Rightarrow> unit res" where
  "check_graph_refs sha specs v =
     bindr (except_map (\<lambda>e. case e of ContractError _ \<Rightarrow> IntegrityError ''Program authority graph reference is malformed''
                          | PyTypeError _ \<Rightarrow> IntegrityError ''Program authority graph reference is malformed'' | _ \<Rightarrow> e)
              (mapr (\<lambda>item. bindr (decoded_object item) ref_from_dict) (rg_refs v))) (\<lambda>refs.
       ensure (distinct refs \<and> list_all (\<lambda>ref. ar_kind ref = ''program'') refs \<and>
               json_eq (JList (rg_refs v)) (graph_refs sha specs) \<and> rg_digest v = graph_digest sha specs)
         (IntegrityError ''Program authority graph is incomplete or stale''))"

definition validate_project_graph ::
    "(string \<Rightarrow> string) \<Rightarrow> (string \<times> replayed_program) list \<Rightarrow> string \<times> replayed_project \<Rightarrow> unit res" where
  "validate_project_graph sha programs entry =
     (let own = filter (\<lambda>(_, v). ar_object_id (pg_project_ref (rg_spec v)) = fst entry) programs;
          specs = map (\<lambda>(_, v). rg_spec v) own in
      case rj_current (snd entry) of
        JStr current \<Rightarrow>
          bindr (require (map_of own current) (IntegrityError ''Project authority current Program is missing'')) (\<lambda>v.
          bindr (mapr (\<lambda>(_, v). check_graph_refs sha specs v) own) (\<lambda>_.
          bindr (except_map (\<lambda>e. case e of ContractError _ \<Rightarrow> IntegrityError ''Program authority dependency graph is invalid'' | _ \<Rightarrow> e)
                   (validate_program_graph sha (rj_spec (snd entry)) specs)) (\<lambda>_.
            ensure (\<not> program_terminal (pg_state (rg_spec v))) (IntegrityError ''Project authority current Program is terminal''))))
      | _ \<Rightarrow> Inl (IntegrityError ''Project authority current Program is missing''))"

definition validate_authority_graph :: "(string \<Rightarrow> string) \<Rightarrow> replay_result \<Rightarrow> unit res" where
  "validate_authority_graph sha st =
     bindr (mapr (validate_project_graph sha (rs_programs st)) (rs_projects st)) (\<lambda>_. Inr ())"

definition apply_goal_authority :: "(string \<Rightarrow> string) \<Rightarrow> event_row \<Rightarrow> replay_result \<Rightarrow> replay_result res" where
  "apply_goal_authority sha row st =
     (if e_event_type row \<noteq> ''goal_authority_bound'' \<or> \<not> unknown (rs_goal_authorities st) (e_aggregate_id row)
      then Inl (IntegrityError ''unsupported or duplicate Goal authority event'')
      else
      bindr (goal_authority_from_dict (e_payload row)) (\<lambda>authority.
      if gs_goal_id (ga_goal_spec authority) \<noteq> e_aggregate_id row \<or>
         \<not> known_project sha (ga_project_ref authority) st \<or>
         \<not> known_program sha (ga_program_ref authority) st \<or>
         \<not> program_in_project (ar_object_id (ga_program_ref authority)) (ar_object_id (ga_project_ref authority)) st
      then Inl (IntegrityError ''Goal authority event has stale parent references'')
      else Inr (st\<lparr>rs_goal_authorities := AList.update (e_aggregate_id row)
             \<lparr>ra_authority = authority, ra_event_id = e_event_id row\<rparr> (rs_goal_authorities st)\<rparr>)))"

definition apply_task_authority :: "(string \<Rightarrow> string) \<Rightarrow> event_row \<Rightarrow> replay_result \<Rightarrow> replay_result res" where
  "apply_task_authority sha row st =
     (if e_event_type row \<noteq> ''task_authority_bound'' \<or> \<not> unknown (rs_task_authorities st) (e_aggregate_id row)
      then Inl (IntegrityError ''unsupported or duplicate Task authority event'')
      else
      bindr (except_map (\<lambda>e. case e of ContractError _ \<Rightarrow> IntegrityError ''Task authority event is not canonical''
                           | PyTypeError _ \<Rightarrow> IntegrityError ''Task authority event is not canonical''
                           | ValueError _ \<Rightarrow> IntegrityError ''Task authority event is not canonical'' | _ \<Rightarrow> e)
               (task_authority_from_dict (e_payload row))) (\<lambda>authority.
      case map_of (rs_goal_authorities st) (ar_object_id (ta_goal_ref authority)) of
        None \<Rightarrow> Inl (IntegrityError ''Task authority event has stale parent references'')
      | Some goal \<Rightarrow>
          if ts_task_id (ta_task_spec authority) \<noteq> e_aggregate_id row \<or>
             ta_goal_ref authority \<noteq> goal_reference sha (ra_authority goal) \<or>
             \<not> known_project sha (ta_project_ref authority) st \<or>
             \<not> known_program sha (ta_program_ref authority) st \<or>
             ar_object_id (ga_project_ref (ra_authority goal)) \<noteq> ar_object_id (ta_project_ref authority) \<or>
             ar_object_id (ga_program_ref (ra_authority goal)) \<noteq> ar_object_id (ta_program_ref authority)
          then Inl (IntegrityError ''Task authority event has stale parent references'')
          else Inr (st\<lparr>rs_task_authorities := AList.update (e_aggregate_id row)
                 \<lparr>rb_authority = authority, rb_event_id = e_event_id row\<rparr> (rs_task_authorities st)\<rparr>)))"
section \<open>Goals, runs and Tasks\<close>

definition apply_goal :: "event_row \<Rightarrow> replay_result \<Rightarrow> replay_result res" where
  "apply_goal row st =
     (if e_event_type row \<noteq> ''goal_created'' \<or> \<not> unknown (rs_goals st) (e_aggregate_id row)
      then Inl (IntegrityError ''unsupported or duplicate goal event'')
      else
      bindr (goal_from_dict (e_payload row)) (\<lambda>spec.
      if gs_goal_id spec \<noteq> e_aggregate_id row
      then Inl (IntegrityError ''goal event aggregate and payload identifiers differ'')
      else Inr (st\<lparr>rs_goals := AList.update (e_aggregate_id row)
             \<lparr>g_goal_id = e_aggregate_id row, g_project_id = e_project_id row, g_state = GS_COMPILED,
              g_spec = JObj (goal_to_dict spec), g_version = e_aggregate_version row,
              g_created_at = e_recorded_at row, g_updated_at = e_recorded_at row\<rparr> (rs_goals st)\<rparr>)))"

text \<open>The guards recorded with a loop event: \<open>results.get(guard) is True\<close>.\<close>

definition recorded_guards :: "dict \<Rightarrow> string \<Rightarrow> bool option" where
  "recorded_guards payload g = (case map_of payload ''guards'' of
       Some (JObj gs) \<Rightarrow> map_option (\<lambda>v. v = JBool True) (map_of gs g)
     | _ \<Rightarrow> None)"

definition start_run :: "event_row \<Rightarrow> replay_result \<Rightarrow> replay_result res" where
  "start_run row st =
     (if e_event_type row \<noteq> loop_event_value OWNER_INTENT_RECEIVED
      then Inl (IntegrityError ''run does not start with owner intent'')
      else (case map_of (e_payload row) ''goal_id'' of
          Some (JStr goal_id) \<Rightarrow>
            (case map_of (rs_goals st) goal_id of
               None \<Rightarrow> Inl (IntegrityError ''run references a missing/cross-project goal'')
             | Some g \<Rightarrow>
                 if g_project_id g \<noteq> e_project_id row
                 then Inl (IntegrityError ''run references a missing/cross-project goal'')
                 else bindr (get_field ''policy_version'' (e_payload row)) (\<lambda>policy_version.
                   Inr (st\<lparr>rs_runs := AList.update (e_aggregate_id row)
                     \<lparr>rr_run_id = e_aggregate_id row, rr_goal_id = goal_id, rr_project_id = e_project_id row,
                      rr_loop_state = LS_INTAKE, rr_policy_version = policy_version, rr_version = 1,
                      rr_created_at = e_recorded_at row, rr_updated_at = e_recorded_at row\<rparr> (rs_runs st)\<rparr>)))
        | Some (JList _) \<Rightarrow> Inl (PyTypeError ''unhashable type'')
        | Some (JObj _) \<Rightarrow> Inl (PyTypeError ''unhashable type'')
        | _ \<Rightarrow> Inl (IntegrityError ''run references a missing/cross-project goal'')))"

definition apply_run :: "event_row \<Rightarrow> replay_result \<Rightarrow> replay_result res" where
  "apply_run row st =
     (case map_of (rs_runs st) (e_aggregate_id row) of
        None \<Rightarrow> start_run row st
      | Some run \<Rightarrow>
          (case List.find (\<lambda>e. loop_event_value e = e_event_type row) all_loop_events of
             None \<Rightarrow> Inl (IntegrityError ''run replay failed'')
           | Some event \<Rightarrow>
               (case apply_loop_event (rr_loop_state run) event (recorded_guards (e_payload row)) of
                  Inl _ \<Rightarrow> Inl (IntegrityError ''run replay failed'')
                | Inr tgt \<Rightarrow> Inr (st\<lparr>rs_runs := AList.update (e_aggregate_id row)
                    (run\<lparr>rr_loop_state := tgt, rr_version := e_aggregate_version row, rr_updated_at := e_recorded_at row\<rparr>)
                    (rs_runs st)\<rparr>))))"

text \<open>The run a Task is added to: none, or a replayed run of its Goal.\<close>

definition replayed_run_id :: "json option \<Rightarrow> string \<Rightarrow> replay_result \<Rightarrow> string option res" where
  "replayed_run_id v goal_id st = (case v of
       None \<Rightarrow> Inr None
     | Some JNull \<Rightarrow> Inr None
     | Some (JStr i) \<Rightarrow>
         (case map_of (rs_runs st) i of
            None \<Rightarrow> Inl (IntegrityError ''task event references a missing or mismatched run'')
          | Some run \<Rightarrow> if rr_goal_id run \<noteq> goal_id
              then Inl (IntegrityError ''task event references a missing or mismatched run'') else Inr (Some i))
     | Some (JList _) \<Rightarrow> Inl (PyTypeError ''unhashable type'')
     | Some (JObj _) \<Rightarrow> Inl (PyTypeError ''unhashable type'')
     | Some _ \<Rightarrow> Inl (IntegrityError ''task event references a missing or mismatched run''))"

definition start_task :: "event_row \<Rightarrow> replay_result \<Rightarrow> replay_result res" where
  "start_task row st =
     (if e_event_type row \<noteq> ''task_added'' then Inl (IntegrityError ''task does not start with task_added'')
      else
      bindr (task_from_dict (filter (\<lambda>(k, _). k \<noteq> ''run_id'') (e_payload row))) (\<lambda>spec.
      if ts_task_id spec \<noteq> e_aggregate_id row \<or> unknown (rs_goals st) (ts_goal_id spec)
      then Inl (IntegrityError ''task event references a missing or mismatched goal'')
      else
      bindr (replayed_run_id (map_of (e_payload row) ''run_id'') (ts_goal_id spec) st) (\<lambda>run_id.
        Inr (st\<lparr>rs_tasks := AList.update (e_aggregate_id row)
          \<lparr>rt_task_id = e_aggregate_id row, rt_goal_id = ts_goal_id spec, rt_run_id = run_id, rt_project_id = e_project_id row,
           rt_state = TS_READY, rt_spec = JObj (task_to_dict spec), rt_version = 1,
           rt_created_at = e_recorded_at row, rt_updated_at = e_recorded_at row\<rparr> (rs_tasks st)\<rparr>))))"

definition valid_change :: "task_state \<Rightarrow> dict \<Rightarrow> bool" where
  "valid_change current payload \<longleftrightarrow>
     set [''from'', ''target'', ''reason''] \<subseteq> set (keys payload) \<and>
     set (keys payload) \<subseteq> set [''from'', ''target'', ''reason'', ''accepted_evidence_id''] \<and>
     map_of payload ''from'' = Some (JStr (task_state_value current)) \<and>
     (case map_of payload ''reason'' of Some (JStr s) \<Rightarrow> non_blank s | _ \<Rightarrow> False)"

definition valid_linkage :: "task_state \<Rightarrow> task_state \<Rightarrow> dict \<Rightarrow> bool" where
  "valid_linkage current tgt payload = (case map_of payload ''accepted_evidence_id'' of
       None \<Rightarrow> True
     | Some JNull \<Rightarrow> True
     | Some (JStr s) \<Rightarrow> non_blank s \<and> current \<in> {TS_EVIDENCE_PENDING, TS_EVALUATOR_PENDING} \<and>
                       tgt \<in> {TS_EVALUATOR_PENDING, TS_INTEGRATION_PENDING}
     | Some _ \<Rightarrow> False)"

definition apply_task :: "event_row \<Rightarrow> replay_result \<Rightarrow> replay_result res" where
  "apply_task row st =
     (case map_of (rs_tasks st) (e_aggregate_id row) of
        None \<Rightarrow> start_task row st
      | Some task \<Rightarrow>
          if e_event_type row \<noteq> ''task_state_changed'' then Inl (IntegrityError ''unsupported task event'')
          else if \<not> valid_change (rt_state task) (e_payload row)
          then Inl (IntegrityError ''task state event payload is invalid'')
          else
          bindr (require (List.find (\<lambda>s. map_of (e_payload row) ''target'' = Some (JStr (task_state_value s))) all_task_states)
                   (ValueError ''not a valid TaskState'')) (\<lambda>tgt.
          if \<not> valid_linkage (rt_state task) tgt (e_payload row)
          then Inl (IntegrityError ''task accepted-evidence linkage is invalid'')
          else
          bindr (except_map (\<lambda>_. IntegrityError ''task replay transition failed'')
                   (require_transition (Task_Value (rt_state task)) (Task_Value tgt))) (\<lambda>_.
            Inr (st\<lparr>rs_tasks := AList.update (e_aggregate_id row)
              (task\<lparr>rt_state := tgt, rt_version := e_aggregate_version row, rt_updated_at := e_recorded_at row\<rparr>)
              (rs_tasks st)\<rparr>))))"

section \<open>Replay\<close>

definition REPLAYED_AGGREGATES :: "string list" where
  "REPLAYED_AGGREGATES = [''goal'', ''run'', ''task'', ''project_authority'', ''program_authority'',
     ''goal_authority'', ''task_authority'']"

definition apply_event :: "(string \<Rightarrow> string) \<Rightarrow> event_row \<Rightarrow> replay_result \<Rightarrow> replay_result res" where
  "apply_event sha row st =
     (if e_aggregate_type row = ''project_authority'' then apply_project_authority row st
      else if e_aggregate_type row = ''program_authority'' then apply_program_authority sha row st
      else if e_aggregate_type row = ''goal_authority'' then apply_goal_authority sha row st
      else if e_aggregate_type row = ''task_authority'' then apply_task_authority sha row st
      else if e_aggregate_type row = ''goal'' then apply_goal row st
      else if e_aggregate_type row = ''run'' then apply_run row st
      else apply_task row st)"

definition replay_event :: "(string \<Rightarrow> string) \<Rightarrow> event_row \<Rightarrow> replay_result \<Rightarrow> replay_result res" where
  "replay_event sha row st =
     (if e_aggregate_type row \<notin> set REPLAYED_AGGREGATES then Inr st
      else
      let aggregate = (e_aggregate_type row, e_aggregate_id row); expected = rs_versions st aggregate + 1 in
      if e_aggregate_version row \<noteq> expected then Inl (IntegrityError ''projection event version gap'')
      else apply_event sha row (st\<lparr>rs_versions := (rs_versions st)(aggregate := expected)\<rparr>))"

definition replay_events :: "(string \<Rightarrow> string) \<Rightarrow> event_row list \<Rightarrow> replay_result res" where
  "replay_events sha rows = foldm (replay_event sha) rows no_projections"

definition replay :: "env \<Rightarrow> db \<Rightarrow> replay_result res" where
  "replay env db =
     bindr (verify_event_chain (sha256 env) db) (\<lambda>_.
     bindr (replay_events (sha256 env) (events db)) (\<lambda>st.
     bindr (validate_authority_graph (sha256 env) st) (\<lambda>_. Inr st)))"

section \<open>Verification of the tables\<close>

text \<open>\<open>_verify_table\<close>: the same identifiers, and the same columns under each of them.\<close>

definition verify_table :: "(string \<times> 'c) list \<Rightarrow> (string \<times> 'c) list \<Rightarrow> unit res" where
  "verify_table actual expected =
     ensure (set (map fst actual) = set (map fst expected) \<and> list_all (\<lambda>(i, c). map_of actual i = Some c) expected)
       (IntegrityError ''projection mismatch'')"

definition verify_projects :: "(string \<Rightarrow> string) \<Rightarrow> db \<Rightarrow> replay_result \<Rightarrow> unit res" where
  "verify_projects sha db st = verify_table
     (map (\<lambda>r. (apj_project_id r, (apj_version r, apj_digest r, canonical_json (apj_spec r), JStr (apj_current_program_id r))))
       (adopted_projects db))
     (map (\<lambda>(i, p). (i, (pj_version (rj_spec p), ar_digest (project_reference sha (rj_spec p)),
         canonical_json (JObj (project_to_dict (rj_spec p))), rj_current p))) (rs_projects st))"

definition verify_programs :: "(string \<Rightarrow> string) \<Rightarrow> db \<Rightarrow> replay_result \<Rightarrow> unit res" where
  "verify_programs sha db st = verify_table
     (map (\<lambda>r. (apg_program_id r, (apg_project_id r, apg_version r, apg_digest r, apg_state r, apg_graph_digest r,
         canonical_json (apg_spec r)))) (adopted_programs db))
     (map (\<lambda>(i, g). (i, (ar_object_id (pg_project_ref (rg_spec g)), pg_version (rg_spec g),
         ar_digest (program_reference sha (rg_spec g)), program_state_value (pg_state (rg_spec g)), rg_digest g,
         canonical_json (JObj (program_to_dict (rg_spec g)))))) (rs_programs st))"

definition verify_goal_bindings :: "(string \<Rightarrow> string) \<Rightarrow> db \<Rightarrow> replay_result \<Rightarrow> unit res" where
  "verify_goal_bindings sha db st = verify_table
     (map (\<lambda>b. (gb_goal_id b, (gb_project_id b, gb_program_id b, gb_authority_digest b, canonical_json (gb_authority b),
         gb_source_event_id b))) (goal_bindings db))
     (map (\<lambda>(i, a). (i, (ar_object_id (ga_project_ref (ra_authority a)), ar_object_id (ga_program_ref (ra_authority a)),
         content_hash sha (JObj (goal_authority_to_dict (ra_authority a))),
         canonical_json (JObj (goal_authority_to_dict (ra_authority a))), ra_event_id a))) (rs_goal_authorities st))"

definition verify_task_bindings :: "(string \<Rightarrow> string) \<Rightarrow> db \<Rightarrow> replay_result \<Rightarrow> unit res" where
  "verify_task_bindings sha db st = verify_table
     (map (\<lambda>b. (tb_task_id b, (tb_project_id b, tb_program_id b, tb_goal_id b, tb_authority_digest b,
         canonical_json (tb_authority b), tb_provider_budget_minor_units b, tb_provider_call_limit b,
         canonical_json (tb_required_decision_gates b), tb_source_event_id b))) (task_bindings db))
     (map (\<lambda>(i, a). (i, (ar_object_id (ta_project_ref (rb_authority a)), ar_object_id (ta_program_ref (rb_authority a)),
         ar_object_id (ta_goal_ref (rb_authority a)), content_hash sha (JObj (task_authority_to_dict (rb_authority a))),
         canonical_json (JObj (task_authority_to_dict (rb_authority a))), ta_provider_budget_minor_units (rb_authority a),
         ta_provider_call_limit (rb_authority a),
         canonical_json (JList (map (\<lambda>c. JObj (gate_to_dict c)) (ta_decision_gate_contracts (rb_authority a)))),
         rb_event_id a))) (rs_task_authorities st))"

definition goal_columns :: "goal_row \<Rightarrow> string \<times> goal_state \<times> string \<times> int" where
  "goal_columns g = (g_project_id g, g_state g, canonical_json (g_spec g), g_version g)"

definition run_columns :: "run_row \<Rightarrow> string \<times> string \<times> loop_state \<times> json \<times> int" where
  "run_columns r = (r_goal_id r, r_project_id r, r_loop_state r, JStr (r_policy_version r), r_version r)"

definition replayed_run_columns :: "replayed_run \<Rightarrow> string \<times> string \<times> loop_state \<times> json \<times> int" where
  "replayed_run_columns r = (rr_goal_id r, rr_project_id r, rr_loop_state r, rr_policy_version r, rr_version r)"

definition task_columns :: "task_row \<Rightarrow> string \<times> string option \<times> string \<times> task_state \<times> string \<times> int" where
  "task_columns t = (t_goal_id t, t_run_id t, t_project_id t, t_state t, canonical_json (t_spec t), t_version t)"

definition replayed_task_columns :: "replayed_task \<Rightarrow> string \<times> string option \<times> string \<times> task_state \<times> string \<times> int" where
  "replayed_task_columns t = (rt_goal_id t, rt_run_id t, rt_project_id t, rt_state t, canonical_json (rt_spec t), rt_version t)"

definition verify_core_tables :: "db \<Rightarrow> replay_result \<Rightarrow> unit res" where
  "verify_core_tables db st =
     bindr (verify_table (map (\<lambda>g. (g_goal_id g, goal_columns g)) (goals db))
              (map (\<lambda>(i, g). (i, goal_columns g)) (rs_goals st))) (\<lambda>_.
     bindr (verify_table (map (\<lambda>r. (r_run_id r, run_columns r)) (runs db))
              (map (\<lambda>(i, r). (i, replayed_run_columns r)) (rs_runs st))) (\<lambda>_.
     verify_table (map (\<lambda>t. (t_task_id t, task_columns t)) (tasks db))
              (map (\<lambda>(i, t). (i, replayed_task_columns t)) (rs_tasks st))))"

subsection \<open>Operational columns of Tasks\<close>

definition FAILURE_ATTEMPT_STATES :: "string list" where
  "FAILURE_ATTEMPT_STATES = [''failed'', ''abandoned'']"

definition DUE_MUST_BE_NULL_STATES :: "task_state list" where
  "DUE_MUST_BE_NULL_STATES = [TS_LEASED, TS_RUNNING, TS_SUSPENDED, TS_EVIDENCE_PENDING, TS_EVALUATOR_PENDING,
     TS_INTEGRATION_PENDING, TS_DELIVERED, TS_FAILED]"

definition task_attempts :: "string \<Rightarrow> db \<Rightarrow> attempt_row list" where
  "task_attempts task_id db = sort_key at_number (filter (\<lambda>a. at_task_id a = task_id) (attempts db))"

text \<open>The failure that an attempt refers to, when it failed.\<close>

definition linked_failure ::
    "db \<Rightarrow> string \<Rightarrow> replayed_task \<Rightarrow> attempt_row \<Rightarrow> (attempt_row \<times> negative_row) option res" where
  "linked_failure db task_id projection attempt =
     (if Some (at_run_id attempt) \<noteq> rt_run_id projection
      then Inl (IntegrityError ''attempt secondary ledger crosses task run'')
      else (case at_failure_id attempt of
          None \<Rightarrow>
            if at_state attempt \<in> set FAILURE_ATTEMPT_STATES
            then Inl (IntegrityError ''failed attempt lacks a negative-result reference'') else Inr None
        | Some failure_id \<Rightarrow>
            if at_state attempt \<notin> set FAILURE_ATTEMPT_STATES
            then Inl (IntegrityError ''non-failure attempt carries a negative-result reference'')
            else
            bindr (require (fetch_one (\<lambda>n. n_failure_id n = failure_id) (negative_results db))
                     (IntegrityError ''attempt references a missing negative result'')) (\<lambda>negative.
            if n_task_id negative \<noteq> task_id \<or> n_project_id negative \<noteq> rt_project_id projection \<or>
               Some (n_run_id negative) \<noteq> rt_run_id projection
            then Inl (IntegrityError ''attempt and negative result cross task ownership'')
            else if at_ended_at attempt = None then Inl (IntegrityError ''failure attempt has no end timestamp'')
            else Inr (Some (attempt, negative)))))"

definition verify_due_at ::
    "replayed_task \<Rightarrow> int \<Rightarrow> int option \<Rightarrow> (attempt_row \<times> negative_row) option \<Rightarrow> unit res" where
  "verify_due_at projection attempt_count due_at latest_failure =
     bindr (load_task_spec (rt_spec projection)) (\<lambda>spec.
     let state = rt_state projection; latest_number = map_option (\<lambda>f. at_number (fst f)) latest_failure in
     if state = TS_RETRY_PENDING \<and> due_at = None
     then Inl (IntegrityError ''due_at is required while retry_pending'')
     else if state = TS_RETRY_PENDING \<and>
        (latest_number \<noteq> Some attempt_count \<or> attempt_count = 0 \<or> ts_max_attempts spec \<le> attempt_count)
     then Inl (IntegrityError ''retry_pending task is not supported by a retryable latest failure'')
     else if state = TS_FAILED \<and>
        (latest_number \<noteq> Some attempt_count \<or> attempt_count = 0 \<or> attempt_count < ts_max_attempts spec)
     then Inl (IntegrityError ''failed task is not supported by an exhausted latest failure'')
     else (case due_at of
         None \<Rightarrow> Inr ()
       | Some due \<Rightarrow>
           if state \<in> set DUE_MUST_BE_NULL_STATES then Inl (IntegrityError ''due_at must be null'')
           else (case latest_failure of
               None \<Rightarrow> Inl (IntegrityError ''due_at has no latest failure'')
             | Some (attempt, _) \<Rightarrow>
                 if at_number attempt \<noteq> attempt_count then Inl (IntegrityError ''due_at has no latest failure'')
                 else (case at_ended_at attempt of
                     None \<Rightarrow> Inl (IntegrityError ''due_at is not after its latest failure'')
                   | Some ended \<Rightarrow> ensure (ended < due) (IntegrityError ''due_at is not after its latest failure'')))))"

definition verify_operational_task :: "db \<Rightarrow> string \<times> replayed_task \<Rightarrow> unit res" where
  "verify_operational_task db entry = (case entry of (task_id, projection) \<Rightarrow>
     bindr (require (fetch_one (\<lambda>t. t_task_id t = task_id) (tasks db))
              (IntegrityError ''tasks operational projection is missing'')) (\<lambda>actual.
     let rows = task_attempts task_id db; count = (if rows = [] then 0 else at_number (last rows)) in
     if map at_number rows \<noteq> map int [1..<Suc (length rows)]
     then Inl (IntegrityError ''attempt secondary ledger is not gapless'')
     else if t_attempt_count actual \<noteq> count
     then Inl (IntegrityError ''tasks operational projection mismatch: attempt_count'')
     else if \<not> list_all (\<lambda>n. n_task_id n = task_id \<longrightarrow>
            n_project_id n = rt_project_id projection \<and> Some (n_run_id n) = rt_run_id projection) (negative_results db)
     then Inl (IntegrityError ''negative-result secondary ledger crosses task ownership'')
     else
     bindr (mapr (linked_failure db task_id projection) rows) (\<lambda>linked.
     let failures = List.map_filter id linked; latest = (if failures = [] then None else Some (last failures)) in
     if t_last_error actual \<noteq> map_option (\<lambda>f. n_fingerprint (snd f)) latest
     then Inl (IntegrityError ''tasks operational projection mismatch: last_error_fingerprint'')
     else verify_due_at projection count (t_due_at actual) latest)))"

definition verify_operational :: "db \<Rightarrow> replay_result \<Rightarrow> unit res" where
  "verify_operational db st =
     (if list_ex (\<lambda>a. unknown (rs_tasks st) (at_task_id a)) (attempts db)
      then Inl (IntegrityError ''attempt secondary ledger references a task without events'')
      else if list_ex (\<lambda>n. unknown (rs_tasks st) (n_task_id n)) (negative_results db)
      then Inl (IntegrityError ''negative-result secondary ledger references a task without events'')
      else bindr (mapr (verify_operational_task db) (rs_tasks st)) (\<lambda>_. Inr ()))"

definition verify_projections :: "(string \<Rightarrow> string) \<Rightarrow> db \<Rightarrow> replay_result \<Rightarrow> unit res" where
  "verify_projections sha db st =
     bindr (verify_projects sha db st) (\<lambda>_.
     bindr (verify_programs sha db st) (\<lambda>_.
     bindr (verify_goal_bindings sha db st) (\<lambda>_.
     bindr (verify_task_bindings sha db st) (\<lambda>_.
     bindr (verify_core_tables db st) (\<lambda>_. verify_operational db st)))))"

definition verify :: "env \<Rightarrow> db \<Rightarrow> replay_result res" where
  "verify env db =
     bindr (replay env db) (\<lambda>st. bindr (verify_projections (sha256 env) db st) (\<lambda>_. Inr st))"

section \<open>Repair\<close>

definition EXECUTION_TASK_STATES :: "task_state list" where
  "EXECUTION_TASK_STATES = [TS_LEASED, TS_RUNNING, TS_SUSPENDED, TS_EVIDENCE_PENDING, TS_EVALUATOR_PENDING,
     TS_INTEGRATION_PENDING, TS_RETRY_PENDING, TS_FAILED, TS_DELIVERED]"

text \<open>The secondary tables that hold a row of a Task.\<close>

definition secondary_rows :: "string \<Rightarrow> db \<Rightarrow> bool" where
  "secondary_rows i db \<longleftrightarrow>
     exists_row (\<lambda>a. at_task_id a = i) (attempts db) \<or> exists_row (\<lambda>w. ws_task_id w = i) (workflow_step_rows db) \<or>
     exists_row (\<lambda>l. l_task_id l = i) (leases db) \<or> exists_row (\<lambda>a. ap_task_id a = i) (approvals db) \<or>
     exists_row (\<lambda>g. gr_task_id g = i) (grants db) \<or> exists_row (\<lambda>x. o_task_id x = i) (outbox db) \<or>
     exists_row (\<lambda>a. af_task_id a = i) (artifacts db) \<or> exists_row (\<lambda>c. ev_task_id c = i) (evidence_claims db) \<or>
     exists_row (\<lambda>c. ca_task_id c = i) (context_assemblies db) \<or> exists_row (\<lambda>n. n_task_id n = i) (negative_results db) \<or>
     exists_row (\<lambda>x. in_task_id x = i) (integration_items db)"

definition executed :: "event_row \<Rightarrow> bool" where
  "executed e \<longleftrightarrow> e_event_type e = ''task_state_changed'' \<and>
     list_ex (\<lambda>s. map_of (e_payload e) ''target'' = Some (JStr (task_state_value s))) EXECUTION_TASK_STATES"

definition require_safe_missing_task_rebuild :: "db \<Rightarrow> string \<Rightarrow> unit res" where
  "require_safe_missing_task_rebuild db task_id =
     (if secondary_rows task_id db
      then Inl (IntegrityError ''refusing to reconstruct missing task with secondary operational rows'')
      else ensure (\<not> exists_row (\<lambda>e. e_aggregate_type e = ''task'' \<and> e_aggregate_id e = task_id \<and> executed e) (events db))
             (IntegrityError ''refusing to guess missing scheduler projection after execution history''))"

definition upsert_row :: "('r \<Rightarrow> 'r \<Rightarrow> bool) \<Rightarrow> ('r \<Rightarrow> 'r) \<Rightarrow> 'r \<Rightarrow> 'r list \<Rightarrow> 'r list" where
  "upsert_row same update new rows =
     (if exists_row (same new) rows then update_where (same new) update rows else rows @ [new])"

definition repair_goal :: "string \<times> goal_row \<Rightarrow> goal_row list \<Rightarrow> goal_row list" where
  "repair_goal entry = (case entry of (_, g) \<Rightarrow>
     upsert_row (\<lambda>a b. g_goal_id a = g_goal_id b)
       (\<lambda>b. b\<lparr>g_project_id := g_project_id g, g_state := g_state g, g_spec := g_spec g, g_version := g_version g,
              g_updated_at := g_updated_at g\<rparr>) g)"

definition repair_run :: "string \<times> replayed_run \<Rightarrow> run_row list \<Rightarrow> run_row list res" where
  "repair_run entry rows = (case entry of (_, r) \<Rightarrow>
     bindr (sql_text (rr_policy_version r)) (\<lambda>policy.
     bindr (require policy (SqliteIntegrityError ''NOT NULL constraint failed'')) (\<lambda>policy.
       Inr (upsert_row (\<lambda>a b. r_run_id a = r_run_id b)
         (\<lambda>b. b\<lparr>r_goal_id := rr_goal_id r, r_project_id := rr_project_id r, r_loop_state := rr_loop_state r,
                r_policy_version := policy, r_version := rr_version r, r_updated_at := rr_updated_at r\<rparr>)
         \<lparr>r_run_id = rr_run_id r, r_goal_id = rr_goal_id r, r_project_id = rr_project_id r, r_loop_state = rr_loop_state r,
          r_policy_version = policy, r_version = rr_version r, r_created_at = rr_created_at r,
          r_updated_at = rr_updated_at r\<rparr> rows))))"

definition repair_task :: "string \<times> replayed_task \<Rightarrow> task_row list \<Rightarrow> task_row list" where
  "repair_task entry = (case entry of (_, t) \<Rightarrow>
     upsert_row (\<lambda>a b. t_task_id a = t_task_id b)
       (\<lambda>b. b\<lparr>t_goal_id := rt_goal_id t, t_run_id := rt_run_id t, t_project_id := rt_project_id t, t_state := rt_state t,
              t_spec := rt_spec t, t_version := rt_version t, t_updated_at := rt_updated_at t\<rparr>)
       \<lparr>t_task_id = rt_task_id t, t_goal_id = rt_goal_id t, t_run_id = rt_run_id t, t_project_id = rt_project_id t,
        t_state = rt_state t, t_spec = rt_spec t, t_version = rt_version t, t_attempt_count = 0, t_due_at = None,
        t_last_error = None, t_created_at = rt_created_at t, t_updated_at = rt_updated_at t\<rparr>)"

definition repair_tables :: "replay_result \<Rightarrow> db \<Rightarrow> db res" where
  "repair_tables st db =
     bindr (foldm repair_run (rs_runs st) (runs db)) (\<lambda>run_rows.
       Inr (db\<lparr>goals := fold repair_goal (rs_goals st) (goals db), runs := run_rows,
               tasks := fold repair_task (rs_tasks st) (tasks db)\<rparr>))"

definition repair :: "env \<Rightarrow> auth_session option \<Rightarrow> db \<Rightarrow> (replay_result \<times> db) res" where
  "repair env actor db =
     bindr (require_role env SYSTEM actor db) (\<lambda>_.
     bindr (replay env db) (\<lambda>st.
     if list_ex (\<lambda>g. unknown (rs_goals st) (g_goal_id g)) (goals db) \<or>
        list_ex (\<lambda>r. unknown (rs_runs st) (r_run_id r)) (runs db) \<or>
        list_ex (\<lambda>t. unknown (rs_tasks st) (t_task_id t)) (tasks db)
     then Inl (IntegrityError ''refusing to delete projection rows without events'')
     else
     bindr (mapr (\<lambda>(i, _). if exists_row (\<lambda>t. t_task_id t = i) (tasks db) then Inr ()
                           else require_safe_missing_task_rebuild db i) (rs_tasks st)) (\<lambda>_.
     bindr (repair_tables st db) (\<lambda>db'.
     bindr (verify_projections (sha256 env) db' st) (\<lambda>_. Inr (st, db'))))))"

section \<open>The ledger determines the tables\<close>

text \<open>A keyed table as a function of the key, after an insert.\<close>

lemma fetch_key_snoc:
  assumes "k r \<notin> set (map k rows)"
  shows "fetch_one (\<lambda>x. k x = i) (rows @ [r]) = (if i = k r then Some r else fetch_one (\<lambda>x. k x = i) rows)"
proof (cases "i = k r")
  case True
  have "fetch_one (\<lambda>x. k x = k r) (rows @ [r]) = (if k r = k r then Some r else None)"
    by (rule fetch_one_snoc_new) (use assms in \<open>auto simp: image_iff dest: sym\<close>)
  with True show ?thesis by simp
qed (simp add: fetch_one_snoc_other)

text \<open>The core columns of the tables, as functions of the identifier.\<close>

definition goal_view :: "db \<Rightarrow> string \<Rightarrow> goal_row option" where
  "goal_view db i = fetch_one (\<lambda>g. g_goal_id g = i) (goals db)"

definition replayed_run_of :: "run_row \<Rightarrow> replayed_run" where
  "replayed_run_of r = \<lparr>rr_run_id = r_run_id r, rr_goal_id = r_goal_id r, rr_project_id = r_project_id r,
     rr_loop_state = r_loop_state r, rr_policy_version = JStr (r_policy_version r), rr_version = r_version r,
     rr_created_at = r_created_at r, rr_updated_at = r_updated_at r\<rparr>"

definition run_view :: "db \<Rightarrow> string \<Rightarrow> replayed_run option" where
  "run_view db i = map_option replayed_run_of (fetch_one (\<lambda>r. r_run_id r = i) (runs db))"

definition replayed_task_of :: "task_row \<Rightarrow> replayed_task" where
  "replayed_task_of t = \<lparr>rt_task_id = t_task_id t, rt_goal_id = t_goal_id t, rt_run_id = t_run_id t,
     rt_project_id = t_project_id t, rt_state = t_state t, rt_spec = t_spec t, rt_version = t_version t,
     rt_created_at = t_created_at t, rt_updated_at = t_updated_at t\<rparr>"

definition task_view :: "db \<Rightarrow> string \<Rightarrow> replayed_task option" where
  "task_view db i = map_option replayed_task_of (fetch_one (\<lambda>t. t_task_id t = i) (tasks db))"

definition task_ids :: "db \<Rightarrow> string list" where
  "task_ids db = map t_task_id (tasks db)"

definition authority_rows :: "db \<Rightarrow> adopted_project_row list \<times> adopted_program_row list \<times> goal_binding_row list \<times> task_binding_row list" where
  "authority_rows db = (adopted_projects db, adopted_programs db, goal_bindings db, task_bindings db)"

text \<open>The replayed state agrees with the tables.\<close>

definition follows :: "db \<Rightarrow> replay_result \<Rightarrow> bool" where
  "follows db st \<longleftrightarrow> map_of (rs_goals st) = goal_view db \<and> map_of (rs_runs st) = run_view db \<and>
     map_of (rs_tasks st) = task_view db \<and> rs_projects st = [] \<and> rs_programs st = [] \<and>
     rs_goal_authorities st = [] \<and> rs_task_authorities st = [] \<and>
     (\<forall>ty \<in> set REPLAYED_AGGREGATES. \<forall>i. rs_versions st (ty, i) = current_version ty i (events db))"

text \<open>An event that the ledger takes: the next version of its aggregate, linked to the head, with
  authority metadata that verifies.\<close>

definition logged :: "(string \<Rightarrow> string) \<Rightarrow> db \<Rightarrow> event_row \<Rightarrow> db \<Rightarrow> bool" where
  "logged sha db e db' \<longleftrightarrow> events db' = events db @ [e] \<and> sessions db' = sessions db \<and>
     authority_rows db' = authority_rows db \<and>
     e_aggregate_version e = current_version (e_aggregate_type e) (e_aggregate_id e) (events db) + 1 \<and>
     e_previous_event_hash e = head_hash (events db) \<and> sha (hash_text e) = e_event_hash e \<and>
     sha (payload_text e) = e_payload_digest e \<and> verify_authority (sessions db) e = Inr ()"

definition verified :: "(string \<Rightarrow> string) \<Rightarrow> db \<Rightarrow> bool" where
  "verified sha db \<longleftrightarrow> verify_rows sha (sessions db) ''GENESIS'' (events db) = Inr ()"

text \<open>What any other service may do: whatever it likes to its own tables, and append events of
  aggregates that are not replayed.\<close>

definition foreign :: "(string \<Rightarrow> string) \<Rightarrow> db \<Rightarrow> db \<Rightarrow> bool" where
  "foreign sha db db' \<longleftrightarrow> goals db' = goals db \<and> run_view db' = run_view db \<and> task_view db' = task_view db \<and>
     task_ids db' = task_ids db \<and> authority_rows db' = authority_rows db \<and>
     (\<exists>es. events db' = events db @ es \<and> (\<forall>e \<in> set es. e_aggregate_type e \<notin> set REPLAYED_AGGREGATES)) \<and>
     (verified sha db \<longrightarrow> verified sha db') \<and>
     (distinct (map s_session_id (sessions db)) \<longrightarrow> distinct (map s_session_id (sessions db')))"

text \<open>The contract of a core handler: every step is foreign or one of the five core changes.\<close>

inductive core_step :: "(string \<Rightarrow> string) \<Rightarrow> db \<Rightarrow> db \<Rightarrow> bool" for sha where
  others: "foreign sha db db' \<Longrightarrow> core_step sha db db'"
| goal_made: "logged sha db e db' \<Longrightarrow> e_aggregate_type e = ''goal'' \<Longrightarrow> e_event_type e = ''goal_created'' \<Longrightarrow>
     e_payload e = goal_to_dict spec \<Longrightarrow> wf_goal spec \<Longrightarrow> e_aggregate_id e = gs_goal_id spec \<Longrightarrow>
     gs_goal_id spec \<notin> set (map g_goal_id (goals db)) \<Longrightarrow>
     goals db' = goals db @ [\<lparr>g_goal_id = gs_goal_id spec, g_project_id = e_project_id e, g_state = GS_COMPILED,
       g_spec = JObj (goal_to_dict spec), g_version = e_aggregate_version e, g_created_at = e_recorded_at e,
       g_updated_at = e_recorded_at e\<rparr>] \<Longrightarrow>
     run_view db' = run_view db \<Longrightarrow> task_view db' = task_view db \<Longrightarrow> task_ids db' = task_ids db \<Longrightarrow> core_step sha db db'"
| run_made: "logged sha db e db' \<Longrightarrow> e_aggregate_type e = ''run'' \<Longrightarrow> e_event_type e = loop_event_value OWNER_INTENT_RECEIVED \<Longrightarrow>
     map_of (e_payload e) ''goal_id'' = Some (JStr goal_id) \<Longrightarrow> map_of (e_payload e) ''policy_version'' = Some policy \<Longrightarrow>
     \<exists>g \<in> set (goals db). g_goal_id g = goal_id \<and> g_project_id g = e_project_id e \<Longrightarrow>
     run_view db (e_aggregate_id e) = None \<Longrightarrow>
     run_view db' = (run_view db)(e_aggregate_id e \<mapsto> \<lparr>rr_run_id = e_aggregate_id e, rr_goal_id = goal_id,
       rr_project_id = e_project_id e, rr_loop_state = LS_INTAKE, rr_policy_version = policy, rr_version = 1,
       rr_created_at = e_recorded_at e, rr_updated_at = e_recorded_at e\<rparr>) \<Longrightarrow>
     goals db' = goals db \<Longrightarrow> task_view db' = task_view db \<Longrightarrow> task_ids db' = task_ids db \<Longrightarrow> core_step sha db db'"
| run_advanced: "logged sha db e db' \<Longrightarrow> e_aggregate_type e = ''run'' \<Longrightarrow> e_event_type e = loop_event_value event \<Longrightarrow>
     run_view db (e_aggregate_id e) = Some run \<Longrightarrow>
     apply_loop_event (rr_loop_state run) event (recorded_guards (e_payload e)) = Inr tgt \<Longrightarrow>
     run_view db' = (run_view db)(e_aggregate_id e \<mapsto>
       run\<lparr>rr_loop_state := tgt, rr_version := e_aggregate_version e, rr_updated_at := e_recorded_at e\<rparr>) \<Longrightarrow>
     goals db' = goals db \<Longrightarrow> task_view db' = task_view db \<Longrightarrow> task_ids db' = task_ids db \<Longrightarrow> core_step sha db db'"
| task_made: "logged sha db e db' \<Longrightarrow> e_aggregate_type e = ''task'' \<Longrightarrow> e_event_type e = ''task_added'' \<Longrightarrow>
     e_payload e = task_to_dict spec @ [(''run_id'', jopt run_id)] \<Longrightarrow> wf_task spec \<Longrightarrow> e_aggregate_id e = ts_task_id spec \<Longrightarrow>
     \<exists>g \<in> set (goals db). g_goal_id g = ts_goal_id spec \<Longrightarrow>
     (\<And>i. run_id = Some i \<Longrightarrow> \<exists>run. run_view db i = Some run \<and> rr_goal_id run = ts_goal_id spec) \<Longrightarrow>
     ts_task_id spec \<notin> set (task_ids db) \<Longrightarrow>
     task_view db' = (task_view db)(ts_task_id spec \<mapsto> \<lparr>rt_task_id = ts_task_id spec, rt_goal_id = ts_goal_id spec,
       rt_run_id = run_id, rt_project_id = e_project_id e, rt_state = TS_READY, rt_spec = JObj (task_to_dict spec),
       rt_version = 1, rt_created_at = e_recorded_at e, rt_updated_at = e_recorded_at e\<rparr>) \<Longrightarrow>
     goals db' = goals db \<Longrightarrow> run_view db' = run_view db \<Longrightarrow> task_ids db' = task_ids db @ [ts_task_id spec] \<Longrightarrow> core_step sha db db'"
| task_changed: "logged sha db e db' \<Longrightarrow> e_aggregate_type e = ''task'' \<Longrightarrow> e_event_type e = ''task_state_changed'' \<Longrightarrow>
     task_view db (e_aggregate_id e) = Some t \<Longrightarrow> valid_change (rt_state t) (e_payload e) \<Longrightarrow>
     map_of (e_payload e) ''target'' = Some (JStr (task_state_value tgt)) \<Longrightarrow> valid_linkage (rt_state t) tgt (e_payload e) \<Longrightarrow>
     tgt \<in> set (TASK_TRANSITIONS (rt_state t)) \<Longrightarrow>
     task_view db' = (task_view db)(e_aggregate_id e \<mapsto>
       t\<lparr>rt_state := tgt, rt_version := e_aggregate_version e, rt_updated_at := e_recorded_at e\<rparr>) \<Longrightarrow>
     goals db' = goals db \<Longrightarrow> run_view db' = run_view db \<Longrightarrow> task_ids db' = task_ids db \<Longrightarrow> core_step sha db db'"

text \<open>The primary keys, and no adopted authority.\<close>

definition core_ok :: "db \<Rightarrow> bool" where
  "core_ok db \<longleftrightarrow> distinct (map s_session_id (sessions db)) \<and> distinct (map g_goal_id (goals db)) \<and>
     distinct (task_ids db) \<and> authority_rows db = ([], [], [], [])"

lemma logged_frame:
  "logged sha db e db' \<Longrightarrow> events db' = events db @ [e] \<and> sessions db' = sessions db \<and> authority_rows db' = authority_rows db"
  by (simp add: logged_def)

lemma logged_verified: "logged sha db e db' \<Longrightarrow> verified sha db \<Longrightarrow> verified sha db'"
  by (auto simp: logged_def verified_def verify_rows_append head_hash_def)

lemma core_step_verified: "core_step sha db db' \<Longrightarrow> verified sha db \<Longrightarrow> verified sha db'"
  by (cases rule: core_step.cases) (auto simp: foreign_def intro: logged_verified)

lemma core_step_ok: "core_step sha db db' \<Longrightarrow> core_ok db \<Longrightarrow> core_ok db'"
  by (cases rule: core_step.cases) (auto simp: core_ok_def foreign_def dest!: logged_frame)

lemma current_version_snoc:
  "current_version ty i (rows @ [e]) =
     (if e_aggregate_type e = ty \<and> e_aggregate_id e = i then max (e_aggregate_version e) (current_version ty i rows)
      else current_version ty i rows)"
  by (simp add: current_version_def)

lemma current_version_logged:
  "logged sha db e db' \<Longrightarrow> current_version ty i (events db') =
     (if e_aggregate_type e = ty \<and> e_aggregate_id e = i then e_aggregate_version e else current_version ty i (events db))"
  by (auto simp: logged_def current_version_snoc)

lemma current_version_foreign:
  "\<forall>e \<in> set es. e_aggregate_type e \<noteq> ty \<Longrightarrow> current_version ty i (rows @ es) = current_version ty i rows"
  by (induction es rule: rev_induct) (auto simp: current_version_snoc append_assoc [symmetric] simp del: append_assoc)

lemma foldm_append: "foldm f (xs @ ys) s = bindr (foldm f xs s) (foldm f ys)"
proof (induction xs arbitrary: s)
  case (Cons x xs)
  then show ?case by (cases "f x s") auto
qed simp

lemma replay_foreign:
  "\<forall>e \<in> set es. e_aggregate_type e \<notin> set REPLAYED_AGGREGATES \<Longrightarrow> foldm (replay_event sha) es st = Inr st"
  by (induction es) (auto simp: replay_event_def)

lemma task_state_found:
  "List.find ((=) tgt) all_task_states = Some tgt"
  by (cases tgt) (simp_all add: all_task_states_def)

lemma loop_event_found: "List.find (\<lambda>e. e = event) all_loop_events = Some event"
  by (cases event) (simp_all add: all_loop_events_def)

lemma task_dict_no_run: "filter (\<lambda>(k, _). k \<noteq> ''run_id'') (task_to_dict spec @ [(''run_id'', v)]) = task_to_dict spec"
  "map_of (task_to_dict spec @ [(''run_id'', v)]) ''run_id'' = Some v"
  by (simp_all add: task_to_dict_def)

text \<open>Replaying one more event.\<close>

lemma replay_one:
  assumes "logged sha db e db'" "follows db st" "e_aggregate_type e \<in> set REPLAYED_AGGREGATES"
    and "apply_event sha e (st\<lparr>rs_versions := (rs_versions st)((e_aggregate_type e, e_aggregate_id e) := e_aggregate_version e)\<rparr>) = Inr st'"
    and "replay_events sha (events db) = Inr st"
  shows "replay_events sha (events db') = Inr st'"
  using assms by (auto simp: logged_def replay_events_def foldm_append replay_event_def Let_def follows_def)

lemma follows_logged:
  assumes "logged sha db e db'" "follows db st" "e_aggregate_type e \<in> set REPLAYED_AGGREGATES"
    and "map_of (rs_goals st') = goal_view db'" "map_of (rs_runs st') = run_view db'" "map_of (rs_tasks st') = task_view db'"
    and "rs_projects st' = rs_projects st" "rs_programs st' = rs_programs st"
    and "rs_goal_authorities st' = rs_goal_authorities st" "rs_task_authorities st' = rs_task_authorities st"
    and "rs_versions st' = (rs_versions st)((e_aggregate_type e, e_aggregate_id e) := e_aggregate_version e)"
  shows "follows db' st'"
  using assms by (auto simp: follows_def current_version_logged [OF assms(1)])

lemma goal_view_same: "goals db' = goals db \<Longrightarrow> goal_view db' = goal_view db"
  by (simp add: goal_view_def fun_eq_iff)

lemma goal_view_None: "goal_view db i = None \<longleftrightarrow> i \<notin> set (map g_goal_id (goals db))"
  by (auto simp: goal_view_def)

lemma goal_view_member:
  assumes "distinct (map g_goal_id (goals db))" "g \<in> set (goals db)"
  shows "goal_view db (g_goal_id g) = Some g"
  using assms by (simp add: goal_view_def fetch_one_key)

lemma task_view_None: "task_view db i = None \<longleftrightarrow> i \<notin> set (task_ids db)"
  by (auto simp: task_view_def task_ids_def)

lemma task_view_member:
  assumes "distinct (task_ids db)" "t \<in> set (tasks db)"
  shows "task_view db (t_task_id t) = Some (replayed_task_of t)"
  using assms by (simp add: task_view_def task_ids_def fetch_one_key)

text \<open>What a ledger in good order lets the replayer reconstruct.\<close>

definition replayable :: "(string \<Rightarrow> string) \<Rightarrow> db \<Rightarrow> bool" where
  "replayable sha db \<longleftrightarrow> core_ok db \<and> verified sha db \<and> (\<exists>st. replay_events sha (events db) = Inr st \<and> follows db st)"

lemma replay_foreign_step:
  assumes "foreign sha db db'" "replay_events sha (events db) = Inr st" "follows db st"
  shows "replay_events sha (events db') = Inr st \<and> follows db' st"
proof -
  from assms(1) obtain es where es: "events db' = events db @ es" "\<forall>e \<in> set es. e_aggregate_type e \<notin> set REPLAYED_AGGREGATES"
    by (auto simp: foreign_def)
  have "current_version ty i (events db') = current_version ty i (events db)" if "ty \<in> set REPLAYED_AGGREGATES" for ty i
    using es that by (auto intro!: current_version_foreign)
  moreover have "goal_view db' = goal_view db" "run_view db' = run_view db" "task_view db' = task_view db"
    using assms(1) by (auto simp: foreign_def intro: goal_view_same)
  ultimately show ?thesis
    using assms(2, 3) es by (simp add: follows_def replay_events_def foldm_append replay_foreign)
qed

lemma replay_logged_step:
  assumes "logged sha db e db'" "replay_events sha (events db) = Inr st" "follows db st" "e_aggregate_type e \<in> set REPLAYED_AGGREGATES"
    and "apply_event sha e (st\<lparr>rs_versions := (rs_versions st)((e_aggregate_type e, e_aggregate_id e) := e_aggregate_version e)\<rparr>) = Inr st'"
    and "map_of (rs_goals st') = goal_view db'" "map_of (rs_runs st') = run_view db'" "map_of (rs_tasks st') = task_view db'"
    and "rs_projects st' = rs_projects st" "rs_programs st' = rs_programs st"
    and "rs_goal_authorities st' = rs_goal_authorities st" "rs_task_authorities st' = rs_task_authorities st"
    and "rs_versions st' = (rs_versions st)((e_aggregate_type e, e_aggregate_id e) := e_aggregate_version e)"
  shows "\<exists>st'. replay_events sha (events db') = Inr st' \<and> follows db' st'"
  using replay_one [OF assms(1, 3, 4, 5, 2)] follows_logged [OF assms(1, 3, 4) assms(6-13)] by blast

theorem core_step_replays:
  assumes "core_step sha db db'" "core_ok db" "replay_events sha (events db) = Inr st" "follows db st"
  shows "\<exists>st'. replay_events sha (events db') = Inr st' \<and> follows db' st'"
proof -
  note f = assms(4) [unfolded follows_def]
  show ?thesis using assms(1)
  proof (cases rule: core_step.cases)
    case others
    with replay_foreign_step [OF _ assms(3, 4)] show ?thesis by blast
  next
    case (goal_made e spec)
    have "rs_goals st = rs_goals st \<and> map_of (rs_goals st) (gs_goal_id spec) = None"
      using f goal_made(7) by (simp add: goal_view_None)
    moreover have "goal_view db' = (goal_view db)(gs_goal_id spec \<mapsto>
        \<lparr>g_goal_id = gs_goal_id spec, g_project_id = e_project_id e, g_state = GS_COMPILED,
       g_spec = JObj (goal_to_dict spec), g_version = e_aggregate_version e, g_created_at = e_recorded_at e,
       g_updated_at = e_recorded_at e\<rparr>)"
      using goal_made(7, 8) by (simp add: goal_view_def fun_eq_iff fetch_key_snoc)
    ultimately show ?thesis
      using goal_made f
      by (intro replay_logged_step [OF goal_made(1) assms(3, 4)])
        (auto simp: REPLAYED_AGGREGATES_def apply_event_def apply_goal_def goal_roundtrip update_conv)
  next
    case (run_made e goal_id policy)
    from run_made(6) obtain g where g: "g \<in> set (goals db)" "g_goal_id g = goal_id" "g_project_id g = e_project_id e" by blast
    have "goal_view db goal_id = Some g" using goal_view_member [of db g] g assms(2) by (auto simp: core_ok_def)
    then show ?thesis
      using run_made f g goal_view_same [of db' db]
      by (intro replay_logged_step [OF run_made(1) assms(3, 4)])
        (auto simp: REPLAYED_AGGREGATES_def apply_event_def apply_run_def start_run_def get_field_def update_conv)
  next
    case (run_advanced e event run tgt)
    then show ?thesis
      using f goal_view_same [of db' db]
      by (intro replay_logged_step [OF run_advanced(1) assms(3, 4)])
        (auto simp: REPLAYED_AGGREGATES_def apply_event_def apply_run_def loop_event_found update_conv)
  next
    case (task_made e spec run_id)
    from task_made(7) have "goal_view db (ts_goal_id spec) \<noteq> None" unfolding goal_view_None by force
    moreover have "replayed_run_id (Some (jopt run_id)) (ts_goal_id spec) st' = Inr run_id" if "rs_runs st' = rs_runs st" for st'
      using task_made(8) f that by (cases run_id) (auto simp: replayed_run_id_def jopt_def)
    moreover have "filter (\<lambda>(k, _). k \<noteq> ''run_id'') (e_payload e) = task_to_dict spec" "map_of (e_payload e) ''run_id'' = Some (jopt run_id)"
      unfolding task_made(4) by (rule task_dict_no_run)+
    moreover have "task_view db (ts_task_id spec) = None" using task_made(9) by (simp add: task_view_None)
    ultimately show ?thesis
      using task_made(2, 3, 5, 6, 10-12) f goal_view_same [of db' db]
      by (intro replay_logged_step [OF task_made(1) assms(3, 4)])
        (auto simp: REPLAYED_AGGREGATES_def apply_event_def apply_task_def start_task_def task_roundtrip update_conv)
  next
    case (task_changed e t tgt)
    then show ?thesis
      using f goal_view_same [of db' db] task_state_found [of tgt]
      by (intro replay_logged_step [OF task_changed(1) assms(3, 4)])
        (auto simp: REPLAYED_AGGREGATES_def apply_event_def apply_task_def update_conv)
  qed
qed

lemma core_step_replayable: "core_step sha db db' \<Longrightarrow> replayable sha db \<Longrightarrow> replayable sha db'"
  using core_step_replays core_step_ok core_step_verified unfolding replayable_def by blast

lemma core_steps_replayable: "(core_step sha)\<^sup>*\<^sup>* db db' \<Longrightarrow> replayable sha db \<Longrightarrow> replayable sha db'"
  by (induction rule: rtranclp_induct) (auto intro: core_step_replayable)

lemma core_steps_ok: "(core_step sha)\<^sup>*\<^sup>* db db' \<Longrightarrow> core_ok db \<Longrightarrow> core_ok db'"
  by (induction rule: rtranclp_induct) (auto intro: core_step_ok)

end
