(* ===== verification/Ledger_Refinement.thy ===== *)
theory Ledger_Refinement
  imports Replay
begin

text \<open>
  The handlers of the kernel and of the scheduler keep the contract \<open>core_step\<close>: each of them changes
  the core tables exactly as a replay of the event it appends does.  The locale \<open>core_service\<close> states
  the contract, and is interpreted on the commands of both; its consequence is that at any time the
  ledger alone determines the tables of Goals, runs and Tasks, and that \<open>repair\<close> restores them.
\<close>

section \<open>The handlers keep the contract\<close>

lemma logged_appended:
  assumes "appended env c db ev" "store_ok env db" "c_occurred_at c = None" "c_aggregate_type c \<in> set (map fst CORE_HANDLERS)"
    and "events db' = events db @ [ev]" "sessions db' = sessions db" "authority_rows db' = authority_rows db"
  shows "logged (sha256 env) db ev db'"
proof -
  let ?d = "db\<lparr>uuid_next := Suc (uuid_next db)\<rparr>"
  from assms(1) obtain auth where auth: "authorize_event env ?d c = Inr auth" and ev: "ev = new_event env ?d c auth"
    by (auto simp: appended_def)
  have "c_aggregate_type c \<notin> set PROTECTED_AGGREGATES" using assms(4) by (auto simp: CORE_HANDLERS_def PROTECTED_AGGREGATES_def PROTECTED_EVENT_HANDLERS_def)
  moreover have "store_ok env ?d" using assms(2) by (simp add: store_ok_def)
  ultimately have "verify_authority (sessions ?d) ev = Inr ()"
    unfolding ev using new_event_authority_verifies [OF auth _ assms(3)] by blast
  then show ?thesis
    using assms(5-7) by (simp add: logged_def ev new_event_hash payload_text_def)
qed

lemma core_store_ok: "core_ok db \<Longrightarrow> domain_ok (domain env) \<Longrightarrow> store_ok env db"
  by (simp add: core_ok_def store_ok_def)

lemma appended_simps:
  assumes "appended env c db ev"
  shows "e_aggregate_type ev = c_aggregate_type c" "e_aggregate_id ev = c_aggregate_id c" "e_event_type ev = c_event_type c"
    "e_payload ev = c_payload c" "e_project_id ev = c_project_id c" "e_recorded_at ev = now env"
    "e_aggregate_version ev = c_expected_version c + 1"
  using assms by (auto simp: appended_def)

text \<open>Updates of tables seen through the views.\<close>

lemma fetch_key_update:
  assumes "\<And>t. k (f t) = k t"
  shows "fetch_one (\<lambda>t. k t = j) (update_where (\<lambda>t. k t = i) f rows) =
    (if j = i then map_option f (fetch_one (\<lambda>t. k t = i) rows) else fetch_one (\<lambda>t. k t = j) rows)"
  by (induction rows) (auto simp: assms)

lemma task_view_update:
  assumes "\<And>t. t_task_id (f t) = t_task_id t" "tasks db' = update_where (\<lambda>t. t_task_id t = i) f (tasks db)"
    and "fetch_one (\<lambda>t. t_task_id t = i) (tasks db) = Some row"
  shows "task_view db' = (task_view db)(i \<mapsto> replayed_task_of (f row))" "task_ids db' = task_ids db"
  by (simp_all add: fun_eq_iff task_view_def task_ids_def assms(2, 3) fetch_key_update [where k = t_task_id, OF assms(1)]
      map_update_where assms(1))

lemma run_view_update:
  assumes "\<And>r. r_run_id (f r) = r_run_id r" "runs db' = update_where (\<lambda>r. r_run_id r = i) f (runs db)"
    and "fetch_one (\<lambda>r. r_run_id r = i) (runs db) = Some row"
  shows "run_view db' = (run_view db)(i \<mapsto> replayed_run_of (f row))"
  by (simp add: fun_eq_iff run_view_def assms(2, 3) fetch_key_update [where k = r_run_id, OF assms(1)])

lemma view_same:
  "runs db' = runs db \<Longrightarrow> run_view db' = run_view db" "tasks db' = tasks db \<Longrightarrow> task_view db' = task_view db"
  "tasks db' = tasks db \<Longrightarrow> task_ids db' = task_ids db"
  by (simp_all add: run_view_def task_view_def task_ids_def fun_eq_iff)

text \<open>A quiet step touches neither the ledger nor a core column.\<close>

lemma foreign_quiet:
  assumes "goals db' = goals db" "runs db' = runs db" "task_view db' = task_view db" "task_ids db' = task_ids db"
    and "authority_rows db' = authority_rows db" "events db' = events db" "sessions db' = sessions db"
  shows "core_step sha db db'"
  by (rule others) (simp add: foreign_def verified_def assms view_same(1) [OF assms(2)])

definition change_extra :: "task_state \<Rightarrow> task_state \<Rightarrow> dict \<Rightarrow> bool" where
  "change_extra current tgt extra \<longleftrightarrow> extra = [] \<or> (\<exists>s. extra = [(''accepted_evidence_id'', JStr s)] \<and> non_blank s \<and>
     current \<in> {TS_EVIDENCE_PENDING, TS_EVALUATOR_PENDING} \<and> tgt \<in> {TS_EVALUATOR_PENDING, TS_INTEGRATION_PENDING})"

lemma change_payload_valid:
  assumes "non_blank reason" "change_extra current tgt extra"
    and "p = [(''from'', JStr (task_state_value current)), (''target'', JStr (task_state_value tgt)), (''reason'', JStr reason)] @ extra"
  shows "valid_change current p" "valid_linkage current tgt p" "map_of p ''target'' = Some (JStr (task_state_value tgt))"
  using assms by (auto simp: change_extra_def valid_change_def valid_linkage_def keys_def)

lemma task_changed_step:
  assumes "appended env c db ev" "store_ok env db" "c_occurred_at c = None" "c_aggregate_type c = ''task''"
    and "c_aggregate_id c = t_task_id row" "c_event_type c = ''task_state_changed''" "c_expected_version c = t_version row"
    and "c_payload c = [(''from'', JStr (task_state_value (t_state row))), (''target'', JStr (task_state_value tgt)),
           (''reason'', JStr reason)] @ extra"
    and "task_view db (t_task_id row) = Some (replayed_task_of row)" "tgt \<in> set (TASK_TRANSITIONS (t_state row))"
    and "non_blank reason" "change_extra (t_state row) tgt extra"
    and db': "db' = db\<lparr>events := events db @ [ev], uuid_next := n, tasks := update_where (\<lambda>t. t_task_id t = t_task_id row)
           (\<lambda>t. t\<lparr>t_state := tgt, t_version := t_version row + 1, t_updated_at := now env\<rparr>) (tasks db)\<rparr>"
  shows "core_step (sha256 env) db db'"
    and "task_view db' = (task_view db)(t_task_id row \<mapsto> replayed_task_of
           (row\<lparr>t_state := tgt, t_version := t_version row + 1, t_updated_at := now env\<rparr>))"
proof -
  let ?f = "\<lambda>t. t\<lparr>t_state := tgt, t_version := t_version row + 1, t_updated_at := now env\<rparr> :: task_row"
  from assms(9) obtain row0 where row0: "fetch_one (\<lambda>t. t_task_id t = t_task_id row) (tasks db) = Some row0"
    "replayed_task_of row0 = replayed_task_of row" by (auto simp: task_view_def)
  have upd: "replayed_task_of (?f row0) = replayed_task_of (?f row)"
    using row0(2) by (simp add: replayed_task_of_def)
  have view: "task_view db' = (task_view db)(t_task_id row \<mapsto> replayed_task_of (?f row0))" "task_ids db' = task_ids db"
    by (rule task_view_update [OF _ _ row0(1)]; simp add: db')+
  then show "task_view db' = (task_view db)(t_task_id row \<mapsto> replayed_task_of (?f row))" by (simp only: upd)
  have log: "logged (sha256 env) db ev db'"
    by (rule logged_appended [OF assms(1-3)]) (simp_all add: db' assms(4) CORE_HANDLERS_def authority_rows_def)
  show "core_step (sha256 env) db db'"
  proof (rule task_changed [OF log, where t = "replayed_task_of row" and tgt = tgt])
    show "task_view db' = (task_view db)(e_aggregate_id ev \<mapsto> replayed_task_of row
        \<lparr>rt_state := tgt, rt_version := e_aggregate_version ev, rt_updated_at := e_recorded_at ev\<rparr>)"
      unfolding view(1) upd by (simp add: appended_simps [OF assms(1)] assms(5, 7) replayed_task_of_def)
    show "e_aggregate_type ev = ''task''" "e_event_type ev = ''task_state_changed''"
      using assms(4, 6) by (simp_all add: appended_simps [OF assms(1)])
    show "task_view db (e_aggregate_id ev) = Some (replayed_task_of row)"
      using assms(9) by (simp add: appended_simps [OF assms(1)] assms(5))
    show "valid_change (rt_state (replayed_task_of row)) (e_payload ev)"
      "map_of (e_payload ev) ''target'' = Some (JStr (task_state_value tgt))"
      "valid_linkage (rt_state (replayed_task_of row)) tgt (e_payload ev)"
      using change_payload_valid [OF assms(11, 12, 8)] by (simp_all add: appended_simps [OF assms(1)] replayed_task_of_def)
    show "tgt \<in> set (TASK_TRANSITIONS (rt_state (replayed_task_of row)))"
      using assms(10) by (simp add: replayed_task_of_def)
    show "goals db' = goals db" by (simp add: db')
    show "run_view db' = run_view db" by (rule view_same) (simp add: db')
    show "task_ids db' = task_ids db" by (rule view(2))
  qed
qed

text \<open>The works of the kernel.\<close>

lemma task_view_fetch: "fetch_one (\<lambda>t. t_task_id t = i) (tasks db) = Some row \<Longrightarrow> task_view db (t_task_id row) = Some (replayed_task_of row)"
  by (auto simp: task_view_def dest: fetch_one_SomeD)

lemma transition_task_core:
  assumes "transition_task_projection env k row tgt actor reason key s extra db = Inr (r, i, db')"
    and "fetch_one (\<lambda>t. t_task_id t = j) (tasks db) = Some row" "store_ok env db" "non_blank reason"
    and "change_extra (t_state row) tgt extra"
  shows "core_step (sha256 env) db db'"
proof -
  from transition_task_Inr [OF assms(1)] obtain c ev where c: "tgt \<in> set (TASK_TRANSITIONS (t_state row))" "appended env c db ev"
    "c_expected_version c = t_version row" "core_cmd k ''task'' (t_task_id row) ''task_state_changed''
          ([(''from'', JStr (task_state_value (t_state row))), (''target'', JStr (task_state_value tgt)), (''reason'', JStr reason)] @ extra) c"
    "db' = db\<lparr>events := events db @ [ev], uuid_next := Suc (Suc (uuid_next db)),
          tasks := update_where (\<lambda>t. t_task_id t = t_task_id row)
            (\<lambda>t. t\<lparr>t_state := tgt, t_version := t_version row + 1, t_updated_at := now env\<rparr>) (tasks db)\<rparr>"
    by blast
  from c(4) show ?thesis
    unfolding core_cmd_def
    by (elim conjE) (rule task_changed_step(1) [OF c(2) assms(3) _ _ _ _ c(3) _ task_view_fetch [OF assms(2)] c(1) assms(4, 5) c(5)])
qed

lemma save_core:
  assumes "save_idempotent_result env ik d r i db1 = Inr db2"
  shows "core_step sha db1 db2"
  using save_frame [OF assms] by (auto intro!: foreign_quiet simp: task_view_def task_ids_def authority_rows_def)

lemma advance_core:
  assumes "advance_work env k row event supplied payload actor s key cause db = Inr (r, i, db')"
    and "fetch_one (\<lambda>x. r_run_id x = j) (runs db) = Some row" "store_ok env db"
  shows "core_step (sha256 env) db db'"
proof -
  from advance_work_Inr [OF assms(1)] obtain facts tgt c ev where
    a: "apply_loop_event (r_loop_state row) event (map_of facts) = Inr tgt" "appended env c db ev"
      "c_expected_version c = r_version row" and
    c: "core_cmd k ''run'' (r_run_id row) (loop_event_value event)
       [(''event'', JStr (loop_event_value event)), (''guards'', guards_json facts), (''payload'', JObj payload)] c" and
    db': "db' = db\<lparr>events := events db @ [ev], uuid_next := Suc (Suc (uuid_next db)),
       runs := update_where (\<lambda>x. r_run_id x = r_run_id row)
         (\<lambda>x. x\<lparr>r_loop_state := tgt, r_version := r_version row + 1, r_updated_at := now env\<rparr>) (runs db)\<rparr>"
    by blast
  note e = appended_simps [OF a(2)] c [unfolded core_cmd_def]
  have j: "r_run_id row = j" using assms(2) by (auto dest: fetch_one_SomeD)
  have m: "map_of (map (\<lambda>(g, b). (g, JBool b)) facts) g = map_option JBool (map_of facts g)" for g
    by (induction facts) auto
  have guards: "recorded_guards (e_payload ev) g = Some True \<longleftrightarrow> map_of facts g = Some True" for g
    by (cases "map_of facts g") (simp_all add: e recorded_guards_def guards_json_def m)
  show ?thesis
  proof (rule run_advanced [where e = ev and run = "replayed_run_of row" and tgt = tgt and event = event])
    show "logged (sha256 env) db ev db'"
      by (rule logged_appended [OF a(2) assms(3)]) (simp_all add: e db' CORE_HANDLERS_def authority_rows_def)
    show "run_view db (e_aggregate_id ev) = Some (replayed_run_of row)"
      using assms(2) by (simp add: run_view_def e j)
    show "apply_loop_event (rr_loop_state (replayed_run_of row)) event (recorded_guards (e_payload ev)) = Inr tgt"
      using a(1) by (simp add: apply_loop_event_Inr guards replayed_run_of_def)
    have "run_view db' = (run_view db)(r_run_id row \<mapsto>
        replayed_run_of (row\<lparr>r_loop_state := tgt, r_version := r_version row + 1, r_updated_at := now env\<rparr>))"
      by (rule run_view_update) (use assms(2) in \<open>simp_all add: db' j\<close>)
    then show "run_view db' = (run_view db)(e_aggregate_id ev \<mapsto> replayed_run_of row
        \<lparr>rr_loop_state := tgt, rr_version := e_aggregate_version ev, rr_updated_at := e_recorded_at ev\<rparr>)"
      by (simp add: e a(3) replayed_run_of_def)
  qed (simp_all add: e db' task_view_def task_ids_def fun_eq_iff)
qed

lemma create_goal_core:
  assumes "create_goal_work env k project_id spec actor s key db = Inr (r, i, db')" "wf_goal spec" "store_ok env db"
  shows "core_step (sha256 env) db db'"
proof -
  from create_goal_work_Inr [OF assms(1)] obtain c ev where a: "appended env c db ev" "c_expected_version c = 0" "c_project_id c = project_id"
    and c: "core_cmd k ''goal'' (gs_goal_id spec) ''goal_created'' (goal_to_dict spec) c"
    and new: "\<forall>g \<in> set (goals db). g_goal_id g \<noteq> gs_goal_id spec"
    and db': "db' = db\<lparr>events := events db @ [ev], uuid_next := Suc (Suc (uuid_next db)),
       goals := goals db @ [\<lparr>g_goal_id = gs_goal_id spec, g_project_id = project_id, g_state = GS_COMPILED,
         g_spec = JObj (goal_to_dict spec), g_version = 1, g_created_at = now env, g_updated_at = now env\<rparr>]\<rparr>"
    by blast
  note e = appended_simps [OF a(1)] c [unfolded core_cmd_def]
  show ?thesis
  proof (rule goal_made [where e = ev and spec = spec])
    show "logged (sha256 env) db ev db'"
      by (rule logged_appended [OF a(1) assms(3)]) (simp_all add: e db' CORE_HANDLERS_def authority_rows_def)
    show "gs_goal_id spec \<notin> set (map g_goal_id (goals db))" using new by auto
  qed (simp_all add: e a(2, 3) db' assms(2) run_view_def task_view_def task_ids_def fun_eq_iff)
qed

lemma create_run_core:
  assumes "create_run_work env k project_id goal_id run_id
      [(''goal_id'', JStr goal_id), (''run_id'', JStr run_id), (''policy_version'', JStr (k_policy_version k))] actor s key db = Inr (r, i, db')"
    and "store_ok env db"
  shows "core_step (sha256 env) db db'"
proof -
  let ?row = "\<lparr>r_run_id = run_id, r_goal_id = goal_id, r_project_id = project_id, r_loop_state = LS_INTAKE,
         r_policy_version = k_policy_version k, r_version = 1, r_created_at = now env, r_updated_at = now env\<rparr>"
  from create_run_work_Inr [OF assms(1)] obtain c ev where a: "appended env c db ev" "c_expected_version c = 0" "c_project_id c = project_id"
    and c: "core_cmd k ''run'' run_id (loop_event_value OWNER_INTENT_RECEIVED)
      [(''goal_id'', JStr goal_id), (''run_id'', JStr run_id), (''policy_version'', JStr (k_policy_version k))] c"
    and g: "\<exists>g \<in> set (goals db). g_goal_id g = goal_id \<and> g_project_id g = project_id"
    and new: "\<forall>x \<in> set (runs db). r_run_id x \<noteq> run_id"
    and db': "db' = db\<lparr>events := events db @ [ev], uuid_next := Suc (Suc (uuid_next db)), runs := runs db @ [?row]\<rparr>"
    by blast
  note e = appended_simps [OF a(1)] c [unfolded core_cmd_def]
  have fresh: "r_run_id ?row \<notin> set (map r_run_id (runs db))" using new by auto
  show ?thesis
  proof (rule run_made [where e = ev and goal_id = goal_id and policy = "JStr (k_policy_version k)"])
    show "logged (sha256 env) db ev db'"
      by (rule logged_appended [OF a(1) assms(2)]) (simp_all add: e db' CORE_HANDLERS_def authority_rows_def)
    show "run_view db (e_aggregate_id ev) = None" using new by (simp add: e run_view_def)
    show "run_view db' = (run_view db)(e_aggregate_id ev \<mapsto> \<lparr>rr_run_id = e_aggregate_id ev, rr_goal_id = goal_id,
       rr_project_id = e_project_id ev, rr_loop_state = LS_INTAKE, rr_policy_version = JStr (k_policy_version k), rr_version = 1,
       rr_created_at = e_recorded_at ev, rr_updated_at = e_recorded_at ev\<rparr>)"
      using fetch_key_snoc [of r_run_id, OF fresh] by (simp add: fun_eq_iff run_view_def db' e a(3) replayed_run_of_def)
    show "\<exists>g \<in> set (goals db). g_goal_id g = goal_id \<and> g_project_id g = e_project_id ev" using g by (simp add: e a(3))
  qed (simp_all add: e db' task_view_def task_ids_def fun_eq_iff)
qed

lemma add_task_core:
  assumes "add_task_work env k project_id spec run_id (task_to_dict spec @ [(''run_id'', jopt run_id)]) actor s key db = Inr (r, i, db')"
    and "wf_task spec" "store_ok env db"
  shows "core_step (sha256 env) db db'"
proof -
  let ?row = "\<lparr>t_task_id = ts_task_id spec, t_goal_id = ts_goal_id spec, t_run_id = run_id, t_project_id = project_id,
         t_state = TS_READY, t_spec = JObj (task_to_dict spec), t_version = 1, t_attempt_count = 0,
         t_due_at = None, t_last_error = None, t_created_at = now env, t_updated_at = now env\<rparr>"
  from add_task_work_Inr [OF assms(1)] obtain row c ev where
    g: "fetch_one (\<lambda>g. g_goal_id g = ts_goal_id spec \<and> g_project_id g = project_id) (goals db) = Some row" and
    run: "check_task_run project_id (ts_goal_id spec) run_id db = Inr ()" and
    a: "appended env c db ev" "c_expected_version c = 0" "c_project_id c = project_id" and
    c: "core_cmd k ''task'' (ts_task_id spec) ''task_added'' (task_to_dict spec @ [(''run_id'', jopt run_id)]) c" and
    new: "\<forall>t \<in> set (tasks db). t_task_id t \<noteq> ts_task_id spec" and
    db': "db' = db\<lparr>events := events db @ [ev], uuid_next := Suc (Suc (uuid_next db)), tasks := tasks db @ [?row]\<rparr>"
    by blast
  note e = appended_simps [OF a(1)] c [unfolded core_cmd_def]
  have fresh: "t_task_id ?row \<notin> set (map t_task_id (tasks db))" using new by auto
  show ?thesis
  proof (rule task_made [where e = ev and spec = spec and run_id = run_id])
    show "logged (sha256 env) db ev db'"
      by (rule logged_appended [OF a(1) assms(3)]) (simp_all add: e db' CORE_HANDLERS_def authority_rows_def)
    show "\<exists>g \<in> set (goals db). g_goal_id g = ts_goal_id spec" using fetch_one_SomeD [OF g] by blast
    show "\<exists>run. run_view db j = Some run \<and> rr_goal_id run = ts_goal_id spec" if "run_id = Some j" for j
      using run that by (auto simp: check_task_run_def run_view_def replayed_run_of_def split: option.splits if_splits)
    show "ts_task_id spec \<notin> set (task_ids db)" using fresh by (simp add: task_ids_def)
    show "task_view db' = (task_view db)(ts_task_id spec \<mapsto> \<lparr>rt_task_id = ts_task_id spec, rt_goal_id = ts_goal_id spec,
       rt_run_id = run_id, rt_project_id = e_project_id ev, rt_state = TS_READY, rt_spec = JObj (task_to_dict spec),
       rt_version = 1, rt_created_at = e_recorded_at ev, rt_updated_at = e_recorded_at ev\<rparr>)"
      using fetch_key_snoc [of t_task_id, OF fresh] by (simp add: fun_eq_iff task_view_def db' e a(3) replayed_task_of_def)
  qed (simp_all add: e db' assms(2) run_view_def task_ids_def fun_eq_iff)
qed

lemma goal_spec_wf: "canonical_goal_spec raw = Inr spec \<Longrightarrow> wf_goal spec"
  by (auto simp: canonical_goal_spec_def bindr_eq_Inr except_map_eq_Inr dest: goal_from_dict_wf)

lemma task_spec_wf: "canonical_task_spec raw = Inr spec \<Longrightarrow> wf_task spec"
  by (auto simp: canonical_task_spec_def except_map_eq_Inr dest: task_from_dict_wf)

lemma no_spine:
  assumes "authority_rows db = ([], [], [], [])"
  shows "goal_authority_of env p g a db = Inr x \<Longrightarrow> x = None" "task_authority_of env k p t b db = Inr y \<Longrightarrow> y = None"
  using assms
  by (auto simp: authority_rows_def goal_authority_of_def task_authority_of_def persisted_authority_spine_def bindr_eq_Inr split: if_splits)

lemma non_blank_mem:
  assumes "c \<in> set s" "\<not> is_space c"
  shows "non_blank s"
proof -
  have "lstrip s \<noteq> []" using assms by (auto simp: lstrip_def dropWhile_eq_Nil_conv)
  with hd_lstrip [OF this] hd_in_set [OF this] show ?thesis
    by (auto simp: non_blank_def strip_def lstrip_def [of "rev _"] dropWhile_eq_Nil_conv)
qed

lemma non_blank_prefix: "list_ex (\<lambda>c. \<not> is_space c) p \<Longrightarrow> non_blank (p @ s)"
  by (auto simp: list_ex_iff intro: non_blank_mem)

lemma clean_non_blank: "s \<noteq> [] \<Longrightarrow> s = strip s \<Longrightarrow> non_blank s"
  by (simp add: non_blank_def)

lemma accept_evidence_transition:
  assumes "accept_evidence_work env k row e actor s key db = Inr (r, i, db')"
  shows "\<exists>ok tgt. evidence_target_state (t_state row) ok = Inr tgt \<and> transition_task_projection env k row tgt actor
    (''authoritative evidence accepted: '' @ e) key s [(''accepted_evidence_id'', JStr e)] db = Inr (r, i, db')"
  using assms by (auto simp: accept_evidence_work_def bindr_eq_Inr split: if_splits)

lemma delivery_transition:
  assumes "delivery_work env k row actor s key db = Inr (r, i, db')"
  shows "transition_task_projection env k row TS_DELIVERED actor
    ''persisted evidence, evaluator, integration and freshness satisfied'' key s [] db = Inr (r, i, db')"
  using assms by (auto simp: delivery_work_def bindr_eq_Inr split: if_splits)

lemma control_transition:
  assumes "control_work env k row a reason actor s key db = Inr (r, i, db')"
  shows "\<exists>tgt d. transition_task_projection env k row tgt actor (''control:'' @ a @ '': '' @ reason) key s [] db = Inr (r, i, d) \<and>
    db' = end_task_work env (t_task_id row) tgt d"
  using assms by (auto simp: control_work_def bindr_eq_Inr)

lemma end_task_core: "core_step sha d (end_task_work env i tgt d)"
  by (rule foreign_quiet) (simp_all add: end_task_work_def authority_rows_def task_view_def task_ids_def fun_eq_iff)

lemma task_works_core:
  assumes "fetch_one (\<lambda>t. t_task_id t = j) (tasks db) = Some row" "store_ok env db"
  shows "command_text e = Inr x \<Longrightarrow> accept_evidence_work env k row e actor s key db = Inr (r, i, db') \<Longrightarrow> core_step (sha256 env) db db'"
    and "delivery_work env k row actor s key db = Inr (r, i, db') \<Longrightarrow> core_step (sha256 env) db db'"
    and "control_work env k row a reason actor s key db = Inr (r, i, db') \<Longrightarrow> (core_step (sha256 env))\<^sup>*\<^sup>* db db'"
proof -
  note t = transition_task_core [OF _ assms]
  show "core_step (sha256 env) db db'"
    if "command_text e = Inr x" "accept_evidence_work env k row e actor s key db = Inr (r, i, db')"
  proof -
    from accept_evidence_transition [OF that(2)] obtain ok tgt where w: "evidence_target_state (t_state row) ok = Inr tgt"
      "transition_task_projection env k row tgt actor (''authoritative evidence accepted: '' @ e) key s
         [(''accepted_evidence_id'', JStr e)] db = Inr (r, i, db')" by blast
    have "non_blank e" using that(1) by (auto simp: command_text_def non_blank_def split: if_splits)
    with w(1) have ex: "change_extra (t_state row) tgt [(''accepted_evidence_id'', JStr e)]"
      by (auto simp: change_extra_def evidence_target_state_def split: if_splits)
    show ?thesis by (rule t [OF w(2) non_blank_prefix ex]) (simp add: is_space_def)
  qed
  show "core_step (sha256 env) db db'" if "delivery_work env k row actor s key db = Inr (r, i, db')"
    by (rule t [OF delivery_transition [OF that]]) (simp_all add: change_extra_def non_blank_mem [of "CHR ''p''"] is_space_def)
  show "(core_step (sha256 env))\<^sup>*\<^sup>* db db'" if "control_work env k row a reason actor s key db = Inr (r, i, db')"
  proof -
    from control_transition [OF that] obtain tgt d where w: "db' = end_task_work env (t_task_id row) tgt d"
      "transition_task_projection env k row tgt actor (''control:'' @ a @ '': '' @ reason) key s [] db = Inr (r, i, d)" by blast
    have "core_step (sha256 env) db d"
      by (rule t [OF w(2) non_blank_prefix]) (simp_all add: change_extra_def is_space_def)
    with end_task_core [of "sha256 env" d env "t_task_id row" tgt] show ?thesis
      by (simp add: w(1) r_into_rtranclp rtranclp.rtrancl_into_rtrancl)
  qed
qed

text \<open>The commands of the kernel.\<close>

lemma run_kernel_core:
  assumes "run_kernel env k c db = Inr (r, k', db')" "core_ok db" "domain_ok (domain env)"
  shows "(core_step (sha256 env))\<^sup>*\<^sup>* db db'"
proof -
  note ok = core_store_ok [OF assms(2, 3)]
  have au: "authority_rows db = ([], [], [], [])" using assms(2) by (simp add: core_ok_def)
  have two: "(core_step (sha256 env))\<^sup>*\<^sup>* db db2" if "core_step (sha256 env) db db1" "save_idempotent_result env ik d r i db1 = Inr db2"
    for db1 db2 ik d r i
    using that(1) save_core [OF that(2), of "sha256 env"] by (meson r_into_rtranclp rtranclp.rtrancl_into_rtrancl)
  show ?thesis
  proof (cases c)
    case (Create_Goal p g s key a)
    with assms(1) have "create_goal env k p g s key a db = Inr (r, k', db')" by simp
    from create_goal_Inr [OF this] obtain actor spec authority where spec: "canonical_goal_spec g = Inr spec"
      and a: "goal_authority_of env p spec a db = Inr authority"
      and w: "db' = db \<or> (\<exists>i db1 db2 ik d. create_goal_work env k p spec actor s key db = Inr (r, i, db1) \<and>
         save_idempotent_result env ik d r i db1 = Inr db2 \<and>
         (case authority of None \<Rightarrow> db' = db2 | Some a \<Rightarrow> bind_goal_authority env k p actor (gs_goal_id spec) a db2 = Inr db'))"
      by blast
    from no_spine(1) [OF au a] w show ?thesis
      by (auto intro: two dest!: create_goal_core [OF _ goal_spec_wf [OF spec] ok])
  next
    case (Create_Run p g i s key)
    with assms(1) have "create_run env k p g i s key db = Inr (r, k', db')" by simp
    from create_run_Inr [OF this] show ?thesis by (auto intro: two dest!: create_run_core [OF _ ok])
  next
    case (Add_Task p t s key i a)
    with assms(1) have "add_task env k p t s key i a db = Inr (r, k', db')" by simp
    from add_task_Inr [OF this] obtain actor spec authority where spec: "canonical_task_spec t = Inr spec"
      and a: "task_authority_of env k p spec a db = Inr authority"
      and w: "db' = db \<or> (\<exists>j db1 db2 ik d. add_task_work env k p spec i (task_to_dict spec @ [(''run_id'', jopt i)])
           actor s key db = Inr (r, j, db1) \<and>
         save_idempotent_result env ik d r j db1 = Inr db2 \<and>
         (case authority of None \<Rightarrow> db' = db2 | Some a \<Rightarrow> bind_task_authority env k p actor i spec a db2 = Inr db'))"
      by blast
    from no_spine(2) [OF au a] w show ?thesis
      by (auto intro: two dest!: add_task_core [OF _ task_spec_wf [OF spec] ok])
  next
    case (Advance i e s key gs payload cause)
    with assms(1) have "advance_loop env k i e s key gs payload cause db = Inr (r, k', db')" by simp
    from advance_loop_Inr [OF this] show ?thesis by (auto intro: two dest!: advance_core [OF _ _ ok])
  next
    case (Accept_Evidence t s key e)
    with assms(1) have a: "accept_task_evidence env k t s key e db = Inr (r, k', db')" by simp
    then obtain x where "command_text e = Inr x" by (auto simp: accept_task_evidence_def bindr_eq_Inr)
    with accept_evidence_Inr [OF a] show ?thesis by (auto intro: two dest!: task_works_core(1) [OF _ ok])
  next
    case (Confirm_Delivery t s key)
    with assms(1) have "confirm_task_delivery env k t s key db = Inr (r, k', db')" by simp
    from confirm_delivery_Inr [OF this] show ?thesis by (auto intro: two dest: task_works_core(2) [OF _ ok, rotated])
  next
    case (Control t a reason s key)
    with assms(1) have "control_task env k t a reason s key db = Inr (r, k', db')" by simp
    from control_task_Inr [OF this] show ?thesis
      by (auto dest: task_works_core(3) [OF _ ok, rotated] save_core [where sha = "sha256 env"] intro: rtranclp.rtrancl_into_rtrancl)
  qed
qed

text \<open>The commands of the scheduler.\<close>

lemma task_transition_appended:
  assumes "task_transition env sc row tgt actor reason s db = Inr (row', db')"
  shows "tgt \<in> set (TASK_TRANSITIONS (t_state row)) \<and> row' = row\<lparr>t_state := tgt, t_version := t_version row + 1\<rparr> \<and>
    (\<exists>c ev. appended env c db ev \<and> c_occurred_at c = None \<and> c_aggregate_type c = ''task'' \<and> c_aggregate_id c = t_task_id row \<and>
       c_event_type c = ''task_state_changed'' \<and> c_expected_version c = t_version row \<and>
       c_payload c = [(''from'', JStr (task_state_value (t_state row))), (''target'', JStr (task_state_value tgt)), (''reason'', JStr reason)] \<and>
       db' = db\<lparr>events := events db @ [ev], uuid_next := Suc (Suc (uuid_next db)),
         tasks := update_where (\<lambda>t. t_task_id t = t_task_id row)
                 (\<lambda>t. t\<lparr>t_state := tgt, t_version := t_version row + 1, t_updated_at := now env\<rparr>) (tasks db)\<rparr>)"
  using assms
  by (fastforce simp: task_transition_def bindr_eq_Inr Let_def prod.case_eq_if event_defaults_def dest!: append_after_draw)

text \<open>What the scheduler knows of the row it is working on: the columns that replay computes, apart
  from the time of the last update.\<close>

definition current_row :: "task_row \<Rightarrow> db \<Rightarrow> bool" where
  "current_row row db \<longleftrightarrow> (\<exists>u. task_view db (t_task_id row) = Some (replayed_task_of (row\<lparr>t_updated_at := u\<rparr>)))"

lemma current_fetched: "fetch_one (\<lambda>t. t_task_id t = i) (tasks db) = Some row \<Longrightarrow> current_row row db"
  unfolding current_row_def by (rule exI [of _ "t_updated_at row"]) (auto dest: task_view_fetch)

text \<open>A run of core steps that changes no other Task than the given one.\<close>

definition steps_on :: "(string \<Rightarrow> string) \<Rightarrow> string \<Rightarrow> db \<Rightarrow> db \<Rightarrow> bool" where
  "steps_on sha i db db' \<longleftrightarrow> (core_step sha)\<^sup>*\<^sup>* db db' \<and> (\<forall>j. j \<noteq> i \<longrightarrow> task_view db' j = task_view db j)"

lemma steps_on_refl [simp]: "steps_on sha i db db"
  by (simp add: steps_on_def)

lemma steps_on_trans [trans]: "steps_on sha i a b \<Longrightarrow> steps_on sha i b c \<Longrightarrow> steps_on sha i a c"
  by (auto simp: steps_on_def)

lemma steps_on_ok: "steps_on sha i db db' \<Longrightarrow> core_ok db \<Longrightarrow> core_ok db'"
  by (auto simp: steps_on_def intro: core_steps_ok)

lemma steps_on_quiet:
  assumes "goals db' = goals db" "runs db' = runs db" "task_view db' = task_view db" "task_ids db' = task_ids db"
    and "authority_rows db' = authority_rows db" "events db' = events db" "sessions db' = sessions db"
  shows "steps_on sha i db db'"
  using foreign_quiet [OF assms] assms(3) by (auto simp: steps_on_def)

lemma task_transition_core:
  assumes "task_transition env sc row tgt actor reason s db = Inr (row', db')" "current_row row db" "core_ok db"
    and "domain_ok (domain env)" "non_blank reason"
  shows "steps_on (sha256 env) (t_task_id row) db db' \<and> current_row row' db' \<and> t_task_id row' = t_task_id row"
proof -
  from assms(2) obtain u where u: "task_view db (t_task_id row) = Some (replayed_task_of (row\<lparr>t_updated_at := u\<rparr>))"
    by (auto simp: current_row_def)
  from task_transition_appended [OF assms(1)] obtain c ev where c: "tgt \<in> set (TASK_TRANSITIONS (t_state row))"
      "row' = row\<lparr>t_state := tgt, t_version := t_version row + 1\<rparr>" "appended env c db ev" "c_occurred_at c = None"
      "c_aggregate_type c = ''task''" "c_aggregate_id c = t_task_id row" "c_event_type c = ''task_state_changed''"
      "c_expected_version c = t_version row"
      "c_payload c = [(''from'', JStr (task_state_value (t_state row))), (''target'', JStr (task_state_value tgt)), (''reason'', JStr reason)]"
      "db' = db\<lparr>events := events db @ [ev], uuid_next := Suc (Suc (uuid_next db)),
         tasks := update_where (\<lambda>t. t_task_id t = t_task_id row)
                 (\<lambda>t. t\<lparr>t_state := tgt, t_version := t_version row + 1, t_updated_at := now env\<rparr>) (tasks db)\<rparr>"
    by blast
  note step = task_changed_step [where row = "row\<lparr>t_updated_at := u\<rparr>" and extra = "[]", OF c(3) core_store_ok [OF assms(3, 4)] c(4, 5)]
  have "core_step (sha256 env) db db'"
    by (rule step(1)) (use c u assms(5) in \<open>simp_all add: change_extra_def\<close>)
  moreover have "task_view db' = (task_view db)(t_task_id row \<mapsto> replayed_task_of
      (row\<lparr>t_state := tgt, t_version := t_version row + 1, t_updated_at := now env\<rparr>))"
  proof -
    have "task_view db' = (task_view db)(t_task_id (row\<lparr>t_updated_at := u\<rparr>) \<mapsto> replayed_task_of
      ((row\<lparr>t_updated_at := u\<rparr>)\<lparr>t_state := tgt, t_version := t_version (row\<lparr>t_updated_at := u\<rparr>) + 1, t_updated_at := now env\<rparr>))"
      by (rule step(2)) (use c u assms(5) in \<open>simp_all add: change_extra_def\<close>)
    then show ?thesis by simp
  qed
  ultimately show ?thesis
    unfolding steps_on_def current_row_def c(2) by (auto intro!: exI [of _ "now env"])
qed

lemma record_negative_rest:
  assumes "record_negative env row f c s r db = Inr (i, db')"
  shows "goals db' = goals db \<and> authority_rows db' = authority_rows db \<and> sessions db' = sessions db"
  using assms
  by (cases "fetch_one (\<lambda>n. n_project_id n = t_project_id row \<and> n_task_id n = t_task_id row \<and> n_fingerprint n = f) (negative_results db)")
    (auto simp: record_negative_def draw_uuid_def Let_def bindr_eq_Inr authority_rows_def)

lemma record_negative_core:
  assumes "record_negative env row f c s r db = Inr (i, db')"
  shows "steps_on sha j db db'" "task_view db' = task_view db"
proof -
  note f = record_negative_frame [OF assms] record_negative_rest [OF assms]
  show v: "task_view db' = task_view db" by (rule view_same(2)) (use f in simp)
  have "task_ids db' = task_ids db" by (rule view_same(3)) (use f in simp)
  then show "steps_on sha j db db'" using f v by (intro steps_on_quiet) simp_all
qed

lemma current_row_view: "task_view db' = task_view db \<Longrightarrow> current_row row db' \<longleftrightarrow> current_row row db"
  by (simp add: current_row_def)

lemma current_row_task: "current_row row db \<Longrightarrow> t_task_id row = t_task_id row' \<Longrightarrow> t_state row = t_state row' \<Longrightarrow>
    t_version row = t_version row' \<Longrightarrow> t_goal_id row = t_goal_id row' \<Longrightarrow> t_run_id row = t_run_id row' \<Longrightarrow>
    t_project_id row = t_project_id row' \<Longrightarrow> t_spec row = t_spec row' \<Longrightarrow> t_created_at row = t_created_at row' \<Longrightarrow> current_row row' db"
  by (simp add: current_row_def replayed_task_of_def)

text \<open>Operational columns are no part of the view.\<close>

lemma operational_view:
  assumes "\<And>t. replayed_task_of (f t) = replayed_task_of t" "tasks db' = update_where P f (tasks db)"
  shows "task_view db' = task_view db" "task_ids db' = task_ids db"
proof -
  have id: "t_task_id (f t) = t_task_id t" for t
    using assms(1) [of t] by (simp add: replayed_task_of_def)
  have "map_option replayed_task_of (map_option (\<lambda>t. if P t then f t else t) m) = map_option replayed_task_of m" for m
    using assms(1) by (cases m) auto
  then show "task_view db' = task_view db"
    by (simp add: fun_eq_iff task_view_def assms(2) fetch_one_update_frame id)
  show "task_ids db' = task_ids db" by (simp add: task_ids_def assms(2) map_update_where id)
qed

lemma set_task_failure_core: "steps_on sha i db (set_task_failure j d f db)"
proof -
  let ?f = "\<lambda>t. t\<lparr>t_due_at := d, t_last_error := Some f\<rparr> :: task_row"
  have "task_view (set_task_failure j d f db) = task_view db" "task_ids (set_task_failure j d f db) = task_ids db"
    by (rule operational_view [where f = ?f and P = "\<lambda>t. t_task_id t = j"];
        simp add: replayed_task_of_def set_task_failure_def)+
  then show ?thesis by (intro steps_on_quiet) (simp_all add: set_task_failure_def authority_rows_def)
qed

lemma attempts_core: "steps_on sha i db (db\<lparr>attempts := as\<rparr>)"
  by (rule steps_on_quiet) (simp_all add: authority_rows_def task_view_def task_ids_def fun_eq_iff)

lemma leases_core: "steps_on sha i db (db\<lparr>leases := ls\<rparr>)"
  by (rule steps_on_quiet) (simp_all add: authority_rows_def task_view_def task_ids_def fun_eq_iff)

lemma draw_core: "steps_on sha i db (db\<lparr>uuid_next := n\<rparr>)"
  by (rule steps_on_quiet) (simp_all add: authority_rows_def task_view_def task_ids_def fun_eq_iff)

lemma release_claim_core: "steps_on sha i db (release_claim env c db)"
  by (simp add: release_claim_def leases_core)

lemmas quiet_core = set_task_failure_core attempts_core leases_core draw_core release_claim_core

lemma due_tasks_sub: "set (due_tasks env p s db) \<subseteq> set (tasks db)" "distinct (map t_task_id (tasks db)) \<Longrightarrow> distinct (map t_task_id (due_tasks env p s db))"
  unfolding due_tasks_def by (auto intro: distinct_map_filter)

lemma sql_limit_sub: "set (sql_limit n xs) \<subseteq> set xs" "distinct (map k xs) \<Longrightarrow> distinct (map k (sql_limit n xs))"
  by (auto simp: sql_limit_def take_map [symmetric] dest: in_set_takeD)

lemma distinct_sorted: "distinct (map k xs) \<Longrightarrow> distinct (map k (sort_key f xs))"
  by (simp add: distinct_map)

text \<open>A loop over rows with different identifiers finds each of them as it was read.\<close>

lemma loop_core:
  assumes "foldm f rows db = Inr db'" "distinct (map t_task_id rows)" "\<forall>row \<in> set rows. current_row row db" "core_ok db"
    and "\<And>row d d'. row \<in> set rows \<Longrightarrow> f row d = Inr d' \<Longrightarrow> current_row row d \<Longrightarrow> core_ok d \<Longrightarrow> steps_on sha (t_task_id row) d d'"
  shows "(core_step sha)\<^sup>*\<^sup>* db db'"
  using assms
proof (induction rows arbitrary: db)
  case (Cons row rows)
  from Cons.prems(1) obtain d where d: "f row db = Inr d" "foldm f rows d = Inr db'" by (auto simp: bindr_eq_Inr)
  have s: "steps_on sha (t_task_id row) db d" using Cons.prems(5) [OF _ d(1)] Cons.prems(3, 4) by simp
  have "current_row x d" if "x \<in> set rows" for x
  proof -
    have "t_task_id x \<noteq> t_task_id row" using Cons.prems(2) that by (auto simp: image_iff)
    with s that Cons.prems(3) show ?thesis by (simp add: steps_on_def current_row_def)
  qed
  then have "(core_step sha)\<^sup>*\<^sup>* d db'"
    using Cons.IH [OF d(2)] Cons.prems(2, 5) steps_on_ok [OF s Cons.prems(4)] by simp
  with s show ?case by (auto simp: steps_on_def intro: rtranclp_trans)
qed simp

lemma member_current: "core_ok db \<Longrightarrow> t \<in> set (tasks db) \<Longrightarrow> current_row t db"
  by (auto simp: core_ok_def current_row_def intro!: exI [of _ "t_updated_at t"] dest: task_view_member)

text \<open>A state on the way of an operation: reached by core steps, with the row as it is remembered.\<close>

definition at_row :: "(string \<Rightarrow> string) \<Rightarrow> db \<Rightarrow> string \<Rightarrow> task_row \<Rightarrow> db \<Rightarrow> bool" where
  "at_row sha db i row d \<longleftrightarrow> steps_on sha i db d \<and> current_row row d \<and> core_ok d \<and> t_task_id row = i"

lemma at_row_steps: "at_row sha db i row d \<Longrightarrow> steps_on sha i db d"
  by (simp add: at_row_def)

lemma at_row_start: "current_row row db \<Longrightarrow> core_ok db \<Longrightarrow> at_row sha db (t_task_id row) row db"
  by (simp add: at_row_def)

lemma at_row_quiet:
  assumes "at_row sha db i row d" "steps_on sha i d d'" "task_view d' = task_view d"
  shows "at_row sha db i row d'"
  using assms(1) steps_on_trans [OF at_row_steps [OF assms(1)] assms(2)] steps_on_ok [OF assms(2)]
  by (simp add: at_row_def current_row_view [OF assms(3)])

lemma at_row_transition:
  assumes "task_transition env sc row tgt actor reason s d = Inr (row', d')" "at_row (sha256 env) db i row d"
    and "domain_ok (domain env)" "non_blank reason"
  shows "at_row (sha256 env) db i row' d'"
proof -
  from assms(2) have a: "steps_on (sha256 env) i db d" "current_row row d" "core_ok d" "t_task_id row = i"
    by (simp_all add: at_row_def)
  from task_transition_core [OF assms(1) a(2, 3) assms(3, 4)] a(4)
  have s: "steps_on (sha256 env) i d d'" "current_row row' d'" "t_task_id row' = i" by simp_all
  show ?thesis using steps_on_trans [OF a(1) s(1)] s(2, 3) steps_on_ok [OF s(1) a(3)] by (simp add: at_row_def)
qed

lemma at_row_negative:
  assumes "record_negative env row0 f c s r d = Inr (x, d')" "at_row sha db i row d"
  shows "at_row sha db i row d'"
  by (rule at_row_quiet [OF assms(2)]) (rule record_negative_core [OF assms(1)])+

lemma non_blank_text:
  "non_blank (''scheduler claim fence '' @ x)" "non_blank (''attempt '' @ x)" "non_blank ''retry backoff elapsed''"
  "non_blank ''bounded retry scheduled''" "non_blank ''worker lease expired''" "non_blank ''worker lease expired before start''"
  "non_blank ''attempt limit exhausted''"
  by (simp_all add: non_blank_prefix [where s = "[]", simplified] is_space_def del: append.simps
      add: non_blank_prefix)

lemma fetch_current: "fetch_task i db = Inr row \<Longrightarrow> core_ok db \<Longrightarrow> at_row sha db i row db"
  by (auto simp: fetch_task_def at_row_def intro: current_fetched dest: fetch_one_SomeD)

lemma claim_task_core:
  assumes "claim_task env sc p wid w ttl sel run n db = Inr (cl, db')" "current_row sel db" "core_ok db" "domain_ok (domain env)"
  shows "steps_on (sha256 env) (t_task_id sel) db db'"
proof -
  let ?sha = "sha256 env"
  let ?i = "t_task_id sel"
  let ?d = "\<lambda>ls as. db\<lparr>leases := ls, uuid_next := Suc (uuid_next db), attempts := as\<rparr>"
  from assms(1) obtain ls as row' d where t: "task_transition env sc sel TS_LEASED wid (''scheduler claim fence '' @ show_int n) w (?d ls as) = Inr (row', d)"
    and db': "db' = d\<lparr>tasks := update_where (\<lambda>t. t_task_id t = t_task_id row')
             (\<lambda>t. t\<lparr>t_attempt_count := t_attempt_count sel + 1, t_due_at := None\<rparr>) (tasks d)\<rparr>"
    by (auto simp: claim_task_def draw_uuid_def Let_def bindr_eq_Inr)
  have q: "steps_on ?sha ?i db (?d ls as)"
    by (rule steps_on_quiet) (simp_all add: authority_rows_def task_view_def task_ids_def fun_eq_iff)
  have "at_row ?sha db ?i sel (?d ls as)"
    by (rule at_row_quiet [OF at_row_start [OF assms(2, 3)] q]) (simp add: task_view_def fun_eq_iff)
  from at_row_transition [OF t this assms(4) non_blank_text(1)] have a: "at_row ?sha db ?i row' d" .
  let ?f = "\<lambda>t. t\<lparr>t_attempt_count := t_attempt_count sel + 1, t_due_at := None\<rparr> :: task_row"
  have "task_view db' = task_view d" "task_ids db' = task_ids d"
    by (rule operational_view [where f = ?f and P = "\<lambda>t. t_task_id t = t_task_id row'"];
        simp add: replayed_task_of_def db')+
  then have "steps_on ?sha ?i d db'" by (intro steps_on_quiet) (simp_all add: db' authority_rows_def)
  with a show ?thesis by (auto simp: at_row_def intro: steps_on_trans)
qed

lemma start_claim_core:
  assumes "start_claim env sc c w db = Inr (u, db')" "core_ok db" "domain_ok (domain env)"
  shows "(core_step (sha256 env))\<^sup>*\<^sup>* db db'"
proof -
  from assms(1) obtain row row' d where f: "fetch_task (cl_task_id c) db = Inr row"
    and t: "task_transition env sc row TS_RUNNING (cl_worker_id c) (''attempt '' @ show_int (cl_attempt_number c) @ '' started'') w db = Inr (row', d)"
    and db': "\<exists>as. db' = d\<lparr>attempts := as\<rparr>"
    by (auto simp: start_claim_def bindr_eq_Inr)
  from at_row_transition [OF t fetch_current [OF f assms(2)] assms(3) non_blank_text(2)] db' show ?thesis
    using attempts_core by (auto simp: at_row_def steps_on_def intro: rtranclp_trans)
qed

lemma complete_claim_core:
  assumes "complete_claim env sc c w db = Inr (u, db')" "core_ok db" "domain_ok (domain env)"
  shows "(core_step (sha256 env))\<^sup>*\<^sup>* db db'"
proof -
  from assms(1) obtain row row' d where f: "fetch_task (cl_task_id c) db = Inr row"
    and t: "task_transition env sc row TS_EVIDENCE_PENDING (cl_worker_id c)
         (''attempt '' @ show_int (cl_attempt_number c) @ '' completed; evidence pending'') w db = Inr (row', d)"
    and db': "\<exists>as. db' = release_claim env c (d\<lparr>attempts := as\<rparr>)"
    by (auto simp: complete_claim_def bindr_eq_Inr Let_def)
  from at_row_transition [OF t fetch_current [OF f assms(2)] assms(3) non_blank_text(2)]
  have "steps_on (sha256 env) (cl_task_id c) db d" by (rule at_row_steps)
  with db' attempts_core release_claim_core have "steps_on (sha256 env) (cl_task_id c) db db'"
    by (blast intro: steps_on_trans)
  then show ?thesis by (simp add: steps_on_def)
qed

text \<open>Step by step through the operations that make several transitions.\<close>

lemma transition_seq:
  assumes "at_row (sha256 env) db i row d" "domain_ok (domain env)" "non_blank reason"
    and "\<And>r d'. at_row (sha256 env) db i r d' \<Longrightarrow> returns (f r d') Q"
  shows "returns (bindr (task_transition env sc row tgt actor reason s d) (\<lambda>(r, d). f r d)) Q"
  by (rule returns_bind) (auto intro: assms(4) at_row_transition [OF _ assms(1-3)])

lemma negative_seq:
  assumes "at_row sha db i row d" "\<And>x d'. at_row sha db i row d' \<Longrightarrow> returns (f x d') Q"
  shows "returns (bindr (record_negative env row0 n c s r d) (\<lambda>(x, d). f x d)) Q"
  by (rule returns_bind) (auto intro: assms(2) at_row_negative [OF _ assms(1)])

lemma finish_quiet:
  "at_row sha db i row d \<Longrightarrow> steps_on sha i db (set_task_failure j due fp d\<lparr>attempts := as\<rparr>)"
  "at_row sha db i row d \<Longrightarrow> steps_on sha i db (release_claim env c (set_task_failure j due fp d\<lparr>attempts := as\<rparr>))"
proof -
  assume a: "at_row sha db i row d"
  note s = steps_on_trans [OF steps_on_trans [OF at_row_steps [OF a] set_task_failure_core [of sha i d j due fp]] attempts_core]
  show "steps_on sha i db (set_task_failure j due fp d\<lparr>attempts := as\<rparr>)" by (rule s)
  show "steps_on sha i db (release_claim env c (set_task_failure j due fp d\<lparr>attempts := as\<rparr>))"
    by (rule steps_on_trans [OF s release_claim_core])
qed

lemma fail_claim_core:
  assumes "core_ok db" "domain_ok (domain env)" "non_blank f"
  shows "returns (fail_claim env sc c w f m sv rr db) (\<lambda>(u, db'). steps_on (sha256 env) (cl_task_id c) db db')"
proof -
  have retry: "returns (if b then Inr (r1, d, None)
            else bindr (task_transition env sc r1 TS_RETRY_PENDING i ''bounded retry scheduled'' w d) (\<lambda>(r2, d).
                   Inr (r2, d, Some e))) (\<lambda>(r, d, _). at_row (sha256 env) db j r d)"
    if "at_row (sha256 env) db j r1 d" for b r1 i d j and e :: int
    by (cases b) (simp_all add: that transition_seq [OF that assms(2) non_blank_text(4)])
  show ?thesis
    unfolding fail_claim_def Let_def
    apply (rule returns_skip, rule returns_bind, rule returns_skip)
    apply (rule negative_seq [OF fetch_current [OF _ assms(1)]], assumption)
    apply (rule transition_seq [OF _ assms(2, 3)], assumption)
    apply (rule returns_seq [OF retry], assumption)
    apply (auto intro: finish_quiet)
    done
qed

lemma reap_task_core:
  assumes "current_row row d" "core_ok d" "domain_ok (domain env)"
  shows "returns (reap_task env sc i a row d) (\<lambda>d'. steps_on (sha256 env) (t_task_id row) d d')"
proof -
  have exhaust: "returns (if b then bindr (task_transition env sc r1 TS_FAILED i ''attempt limit exhausted'' a d1) (\<lambda>(_, d). Inr (d, None))
            else Inr (d1, Some e)) (\<lambda>(d2, _). \<exists>r. at_row (sha256 env) d (t_task_id row) r d2)"
    if "at_row (sha256 env) d (t_task_id row) r1 d1" for b r1 d1 and e :: int
    using that by (cases b) (auto intro!: transition_seq [OF that assms(3) non_blank_text(7)])
  show ?thesis
    unfolding reap_task_def Let_def
    apply (rule returns_skip)
    apply (rule negative_seq [OF at_row_start [OF assms(1, 2)]])
    apply (rule transition_seq [OF _ assms(3)], assumption)
     apply (simp add: non_blank_text)
    apply (rule returns_seq [OF exhaust], assumption)
    apply (auto intro: finish_quiet)
    done
qed

lemma run_sched_core:
  assumes "run_sched env sc c db = Inr db'" "core_ok db" "domain_ok (domain env)"
    and "\<And>cl w f m sv rr. c = Fail cl w f m sv rr \<Longrightarrow> non_blank f"
  shows "(core_step (sha256 env))\<^sup>*\<^sup>* db db'"
proof -
  have ids: "distinct (map t_task_id (tasks db))" using assms(2) by (simp add: core_ok_def task_ids_def)
  show ?thesis
  proof (cases c)
    case (Promote p a n)
    let ?rows = "sql_limit n (sort_key (\<lambda>t. (t_due_at t, t_task_id t)) (due_tasks env p TS_RETRY_PENDING db))"
    from assms(1) Promote obtain i where loop: "foldm (\<lambda>row db. bindr (task_transition env sc row TS_READY i ''retry backoff elapsed'' a db)
        (\<lambda>(_, db). Inr db)) ?rows db = Inr db'" by (auto simp: promote_due_retries_def bindr_eq_Inr Let_def)
    show ?thesis
    proof (rule loop_core [OF loop])
      show "distinct (map t_task_id ?rows)" by (intro sql_limit_sub(2) distinct_sorted due_tasks_sub(2) ids)
      show "\<forall>row \<in> set ?rows. current_row row db"
        using sql_limit_sub(1) due_tasks_sub(1) member_current [OF assms(2)] by fastforce
    qed (auto simp: bindr_eq_Inr assms(2, 3) non_blank_text dest: task_transition_core)
  next
    case (Claim_Next p w ttl)
    with assms(1) obtain r where "claim_next env sc p w ttl db = Inr (r, db')" by (auto simp: bindr_eq_Inr)
    from claim_next_cases [OF this] consider "db' = db" | cl sel run wid fence where "sel \<in> set (due_tasks env p TS_READY db)"
        "claim_task env sc p wid w ttl sel run fence db = Inr (cl, db')" by blast
    then show ?thesis
    proof cases
      case 2
      then have "current_row sel db" using due_tasks_sub(1) member_current [OF assms(2)] by blast
      from claim_task_core [OF 2(2) this assms(2, 3)] show ?thesis by (simp add: steps_on_def)
    qed simp
  next
    case (Reap p a n)
    let ?rows = "sql_limit n (sort_key t_updated_at (expired_claims env p db))"
    from assms(1) Reap obtain i where loop: "foldm (reap_task env sc i a) ?rows db = Inr db'"
      by (auto simp: reap_expired_def bindr_eq_Inr Let_def)
    show ?thesis
    proof (rule loop_core [OF loop])
      show "distinct (map t_task_id ?rows)"
        by (intro sql_limit_sub(2) distinct_sorted) (simp add: expired_claims_def distinct_map_filter ids)
      have "set (expired_claims env p db) \<subseteq> set (tasks db)" by (auto simp: expired_claims_def)
      then show "\<forall>row \<in> set ?rows. current_row row db"
        using sql_limit_sub(1) member_current [OF assms(2)] by fastforce
    qed (auto simp: assms(2) intro: returnsD [OF reap_task_core [OF _ _ assms(3)]])
  next
    case (Fail cl w f m sv rr)
    with assms show ?thesis by (auto simp: bindr_eq_Inr steps_on_def dest!: returnsD [OF fail_claim_core])
  qed (use assms in \<open>auto simp: bindr_eq_Inr intro: start_claim_core complete_claim_core\<close>)
qed

section \<open>The contract of the core services\<close>

locale core_service =
  fixes exec :: "env \<Rightarrow> 'c \<Rightarrow> db \<Rightarrow> db \<Rightarrow> bool"
    and sane :: "'c \<Rightarrow> bool"
  assumes core: "exec env c db db' \<Longrightarrow> sane c \<Longrightarrow> core_ok db \<Longrightarrow> domain_ok (domain env) \<Longrightarrow> (core_step (sha256 env))\<^sup>*\<^sup>* db db'"
begin

lemma exec_replayable:
  "exec env c db db' \<Longrightarrow> sane c \<Longrightarrow> domain_ok (domain env) \<Longrightarrow> replayable (sha256 env) db \<Longrightarrow> replayable (sha256 env) db'"
  using core core_steps_replayable replayable_def by blast

end

definition stated_failure :: "sched_cmd \<Rightarrow> bool" where
  "stated_failure c \<longleftrightarrow> (case c of Fail _ _ f _ _ _ \<Rightarrow> non_blank f | _ \<Rightarrow> True)"

interpretation kernel_core: core_service "\<lambda>env c db db'. \<exists>k r k'. run_kernel env k c db = Inr (r, k', db')" "\<lambda>_. True"
  by unfold_locales (auto intro: run_kernel_core)

interpretation sched_core: core_service "\<lambda>env c db db'. \<exists>sc. run_sched env sc c db = Inr db'" stated_failure
  by unfold_locales (auto simp: stated_failure_def intro: run_sched_core)

text \<open>A life of the runtime: commands of the kernel and of the scheduler, under any kernel and
  scheduler objects, clocks and sessions, interleaved with steps of all other services.\<close>

inductive runtime :: "(string \<Rightarrow> string) \<Rightarrow> db \<Rightarrow> db \<Rightarrow> bool" for sha where
  runtime_start: "runtime sha db db"
| runtime_kernel: "runtime sha db d \<Longrightarrow> run_kernel env k c d = Inr (r, k', d') \<Longrightarrow> sha256 env = sha \<Longrightarrow>
     domain_ok (domain env) \<Longrightarrow> runtime sha db d'"
| runtime_scheduler: "runtime sha db d \<Longrightarrow> run_sched env sc cmd d = Inr d' \<Longrightarrow> stated_failure cmd \<Longrightarrow> sha256 env = sha \<Longrightarrow>
     domain_ok (domain env) \<Longrightarrow> runtime sha db d'"
| runtime_other: "runtime sha db d \<Longrightarrow> foreign sha d d' \<Longrightarrow> runtime sha db d'"

text \<open>A store before its first Goal.\<close>

definition fresh_store :: "(string \<Rightarrow> string) \<Rightarrow> db \<Rightarrow> bool" where
  "fresh_store sha db \<longleftrightarrow> core_ok db \<and> verified sha db \<and> goals db = [] \<and> runs db = [] \<and> tasks db = [] \<and>
     (\<forall>e \<in> set (events db). e_aggregate_type e \<notin> set REPLAYED_AGGREGATES)"

lemma fresh_replayable:
  assumes "fresh_store sha db"
  shows "replayable sha db"
proof -
  have "current_version ty i (events db) = 0" if "ty \<in> set REPLAYED_AGGREGATES" for ty i
  proof -
    have "aggregate_events ty i (events db) = []"
      using assms that by (auto simp: fresh_store_def aggregate_events_def filter_empty_conv)
    then show ?thesis by (simp add: current_version_def)
  qed
  then show ?thesis
    using assms by (auto simp: fresh_store_def replayable_def replay_events_def replay_foreign follows_def no_projections_def
        goal_view_def run_view_def task_view_def fun_eq_iff)
qed

lemma runtime_replayable: "runtime sha db0 db \<Longrightarrow> replayable sha db0 \<Longrightarrow> replayable sha db"
proof (induction rule: runtime.induct)
  case (runtime_kernel db d env k c r k' d')
  then show ?case using kernel_core.exec_replayable [of env c d d'] by auto
next
  case (runtime_scheduler db d env sc cmd d')
  then show ?case using sched_core.exec_replayable [of env cmd d d'] by auto
next
  case (runtime_other db d d')
  then show ?case using core_step_replayable [OF others] by blast
qed

section \<open>Verification finds no difference\<close>

lemma map_of_rows: "map_of (map (\<lambda>r. (k r, col r)) rows) i = map_option col (fetch_one (\<lambda>r. k r = i) rows)"
  by (induction rows) auto

lemma map_of_values: "map_of (map (\<lambda>(i, v). (i, f v)) xs) i = map_option f (map_of xs i)"
  by (induction xs) auto

lemma verify_table_Inr:
  assumes "distinct (map fst expected)"
  shows "verify_table actual expected = Inr () \<longleftrightarrow> map_of actual = map_of expected"
proof
  assume v: "verify_table actual expected = Inr ()"
  then have k: "fst ` set actual = fst ` set expected"
    and c: "\<And>i c. (i, c) \<in> set expected \<Longrightarrow> map_of actual i = Some c" by (auto simp: verify_table_def list_all_iff)
  show "map_of actual = map_of expected"
  proof
    fix i
    show "map_of actual i = map_of expected i"
    proof (cases "map_of expected i")
      case None
      then have "i \<notin> fst ` set actual" using k by (simp add: map_of_eq_None_iff)
      then have "map_of actual i = None" by (simp add: map_of_eq_None_iff)
      with None show ?thesis by simp
    next
      case (Some v)
      with c [OF map_of_SomeD [OF Some]] show ?thesis by simp
    qed
  qed
next
  assume m: "map_of actual = map_of expected"
  then have "fst ` set actual = fst ` set expected" by (metis dom_map_of_conv_image_fst)
  moreover have "map_of actual i = Some c" if "(i, c) \<in> set expected" for i c
    using that assms m by simp
  ultimately show "verify_table actual expected = Inr ()" by (auto simp: verify_table_def list_all_iff)
qed

definition dicts_ok :: "replay_result \<Rightarrow> bool" where
  "dicts_ok st \<longleftrightarrow> distinct (map fst (rs_goals st)) \<and> distinct (map fst (rs_runs st)) \<and> distinct (map fst (rs_tasks st))"

lemma authority_events_dicts:
  "dicts_ok st \<Longrightarrow> returns (apply_project_authority row st) dicts_ok"
  "dicts_ok st \<Longrightarrow> returns (apply_program_authority sha row st) dicts_ok"
  "dicts_ok st \<Longrightarrow> returns (apply_goal_authority sha row st) dicts_ok"
  "dicts_ok st \<Longrightarrow> returns (apply_task_authority sha row st) dicts_ok"
  unfolding apply_project_authority_def apply_program_authority_def apply_goal_authority_def apply_task_authority_def
  by (intro returns_steps; simp add: dicts_ok_def split: option.split json.split)+

lemma core_events_dicts:
  "dicts_ok st \<Longrightarrow> returns (apply_goal row st) dicts_ok"
  "dicts_ok st \<Longrightarrow> returns (apply_run row st) dicts_ok"
  "dicts_ok st \<Longrightarrow> returns (apply_task row st) dicts_ok"
  unfolding apply_goal_def apply_run_def start_run_def apply_task_def start_task_def
  by (auto simp: dicts_ok_def distinct_update returns_bindr split: option.split json.split sum.split intro!: returnsI)

lemma replay_event_dicts: "dicts_ok st \<Longrightarrow> returns (replay_event sha row st) dicts_ok"
  unfolding replay_event_def apply_event_def Let_def
  by (intro returns_if; simp?; intro authority_events_dicts core_events_dicts) (simp_all add: dicts_ok_def)

lemma no_projections_dicts: "dicts_ok no_projections"
  by (simp add: dicts_ok_def no_projections_def)

lemma replay_dicts: "replay_events sha rows = Inr st \<Longrightarrow> dicts_ok st"
  unfolding replay_events_def
  by (rule foldm_invariant [where P = dicts_ok]) (auto intro: returnsD [OF replay_event_dicts] no_projections_dicts)

section \<open>The ledger determines the tables\<close>

lemma run_table:
  "map_of (map (\<lambda>r. (r_run_id r, run_columns r)) (runs db)) i = map_option replayed_run_columns (run_view db i)"
  by (auto simp: map_of_rows run_view_def replayed_run_of_def run_columns_def replayed_run_columns_def option.map_comp
      intro!: map_option_cong)

lemma task_table:
  "map_of (map (\<lambda>t. (t_task_id t, task_columns t)) (tasks db)) i = map_option replayed_task_columns (task_view db i)"
  by (auto simp: map_of_rows task_view_def replayed_task_of_def task_columns_def replayed_task_columns_def option.map_comp
      intro!: map_option_cong)

lemma goal_table:
  "map_of (map (\<lambda>g. (g_goal_id g, goal_columns g)) (goals db)) i = map_option goal_columns (goal_view db i)"
  by (simp add: map_of_rows goal_view_def)

lemma fst_values: "map fst (map (\<lambda>(i, v). (i, f v)) xs) = map fst xs"
  by (induction xs) auto

lemma verify_table_values:
  "distinct (map fst xs) \<Longrightarrow>
   verify_table actual (map (\<lambda>(i, v). (i, f v)) xs) = Inr () \<longleftrightarrow> (\<forall>i. map_of actual i = map_option f (map_of xs i))"
  by (subst verify_table_Inr) (simp_all only: fst_values fun_eq_iff map_of_values)

text \<open>Verification of the core tables compares their columns with the replayed ones.\<close>

lemma verify_core_Inr:
  assumes "dicts_ok st"
  shows "verify_core_tables db st = Inr () \<longleftrightarrow>
    (\<forall>i. map_option goal_columns (goal_view db i) = map_option goal_columns (map_of (rs_goals st) i)) \<and>
    (\<forall>i. map_option replayed_run_columns (run_view db i) = map_option replayed_run_columns (map_of (rs_runs st) i)) \<and>
    (\<forall>i. map_option replayed_task_columns (task_view db i) = map_option replayed_task_columns (map_of (rs_tasks st) i))"
  using assms unfolding verify_core_tables_def dicts_ok_def
  by (simp add: bindr_eq_Inr verify_table_values goal_table run_table task_table)

lemma follows_core: "follows db st \<Longrightarrow> dicts_ok st \<Longrightarrow> verify_core_tables db st = Inr ()"
  by (simp add: verify_core_Inr follows_def)

lemma empty_authority_verifies:
  assumes "follows db st" "authority_rows db = ([], [], [], [])"
  shows "validate_authority_graph sha st = Inr ()" "verify_projects sha db st = Inr ()" "verify_programs sha db st = Inr ()"
    "verify_goal_bindings sha db st = Inr ()" "verify_task_bindings sha db st = Inr ()"
  using assms
  by (simp_all add: follows_def authority_rows_def validate_authority_graph_def verify_projects_def verify_programs_def
      verify_goal_bindings_def verify_task_bindings_def verify_table_def)

lemma replay_Inr:
  assumes "replayable (sha256 env) db"
  shows "\<exists>st. replay env db = Inr st \<and> follows db st \<and> dicts_ok st"
proof -
  obtain st where st: "replay_events (sha256 env) (events db) = Inr st" "follows db st" "core_ok db" "verified (sha256 env) db"
    using assms by (auto simp: replayable_def)
  then show ?thesis
    using replay_dicts [OF st(1)] empty_authority_verifies [OF st(2)]
    by (auto simp: replay_def core_ok_def verified_def verify_event_chain_def bindr_eq_Inr)
qed

lemma sample_create_goal:
  "\<exists>r db. create_goal (sample_env 5) sample_kernel ''p1'' sample_goal (Some (sample_session ''olga'')) ''k1'' None sample_db =
     Inr (r, sample_kernel, db) \<and> goals db = [sample_goal_row\<lparr>g_created_at := 5, g_updated_at := 5\<rparr>] \<and>
     runs db = [] \<and> tasks db = [] \<and> attempts db = [] \<and> negative_results db = [] \<and> sessions db = sessions sample_db \<and>
     principals db = principals sample_db \<and> principal_roles db = principal_roles sample_db"
proof -
  have a: "actor_id (sample_env 5) [OWNER] (Some (sample_session ''olga'')) sample_db = Inr ''olga''"
    by (simp add: actor_id_def identity_eval sample_eval Let_def cong: bind_eval)
  have none: "get_idempotent_result key d sample_db = Inr None" for key d
    by (simp add: get_idempotent_result_def sample_db_def empty_db_def)
  have gid: "gs_goal_id sample_goal = ''g1''" by (simp add: sample_goal_def)
  have g: "canonical_goal_spec sample_goal = Inr sample_goal" by code_simp
  have au: "goal_authority_of env ''p1'' sample_goal None sample_db = Inr None" for env
    by (simp add: goal_authority_of_def persisted_authority_spine_def sample_db_def empty_db_def)
  obtain r i db1 where w: "create_goal_work (sample_env 5) sample_kernel ''p1'' sample_goal ''olga'' (Some (sample_session ''olga'')) ''k1'' sample_db =
      Inr (r, i, db1)"
    and db1: "goals db1 = [sample_goal_row\<lparr>g_created_at := 5, g_updated_at := 5\<rparr>]" "idempotency_records db1 = []"
      "\<exists>e \<in> set (events db1). e_event_id e = i" "runs db1 = []" "tasks db1 = []" "attempts db1 = []" "negative_results db1 = []"
      "sessions db1 = sessions sample_db" "principals db1 = principals sample_db" "principal_roles db1 = principal_roles sample_db"
    by (simp add: create_goal_work_def draw_uuid_def core_event_def event_defaults_def sample_kernel_def sample_rows event_run
        CORE_AUTHORITY_VERSION_def sample_goal_row_def gid Let_def cong: bind_eval)
  have sv: "\<exists>db2. save_idempotent_result (sample_env 5) key d r i db1 = Inr db2 \<and> goals db2 = goals db1 \<and> runs db2 = runs db1 \<and>
      tasks db2 = tasks db1 \<and> attempts db2 = attempts db1 \<and> negative_results db2 = negative_results db1 \<and> sessions db2 = sessions db1 \<and>
      principals db2 = principals db1 \<and> principal_roles db2 = principal_roles db1" for key d
    using db1(2, 3) by (simp add: save_idempotent_result_def insert_row_def)
  show ?thesis
    using sv [of "(''p1'', ''goal.create'', ''k1'')" "content_hash toy_hash (JObj (goal_to_dict sample_goal))"] db1
    by (auto simp: create_goal_def a g au none w commit_once_def remember_goal_def)
qed

lemma sample_fresh: "fresh_store toy_hash sample_db"
  by (simp add: fresh_store_def core_ok_def verified_def task_ids_def authority_rows_def sample_db_def empty_db_def sample_session_row_def)

lemma replay_cong:
  "events db2 = events db \<Longrightarrow> sessions db2 = sessions db \<Longrightarrow> replay env db2 = replay env db"
  by (simp add: replay_def verify_event_chain_def)



lemma repaired_tables:
  assumes "repair env actor db2 = Inr (st, db')"
  shows "replay env db2 = Inr st" "verify_projections (sha256 env) db' st = Inr ()" "replay env db' = Inr st"
proof -
  show r: "replay env db2 = Inr st" "verify_projections (sha256 env) db' st = Inr ()"
    using assms by (auto simp: repair_def bindr_eq_Inr split: if_splits)
  have "events db' = events db2 \<and> sessions db' = sessions db2"
    using assms by (auto simp: repair_def bindr_eq_Inr repair_tables_def split: if_splits)
  then show "replay env db' = Inr st" using r(1) replay_cong [of db' db2] by simp
qed


lemma replayed_single:
  assumes "dicts_ok st" "map_of (rs_goals st) = [i \<mapsto> g]"
  shows "rs_goals st = [(i, g)]"
proof -
  have "set (rs_goals st) = {(i, g)}"
  proof (intro set_eqI iffI)
    fix x assume "x \<in> set (rs_goals st)"
    then have "map_of (rs_goals st) (fst x) = Some (snd x)" using assms(1) by (simp add: dicts_ok_def)
    then show "x \<in> {(i, g)}" using assms(2) by (cases x) (auto split: if_splits)
  next
    fix x assume "x \<in> {(i, g)}"
    then show "x \<in> set (rs_goals st)" using assms(2) map_of_SomeD [of "rs_goals st" i g] by simp
  qed
  moreover have "distinct (rs_goals st)" using assms(1) by (auto simp: dicts_ok_def distinct_map)
  ultimately show ?thesis
    by (cases "rs_goals st"; cases "tl (rs_goals st)") auto
qed

lemma sample_repairer: 
  assumes "sessions db = sessions sample_db" "principals db = principals sample_db" "principal_roles db = principal_roles sample_db"
  shows "\<exists>p. require_role (sample_env 9) SYSTEM (Some (sample_session ''sys'')) (db\<lparr>goals := gs\<rparr>) = Inr p"
  using assms by (simp add: identity_eval sample_eval Let_def cong: bind_eval)


section \<open>A failure without a class\<close>

lemma foldm_stuck: "x \<in> set xs \<Longrightarrow> (\<And>s. \<exists>e. f x s = Inl e) \<Longrightarrow> \<exists>e. foldm f xs s = Inl e"
proof (induction xs arbitrary: s)
  case (Cons y ys)
  show ?case
  proof (cases "f y s")
    case (Inr s')
    with Cons.prems(2) [of s] have "x \<in> set ys \<or> (\<exists>e. f x s = Inl e) \<and> y \<noteq> x" using Cons.prems(1) by auto
    then have "x \<in> set ys" using Cons.prems(1) by auto
    with Cons.IH [OF _ Cons.prems(2), of s'] Inr show ?thesis by simp
  qed simp
qed simp

lemma blank_reason_stuck:
  assumes "e_aggregate_type e = ''task''" "e_event_type e = ''task_state_changed''"
    and "map_of (e_payload e) ''reason'' = Some (JStr s)" "\<not> non_blank s"
  shows "\<exists>err. replay_event sha e st = Inl err"
  using assms
  by (auto simp: replay_event_def REPLAYED_AGGREGATES_def apply_event_def apply_task_def start_task_def valid_change_def
      Let_def split: option.split)

text \<open>The scheduler takes any \<open>failure_class\<close> as the reason of its transition, the replayer only a
  reason that is not blank.\<close>

lemma fail_claim_logs:
  "returns (fail_claim env sc c w f m sv rr db) (\<lambda>(u, db'). \<exists>e \<in> set (events db'). e_aggregate_type e = ''task'' \<and>
     e_event_type e = ''task_state_changed'' \<and> map_of (e_payload e) ''reason'' = Some (JStr f))"
  unfolding fail_claim_def Let_def
  by (intro returnsI)
    (fastforce simp: bindr_eq_Inr set_task_failure_def release_claim_def appended_def split: if_splits dest!: task_transition_appended)

lemma blank_failure_breaks_replay:
  assumes "fail_claim env sc c worker failure_class m sv rr db = Inr (out, db')" "\<not> non_blank failure_class"
  shows "\<exists>err. replay env db' = Inl err"
proof -
  obtain e where e: "e \<in> set (events db')" "e_aggregate_type e = ''task''" "e_event_type e = ''task_state_changed''"
      "map_of (e_payload e) ''reason'' = Some (JStr failure_class)"
    using returnsD [OF fail_claim_logs assms(1)] by auto
  from foldm_stuck [where f = "replay_event (sha256 env)", OF e(1) blank_reason_stuck [OF e(2-4) assms(2)]]
  obtain err where "replay_events (sha256 env) (events db') = Inl err" unfolding replay_events_def by blast
  then show ?thesis by (cases "verify_event_chain (sha256 env) db'") (auto simp: replay_def)
qed

end
