(* ===== verification/Fake_Provider.thy ===== *)
theory Fake_Provider
  imports Store
begin

text \<open>
  The boundary to side effects: the adapter protocol of \<open>adapters.py\<close> with its conformance
  harness, and \<open>fake_provider.py\<close>, the SQLite-backed double of an external idempotent service.

  An adapter is a record of its operations on a state of its own.  Its contract is the locale
  \<open>idempotent_adapter\<close>: which effect is durable under which key is a partial function of the
  state, a lookup reads it, an execution adds at most the effect of its own key and never changes
  another.  The fake provider is an interpretation.

  The table of the provider is a list of rows.  Its operations are modelled on the table that
  \<open>initialize\<close> leaves; the migration of a table without \<open>project_id\<close> is a function from the old
  rows.  \<open>str\<close> of a JSON container (a list or an object) is a parameter, it renders the string
  literals of Python.
\<close>

section \<open>The adapter protocol\<close>

record adapter_receipt =
  ad_adapter_id :: string
  ad_project_id :: string
  ad_idempotency_key :: string
  ad_effect_id :: string
  ad_request_digest :: string
  ad_provider_receipt :: "string option"
  ad_status :: string
  ad_closed :: bool
  ad_result :: json
  ad_replayed :: bool

text \<open>The arguments that identify an effect.\<close>

record effect_key =
  ek_project_id :: string
  ek_idempotency_key :: string
  ek_effect_id :: string
  ek_request_digest :: string

text \<open>\<open>WorkflowAdapter\<close>.  An execution that raises may still have changed the state of the service.\<close>

record 'p adapter =
  wa_adapter_id :: string
  wa_lookup :: "effect_key \<Rightarrow> 'p \<Rightarrow> adapter_receipt option res"
  wa_execute :: "env \<Rightarrow> effect_key \<Rightarrow> dict \<Rightarrow> 'p \<Rightarrow> adapter_receipt res \<times> 'p"

section \<open>The fake provider\<close>

record provider_effect =
  px_project_id :: string
  px_idempotency_key :: string
  px_effect_id :: string
  px_request_digest :: string
  px_request :: json
  px_provider_receipt :: string
  px_status :: string
  px_result :: json
  px_created_at :: int

record provider =
  pv_rows :: "provider_effect list"
  pv_uuid_next :: nat

definition ADAPTER_ID :: string where
  "ADAPTER_ID = ''fake-provider''"

definition LEGACY_PROJECT :: string where
  "LEGACY_PROJECT = ''__legacy__''"

text \<open>\<open>__init__\<close>: what a migration from keys to projects must look like.\<close>

definition valid_migrations :: "(string \<times> string) list \<Rightarrow> unit res" where
  "valid_migrations ms =
     ensure (list_all (\<lambda>(key, project). non_blank key \<and> non_blank project \<and> strip project \<noteq> LEGACY_PROJECT) ms)
       (IntegrityError ''legacy project migrations require non-empty idempotency keys and project ids'')"

text \<open>The keys of the table.\<close>

definition provider_clash :: "provider_effect \<Rightarrow> provider_effect \<Rightarrow> bool" where
  "provider_clash a b \<longleftrightarrow> px_provider_receipt a = px_provider_receipt b \<or>
     px_project_id a = px_project_id b \<and>
       (px_idempotency_key a = px_idempotency_key b \<or> px_effect_id a = px_effect_id b)"

text \<open>The table before \<open>initialize\<close>: absent, without the column \<open>project_id\<close>, or current.\<close>

datatype provider_table = Absent | Without_Project "provider_effect list" | Current "provider_effect list"

definition migrated_rows :: "provider_table \<Rightarrow> provider_effect list" where
  "migrated_rows t = (case t of
       Absent \<Rightarrow> []
     | Without_Project rows \<Rightarrow> map (\<lambda>r. r\<lparr>px_project_id := LEGACY_PROJECT\<rparr>) rows
     | Current rows \<Rightarrow> rows)"

definition migrate_key :: "string \<times> string \<Rightarrow> provider_effect list \<Rightarrow> provider_effect list res" where
  "migrate_key m rows = (case m of (key, project) \<Rightarrow>
     (let mine = (\<lambda>r. px_project_id r = LEGACY_PROJECT \<and> px_idempotency_key r = strip key);
          new = (\<lambda>r. r\<lparr>px_project_id := strip project\<rparr>) in
      if list_ex (\<lambda>r. mine r \<and> list_ex (\<lambda>s. \<not> mine s \<and> provider_clash (new r) s) rows) rows
      then Inl (SqliteIntegrityError ''UNIQUE constraint failed'')
      else Inr (update_where mine new rows)))"

definition initialize_provider :: "(string \<times> string) list \<Rightarrow> provider_table \<Rightarrow> provider_effect list res" where
  "initialize_provider ms t = foldm migrate_key ms (migrated_rows t)"

definition find_prior :: "string \<Rightarrow> string \<Rightarrow> provider \<Rightarrow> provider_effect option" where
  "find_prior project_id key p = fetch_one (\<lambda>r. px_project_id r = project_id \<and> px_idempotency_key r = key) (pv_rows p)"

definition provider_receipt :: "provider_effect \<Rightarrow> string \<Rightarrow> effect_key \<Rightarrow> bool \<Rightarrow> adapter_receipt res" where
  "provider_receipt row project_id k replayed =
     (if (px_project_id row, px_idempotency_key row, px_effect_id row, px_request_digest row) \<noteq>
         (project_id, ek_idempotency_key k, ek_effect_id k, ek_request_digest k)
      then Inl (IntegrityError ''fake-provider project/idempotency key reused with different effect'')
      else Inr \<lparr>ad_adapter_id = ADAPTER_ID, ad_project_id = project_id, ad_idempotency_key = ek_idempotency_key k,
             ad_effect_id = ek_effect_id k, ad_request_digest = ek_request_digest k,
             ad_provider_receipt = Some (px_provider_receipt row), ad_status = px_status row, ad_closed = True,
             ad_result = px_result row, ad_replayed = replayed\<rparr>)"

definition provider_project :: "string \<Rightarrow> string res" where
  "provider_project project_id = text_field (\<lambda>_. IntegrityError ''fake-provider project_id must be non-empty'') project_id"

text \<open>Python \<open>str\<close> of a JSON value.\<close>

fun py_str :: "(json \<Rightarrow> string) \<Rightarrow> json \<Rightarrow> string" where
  "py_str container (JStr s) = s"
| "py_str container (JInt i) = show_int i"
| "py_str container (JBool b) = (if b then ''True'' else ''False'')"
| "py_str container JNull = ''None''"
| "py_str container v = container v"

text \<open>The outcome of a request, a function of the request alone.\<close>

definition provider_outcome :: "(json \<Rightarrow> string) \<Rightarrow> (string \<Rightarrow> string) \<Rightarrow> string \<Rightarrow> dict \<Rightarrow> string \<times> dict" where
  "provider_outcome container sha effect_id request =
     (let operation = get_or ''operation'' (JStr ''write'') request in
      if operation = JStr ''fail''
      then (''failed'', [(''error_class'', JStr (py_str container (get_or ''error_class'' (JStr ''SyntheticFailure'') request))),
             (''message'', JStr (py_str container (get_or ''message'' (JStr ''deterministic fake-provider failure'') request)))])
      else (''succeeded'', [(''accepted'', JBool True), (''operation'', operation),
             (''output_digest'', JStr (content_hash sha (JObj [(''effect_id'', JStr effect_id), (''request'', JObj request)])))]))"

definition provider_row :: "(json \<Rightarrow> string) \<Rightarrow> env \<Rightarrow> string \<Rightarrow> effect_key \<Rightarrow> dict \<Rightarrow> provider \<Rightarrow> provider_effect" where
  "provider_row container env project_id k request p =
     (let (status, result) = provider_outcome container (sha256 env) (ek_effect_id k) request in
      \<lparr>px_project_id = project_id, px_idempotency_key = ek_idempotency_key k, px_effect_id = ek_effect_id k,
       px_request_digest = ek_request_digest k, px_request = JObj request,
       px_provider_receipt = ''fake-'' @ uuid4 env (pv_uuid_next p), px_status = status, px_result = JObj result,
       px_created_at = now env\<rparr>)"

definition execute_work ::
    "(json \<Rightarrow> string) \<Rightarrow> env \<Rightarrow> effect_key \<Rightarrow> dict \<Rightarrow> provider \<Rightarrow> (adapter_receipt \<times> provider) res" where
  "execute_work container env k request p =
     bindr (provider_project (ek_project_id k)) (\<lambda>project_id.
     if content_hash (sha256 env) (JObj request) \<noteq> ek_request_digest k
     then Inl (IntegrityError ''fake-provider request digest mismatch'')
     else
     (case find_prior project_id (ek_idempotency_key k) p of
        Some prior \<Rightarrow> bindr (provider_receipt prior project_id k True) (\<lambda>r. Inr (r, p))
      | None \<Rightarrow>
          let row = provider_row container env project_id k request p in
          bindr (insert_row provider_clash row (pv_rows p)) (\<lambda>rows.
          bindr (provider_receipt row project_id k False) (\<lambda>r.
            Inr (r, \<lparr>pv_rows = rows, pv_uuid_next = Suc (pv_uuid_next p)\<rparr>)))))"

text \<open>An execution is one transaction of the provider: an error leaves its table as it was.\<close>

definition fake_execute ::
    "(json \<Rightarrow> string) \<Rightarrow> env \<Rightarrow> effect_key \<Rightarrow> dict \<Rightarrow> provider \<Rightarrow> adapter_receipt res \<times> provider" where
  "fake_execute container env k request p =
     (case execute_work container env k request p of Inl e \<Rightarrow> (Inl e, p) | Inr (r, p') \<Rightarrow> (Inr r, p'))"

definition fake_lookup :: "effect_key \<Rightarrow> provider \<Rightarrow> adapter_receipt option res" where
  "fake_lookup k p =
     bindr (provider_project (ek_project_id k)) (\<lambda>project_id.
     (case find_prior project_id (ek_idempotency_key k) p of
        None \<Rightarrow> Inr None
      | Some prior \<Rightarrow> bindr (provider_receipt prior project_id k True) (\<lambda>r. Inr (Some r))))"

definition effect_count :: "string option \<Rightarrow> provider \<Rightarrow> nat" where
  "effect_count project p = length (case project of None \<Rightarrow> pv_rows p
     | Some i \<Rightarrow> filter (\<lambda>r. px_project_id r = i) (pv_rows p))"

definition fake_adapter :: "(json \<Rightarrow> string) \<Rightarrow> provider adapter" where
  "fake_adapter container = \<lparr>wa_adapter_id = ADAPTER_ID, wa_lookup = fake_lookup, wa_execute = fake_execute container\<rparr>"

section \<open>The contract of an adapter\<close>

text \<open>What is durable about an effect, and under which slot of the service.\<close>

type_synonym outcome = "string \<times> string \<times> string option \<times> string \<times> json"

definition outcome_of :: "adapter_receipt \<Rightarrow> outcome" where
  "outcome_of r = (ad_effect_id r, ad_request_digest r, ad_provider_receipt r, ad_status r, ad_result r)"

locale idempotent_adapter =
  fixes ad :: "'p adapter"
    and durable :: "'p \<Rightarrow> 'k \<Rightarrow> outcome option"
    and slot :: "effect_key \<Rightarrow> 'k"
  assumes lookup_found: "wa_lookup ad k p = Inr (Some r) \<Longrightarrow> durable p (slot k) = Some (outcome_of r)"
    and lookup_absent: "wa_lookup ad k p = Inr None \<Longrightarrow> durable p (slot k) = None"
    and execute_adds: "wa_execute ad env k q p = (x, p') \<Longrightarrow>
      durable p' = durable p \<or> durable p (slot k) = None \<and> (\<exists>v. durable p' = (durable p)(slot k \<mapsto> v))"
    and execute_durable: "wa_execute ad env k q p = (Inr r, p') \<Longrightarrow> durable p' (slot k) = Some (outcome_of r)"
begin

text \<open>An effect that is durable stays as it is.\<close>

lemma execute_keeps:
  "wa_execute ad env k q p = (x, p') \<Longrightarrow> durable p s = Some v \<Longrightarrow> durable p' s = Some v"
  using execute_adds by fastforce

lemma execute_once:
  "wa_execute ad env k q p = (Inr r, p') \<Longrightarrow> wa_execute ad env' k q' p' = (Inr r', p'') \<Longrightarrow>
   outcome_of r' = outcome_of r \<and> durable p'' = durable p'"
  using execute_durable execute_adds execute_keeps by (metis option.distinct(1) option.sel)

text \<open>Any sequence of executions.\<close>

inductive serves :: "'p \<Rightarrow> 'p \<Rightarrow> bool" where
  idle: "serves p p"
| executed: "serves p p' \<Longrightarrow> wa_execute ad env k q p' = (x, p'') \<Longrightarrow> serves p p''"

lemma serves_keeps: "serves p p' \<Longrightarrow> durable p s = Some v \<Longrightarrow> durable p' s = Some v"
  by (induction rule: serves.induct) (auto dest: execute_keeps)

end

definition fake_slot :: "effect_key \<Rightarrow> string \<times> string" where
  "fake_slot k = (strip (ek_project_id k), ek_idempotency_key k)"

definition fake_durable :: "provider \<Rightarrow> string \<times> string \<Rightarrow> outcome option" where
  "fake_durable p s = map_option (\<lambda>r. (px_effect_id r, px_request_digest r, Some (px_provider_receipt r), px_status r, px_result r))
     (find_prior (fst s) (snd s) p)"

lemma provider_project_Inr [simp]:
  "provider_project s = Inr t \<longleftrightarrow> non_blank s \<and> t = strip s"
  by (simp add: provider_project_def)

lemma provider_receipt_Inr:
  "provider_receipt row pr k b = Inr r \<longleftrightarrow>
     px_project_id row = pr \<and> px_idempotency_key row = ek_idempotency_key k \<and> px_effect_id row = ek_effect_id k \<and>
     px_request_digest row = ek_request_digest k \<and>
     r = \<lparr>ad_adapter_id = ADAPTER_ID, ad_project_id = pr, ad_idempotency_key = ek_idempotency_key k,
        ad_effect_id = ek_effect_id k, ad_request_digest = ek_request_digest k,
        ad_provider_receipt = Some (px_provider_receipt row), ad_status = px_status row, ad_closed = True,
        ad_result = px_result row, ad_replayed = b\<rparr>"
  by (auto simp: provider_receipt_def)

lemma fake_lookup_Inr:
  "fake_lookup k p = Inr v \<longleftrightarrow> non_blank (ek_project_id k) \<and>
     (case find_prior (strip (ek_project_id k)) (ek_idempotency_key k) p of
        None \<Rightarrow> v = None
      | Some row \<Rightarrow> \<exists>r. provider_receipt row (strip (ek_project_id k)) k True = Inr r \<and> v = Some r)"
  by (auto simp: fake_lookup_def bindr_eq_Inr split: option.split)

lemma provider_row_keys:
  "px_project_id (provider_row c env pr k q p) = pr" "px_idempotency_key (provider_row c env pr k q p) = ek_idempotency_key k"
  "px_effect_id (provider_row c env pr k q p) = ek_effect_id k" "px_request_digest (provider_row c env pr k q p) = ek_request_digest k"
  by (simp_all add: provider_row_def Let_def split: prod.split)

lemma execute_work_Inr:
  "execute_work c env k q p = Inr (r, p') \<longleftrightarrow> non_blank (ek_project_id k) \<and>
     content_hash (sha256 env) (JObj q) = ek_request_digest k \<and>
     (case find_prior (strip (ek_project_id k)) (ek_idempotency_key k) p of
        Some row \<Rightarrow> p' = p \<and> provider_receipt row (strip (ek_project_id k)) k True = Inr r
      | None \<Rightarrow> (\<forall>x \<in> set (pv_rows p). \<not> provider_clash (provider_row c env (strip (ek_project_id k)) k q p) x) \<and>
          provider_receipt (provider_row c env (strip (ek_project_id k)) k q p) (strip (ek_project_id k)) k False = Inr r \<and>
          p' = \<lparr>pv_rows = pv_rows p @ [provider_row c env (strip (ek_project_id k)) k q p], pv_uuid_next = Suc (pv_uuid_next p)\<rparr>)"
  by (auto simp: execute_work_def bindr_eq_Inr Let_def split: option.split if_splits)

lemma find_prior_snoc:
  assumes "find_prior pr key p = None" "px_project_id row = pr" "px_idempotency_key row = key"
  shows "find_prior a b \<lparr>pv_rows = pv_rows p @ [row], pv_uuid_next = n\<rparr> = (if (a, b) = (pr, key) then Some row else find_prior a b p)"
proof (cases "(a, b) = (pr, key)")
  case True
  let ?P = "\<lambda>r. px_project_id r = pr \<and> px_idempotency_key r = key"
  have "fetch_one ?P (pv_rows p @ [row]) = (if ?P row then Some row else None)"
    by (rule fetch_one_snoc_new) (use assms in \<open>auto simp: find_prior_def\<close>)
  with True assms(2, 3) show ?thesis by (simp add: find_prior_def)
next
  case False
  with assms show ?thesis unfolding find_prior_def by (auto simp: fetch_one_snoc_other)
qed

lemma fake_execute_cases:
  assumes "fake_execute c env k q p = (x, p')"
  shows "p' = p \<and> (\<forall>r. x = Inr r \<longrightarrow> (\<exists>row. find_prior (strip (ek_project_id k)) (ek_idempotency_key k) p = Some row \<and>
            provider_receipt row (strip (ek_project_id k)) k True = Inr r)) \<or>
         find_prior (strip (ek_project_id k)) (ek_idempotency_key k) p = None \<and>
         (\<exists>row r. x = Inr r \<and> provider_receipt row (strip (ek_project_id k)) k False = Inr r \<and>
            px_project_id row = strip (ek_project_id k) \<and> px_idempotency_key row = ek_idempotency_key k \<and>
            p' = \<lparr>pv_rows = pv_rows p @ [row], pv_uuid_next = Suc (pv_uuid_next p)\<rparr>)"
  using assms provider_row_keys
  by (fastforce simp: fake_execute_def execute_work_Inr split: sum.splits option.splits prod.splits)

lemma fake_durable_snoc:
  assumes "find_prior pr key p = None" "px_project_id row = pr" "px_idempotency_key row = key"
  shows "fake_durable \<lparr>pv_rows = pv_rows p @ [row], pv_uuid_next = n\<rparr> = (fake_durable p)((pr, key) \<mapsto>
     (px_effect_id row, px_request_digest row, Some (px_provider_receipt row), px_status row, px_result row))"
  by (rule ext) (auto simp: fake_durable_def find_prior_snoc [OF assms])

interpretation fake: idempotent_adapter "fake_adapter c" fake_durable fake_slot for c
proof
  fix k p r
  show "wa_lookup (fake_adapter c) k p = Inr (Some r) \<Longrightarrow> fake_durable p (fake_slot k) = Some (outcome_of r)"
    by (auto simp: fake_adapter_def fake_lookup_Inr fake_durable_def fake_slot_def provider_receipt_Inr outcome_of_def split: option.splits)
next
  fix k p
  show "wa_lookup (fake_adapter c) k p = Inr None \<Longrightarrow> fake_durable p (fake_slot k) = None"
    by (auto simp: fake_adapter_def fake_lookup_Inr fake_durable_def fake_slot_def split: option.splits)
next
  fix env k q p x p'
  assume "wa_execute (fake_adapter c) env k q p = (x, p')"
  then have e: "fake_execute c env k q p = (x, p')" by (simp add: fake_adapter_def)
  show "fake_durable p' = fake_durable p \<or>
      fake_durable p (fake_slot k) = None \<and> (\<exists>v. fake_durable p' = (fake_durable p)(fake_slot k \<mapsto> v))"
    using fake_execute_cases [OF e]
    by (elim disjE exE conjE; simp add: fake_slot_def fake_durable_snoc) (simp add: fake_durable_def, blast)
next
  fix env k q p r p'
  assume "wa_execute (fake_adapter c) env k q p = (Inr r, p')"
  then have e: "fake_execute c env k q p = (Inr r, p')" by (simp add: fake_adapter_def)
  show "fake_durable p' (fake_slot k) = Some (outcome_of r)"
    using fake_execute_cases [OF e]
    by (auto simp: fake_durable_def fake_slot_def find_prior_snoc provider_receipt_Inr outcome_of_def)
qed

section \<open>The conformance harness\<close>

text \<open>A step that keeps its effect on the state when it fails.\<close>

definition then_state :: "'a res \<times> 's \<Rightarrow> ('a \<Rightarrow> 's \<Rightarrow> 'b res \<times> 's) \<Rightarrow> 'b res \<times> 's" where
  "then_state m f = (case m of (Inl e, s) \<Rightarrow> (Inl e, s) | (Inr a, s) \<Rightarrow> f a s)"

lemma then_state_simps [simp]:
  "then_state (Inl e, s) f = (Inl e, s)" "then_state (Inr a, s) f = f a s"
  by (simp_all add: then_state_def)

lemma then_state_Inr:
  "then_state m f = (Inr b, s') \<longleftrightarrow> (\<exists>a s. m = (Inr a, s) \<and> f a s = (Inr b, s'))"
  by (cases m; cases "fst m") auto

record conformance_report =
  cr_adapter_name :: string
  cr_status :: string
  cr_checks :: "(string \<times> string) list"
  cr_evidence_state :: string
  cr_non_claims :: "string list"

definition report_to_wire :: "conformance_report \<Rightarrow> dict" where
  "report_to_wire r = [(''adapter_name'', JStr (cr_adapter_name r)), (''status'', JStr (cr_status r)),
     (''checks'', JObj (map (\<lambda>(k, v). (k, JStr v)) (cr_checks r))), (''evidence_state'', JStr (cr_evidence_state r)),
     (''non_claims'', JList (map JStr (cr_non_claims r)))]"

definition passed_report :: "string \<Rightarrow> conformance_report" where
  "passed_report name = \<lparr>cr_adapter_name = name, cr_status = ''passed'',
     cr_checks = [(''lookup_before_execute'', ''absent''), (''first_execute'', ''durable_receipt''),
       (''lookup_reconciliation'', ''passed''), (''idempotent_replay'', ''passed''),
       (''request_digest_mismatch'', ''rejected''), (''effect_identity_mismatch'', ''rejected''),
       (''project_idempotency_isolation'', ''passed''), (''receipt_identity'', ''stable'')],
     cr_evidence_state = ''runtime_verification'',
     cr_non_claims = [''provider_production_health'', ''provider_exactly_once'', ''multi_host_delivery'', ''business_validation'']\<rparr>"

text \<open>The exceptions below \<open>RuntimeKernelError\<close>.\<close>

fun runtime_error :: "error \<Rightarrow> bool" where
  "runtime_error (ValueError m) = False"
| "runtime_error (SqliteIntegrityError m) = False"
| "runtime_error (PyKeyError m) = False"
| "runtime_error (PyTypeError m) = False"
| "runtime_error e = True"

definition expect_rejected :: "'a res \<Rightarrow> unit res" where
  "expect_rejected x = (case x of
       Inr _ \<Rightarrow> Inl (IntegrityError ''adapter conformance failed open'')
     | Inl e \<Rightarrow> ensure (runtime_error e) (IntegrityError ''adapter conformance crashed instead of rejecting''))"

definition receipt_names :: "adapter_receipt \<Rightarrow> string \<times> string \<times> string \<times> string \<times> string" where
  "receipt_names r = (ad_adapter_id r, ad_project_id r, ad_idempotency_key r, ad_effect_id r, ad_request_digest r)"

definition key_names :: "string \<Rightarrow> effect_key \<Rightarrow> string \<times> string \<times> string \<times> string \<times> string" where
  "key_names name k = (name, ek_project_id k, ek_idempotency_key k, ek_effect_id k, ek_request_digest k)"

text \<open>What a replay must repeat.\<close>

definition same_receipt :: "adapter_receipt \<Rightarrow> adapter_receipt \<Rightarrow> bool" where
  "same_receipt a b \<longleftrightarrow> receipt_names a = receipt_names b \<and> ad_provider_receipt a = ad_provider_receipt b \<and>
     ad_status a = ad_status b \<and> ad_closed a = ad_closed b \<and> json_eq (ad_result a) (ad_result b)"

definition probe_request :: "string \<Rightarrow> dict" where
  "probe_request run_id = [(''operation'', JStr ''conformance_probe''), (''nonce'', JStr run_id)]"

definition probe_key :: "(string \<Rightarrow> string) \<Rightarrow> string option \<Rightarrow> string \<Rightarrow> effect_key" where
  "probe_key sha project_id run_id = \<lparr>
     ek_project_id = (case project_id of Some p \<Rightarrow> if p = [] then ''companyos-conformance-'' @ run_id else p
                      | None \<Rightarrow> ''companyos-conformance-'' @ run_id),
     ek_idempotency_key = ''conformance-'' @ run_id, ek_effect_id = ''effect-'' @ run_id,
     ek_request_digest = content_hash sha (JObj (probe_request run_id))\<rparr>"

definition probe_replay :: "env \<Rightarrow> 'p adapter \<Rightarrow> string \<Rightarrow> effect_key \<Rightarrow> dict \<Rightarrow> adapter_receipt \<Rightarrow> 'p \<Rightarrow> unit res \<times> 'p" where
  "probe_replay env ad name k q first p =
     then_state (wa_lookup ad k p, p) (\<lambda>looked p.
     if (case looked of None \<Rightarrow> True | Some r \<Rightarrow> \<not> ad_replayed r)
     then (Inl (IntegrityError ''adapter cannot reconcile the committed effect''), p)
     else
     then_state (wa_execute ad env k q p) (\<lambda>again p.
       (ensure (list_all (\<lambda>r. ad_replayed r \<and> receipt_names r = key_names name k \<and> same_receipt r first)
                  (case looked of None \<Rightarrow> [again] | Some r \<Rightarrow> [r, again]))
          (IntegrityError ''adapter replay receipt changed''), p)))"

definition probe_rejections :: "env \<Rightarrow> 'p adapter \<Rightarrow> effect_key \<Rightarrow> dict \<Rightarrow> 'p \<Rightarrow> unit res \<times> 'p" where
  "probe_rejections env ad k q p =
     (let (changed, p1) = wa_execute ad env k (q @ [(''changed'', JBool True)]) p in
      then_state (expect_rejected changed, p1) (\<lambda>_ p.
      then_state (expect_rejected (wa_lookup ad (k\<lparr>ek_effect_id := ek_effect_id k @ ''-other''\<rparr>) p), p) (\<lambda>_ p.
      then_state (expect_rejected (wa_lookup ad (k\<lparr>ek_request_digest := replicate 64 CHR ''0''\<rparr>) p), p) (\<lambda>_ p.
      then_state (wa_lookup ad (k\<lparr>ek_project_id := ek_project_id k @ ''-isolated''\<rparr>) p, p) (\<lambda>cross p.
        (ensure (cross = None) (IntegrityError ''adapter leaked an idempotency key across projects''), p))))))"

definition run_adapter_conformance ::
    "env \<Rightarrow> 'p adapter \<Rightarrow> string \<Rightarrow> string option \<Rightarrow> string \<Rightarrow> 'p \<Rightarrow> conformance_report res \<times> 'p" where
  "run_adapter_conformance env ad adapter_name project_id run_id p =
     (let name = strip adapter_name; k = probe_key (sha256 env) project_id run_id; q = probe_request run_id in
      if \<not> non_blank adapter_name then (Inl (IntegrityError ''adapter_name must be non-empty''), p)
      else if wa_adapter_id ad \<noteq> name then (Inl (IntegrityError ''adapter_name must exactly match adapter.adapter_id''), p)
      else
      then_state (wa_lookup ad k p, p) (\<lambda>missing p.
      if missing \<noteq> None then (Inl (IntegrityError ''adapter lookup returned an effect before execution''), p)
      else
      then_state (wa_execute ad env k q p) (\<lambda>first p.
      if ad_replayed first \<or> ad_status first \<noteq> ''succeeded'' \<or> \<not> ad_closed first \<or> receipt_names first \<noteq> key_names name k
      then (Inl (IntegrityError ''adapter first execution receipt is invalid''), p)
      else
      then_state (probe_replay env ad name k q first p) (\<lambda>_ p.
      then_state (probe_rejections env ad k q p) (\<lambda>_ p. (Inr (passed_report name), p))))))"

lemma ADAPTER_ID_strip: "strip ADAPTER_ID = ADAPTER_ID" "non_blank ADAPTER_ID"
  by code_simp+

lemma fake_adapter_id: "wa_adapter_id (fake_adapter c) = ADAPTER_ID"
  by (simp add: fake_adapter_def)

text \<open>The fake provider passes the harness, and keeps one effect of it, on any table where the probe is new and the
  digest tells the probe from its variant.\<close>

theorem fake_provider_conforms:
  assumes k_def: "k = probe_key (sha256 env) (Some pr) run_id"
    and project: "non_blank pr" "strip pr = pr" "strip (pr @ ''-isolated'') = pr @ ''-isolated''"
    and new: "find_prior (pr @ ''-isolated'') (ek_idempotency_key k) p = None"
      "\<forall>r \<in> set (pv_rows p). px_provider_receipt r \<noteq> ''fake-'' @ uuid4 env (pv_uuid_next p) \<and>
         (px_project_id r = pr \<longrightarrow> px_idempotency_key r \<noteq> ek_idempotency_key k \<and> px_effect_id r \<noteq> ek_effect_id k)"
    and hash: "content_hash (sha256 env) (JObj (probe_request run_id @ [(''changed'', JBool True)])) \<noteq> ek_request_digest k"
      "ek_request_digest k \<noteq> replicate 64 CHR ''0''"
  shows "\<exists>row. run_adapter_conformance env (fake_adapter c) ADAPTER_ID (Some pr) run_id p =
     (Inr (passed_report ADAPTER_ID), \<lparr>pv_rows = pv_rows p @ [row], pv_uuid_next = Suc (pv_uuid_next p)\<rparr>) \<and>
     px_effect_id row = ek_effect_id k"
proof -
  let ?q = "probe_request run_id" and ?row = "provider_row c env pr k (probe_request run_id) p"
  let ?p = "\<lparr>pv_rows = pv_rows p @ [?row], pv_uuid_next = Suc (pv_uuid_next p)\<rparr>"
  have ne: "pr \<noteq> []" using project(1, 2) by (auto simp: non_blank_def)
  have k: "ek_project_id k = pr" "ek_request_digest k = content_hash (sha256 env) (JObj ?q)" using ne by (auto simp: k_def probe_key_def)
  have none: "find_prior pr (ek_idempotency_key k) p = None"
    using new(2) by (auto simp: find_prior_def)
  note keys = provider_row_keys [of c env pr k ?q p]
  have found: "find_prior pr (ek_idempotency_key k) ?p = Some ?row" "find_prior (pr @ ''-isolated'') (ek_idempotency_key k) ?p = None"
    using new(1) by (simp_all add: find_prior_snoc [OF none keys(1, 2)])
  have receipt: "px_provider_receipt ?row = ''fake-'' @ uuid4 env (pv_uuid_next p)" "px_status ?row = ''succeeded''"
    by (simp_all add: provider_row_def provider_outcome_def probe_request_def get_or_def Let_def)
  have clash: "\<not> exists_row (provider_clash ?row) (pv_rows p)"
    using new(2) receipt(1) keys by (auto simp: exists_row_def provider_clash_def list_ex_iff)
  obtain r where r: "provider_receipt ?row pr k False = Inr r" "provider_receipt ?row pr k True = Inr (r\<lparr>ad_replayed := True\<rparr>)"
    and names: "receipt_names r = key_names ADAPTER_ID k" "ad_status r = ''succeeded''" "ad_closed r" "\<not> ad_replayed r"
    using keys receipt k by (auto simp: provider_receipt_def receipt_names_def key_names_def)
  have look: "wa_lookup (fake_adapter c) k p = Inr None" "wa_lookup (fake_adapter c) k ?p = Inr (Some (r\<lparr>ad_replayed := True\<rparr>))"
    using k project none found r by (simp_all add: fake_adapter_def fake_lookup_def provider_project_def text_field_def)
  have run: "wa_execute (fake_adapter c) env k ?q p = (Inr r, ?p)" "wa_execute (fake_adapter c) env k ?q ?p = (Inr (r\<lparr>ad_replayed := True\<rparr>), ?p)"
    using k project none found r clash
    by (simp_all add: fake_adapter_def fake_execute_def execute_work_def provider_project_def text_field_def insert_row_def Let_def)
  have rep: "probe_replay env (fake_adapter c) ADAPTER_ID k ?q r ?p = (Inr (), ?p)"
    using names by (simp add: probe_replay_def look run same_receipt_def receipt_names_def)
  have "probe_rejections env (fake_adapter c) k ?q ?p = (Inr (), ?p)"
    using k project found hash keys
    by (simp add: probe_rejections_def fake_adapter_def fake_execute_def execute_work_def fake_lookup_def provider_project_def
        text_field_def non_blank_def expect_rejected_def provider_receipt_def Let_def)
  with look run rep names have "run_adapter_conformance env (fake_adapter c) ADAPTER_ID (Some pr) run_id p = (Inr (passed_report ADAPTER_ID), ?p)"
    unfolding run_adapter_conformance_def k_def [symmetric] by (simp add: Let_def ADAPTER_ID_strip fake_adapter_id)
  with keys show ?thesis by blast
qed

end
