(* ===== verification/Workflow.thy ===== *)
theory Workflow
  imports Gates Fake_Provider
begin

text \<open>
  The durable workflow of \<open>workflow.py\<close>: an effect is enqueued in the outbox under a capability grant,
  dispatched to an adapter, and reconciled by a receipt.  A dispatch is not one transaction: the
  authority is consumed, the adapter is called and the receipt is recorded one after the other, and a
  crash leaves what was committed.  An operation therefore maps a pair of store and adapter state to a
  result and the pair that is left, also when it fails.

  The clock and the identifiers are read anew in each transaction: the operations take one environment
  per transaction of a dispatch (authority, adapter, checkpoint).
\<close>

section \<open>Contracts of a step\<close>

definition FAULTS :: "string option list" where
  "FAULTS = [None, Some ''before_effect'', Some ''after_effect_before_checkpoint'', Some ''after_checkpoint'']"

definition ENVELOPE_FIELDS :: "string list" where
  "ENVELOPE_FIELDS = [''request'', ''grant_id'', ''principal'', ''capability'', ''action'', ''resource'', ''fence'']"

definition workflow_text :: "string \<Rightarrow> string res" where
  "workflow_text = text_field ContractError"

definition declared_step :: "task_spec \<Rightarrow> string \<Rightarrow> workflow_step res" where
  "declared_step spec sid =
     (case filter (\<lambda>s. step_id s = sid) (ts_workflow_steps spec) of
        [step] \<Rightarrow>
          bindr (mapr workflow_text [step_id step, step_adapter step, step_action step, step_resource step,
                                     step_request_digest step]) (\<lambda>_. Inr step)
      | _ \<Rightarrow> Inl (ContractError ''workflow step is not declared exactly once in TaskSpec''))"

definition assert_step_binding :: "task_spec \<Rightarrow> string \<Rightarrow> string \<Rightarrow> json \<Rightarrow> json \<Rightarrow> string \<Rightarrow> unit res" where
  "assert_step_binding spec sid adapter action resource request_digest =
     bindr (declared_step spec sid) (\<lambda>declared.
       ensure (step_id declared = sid \<and> step_adapter declared = adapter \<and> JStr (step_action declared) = action \<and>
               JStr (step_resource declared) = resource \<and> step_request_digest declared = request_digest)
         (ContractError ''effect does not match exact TaskSpec workflow step binding''))"

definition effect_envelope :: "(string \<Rightarrow> string) \<Rightarrow> outbox_row \<Rightarrow> dict res" where
  "effect_envelope sha effect =
     (case o_request effect of
        JObj doc \<Rightarrow>
          if set (keys doc) \<noteq> set ENVELOPE_FIELDS
          then Inl (IntegrityError ''outbox authority envelope has an invalid shape'')
          else (case map_of doc ''request'' of
              Some (JObj request) \<Rightarrow>
                bindr (ensure (content_hash sha (JObj request) = o_request_digest effect)
                         (IntegrityError ''outbox request digest mismatch'')) (\<lambda>_. Inr doc)
            | _ \<Rightarrow> Inl (IntegrityError ''outbox request must be an object''))
      | _ \<Rightarrow> Inl (IntegrityError ''outbox authority envelope has an invalid shape''))"

text \<open>The request of an envelope that \<open>effect_envelope\<close> accepted.\<close>

definition envelope_request :: "dict \<Rightarrow> dict" where
  "envelope_request doc = (case map_of doc ''request'' of Some (JObj request) \<Rightarrow> request | _ \<Rightarrow> [])"

definition assert_effect_lifecycle :: "db \<Rightarrow> task_row \<Rightarrow> unit res" where
  "assert_effect_lifecycle db task =
     (if \<not> (case fetch_one (\<lambda>r. Some (r_run_id r) = t_run_id task) (runs db) of
               None \<Rightarrow> False
             | Some run \<Rightarrow> r_project_id run = t_project_id task \<and> r_goal_id run = t_goal_id task \<and> r_loop_state run = LS_RUNNING)
      then Inl (AuthorizationError ''effect parent run is not executable'')
      else ensure (t_state task = TS_RUNNING) (AuthorizationError ''effect task is not running''))"

section \<open>Records on the wire\<close>

definition outbox_to_wire :: "outbox_row \<Rightarrow> dict" where
  "outbox_to_wire e = [(''effect_id'', JStr (o_effect_id e)), (''project_id'', JStr (o_project_id e)),
     (''run_id'', JStr (o_run_id e)), (''task_id'', JStr (o_task_id e)), (''step_id'', JStr (o_step_id e)),
     (''adapter'', JStr (o_adapter e)), (''idempotency_key'', JStr (o_idempotency_key e)),
     (''request_digest'', JStr (o_request_digest e)), (''status'', JStr (o_status e)), (''created_at'', JInt (o_created_at e)),
     (''dispatched_at'', jint_opt (o_dispatched_at e)), (''reconciled_at'', jint_opt (o_reconciled_at e)),
     (''last_error'', jopt (o_last_error e))]"

definition receipt_to_wire :: "receipt_row \<Rightarrow> dict" where
  "receipt_to_wire r = [(''receipt_id'', JStr (rc_receipt_id r)), (''effect_id'', JStr (rc_effect_id r)),
     (''status'', JStr (rc_status r)), (''provider_receipt'', jopt (rc_provider_receipt r)), (''result'', rc_result r),
     (''result_digest'', JStr (rc_result_digest r)), (''recorded_at'', JInt (rc_recorded_at r))]"

record dispatch_result =
  dr_effect_id :: string
  dr_status :: string
  dr_provider_receipt :: "string option"
  dr_result :: json
  dr_provider_replayed :: bool
  dr_checkpoint_replayed :: bool

record workflow =
  wf_adapter_id :: string
  wf_policy_version :: string

definition make_workflow :: "'p adapter \<Rightarrow> string \<Rightarrow> workflow res" where
  "make_workflow ad policy_version =
     bindr (workflow_text (wa_adapter_id ad)) (\<lambda>i. Inr \<lparr>wf_adapter_id = i, wf_policy_version = policy_version\<rparr>)"

section \<open>Enqueueing\<close>

record enqueue_request =
  nq_task_id :: string
  nq_step_id :: string
  nq_adapter :: string
  nq_idempotency_key :: string
  nq_request :: dict
  nq_grant_id :: string
  nq_session :: "auth_session option"
  nq_capability :: string
  nq_action :: string
  nq_resource :: string
  nq_fence :: "int option"
  nq_effect_id :: "string option"

text \<open>The arguments as the method uses them: stripped, the capability decoded, the identifier of the
  effect drawn when none is given.\<close>

definition clean_enqueue :: "env \<Rightarrow> workflow \<Rightarrow> enqueue_request \<Rightarrow> db \<Rightarrow> (enqueue_request \<times> capability \<times> string \<times> db) res" where
  "clean_enqueue env wk q db =
     bindr (workflow_text (nq_task_id q)) (\<lambda>task_id.
     bindr (workflow_text (nq_step_id q)) (\<lambda>sid.
     bindr (workflow_text (nq_adapter q)) (\<lambda>adapter.
     if adapter \<noteq> wf_adapter_id wk
     then Inl (ContractError ''workflow step adapter does not exactly match the configured adapter'')
     else
     bindr (workflow_text (nq_idempotency_key q)) (\<lambda>key.
     bindr (workflow_text (nq_grant_id q)) (\<lambda>grant_id.
     bindr (workflow_text (nq_action q)) (\<lambda>action.
     bindr (workflow_text (nq_resource q)) (\<lambda>resource.
     bindr (capability_of (JStr (nq_capability q))) (\<lambda>capability.
     if (case nq_fence q of None \<Rightarrow> False | Some f \<Rightarrow> f < 1)
     then Inl (ContractError ''fence must be a positive integer or null'')
     else
     let (drawn, db) = fresh_id env (nq_effect_id q) db in
     bindr (workflow_text drawn) (\<lambda>effect_id.
       Inr (q\<lparr>nq_task_id := task_id, nq_step_id := sid, nq_adapter := adapter, nq_idempotency_key := key,
              nq_grant_id := grant_id, nq_action := action, nq_resource := resource,
              nq_capability := capability_value capability\<rparr>, capability, effect_id, db))))))))))"

definition enqueue_envelope :: "enqueue_request \<Rightarrow> string \<Rightarrow> dict" where
  "enqueue_envelope q who = [(''request'', JObj (nq_request q)), (''grant_id'', JStr (nq_grant_id q)),
     (''principal'', JStr who), (''capability'', JStr (nq_capability q)), (''action'', JStr (nq_action q)),
     (''resource'', JStr (nq_resource q)), (''fence'', jint_opt (nq_fence q))]"

definition outbox_clash :: "outbox_row \<Rightarrow> outbox_row \<Rightarrow> bool" where
  "outbox_clash a b \<longleftrightarrow> o_effect_id a = o_effect_id b \<or>
     o_project_id a = o_project_id b \<and> o_idempotency_key a = o_idempotency_key b"

definition enqueue_event :: "workflow \<Rightarrow> enqueue_request \<Rightarrow> task_row \<Rightarrow> string \<Rightarrow> string \<Rightarrow> string \<Rightarrow> principal_record \<Rightarrow> string \<Rightarrow> string \<Rightarrow> event_cmd" where
  "enqueue_event wk q task run_id digest effect_id p session_id command_id =
     event_defaults\<lparr>c_aggregate_type := ''effect'', c_aggregate_id := effect_id, c_expected_version := 0,
       c_project_id := t_project_id task, c_run_id := Some run_id, c_task_id := Some (nq_task_id q),
       c_event_type := ''effect_enqueued'', c_actor := pr_principal_id p,
       c_auth_context := [(''session_id'', JStr session_id),
         (''authenticated_role'', JStr (hd (sort (map role_value (pr_roles p)))))],
       c_command_id := command_id, c_correlation_id := run_id, c_policy_version := wf_policy_version wk,
       c_payload := [(''step_id'', JStr (nq_step_id q)), (''adapter'', JStr (nq_adapter q)), (''request_digest'', JStr digest),
         (''capability'', JStr (nq_capability q)), (''resource'', JStr (nq_resource q))],
       c_idempotency_key := Some (nq_idempotency_key q)\<rparr>"

text \<open>The insert of a new effect: the event, the row of the outbox and the row of the step.\<close>

definition insert_effect ::
    "env \<Rightarrow> workflow \<Rightarrow> enqueue_request \<Rightarrow> task_row \<Rightarrow> string \<Rightarrow> string \<Rightarrow> string \<Rightarrow> principal_record \<Rightarrow> string \<Rightarrow> db \<Rightarrow>
     ((outbox_row \<times> bool) \<times> db) res" where
  "insert_effect env wk q task run_id digest effect_id p session_id db =
     (if exists_row (\<lambda>w. ws_task_id w = nq_task_id q \<and> ws_step_id w = nq_step_id q) (workflow_step_rows db)
      then Inl (IntegrityError ''workflow step is already bound to another outbox effect'')
      else
      let (command_id, db) = draw_uuid env db in
      bindr (append_event env (enqueue_event wk q task run_id digest effect_id p session_id command_id) db) (\<lambda>(_, db).
      let row = \<lparr>o_effect_id = effect_id, o_project_id = t_project_id task, o_run_id = run_id, o_task_id = nq_task_id q,
            o_step_id = nq_step_id q, o_adapter = nq_adapter q, o_idempotency_key = nq_idempotency_key q,
            o_request_digest = digest, o_request = JObj (enqueue_envelope q (pr_principal_id p)),
            o_status = ''authorization_pending'', o_created_at = now env, o_dispatched_at = None,
            o_reconciled_at = None, o_last_error = None\<rparr> in
      bindr (insert_row outbox_clash row (outbox db)) (\<lambda>rows.
        Inr ((row, False), db\<lparr>outbox := rows, workflow_step_rows := workflow_step_rows db @
          [\<lparr>ws_task_id = nq_task_id q, ws_step_id = nq_step_id q, ws_status = ''queued'', ws_input_digest = digest,
            ws_result = None, ws_effect_id = Some effect_id, ws_started_at = now env, ws_completed_at = None\<rparr>]\<rparr>))))"

definition enqueue :: "env \<Rightarrow> workflow \<Rightarrow> enqueue_request \<Rightarrow> db \<Rightarrow> ((outbox_row \<times> bool) \<times> db) res" where
  "enqueue env wk raw db =
     bindr (clean_enqueue env wk raw db) (\<lambda>(q, capability, effect_id, db).
     let digest = content_hash (sha256 env) (JObj (nq_request q)) in
     bindr (verify_session env None (nq_session q) db) (\<lambda>p.
     if set (pr_roles p) \<inter> {WORKER, SYSTEM} = {} then Inl (ContractError ''effect enqueuer requires worker or system role'')
     else
     bindr (require (fetch_one (\<lambda>t. t_task_id t = nq_task_id q) (tasks db)) (NotFoundError ''runnable task not found'')) (\<lambda>task.
     bindr (require (t_run_id task) (NotFoundError ''runnable task not found'')) (\<lambda>run_id.
     bindr (assert_effect_lifecycle db task) (\<lambda>_.
     bindr (load_task_spec (t_spec task)) (\<lambda>spec.
     if capability \<notin> set (ts_capabilities spec) then Inl (ContractError ''task contract does not allow capability'')
     else
     bindr (assert_step_binding spec (nq_step_id q) (nq_adapter q) (JStr (nq_action q)) (JStr (nq_resource q)) digest) (\<lambda>_.
     case fetch_one (\<lambda>e. o_project_id e = t_project_id task \<and> o_idempotency_key e = nq_idempotency_key q) (outbox db) of
       Some prior \<Rightarrow>
         if (o_task_id prior, o_step_id prior, o_adapter prior, o_request_digest prior) =
              (nq_task_id q, nq_step_id q, nq_adapter q, digest) \<and>
            json_eq (o_request prior) (JObj (enqueue_envelope q (pr_principal_id p)))
         then Inr ((prior, True), db)
         else Inl (IntegrityError ''outbox idempotency key reused with different request or authority'')
     | None \<Rightarrow>
         bindr (preflight_effect_authority env (nq_session q)
           \<lparr>uq_grant_id = nq_grant_id q, uq_project_id = t_project_id task, uq_goal_id = t_goal_id task,
            uq_run_id = run_id, uq_task_id = nq_task_id q, uq_capability = nq_capability q, uq_action = nq_action q,
            uq_resource = nq_resource q, uq_request_digest = digest, uq_idempotency_key = [], uq_cost = 0,
            uq_fence = nq_fence q, uq_effect_id = None\<rparr> (wf_policy_version wk) db) (\<lambda>_.
         bindr (require (nq_session q) (PyTypeError ''NoneType'')) (\<lambda>session.
           insert_effect env wk q task run_id digest effect_id p (as_session_id session) db)))))))))"

definition get_effect :: "string \<Rightarrow> db \<Rightarrow> outbox_row res" where
  "get_effect effect_id db =
     bindr (workflow_text effect_id) (\<lambda>i.
       require (fetch_one (\<lambda>e. o_effect_id e = i) (outbox db)) (NotFoundError ''outbox effect not found''))"

definition get_receipt :: "string \<Rightarrow> db \<Rightarrow> receipt_row option res" where
  "get_receipt effect_id db =
     bindr (workflow_text effect_id) (\<lambda>i. Inr (fetch_one (\<lambda>r. rc_effect_id r = i) (receipts db)))"

section \<open>Dispatch\<close>

text \<open>One transaction of the store in a state that also holds the adapter: an error rolls the store back.\<close>

definition in_store :: "(db \<Rightarrow> ('a \<times> db) res) \<Rightarrow> db \<times> 'p \<Rightarrow> 'a res \<times> db \<times> 'p" where
  "in_store f s = (case f (fst s) of Inl e \<Rightarrow> (Inl e, s) | Inr (a, db) \<Rightarrow> (Inr a, db, snd s))"

definition assert_persisted_step_binding :: "outbox_row \<Rightarrow> dict \<Rightarrow> db \<Rightarrow> unit res" where
  "assert_persisted_step_binding effect doc db =
     bindr (require (fetch_one (\<lambda>w. ws_task_id w = o_task_id effect \<and> ws_step_id w = o_step_id effect) (workflow_step_rows db))
              (IntegrityError ''outbox effect references a missing persisted workflow step'')) (\<lambda>step.
     bindr (require (fetch_one (\<lambda>t. t_task_id t = o_task_id effect) (tasks db))
              (IntegrityError ''outbox effect references a missing persisted workflow step'')) (\<lambda>task.
     if t_project_id task \<noteq> o_project_id effect \<or> t_run_id task \<noteq> Some (o_run_id effect) \<or>
        ws_effect_id step \<noteq> Some (o_effect_id effect) \<or> ws_input_digest step \<noteq> o_request_digest effect \<or>
        ws_status step \<noteq> ''queued''
     then Inl (IntegrityError ''outbox effect persisted workflow step mismatch'')
     else
     bindr (load_task_spec (t_spec task)) (\<lambda>spec.
     bindr (require (map_of doc ''action'') (PyKeyError ''action'')) (\<lambda>action.
     bindr (require (map_of doc ''resource'') (PyKeyError ''resource'')) (\<lambda>resource.
       assert_step_binding spec (o_step_id effect) (o_adapter effect) action resource (o_request_digest effect))))))"

definition assert_adapter_binding :: "'p adapter \<Rightarrow> workflow \<Rightarrow> outbox_row \<Rightarrow> unit res" where
  "assert_adapter_binding ad wk effect =
     bindr (workflow_text (wa_adapter_id ad)) (\<lambda>current.
     if current \<noteq> wf_adapter_id wk then Inl (IntegrityError ''configured adapter identity changed after initialization'')
     else ensure (o_adapter effect = wf_adapter_id wk)
            (IntegrityError ''persisted workflow step does not match the configured adapter identity''))"

definition assert_receipt_binding :: "workflow \<Rightarrow> outbox_row \<Rightarrow> adapter_receipt \<Rightarrow> unit res" where
  "assert_receipt_binding wk effect r =
     (if receipt_names r \<noteq> (wf_adapter_id wk, o_project_id effect, o_idempotency_key effect, o_effect_id effect, o_request_digest effect)
      then Inl (IntegrityError ''adapter receipt identity does not match outbox effect'')
      else if \<not> ad_closed r \<or> ad_status r \<notin> {''succeeded'', ''failed''}
      then Inl (IntegrityError ''adapter receipt must have a closed terminal status'')
      else ensure (case ad_result r of JObj d \<Rightarrow> True | _ \<Rightarrow> False) (IntegrityError ''adapter receipt result must be an object''))"

definition result_fields :: "json \<Rightarrow> dict" where
  "result_fields v = (case v of JObj d \<Rightarrow> d | _ \<Rightarrow> [])"

text \<open>\<open>_retain_negative\<close>: the failure ledger of the Task.\<close>

definition retain_negative :: "env \<Rightarrow> outbox_row \<Rightarrow> dict \<Rightarrow> db \<Rightarrow> db res" where
  "retain_negative env effect d db =
     (let error_class = get_or ''error_class'' (JStr ''UnknownFailure'') d;
          fingerprint = content_hash (sha256 env) (JObj [(''adapter'', JStr (o_adapter effect)), (''error_class'', error_class),
            (''message'', get_or ''message'' (JStr []) d)]) in
      case fetch_one (\<lambda>n. n_project_id n = o_project_id effect \<and> n_task_id n = o_task_id effect \<and> n_fingerprint n = fingerprint)
             (negative_results db) of
        Some prior \<Rightarrow> Inr (db\<lparr>negative_results := update_where (\<lambda>n. n_failure_id n = n_failure_id prior)
          (\<lambda>n. n\<lparr>n_last_seen := now env, n_recurrence_count := n_recurrence_count n + 1\<rparr>) (negative_results db)\<rparr>)
      | None \<Rightarrow>
          let (failure_id, db) = draw_uuid env db in
          bindr (sql_text error_class) (\<lambda>cls.
          bindr (require cls (SqliteIntegrityError ''NOT NULL constraint failed'')) (\<lambda>failure_class.
          bindr (insert_row (\<lambda>a b. n_failure_id a = n_failure_id b)
                   \<lparr>n_failure_id = failure_id, n_project_id = o_project_id effect, n_run_id = o_run_id effect,
                    n_task_id = o_task_id effect, n_fingerprint = fingerprint, n_failure_class = failure_class,
                    n_severity = ''error'', n_evidence_refs = [],
                    n_repair_route = (if map_of d ''authorization_outcome'' = Some (JStr ''denied'')
                      then ''inspect_effect_authorization_failure'' else ''inspect_fake_provider_failure''),
                    n_first_seen = now env, n_last_seen = now env, n_recurrence_count = 1, n_expires_at = None\<rparr>
                   (negative_results db)) (\<lambda>rows. Inr (db\<lparr>negative_results := rows\<rparr>)))))"

definition effect_event :: "workflow \<Rightarrow> outbox_row \<Rightarrow> string \<Rightarrow> string \<Rightarrow> dict \<Rightarrow> string \<Rightarrow> int \<Rightarrow> event_cmd" where
  "effect_event wk effect event_type actor payload command_id version =
     event_defaults\<lparr>c_aggregate_type := ''effect'', c_aggregate_id := o_effect_id effect, c_expected_version := version,
       c_project_id := o_project_id effect, c_run_id := Some (o_run_id effect), c_task_id := Some (o_task_id effect),
       c_event_type := event_type, c_actor := actor, c_command_id := command_id, c_correlation_id := o_run_id effect,
       c_policy_version := wf_policy_version wk, c_payload := payload\<rparr>"

definition receipt_clash :: "receipt_row \<Rightarrow> receipt_row \<Rightarrow> bool" where
  "receipt_clash a b \<longleftrightarrow> rc_receipt_id a = rc_receipt_id b \<or> rc_effect_id a = rc_effect_id b"

text \<open>The rows of a reconciled effect: its receipt, its outbox row and its workflow step.\<close>

definition close_effect ::
    "env \<Rightarrow> outbox_row \<Rightarrow> string \<Rightarrow> string option \<Rightarrow> dict \<Rightarrow> (outbox_row \<Rightarrow> outbox_row) \<Rightarrow> db \<Rightarrow> db res" where
  "close_effect env effect status reference d update db =
     (let (receipt_id, db) = draw_uuid env db in
      bindr (insert_row receipt_clash \<lparr>rc_receipt_id = receipt_id, rc_effect_id = o_effect_id effect, rc_status = status,
               rc_provider_receipt = reference, rc_result = JObj d,
               rc_result_digest = content_hash (sha256 env) (JObj d), rc_recorded_at = now env\<rparr> (receipts db)) (\<lambda>rows.
        Inr (db\<lparr>receipts := rows,
          outbox := update_where (\<lambda>e. o_effect_id e = o_effect_id effect) update (outbox db),
          workflow_step_rows := update_where (\<lambda>w. ws_task_id w = o_task_id effect \<and> ws_step_id w = o_step_id effect)
            (\<lambda>w. w\<lparr>ws_status := status, ws_result := Some (JObj d), ws_completed_at := Some (now env)\<rparr>)
            (workflow_step_rows db)\<rparr>)))"

definition replayed_result :: "receipt_row \<Rightarrow> bool \<Rightarrow> dispatch_result" where
  "replayed_result r replayed = \<lparr>dr_effect_id = rc_effect_id r, dr_status = rc_status r,
     dr_provider_receipt = rc_provider_receipt r, dr_result = rc_result r, dr_provider_replayed = replayed,
     dr_checkpoint_replayed = True\<rparr>"

definition checkpoint :: "env \<Rightarrow> workflow \<Rightarrow> outbox_row \<Rightarrow> adapter_receipt \<Rightarrow> db \<Rightarrow> (dispatch_result \<times> db) res" where
  "checkpoint env wk effect r db =
     (let d = result_fields (ad_result r); digest = content_hash (sha256 env) (JObj d) in
      case fetch_one (\<lambda>x. rc_effect_id x = o_effect_id effect) (receipts db) of
        Some prior \<Rightarrow>
          if rc_result_digest prior \<noteq> digest \<or> rc_provider_receipt prior \<noteq> ad_provider_receipt r
          then Inl (IntegrityError ''effect receipt reconciliation mismatch'')
          else Inr (replayed_result prior (ad_replayed r), db)
      | None \<Rightarrow>
          let (command_id, db) = draw_uuid env db in
          bindr (append_event env (effect_event wk effect ''effect_reconciled'' (''adapter:'' @ o_adapter effect)
                   [(''status'', JStr (ad_status r)), (''provider_receipt'', jopt (ad_provider_receipt r)),
                    (''result_digest'', JStr digest)] command_id
                   (current_version ''effect'' (o_effect_id effect) (events db))) db) (\<lambda>(_, db).
          bindr (if ad_status r \<noteq> ''succeeded'' then sql_text (get_or ''message'' JNull d) else Inr None) (\<lambda>message.
          bindr (close_effect env effect (ad_status r) (ad_provider_receipt r) d
                   (\<lambda>e. e\<lparr>o_status := ad_status r, o_dispatched_at := Some (now env), o_reconciled_at := Some (now env),
                          o_last_error := message\<rparr>) db) (\<lambda>db.
          bindr (if ad_status r \<noteq> ''succeeded'' then retain_negative env effect d db else Inr db) (\<lambda>db.
            Inr (\<lparr>dr_effect_id = o_effect_id effect, dr_status = ad_status r, dr_provider_receipt = ad_provider_receipt r,
                  dr_result = JObj d, dr_provider_replayed = ad_replayed r, dr_checkpoint_replayed = False\<rparr>, db))))))"

text \<open>\<open>str\<close> of an authorization error; the model keeps the fixed part of a message.\<close>

fun error_message :: "error \<Rightarrow> string" where
  "error_message (AuthorizationError m) = m"
| "error_message e = []"

definition denial :: "(string \<Rightarrow> string) \<Rightarrow> error \<Rightarrow> dict" where
  "denial sha error =
     (let message = (if strip (error_message error) = [] then ''effect authorization denied'' else strip (error_message error)) in
      [(''authorization_outcome'', JStr ''denied''), (''error_class'', JStr ''AuthorizationError''), (''message'', JStr message),
       (''retryable'', JBool False),
       (''error_digest'', JStr (content_hash sha (JObj [(''error_class'', JStr ''AuthorizationError''), (''message'', JStr message)])))])"

definition checkpoint_authorization_failure :: "env \<Rightarrow> workflow \<Rightarrow> outbox_row \<Rightarrow> error \<Rightarrow> db \<Rightarrow> (dispatch_result \<times> db) res" where
  "checkpoint_authorization_failure env wk effect error db =
     (let d = denial (sha256 env) error; digest = content_hash (sha256 env) (JObj d) in
      case fetch_one (\<lambda>x. rc_effect_id x = o_effect_id effect) (receipts db) of
        Some prior \<Rightarrow> Inr (replayed_result prior (rc_provider_receipt prior \<noteq> None), db)
      | None \<Rightarrow>
          let (command_id, db) = draw_uuid env db in
          bindr (append_event env (effect_event wk effect ''effect_authorization_failed'' ''policy-engine''
                   [(''status'', JStr ''failed''), (''result_digest'', JStr digest), (''authorization_outcome'', JStr ''denied'')]
                   command_id (current_version ''effect'' (o_effect_id effect) (events db))) db) (\<lambda>(_, db).
          bindr (close_effect env effect ''failed'' None d
                   (\<lambda>e. e\<lparr>o_status := ''failed'', o_reconciled_at := Some (now env),
                          o_last_error := Some (case map_of d ''message'' of Some (JStr m) \<Rightarrow> m | _ \<Rightarrow> [])\<rparr>) db) (\<lambda>db.
          bindr (retain_negative env effect d db) (\<lambda>db.
            Inr (\<lparr>dr_effect_id = o_effect_id effect, dr_status = ''failed'', dr_provider_receipt = None, dr_result = JObj d,
                  dr_provider_replayed = False, dr_checkpoint_replayed = False\<rparr>, db)))))"

definition key_of :: "outbox_row \<Rightarrow> effect_key" where
  "key_of e = \<lparr>ek_project_id = o_project_id e, ek_idempotency_key = o_idempotency_key e, ek_effect_id = o_effect_id e,
     ek_request_digest = o_request_digest e\<rparr>"

definition mark_ready :: "string \<Rightarrow> db \<Rightarrow> db" where
  "mark_ready effect_id db = db\<lparr>outbox := update_where (\<lambda>e. o_effect_id e = effect_id \<and> o_status e = ''authorization_pending'')
     (\<lambda>e. e\<lparr>o_status := ''ready''\<rparr>) (outbox db)\<rparr>"

text \<open>The environments of the transactions of a dispatch: authority, adapter, checkpoint.\<close>

type_synonym clock = "nat \<Rightarrow> env"

text \<open>The adapter is called only when it knows nothing of the effect.\<close>

definition execute_effect ::
    "clock \<Rightarrow> 'p adapter \<Rightarrow> workflow \<Rightarrow> outbox_row \<Rightarrow> dict \<Rightarrow> string option \<Rightarrow> db \<times> 'p \<Rightarrow> dispatch_result res \<times> db \<times> 'p" where
  "execute_effect envs ad wk effect request fault s =
     (if fault = Some ''before_effect'' then (Inl (SimulatedCrash ''simulated crash before external effect''), s)
      else
      let (x, p) = wa_execute ad (envs 1) (key_of effect) request (snd s) in
      then_state (x, fst s, p) (\<lambda>r s.
      then_state (assert_receipt_binding wk effect r, s) (\<lambda>_ s.
      if fault = Some ''after_effect_before_checkpoint''
      then (Inl (SimulatedCrash ''simulated crash after external effect before checkpoint''), s)
      else
      then_state (in_store (checkpoint (envs 2) wk effect r) s) (\<lambda>result s.
      if fault = Some ''after_checkpoint'' then (Inl (SimulatedCrash ''simulated crash after durable checkpoint''), s)
      else (Inr result, s)))))"

definition reconcile_effect ::
    "clock \<Rightarrow> 'p adapter \<Rightarrow> workflow \<Rightarrow> outbox_row \<Rightarrow> dict \<Rightarrow> string option \<Rightarrow> db \<times> 'p \<Rightarrow> dispatch_result res \<times> db \<times> 'p" where
  "reconcile_effect envs ad wk effect request fault s =
     then_state (wa_lookup ad (key_of effect) (snd s), s) (\<lambda>known s.
     case known of
       Some r \<Rightarrow> then_state (assert_receipt_binding wk effect r, s) (\<lambda>_ s. in_store (checkpoint (envs 2) wk effect r) s)
     | None \<Rightarrow> execute_effect envs ad wk effect request fault (mark_ready (o_effect_id effect) (fst s), snd s))"

definition dispatch_checks :: "(string \<Rightarrow> string) \<Rightarrow> 'p adapter \<Rightarrow> workflow \<Rightarrow> outbox_row \<Rightarrow> db \<Rightarrow> dict res" where
  "dispatch_checks sha ad wk effect db =
     bindr (effect_envelope sha effect) (\<lambda>doc.
     bindr (assert_adapter_binding ad wk effect) (\<lambda>_.
     bindr (assert_persisted_step_binding effect doc db) (\<lambda>_. Inr doc)))"

definition dispatch ::
    "clock \<Rightarrow> 'p adapter \<Rightarrow> workflow \<Rightarrow> string \<Rightarrow> string option \<Rightarrow> db \<times> 'p \<Rightarrow> dispatch_result res \<times> db \<times> 'p" where
  "dispatch envs ad wk raw_id fault s =
     then_state (workflow_text raw_id, s) (\<lambda>effect_id s.
     if fault \<notin> set FAULTS then (Inl (ContractError ''unsupported fault point''), s)
     else
     then_state (require (fetch_one (\<lambda>e. o_effect_id e = effect_id) (outbox (fst s))) (NotFoundError ''outbox effect not found''), s) (\<lambda>effect s.
     case fetch_one (\<lambda>r. rc_effect_id r = effect_id) (receipts (fst s)) of
       Some receipt \<Rightarrow> (Inr (replayed_result receipt (rc_provider_receipt receipt \<noteq> None)), s)
     | None \<Rightarrow>
         then_state (dispatch_checks (sha256 (envs 0)) ad wk effect (fst s), s) (\<lambda>doc s.
         then_state (in_store (consume_effect (envs 0) effect_id) s) (\<lambda>_ s.
           reconcile_effect envs ad wk effect (envelope_request doc) fault s))))"

text \<open>\<open>recover_pending\<close>: the pending effects in order, each in a dispatch of its own; a denied authority
  closes the effect, any other failure ends the recovery.\<close>

definition pending_effects :: "int \<Rightarrow> db \<Rightarrow> outbox_row list" where
  "pending_effects limit db = sql_limit limit (sort_key (\<lambda>e. (o_created_at e, o_effect_id e))
     (filter (\<lambda>e. o_status e \<in> {''authorization_pending'', ''ready''}) (outbox db)))"

fun authorization_error :: "error \<Rightarrow> bool" where
  "authorization_error (AuthorizationError m) = True"
| "authorization_error e = False"

definition recover_effect ::
    "clock \<Rightarrow> 'p adapter \<Rightarrow> workflow \<Rightarrow> outbox_row \<Rightarrow> db \<times> 'p \<Rightarrow> dispatch_result res \<times> db \<times> 'p" where
  "recover_effect envs ad wk effect s =
     (case dispatch envs ad wk (o_effect_id effect) None s of
        (Inr result, s) \<Rightarrow> (Inr result, s)
      | (Inl error, s) \<Rightarrow>
          if authorization_error error then in_store (checkpoint_authorization_failure (envs 3) wk effect error) s
          else (Inl error, s))"

fun recover_effects ::
    "clock \<Rightarrow> 'p adapter \<Rightarrow> workflow \<Rightarrow> outbox_row list \<Rightarrow> db \<times> 'p \<Rightarrow> dispatch_result list res \<times> db \<times> 'p" where
  "recover_effects envs ad wk [] s = (Inr [], s)"
| "recover_effects envs ad wk (e # es) s =
     then_state (recover_effect envs ad wk e s) (\<lambda>r s.
     then_state (recover_effects (\<lambda>n. envs (n + 4)) ad wk es s) (\<lambda>rs s. (Inr (r # rs), s)))"

definition recover_pending ::
    "clock \<Rightarrow> 'p adapter \<Rightarrow> workflow \<Rightarrow> int \<Rightarrow> db \<times> 'p \<Rightarrow> dispatch_result list res \<times> db \<times> 'p" where
  "recover_pending envs ad wk limit s =
     (if limit < 1 then (Inl (ContractError ''limit must be a positive integer''), s)
      else recover_effects envs ad wk (pending_effects limit (fst s)) s)"

section \<open>What the operations leave alone\<close>

lemma in_store_Inr:
  "in_store f s = (Inr a, s') \<longleftrightarrow> (\<exists>db'. f (fst s) = Inr (a, db') \<and> s' = (db', snd s))"
  by (auto simp: in_store_def split: sum.splits)

lemma in_store_cases:
  "in_store f s = (x, s') \<Longrightarrow> (\<exists>e. x = Inl e \<and> s' = s) \<or> (\<exists>a db'. x = Inr a \<and> f (fst s) = Inr (a, db') \<and> s' = (db', snd s))"
  by (auto simp: in_store_def split: sum.splits)

text \<open>The tables of the workflow, and the Tasks its effects belong to.\<close>

definition effect_tables :: "db \<Rightarrow> outbox_row list \<times> receipt_row list \<times> step_row list \<times> task_row list" where
  "effect_tables db = (outbox db, receipts db, workflow_step_rows db, tasks db)"

lemma consume_effect_frame:
  assumes "consume_effect env i db = Inr (u, db')"
  shows "effect_tables db' = effect_tables db"
proof -
  have "effect_tables d' = effect_tables d" if "spend_grant env q who g d = Inr (v, d')" for q who g d d' v
    using that by (auto simp: spend_grant_def effect_tables_def bindr_eq_Inr draw_uuid_def Let_def append_event_Inr split: if_splits)
  then have "effect_tables d' = effect_tables d" if "consume_as_principal env who s q d = Inr (v, d')" for who s q d d' v
    using that by (fastforce simp: consume_as_principal_def bindr_eq_Inr split: option.splits)
  with assms show ?thesis by (fastforce simp: consume_effect_def bindr_eq_Inr)
qed

lemma close_effect_Inr:
  "close_effect env e st ref d f db = Inr db' \<longleftrightarrow>
     (\<forall>r \<in> set (receipts db). rc_receipt_id r \<noteq> uuid4 env (uuid_next db) \<and> rc_effect_id r \<noteq> o_effect_id e) \<and>
     db' = db\<lparr>uuid_next := Suc (uuid_next db), receipts := receipts db @ [\<lparr>rc_receipt_id = uuid4 env (uuid_next db),
        rc_effect_id = o_effect_id e, rc_status = st, rc_provider_receipt = ref, rc_result = JObj d,
        rc_result_digest = content_hash (sha256 env) (JObj d), rc_recorded_at = now env\<rparr>],
      outbox := update_where (\<lambda>x. o_effect_id x = o_effect_id e) f (outbox db),
      workflow_step_rows := update_where (\<lambda>w. ws_task_id w = o_task_id e \<and> ws_step_id w = o_step_id e)
            (\<lambda>w. w\<lparr>ws_status := st, ws_result := Some (JObj d), ws_completed_at := Some (now env)\<rparr>) (workflow_step_rows db)\<rparr>"
  by (auto simp: close_effect_def draw_uuid_def bindr_eq_Inr receipt_clash_def)

lemma retain_negative_frame: "retain_negative env e d db = Inr db' \<Longrightarrow> effect_tables db' = effect_tables db"
  by (auto simp: retain_negative_def effect_tables_def draw_uuid_def bindr_eq_Inr Let_def split: option.splits)

text \<open>A checkpoint finds the receipt, or adds the receipt of what it was given and changes no key of the outbox.\<close>

definition adds_receipt :: "outbox_row \<Rightarrow> string \<Rightarrow> string option \<Rightarrow> json \<Rightarrow> db \<Rightarrow> db \<Rightarrow> bool" where
  "adds_receipt e st ref v db db' \<longleftrightarrow> (\<forall>r \<in> set (receipts db). rc_effect_id r \<noteq> o_effect_id e) \<and>
     (\<exists>r. receipts db' = receipts db @ [r] \<and> rc_effect_id r = o_effect_id e \<and> rc_status r = st \<and>
        rc_provider_receipt r = ref \<and> rc_result r = v) \<and> map key_of (outbox db') = map key_of (outbox db)"

lemma key_of_updates [simp]:
  "key_of (e\<lparr>o_status := st\<rparr>) = key_of e" "key_of (e\<lparr>o_dispatched_at := t\<rparr>) = key_of e"
  "key_of (e\<lparr>o_reconciled_at := t\<rparr>) = key_of e" "key_of (e\<lparr>o_last_error := m\<rparr>) = key_of e"
  by (simp_all add: key_of_def)

lemma keys_update_where: "(\<And>e. key_of (f e) = key_of e) \<Longrightarrow> map key_of (update_where P f rows) = map key_of rows"
  by (induction rows) (auto simp: update_where_def)

lemma checkpoint_Inr:
  assumes "checkpoint env wk e r db = Inr (d, db')"
  shows "(\<exists>prior \<in> set (receipts db). rc_effect_id prior = o_effect_id e \<and> db' = db \<and> d = replayed_result prior (ad_replayed r)) \<or>
     adds_receipt e (ad_status r) (ad_provider_receipt r) (JObj (result_fields (ad_result r))) db db' \<and>
     d = \<lparr>dr_effect_id = o_effect_id e, dr_status = ad_status r, dr_provider_receipt = ad_provider_receipt r,
          dr_result = JObj (result_fields (ad_result r)), dr_provider_replayed = ad_replayed r, dr_checkpoint_replayed = False\<rparr>"
  using assms
  by (fastforce simp: checkpoint_def adds_receipt_def draw_uuid_def bindr_eq_Inr Let_def append_event_Inr close_effect_Inr keys_update_where
      effect_tables_def split: option.splits if_splits dest: retain_negative_frame fetch_one_SomeD)

lemma denial_Inr:
  assumes "checkpoint_authorization_failure env wk e err db = Inr (d, db')"
  shows "(\<exists>prior \<in> set (receipts db). rc_effect_id prior = o_effect_id e \<and> db' = db \<and>
       d = replayed_result prior (rc_provider_receipt prior \<noteq> None)) \<or>
     adds_receipt e ''failed'' None (JObj (denial (sha256 env) err)) db db' \<and>
     d = \<lparr>dr_effect_id = o_effect_id e, dr_status = ''failed'', dr_provider_receipt = None,
          dr_result = JObj (denial (sha256 env) err), dr_provider_replayed = False, dr_checkpoint_replayed = False\<rparr>"
  using assms
  by (fastforce simp: checkpoint_authorization_failure_def adds_receipt_def draw_uuid_def bindr_eq_Inr Let_def append_event_Inr close_effect_Inr
      keys_update_where effect_tables_def split: option.splits dest: retain_negative_frame fetch_one_SomeD)

section \<open>Receipts tell the truth\<close>

text \<open>A receipt is backed when its outcome is the durable one of its effect, or when it states a denied authority.\<close>

definition states_denial :: "receipt_row \<Rightarrow> bool" where
  "states_denial r \<longleftrightarrow> rc_status r = ''failed'' \<and> rc_provider_receipt r = None \<and>
     map_of (result_fields (rc_result r)) ''authorization_outcome'' = Some (JStr ''denied'')"

definition receipt_backed :: "('p \<Rightarrow> 'k \<Rightarrow> outcome option) \<Rightarrow> (effect_key \<Rightarrow> 'k) \<Rightarrow> db \<times> 'p \<Rightarrow> receipt_row \<Rightarrow> bool" where
  "receipt_backed durable slot s r \<longleftrightarrow> states_denial r \<or>
     (\<exists>k \<in> set (map key_of (outbox (fst s))). ek_effect_id k = rc_effect_id r \<and>
        durable (snd s) (slot k) = Some (rc_effect_id r, ek_request_digest k, rc_provider_receipt r, rc_status r, rc_result r))"

text \<open>What a run keeps: receipts, keys of the outbox and durable effects.\<close>

definition grown :: "('p \<Rightarrow> 'k \<Rightarrow> outcome option) \<Rightarrow> db \<times> 'p \<Rightarrow> db \<times> 'p \<Rightarrow> bool" where
  "grown durable s s' \<longleftrightarrow> set (receipts (fst s)) \<subseteq> set (receipts (fst s')) \<and>
     set (map key_of (outbox (fst s))) \<subseteq> set (map key_of (outbox (fst s'))) \<and>
     (\<forall>k v. durable (snd s) k = Some v \<longrightarrow> durable (snd s') k = Some v)"

definition truthful :: "('p \<Rightarrow> 'k \<Rightarrow> outcome option) \<Rightarrow> (effect_key \<Rightarrow> 'k) \<Rightarrow> db \<times> 'p \<Rightarrow> bool" where
  "truthful durable slot s \<longleftrightarrow> distinct (map rc_effect_id (receipts (fst s))) \<and>
     (\<forall>r \<in> set (receipts (fst s)). receipt_backed durable slot s r)"

lemma grown_refl [simp]: "grown durable s s"
  by (simp add: grown_def)

lemma grown_trans [trans]: "grown durable a b \<Longrightarrow> grown durable b c \<Longrightarrow> grown durable a c"
  unfolding grown_def by blast

lemma backed_grown: "receipt_backed durable slot s r \<Longrightarrow> grown durable s s' \<Longrightarrow> receipt_backed durable slot s' r"
  unfolding receipt_backed_def grown_def by blast

text \<open>A step of the workflow is good when it keeps both; its result, if any, is that of a receipt.\<close>

definition reports :: "db \<Rightarrow> dispatch_result \<Rightarrow> bool" where
  "reports db d \<longleftrightarrow> (\<exists>r \<in> set (receipts db). rc_effect_id r = dr_effect_id d \<and> rc_status r = dr_status d \<and>
     rc_provider_receipt r = dr_provider_receipt d \<and> rc_result r = dr_result d)"

definition good_step :: "('p \<Rightarrow> 'k \<Rightarrow> outcome option) \<Rightarrow> (effect_key \<Rightarrow> 'k) \<Rightarrow> db \<times> 'p \<Rightarrow> db \<times> 'p \<Rightarrow> bool" where
  "good_step durable slot s s' \<longleftrightarrow> grown durable s s' \<and> (truthful durable slot s \<longrightarrow> truthful durable slot s')"

lemma good_step_refl [simp]: "good_step durable slot s s"
  by (simp add: good_step_def)

lemma good_step_trans [trans]: "good_step durable slot a b \<Longrightarrow> good_step durable slot b c \<Longrightarrow> good_step durable slot a c"
  unfolding good_step_def by (blast intro: grown_trans)

lemma good_step_same:
  assumes "receipts (fst s') = receipts (fst s)" "set (map key_of (outbox (fst s))) \<subseteq> set (map key_of (outbox (fst s')))"
    and "\<And>k v. durable (snd s) k = Some v \<Longrightarrow> durable (snd s') k = Some v"
  shows "good_step durable slot s s'"
proof -
  have g: "grown durable s s'" using assms by (auto simp: grown_def)
  then show ?thesis using assms(1) by (auto simp: good_step_def truthful_def intro: backed_grown)
qed

lemma good_step_receipt:
  assumes "adds_receipt e st ref v db db'" "key_of e \<in> set (map key_of (outbox db))"
    and "durable p (slot (key_of e)) = Some (o_effect_id e, o_request_digest e, ref, st, v) \<or>
      st = ''failed'' \<and> ref = None \<and> map_of (result_fields v) ''authorization_outcome'' = Some (JStr ''denied'')"
  shows "good_step durable slot (db, p) (db', p)"
proof -
  from assms(1) obtain r where r: "receipts db' = receipts db @ [r]" "rc_effect_id r = o_effect_id e" "rc_status r = st"
      "rc_provider_receipt r = ref" "rc_result r = v" "\<forall>x \<in> set (receipts db). rc_effect_id x \<noteq> o_effect_id e"
    and k: "map key_of (outbox db') = map key_of (outbox db)" by (auto simp: adds_receipt_def)
  have g: "grown durable (db, p) (db', p)" using r(1) by (auto simp: grown_def k)
  have "ek_effect_id (key_of e) = o_effect_id e \<and> ek_request_digest (key_of e) = o_request_digest e" by (simp add: key_of_def)
  moreover have "key_of e \<in> set (map key_of (outbox db'))" using assms(2) by (simp only: k)
  ultimately have "receipt_backed durable slot (db', p) r"
    using assms(3) r unfolding receipt_backed_def states_denial_def by fastforce
  with g r show ?thesis by (auto simp: good_step_def truthful_def intro: backed_grown)
qed

context idempotent_adapter
begin

lemma checkpoint_good:
  assumes "checkpoint env wk e r db = Inr (d, db')" "assert_receipt_binding wk e r = Inr ()" "key_of e \<in> set (map key_of (outbox db))"
    and "durable p (slot (key_of e)) = Some (outcome_of r)"
  shows "good_step durable slot (db, p) (db', p) \<and> reports db' d \<and> dr_effect_id d = o_effect_id e"
proof -
  from assms(2) obtain fs where b: "ad_effect_id r = o_effect_id e" "ad_request_digest r = o_request_digest e" "ad_result r = JObj fs"
    by (auto simp: assert_receipt_binding_def receipt_names_def split: if_splits json.splits)
  then have o: "outcome_of r = (o_effect_id e, o_request_digest e, ad_provider_receipt r, ad_status r, JObj fs)"
    by (simp add: outcome_of_def)
  from checkpoint_Inr [OF assms(1)] show ?thesis
  proof (elim disjE bexE conjE)
    assume "adds_receipt e (ad_status r) (ad_provider_receipt r) (JObj (result_fields (ad_result r))) db db'"
      "d = \<lparr>dr_effect_id = o_effect_id e, dr_status = ad_status r, dr_provider_receipt = ad_provider_receipt r,
          dr_result = JObj (result_fields (ad_result r)), dr_provider_replayed = ad_replayed r, dr_checkpoint_replayed = False\<rparr>"
    then show ?thesis
      using good_step_receipt [of e _ _ _ db db' durable p slot] assms(3, 4) o b
      by (auto simp: reports_def adds_receipt_def result_fields_def)
  qed (auto simp: reports_def replayed_result_def)
qed

text \<open>Every dispatch is good.\<close>

lemma execute_effect_good:
  assumes "execute_effect envs ad wk e q f s = (x, s')" "key_of e \<in> set (map key_of (outbox (fst s)))"
  shows "good_step durable slot s s' \<and> (\<forall>d. x = Inr d \<longrightarrow> reports (fst s') d \<and> dr_effect_id d = o_effect_id e)"
proof (cases "f = Some ''before_effect''")
  case False
  obtain y p where y: "wa_execute ad (envs 1) (key_of e) q (snd s) = (y, p)" by fastforce
  have g: "good_step durable slot s (fst s, p)"
    by (rule good_step_same) (auto dest: execute_keeps [OF y])
  show ?thesis
  proof (cases y)
    case (Inr r)
    show ?thesis
    proof (cases "assert_receipt_binding wk e r = Inr () \<and> f \<noteq> Some ''after_effect_before_checkpoint''")
      case True
      from execute_durable [OF y [unfolded Inr]] have d: "durable p (slot (key_of e)) = Some (outcome_of r)" .
      obtain z t where z: "in_store (checkpoint (envs 2) wk e r) (fst s, p) = (z, t)" by (rule prod.exhaust)
      from in_store_cases [OF z] show ?thesis
      proof (elim disjE exE conjE)
        fix res db' assume c: "z = Inr res" "checkpoint (envs 2) wk e r (fst (fst s, p)) = Inr (res, db')" "t = (db', snd (fst s, p))"
        from checkpoint_good [OF c(2) [simplified] _ _ d] True assms(2)
        have "good_step durable slot (fst s, p) (db', p) \<and> reports db' res \<and> dr_effect_id res = o_effect_id e" by auto
        with g have "good_step durable slot s (db', p) \<and> reports db' res \<and> dr_effect_id res = o_effect_id e"
          using good_step_trans by blast
        then show ?thesis
          using assms(1) True False z c y Inr by (auto simp: execute_effect_def split: if_splits)
      qed (use assms(1) True False z y Inr g in \<open>auto simp: execute_effect_def split: if_splits\<close>)
    qed (use assms(1) False y Inr g in \<open>auto simp: execute_effect_def then_state_def split: if_splits sum.splits\<close>)
  qed (use assms(1) False y g in \<open>auto simp: execute_effect_def\<close>)
qed (use assms(1) in \<open>auto simp: execute_effect_def\<close>)

end

text \<open>Reconciliation.\<close>

lemma mark_ready_keys: "map key_of (outbox (mark_ready i db)) = map key_of (outbox db)" "receipts (mark_ready i db) = receipts db"
  by (simp_all add: mark_ready_def keys_update_where)

lemma consume_keys:
  "in_store (consume_effect env i) s = (x, s') \<Longrightarrow> outbox (fst s') = outbox (fst s) \<and> receipts (fst s') = receipts (fst s) \<and> snd s' = snd s"
  by (auto simp: effect_tables_def dest!: in_store_cases consume_effect_frame)

lemma key_of_member: "e \<in> set rows \<Longrightarrow> key_of e \<in> set (map key_of rows)"
  by simp

lemma reports_replayed: "r \<in> set (receipts db) \<Longrightarrow> reports db (replayed_result r b)"
  by (auto simp: reports_def replayed_result_def)

lemma replayed_id: "dr_effect_id (replayed_result r b) = rc_effect_id r"
  by (simp add: replayed_result_def)

text \<open>The branches of a dispatch.\<close>

lemma dispatch_cases:
  assumes "dispatch envs ad wk i f s = (x, s')"
  shows "(\<exists>e. x = Inl e \<and> s' = s) \<or>
    (\<exists>r \<in> set (receipts (fst s)). rc_effect_id r = strip i \<and> x = Inr (replayed_result r (rc_provider_receipt r \<noteq> None)) \<and> s' = s) \<or>
    (\<exists>e \<in> set (outbox (fst s)). o_effect_id e = strip i \<and> (\<forall>r \<in> set (receipts (fst s)). rc_effect_id r \<noteq> strip i) \<and>
       fetch_one (\<lambda>e. o_effect_id e = strip i) (outbox (fst s)) = Some e \<and>
       (\<exists>doc u t. dispatch_checks (sha256 (envs 0)) ad wk e (fst s) = Inr doc \<and>
          in_store (consume_effect (envs 0) (strip i)) s = (Inr u, t) \<and>
          reconcile_effect envs ad wk e (envelope_request doc) f t = (x, s')))"
proof (cases "non_blank i \<and> f \<in> set FAULTS")
  case True
  then have w: "workflow_text i = Inr (strip i)" "f \<in> set FAULTS" by (simp_all add: workflow_text_def text_field_def)
  note d = assms [unfolded dispatch_def w(1) then_state_simps]
  show ?thesis
  proof (cases "fetch_one (\<lambda>e. o_effect_id e = strip i) (outbox (fst s))")
    case None
    with d w(2) show ?thesis by (auto simp: require_def)
  next
    case (Some e)
    note found = this and e = fetch_one_SomeD [OF Some]
    show ?thesis
    proof (cases "fetch_one (\<lambda>r. rc_effect_id r = strip i) (receipts (fst s))")
      case (Some r)
      with d w(2) \<open>fetch_one (\<lambda>e. o_effect_id e = strip i) (outbox (fst s)) = Some e\<close> show ?thesis
        by (auto dest!: fetch_one_SomeD)
    next
      case None
      then have no: "\<forall>r \<in> set (receipts (fst s)). rc_effect_id r \<noteq> strip i" by simp
      obtain y t where c: "in_store (consume_effect (envs 0) (strip i)) s = (y, t)" by (rule prod.exhaust)
      from d w(2) \<open>fetch_one (\<lambda>e. o_effect_id e = strip i) (outbox (fst s)) = Some e\<close> None
      have d: "then_state (dispatch_checks (sha256 (envs 0)) ad wk e (fst s), s) (\<lambda>doc s.
           then_state (in_store (consume_effect (envs 0) (strip i)) s) (\<lambda>_ s.
             reconcile_effect envs ad wk e (envelope_request doc) f s)) = (x, s')" by simp
      show ?thesis
      proof (cases "dispatch_checks (sha256 (envs 0)) ad wk e (fst s)")
        case (Inr doc)
        note checks = this
        show ?thesis
        proof (cases y)
          case (Inl err)
          with d checks c in_store_cases [OF c] show ?thesis by auto
        next
          case (Inr u)
          with d checks c e no found show ?thesis by auto
        qed
      qed (use d in auto)
    qed
  qed
next
  case False
  with assms show ?thesis by (auto simp: dispatch_def workflow_text_def text_field_def then_state_def split: if_splits)
qed

context idempotent_adapter
begin

lemma reconcile_effect_good:
  assumes "reconcile_effect envs ad wk e q f s = (x, s')" "key_of e \<in> set (map key_of (outbox (fst s)))"
  shows "good_step durable slot s s' \<and> (\<forall>d. x = Inr d \<longrightarrow> reports (fst s') d \<and> dr_effect_id d = o_effect_id e)"
proof (cases "wa_lookup ad (key_of e) (snd s)")
  case (Inr found)
  show ?thesis
  proof (cases found)
    case None
    let ?s = "(mark_ready (o_effect_id e) (fst s), snd s)"
    have "execute_effect envs ad wk e q f ?s = (x, s')"
      using assms(1) Inr None by (simp add: reconcile_effect_def)
    moreover have "key_of e \<in> set (map key_of (outbox (fst ?s)))" using assms(2) by (simp only: fst_conv mark_ready_keys)
    ultimately have "good_step durable slot ?s s' \<and> (\<forall>d. x = Inr d \<longrightarrow> reports (fst s') d \<and> dr_effect_id d = o_effect_id e)"
      by (rule execute_effect_good)
    moreover have "good_step durable slot s ?s" by (rule good_step_same) (simp_all only: fst_conv snd_conv mark_ready_keys)
    ultimately show ?thesis using good_step_trans by blast
  next
    case (Some r)
    from lookup_found [OF Inr [unfolded Some]] have d: "durable (snd s) (slot (key_of e)) = Some (outcome_of r)" .
    show ?thesis
    proof (cases "assert_receipt_binding wk e r")
      case (Inr u)
      with assms(1) \<open>wa_lookup ad (key_of e) (snd s) = Inr found\<close> Some
      have c: "in_store (checkpoint (envs 2) wk e r) s = (x, s')" by (simp add: reconcile_effect_def)
      from in_store_cases [OF c] show ?thesis
        using checkpoint_good [OF _ _ assms(2) d] Inr by (cases s) auto
    qed (use assms(1) \<open>wa_lookup ad (key_of e) (snd s) = Inr found\<close> Some in \<open>auto simp: reconcile_effect_def\<close>)
  qed
qed (use assms(1) in \<open>auto simp: reconcile_effect_def\<close>)

lemma dispatch_good:
  assumes "dispatch envs ad wk i f s = (x, s')"
  shows "good_step durable slot s s' \<and> (\<forall>d. x = Inr d \<longrightarrow> reports (fst s') d \<and> dr_effect_id d = strip i)"
proof -
  consider (failed) e where "x = Inl e" "s' = s"
    | (replayed) r where "r \<in> set (receipts (fst s))" "rc_effect_id r = strip i"
        "x = Inr (replayed_result r (rc_provider_receipt r \<noteq> None))" "s' = s"
    | (sent) e doc u t where "e \<in> set (outbox (fst s))" "o_effect_id e = strip i"
        "in_store (consume_effect (envs 0) (strip i)) s = (Inr u, t)"
        "reconcile_effect envs ad wk e (envelope_request doc) f t = (x, s')"
    using dispatch_cases [OF assms] by blast
  then show ?thesis
  proof cases
    case sent
    from consume_keys [OF sent(3)] have k: "outbox (fst t) = outbox (fst s)" "receipts (fst t) = receipts (fst s)" "snd t = snd s" by auto
    have "good_step durable slot s t" by (rule good_step_same) (simp_all add: k)
    moreover have "key_of e \<in> set (map key_of (outbox (fst t)))" unfolding k using sent(1) by (rule key_of_member)
    ultimately show ?thesis
      using reconcile_effect_good [OF sent(4)] sent(2) good_step_trans by metis
  next
    case replayed
    then show ?thesis by (auto simp: replayed_id intro: reports_replayed)
  qed auto
qed

lemma denial_good:
  assumes "in_store (checkpoint_authorization_failure env wk e err) s = (x, s')" "key_of e \<in> set (map key_of (outbox (fst s)))"
  shows "good_step durable slot s s'"
proof -
  have den: "map_of (result_fields (JObj (denial sha err))) ''authorization_outcome'' = Some (JStr ''denied'')" for sha
    by (simp add: denial_def result_fields_def Let_def)
  from in_store_cases [OF assms(1)] show ?thesis
    using good_step_receipt [OF _ assms(2), of "''failed''" None _ _ durable "snd s" slot] den
    by (cases s) (auto dest!: denial_Inr)
qed

lemma grown_key: "grown durable s s' \<Longrightarrow> k \<in> set (map key_of (outbox (fst s))) \<Longrightarrow> k \<in> set (map key_of (outbox (fst s')))"
  by (auto simp: grown_def)

lemma recover_effect_good:
  assumes "recover_effect envs ad wk e s = (x, s')" "key_of e \<in> set (map key_of (outbox (fst s)))"
  shows "good_step durable slot s s'"
proof -
  obtain y t where y: "dispatch envs ad wk (o_effect_id e) None s = (y, t)" by (rule prod.exhaust)
  have g: "good_step durable slot s t" using dispatch_good [OF y] by blast
  then have "key_of e \<in> set (map key_of (outbox (fst t)))" using grown_key assms(2) unfolding good_step_def by blast
  with g assms(1) y show ?thesis
    by (cases y) (auto simp: recover_effect_def simp del: set_map split: if_splits dest!: denial_good intro: good_step_trans)
qed

lemma recover_effects_good:
  "recover_effects envs ad wk es s = (x, s') \<Longrightarrow> set (map key_of es) \<subseteq> set (map key_of (outbox (fst s))) \<Longrightarrow> good_step durable slot s s'"
proof (induction es arbitrary: envs s x s')
  case (Cons e es)
  obtain y t where y: "recover_effect envs ad wk e s = (y, t)" by (rule prod.exhaust)
  have g: "good_step durable slot s t" using recover_effect_good [OF y] Cons.prems(2) by simp
  have k: "set (map key_of es) \<subseteq> set (map key_of (outbox (fst t)))"
  proof -
    have "set (map key_of es) \<subseteq> set (map key_of (outbox (fst s)))" using Cons.prems(2) by simp
    also have "\<dots> \<subseteq> set (map key_of (outbox (fst t)))" using g unfolding good_step_def grown_def by blast
    finally show ?thesis .
  qed
  obtain z u where z: "recover_effects (\<lambda>n. envs (n + 4)) ad wk es t = (z, u)" by (rule prod.exhaust)
  from Cons.IH [OF z k] g Cons.prems(1) y z show ?case
    by (auto simp: then_state_def split: sum.splits intro: good_step_trans)
qed simp

lemma pending_members: "set (pending_effects limit db) \<subseteq> set (outbox db)"
  by (auto simp: pending_effects_def sql_limit_def dest: in_set_takeD)

lemma recover_pending_good: "recover_pending envs ad wk limit s = (x, s') \<Longrightarrow> good_step durable slot s s'"
proof -
  assume "recover_pending envs ad wk limit s = (x, s')"
  moreover have "set (map key_of (pending_effects limit (fst s))) \<subseteq> set (map key_of (outbox (fst s)))"
    using image_mono [OF pending_members [of limit "fst s"], of key_of] by simp
  ultimately show ?thesis by (auto simp: recover_pending_def simp del: set_map split: if_splits dest: recover_effects_good)
qed

end

text \<open>The life of a workflow: its own operations, the other services, and the other clients of the adapter.\<close>

inductive workflow_step :: "'p adapter \<Rightarrow> db \<times> 'p \<Rightarrow> db \<times> 'p \<Rightarrow> bool" for ad where
  enqueued: "enqueue env wk q db = Inr (r, db') \<Longrightarrow> workflow_step ad (db, p) (db', p)"
| dispatched: "dispatch envs ad wk i f s = (x, s') \<Longrightarrow> workflow_step ad s s'"
| recovered: "recover_pending envs ad wk limit s = (x, s') \<Longrightarrow> workflow_step ad s s'"
| other_service: "outbox db' = outbox db \<Longrightarrow> receipts db' = receipts db \<Longrightarrow> workflow_step ad (db, p) (db', p)"
| other_client: "wa_execute ad env k q p = (x, p') \<Longrightarrow> workflow_step ad (db, p) (db, p')"

lemma enqueue_Inr:
  assumes "enqueue env wk q db = Inr (r, db')"
  shows "\<exists>q' cap i db1. clean_enqueue env wk q db = Inr (q', cap, i, db1) \<and>
    (db' = db1 \<or> (\<exists>task run_id dg p sid. insert_effect env wk q' task run_id dg i p sid db1 = Inr (r, db')))"
  using assms
  apply (simp add: enqueue_def bindr_eq_Inr Let_def)
  apply (elim exE conjE)
  apply (auto simp: bindr_eq_Inr split: if_split_asm option.split_asm)
  done

lemma clean_enqueue_frame:
  "clean_enqueue env wk q d = Inr (q', c, i, d') \<Longrightarrow> outbox d' = outbox d \<and> receipts d' = receipts d"
  by (auto simp: clean_enqueue_def bindr_eq_Inr fresh_id_def draw_uuid_def Let_def split: if_split_asm option.split_asm prod.split_asm)

lemma insert_effect_frame:
  "insert_effect env wk q t ri dg ei p si d = Inr (x, d') \<Longrightarrow> receipts d' = receipts d \<and> set (outbox d) \<subseteq> set (outbox d')"
  by (auto simp: insert_effect_def bindr_eq_Inr draw_uuid_def Let_def append_event_Inr split: if_split_asm)

lemma enqueue_frame:
  "enqueue env wk q db = Inr (r, db') \<Longrightarrow> receipts db' = receipts db \<and> set (outbox db) \<subseteq> set (outbox db')"
  by (drule enqueue_Inr) (auto dest!: clean_enqueue_frame insert_effect_frame)

context idempotent_adapter
begin

lemma workflow_step_good: "workflow_step ad s s' \<Longrightarrow> good_step durable slot s s'"
proof (induction rule: workflow_step.induct)
  case (enqueued env wk q db r db' p)
  from enqueue_frame [OF enqueued] show ?case by (intro good_step_same) auto
next
  case (dispatched envs wk i f s x s')
  with dispatch_good show ?case by blast
next
  case (other_client env k q p x p' db)
  show ?case by (rule good_step_same) (auto dest: execute_keeps [OF other_client])
qed (auto intro: recover_pending_good good_step_same)

lemma workflow_run_good: "(workflow_step ad)\<^sup>*\<^sup>* s s' \<Longrightarrow> good_step durable slot s s'"
  by (induction rule: rtranclp_induct) (auto intro: workflow_step_good good_step_trans)

lemma workflow_truthful:
  "(workflow_step ad)\<^sup>*\<^sup>* (db0, p0) s \<Longrightarrow> receipts db0 = [] \<Longrightarrow> truthful durable slot s"
  using workflow_run_good [of "(db0, p0)" s] by (auto simp: good_step_def truthful_def)

text \<open>Once a dispatch has returned, its result is final and the adapter is not called again.\<close>

lemma dispatch_final:
  assumes "(workflow_step ad)\<^sup>*\<^sup>* (db0, p0) s" "receipts db0 = []" "dispatch envs ad wk i f s = (Inr d, s1)"
    and "(workflow_step ad)\<^sup>*\<^sup>* s1 s2" "f' \<in> set FAULTS" "fetch_one (\<lambda>e. o_effect_id e = strip i) (outbox (fst s2)) \<noteq> None"
  shows "dispatch envs' ad wk' i f' s2 =
    (Inr (d\<lparr>dr_provider_replayed := (dr_provider_receipt d \<noteq> None), dr_checkpoint_replayed := True\<rparr>), s2)"
proof -
  have t: "truthful durable slot s1"
    using workflow_truthful [OF assms(1, 2)] dispatch_good [OF assms(3)] by (simp add: good_step_def)
  from dispatch_good [OF assms(3)] obtain r where r: "r \<in> set (receipts (fst s1))" "rc_effect_id r = strip i"
      "dr_effect_id d = strip i" "rc_status r = dr_status d" "rc_provider_receipt r = dr_provider_receipt d" "rc_result r = dr_result d"
    by (auto simp: reports_def)
  from workflow_run_good [OF assms(4)] t r(1) have r2: "r \<in> set (receipts (fst s2))" "distinct (map rc_effect_id (receipts (fst s2)))"
    by (auto simp: good_step_def grown_def truthful_def)
  have w: "workflow_text i = Inr (strip i)"
    using assms(3) by (auto simp: dispatch_def workflow_text_def text_field_def then_state_def split: if_splits)
  have f: "fetch_one (\<lambda>r. rc_effect_id r = strip i) (receipts (fst s2)) = Some r"
    using fetch_one_key [OF r2(2, 1)] r(2) by simp
  obtain e where "fetch_one (\<lambda>e. o_effect_id e = strip i) (outbox (fst s2)) = Some e" using assms(6) by (metis option.exhaust)
  then show ?thesis
    using assms(5) r by (simp add: dispatch_def w f replayed_result_def)
qed

end

text \<open>C7. Receipts tell the truth: whatever crashes, repeated dispatches, recoveries and other clients there
  were, a receipt that names a provider receipt is the outcome that the provider holds for that very effect.\<close>

theorem receipts_are_backed:
  assumes "(workflow_step (fake_adapter c))\<^sup>*\<^sup>* (db0, p0) s" "receipts db0 = []"
    and "r \<in> set (receipts (fst s))" "rc_provider_receipt r = Some ref"
  shows "\<exists>e \<in> set (outbox (fst s)). \<exists>row \<in> set (pv_rows (snd s)). o_effect_id e = rc_effect_id r \<and>
    px_project_id row = strip (o_project_id e) \<and> px_idempotency_key row = o_idempotency_key e \<and>
    px_effect_id row = rc_effect_id r \<and> px_request_digest row = o_request_digest e \<and>
    px_provider_receipt row = ref \<and> px_status row = rc_status r \<and> px_result row = rc_result r"
proof -
  from fake.workflow_truthful [OF assms(1, 2)] assms(3) have "receipt_backed fake_durable fake_slot s r" by (auto simp: truthful_def)
  with assms(4) obtain e where "e \<in> set (outbox (fst s))" "o_effect_id e = rc_effect_id r"
      "fake_durable (snd s) (fake_slot (key_of e)) = Some (rc_effect_id r, o_request_digest e, Some ref, rc_status r, rc_result r)"
    by (auto simp: receipt_backed_def states_denial_def key_of_def)
  then show ?thesis
    by (fastforce simp: fake_durable_def fake_slot_def key_of_def find_prior_def dest!: fetch_one_SomeD)
qed

text \<open>C19. A reconciled effect is final: once a dispatch of an effect has returned, every later dispatch of it,
  after whatever else the workflow, the services and other clients did, returns the same outcome, changes
  nothing, and does not reach the provider.\<close>

theorem reconciled_effect_final:
  assumes "(workflow_step (fake_adapter c))\<^sup>*\<^sup>* (db0, p0) s" "receipts db0 = []"
    and "dispatch envs (fake_adapter c) wk i f s = (Inr d, s1)" "(workflow_step (fake_adapter c))\<^sup>*\<^sup>* s1 s2"
    and "f' \<in> set FAULTS" "\<exists>e \<in> set (outbox (fst s2)). o_effect_id e = strip i"
  shows "dispatch envs' (fake_adapter c) wk' i f' s2 =
    (Inr (d\<lparr>dr_provider_replayed := (dr_provider_receipt d \<noteq> None), dr_checkpoint_replayed := True\<rparr>), s2)"
  using assms by (intro fake.dispatch_final) auto

section \<open>Recovery after a crash\<close>

text \<open>Identifiers and hashes that no row has yet.\<close>

definition fresh_ids :: "env \<Rightarrow> db \<Rightarrow> bool" where
  "fresh_ids env db \<longleftrightarrow> (\<forall>n \<ge> uuid_next db. uuid4 env n \<notin> e_event_id ` set (events db) \<and>
       uuid4 env n \<notin> rc_receipt_id ` set (receipts db) \<and> uuid4 env n \<notin> n_failure_id ` set (negative_results db)) \<and>
     (\<forall>e. e_event_id e \<notin> e_event_id ` set (events db) \<longrightarrow> sha256 env (hash_text e) \<notin> e_event_hash ` set (events db))"

lemma fold_max_le: "x \<in> set xs \<or> x \<le> a \<Longrightarrow> x \<le> fold max xs (a :: int)"
proof (induction xs arbitrary: a)
  case (Cons y xs)
  show ?case using Cons.prems Cons.IH [of "max y a"] by (auto simp: max.coboundedI1 max.coboundedI2)
qed simp

lemma current_version_bound:
  "e \<in> set rows \<Longrightarrow> e_aggregate_version e \<le> current_version (e_aggregate_type e) (e_aggregate_id e) rows"
  unfolding current_version_def by (rule fold_max_le) (auto simp: aggregate_events_def)

lemma fresh_event:
  assumes "fresh_ids env db" "e \<in> set (events db)" "events d = events db" "uuid_next db \<le> uuid_next d"
  shows "\<not> event_clash (new_event env d c auth) e"
proof -
  have "e_event_id (new_event env d c auth) \<notin> e_event_id ` set (events db)" using assms(1, 4) by (auto simp: fresh_ids_def)
  then have "e_event_hash (new_event env d c auth) \<notin> e_event_hash ` set (events db)" "uuid4 env (uuid_next d) \<noteq> e_event_id e"
    using assms(1, 2) by (auto simp: fresh_ids_def new_event_hash)
  moreover have "current_version (e_aggregate_type e) (e_aggregate_id e) (events db) + 1 \<noteq> e_aggregate_version e"
    using current_version_bound [OF assms(2)] by auto
  ultimately show ?thesis using assms(2, 3) by (auto simp: event_clash_def)
qed

lemma append_effect_event:
  assumes "fresh_ids env db"
  shows "\<exists>ev. append_event env (effect_event wk e ty who pl cmd (current_version ''effect'' (o_effect_id e) (events db)))
      (db\<lparr>uuid_next := Suc (uuid_next db)\<rparr>) = Inr (ev, db\<lparr>uuid_next := Suc (Suc (uuid_next db)), events := events db @ [ev]\<rparr>)"
proof -
  let ?c = "effect_event wk e ty who pl cmd (current_version ''effect'' (o_effect_id e) (events db))"
  have c: "c_aggregate_type ?c = ''effect''" "c_aggregate_id ?c = o_effect_id e" "c_causation_id ?c = None"
      "c_auth_context ?c = []" "c_expected_version ?c = current_version ''effect'' (o_effect_id e) (events db)"
    by (simp_all add: effect_event_def event_defaults_def)
  have "authorize_event env (db\<lparr>uuid_next := Suc (uuid_next db)\<rparr>) ?c = Inr []"
    by (simp add: authorize_event_def c CORE_HANDLERS_def PROTECTED_AGGREGATES_def PROTECTED_EVENT_HANDLERS_def)
  then show ?thesis
    using fresh_event [OF assms]
    by (intro exI [of _ "new_event env (db\<lparr>uuid_next := Suc (uuid_next db)\<rparr>) ?c []"]) (simp add: append_event_Inr c)
qed

text \<open>A result whose texts fit the columns of the failure ledger.\<close>

definition texts :: "dict \<Rightarrow> bool" where
  "texts d \<longleftrightarrow> (\<exists>m. get_or ''message'' JNull d = JStr m) \<and> (\<exists>c. get_or ''error_class'' (JStr ''UnknownFailure'') d = JStr c)"

lemma retain_negative_works:
  assumes "uuid4 env (uuid_next db) \<notin> n_failure_id ` set (negative_results db)" "texts d"
  shows "\<exists>db'. retain_negative env e d db = Inr db'"
proof -
  obtain c where c: "get_or ''error_class'' (JStr ''UnknownFailure'') d = JStr c" using assms(2) by (auto simp: texts_def)
  have n: "\<forall>r \<in> set (negative_results db). uuid4 env (uuid_next db) \<noteq> n_failure_id r" using assms(1) by auto
  show ?thesis
    unfolding retain_negative_def Let_def c draw_uuid_def prod.case
    by (rule option.exhaust [of "fetch_one (\<lambda>n. n_project_id n = o_project_id e \<and> n_task_id n = o_task_id e \<and>
          n_fingerprint n = content_hash (sha256 env) (JObj [(''adapter'', JStr (o_adapter e)), (''error_class'', JStr c),
            (''message'', get_or ''message'' (JStr []) d)])) (negative_results db)"])
      (simp_all add: insert_row_def del: fetch_one_None, use n in blast)
qed

lemma close_effect_works:
  assumes "fresh_ids env db" "\<forall>r \<in> set (receipts db). rc_effect_id r \<noteq> o_effect_id e"
    and "receipts d = receipts db" "uuid_next db \<le> uuid_next d"
  shows "\<exists>db'. close_effect env e st ref fs f d = Inr db' \<and> uuid_next db' = Suc (uuid_next d) \<and> negative_results db' = negative_results d"
proof -
  have "uuid4 env (uuid_next d) \<notin> rc_receipt_id ` set (receipts d)" using assms(1, 3, 4) by (simp add: fresh_ids_def)
  then have "\<forall>r \<in> set (receipts d). rc_receipt_id r \<noteq> uuid4 env (uuid_next d) \<and> rc_effect_id r \<noteq> o_effect_id e"
    using assms(2, 3) by (metis imageI)
  then show ?thesis by (simp add: close_effect_Inr)
qed

lemma checkpoint_works:
  assumes "fresh_ids env db" "\<forall>x \<in> set (receipts db). rc_effect_id x \<noteq> o_effect_id e"
    and "ad_status r = ''succeeded'' \<or> texts (result_fields (ad_result r))"
  shows "\<exists>d db'. checkpoint env wk e r db = Inr (d, db')"
proof -
  let ?d = "result_fields (ad_result r)"
  let ?pl = "[(''status'', JStr (ad_status r)), (''provider_receipt'', jopt (ad_provider_receipt r)),
      (''result_digest'', JStr (content_hash (sha256 env) (JObj ?d)))]"
  obtain ev where ev: "append_event env (effect_event wk e ''effect_reconciled'' (''adapter:'' @ o_adapter e) ?pl (uuid4 env (uuid_next db))
        (current_version ''effect'' (o_effect_id e) (events db))) (db\<lparr>uuid_next := Suc (uuid_next db)\<rparr>) =
      Inr (ev, db\<lparr>uuid_next := Suc (Suc (uuid_next db)), events := events db @ [ev]\<rparr>)"
    using append_effect_event [OF assms(1)] by blast
  let ?db = "db\<lparr>uuid_next := Suc (Suc (uuid_next db)), events := events db @ [ev]\<rparr>"
  have "\<exists>m. (if ad_status r \<noteq> ''succeeded'' then sql_text (get_or ''message'' JNull ?d) else Inr None) = Inr m"
    using assms(3) by (auto simp: texts_def)
  then obtain m where m: "(if ad_status r \<noteq> ''succeeded'' then sql_text (get_or ''message'' JNull ?d) else Inr None) = Inr m" by blast
  let ?f = "\<lambda>x. x\<lparr>o_status := ad_status r, o_dispatched_at := Some (now env), o_reconciled_at := Some (now env), o_last_error := m\<rparr>"
  obtain db3 where cl: "close_effect env e (ad_status r) (ad_provider_receipt r) ?d ?f ?db = Inr db3"
    and n: "uuid_next db3 = Suc (Suc (Suc (uuid_next db)))" "negative_results db3 = negative_results db"
    using close_effect_works [OF assms(1, 2), of ?db "ad_status r" "ad_provider_receipt r" ?d ?f] by auto
  have "\<exists>db4. (if ad_status r \<noteq> ''succeeded'' then retain_negative env e ?d db3 else Inr db3) = Inr db4"
  proof (cases "ad_status r = ''succeeded''")
    case False
    have "uuid4 env (uuid_next db3) \<notin> n_failure_id ` set (negative_results db3)" using assms(1) by (simp add: n fresh_ids_def)
    with False assms(3) retain_negative_works [of env db3 ?d] show ?thesis by simp
  qed simp
  then obtain db4 where "(if ad_status r \<noteq> ''succeeded'' then retain_negative env e ?d db3 else Inr db3) = Inr db4" by blast
  moreover have "fetch_one (\<lambda>x. rc_effect_id x = o_effect_id e) (receipts db) = None" using assms(2) by simp
  moreover have "events (db\<lparr>uuid_next := n\<rparr>) = events db" for n by simp
  ultimately show ?thesis
    unfolding checkpoint_def Let_def draw_uuid_def prod.case
    by (simp only: option.case ev prod.case bindr_Inr m cl) blast
qed

text \<open>What an execution of the fake provider that adds an effect returns, and a lookup after it.\<close>

definition sound_receipt :: "effect_key \<Rightarrow> adapter_receipt \<Rightarrow> bool" where
  "sound_receipt k r \<longleftrightarrow> receipt_names r = (ADAPTER_ID, strip (ek_project_id k), ek_idempotency_key k, ek_effect_id k, ek_request_digest k) \<and>
     ad_closed r \<and> ad_status r \<in> {''succeeded'', ''failed''} \<and> ad_provider_receipt r \<noteq> None \<and>
     (\<exists>d. ad_result r = JObj d \<and> (ad_status r = ''succeeded'' \<or> texts d))"

lemma provider_outcome_sound:
  "provider_outcome c sha i q = (st, d) \<Longrightarrow> st \<in> {''succeeded'', ''failed''} \<and> (st = ''succeeded'' \<or> texts d)"
  by (auto simp: provider_outcome_def texts_def get_or_def Let_def split: if_splits)

lemma fake_execute_adds:
  assumes "fake_execute c env k q p = (x, p')" "p' \<noteq> p"
  shows "\<exists>r. x = Inr r \<and> sound_receipt k r \<and> fake_lookup k p' = Inr (Some (r\<lparr>ad_replayed := True\<rparr>))"
proof -
  let ?pr = "strip (ek_project_id k)" and ?row = "provider_row c env (strip (ek_project_id k)) k q p"
  from assms obtain r where x: "x = Inr r" "execute_work c env k q p = Inr (r, p')"
    by (auto simp: fake_execute_def split: sum.splits)
  with assms(2) have n: "find_prior ?pr (ek_idempotency_key k) p = None" and b: "non_blank (ek_project_id k)"
    and r: "provider_receipt ?row ?pr k False = Inr r" and p: "p' = \<lparr>pv_rows = pv_rows p @ [?row], pv_uuid_next = Suc (pv_uuid_next p)\<rparr>"
    by (auto simp: execute_work_Inr split: option.splits)
  obtain st d where o: "provider_outcome c (sha256 env) (ek_effect_id k) q = (st, d)" by (rule prod.exhaust)
  have "px_status ?row = st" "px_result ?row = JObj d" by (simp_all add: provider_row_def o Let_def)
  then have "sound_receipt k r"
    using r provider_outcome_sound [OF o] by (auto simp: provider_receipt_Inr sound_receipt_def receipt_names_def)
  moreover have "fake_lookup k p' = Inr (Some (r\<lparr>ad_replayed := True\<rparr>))"
    using r b find_prior_snoc [OF n provider_row_keys(1, 2)]
    by (auto simp: fake_lookup_Inr p provider_receipt_Inr)
  ultimately show ?thesis using x(1) by blast
qed

lemma sound_binding:
  assumes "sound_receipt (key_of e) r" "wf_adapter_id wk = ADAPTER_ID" "strip (o_project_id e) = o_project_id e"
  shows "assert_receipt_binding wk e (r\<lparr>ad_replayed := b\<rparr>) = Inr ()"
  using assms by (auto simp: sound_receipt_def assert_receipt_binding_def receipt_names_def key_of_def)

lemma key_of_projections: "key_of e = key_of e' \<Longrightarrow> o_project_id e = o_project_id e' \<and> o_effect_id e = o_effect_id e' \<and>
    o_request_digest e = o_request_digest e' \<and> o_idempotency_key e = o_idempotency_key e'"
  by (simp add: key_of_def)

text \<open>The state a dispatch leaves that failed after the provider had executed its effect.\<close>

lemma failed_after_effect:
  assumes "dispatch envs (fake_adapter c) wk i f s = (Inl err, s1)" "snd s1 \<noteq> snd s"
    and "\<forall>e \<in> set (outbox (fst s)). strip (o_project_id e) = o_project_id e"
  shows "\<exists>e doc r db. e \<in> set (outbox (fst s)) \<and> o_effect_id e = strip i \<and> (\<forall>x \<in> set (receipts (fst s)). rc_effect_id x \<noteq> strip i) \<and>
     fetch_one (\<lambda>e. o_effect_id e = strip i) (outbox (fst s)) = Some e \<and>
     dispatch_checks (sha256 (envs 0)) (fake_adapter c) wk e (fst s) = Inr doc \<and> wf_adapter_id wk = ADAPTER_ID \<and>
     sound_receipt (key_of e) r \<and> fake_lookup (key_of e) (snd s1) = Inr (Some (r\<lparr>ad_replayed := True\<rparr>)) \<and>
     effect_tables db = effect_tables (fst s) \<and>
     (fst s1 = mark_ready (strip i) db \<or> (\<exists>d. checkpoint (envs 2) wk e r (mark_ready (strip i) db) = Inr (d, fst s1)))"
proof -
  from dispatch_cases [OF assms(1)] assms(2) obtain e doc u t where e: "e \<in> set (outbox (fst s))" "o_effect_id e = strip i"
      "\<forall>x \<in> set (receipts (fst s)). rc_effect_id x \<noteq> strip i" "dispatch_checks (sha256 (envs 0)) (fake_adapter c) wk e (fst s) = Inr doc"
      "fetch_one (\<lambda>e. o_effect_id e = strip i) (outbox (fst s)) = Some e"
    and c: "in_store (consume_effect (envs 0) (strip i)) s = (Inr u, t)"
    and rc: "reconcile_effect envs (fake_adapter c) wk e (envelope_request doc) f t = (Inl err, s1)" by auto
  have t: "effect_tables (fst t) = effect_tables (fst s)" "snd t = snd s"
    using c by (auto simp: in_store_Inr dest: consume_effect_frame)
  have ad: "wf_adapter_id wk = ADAPTER_ID"
    using e(4) by (auto simp: dispatch_checks_def bindr_eq_Inr assert_adapter_binding_def workflow_text_def fake_adapter_def ADAPTER_ID_strip split: if_splits)
  let ?db = "mark_ready (o_effect_id e) (fst t)"
  have ex: "execute_effect envs (fake_adapter c) wk e (envelope_request doc) f (?db, snd t) = (Inl err, s1)"
    using rc assms(2) t(2)
    by (auto simp: reconcile_effect_def then_state_def in_store_def split: sum.splits option.splits)
  obtain x p where x: "fake_execute c (envs 1) (key_of e) (envelope_request doc) (snd t) = (x, p)" by (rule prod.exhaust)
  have p: "snd s1 = p \<and> f \<noteq> Some ''before_effect''"
    using ex assms(2) t(2) x
    by (auto simp: execute_effect_def fake_adapter_def then_state_def in_store_def split: sum.splits if_splits)
  from fake_execute_adds [OF x] assms(2) t(2) p obtain r where r: "x = Inr r" "sound_receipt (key_of e) r"
      "fake_lookup (key_of e) p = Inr (Some (r\<lparr>ad_replayed := True\<rparr>))" by auto
  have b: "assert_receipt_binding wk e r = Inr ()"
    using sound_binding [OF r(2) ad, of "ad_replayed r"] assms(3) e(1) by simp
  have "fst s1 = ?db \<or> (\<exists>d. checkpoint (envs 2) wk e r ?db = Inr (d, fst s1))"
    using ex p x r(1) b
    by (cases s1) (auto simp: execute_effect_def fake_adapter_def then_state_def in_store_def split: sum.splits if_splits)
  then have "fst s1 = mark_ready (strip i) (fst t) \<or> (\<exists>d. checkpoint (envs 2) wk e r (mark_ready (strip i) (fst t)) = Inr (d, fst s1))"
    by (simp add: e(2))
  with e t r p ad show ?thesis by blast
qed

text \<open>Changing the status of an outbox row does not change what a dispatch checks.\<close>

lemma effect_envelope_status: "effect_envelope sha (e\<lparr>o_status := st\<rparr>) = effect_envelope sha e"
  by (cases e) (simp add: effect_envelope_def split: json.split option.split)

lemma dispatch_checks_cong:
  assumes "receipts db = receipts db0" "tasks db = tasks db0" "workflow_step_rows db = workflow_step_rows db0"
  shows "dispatch_checks sha ad wk (e\<lparr>o_status := st\<rparr>) db = dispatch_checks sha ad wk e db0"
  using assms
  by (simp add: dispatch_checks_def effect_envelope_status assert_adapter_binding_def assert_persisted_step_binding_def cong: if_cong)

text \<open>A dispatch of an effect that the provider already holds takes the provider's outcome.\<close>

lemma dispatch_reconciles:
  assumes "workflow_text i = Inr (strip i)" "fetch_one (\<lambda>e. o_effect_id e = strip i) (outbox (fst s)) = Some e"
    and "\<forall>x \<in> set (receipts (fst s)). rc_effect_id x \<noteq> strip i"
    and "dispatch_checks (sha256 (envs 0)) (fake_adapter c) wk e (fst s) = Inr doc" "wf_adapter_id wk = ADAPTER_ID"
    and "consume_effect (envs 0) (strip i) (fst s) = Inr (u, db)" "fresh_ids (envs 2) db"
    and "sound_receipt (key_of e) r" "fake_lookup (key_of e) (snd s) = Inr (Some (r\<lparr>ad_replayed := True\<rparr>))"
    and "strip (o_project_id e) = o_project_id e"
  shows "\<exists>d db'. dispatch envs (fake_adapter c) wk i None s = (Inr d, db', snd s) \<and> reports db' d \<and> dr_provider_receipt d \<noteq> None"
proof -
  let ?r = "r\<lparr>ad_replayed := True\<rparr>"
  have e: "o_effect_id e = strip i" using assms(2) by (auto dest: fetch_one_SomeD)
  have db: "\<forall>x \<in> set (receipts db). rc_effect_id x \<noteq> o_effect_id e"
    using consume_effect_frame [OF assms(6)] assms(3) e by (simp add: effect_tables_def)
  have ok: "ad_status ?r = ''succeeded'' \<or> texts (result_fields (ad_result ?r))" and ref: "ad_provider_receipt ?r \<noteq> None"
    using assms(8) by (auto simp: sound_receipt_def result_fields_def)
  obtain d db' where cp: "checkpoint (envs 2) wk e ?r db = Inr (d, db')"
    using checkpoint_works [OF assms(7) db ok] by blast
  have "fetch_one (\<lambda>r. rc_effect_id r = strip i) (receipts (fst s)) = None" using assms(3) by simp
  then have "dispatch envs (fake_adapter c) wk i None s = (Inr d, db', snd s)"
    using assms(1-2, 4, 6, 9) sound_binding [OF assms(8, 5, 10)] cp
    by (simp add: dispatch_def FAULTS_def in_store_def reconcile_effect_def fake_adapter_def del: fetch_one_None)
  moreover have "adds_receipt e (ad_status ?r) (ad_provider_receipt ?r) (JObj (result_fields (ad_result ?r))) db db' \<and>
     d = \<lparr>dr_effect_id = o_effect_id e, dr_status = ad_status ?r, dr_provider_receipt = ad_provider_receipt ?r,
          dr_result = JObj (result_fields (ad_result ?r)), dr_provider_replayed = True, dr_checkpoint_replayed = False\<rparr>"
    using checkpoint_Inr [OF cp] db by auto
  ultimately show ?thesis using ref by (auto simp: reports_def adds_receipt_def)
qed

lemma fetch_ready:
  assumes "fetch_one (\<lambda>e. o_effect_id e = i) (outbox db) = Some e"
  shows "\<exists>st. fetch_one (\<lambda>e. o_effect_id e = i) (outbox (mark_ready i db)) = Some (e\<lparr>o_status := st\<rparr>)"
proof -
  have "fetch_one (\<lambda>e. o_effect_id e = i) (update_where (\<lambda>e. o_effect_id e = i \<and> o_status e = ''authorization_pending'') f rows) =
      map_option (\<lambda>e. if o_status e = ''authorization_pending'' then f e else e) (fetch_one (\<lambda>e. o_effect_id e = i) rows)"
    if "\<And>e. o_effect_id (f e) = o_effect_id e" for f and rows :: "outbox_row list"
    by (induction rows) (auto simp: that update_where_def)
  with assms show ?thesis
    by (cases "o_status e = ''authorization_pending''") (auto simp: mark_ready_def intro: exI [of _ "o_status e"])
qed


text \<open>A Project with one effect that waits for its dispatch.\<close>

definition wk_env :: "int \<Rightarrow> env" where
  "wk_env t = (sample_env t)\<lparr>sha256 := (\<lambda>_. sample_digest)\<rparr>"

definition wk_task :: task_spec where
  "wk_task = provider_task\<lparr>ts_workflow_steps := [\<lparr>step_id = ''s1'', step_adapter = ADAPTER_ID, step_action = ''generate'',
     step_resource = ''provider://fake'', step_request_digest = sample_digest\<rparr>]\<rparr>"

definition wk_request :: enqueue_request where
  "wk_request = \<lparr>nq_task_id = ''t1'', nq_step_id = ''s1'', nq_adapter = ADAPTER_ID, nq_idempotency_key = ''k1'',
     nq_request = [(''operation'', JStr ''write'')], nq_grant_id = ''gr1'', nq_session = None, nq_capability = ''provider_cost'',
     nq_action = ''generate'', nq_resource = ''provider://fake'', nq_fence = None, nq_effect_id = Some ''e1''\<rparr>"

definition wk_effect :: outbox_row where
  "wk_effect = \<lparr>o_effect_id = ''e1'', o_project_id = ''p1'', o_run_id = ''r1'', o_task_id = ''t1'', o_step_id = ''s1'',
     o_adapter = ADAPTER_ID, o_idempotency_key = ''k1'', o_request_digest = sample_digest,
     o_request = JObj (enqueue_envelope wk_request ''will''), o_status = ''authorization_pending'', o_created_at = 0,
     o_dispatched_at = None, o_reconciled_at = None, o_last_error = None\<rparr>"

definition wk_db :: db where
  "wk_db = (policy_db [sample_grant\<lparr>gr_used_count := 1\<rparr>]
      [sample_usage\<lparr>u_idempotency_key := ''effect:e1'', u_cost := 0, u_effect_id := Some ''e1''\<rparr>])
    \<lparr>tasks := [policy_task_row\<lparr>t_spec := JObj (task_to_dict wk_task)\<rparr>], outbox := [wk_effect],
     workflow_step_rows := [\<lparr>ws_task_id = ''t1'', ws_step_id = ''s1'', ws_status = ''queued'', ws_input_digest = sample_digest,
       ws_result = None, ws_effect_id = Some ''e1'', ws_started_at = 0, ws_completed_at = None\<rparr>]\<rparr>"

definition wk_flow :: workflow where
  "wk_flow = \<lparr>wf_adapter_id = ADAPTER_ID, wf_policy_version = ''v1''\<rparr>"

definition wk_provider :: provider where
  "wk_provider = \<lparr>pv_rows = [], pv_uuid_next = 0\<rparr>"

definition wk_clock :: "int \<Rightarrow> clock" where
  "wk_clock t = (\<lambda>_. wk_env t)"

definition wk_crash :: "dispatch_result res \<times> db \<times> provider" where
  "wk_crash = dispatch (wk_clock 5) (fake_adapter (\<lambda>_. [])) wk_flow ''e1'' (Some ''after_effect_before_checkpoint'') (wk_db, wk_provider)"

definition wk_first :: "dispatch_result res \<times> db \<times> provider" where
  "wk_first = dispatch (wk_clock 5) (fake_adapter (\<lambda>_. [])) wk_flow ''e1'' None (wk_db, wk_provider)"

lemma wk_facts:
  "receipts wk_db = []" "map strip (map o_project_id (outbox wk_db)) = map o_project_id (outbox wk_db)"
  by code_simp+

text \<open>Each run is evaluated once.\<close>

lemma wk_first_run_facts:
  "case wk_first of (x, db, p) \<Rightarrow>
     map (\<lambda>r. (rc_effect_id r, rc_provider_receipt r)) (receipts db) = [(''e1'', Some ''fake-u0'')] \<and>
     (case x of Inl e \<Rightarrow> False | Inr d \<Rightarrow> dr_status d = ''succeeded'') \<and> map o_effect_id (outbox db) = [''e1'']"
  by code_simp

lemmas wk_first_facts = wk_first_run_facts [unfolded case_prod_beta, THEN conjunct1]
  wk_first_run_facts [unfolded case_prod_beta, THEN conjunct2, THEN conjunct1]
  wk_first_run_facts [unfolded case_prod_beta, THEN conjunct2, THEN conjunct2]

lemma wk_crash_run_facts:
  "case wk_crash of (x, db, p) \<Rightarrow> (case x of Inl e \<Rightarrow> True | Inr d \<Rightarrow> False) \<and> map px_effect_id (pv_rows p) = [''e1''] \<and>
     (case consume_effect (wk_env 6) ''e1'' db of Inl e \<Rightarrow> False
      | Inr (u, db) \<Rightarrow> events db = [] \<and> receipts db = [] \<and> negative_results db = [])"
  by code_simp

lemmas wk_crash_facts = wk_crash_run_facts [unfolded case_prod_beta, THEN conjunct1]
  wk_crash_run_facts [unfolded case_prod_beta, THEN conjunct2, THEN conjunct1]
  wk_crash_run_facts [unfolded case_prod_beta, THEN conjunct2, THEN conjunct2]

lemma wk_first_run: "(workflow_step (fake_adapter (\<lambda>_. [])))\<^sup>*\<^sup>* (wk_db, wk_provider) (snd wk_first)"
  by (rule r_into_rtranclp, rule workflow_step.dispatched, unfold wk_first_def, rule prod.collapse [symmetric])

theorem receipts_are_backed_witness:
  "\<exists>e \<in> set (outbox (fst (snd wk_first))). \<exists>row \<in> set (pv_rows (snd (snd wk_first))). o_effect_id e = ''e1'' \<and>
     px_project_id row = strip (o_project_id e) \<and> px_provider_receipt row = ''fake-u0''"
proof -
  obtain r where r: "receipts (fst (snd wk_first)) = [r]" "rc_effect_id r = ''e1''" "rc_provider_receipt r = Some ''fake-u0''"
    using wk_first_facts(1) by auto
  then show ?thesis using receipts_are_backed [OF wk_first_run wk_facts(1), of r "''fake-u0''"] by auto
qed

theorem reconciled_effect_final_witness:
  "\<exists>d. dispatch (wk_clock 9) (fake_adapter (\<lambda>_. [])) wk_flow ''e1'' None (snd wk_first) = (Inr d, snd wk_first) \<and> dr_checkpoint_replayed d"
proof -
  obtain d where d: "fst wk_first = Inr d" using wk_first_facts(2) by (cases "fst wk_first") auto
  have i: "strip ''e1'' = ''e1''" by code_simp
  have "\<exists>e \<in> set (outbox (fst (snd wk_first))). o_effect_id e = strip ''e1''"
    using wk_first_facts(3) by (auto simp: i)
  then show ?thesis
    using reconciled_effect_final [of "\<lambda>_. []" wk_db wk_provider "(wk_db, wk_provider)" "wk_clock 5" wk_flow "''e1''" None d "snd wk_first"
        "snd wk_first" None "wk_clock 9" wk_flow] d
    by (auto simp: wk_facts FAULTS_def wk_first_def [symmetric] prod_eq_iff)
qed


end
