(* ===== verification/Registry.thy ===== *)
theory Registry
  imports Gates
begin

text \<open>
  What the registries of evidence, observations, integration items, memory and context share: drawing an
  identifier leaves every check alone, instants given by a caller, and the steps through an operation that
  looks a row up first.
\<close>

section \<open>Drawn identifiers\<close>

lemma role_set_uuid [simp]: "role_set (db\<lparr>uuid_next := n\<rparr>) = role_set db"
  unfolding role_set_def fun_eq_iff by (simp cong: if_cong)

lemma session_principal_uuid [simp]: "session_principal (db\<lparr>uuid_next := n\<rparr>) = session_principal db"
  unfolding session_principal_def fun_eq_iff by (simp cong: if_cong)

lemma verify_session_uuid [simp]: "verify_session env r s (db\<lparr>uuid_next := n\<rparr>) = verify_session env r s db"
  unfolding verify_session_def role_set_uuid session_principal_uuid ..

lemma fresh_id_uuid: "fresh_id env given db = (i, d) \<Longrightarrow> \<exists>n. d = db\<lparr>uuid_next := n\<rparr>"
  using fresh_id_frame by metis

section \<open>Steps\<close>

lemma returns_option:
  "(m = None \<Longrightarrow> returns x Q) \<Longrightarrow> (\<And>a. m = Some a \<Longrightarrow> returns (f a) Q) \<Longrightarrow>
     returns (case m of None \<Rightarrow> x | Some a \<Rightarrow> f a) Q"
  by (cases m) simp_all

lemmas registry_steps = returns_steps returns_option

section \<open>Instants given by a caller\<close>

text \<open>A time argument: absent, an instant (a \<open>datetime\<close> or an ISO-8601 text with a time zone), one without
  a time zone, or a text that is none.\<close>

datatype time_arg = No_Time | At int | Naive_Time | Unreadable_Time

text \<open>\<open>_instant\<close> and \<open>_datetime\<close>: the given instant, or the default where there is one.\<close>

definition instant :: "(string \<Rightarrow> error) \<Rightarrow> int option \<Rightarrow> time_arg \<Rightarrow> int res" where
  "instant err otherwise t = (case t of
       No_Time \<Rightarrow> require otherwise (err ''timestamp is required'')
     | At i \<Rightarrow> Inr i
     | Naive_Time \<Rightarrow> Inl (err ''timestamp must include a timezone'')
     | Unreadable_Time \<Rightarrow> Inl (err ''invalid ISO-8601 timestamp''))"

lemma instant_Inr: "instant err otherwise t = Inr i \<longleftrightarrow> t = At i \<or> t = No_Time \<and> otherwise = Some i"
  by (cases t) (auto simp: instant_def)

section \<open>Strings\<close>

lemma mapr_texts: "mapr (text_field err) xs = Inr ys \<longleftrightarrow> list_all non_blank xs \<and> ys = map strip xs"
  by (induction xs arbitrary: ys) (auto simp: bindr_eq_Inr)

end
