(* ===== verification/Evidence.thy ===== *)
theory Evidence
  imports Registry
begin

text \<open>
  \<open>evidence.py\<close>: artifacts and evidence claims.  The first part classifies where evidence comes from
  (environment, artifact kind, artifact URI) after every layer of encoding has been removed; the second
  is the registry, whose claims must rest on artifacts of the same Task, be made by a principal with the
  role the claimed state asks for, and, where they pass, by somebody who produced none of the artifacts.

  \<open>urlsplit\<close> and \<open>unquote\<close> are written out on the UTF-8 text.  The tables of the Unicode standard
  (normalization form NFKC, case folding, the address syntax inside brackets) are a parameter.
\<close>

section \<open>Provenance\<close>

record unicode_data =
  nfkc :: "string \<Rightarrow> string"
  casefold :: "string \<Rightarrow> string"
  netloc_valid :: "string \<Rightarrow> bool"

definition CLASSIFICATIONS :: "string list" where
  "CLASSIFICATIONS = [''public'', ''publicable'', ''internal'', ''confidential'', ''secret'']"

definition NON_REAL_ENVIRONMENTS :: "string list" where
  "NON_REAL_ENVIRONMENTS = [''demo'', ''fake'', ''fixture'', ''mock'', ''offline-sim'', ''offline-simulation'', ''sandbox'',
     ''simulated'', ''simulation'', ''synthetic'', ''test'', ''test-double'', ''testdouble'']"

definition REAL_ENVIRONMENTS :: "string list" where
  "REAL_ENVIRONMENTS = [''ci'', ''controlled-live'', ''development'', ''local'', ''on-device'', ''production'', ''staging'']"

definition NON_REAL_ARTIFACT_KINDS :: "string list" where
  "NON_REAL_ARTIFACT_KINDS = [''demo'', ''dummy'', ''example'', ''fake'', ''fixture'', ''mock'', ''placeholder'', ''sample'',
     ''simulated-output'', ''simulation'', ''synthetic'', ''test-double'']"

definition REAL_PROMOTION_ARTIFACT_KINDS :: "string list" where
  "REAL_PROMOTION_ARTIFACT_KINDS = [''artifact'', ''audit-report'', ''benchmark-report'', ''build-report'', ''diff'',
     ''execution-trace'', ''failure-report'', ''lint-report'', ''log'', ''patch'', ''provider-receipt'', ''quality-report'',
     ''runtime-log'', ''runtime-report'', ''screenshot'', ''test-report'', ''trace'', ''typecheck-report'', ''verification-report'']"

definition NON_REAL_URI_SCHEMES :: "string list" where
  "NON_REAL_URI_SCHEMES = [''data'', ''demo'', ''example'', ''fake'', ''fixture'', ''memory'', ''mock'', ''synthetic'', ''test'']"

definition REAL_PROMOTION_URI_SCHEMES :: "string list" where
  "REAL_PROMOTION_URI_SCHEMES = [''artifact'', ''evidence'', ''file'', ''git'', ''gs'', ''https'', ''repo'', ''s3'']"

datatype reality = REAL | NON_REAL | UNKNOWN

fun reality_value :: "reality \<Rightarrow> string" where
  "reality_value REAL = ''real''"
| "reality_value NON_REAL = ''non_real''"
| "reality_value UNKNOWN = ''unknown''"

record classification =
  pc_dimension :: string
  pc_raw_value :: string
  pc_canonical_value :: string
  pc_reality :: reality

record promotion_assessment =
  pa_environment :: classification
  pa_artifact_kinds :: "classification list"
  pa_artifact_uris :: "classification list"

definition assessed :: "promotion_assessment \<Rightarrow> classification list" where
  "assessed a = pa_environment a # pa_artifact_kinds a @ pa_artifact_uris a"

definition real_task_eligible :: "promotion_assessment \<Rightarrow> bool" where
  "real_task_eligible a \<longleftrightarrow> list_all (\<lambda>c. pc_reality c = REAL) (assessed a)"

definition rejection_reasons :: "promotion_assessment \<Rightarrow> string list" where
  "rejection_reasons a = map (\<lambda>c. pc_dimension c @ '':'' @ pc_canonical_value c @ '':'' @ reality_value (pc_reality c))
     (filter (\<lambda>c. pc_reality c \<noteq> REAL) (assessed a))"

text \<open>At most twenty rounds of decoding, until a round changes nothing.\<close>

fun decode_rounds :: "unicode_data \<Rightarrow> nat \<Rightarrow> string \<Rightarrow> string option" where
  "decode_rounds u 0 decoded = None"
| "decode_rounds u (Suc n) decoded =
     (let candidate = nfkc u (unquote decoded) in
      if candidate = decoded then Some decoded else decode_rounds u n candidate)"

definition low_control :: "char \<Rightarrow> bool" where
  "low_control c \<longleftrightarrow> of_char c < (32 :: nat)"

definition decode_origin_value :: "unicode_data \<Rightarrow> string \<Rightarrow> string res" where
  "decode_origin_value u s =
     (if \<not> non_blank s then Inl (EvidenceError ''must be a non-empty string'')
      else case decode_rounds u 20 (nfkc u (strip s)) of
          None \<Rightarrow> Inl (EvidenceError ''excessive nested encoding'')
        | Some decoded \<Rightarrow>
            if list_ex low_control decoded then Inl (EvidenceError ''contains control characters'') else Inr decoded)"

text \<open>A run of the characters becomes one dash.\<close>

fun dashed :: "(char \<Rightarrow> bool) \<Rightarrow> bool \<Rightarrow> string \<Rightarrow> string" where
  "dashed P inside [] = []"
| "dashed P inside (c # cs) =
     (if P c then (if inside then dashed P True cs else CHR ''-'' # dashed P True cs) else c # dashed P False cs)"

definition canonical_origin_token :: "unicode_data \<Rightarrow> string \<Rightarrow> string res" where
  "canonical_origin_token u s =
     bindr (decode_origin_value u s) (\<lambda>decoded.
       Inr (lstrip_char CHR ''-'' (rstrip_char CHR ''-''
         (dashed (\<lambda>c. c = CHR ''-'') False (dashed (\<lambda>c. is_space c \<or> c = CHR ''_'') False (casefold u decoded))))))"

definition reality_of :: "string list \<Rightarrow> string list \<Rightarrow> string \<Rightarrow> reality" where
  "reality_of non_real real canonical =
     (if canonical \<in> set non_real then NON_REAL else if canonical \<in> set real then REAL else UNKNOWN)"

definition classify_evidence_environment :: "unicode_data \<Rightarrow> string \<Rightarrow> classification res" where
  "classify_evidence_environment u s =
     bindr (canonical_origin_token u s) (\<lambda>canonical.
       Inr \<lparr>pc_dimension = ''environment'', pc_raw_value = s, pc_canonical_value = canonical,
            pc_reality = reality_of NON_REAL_ENVIRONMENTS REAL_ENVIRONMENTS canonical\<rparr>)"

definition classify_artifact_kind :: "unicode_data \<Rightarrow> string \<Rightarrow> classification res" where
  "classify_artifact_kind u s =
     bindr (canonical_origin_token u s) (\<lambda>canonical.
       Inr \<lparr>pc_dimension = ''artifact_kind'', pc_raw_value = s, pc_canonical_value = canonical,
            pc_reality = reality_of NON_REAL_ARTIFACT_KINDS REAL_PROMOTION_ARTIFACT_KINDS canonical\<rparr>)"

text \<open>\<open>urllib.parse.urlsplit\<close> of a text without white space and control characters; \<open>None\<close> is its
  \<open>ValueError\<close>.\<close>

record split_url =
  su_scheme :: string
  su_netloc :: string
  su_path :: string

definition scheme_char :: "char \<Rightarrow> bool" where
  "scheme_char c \<longleftrightarrow> is_alpha c \<or> is_digit c \<or> c \<in> {CHR ''+'', CHR ''-'', CHR ''.''}"

definition split_scheme :: "string \<Rightarrow> string \<times> string" where
  "split_scheme url =
     (let leading = takeWhile (\<lambda>c. c \<noteq> CHR '':'') url in
      if leading \<noteq> url \<and> leading \<noteq> [] \<and> is_alpha (hd leading) \<and> list_all scheme_char leading
      then (lower leading, drop (Suc (length leading)) url) else ([], url))"

definition bracketed :: "string \<Rightarrow> bool" where
  "bracketed netloc \<longleftrightarrow> CHR ''['' \<in> set netloc \<and> CHR '']'' \<in> set netloc"

definition urlsplit :: "unicode_data \<Rightarrow> string \<Rightarrow> split_url option" where
  "urlsplit u url =
     (let (scheme, rest) = split_scheme url;
          is_netloc_end = (\<lambda>c. c \<in> {CHR ''/'', CHR ''?'', CHR ''#''});
          netloc = (if take 2 rest = ''//'' then takeWhile (\<lambda>c. \<not> is_netloc_end c) (drop 2 rest) else []);
          tail = (if take 2 rest = ''//'' then dropWhile (\<lambda>c. \<not> is_netloc_end c) (drop 2 rest) else rest) in
      if (CHR ''['' \<in> set netloc) \<noteq> (CHR '']'' \<in> set netloc) then None
      else if (bracketed netloc \<or> list_ex (\<lambda>c. 128 \<le> (of_char c :: nat)) netloc) \<and> \<not> netloc_valid u netloc then None
      else Some \<lparr>su_scheme = scheme, su_netloc = netloc,
                 su_path = takeWhile (\<lambda>c. c \<noteq> CHR ''?'') (takeWhile (\<lambda>c. c \<noteq> CHR ''#'') tail)\<rparr>)"

definition uri_class :: "string \<Rightarrow> string \<Rightarrow> reality \<Rightarrow> classification" where
  "uri_class s canonical r = \<lparr>pc_dimension = ''artifact_uri'', pc_raw_value = s, pc_canonical_value = canonical, pc_reality = r\<rparr>"

definition classify_artifact_uri :: "unicode_data \<Rightarrow> string \<Rightarrow> classification res" where
  "classify_artifact_uri u s =
     bindr (decode_origin_value u s) (\<lambda>decoded.
     if list_ex is_space decoded then Inr (uri_class s (casefold u decoded) UNKNOWN)
     else case urlsplit u decoded of
         None \<Rightarrow> Inr (uri_class s ''<malformed-uri>'' UNKNOWN)
       | Some parsed \<Rightarrow>
           if su_scheme parsed = [] then Inr (uri_class s ''<missing-scheme>'' UNKNOWN)
           else
           bindr (canonical_origin_token u (su_scheme parsed)) (\<lambda>scheme.
           let r = reality_of NON_REAL_URI_SCHEMES REAL_PROMOTION_URI_SCHEMES scheme in
           if r = REAL \<and> (su_netloc parsed = [] \<and> su_path parsed = [] \<or>
                scheme \<in> {''gs'', ''https'', ''s3''} \<and> su_netloc parsed = [] \<or> CHR ''@'' \<in> set (su_netloc parsed))
           then Inr (uri_class s (scheme @ '':malformed-or-credentialed'') UNKNOWN)
           else Inr (uri_class s scheme r)))"

definition classify_promotion_provenance :: "unicode_data \<Rightarrow> string \<Rightarrow> artifact_row list \<Rightarrow> promotion_assessment res" where
  "classify_promotion_provenance u environment rows =
     bindr (classify_evidence_environment u environment) (\<lambda>e.
     bindr (mapr (\<lambda>r. classify_artifact_kind u (af_kind r)) rows) (\<lambda>kinds.
     bindr (mapr (\<lambda>r. classify_artifact_uri u (af_uri r)) rows) (\<lambda>uris.
       Inr \<lparr>pa_environment = e, pa_artifact_kinds = kinds, pa_artifact_uris = uris\<rparr>)))"

section \<open>The registry\<close>

record evidence_registry =
  er_owner :: nat
  er_authority :: nat
  er_policy_version :: string

definition make_evidence_registry :: "(string \<Rightarrow> string) \<Rightarrow> string \<Rightarrow> nat \<Rightarrow> string \<Rightarrow> authority_domain \<Rightarrow> (evidence_registry \<times> authority_domain) res" where
  "make_evidence_registry sha binding_id owner policy_version ad =
     bindr (bind_protected_command_authority binding_id \<lparr>sv_class = ''EvidenceRegistry'', sv_id = owner\<rparr> ''evidence_registry''
              (content_hash sha (JObj [(''authority_contract'', JStr ''protected-command-v1''), (''handler'', JStr ''evidence_registry''),
                 (''config'', JObj [(''policy_version'', JStr policy_version)])])) [] ad) (\<lambda>(token, ad).
       Inr (\<lparr>er_owner = owner, er_authority = token, er_policy_version = policy_version\<rparr>, ad))"

definition evidence_text :: "string \<Rightarrow> string res" where
  "evidence_text = text_field EvidenceError"

definition evidence_digest :: "string \<Rightarrow> string res" where
  "evidence_digest s = bindr (evidence_text s) (\<lambda>t.
     if hex_digest (lower t) then Inr (lower t)
     else Inl (EvidenceError ''content_digest must be a lowercase SHA-256 hex digest''))"

definition ARTIFACT_PRODUCER_ROLES :: "role list" where
  "ARTIFACT_PRODUCER_ROLES = [WORKER, SYSTEM, PROVIDER_ATTESTOR, HUMAN_ACCEPTOR, BUSINESS_REVIEWER]"

definition ARTIFACT_KIND_ROLES :: "(string \<times> role list) list" where
  "ARTIFACT_KIND_ROLES = [(''provider_receipt'', [PROVIDER_ATTESTOR]), (''human_acceptance'', [HUMAN_ACCEPTOR]),
     (''business_validation'', [BUSINESS_REVIEWER]), (''heldout_eval'', [EVALUATOR]), (''owner_approval'', [OWNER]),
     (''rule_promotion_record'', [SYSTEM])]"

fun state_verifier_role :: "evidence_state \<Rightarrow> role option" where
  "state_verifier_role ES_PROVIDER_SMOKE = Some PROVIDER_ATTESTOR"
| "state_verifier_role ES_HUMAN_ACCEPTANCE = Some HUMAN_ACCEPTOR"
| "state_verifier_role ES_BUSINESS_VALIDATION = Some BUSINESS_REVIEWER"
| "state_verifier_role ES_DURABLE_MEMORY_PROMOTION = Some EVALUATOR"
| "state_verifier_role ES_ACTIVE_RULE_PROMOTION = Some EVALUATOR"
| "state_verifier_role s = None"

definition evidence_task :: "string \<Rightarrow> db \<Rightarrow> (task_row \<times> string) res" where
  "evidence_task task_id db =
     bindr (require (fetch_one (\<lambda>t. t_task_id t = task_id) (tasks db)) (NotFoundError ''task not found'')) (\<lambda>row.
     bindr (require (t_run_id row) (EvidenceError ''task has no run and cannot carry runtime evidence'')) (\<lambda>run_id.
     if t_state row \<in> set TERMINAL_TASK_STATES then Inl (EvidenceError ''terminal task is sealed against new evidence'')
     else Inr (row, run_id)))"

definition require_roles :: "principal_record \<Rightarrow> role list \<Rightarrow> unit res" where
  "require_roles p required = ensure (set required \<subseteq> set (pr_roles p)) (AuthorizationError ''requires role(s)'')"

definition authorize_artifact_producer :: "principal_record \<Rightarrow> string \<Rightarrow> unit res" where
  "authorize_artifact_producer p k =
     (if set (pr_roles p) \<inter> set ARTIFACT_PRODUCER_ROLES = {}
      then Inl (AuthorizationError ''artifact production requires at least one producer role'')
      else case map_of ARTIFACT_KIND_ROLES k of None \<Rightarrow> Inr () | Some required \<Rightarrow> require_roles p required)"

record artifact_request =
  fq_task_id :: string
  fq_kind :: string
  fq_uri :: string
  fq_content_digest :: string
  fq_session :: "auth_session option"
  fq_confidentiality :: string
  fq_artifact_id :: "string option"

definition artifact_event :: "evidence_registry \<Rightarrow> artifact_row \<Rightarrow> string \<Rightarrow> event_cmd" where
  "artifact_event er a command_id = event_defaults\<lparr>c_aggregate_type := ''artifact'', c_aggregate_id := af_artifact_id a,
     c_expected_version := 0, c_project_id := af_project_id a, c_run_id := Some (af_run_id a), c_task_id := Some (af_task_id a),
     c_event_type := ''artifact_registered'', c_actor := af_producer a, c_command_id := command_id,
     c_correlation_id := af_run_id a, c_policy_version := er_policy_version er,
     c_payload := [(''kind'', JStr (af_kind a)), (''uri'', JStr (af_uri a)), (''content_digest'', JStr (af_content_digest a)),
       (''confidentiality'', JStr (af_confidentiality a)), (''producer_principal_id'', JStr (af_producer a))],
     c_confidentiality := af_confidentiality a,
     c_command_authority := Some (er_authority er), c_command_owner := Some (er_owner er)\<rparr>"

text \<open>What a repeated registration must repeat.\<close>

definition artifact_content :: "artifact_row \<Rightarrow> string \<times> string \<times> string \<times> string \<times> string \<times> string" where
  "artifact_content a = (af_task_id a, af_producer a, af_kind a, af_uri a, af_content_digest a, af_confidentiality a)"

definition register_artifact :: "env \<Rightarrow> evidence_registry \<Rightarrow> artifact_request \<Rightarrow> db \<Rightarrow> (artifact_row \<times> db) res" where
  "register_artifact env er q db =
     bindr (evidence_text (fq_task_id q)) (\<lambda>task_id.
     bindr (evidence_text (fq_kind q)) (\<lambda>kind.
     bindr (evidence_text (fq_uri q)) (\<lambda>uri.
     bindr (evidence_digest (fq_content_digest q)) (\<lambda>digest.
     bindr (evidence_text (fq_confidentiality q)) (\<lambda>given.
     let confidentiality = lower given in
     if confidentiality \<notin> set CLASSIFICATIONS then Inl (EvidenceError ''unsupported confidentiality'')
     else
     let (drawn, db) = fresh_id env (fq_artifact_id q) db in
     bindr (evidence_text drawn) (\<lambda>artifact_id.
     bindr (verify_session env None (fq_session q) db) (\<lambda>producer.
     bindr (authorize_artifact_producer producer kind) (\<lambda>_.
     case fetch_one (\<lambda>a. af_artifact_id a = artifact_id) (artifacts db) of
       Some existing \<Rightarrow>
         if artifact_content existing \<noteq> (task_id, pr_principal_id producer, kind, uri, digest, confidentiality)
         then Inl (IntegrityError ''artifact id reused with different content'')
         else Inr (existing, db)
     | None \<Rightarrow>
         bindr (evidence_task task_id db) (\<lambda>(task, run_id).
         let row = \<lparr>af_artifact_id = artifact_id, af_project_id = t_project_id task, af_run_id = run_id, af_task_id = task_id,
               af_producer = pr_principal_id producer, af_kind = kind, af_uri = uri, af_content_digest = digest,
               af_confidentiality = confidentiality, af_created_at = now env\<rparr>;
             (command_id, db) = draw_uuid env db in
         bindr (append_event env (artifact_event er row command_id) db) (\<lambda>(_, db).
         bindr (insert_row (\<lambda>a b. af_artifact_id a = af_artifact_id b) row (artifacts db)) (\<lambda>rows.
           Inr (row, db\<lparr>artifacts := rows\<rparr>))))))))))))"

section \<open>Claims\<close>

definition rule_promotion_kinds :: "string list" where
  "rule_promotion_kinds = [''heldout_eval'', ''owner_approval'', ''rule_promotion_record'']"

definition enforce_provenance ::
    "unicode_data \<Rightarrow> evidence_state \<Rightarrow> string \<Rightarrow> evaluator_verdict \<Rightarrow> principal_record \<Rightarrow> artifact_row list \<Rightarrow> unit res" where
  "enforce_provenance u state environment verdict verifier rows =
     (let kinds = map af_kind rows in
      bindr (classify_evidence_environment u environment) (\<lambda>origin.
      if pc_reality origin = NON_REAL \<and> state \<notin> {ES_STRUCTURE, ES_RUNTIME}
      then Inl (EvidenceError ''evidence can prove only structure/runtime verification'')
      else
      bindr (case state_verifier_role state of None \<Rightarrow> Inr () | Some r \<Rightarrow> require_roles verifier [r]) (\<lambda>_.
      bindr (if passing_evaluator verdict then require_roles verifier [EVALUATOR] else Inr ()) (\<lambda>_.
      if (passing_evaluator verdict \<or> state \<in> {ES_DURABLE_MEMORY_PROMOTION, ES_ACTIVE_RULE_PROMOTION}) \<and>
         pr_principal_id verifier \<in> set (map af_producer rows)
      then Inl (AuthorizationError ''an independent evaluator cannot verify an artifact it produced'')
      else if state = ES_PROVIDER_SMOKE \<and> ''provider_receipt'' \<notin> set kinds
      then Inl (EvidenceError ''provider_smoke requires a provider_receipt artifact'')
      else if state = ES_HUMAN_ACCEPTANCE \<and> ''human_acceptance'' \<notin> set kinds
      then Inl (EvidenceError ''human_acceptance requires a human_acceptance artifact'')
      else if state = ES_BUSINESS_VALIDATION \<and> ''business_validation'' \<notin> set kinds
      then Inl (EvidenceError ''business_validation requires a business_validation artifact'')
      else if state = ES_ACTIVE_RULE_PROMOTION \<and> \<not> set rule_promotion_kinds \<subseteq> set kinds
      then Inl (EvidenceError ''active_rule_promotion requires heldout_eval, owner_approval, and rule_promotion_record artifacts'')
      else Inr ()))))"

record claim_request =
  eq_task_id :: string
  eq_claim :: string
  eq_evidence_state :: string
  eq_artifact_refs :: "string list"
  eq_session :: "auth_session option"
  eq_verifier_version :: string
  eq_environment :: string
  eq_verdict :: string
  eq_non_claims :: "string list"
  eq_evidence_id :: "string option"

definition verdict_of :: "string \<Rightarrow> evaluator_verdict res" where
  "verdict_of s = require (List.find (\<lambda>v. s = evaluator_verdict_value v)
       [VD_NOT_REQUIRED, VD_PENDING, VD_PASS, VD_FAIL, VD_PASS_WITH_RISK, VD_BLOCKED])
     (EvidenceError ''not a valid EvaluatorVerdict'')"

definition claim_event :: "evidence_registry \<Rightarrow> evidence_row \<Rightarrow> string \<Rightarrow> event_cmd" where
  "claim_event er c command_id = event_defaults\<lparr>c_aggregate_type := ''evidence'', c_aggregate_id := ev_evidence_id c,
     c_expected_version := 0, c_project_id := ev_project_id c, c_run_id := Some (ev_run_id c), c_task_id := Some (ev_task_id c),
     c_event_type := ''evidence_claim_recorded'', c_actor := ev_verifier c, c_command_id := command_id,
     c_correlation_id := ev_run_id c, c_policy_version := er_policy_version er,
     c_payload := [(''claim'', JStr (ev_claim c)), (''evidence_state'', JStr (evidence_state_value (ev_state c))),
       (''artifact_refs'', JList (map JStr (ev_artifact_refs c))), (''verifier_principal_id'', JStr (ev_verifier c)),
       (''verifier_version'', JStr (ev_verifier_version c)), (''environment'', JStr (ev_environment c)),
       (''evaluator_verdict'', JStr (evaluator_verdict_value (ev_verdict c))), (''non_claims'', JList (map JStr (ev_non_claims c)))],
     c_command_authority := Some (er_authority er), c_command_owner := Some (er_owner er)\<rparr>"

definition referenced :: "string list \<Rightarrow> db \<Rightarrow> artifact_row list" where
  "referenced refs db = filter (\<lambda>a. af_artifact_id a \<in> set refs) (artifacts db)"

definition record_claim :: "env \<Rightarrow> unicode_data \<Rightarrow> evidence_registry \<Rightarrow> claim_request \<Rightarrow> db \<Rightarrow> (evidence_row \<times> db) res" where
  "record_claim env u er q db =
     bindr (evidence_text (eq_task_id q)) (\<lambda>task_id.
     bindr (evidence_text (eq_claim q)) (\<lambda>claim.
     bindr (evidence_state_parse (JStr (eq_evidence_state q))) (\<lambda>state.
     bindr (verdict_of (eq_verdict q)) (\<lambda>verdict.
     bindr (mapr evidence_text (eq_artifact_refs q)) (\<lambda>given.
     let refs = dedup given in
     if refs = [] then Inl (EvidenceError ''an evidence claim must reference at least one artifact'')
     else
     bindr (evidence_text (eq_verifier_version q)) (\<lambda>version.
     bindr (evidence_text (eq_environment q)) (\<lambda>where_text.
     bindr (mapr evidence_text (eq_non_claims q)) (\<lambda>non_claims.
     let environment = lower where_text; (drawn, db) = fresh_id env (eq_evidence_id q) db in
     bindr (evidence_text drawn) (\<lambda>evidence_id.
     bindr (verify_session env None (eq_session q) db) (\<lambda>verifier.
     bindr (evidence_task task_id db) (\<lambda>(task, run_id).
     let rows = referenced refs db in
     if length rows \<noteq> length refs then Inl (EvidenceError ''artifact references not found'')
     else if list_ex (\<lambda>a. af_task_id a \<noteq> task_id) rows
     then Inl (EvidenceError ''evidence artifacts must belong to the same task'')
     else
     bindr (enforce_provenance u state environment verdict verifier rows) (\<lambda>_.
     let row = \<lparr>ev_evidence_id = evidence_id, ev_project_id = t_project_id task, ev_run_id = run_id, ev_task_id = task_id,
           ev_claim = claim, ev_state = state, ev_artifact_refs = refs, ev_verifier = pr_principal_id verifier,
           ev_verifier_version = version, ev_environment = environment, ev_verdict = verdict,
           ev_non_claims = non_claims, ev_created_at = now env\<rparr>;
         (command_id, db) = draw_uuid env db in
     bindr (append_event env (claim_event er row command_id) db) (\<lambda>(_, db).
     bindr (insert_row (\<lambda>a b. ev_evidence_id a = ev_evidence_id b) row (evidence_claims db)) (\<lambda>claims.
       Inr (row, db\<lparr>evidence_claims := claims\<rparr>)))))))))))))))"

section \<open>Assessment of a Task\<close>

record evidence_assessment =
  ea_task_id :: string
  ea_required_state :: evidence_state
  ea_evaluator_required :: bool
  ea_matching_claim_ids :: "string list"
  ea_satisfied :: bool
  ea_reasons :: "string list"

definition assess_task :: "string \<Rightarrow> db \<Rightarrow> evidence_assessment res" where
  "assess_task task_id db =
     bindr (require (fetch_one (\<lambda>t. t_task_id t = task_id) (tasks db)) (NotFoundError ''task not found'')) (\<lambda>row.
     bindr (load_task_spec (t_spec row)) (\<lambda>spec.
     let claims = sort_key ev_created_at
           (filter (\<lambda>c. ev_task_id c = task_id \<and> ev_state c = ts_evidence_target spec) (evidence_claims db));
         passing = filter (\<lambda>c. passing_evidence (ev_verdict c)) claims;
         reasons = (if passing = [] then [''no passing '' @ evidence_state_value (ts_evidence_target spec) @ '' claim''] else []) @
           (if ts_evaluator_required spec \<and> \<not> list_ex (\<lambda>c. passing_evaluator (ev_verdict c)) claims
            then [''independent evaluator verdict is required''] else []) in
       Inr \<lparr>ea_task_id = task_id, ea_required_state = ts_evidence_target spec,
            ea_evaluator_required = ts_evaluator_required spec, ea_matching_claim_ids = map ev_evidence_id passing,
            ea_satisfied = (reasons = []), ea_reasons = reasons\<rparr>))"

definition require_task_evidence :: "string \<Rightarrow> db \<Rightarrow> evidence_assessment res" where
  "require_task_evidence task_id db =
     bindr (assess_task task_id db) (\<lambda>a.
       if ea_satisfied a then Inr a else Inl (EvidenceError ''task evidence is not satisfied''))"

section \<open>What a registration and a claim establish\<close>

lemma evidence_task_uuid [simp]: "evidence_task i (db\<lparr>uuid_next := n\<rparr>) = evidence_task i db"
  by (simp add: evidence_task_def)

lemma evidence_text_Inr [simp]: "evidence_text s = Inr t \<longleftrightarrow> non_blank s \<and> t = strip s"
  by (auto simp: evidence_text_def)

lemma verdict_of_Inr [simp]: "verdict_of s = Inr v \<longleftrightarrow> s = evaluator_verdict_value v"
  by (cases v) (auto simp: verdict_of_def find_Some_iff less_Suc_eq)

lemma authorize_producer_Inr:
  "authorize_artifact_producer p k = Inr () \<longleftrightarrow> set (pr_roles p) \<inter> set ARTIFACT_PRODUCER_ROLES \<noteq> {} \<and>
     (\<forall>required. map_of ARTIFACT_KIND_ROLES k = Some required \<longrightarrow> set required \<subseteq> set (pr_roles p))"
  by (auto simp: authorize_artifact_producer_def require_roles_def split: option.split)

text \<open>An artifact is added, or the stored one is returned.\<close>

definition adds_artifact :: "artifact_row \<Rightarrow> db \<Rightarrow> db \<Rightarrow> bool" where
  "adds_artifact a db db' \<longleftrightarrow> (a \<in> set (artifacts db) \<and> artifacts db' = artifacts db \<or>
       (\<forall>x \<in> set (artifacts db). af_artifact_id x \<noteq> af_artifact_id a) \<and> artifacts db' = artifacts db @ [a]) \<and>
     evidence_claims db' = evidence_claims db"

lemma register_artifact_Inr:
  assumes "register_artifact env er q db = Inr (a, db')"
  shows "\<exists>p. verify_session env None (fq_session q) db = Inr p \<and> af_producer a = pr_principal_id p \<and>
     authorize_artifact_producer p (af_kind a) = Inr () \<and> adds_artifact a db db'"
proof -
  obtain d n where f: "fresh_id env (fq_artifact_id q) db = (d, db\<lparr>uuid_next := n\<rparr>)"
    using fresh_id_uuid by (metis prod.exhaust)
  have "returns (register_artifact env er q db) (\<lambda>(a, db'). \<exists>p. verify_session env None (fq_session q) db = Inr p \<and>
      af_producer a = pr_principal_id p \<and> authorize_artifact_producer p (af_kind a) = Inr () \<and> adds_artifact a db db')"
    unfolding register_artifact_def f draw_uuid_def
    by (intro registry_steps returnsI)
      (auto simp: adds_artifact_def artifact_content_def bindr_eq_Inr dest!: append_event_frame fetch_one_SomeD)
  from returnsD [OF this assms] show ?thesis by simp
qed

definition claim_kinds :: "evidence_state \<Rightarrow> string list" where
  "claim_kinds s = (if s = ES_PROVIDER_SMOKE then [''provider_receipt''] else if s = ES_HUMAN_ACCEPTANCE then [''human_acceptance'']
     else if s = ES_BUSINESS_VALIDATION then [''business_validation'']
     else if s = ES_ACTIVE_RULE_PROMOTION then rule_promotion_kinds else [])"

definition independence_due :: "evidence_state \<Rightarrow> evaluator_verdict \<Rightarrow> bool" where
  "independence_due s v \<longleftrightarrow> passing_evaluator v \<or> s \<in> {ES_DURABLE_MEMORY_PROMOTION, ES_ACTIVE_RULE_PROMOTION}"

definition claim_roles :: "evidence_row \<Rightarrow> role set" where
  "claim_roles c = set_option (state_verifier_role (ev_state c)) \<union> (if passing_evaluator (ev_verdict c) then {EVALUATOR} else {})"

text \<open>A claim rests on artifacts of its Task, of the kinds its state asks for; where the claim passes, its
  verifier produced none of them; and a simulated environment supports no more than structure and runtime.\<close>

definition claim_sound :: "unicode_data \<Rightarrow> artifact_row list \<Rightarrow> evidence_row \<Rightarrow> bool" where
  "claim_sound u rows c \<longleftrightarrow> ev_artifact_refs c \<noteq> [] \<and> distinct (ev_artifact_refs c) \<and>
     set (ev_artifact_refs c) \<subseteq> af_artifact_id ` set rows \<and>
     (\<forall>a \<in> set rows. af_artifact_id a \<in> set (ev_artifact_refs c) \<longrightarrow> af_task_id a = ev_task_id c \<and>
        (independence_due (ev_state c) (ev_verdict c) \<longrightarrow>
           af_producer a \<noteq> ev_verifier c)) \<and>
     (\<forall>k \<in> set (claim_kinds (ev_state c)). \<exists>a \<in> set rows. af_artifact_id a \<in> set (ev_artifact_refs c) \<and> af_kind a = k) \<and>
     (\<exists>o'. classify_evidence_environment u (ev_environment c) = Inr o' \<and>
        (pc_reality o' = NON_REAL \<longrightarrow> ev_state c \<in> {ES_STRUCTURE, ES_RUNTIME}))"

lemma enforce_provenance_Inr:
  "enforce_provenance u st e vd p rows = Inr () \<longleftrightarrow>
     (\<exists>o'. classify_evidence_environment u e = Inr o' \<and> (pc_reality o' = NON_REAL \<longrightarrow> st \<in> {ES_STRUCTURE, ES_RUNTIME})) \<and>
     set_option (state_verifier_role st) \<union> (if passing_evaluator vd then {EVALUATOR} else {}) \<subseteq> set (pr_roles p) \<and>
     (independence_due st vd \<longrightarrow> pr_principal_id p \<notin> af_producer ` set rows) \<and>
     set (claim_kinds st) \<subseteq> af_kind ` set rows"
  unfolding enforce_provenance_def Let_def bindr_eq_Inr
  by (cases st) (auto simp: require_roles_def claim_kinds_def independence_due_def bindr_eq_Inr split: if_splits)

lemma referenced_length:
  assumes "distinct (map af_artifact_id rows)" "distinct refs"
    and "length (filter (\<lambda>a. af_artifact_id a \<in> set refs) rows) = length refs"
  shows "set refs \<subseteq> af_artifact_id ` set rows"
proof -
  let ?r = "filter (\<lambda>a. af_artifact_id a \<in> set refs) rows"
  have "distinct (map af_artifact_id ?r)" using assms(1) by (rule distinct_map_filter)
  then have "card (af_artifact_id ` set ?r) = card (set refs)"
    using assms(2, 3) distinct_card [of "map af_artifact_id ?r"] distinct_card [of refs] by simp
  then have "af_artifact_id ` set ?r = set refs" by (intro card_subset_eq) auto
  then show ?thesis by auto
qed

lemma referenced_uuid [simp]: "referenced refs (db\<lparr>uuid_next := n\<rparr>) = referenced refs db"
  by (simp add: referenced_def)

lemma referenced_set: "set (referenced refs db) = {a \<in> set (artifacts db). af_artifact_id a \<in> set refs}"
  by (auto simp: referenced_def)

lemma record_claim_Inr:
  assumes "record_claim env u er q db = Inr (c, db')" "distinct (map af_artifact_id (artifacts db))"
  shows "\<exists>p. verify_session env None (eq_session q) db = Inr p \<and> ev_verifier c = pr_principal_id p \<and>
     claim_roles c \<subseteq> set (pr_roles p) \<and> claim_sound u (artifacts db) c \<and> artifacts db' = artifacts db \<and>
     evidence_claims db' = evidence_claims db @ [c] \<and> (\<forall>x \<in> set (evidence_claims db). ev_evidence_id x \<noteq> ev_evidence_id c)"
proof -
  obtain d n where f: "fresh_id env (eq_evidence_id q) db = (d, db\<lparr>uuid_next := n\<rparr>)"
    using fresh_id_uuid by (metis prod.exhaust)
  have "returns (record_claim env u er q db) (\<lambda>(c, db'). (\<exists>p. verify_session env None (eq_session q) db = Inr p \<and>
        ev_verifier c = pr_principal_id p \<and>
        enforce_provenance u (ev_state c) (ev_environment c) (ev_verdict c) p (referenced (ev_artifact_refs c) db) = Inr ()) \<and>
      ev_artifact_refs c \<noteq> [] \<and> distinct (ev_artifact_refs c) \<and>
      length (referenced (ev_artifact_refs c) db) = length (ev_artifact_refs c) \<and>
      \<not> list_ex (\<lambda>a. af_task_id a \<noteq> ev_task_id c) (referenced (ev_artifact_refs c) db) \<and>
      artifacts db' = artifacts db \<and> evidence_claims db' = evidence_claims db @ [c] \<and>
      (\<forall>x \<in> set (evidence_claims db). ev_evidence_id x \<noteq> ev_evidence_id c))"
    unfolding record_claim_def f draw_uuid_def
    by (intro registry_steps returnsI, (clarsimp simp: bindr_eq_Inr)+) (fastforce dest!: append_event_frame)
  from returnsD [OF this assms(1)] obtain p where
      p: "verify_session env None (eq_session q) db = Inr p" "ev_verifier c = pr_principal_id p"
    and refs: "ev_artifact_refs c \<noteq> []" "distinct (ev_artifact_refs c)"
      "length (referenced (ev_artifact_refs c) db) = length (ev_artifact_refs c)"
      "\<not> list_ex (\<lambda>a. af_task_id a \<noteq> ev_task_id c) (referenced (ev_artifact_refs c) db)"
    and pr: "enforce_provenance u (ev_state c) (ev_environment c) (ev_verdict c) p (referenced (ev_artifact_refs c) db) = Inr ()"
    and frame: "artifacts db' = artifacts db" "evidence_claims db' = evidence_claims db @ [c]"
      "\<forall>x \<in> set (evidence_claims db). ev_evidence_id x \<noteq> ev_evidence_id c" by auto
  let ?rows = "referenced (ev_artifact_refs c) db"
  note pr' = pr [unfolded enforce_provenance_Inr]
  have known: "set (ev_artifact_refs c) \<subseteq> af_artifact_id ` set (artifacts db)"
    using assms(2) refs(2, 3) by (intro referenced_length) (simp_all add: referenced_def)
  have kinds: "\<forall>k \<in> set (claim_kinds (ev_state c)). \<exists>a \<in> set ?rows. af_kind a = k" using pr' by blast
  have tasks: "\<forall>a \<in> set ?rows. af_task_id a = ev_task_id c" using refs(4) by (simp add: list_ex_iff)
  have others: "\<forall>a \<in> set ?rows. independence_due (ev_state c) (ev_verdict c) \<longrightarrow> af_producer a \<noteq> ev_verifier c"
    using pr' [THEN conjunct2, THEN conjunct2, THEN conjunct1] p(2) by (metis imageI)
  have "claim_sound u (artifacts db) c"
    unfolding claim_sound_def
  proof (intro conjI)
    show "\<forall>a \<in> set (artifacts db). af_artifact_id a \<in> set (ev_artifact_refs c) \<longrightarrow> af_task_id a = ev_task_id c \<and>
        (independence_due (ev_state c) (ev_verdict c) \<longrightarrow>
           af_producer a \<noteq> ev_verifier c)"
      using tasks others unfolding referenced_set by blast
    show "\<forall>k \<in> set (claim_kinds (ev_state c)). \<exists>a \<in> set (artifacts db). af_artifact_id a \<in> set (ev_artifact_refs c) \<and> af_kind a = k"
      using kinds unfolding referenced_set by blast
  qed (rule refs known pr' [THEN conjunct1])+
  moreover have "claim_roles c \<subseteq> set (pr_roles p)" using pr by (simp add: enforce_provenance_Inr claim_roles_def)
  ultimately show ?thesis using p frame by blast
qed

section \<open>Histories of the registry\<close>

inductive evidence_step :: "unicode_data \<Rightarrow> db \<Rightarrow> db \<Rightarrow> bool" for u where
  registered: "register_artifact env er q db = Inr (a, db') \<Longrightarrow> evidence_step u db db'"
| claimed: "record_claim env u er q db = Inr (c, db') \<Longrightarrow> evidence_step u db db'"
| other_tables: "artifacts db' = artifacts db \<Longrightarrow> evidence_claims db' = evidence_claims db \<Longrightarrow> evidence_step u db db'"

abbreviation evidence_run :: "unicode_data \<Rightarrow> db \<Rightarrow> db \<Rightarrow> bool" where
  "evidence_run u \<equiv> (evidence_step u)\<^sup>*\<^sup>*"

lemma evidence_step_keys:
  "evidence_step u db db' \<Longrightarrow> distinct (map af_artifact_id (artifacts db)) \<Longrightarrow>
     distinct (map af_artifact_id (artifacts db')) \<and> set (artifacts db) \<subseteq> set (artifacts db')"
  by (induction rule: evidence_step.induct) (auto dest!: register_artifact_Inr record_claim_Inr simp: adds_artifact_def, blast)

lemma evidence_run_keys:
  "evidence_run u db db' \<Longrightarrow> distinct (map af_artifact_id (artifacts db)) \<Longrightarrow>
     distinct (map af_artifact_id (artifacts db')) \<and> set (artifacts db) \<subseteq> set (artifacts db')"
  by (induction rule: rtranclp_induct) (use evidence_step_keys in blast)+

text \<open>Later artifacts do not touch what a claim rests on.\<close>

lemma claim_sound_later:
  assumes "claim_sound u rows c" "set rows \<subseteq> set rows'" "distinct (map af_artifact_id rows')"
  shows "claim_sound u rows' c"
proof -
  have same: "a \<in> set rows" if a: "a \<in> set rows'" "af_artifact_id a \<in> set (ev_artifact_refs c)" for a
  proof -
    from a(2) assms(1) obtain b where b: "b \<in> set rows" "af_artifact_id b = af_artifact_id a"
      by (auto simp: claim_sound_def)
    with assms(2) have "b = a" by (intro key_unique [OF assms(3)]) (use a in auto)
    with b show ?thesis by simp
  qed
  have "set (ev_artifact_refs c) \<subseteq> af_artifact_id ` set rows'"
    using assms(1) image_mono [OF assms(2), of af_artifact_id] unfolding claim_sound_def by blast
  with same assms(1, 2) show ?thesis unfolding claim_sound_def by blast
qed

text \<open>The registration of an artifact, and the making of a claim, in a history.\<close>

definition registered_by :: "unicode_data \<Rightarrow> db \<Rightarrow> artifact_row \<Rightarrow> principal_record \<Rightarrow> bool" where
  "registered_by u db0 a p \<longleftrightarrow> (\<exists>env er q d d'. evidence_run u db0 d \<and> register_artifact env er q d = Inr (a, d') \<and>
     verify_session env None (fq_session q) d = Inr p \<and> pr_principal_id p = af_producer a)"

definition claimed_by :: "unicode_data \<Rightarrow> db \<Rightarrow> evidence_row \<Rightarrow> principal_record \<Rightarrow> bool" where
  "claimed_by u db0 c p \<longleftrightarrow> (\<exists>env er q d d'. evidence_run u db0 d \<and> record_claim env u er q d = Inr (c, d') \<and>
     verify_session env None (eq_session q) d = Inr p \<and> pr_principal_id p = ev_verifier c)"

lemma artifact_registered:
  assumes "evidence_run u db0 db" "artifacts db0 = []" "a \<in> set (artifacts db)"
  shows "\<exists>p. registered_by u db0 a p \<and> authorize_artifact_producer p (af_kind a) = Inr ()"
  using assms
proof (induction rule: rtranclp_induct)
  case (step d d')
  from step.hyps(2) show ?case
  proof cases
    case (registered env er q x)
    from register_artifact_Inr [OF this] obtain p where p: "verify_session env None (fq_session q) d = Inr p"
        "af_producer x = pr_principal_id p" "authorize_artifact_producer p (af_kind x) = Inr ()" "adds_artifact x d d'" by blast
    from p(4) step.prems have "a \<in> set (artifacts d) \<or> a = x" by (auto simp: adds_artifact_def)
    then show ?thesis
    proof
      assume "a = x"
      with p registered step.hyps(1) show ?thesis unfolding registered_by_def by metis
    qed (use step in blast)
  next
    case (claimed env er q c)
    have "distinct (map af_artifact_id (artifacts d))" using evidence_run_keys [OF step.hyps(1)] step.prems(1) by simp
    from record_claim_Inr [OF claimed this] step show ?thesis by auto
  qed (use step in auto)
qed simp

lemma claim_made:
  assumes "evidence_run u db0 db" "artifacts db0 = []" "evidence_claims db0 = []" "c \<in> set (evidence_claims db)"
  shows "claim_sound u (artifacts db) c \<and> (\<exists>p. claimed_by u db0 c p \<and> claim_roles c \<subseteq> set (pr_roles p))"
  using assms
proof (induction rule: rtranclp_induct)
  case (step d d')
  have k: "distinct (map af_artifact_id (artifacts d))" using evidence_run_keys [OF step.hyps(1)] step.prems(1) by simp
  note k' = evidence_step_keys [OF step.hyps(2) k]
  have old: ?case if "c \<in> set (evidence_claims d)"
    using step.IH [OF step.prems(1, 2) that] claim_sound_later k' by blast
  from step.hyps(2) show ?case
  proof cases
    case (registered env er q a)
    then show ?thesis using step.prems(3) by (intro old) (auto dest!: register_artifact_Inr simp: adds_artifact_def)
  next
    case (claimed env er q x)
    from record_claim_Inr [OF this k] obtain p where p: "verify_session env None (eq_session q) d = Inr p"
        "ev_verifier x = pr_principal_id p" "claim_roles x \<subseteq> set (pr_roles p)" "claim_sound u (artifacts d) x"
        "artifacts d' = artifacts d" "evidence_claims d' = evidence_claims d @ [x]" by blast
    show ?thesis
    proof (cases "c = x")
      case True
      have "claimed_by u db0 x p" using step.hyps(1) claimed p(1, 2) unfolding claimed_by_def by metis
      with True p(3-5) show ?thesis by auto
    qed (use old p(6) step.prems(3) in auto)
  qed (use old step.prems(3) in simp)
qed simp


text \<open>One claim, from the registration of its artifact on.\<close>

definition evidence_env :: env where
  "evidence_env = (sample_env 5)\<lparr>domain := sample_domain\<lparr>command_authorities := [
     (3, \<lparr>cb_handler = ''evidence_registry'', cb_owner = 20, cb_owner_alive = True, cb_kind = ''protected'',
          cb_binding_id = ''b3'', cb_config_digest = replicate 64 (CHR ''b'')\<rparr>)], next_token := 4\<rparr>\<rparr>"

definition sample_registry :: evidence_registry where
  "sample_registry = \<lparr>er_owner = 20, er_authority = 3, er_policy_version = ''v1''\<rparr>"

definition ascii_tables :: unicode_data where
  "ascii_tables = \<lparr>nfkc = (\<lambda>s. s), casefold = lower, netloc_valid = (\<lambda>_. True)\<rparr>"

definition sample_registration :: artifact_request where
  "sample_registration = \<lparr>fq_task_id = ''t1'', fq_kind = ''test-report'', fq_uri = ''file:///report'',
     fq_content_digest = replicate 64 (CHR ''c''), fq_session = Some (sample_session ''will''),
     fq_confidentiality = ''Internal'', fq_artifact_id = Some ''a1''\<rparr>"

definition sample_claim :: claim_request where
  "sample_claim = \<lparr>eq_task_id = ''t1'', eq_claim = ''tests pass'', eq_evidence_state = ''runtime_verification'',
     eq_artifact_refs = [''a1''], eq_session = Some (sample_session ''eve''), eq_verifier_version = ''1'',
     eq_environment = ''CI'', eq_verdict = ''pass'', eq_non_claims = [], eq_evidence_id = Some ''e1''\<rparr>"

definition evidence_db :: "(artifact_row \<times> db) res" where
  "evidence_db = register_artifact evidence_env sample_registry sample_registration (policy_db [] [])"

definition claim_db :: "(evidence_row \<times> db) res" where
  "claim_db = bindr evidence_db (\<lambda>(_, db). record_claim evidence_env ascii_tables sample_registry sample_claim db)"

lemma sample_claim_recorded:
  "(case claim_db of Inl _ \<Rightarrow> False | Inr (c, db) \<Rightarrow> evidence_claims db = [c] \<and> ev_verdict c = VD_PASS)"
  by code_simp


text \<open>The producer roles of a kind are looked up by its raw text, its class by its canonical one: a worker may
  register a \<open>provider-receipt\<close>, which counts as real.\<close>

lemma receipt_kind_by_another_spelling:
  "authorize_artifact_producer \<lparr>pr_principal_id = ''will'', pr_display_name = ''will'', pr_roles = [WORKER], pr_enabled = True,
     pr_credential_version = 1\<rparr> ''provider-receipt'' = Inr () \<and>
   bindr (classify_artifact_kind ascii_tables ''provider-receipt'') (\<lambda>a. bindr (classify_artifact_kind ascii_tables ''provider_receipt'')
     (\<lambda>b. Inr (pc_canonical_value a = pc_canonical_value b, pc_reality a = REAL))) = Inr (True, True)"
  by code_simp

end
