(* ===== verification/Observations.thy ===== *)
theory Observations
  imports Registry
begin

text \<open>
  \<open>observations.py\<close>: observations of runtime surfaces.  \<open>record\<close> accepts an observation
  of a surface the Goal declares, by an allowed probe and a trusted observer, for no longer than the Goal
  allows; \<open>require_fresh\<close> asks at the instant of a decision whether every surface has one.  The
  delivery gate of \<open>Gates\<close> reads the same table; on recorded rows the two agree.
\<close>

section \<open>Recording\<close>

definition VALID_STATUSES :: "string list" where
  "VALID_STATUSES = [''healthy'', ''ok'', ''pass'', ''degraded'', ''unhealthy'', ''failed'', ''unknown'']"

definition NON_PROBES :: "string list" where
  "NON_PROBES = [''documentation'', ''readme'', ''static_doc'', ''declared_state'']"

definition DOCUMENT_SUFFIXES :: "string list" where
  "DOCUMENT_SUFFIXES = [''.md'', ''.markdown'', ''.rst'', ''.adoc'', ''.txt'']"

definition documentation_probe :: "string \<Rightarrow> bool" where
  "documentation_probe probe \<longleftrightarrow>
     (let normalized = map (\<lambda>c. if c = CHR 0x5C then CHR ''/'' else c) (lower probe) in
      normalized \<in> set NON_PROBES \<or> list_ex (endswith normalized) DOCUMENT_SUFFIXES \<or>
      startswith (last (split_on (CHR ''/'') normalized)) ''readme.'')"

record observation_registry =
  or_policy_version :: string

record observation_request =
  oq_project_id :: string
  oq_run_id :: string
  oq_surface_key :: string
  oq_target_identity :: string
  oq_observer :: "auth_session option"
  oq_probe_name :: string
  oq_probe_version :: string
  oq_status :: string
  oq_value :: dict
  oq_ttl_seconds :: int
  oq_observed_at :: time_arg
  oq_trigger_event_id :: "string option"
  oq_observation_id :: "string option"

definition observation_text :: "string \<Rightarrow> string res" where
  "observation_text = text_field FreshnessError"

text \<open>The dict of requirements: the last one of a key.\<close>

definition surface_requirement :: "goal_spec \<Rightarrow> string \<Rightarrow> surface_spec option" where
  "surface_requirement goal key = map_of (rev (map (\<lambda>s. (surface_key s, s)) (gs_required_runtime_surfaces goal))) key"

definition observed_run_goal :: "string \<Rightarrow> string \<Rightarrow> db \<Rightarrow> goal_spec res" where
  "observed_run_goal project_id run_id db =
     bindr (require (fetch_one (\<lambda>r. r_run_id r = run_id) (runs db)) (NotFoundError ''run not found in project'')) (\<lambda>run.
     if r_project_id run \<noteq> project_id then Inl (NotFoundError ''run not found in project'')
     else
     bindr (require (fetch_one (\<lambda>g. g_goal_id g = r_goal_id run \<and> g_project_id g = project_id) (goals db))
              (FreshnessError ''run goal contract is missing'')) (\<lambda>row. load_goal_spec (g_spec row)))"

definition require_declared ::
    "surface_spec \<Rightarrow> string \<Rightarrow> string \<Rightarrow> int \<Rightarrow> string option \<Rightarrow> string \<Rightarrow> db \<Rightarrow> unit res" where
  "require_declared requirement tgt probe ttl trigger run_id db =
     (if tgt \<noteq> target_identity requirement then Inl (FreshnessError ''target identity does not match the goal contract'')
      else if probe \<notin> set (allowed_probes requirement) then Inl (FreshnessError ''probe is not allowed by the goal contract'')
      else if max_ttl_seconds requirement < ttl then Inl (FreshnessError ''observation TTL exceeds the goal contract'')
      else if trigger_event_required requirement \<and> trigger = None
      then Inl (FreshnessError ''a causal trigger event is required'')
      else if (case trigger of None \<Rightarrow> False
             | Some i \<Rightarrow> \<not> exists_row (\<lambda>e. e_event_id e = i \<and> e_run_id e = Some run_id) (events db))
      then Inl (FreshnessError ''trigger event is missing or belongs to another run'')
      else Inr ())"

definition observation_event :: "observation_registry \<Rightarrow> observation_row \<Rightarrow> string \<Rightarrow> event_cmd" where
  "observation_event reg ob command_id = event_defaults\<lparr>c_aggregate_type := ''runtime_observation'',
     c_aggregate_id := ob_observation_id ob, c_expected_version := 0, c_project_id := ob_project_id ob,
     c_run_id := Some (ob_run_id ob), c_event_type := ''runtime_observation_recorded'', c_actor := ob_observer ob,
     c_command_id := command_id, c_correlation_id := ob_run_id ob, c_causation_id := ob_trigger_event_id ob,
     c_policy_version := or_policy_version reg,
     c_payload := [(''surface_key'', JStr (ob_surface_key ob)), (''target_identity'', JStr (ob_target_identity ob)),
       (''observer'', JStr (ob_observer ob)), (''probe_name'', JStr (ob_probe_name ob)),
       (''probe_version'', JStr (ob_probe_version ob)), (''status'', JStr (ob_status ob)),
       (''value_digest'', JStr (ob_value_digest ob)), (''observed_at'', JInt (ob_observed_at ob)),
       (''expires_at'', JInt (ob_expires_at ob))]\<rparr>"

definition record_observation ::
    "env \<Rightarrow> observation_registry \<Rightarrow> observation_request \<Rightarrow> db \<Rightarrow> (observation_row \<times> db) res" where
  "record_observation env reg q db =
     bindr (observation_text (oq_project_id q)) (\<lambda>project_id.
     bindr (observation_text (oq_run_id q)) (\<lambda>run_id.
     bindr (observation_text (oq_surface_key q)) (\<lambda>surface.
     bindr (observation_text (oq_target_identity q)) (\<lambda>tgt.
     bindr (observation_text (oq_probe_name q)) (\<lambda>probe.
     bindr (observation_text (oq_probe_version q)) (\<lambda>version.
     bindr (observation_text (oq_status q)) (\<lambda>given.
     let status = lower given; ttl = oq_ttl_seconds q; trigger = oq_trigger_event_id q in
     if status \<notin> set VALID_STATUSES then Inl (FreshnessError ''unsupported observation status'')
     else if documentation_probe probe
     then Inl (FreshnessError ''documentation or declared state is not a runtime probe'')
     else if ttl < 1 then Inl (FreshnessError ''ttl_seconds must be a positive integer'')
     else
     bindr (instant FreshnessError (Some (now env)) (oq_observed_at q)) (\<lambda>observed.
     if now env + seconds 300 < observed then Inl (FreshnessError ''observed_at is implausibly far in the future'')
     else if observed + seconds ttl \<le> now env then Inl (FreshnessError ''observation is already stale when recorded'')
     else
     let (drawn, db) = fresh_id env (oq_observation_id q) db in
     bindr (observation_text drawn) (\<lambda>observation_id.
     bindr (require_role env OBSERVER (oq_observer q) db) (\<lambda>observer.
     bindr (observed_run_goal project_id run_id db) (\<lambda>goal.
     bindr (require (surface_requirement goal surface) (FreshnessError ''surface is not declared by the goal contract'')) (\<lambda>requirement.
     bindr (require_declared requirement tgt probe ttl trigger run_id db) (\<lambda>_.
     let row = \<lparr>ob_observation_id = observation_id, ob_project_id = project_id, ob_run_id = run_id, ob_surface_key = surface,
           ob_target_identity = tgt, ob_observer = pr_principal_id observer, ob_probe_name = probe, ob_probe_version = version,
           ob_trigger_event_id = trigger, ob_status = status, ob_value = JObj (oq_value q),
           ob_value_digest = content_hash (sha256 env) (JObj (oq_value q)), ob_observed_at = observed,
           ob_recorded_at = now env, ob_expires_at = observed + seconds ttl\<rparr>;
         (command_id, db) = draw_uuid env db in
     bindr (append_event env (observation_event reg row command_id) db) (\<lambda>(_, db).
     bindr (insert_row (\<lambda>a b. ob_observation_id a = ob_observation_id b) row (observations db)) (\<lambda>rows.
       Inr (row, db\<lparr>observations := rows\<rparr>))))))))))))))))"

section \<open>Freshness at a decision\<close>

text \<open>One iteration of the loop: the failure, or the latest observation.\<close>

definition check_surface :: "string \<Rightarrow> int \<Rightarrow> db \<Rightarrow> surface_spec \<Rightarrow> string + observation_row" where
  "check_surface run_id decision_time db requirement =
     (let rows = sort_key (\<lambda>ob. (- ob_observed_at ob, - ob_recorded_at ob))
            (filter (\<lambda>ob. ob_run_id ob = run_id \<and> ob_surface_key ob = surface_key requirement) (observations db)) in
      case rows of
        [] \<Rightarrow> Inl ''missing''
      | latest # _ \<Rightarrow>
          if decision_time < ob_observed_at latest then Inl ''newest observation is future-dated''
          else if ob_expires_at latest \<le> decision_time then Inl ''stale''
          else if \<not> healthy (ob_status latest) then Inl ''status''
          else if ob_target_identity latest \<noteq> target_identity requirement then Inl ''target identity''
          else if ob_probe_name latest \<notin> set (allowed_probes requirement) then Inl ''untrusted probe''
          else if seconds (max_ttl_seconds requirement) < ob_expires_at latest - ob_observed_at latest
          then Inl ''TTL exceeds contract''
          else if trigger_event_required requirement \<and> ob_trigger_event_id latest = None
          then Inl ''missing causal trigger event''
          else if \<not> exists_row (\<lambda>p. p_principal_id p = ob_observer latest \<and> p_enabled p \<and>
                    exists_row (\<lambda>r. ro_principal_id r = p_principal_id p \<and> ro_role r = OBSERVER) (principal_roles db)) (principals db)
          then Inl ''observer is not currently trusted''
          else if length (remdups (map (\<lambda>ob. (ob_target_identity ob, ob_status ob, ob_value_digest ob))
                     (filter (\<lambda>ob. ob_observed_at ob = ob_observed_at latest) rows))) > 1
          then Inl ''contradictory observations''
          else Inr latest)"

definition fresh_surfaces :: "(string \<times> (string + observation_row)) list \<Rightarrow> (string \<times> observation_row) list" where
  "fresh_surfaces checks = fold (\<lambda>(k, c) result. case c of Inl _ \<Rightarrow> result | Inr ob \<Rightarrow> AList.update k ob result) checks []"

definition require_fresh ::
    "env \<Rightarrow> string \<Rightarrow> surface_spec list \<Rightarrow> time_arg \<Rightarrow> db \<Rightarrow> (string \<times> observation_row) list res" where
  "require_fresh env given required_surfaces as_of db =
     bindr (observation_text given) (\<lambda>run_id.
     bindr (instant FreshnessError (Some (now env)) as_of) (\<lambda>decision_time.
     let checks = map (\<lambda>s. (surface_key s, check_surface run_id decision_time db s)) required_surfaces in
     if list_ex (\<lambda>(_, c). isl c) checks then Inl (FreshnessError ''runtime freshness gate failed'')
     else Inr (fresh_surfaces checks)))"

section \<open>What a record establishes\<close>

lemma observed_run_goal_uuid [simp]: "observed_run_goal p r (db\<lparr>uuid_next := n\<rparr>) = observed_run_goal p r db"
  by (simp add: observed_run_goal_def cong: if_cong)

lemma require_declared_uuid [simp]: "require_declared s tg pr ttl tr r (db\<lparr>uuid_next := n\<rparr>) = require_declared s tg pr ttl tr r db"
  by (cases tr) (simp_all add: require_declared_def cong: if_cong)

lemma observation_text_Inr [simp]: "observation_text s = Inr t \<longleftrightarrow> non_blank s \<and> t = strip s"
  by (simp add: observation_text_def)

lemma require_declared_Inr:
  "require_declared s tg pr ttl tr r db = Inr () \<longleftrightarrow> tg = target_identity s \<and> pr \<in> set (allowed_probes s) \<and>
     ttl \<le> max_ttl_seconds s \<and> (trigger_event_required s \<longrightarrow> tr \<noteq> None) \<and>
     (\<forall>i. tr = Some i \<longrightarrow> (\<exists>e \<in> set (events db). e_event_id e = i \<and> e_run_id e = Some r))"
  by (cases tr) (auto simp: require_declared_def)

text \<open>The row of an accepted observation: made for a declared surface, within the contract, by a trusted
  observer; and nothing but the ledger and the table of observations changed.\<close>

definition observation_due :: "env \<Rightarrow> goal_spec \<Rightarrow> surface_spec \<Rightarrow> observation_row \<Rightarrow> db \<Rightarrow> bool" where
  "observation_due env goal s ob db \<longleftrightarrow> surface_requirement goal (ob_surface_key ob) = Some s \<and>
     ob_target_identity ob = target_identity s \<and> ob_probe_name ob \<in> set (allowed_probes s) \<and>
     \<not> documentation_probe (ob_probe_name ob) \<and>
     (\<exists>ttl. 1 \<le> ttl \<and> ttl \<le> max_ttl_seconds s \<and> ob_expires_at ob = ob_observed_at ob + seconds ttl) \<and>
     (trigger_event_required s \<longrightarrow> ob_trigger_event_id ob \<noteq> None) \<and>
     (\<forall>i. ob_trigger_event_id ob = Some i \<longrightarrow> (\<exists>e \<in> set (events db). e_event_id e = i \<and> e_run_id e = Some (ob_run_id ob))) \<and>
     ob_observed_at ob \<le> now env + seconds 300 \<and> now env < ob_expires_at ob"

lemma record_observation_Inr:
  assumes "record_observation env reg q db = Inr (ob, db')"
  shows "\<exists>p goal s. require_role env OBSERVER (oq_observer q) db = Inr p \<and> ob_observer ob = pr_principal_id p \<and>
     observed_run_goal (ob_project_id ob) (ob_run_id ob) db = Inr goal \<and> observation_due env goal s ob db \<and>
     (\<forall>x \<in> set (observations db). ob_observation_id x \<noteq> ob_observation_id ob) \<and> ob_recorded_at ob = now env \<and>
     observations db' = observations db @ [ob] \<and> set (events db) \<subseteq> set (events db') \<and>
     db' = db\<lparr>events := events db', observations := observations db', uuid_next := uuid_next db'\<rparr>"
proof -
  obtain d n where f: "fresh_id env (oq_observation_id q) db = (d, db\<lparr>uuid_next := n\<rparr>)"
    using fresh_id_uuid by (metis prod.exhaust)
  have "returns (record_observation env reg q db) (\<lambda>(ob, db').
      (\<exists>p. require_role env OBSERVER (oq_observer q) db = Inr p \<and> ob_observer ob = pr_principal_id p) \<and>
      (\<exists>goal. observed_run_goal (ob_project_id ob) (ob_run_id ob) db = Inr goal \<and>
        (\<exists>s. surface_requirement goal (ob_surface_key ob) = Some s \<and>
          require_declared s (ob_target_identity ob) (ob_probe_name ob) (oq_ttl_seconds q) (ob_trigger_event_id ob) (ob_run_id ob) db = Inr ())) \<and>
      \<not> documentation_probe (ob_probe_name ob) \<and> 1 \<le> oq_ttl_seconds q \<and>
      ob_expires_at ob = ob_observed_at ob + seconds (oq_ttl_seconds q) \<and>
      ob_observed_at ob \<le> now env + seconds 300 \<and> now env < ob_expires_at ob \<and>
      (\<forall>x \<in> set (observations db). ob_observation_id x \<noteq> ob_observation_id ob) \<and> ob_recorded_at ob = now env \<and>
      observations db' = observations db @ [ob] \<and> set (events db) \<subseteq> set (events db') \<and>
      db' = db\<lparr>events := events db', observations := observations db', uuid_next := uuid_next db'\<rparr>)"
    unfolding record_observation_def f draw_uuid_def
    by (intro registry_steps returnsI, clarsimp simp: bindr_eq_Inr) (drule append_event_frame, simp, metis subset_insertI)
  from returnsD [OF this assms] show ?thesis
    unfolding observation_due_def require_declared_Inr split_conv by metis
qed

section \<open>Histories of the table\<close>

inductive observation_step :: "db \<Rightarrow> db \<Rightarrow> bool" where
  recorded: "record_observation env reg q db = Inr (ob, db') \<Longrightarrow> observation_step db db'"
| other_tables: "observations db' = observations db \<Longrightarrow> set (events db) \<subseteq> set (events db') \<Longrightarrow> observation_step db db'"

abbreviation observation_run :: "db \<Rightarrow> db \<Rightarrow> bool" where
  "observation_run \<equiv> observation_step\<^sup>*\<^sup>*"

text \<open>A recorded row lives for a whole number of seconds, and the event it names is one of its run.\<close>

definition observation_ok :: "db \<Rightarrow> observation_row \<Rightarrow> bool" where
  "observation_ok db ob \<longleftrightarrow> (\<exists>ttl \<ge> 1. ob_expires_at ob = ob_observed_at ob + seconds ttl) \<and>
     (\<forall>i. ob_trigger_event_id ob = Some i \<longrightarrow> (\<exists>e \<in> set (events db). e_event_id e = i \<and> e_run_id e = Some (ob_run_id ob)))"

lemma observation_ok_later: "observation_ok db ob \<Longrightarrow> set (events db) \<subseteq> set (events db') \<Longrightarrow> observation_ok db' ob"
  by (fastforce simp: observation_ok_def)

lemma observation_due_ok: "observation_due env goal s ob db \<Longrightarrow> observation_ok db ob"
  by (auto simp: observation_due_def observation_ok_def)

lemma observations_ok:
  assumes "observation_run db0 db" "observations db0 = []" "ob \<in> set (observations db)"
  shows "observation_ok db ob"
  using assms
proof (induction rule: rtranclp_induct)
  case (step d d')
  from step.hyps(2) show ?case
  proof cases
    case (recorded env reg q x)
    from record_observation_Inr [OF this] obtain goal s where "observation_due env goal s x d"
      "observations d' = observations d @ [x]" "set (events d) \<subseteq> set (events d')" by blast
    then show ?thesis using step observation_due_ok observation_ok_later by (metis Un_iff empty_iff insert_iff list.set set_append)
  next
    case other_tables
    then show ?thesis using step observation_ok_later by metis
  qed
qed simp

section \<open>The gate and the registry agree\<close>

lemma one_signature:
  assumes "a \<in> set xs"
  shows "\<not> 1 < length (remdups xs) \<longleftrightarrow> (\<forall>x \<in> set xs. x = a)"
proof -
  have "length (remdups xs) = card (set xs)" by (simp add: length_remdups_card_conv)
  moreover have "\<not> 1 < card (set xs) \<longleftrightarrow> (\<forall>x \<in> set xs. x = a)"
    using assms card_le_Suc0_iff_eq [of "set xs"] by (metis One_nat_def finite_set not_less)
  ultimately show ?thesis by simp
qed

lemma whole_seconds_ttl: "whole_seconds (t + seconds n) - whole_seconds t = n"
  by (simp add: whole_seconds_def seconds_def)

lemma check_surface_fresh:
  assumes "\<forall>ob \<in> set (observations db). observation_ok db ob"
  shows "\<not> isl (check_surface (r_run_id run) (now env) db s) \<longleftrightarrow> surface_fresh env run db s"
proof (cases "surface_observations run (surface_key s) db")
  case Nil
  then show ?thesis by (simp add: check_surface_def surface_fresh_def surface_observations_def)
next
  case (Cons latest rest)
  have "latest \<in> set (surface_observations run (surface_key s) db)" using Cons by simp
  then have l: "latest \<in> set (observations db)" "ob_run_id latest = r_run_id run" by (auto simp: surface_observations_def)
  with assms obtain ttl where ttl: "1 \<le> ttl" "ob_expires_at latest = ob_observed_at latest + seconds ttl"
    and tr: "\<forall>i. ob_trigger_event_id latest = Some i \<longrightarrow> (\<exists>e \<in> set (events db). e_event_id e = i \<and> e_run_id e = Some (r_run_id run))"
    by (auto simp: observation_ok_def)
  have sig: "\<not> 1 < length (remdups (map (\<lambda>ob. (ob_target_identity ob, ob_status ob, ob_value_digest ob))
        (filter (\<lambda>ob. ob_observed_at ob = ob_observed_at latest) (latest # rest)))) \<longleftrightarrow>
      list_all (\<lambda>ob. ob_observed_at ob = ob_observed_at latest \<longrightarrow> (ob_target_identity ob, ob_status ob, ob_value_digest ob) =
        (ob_target_identity latest, ob_status latest, ob_value_digest latest)) (latest # rest)"
    by (subst one_signature [where a = "(ob_target_identity latest, ob_status latest, ob_value_digest latest)"])
      (auto simp: list_all_iff)
  have tm: "seconds (max_ttl_seconds s) < ob_expires_at latest - ob_observed_at latest \<longleftrightarrow> max_ttl_seconds s < ttl"
    using ttl(2) by (simp add: seconds_def)
  have t: "(case ob_trigger_event_id latest of None \<Rightarrow> True
      | Some i \<Rightarrow> exists_row (\<lambda>e. e_event_id e = i \<and> e_run_id e = Some (r_run_id run)) (events db))"
    using tr by (simp split: option.split)
  show ?thesis
    unfolding check_surface_def surface_fresh_def surface_observations_def [symmetric] Cons Let_def list.case
      observation_fresh_def sig [symmetric] tm
    using t ttl whole_seconds_ttl [of "ob_observed_at latest" ttl] by (auto simp: not_less)
qed

text \<open>The dict of a passing check: every required surface with its latest observation.\<close>

lemma fresh_surfaces_keys:
  "fst ` set (fold (\<lambda>(k, c) result. case c of Inl _ \<Rightarrow> result | Inr ob \<Rightarrow> AList.update k ob result) checks acc) =
     fst ` set acc \<union> {k. \<exists>ob. (k, Inr ob) \<in> set checks}"
proof (induction checks arbitrary: acc)
  case (Cons c checks)
  obtain k v where "c = (k, v)" by force
  then show ?case using Cons.IH by (cases v) (auto simp: dom_update)
qed auto

lemma require_fresh_Inr:
  "(\<exists>result. require_fresh env given surfaces as_of db = Inr result) \<longleftrightarrow>
     non_blank given \<and> (\<exists>t. instant FreshnessError (Some (now env)) as_of = Inr t \<and>
       list_all (\<lambda>s. \<not> isl (check_surface (strip given) t db s)) surfaces)"
  unfolding require_fresh_def Let_def by (auto simp: bindr_eq_Inr list_ex_iff list_all_iff)

text \<open>C5. The freshness check and the delivery gate agree: on a table that only the registry wrote,
  whatever other services did meanwhile, \<open>require_fresh\<close> accepts the surfaces of the Goal of a run exactly
  when the guard \<open>freshness_satisfied\<close> holds at that instant, and then it returns an observation for each.\<close>

theorem freshness_check_is_the_gate:
  assumes "observation_run db0 db" "observations db0 = []"
    and "run_goal run db = Inr goal" "non_blank given" "strip given = r_run_id run"
  shows "freshness_satisfied env run db =
      Inr (\<exists>result. require_fresh env given (gs_required_runtime_surfaces goal) No_Time db = Inr result) \<and>
    (\<forall>result. require_fresh env given (gs_required_runtime_surfaces goal) No_Time db = Inr result \<longrightarrow>
      fst ` set result = surface_key ` set (gs_required_runtime_surfaces goal))"
proof (intro conjI allI impI)
  have ok: "\<forall>ob \<in> set (observations db). observation_ok db ob" using observations_ok [OF assms(1, 2)] by blast
  then show "freshness_satisfied env run db =
      Inr (\<exists>result. require_fresh env given (gs_required_runtime_surfaces goal) No_Time db = Inr result)"
    unfolding require_fresh_Inr freshness_satisfied_def
    using assms(3-5) by (simp add: instant_def check_surface_fresh list_all_iff)
next
  fix result
  let ?check = "\<lambda>s. check_surface (r_run_id run) (now env) db s"
  assume "require_fresh env given (gs_required_runtime_surfaces goal) No_Time db = Inr result"
  then have r: "result = fresh_surfaces (map (\<lambda>s. (surface_key s, ?check s)) (gs_required_runtime_surfaces goal))"
    and c: "\<forall>s \<in> set (gs_required_runtime_surfaces goal). \<not> isl (?check s)"
    using assms(5) by (auto simp: require_fresh_def instant_def Let_def list_ex_iff bindr_eq_Inr split: if_splits)
  have "{k. \<exists>ob. (k, Inr ob) \<in> (\<lambda>s. (surface_key s, ?check s)) ` set (gs_required_runtime_surfaces goal)} =
      surface_key ` set (gs_required_runtime_surfaces goal)"
    using c by (auto simp: image_iff) (metis isl_def sum.exhaust_sel sum.collapse(2))
  then show "fst ` set result = surface_key ` set (gs_required_runtime_surfaces goal)"
    unfolding r fresh_surfaces_def fresh_surfaces_keys by simp
qed

lemma sort_key_least: "\<forall>x \<in> set xs. k a < k x \<Longrightarrow> sort_key k (xs @ [a]) = a # sort_key k xs"
  by (induction xs) auto

text \<open>C6. A recorded observation opens the gate of its surface until it expires: when an accepted healthy
  observation is the latest of its surface, the guard of delivery and the registry's own check take it from
  the instant it was made for up to the instant it expires, as long as its observer stays trusted.\<close>

theorem recorded_observation_opens_gate:
  assumes "record_observation env reg q db = Inr (ob, db1)" "healthy (ob_status ob)"
    and "\<forall>x \<in> set (observations db). ob_run_id x = ob_run_id ob \<and> ob_surface_key x = ob_surface_key ob \<longrightarrow>
           ob_observed_at x < ob_observed_at ob"
    and "observations db2 = observations db1" "set (events db1) \<subseteq> set (events db2)"
    and "r_run_id run = ob_run_id ob"
  shows "\<exists>goal s. observed_run_goal (ob_project_id ob) (ob_run_id ob) db = Inr goal \<and>
     surface_requirement goal (ob_surface_key ob) = Some s \<and>
     (surface_fresh env' run db2 s \<longleftrightarrow> ob_observed_at ob \<le> now env' \<and> now env' < ob_expires_at ob \<and>
        (\<exists>p \<in> set (principals db2). p_principal_id p = ob_observer ob \<and> p_enabled p) \<and>
        (\<exists>r \<in> set (principal_roles db2). ro_principal_id r = ob_observer ob \<and> ro_role r = OBSERVER))"
proof -
  from record_observation_Inr [OF assms(1)] obtain goal s where
      g: "observed_run_goal (ob_project_id ob) (ob_run_id ob) db = Inr goal" and d: "observation_due env goal s ob db"
    and o: "observations db1 = observations db @ [ob]" and ev: "set (events db) \<subseteq> set (events db1)" by blast
  from d have s: "surface_requirement goal (ob_surface_key ob) = Some s" by (simp add: observation_due_def)
  then have key: "surface_key s = ob_surface_key ob"
    by (auto simp: surface_requirement_def dest!: map_of_SomeD)
  let ?k = "\<lambda>x. (- ob_observed_at x, - ob_recorded_at x)"
  let ?mine = "filter (\<lambda>x. ob_run_id x = ob_run_id ob \<and> ob_surface_key x = ob_surface_key ob) (observations db)"
  have first: "surface_observations run (surface_key s) db2 = ob # sort_key ?k ?mine"
  proof -
    have "\<forall>x \<in> set ?mine. ?k ob < ?k x" using assms(3) by (auto simp: less_prod_simp)
    then have "sort_key ?k (?mine @ [ob]) = ob # sort_key ?k ?mine"
      by (rule sort_key_least)
    then show ?thesis using assms(4, 6) key o by (simp add: surface_observations_def)
  qed
  have ok: "observation_ok db2 ob"
    using observation_ok_later [OF observation_due_ok [OF d]] ev assms(5) by blast
  have older: "list_all (\<lambda>x. ob_observed_at x = ob_observed_at ob \<longrightarrow> (ob_target_identity x, ob_status x, ob_value_digest x) =
      (ob_target_identity ob, ob_status ob, ob_value_digest ob)) (ob # sort_key ?k ?mine)"
    using assms(3) by (auto simp: list_all_iff)
  obtain ttl where ttl: "1 \<le> ttl" "ttl \<le> max_ttl_seconds s" "ob_expires_at ob = ob_observed_at ob + seconds ttl"
    using d by (auto simp: observation_due_def)
  have t: "(case ob_trigger_event_id ob of None \<Rightarrow> True
      | Some i \<Rightarrow> exists_row (\<lambda>e. e_event_id e = i \<and> e_run_id e = Some (r_run_id run)) (events db2))"
    using ok assms(6) by (auto simp: observation_ok_def split: option.split)
  have "surface_fresh env' run db2 s \<longleftrightarrow> observation_fresh env' run s (ob # sort_key ?k ?mine) ob db2"
    unfolding surface_fresh_def first by simp
  also have "\<dots> \<longleftrightarrow> ob_observed_at ob \<le> now env' \<and> now env' < ob_expires_at ob \<and>
        (\<exists>p \<in> set (principals db2). p_principal_id p = ob_observer ob \<and> p_enabled p) \<and>
        (\<exists>r \<in> set (principal_roles db2). ro_principal_id r = ob_observer ob \<and> ro_role r = OBSERVER)"
    unfolding observation_fresh_def using t older d assms(2) ttl whole_seconds_ttl [of "ob_observed_at ob" ttl]
    by (auto simp: observation_due_def)
  finally show ?thesis using g s by blast
qed

section \<open>Instances\<close>

definition api_surface :: surface_spec where
  "api_surface = \<lparr>surface_key = ''api'', target_identity = ''api-1'', allowed_probes = [''http_get''], max_ttl_seconds = 60,
     trigger_event_required = False\<rparr>"

definition observed_goal_row :: goal_row where
  "observed_goal_row = policy_goal_row\<lparr>g_spec := JObj (goal_to_dict (provider_goal\<lparr>gs_required_runtime_surfaces := [api_surface]\<rparr>))\<rparr>"

definition observed_db :: db where
  "observed_db = (policy_db [] [])\<lparr>goals := [observed_goal_row],
     principal_roles := principal_roles (policy_db [] []) @ [\<lparr>ro_principal_id = ''sys'', ro_role = OBSERVER, ro_granted_at = 0\<rparr>]\<rparr>"

definition api_request :: observation_request where
  "api_request = \<lparr>oq_project_id = ''p1'', oq_run_id = ''r1'', oq_surface_key = ''api'', oq_target_identity = ''api-1'',
     oq_observer = Some (sample_session ''sys''), oq_probe_name = ''http_get'', oq_probe_version = ''1'', oq_status = ''healthy'',
     oq_value = [(''code'', JInt 200)], oq_ttl_seconds = 30, oq_observed_at = No_Time, oq_trigger_event_id = None,
     oq_observation_id = Some ''o1''\<rparr>"

definition api_goal :: goal_spec where
  "api_goal = provider_goal\<lparr>gs_required_runtime_surfaces := [api_surface]\<rparr>"

lemma api_checks:
  "load_goal_spec (g_spec observed_goal_row) = Inr api_goal" "surface_requirement api_goal ''api'' = Some api_surface"
  "observation_text ''p1'' = Inr ''p1''" "observation_text ''r1'' = Inr ''r1''" "observation_text ''api'' = Inr ''api''"
  "observation_text ''api-1'' = Inr ''api-1''" "observation_text ''http_get'' = Inr ''http_get''"
  "observation_text ''1'' = Inr ''1''" "observation_text ''healthy'' = Inr ''healthy''" "observation_text ''o1'' = Inr ''o1''"
  "lower ''healthy'' = ''healthy''" "documentation_probe ''http_get'' = False"
  by (code_simp+)

lemma api_goal_found: "run_goal policy_run_row observed_db = Inr api_goal" "observed_run_goal ''p1'' ''r1'' observed_db = Inr api_goal"
  using api_checks(1) by (simp_all add: run_goal_def observed_run_goal_def observed_db_def observed_goal_row_def policy_db_def
      policy_goal_row_def policy_run_row_def)

lemma api_observer:
  "require_role (sample_env 5) OBSERVER (Some (sample_session ''sys'')) observed_db =
     Inr \<lparr>pr_principal_id = ''sys'', pr_display_name = ''sys'', pr_roles = [SYSTEM, OBSERVER], pr_enabled = True, pr_credential_version = 1\<rparr>"
  by code_simp

lemma api_observed:
  "\<exists>ob db. record_observation (sample_env 5) \<lparr>or_policy_version = ''v1''\<rparr> api_request observed_db = Inr (ob, db) \<and>
     ob_status ob = ''healthy'' \<and> ob_run_id ob = ''r1'' \<and> ob_observed_at ob = 5 \<and> ob_observer ob = ''sys'' \<and>
     ob_expires_at ob = 5 + seconds 30 \<and> ob_surface_key ob = ''api'' \<and> ob_project_id ob = ''p1'' \<and> observations observed_db = []"
proof -
  have o: "observations observed_db = []" "events observed_db = []" by (simp_all add: observed_db_def policy_db_def sample_rows)
  have d: "require_declared api_surface ''api-1'' ''http_get'' 30 None ''r1'' observed_db = Inr ()"
    by (simp add: require_declared_Inr api_surface_def)
  show ?thesis
    by (simp add: record_observation_def api_request_def api_checks api_goal_found api_observer d o instant_def fresh_id_def
        draw_uuid_def event_run observation_event_def event_defaults_def seconds_def VALID_STATUSES_def Let_def del: lower_simps cong: bind_eval)
qed

lemma freshness_check_is_the_gate_witness:
  "\<exists>db ob. observation_run observed_db db \<and> observations db = [ob] \<and> run_goal policy_run_row db = Inr api_goal \<and>
     freshness_satisfied (sample_env 6) policy_run_row db =
       Inr (\<exists>result. require_fresh (sample_env 6) ''r1'' (gs_required_runtime_surfaces api_goal) No_Time db = Inr result)"
proof -
  from api_observed obtain ob db where r: "record_observation (sample_env 5) \<lparr>or_policy_version = ''v1''\<rparr> api_request observed_db = Inr (ob, db)"
    and o: "observations observed_db = []" by blast
  then have run: "observation_run observed_db db" by (blast intro: observation_step.recorded)
  from record_observation_Inr [OF r] o have ob: "observations db = [ob]"
    and f: "db = observed_db\<lparr>events := events db, observations := observations db, uuid_next := uuid_next db\<rparr>" by auto
  have g: "run_goal policy_run_row db = Inr api_goal"
    using api_goal_found(1) by (subst f) (simp add: run_goal_def)
  show ?thesis
    using freshness_check_is_the_gate [OF run o g, of "''r1''" "sample_env 6"] run ob g
    by (auto simp: policy_run_row_def non_blank_def strip_def lstrip_def is_space_def)
qed

lemma recorded_observation_opens_gate_witness:
  "\<exists>ob db. record_observation (sample_env 5) \<lparr>or_policy_version = ''v1''\<rparr> api_request observed_db = Inr (ob, db) \<and>
     surface_fresh (sample_env 6) policy_run_row db api_surface \<and>
     \<not> surface_fresh (sample_env (5 + seconds 30)) policy_run_row db api_surface"
proof -
  from api_observed obtain ob db where r: "record_observation (sample_env 5) \<lparr>or_policy_version = ''v1''\<rparr> api_request observed_db = Inr (ob, db)"
    and ob: "ob_status ob = ''healthy''" "ob_run_id ob = ''r1''" "ob_observed_at ob = 5" "ob_observer ob = ''sys''"
      "ob_expires_at ob = 5 + seconds 30" "observations observed_db = []"
    and k: "ob_surface_key ob = ''api''" "ob_project_id ob = ''p1''" by blast
  have h: "healthy (ob_status ob)" "r_run_id policy_run_row = ob_run_id ob" by (simp_all add: ob healthy_def policy_run_row_def)
  from record_observation_Inr [OF r] obtain goal s where d: "observed_run_goal (ob_project_id ob) (ob_run_id ob) observed_db = Inr goal"
    "observation_due (sample_env 5) goal s ob observed_db"
    and f: "db = observed_db\<lparr>events := events db, observations := observations db, uuid_next := uuid_next db\<rparr>" by blast
  have t: "\<exists>p \<in> set (principals db). p_principal_id p = ob_observer ob \<and> p_enabled p"
    "\<exists>r \<in> set (principal_roles db). ro_principal_id r = ob_observer ob \<and> ro_role r = OBSERVER"
    by (subst f, simp add: ob observed_db_def policy_db_def sample_rows)+
  note gate = recorded_observation_opens_gate [OF r h(1), of db policy_run_row]
  have "surface_fresh (sample_env t) policy_run_row db api_surface \<longleftrightarrow> 5 \<le> t \<and> t < 5 + seconds 30" for t
    using gate [of "sample_env t"] h(2) t ob k api_goal_found(2) api_checks(2) by auto
  then show ?thesis using r by (intro exI [of _ ob] exI [of _ db]) (simp add: seconds_def)
qed

end
