(* ===== verification/Integration.thy ===== *)
theory Integration
  imports Registry
begin

text \<open>
  \<open>integration.py\<close>: the integration queue.  An item of a Task moves along the table of transitions
  under a release or system principal; it reaches a final state only under the decision gates of its Task
  and with passing evidence of the Task among its references.  The guard \<open>integration_satisfied\<close> of
  \<open>Gates\<close> reads the same table.
\<close>

section \<open>The table of transitions\<close>

fun INTEGRATION_TRANSITIONS :: "integration_state \<Rightarrow> integration_state list" where
  "INTEGRATION_TRANSITIONS IS_REVIEW_PENDING = [IS_EVALUATOR_PENDING, IS_PUSH_PR_PENDING, IS_DEPLOY_PENDING, IS_DELETE_PENDING,
     IS_RETIRE_PENDING, IS_DELIVERED, IS_DEFER_WITH_OWNER, IS_SUPERSEDED]"
| "INTEGRATION_TRANSITIONS IS_EVALUATOR_PENDING = [IS_REVIEW_PENDING, IS_PUSH_PR_PENDING, IS_DEFER_WITH_OWNER, IS_SUPERSEDED]"
| "INTEGRATION_TRANSITIONS IS_PUSH_PR_PENDING = [IS_CI_PENDING, IS_DEFER_WITH_OWNER, IS_SUPERSEDED]"
| "INTEGRATION_TRANSITIONS IS_CI_PENDING = [IS_MERGE_PENDING, IS_CI_FAILED, IS_DEFER_WITH_OWNER]"
| "INTEGRATION_TRANSITIONS IS_CI_FAILED = [IS_PUSH_PR_PENDING, IS_DEFER_WITH_OWNER, IS_SUPERSEDED]"
| "INTEGRATION_TRANSITIONS IS_MERGE_PENDING = [IS_DEPLOY_PENDING, IS_DELIVERED, IS_DEFER_WITH_OWNER]"
| "INTEGRATION_TRANSITIONS IS_DEPLOY_PENDING = [IS_DEPLOY_DIR_UPDATED, IS_DEFER_WITH_OWNER, IS_SUPERSEDED]"
| "INTEGRATION_TRANSITIONS IS_DEPLOY_DIR_UPDATED = [IS_SERVICE_RESTART_REQUIRED, IS_RUNTIME_CHECK_PENDING, IS_DEFER_WITH_OWNER]"
| "INTEGRATION_TRANSITIONS IS_SERVICE_RESTART_REQUIRED = [IS_RUNTIME_CHECK_PENDING, IS_DEFER_WITH_OWNER]"
| "INTEGRATION_TRANSITIONS IS_RUNTIME_CHECK_PENDING = [IS_DELIVERED, IS_RUNTIME_STALE, IS_DEFER_WITH_OWNER]"
| "INTEGRATION_TRANSITIONS IS_RUNTIME_STALE = [IS_SERVICE_RESTART_REQUIRED, IS_DEPLOY_PENDING, IS_DEFER_WITH_OWNER]"
| "INTEGRATION_TRANSITIONS IS_DELETE_PENDING = [IS_DELIVERED, IS_DEFER_WITH_OWNER]"
| "INTEGRATION_TRANSITIONS IS_RETIRE_PENDING = [IS_DELIVERED, IS_DEFER_WITH_OWNER]"
| "INTEGRATION_TRANSITIONS IS_DEFER_WITH_OWNER = [IS_REVIEW_PENDING, IS_DELETE_PENDING, IS_RETIRE_PENDING, IS_SUPERSEDED]"
| "INTEGRATION_TRANSITIONS IS_DELIVERED = []"
| "INTEGRATION_TRANSITIONS IS_SUPERSEDED = []"

lemma final_is_last: "integration_final s \<longleftrightarrow> INTEGRATION_TRANSITIONS s = []"
  by (cases s) (simp_all add: integration_final_def)

section \<open>Operations\<close>

record integration_queue =
  iq_policy_version :: string

record item_request =
  iq_task_id :: string
  iq_source_ref :: string
  iq_target_ref :: string
  iq_owner :: "auth_session option"
  iq_initial_state :: string
  iq_evidence_refs :: "string list"
  iq_integration_id :: "string option"

definition queue_text :: "string \<Rightarrow> string res" where
  "queue_text = text_field TransitionError"

definition all_integration_states :: "integration_state list" where
  "all_integration_states = [IS_REVIEW_PENDING, IS_EVALUATOR_PENDING, IS_PUSH_PR_PENDING, IS_CI_PENDING, IS_CI_FAILED,
     IS_MERGE_PENDING, IS_DEPLOY_PENDING, IS_DEPLOY_DIR_UPDATED, IS_SERVICE_RESTART_REQUIRED, IS_RUNTIME_CHECK_PENDING,
     IS_RUNTIME_STALE, IS_DELETE_PENDING, IS_RETIRE_PENDING, IS_DELIVERED, IS_DEFER_WITH_OWNER, IS_SUPERSEDED]"

definition integration_state_of :: "string \<Rightarrow> integration_state res" where
  "integration_state_of s = require (List.find (\<lambda>v. s = integration_state_value v) all_integration_states)
     (TransitionError ''unsupported integration state'')"

definition queue_actor :: "env \<Rightarrow> auth_session option \<Rightarrow> role list \<Rightarrow> db \<Rightarrow> string res" where
  "queue_actor env session allowed db =
     bindr (verify_session env None session db) (\<lambda>p.
       if set (pr_roles p) \<inter> set allowed = {}
       then Inl (TransitionError ''integration actor lacks the required authenticated role'')
       else Inr (pr_principal_id p))"

definition queue_task :: "string \<Rightarrow> db \<Rightarrow> (task_row \<times> string) res" where
  "queue_task task_id db =
     bindr (require (fetch_one (\<lambda>t. t_task_id t = task_id) (tasks db)) (NotFoundError ''task not found'')) (\<lambda>row.
     bindr (require (t_run_id row) (TransitionError ''task has no run'')) (\<lambda>run_id. Inr (row, run_id)))"

definition validate_evidence :: "string \<Rightarrow> string list \<Rightarrow> db \<Rightarrow> unit res" where
  "validate_evidence task_id refs db =
     (let rows = filter (\<lambda>c. ev_evidence_id c \<in> set refs) (evidence_claims db) in
      if refs = [] then Inr ()
      else if set (map ev_evidence_id rows) \<noteq> set refs then Inl (EvidenceError ''integration evidence missing'')
      else if list_ex (\<lambda>c. ev_task_id c \<noteq> task_id) rows
      then Inl (EvidenceError ''integration evidence belongs to another task'')
      else Inr ())"

text \<open>What a repeated creation must repeat.\<close>

definition item_content :: "integration_row \<Rightarrow> string \<times> string \<times> string \<times> string \<times> integration_state \<times> string list" where
  "item_content i = (in_task_id i, in_source_ref i, in_target_ref i, in_owner i, in_state i, in_evidence_refs i)"

definition item_created :: "integration_queue \<Rightarrow> integration_row \<Rightarrow> string \<Rightarrow> event_cmd" where
  "item_created iq i command_id = event_defaults\<lparr>c_aggregate_type := ''integration'', c_aggregate_id := in_integration_id i,
     c_expected_version := 0, c_project_id := in_project_id i, c_run_id := Some (in_run_id i), c_task_id := Some (in_task_id i),
     c_event_type := ''integration_item_created'', c_actor := in_owner i, c_command_id := command_id,
     c_correlation_id := in_run_id i, c_policy_version := iq_policy_version iq,
     c_payload := [(''state'', JStr (integration_state_value (in_state i))), (''source_ref'', JStr (in_source_ref i)),
       (''target_ref'', JStr (in_target_ref i)), (''owner'', JStr (in_owner i)),
       (''evidence_refs'', JList (map JStr (in_evidence_refs i)))]\<rparr>"

definition create_item :: "env \<Rightarrow> integration_queue \<Rightarrow> item_request \<Rightarrow> db \<Rightarrow> (integration_row \<times> db) res" where
  "create_item env iq q db =
     bindr (queue_text (iq_task_id q)) (\<lambda>task_id.
     bindr (queue_text (iq_source_ref q)) (\<lambda>source_ref.
     bindr (queue_text (iq_target_ref q)) (\<lambda>target_ref.
     bindr (integration_state_of (iq_initial_state q)) (\<lambda>st.
     if st \<noteq> IS_REVIEW_PENDING then Inl (TransitionError ''new integration items must start at review_pending'')
     else
     bindr (mapr queue_text (iq_evidence_refs q)) (\<lambda>given.
     let refs = dedup given; (drawn, db) = fresh_id env (iq_integration_id q) db in
     bindr (queue_text drawn) (\<lambda>integration_id.
     bindr (queue_actor env (iq_owner q) [RELEASE, SYSTEM] db) (\<lambda>owner.
     case fetch_one (\<lambda>i. in_integration_id i = integration_id) (integration_items db) of
       Some existing \<Rightarrow>
         if item_content existing \<noteq> (task_id, source_ref, target_ref, owner, st, refs)
         then Inl (IntegrityError ''integration id reused with different content'')
         else Inr (existing, db)
     | None \<Rightarrow>
         bindr (queue_task task_id db) (\<lambda>(task, run_id).
         if t_state task \<in> set TERMINAL_TASK_STATES
         then Inl (TransitionError ''terminal task is sealed against new integration items'')
         else
         bindr (require (fetch_one (\<lambda>r. r_run_id r = run_id \<and> r_project_id r = t_project_id task) (runs db))
                  (NotFoundError ''run not found for task'')) (\<lambda>run.
         if r_loop_state run \<in> {LS_DELIVERED, LS_IMPROVEMENT_PENDING}
         then Inl (TransitionError ''delivered run is sealed against new integration items'')
         else
         bindr (validate_evidence task_id refs db) (\<lambda>_.
         let row = \<lparr>in_integration_id = integration_id, in_project_id = t_project_id task, in_run_id = run_id,
               in_task_id = task_id, in_state = st, in_source_ref = source_ref, in_target_ref = target_ref, in_owner = owner,
               in_evidence_refs = refs, in_updated_at = now env\<rparr>;
             (command_id, db) = draw_uuid env db in
         bindr (append_event env (item_created iq row command_id) db) (\<lambda>(_, db).
         bindr (insert_row (\<lambda>a b. in_integration_id a = in_integration_id b) row (integration_items db)) (\<lambda>rows.
           Inr (row, db\<lparr>integration_items := rows\<rparr>)))))))))))))"

text \<open>What a final state asks for.\<close>

definition accepted_verdicts :: "task_spec \<Rightarrow> evaluator_verdict list" where
  "accepted_verdicts spec = [VD_PASS, VD_PASS_WITH_RISK] @ (if ts_evaluator_required spec then [] else [VD_NOT_REQUIRED])"

definition require_final :: "env \<Rightarrow> string \<Rightarrow> string list \<Rightarrow> db \<Rightarrow> unit res" where
  "require_final env task_id refs db =
     bindr (decision_gates_satisfied env db task_id) (\<lambda>ok.
     if \<not> ok then Inl (TransitionError ''compiled Task required decision gates are not satisfied'')
     else if refs = [] then Inl (EvidenceError ''final integration state requires evidence references'')
     else
     bindr (validate_evidence task_id refs db) (\<lambda>_.
     bindr (require (fetch_one (\<lambda>t. t_task_id t = task_id) (tasks db)) (PyTypeError ''NoneType'')) (\<lambda>row.
     bindr (load_task_spec (t_spec row)) (\<lambda>spec.
       ensure (exists_row (\<lambda>c. ev_evidence_id c \<in> set refs \<and> ev_task_id c = task_id \<and> ev_state c = ts_evidence_target spec \<and>
                 ev_verdict c \<in> set (accepted_verdicts spec)) (evidence_claims db))
         (EvidenceError ''final integration state requires passing task evidence'')))))"

definition item_changed :: "integration_queue \<Rightarrow> integration_row \<Rightarrow> integration_state \<Rightarrow> string \<Rightarrow> string \<Rightarrow> string list \<Rightarrow> int \<Rightarrow> string \<Rightarrow> event_cmd" where
  "item_changed iq i tgt actor reason refs version command_id = event_defaults\<lparr>c_aggregate_type := ''integration'',
     c_aggregate_id := in_integration_id i, c_expected_version := version, c_project_id := in_project_id i,
     c_run_id := Some (in_run_id i), c_task_id := Some (in_task_id i), c_event_type := ''integration_state_changed'',
     c_actor := actor, c_command_id := command_id, c_correlation_id := in_run_id i, c_policy_version := iq_policy_version iq,
     c_payload := [(''from'', JStr (integration_state_value (in_state i))), (''to'', JStr (integration_state_value tgt)),
       (''reason'', JStr reason), (''evidence_refs'', JList (map JStr refs))]\<rparr>"

definition advance_roles :: "integration_state \<Rightarrow> role list" where
  "advance_roles tgt = [RELEASE, SYSTEM] @ (if tgt \<in> {IS_DELETE_PENDING, IS_RETIRE_PENDING} then [OWNER] else [])"

definition moved :: "env \<Rightarrow> integration_state \<Rightarrow> string list \<Rightarrow> integration_row \<Rightarrow> integration_row" where
  "moved env tgt refs i = i\<lparr>in_state := tgt, in_evidence_refs := refs, in_updated_at := now env\<rparr>"

definition advance_item ::
    "env \<Rightarrow> integration_queue \<Rightarrow> string \<Rightarrow> string \<Rightarrow> auth_session option \<Rightarrow> string list \<Rightarrow> string \<Rightarrow> db \<Rightarrow> (integration_row \<times> db) res" where
  "advance_item env iq item_id target_text session given_refs reason_text db =
     bindr (queue_text item_id) (\<lambda>integration_id.
     bindr (queue_text reason_text) (\<lambda>reason.
     bindr (integration_state_of target_text) (\<lambda>tgt.
     bindr (mapr queue_text given_refs) (\<lambda>given.
     let refs = dedup given in
     bindr (queue_actor env session (advance_roles tgt) db) (\<lambda>actor.
     bindr (require (fetch_one (\<lambda>i. in_integration_id i = integration_id) (integration_items db))
              (NotFoundError ''integration item not found'')) (\<lambda>row.
     bindr (require (fetch_one (\<lambda>t. t_task_id t = in_task_id row) (tasks db))
              (IntegrityError ''integration item references a missing task'')) (\<lambda>task.
     if t_state task \<in> set TERMINAL_TASK_STATES
     then Inl (TransitionError ''terminal task is sealed against integration mutation'')
     else if tgt \<notin> set (INTEGRATION_TRANSITIONS (in_state row))
     then Inl (TransitionError ''integration transition not allowed'')
     else
     bindr (validate_evidence (in_task_id row) refs db) (\<lambda>_.
     let all_refs = dedup (in_evidence_refs row @ refs) in
     bindr (if integration_final tgt then require_final env (in_task_id row) all_refs db else Inr ()) (\<lambda>_.
     let version = current_version ''integration'' integration_id (events db); (command_id, db) = draw_uuid env db in
     bindr (append_event env (item_changed iq row tgt actor reason refs version command_id) db) (\<lambda>(_, db).
     let rows = update_where (\<lambda>i. in_integration_id i = integration_id) (moved env tgt all_refs) (integration_items db) in
       bindr (require (fetch_one (\<lambda>i. in_integration_id i = integration_id) rows) (PyTypeError ''NoneType'')) (\<lambda>row.
         Inr (row, db\<lparr>integration_items := rows\<rparr>))))))))))))"

definition require_task_satisfied :: "string \<Rightarrow> bool \<Rightarrow> db \<Rightarrow> integration_row list res" where
  "require_task_satisfied task_id allow_no_items db =
     (let rows = sort_key in_updated_at (filter (\<lambda>i. in_task_id i = task_id) (integration_items db)) in
      if rows = [] \<and> \<not> allow_no_items then Inl (TransitionError ''task has no integration route'')
      else if \<not> list_all (\<lambda>i. integration_final (in_state i)) rows
      then Inl (TransitionError ''integration queue is not satisfied'')
      else Inr rows)"

section \<open>What a creation and an advance establish\<close>

lemma queue_text_Inr [simp]: "queue_text s = Inr t \<longleftrightarrow> non_blank s \<and> t = strip s"
  by (simp add: queue_text_def)

lemma queue_actor_uuid [simp]: "queue_actor env s rs (db\<lparr>uuid_next := n\<rparr>) = queue_actor env s rs db"
  by (simp add: queue_actor_def)

lemma queue_task_uuid [simp]: "queue_task i (db\<lparr>uuid_next := n\<rparr>) = queue_task i db"
  by (simp add: queue_task_def)

lemma validate_evidence_uuid [simp]: "validate_evidence i refs (db\<lparr>uuid_next := n\<rparr>) = validate_evidence i refs db"
  by (simp add: validate_evidence_def)

text \<open>Both operations touch the ledger and the queue only.\<close>

definition queue_frame :: "db \<Rightarrow> db \<Rightarrow> bool" where
  "queue_frame db db' \<longleftrightarrow>
     db' = db\<lparr>events := events db', integration_items := integration_items db', uuid_next := uuid_next db'\<rparr>"

lemma queue_frame_tables:
  assumes "queue_frame db db'"
  shows "tasks db' = tasks db" "evidence_claims db' = evidence_claims db"
  using arg_cong [OF assms [unfolded queue_frame_def], of tasks]
    arg_cong [OF assms [unfolded queue_frame_def], of evidence_claims] by simp_all

lemma create_item_Inr:
  assumes "create_item env iq q db = Inr (i, db')"
  shows "(i \<in> set (integration_items db) \<and> integration_items db' = integration_items db \<or>
       in_state i = IS_REVIEW_PENDING \<and> (\<forall>x \<in> set (integration_items db). in_integration_id x \<noteq> in_integration_id i) \<and>
       integration_items db' = integration_items db @ [i]) \<and> queue_frame db db'"
proof -
  obtain d n where f: "fresh_id env (iq_integration_id q) db = (d, db\<lparr>uuid_next := n\<rparr>)"
    using fresh_id_uuid by (metis prod.exhaust)
  have "returns (create_item env iq q db) (\<lambda>(i, db'). (i \<in> set (integration_items db) \<and> integration_items db' = integration_items db \<or>
       in_state i = IS_REVIEW_PENDING \<and> (\<forall>x \<in> set (integration_items db). in_integration_id x \<noteq> in_integration_id i) \<and>
       integration_items db' = integration_items db @ [i]) \<and> queue_frame db db')"
    unfolding create_item_def f draw_uuid_def
    by (intro registry_steps returnsI; clarsimp simp: bindr_eq_Inr queue_frame_def)
      (drule append_event_frame, simp, metis fetch_one_SomeD)
  from returnsD [OF this assms] show ?thesis by simp
qed

text \<open>The move of an item: the row before, the Task it belongs to, and the guard of a final state.\<close>

definition item_moved :: "env \<Rightarrow> db \<Rightarrow> integration_row \<Rightarrow> integration_row \<Rightarrow> bool" where
  "item_moved env db x i \<longleftrightarrow> x \<in> set (integration_items db) \<and> in_integration_id x = in_integration_id i \<and>
     in_task_id x = in_task_id i \<and> in_state i \<in> set (INTEGRATION_TRANSITIONS (in_state x)) \<and>
     set (in_evidence_refs x) \<subseteq> set (in_evidence_refs i) \<and>
     (\<exists>t. fetch_one (\<lambda>t. t_task_id t = in_task_id i) (tasks db) = Some t \<and> t_state t \<notin> set TERMINAL_TASK_STATES) \<and>
     (integration_final (in_state i) \<longrightarrow> require_final env (in_task_id i) (in_evidence_refs i) db = Inr ())"

lemma moved_simps [simp]:
  "in_integration_id (moved env tgt refs i) = in_integration_id i" "in_task_id (moved env tgt refs i) = in_task_id i"
  "in_state (moved env tgt refs i) = tgt" "in_evidence_refs (moved env tgt refs i) = refs"
  by (simp_all add: moved_def)

lemma fetch_moved [simp]:
  "fetch_one (\<lambda>i. in_integration_id i = k) (update_where (\<lambda>i. in_integration_id i = k) (moved env tgt refs) rows) =
     map_option (moved env tgt refs) (fetch_one (\<lambda>i. in_integration_id i = k) rows)"
  by (induction rows) auto

lemma advance_item_Inr:
  assumes "advance_item env iq iid tgt s refs reason db = Inr (i, db')"
  shows "\<exists>x actor. item_moved env db x i \<and> i = moved env (in_state i) (in_evidence_refs i) x \<and> queue_actor env s (advance_roles (in_state i)) db = Inr actor \<and>
     integration_items db' = update_where (\<lambda>r. in_integration_id r = in_integration_id i)
       (moved env (in_state i) (in_evidence_refs i)) (integration_items db) \<and> queue_frame db db'"
proof -
  have "returns (advance_item env iq iid tgt s refs reason db) (\<lambda>(i, db').
     (\<exists>x. item_moved env db x i \<and> i = moved env (in_state i) (in_evidence_refs i) x) \<and> (\<exists>actor. queue_actor env s (advance_roles (in_state i)) db = Inr actor) \<and>
     integration_items db' = update_where (\<lambda>r. in_integration_id r = in_integration_id i)
       (moved env (in_state i) (in_evidence_refs i)) (integration_items db) \<and> queue_frame db db')"
    unfolding advance_item_def draw_uuid_def
    by (intro registry_steps returnsI, clarsimp simp: bindr_eq_Inr, drule append_event_frame,
        frule fetch_one_SomeD [of _ "integration_items db"], clarsimp simp: queue_frame_def item_moved_def)
      (auto split: if_splits)
  from returnsD [OF this assms] show ?thesis by auto
qed

lemma validate_evidence_Inr:
  "validate_evidence i refs db = Inr () \<longleftrightarrow> (\<forall>r \<in> set refs. \<exists>c \<in> set (evidence_claims db). ev_evidence_id c = r) \<and>
     (\<forall>c \<in> set (evidence_claims db). ev_evidence_id c \<in> set refs \<longrightarrow> ev_task_id c = i)"
proof -
  let ?rows = "filter (\<lambda>c. ev_evidence_id c \<in> set refs) (evidence_claims db)"
  have "set (map ev_evidence_id ?rows) = set refs \<longleftrightarrow> (\<forall>r \<in> set refs. \<exists>c \<in> set (evidence_claims db). ev_evidence_id c = r)"
  proof -
    have "set (map ev_evidence_id ?rows) = ev_evidence_id ` set (evidence_claims db) \<inter> set refs" by auto
    then have "set (map ev_evidence_id ?rows) = set refs \<longleftrightarrow> set refs \<subseteq> ev_evidence_id ` set (evidence_claims db)" by blast
    also have "\<dots> \<longleftrightarrow> (\<forall>r \<in> set refs. \<exists>c \<in> set (evidence_claims db). ev_evidence_id c = r)" by (auto simp: subset_iff image_iff)
    finally show ?thesis .
  qed
  then show ?thesis unfolding validate_evidence_def Let_def by (auto simp: list_ex_iff)
qed

text \<open>An item rests on passing evidence of its Task: a claim among its references, for the state the
  contract of the Task targets, with a verdict the contract accepts.\<close>

definition item_backed :: "db \<Rightarrow> integration_row \<Rightarrow> bool" where
  "item_backed db i \<longleftrightarrow> (\<exists>t spec. fetch_one (\<lambda>t. t_task_id t = in_task_id i) (tasks db) = Some t \<and>
     load_task_spec (t_spec t) = Inr spec \<and>
     (\<exists>c \<in> set (evidence_claims db). ev_evidence_id c \<in> set (in_evidence_refs i) \<and> ev_task_id c = in_task_id i \<and>
        ev_state c = ts_evidence_target spec \<and> ev_verdict c \<in> set (accepted_verdicts spec)))"

lemma require_final_Inr:
  "require_final env (in_task_id i) (in_evidence_refs i) db = Inr () \<Longrightarrow>
     decision_gates_satisfied env db (in_task_id i) = Inr True \<and> item_backed db i"
  by (auto simp: require_final_def item_backed_def bindr_eq_Inr split: if_splits)

section \<open>Histories of the queue\<close>

text \<open>Other services keep the items, add claims, and leave the contract of a Task alone.\<close>

definition queue_kept :: "db \<Rightarrow> db \<Rightarrow> bool" where
  "queue_kept db db' \<longleftrightarrow> integration_items db' = integration_items db \<and>
     set (evidence_claims db) \<subseteq> set (evidence_claims db') \<and>
     (\<forall>i t. fetch_one (\<lambda>t. t_task_id t = i) (tasks db) = Some t \<longrightarrow>
        (\<exists>t'. fetch_one (\<lambda>t. t_task_id t = i) (tasks db') = Some t' \<and> t_spec t' = t_spec t))"

inductive queue_step :: "db \<Rightarrow> db \<Rightarrow> bool" where
  created: "create_item env iq q db = Inr (i, db') \<Longrightarrow> queue_step db db'"
| advanced: "advance_item env iq iid tgt s refs reason db = Inr (i, db') \<Longrightarrow> queue_step db db'"
| others: "queue_kept db db' \<Longrightarrow> queue_step db db'"

abbreviation queue_run :: "db \<Rightarrow> db \<Rightarrow> bool" where
  "queue_run \<equiv> queue_step\<^sup>*\<^sup>*"

lemma queue_step_facts:
  assumes "queue_step db db'"
  shows "set (evidence_claims db) \<subseteq> set (evidence_claims db') \<and> (\<forall>k t. fetch_one (\<lambda>t. t_task_id t = k) (tasks db) = Some t \<longrightarrow>
      (\<exists>t'. fetch_one (\<lambda>t. t_task_id t = k) (tasks db') = Some t' \<and> t_spec t' = t_spec t))"
  using assms
proof cases
  case (created env iq q i)
  then have "queue_frame db db'" by (auto dest: create_item_Inr)
  then show ?thesis by (simp add: queue_frame_tables)
next
  case (advanced env iq iid tgt s refs reason i)
  then have "queue_frame db db'" by (auto dest: advance_item_Inr)
  then show ?thesis by (simp add: queue_frame_tables)
qed (auto simp: queue_kept_def)

lemma item_backed_later:
  assumes "item_backed db i" "queue_step db db'"
  shows "item_backed db' i"
proof -
  note facts = queue_step_facts [OF assms(2)]
  from assms(1) obtain t spec c where t: "fetch_one (\<lambda>t. t_task_id t = in_task_id i) (tasks db) = Some t"
      "load_task_spec (t_spec t) = Inr spec" and c: "c \<in> set (evidence_claims db)" "ev_evidence_id c \<in> set (in_evidence_refs i)"
      "ev_task_id c = in_task_id i" "ev_state c = ts_evidence_target spec" "ev_verdict c \<in> set (accepted_verdicts spec)"
    unfolding item_backed_def by blast
  from facts t(1) obtain t' where "fetch_one (\<lambda>t. t_task_id t = in_task_id i) (tasks db') = Some t'" "t_spec t' = t_spec t" by blast
  with t(2) c facts show ?thesis unfolding item_backed_def by (metis subsetD)
qed

text \<open>The advance that made an item final.\<close>

definition finalized :: "db \<Rightarrow> integration_row \<Rightarrow> bool" where
  "finalized db0 i \<longleftrightarrow> (\<exists>env iq iid tgt s refs reason d d' p t. queue_run db0 d \<and>
     advance_item env iq iid tgt s refs reason d = Inr (i, d') \<and>
     verify_session env None s d = Inr p \<and> set (pr_roles p) \<inter> {RELEASE, SYSTEM} \<noteq> {} \<and>
     fetch_one (\<lambda>t. t_task_id t = in_task_id i) (tasks d) = Some t \<and> t_state t \<notin> set TERMINAL_TASK_STATES \<and>
     decision_gates_satisfied env d (in_task_id i) = Inr True \<and> item_backed d i)"

lemma queue_actor_Inr:
  "queue_actor env s rs db = Inr a \<longleftrightarrow> (\<exists>p. verify_session env None s db = Inr p \<and> set (pr_roles p) \<inter> set rs \<noteq> {} \<and> a = pr_principal_id p)"
  by (auto simp: queue_actor_def bindr_eq_Inr)

lemma advance_finalizes:
  assumes "queue_run db0 d" "advance_item env iq iid tgt s refs reason d = Inr (i, d')" "integration_final (in_state i)"
  shows "finalized db0 i"
proof -
  from advance_item_Inr [OF assms(2)] obtain x actor where m: "item_moved env d x i"
    and a: "queue_actor env s (advance_roles (in_state i)) d = Inr actor" by blast
  have "advance_roles (in_state i) = [RELEASE, SYSTEM]"
    using assms(3) by (cases "in_state i") (simp_all add: advance_roles_def integration_final_def)
  with a obtain p where "verify_session env None s d = Inr p" "set (pr_roles p) \<inter> {RELEASE, SYSTEM} \<noteq> {}"
    by (auto simp: queue_actor_Inr)
  with m assms require_final_Inr [of env i d] show ?thesis unfolding finalized_def item_moved_def by blast
qed

text \<open>No step leaves a final state.\<close>

lemma final_stays:
  assumes "queue_step d d'" "i \<in> set (integration_items d')" "integration_final (in_state i)"
    and "distinct (map in_integration_id (integration_items d))"
  shows "i \<in> set (integration_items d) \<or>
     (\<exists>env iq iid tgt s refs reason. advance_item env iq iid tgt s refs reason d = Inr (i, d'))"
  using assms(1)
proof cases
  case (created env iq q x)
  from create_item_Inr [OF this] assms(2, 3) show ?thesis by (auto simp: integration_final_def)
next
  case (advanced env iq iid tgt s refs reason x)
  from advance_item_Inr [OF this] obtain y where y: "item_moved env d y x" "x = moved env (in_state x) (in_evidence_refs x) y"
    and u: "integration_items d' = update_where (\<lambda>r. in_integration_id r = in_integration_id x)
       (moved env (in_state x) (in_evidence_refs x)) (integration_items d)" by blast
  from assms(2) u obtain z where z: "z \<in> set (integration_items d)"
    "i = (if in_integration_id z = in_integration_id x then moved env (in_state x) (in_evidence_refs x) z else z)"
    by (auto simp: set_update_where)
  show ?thesis
  proof (cases "in_integration_id z = in_integration_id x")
    case True
    with y(1) z(1) have "z = y" using key_unique [OF assms(4)] by (auto simp: item_moved_def)
    with True y(2) z(2) have "i = x" by simp
    with advanced show ?thesis by blast
  qed (use z in simp)
qed (use assms(2) in \<open>auto simp: queue_kept_def\<close>)

lemma queue_step_keys:
  "queue_step db db' \<Longrightarrow> distinct (map in_integration_id (integration_items db)) \<Longrightarrow>
     distinct (map in_integration_id (integration_items db'))"
proof (induction rule: queue_step.induct)
  case (created env iq q db i db')
  from create_item_Inr [OF created.hyps] created.prems show ?case by (auto simp: image_iff) metis
next
  case (advanced env iq iid tgt s refs reason db i db')
  from advance_item_Inr [OF advanced.hyps] advanced.prems show ?case by (auto simp: map_update_where)
qed (simp add: queue_kept_def)

lemma queue_run_keys:
  "queue_run db db' \<Longrightarrow> distinct (map in_integration_id (integration_items db)) \<Longrightarrow>
     distinct (map in_integration_id (integration_items db'))"
  by (induction rule: rtranclp_induct) (auto dest: queue_step_keys)

lemma final_items:
  assumes "queue_run db0 db" "integration_items db0 = []" "i \<in> set (integration_items db)" "integration_final (in_state i)"
  shows "finalized db0 i \<and> item_backed db i"
  using assms
proof (induction rule: rtranclp_induct)
  case (step d d')
  have keys: "distinct (map in_integration_id (integration_items d))"
    using queue_run_keys [OF step.hyps(1)] step.prems(1) by simp
  from final_stays [OF step.hyps(2) step.prems(2, 3) keys] show ?case
  proof
    assume "i \<in> set (integration_items d)"
    with step show ?thesis using item_backed_later by blast
  next
    assume "\<exists>env iq iid tgt s refs reason. advance_item env iq iid tgt s refs reason d = Inr (i, d')"
    then obtain env iq iid tgt s refs reason where "advance_item env iq iid tgt s refs reason d = Inr (i, d')" by blast
    with advance_finalizes [OF step.hyps(1)] step.prems(3) have f: "finalized db0 i" by blast
    have "item_backed d i"
      using require_final_Inr advance_item_Inr [OF \<open>advance_item env iq iid tgt s refs reason d = Inr (i, d')\<close>] step.prems(3)
      unfolding item_moved_def by blast
    with f show ?thesis using item_backed_later step.hyps(2) by blast
  qed
qed simp

lemma require_task_satisfied_Inr:
  "(\<exists>rows. require_task_satisfied i False db = Inr rows) \<longleftrightarrow> items_final i db"
proof -
  have "sort_key in_updated_at rows = [] \<longleftrightarrow> rows = []" for rows by (metis set_empty set_sort)
  note empty = this [of "filter (\<lambda>x. in_task_id x = i) (integration_items db)"]
  show ?thesis by (auto simp: require_task_satisfied_def items_final_def Let_def list_all_iff empty)
qed

text \<open>C4. Integration is earned: an item in a final state was put there, while its Task was still open, by a
  live release or system principal under the decision gates of the Task, and rests on a passing claim of that
  Task; so the check of the queue accepts a Task exactly when the integration guard does, and a Task it accepts
  satisfies the evidence guard as well, with the verdict of an evaluator where the contract asks for one.\<close>

theorem integration_earned:
  assumes "queue_run db0 db" "integration_items db0 = []"
  shows "(\<forall>i \<in> set (integration_items db). integration_final (in_state i) \<longrightarrow> finalized db0 i \<and> item_backed db i) \<and>
    ((\<exists>rows. require_task_satisfied k False db = Inr rows) \<longleftrightarrow> items_final k db) \<and>
    (items_final k db \<longrightarrow> (\<exists>t spec. fetch_one (\<lambda>t. t_task_id t = k) (tasks db) = Some t \<and> load_task_spec (t_spec t) = Inr spec \<and>
       evidence_passes db t spec \<and> (ts_evaluator_required spec \<longrightarrow> evaluator_passes db t spec)))"
proof (intro conjI ballI impI)
  show "(\<exists>rows. require_task_satisfied k False db = Inr rows) \<longleftrightarrow> items_final k db"
    by (rule require_task_satisfied_Inr)
  fix i assume i: "i \<in> set (integration_items db)" "integration_final (in_state i)"
  with final_items [OF assms] show "finalized db0 i" "item_backed db i" by blast+
next
  assume "items_final k db"
  then obtain i where i: "i \<in> set (integration_items db)" "in_task_id i = k" "integration_final (in_state i)"
    by (auto simp: items_final_def Let_def list_all_iff filter_empty_conv)
  with final_items [OF assms] obtain t spec c where t: "fetch_one (\<lambda>t. t_task_id t = k) (tasks db) = Some t"
      "load_task_spec (t_spec t) = Inr spec" "c \<in> set (evidence_claims db)" "ev_task_id c = k"
      "ev_state c = ts_evidence_target spec" "ev_verdict c \<in> set (accepted_verdicts spec)"
    unfolding item_backed_def by blast
  have "t_task_id t = k" using fetch_one_SomeD [OF t(1)] by simp
  moreover have "passing_evidence (ev_verdict c)" "ts_evaluator_required spec \<longrightarrow> passing_evaluator (ev_verdict c)"
    using t(6) by (auto simp: accepted_verdicts_def passing_evidence_def passing_evaluator_def split: if_splits)
  ultimately show "\<exists>t spec. fetch_one (\<lambda>t. t_task_id t = k) (tasks db) = Some t \<and> load_task_spec (t_spec t) = Inr spec \<and>
       evidence_passes db t spec \<and> (ts_evaluator_required spec \<longrightarrow> evaluator_passes db t spec)"
    using t unfolding evidence_passes_def evaluator_passes_def by blast
qed

section \<open>Instances\<close>

definition structure_claim :: evidence_row where
  "structure_claim = \<lparr>ev_evidence_id = ''e1'', ev_project_id = ''p1'', ev_run_id = ''r1'', ev_task_id = ''t1'', ev_claim = ''built'',
     ev_state = ES_STRUCTURE, ev_artifact_refs = [''a1''], ev_verifier = ''eve'', ev_verifier_version = ''1'',
     ev_environment = ''ci'', ev_verdict = VD_PASS, ev_non_claims = [], ev_created_at = 1\<rparr>"

definition integration_db :: db where
  "integration_db = (policy_db [] [])\<lparr>evidence_claims := [structure_claim]\<rparr>"

definition sample_item :: item_request where
  "sample_item = \<lparr>iq_task_id = ''t1'', iq_source_ref = ''branch'', iq_target_ref = ''main'', iq_owner = Some (sample_session ''rex''),
     iq_initial_state = ''review_pending'', iq_evidence_refs = [], iq_integration_id = Some ''i1''\<rparr>"

definition delivered_item :: "(integration_row \<times> db) res" where
  "delivered_item = bindr (create_item (sample_env 5) \<lparr>iq_policy_version = ''v1''\<rparr> sample_item integration_db) (\<lambda>(i, db).
     advance_item (sample_env 6) \<lparr>iq_policy_version = ''v1''\<rparr> ''i1'' ''delivered'' (Some (sample_session ''rex'')) [''e1''] ''merged'' db)"

lemma sample_item_delivered:
  "(case delivered_item of Inl _ \<Rightarrow> False | Inr (i, db) \<Rightarrow> integration_items db = [i] \<and> in_state i = IS_DELIVERED \<and>
      in_task_id i = ''t1'' \<and> integration_items integration_db = [])"
  by code_simp

lemma integration_earned_witness:
  "\<exists>db i. queue_run integration_db db \<and> integration_items db = [i] \<and> in_state i = IS_DELIVERED \<and> finalized integration_db i \<and>
     item_backed db i \<and> (\<exists>rows. require_task_satisfied ''t1'' False db = Inr rows)"
proof -
  from sample_item_delivered obtain i db where d: "delivered_item = Inr (i, db)" "integration_items db = [i]"
      "in_state i = IS_DELIVERED" "in_task_id i = ''t1''" "integration_items integration_db = []"
    by (auto split: sum.splits)
  then have run: "queue_run integration_db db"
    by (auto simp: delivered_item_def bindr_eq_Inr) (meson converse_rtranclp_into_rtranclp queue_step.intros r_into_rtranclp)
  have "items_final ''t1'' db" "integration_final (in_state i)" using d by (simp_all add: items_final_def integration_final_def)
  with integration_earned [OF run d(5), of "''t1''"] d run show ?thesis by (intro exI [of _ db] exI [of _ i]) simp
qed

end
