(* ===== verification/Context.thy ===== *)
theory Context
  imports Registry
begin

text \<open>
  \<open>context.py\<close>: the registry of context items and the assembly of context for a Task.  Drafts are
  registered by anybody; an item with normative status is imported under an attestation that the injected
  verifier (a parameter) accepts.  \<open>assemble\<close> selects, in order of priority and within a token budget, the
  items that are intact, trusted, in scope, current, not superseded and of an allowed classification.
\<close>

section \<open>Values\<close>

definition KNOWN_CLASSIFICATIONS :: "string list" where
  "KNOWN_CLASSIFICATIONS = [''public'', ''publicable'', ''internal'', ''private'', ''confidential'', ''secret'']"

definition ACTIVE_INSTRUCTION_CLASSIFICATIONS :: "string list" where
  "ACTIVE_INSTRUCTION_CLASSIFICATIONS = [''public'', ''publicable'', ''internal'']"

definition INSTRUCTION_STATUSES :: "string list" where
  "INSTRUCTION_STATUSES = [''active'', ''limited'']"

definition AUTHORING_STATUSES :: "string list" where
  "AUTHORING_STATUSES = [''candidate'', ''draft'']"

definition KNOWN_NORMATIVE_STATUSES :: "string list" where
  "KNOWN_NORMATIVE_STATUSES = [''active'', ''limited'', ''candidate'', ''draft'', ''historical_draft'', ''rejected'', ''retired'']"

text \<open>The values in an attestation are whatever its author put there; \<open>tsa_fields\<close> are those that
  \<open>asdict\<close> lists besides its identifier, its proof and its policy version.\<close>

record attestation =
  tsa_attestation_id :: string
  tsa_proof :: string
  tsa_context_id :: json
  tsa_project_id :: json
  tsa_scope :: json
  tsa_source_ref :: json
  tsa_source_digest :: json
  tsa_classification :: json
  tsa_normative_status :: json
  tsa_priority :: json
  tsa_token_estimate :: json
  tsa_observed_at :: json
  tsa_effective_at :: json
  tsa_expires_at :: json
  tsa_supersedes :: json
  tsa_policy_version :: string

definition tsa_fields :: "attestation \<Rightarrow> dict" where
  "tsa_fields a = [(''context_id'', tsa_context_id a), (''project_id'', tsa_project_id a), (''scope'', tsa_scope a),
     (''source_ref'', tsa_source_ref a), (''source_digest'', tsa_source_digest a), (''classification'', tsa_classification a),
     (''normative_status'', tsa_normative_status a), (''priority'', tsa_priority a), (''token_estimate'', tsa_token_estimate a),
     (''observed_at'', tsa_observed_at a), (''effective_at'', tsa_effective_at a), (''expires_at'', tsa_expires_at a),
     (''supersedes'', tsa_supersedes a)]"

text \<open>The verifier raises, or returns \<open>None\<close>, or returns something else.\<close>

type_synonym source_verifier = "attestation \<Rightarrow> json option res"

definition deny_all :: source_verifier where
  "deny_all a = Inl (AuthorizationError ''trusted context import is disabled: no trusted source verifier configured'')"

definition contract_text :: "string \<Rightarrow> string res" where
  "contract_text = text_field ContractError"

definition contract_instant :: "int option \<Rightarrow> time_arg \<Rightarrow> int res" where
  "contract_instant otherwise t = (case t of
       No_Time \<Rightarrow> require otherwise (ContractError ''is required'')
     | At i \<Rightarrow> Inr i
     | Naive_Time \<Rightarrow> Inl (ContractError ''must include a timezone'')
     | Unreadable_Time \<Rightarrow> Inl (ContractError ''must be an ISO-8601 timestamp''))"

text \<open>The length of a \<open>str\<close>: the bytes of its UTF-8 text that do not continue a character.\<close>

definition str_length :: "string \<Rightarrow> int" where
  "str_length s = int (length (filter (\<lambda>c. let n = of_char c :: nat in n < 128 \<or> 192 \<le> n) s))"

definition is_current :: "context_item_row \<Rightarrow> int \<Rightarrow> bool" where
  "is_current row t \<longleftrightarrow> ci_effective_at row \<le> t \<and> (case ci_expires_at row of None \<Rightarrow> True | Some e \<Rightarrow> t < e)"

section \<open>Registration\<close>

record context_request =
  cq_context_id :: string
  cq_project_id :: string
  cq_scope :: string
  cq_source_ref :: string
  cq_content :: string
  cq_classification :: string
  cq_normative_status :: string
  cq_priority :: int
  cq_token_estimate :: "int option"
  cq_observed_at :: time_arg
  cq_effective_at :: time_arg
  cq_expires_at :: time_arg
  cq_supersedes :: "string option"
  cq_actor :: string
  cq_policy_version :: string
  cq_command_id :: "string option"
  cq_correlation_id :: "string option"

definition source_digest :: "env \<Rightarrow> string \<Rightarrow> string \<Rightarrow> string" where
  "source_digest env source_ref content =
     content_hash (sha256 env) (JObj [(''source_ref'', JStr source_ref), (''content'', JStr content)])"

definition prepare_record :: "env \<Rightarrow> context_request \<Rightarrow> context_item_row res" where
  "prepare_record env q =
     bindr (contract_text (cq_context_id q)) (\<lambda>context_id.
     bindr (contract_text (cq_project_id q)) (\<lambda>project_id.
     bindr (contract_text (cq_scope q)) (\<lambda>raw_scope.
     bindr (normalize_scope raw_scope) (\<lambda>scope.
     bindr (contract_text (cq_source_ref q)) (\<lambda>source_ref.
     bindr (contract_text (cq_content q)) (\<lambda>content.
     bindr (contract_text (cq_classification q)) (\<lambda>given_class.
     bindr (contract_text (cq_normative_status q)) (\<lambda>given_status.
     let classification = lower given_class; status = lower given_status;
         estimate = (case cq_token_estimate q of None \<Rightarrow> max 1 ((str_length content + 3) div 4) | Some n \<Rightarrow> n) in
     if classification \<notin> set KNOWN_CLASSIFICATIONS then Inl (ContractError ''unsupported classification'')
     else if status \<notin> set KNOWN_NORMATIVE_STATUSES then Inl (ContractError ''unsupported normative_status'')
     else if estimate < 1 then Inl (ContractError ''token_estimate must be a positive integer'')
     else
     bindr (contract_instant (Some (now env)) (cq_observed_at q)) (\<lambda>observed.
     bindr (contract_instant (Some observed) (cq_effective_at q)) (\<lambda>effective.
     bindr (case cq_expires_at q of No_Time \<Rightarrow> Inr None | t \<Rightarrow> bindr (contract_instant None t) (\<lambda>i. Inr (Some i))) (\<lambda>expiry.
     if (case expiry of None \<Rightarrow> False | Some e \<Rightarrow> e \<le> effective)
     then Inl (ContractError ''expires_at must be later than effective_at'')
     else
     bindr (case cq_supersedes q of None \<Rightarrow> Inr None | Some s \<Rightarrow> bindr (contract_text s) (\<lambda>s.
              if s = context_id then Inl (ContractError ''a context item cannot supersede itself'') else Inr (Some s))) (\<lambda>supersedes.
       Inr \<lparr>ci_context_id = context_id, ci_project_id = project_id, ci_scope = scope, ci_source_ref = source_ref,
            ci_source_digest = source_digest env source_ref content, ci_content = content, ci_classification = classification,
            ci_normative_status = status, ci_priority = cq_priority q, ci_token_estimate = estimate, ci_observed_at = observed,
            ci_effective_at = effective, ci_expires_at = expiry, ci_supersedes = supersedes, ci_created_at = now env\<rparr>))))))))))))"

text \<open>The fields an attestation binds.\<close>

definition attested_fields :: "context_item_row \<Rightarrow> dict" where
  "attested_fields r = [(''context_id'', JStr (ci_context_id r)), (''project_id'', JStr (ci_project_id r)),
     (''scope'', JStr (ci_scope r)), (''source_ref'', JStr (ci_source_ref r)), (''source_digest'', JStr (ci_source_digest r)),
     (''classification'', JStr (ci_classification r)), (''normative_status'', JStr (ci_normative_status r)),
     (''priority'', JInt (ci_priority r)), (''token_estimate'', JInt (ci_token_estimate r)),
     (''observed_at'', JInt (ci_observed_at r)), (''effective_at'', JInt (ci_effective_at r)),
     (''expires_at'', jint_opt (ci_expires_at r)), (''supersedes'', jopt (ci_supersedes r))]"

definition attestation_envelope :: "string \<Rightarrow> dict \<Rightarrow> string \<Rightarrow> json" where
  "attestation_envelope attestation_id values policy_version =
     JObj ([(''attestation_id'', JStr attestation_id)] @ values @ [(''policy_version'', JStr policy_version)])"

definition attestation_fingerprint :: "env \<Rightarrow> attestation \<Rightarrow> string" where
  "attestation_fingerprint env a = content_hash (sha256 env)
     (attestation_envelope (tsa_attestation_id a) (tsa_fields a) (tsa_policy_version a))"

definition attestation_matches :: "context_item_row \<Rightarrow> string \<Rightarrow> attestation \<Rightarrow> bool" where
  "attestation_matches r policy_version a \<longleftrightarrow>
     list_all (\<lambda>(k, v). map_of (tsa_fields a) k = Some v) (attested_fields r) \<and> tsa_policy_version a = policy_version"

definition validate_trusted_attestation :: "source_verifier \<Rightarrow> context_item_row \<Rightarrow> string \<Rightarrow> attestation \<Rightarrow> unit res" where
  "validate_trusted_attestation verify r policy_version a =
     bindr (contract_text (tsa_attestation_id a)) (\<lambda>i.
     if i \<noteq> tsa_attestation_id a then Inl (ContractError ''attestation_id must already be canonical'')
     else
     bindr (contract_text (tsa_proof a)) (\<lambda>proof.
     if proof \<noteq> tsa_proof a then Inl (ContractError ''attestation proof must already be canonical'')
     else if \<not> attestation_matches r policy_version a
     then Inl (AuthorizationError ''trusted attestation does not exactly match imported field'')
     else
     bindr (verify a) (\<lambda>result.
       if result \<noteq> None
       then Inl (AuthorizationError ''trusted source verifier must raise on denial and return None on success'')
       else Inr ())))"

definition record_payload :: "context_item_row \<Rightarrow> dict" where
  "record_payload r = attested_fields r @ [(''created_at'', JInt (ci_created_at r))]"

definition context_event ::
    "env \<Rightarrow> context_request \<Rightarrow> context_item_row \<Rightarrow> string \<Rightarrow> string \<Rightarrow> attestation option \<Rightarrow> string \<Rightarrow> string \<Rightarrow> event_cmd" where
  "context_event env q r event_type policy_version att actor command_id = event_defaults\<lparr>c_aggregate_type := ''context_item'',
     c_aggregate_id := ci_context_id r, c_expected_version := 0, c_project_id := ci_project_id r, c_event_type := event_type,
     c_actor := actor, c_command_id := command_id,
     c_correlation_id := (case cq_correlation_id q of None \<Rightarrow> ci_context_id r | Some s \<Rightarrow> if s = [] then ci_context_id r else s),
     c_policy_version := policy_version, c_confidentiality := ci_classification r,
     c_payload := record_payload r @ (case att of None \<Rightarrow> [] | Some a \<Rightarrow>
        [(''trusted_attestation_id'', JStr (tsa_attestation_id a)),
         (''trusted_attestation_digest'', JStr (attestation_fingerprint env a)),
         (''trusted_policy_version'', JStr (tsa_policy_version a))])\<rparr>"

definition trusted_import_of :: "string \<Rightarrow> event_row \<Rightarrow> bool" where
  "trusted_import_of context_id e \<longleftrightarrow> e_aggregate_type e = ''context_item'' \<and> e_aggregate_id e = context_id \<and>
     e_event_type e = ''trusted_context_imported''"

definition require_supersedable :: "context_item_row \<Rightarrow> db \<Rightarrow> unit res" where
  "require_supersedable r db = (case ci_supersedes r of
       None \<Rightarrow> Inr ()
     | Some s \<Rightarrow>
         bindr (require (fetch_one (\<lambda>c. ci_context_id c = s) (context_items db))
                  (NotFoundError ''superseded context item does not exist'')) (\<lambda>previous.
           ensure (ci_project_id previous = ci_project_id r \<and> ci_scope previous = ci_scope r)
             (ContractError ''supersession requires the same project and scope'')))"

definition persist ::
    "env \<Rightarrow> context_request \<Rightarrow> context_item_row \<Rightarrow> string \<Rightarrow> attestation option \<Rightarrow> db \<Rightarrow> ((context_item_row \<times> string option) \<times> db) res" where
  "persist env q r event_type att db =
     bindr (contract_text (cq_policy_version q)) (\<lambda>policy_version.
     case fetch_one (\<lambda>c. ci_context_id c = ci_context_id r) (context_items db) of
       Some current \<Rightarrow>
         if current\<lparr>ci_created_at := ci_created_at r\<rparr> \<noteq> r
         then Inl (IntegrityError ''context_id already exists with different content'')
         else if att \<noteq> None \<and> \<not> exists_row (trusted_import_of (ci_context_id r)) (events db)
         then Inl (IntegrityError ''normative context exists without a trusted import event'')
         else Inr ((current, None), db)
     | None \<Rightarrow>
         bindr (require_supersedable r db) (\<lambda>_.
         bindr (contract_text (cq_actor q)) (\<lambda>actor.
         let (command_id, db) = fresh_id env (cq_command_id q) db in
         bindr (append_event env (context_event env q r event_type policy_version att actor command_id) db) (\<lambda>(event, db).
         bindr (insert_row (\<lambda>a b. ci_context_id a = ci_context_id b) r (context_items db)) (\<lambda>rows.
           Inr ((r, Some (e_event_id event)), db\<lparr>context_items := rows\<rparr>))))))"

definition register_context ::
    "env \<Rightarrow> context_request \<Rightarrow> db \<Rightarrow> ((context_item_row \<times> string option) \<times> db) res" where
  "register_context env q db =
     bindr (prepare_record env q) (\<lambda>r.
     if ci_normative_status r \<notin> set AUTHORING_STATUSES
     then Inl (AuthorizationError ''register accepts only candidate or draft context'')
     else persist env q r ''context_item_registered'' None db)"

definition import_trusted ::
    "source_verifier \<Rightarrow> env \<Rightarrow> context_request \<Rightarrow> attestation \<Rightarrow> db \<Rightarrow> ((context_item_row \<times> string option) \<times> db) res" where
  "import_trusted verify env q a db =
     bindr (contract_text (cq_policy_version q)) (\<lambda>policy_version.
     bindr (prepare_record env q) (\<lambda>r.
     if ci_normative_status r \<notin> set INSTRUCTION_STATUSES
     then Inl (AuthorizationError ''import_trusted accepts only active or limited normative context'')
     else
     bindr (validate_trusted_attestation verify r policy_version a) (\<lambda>_.
       persist env q r ''trusted_context_imported'' (Some a) db)))"

section \<open>Assembly\<close>

text \<open>Two values read from JSON and from a column are compared as Python compares them.\<close>

definition as_number :: "json \<Rightarrow> json" where
  "as_number v = (case v of JBool b \<Rightarrow> JInt (if b then 1 else 0) | _ \<Rightarrow> v)"

definition trusts :: "env \<Rightarrow> context_item_row \<Rightarrow> event_row \<Rightarrow> bool" where
  "trusts env row e \<longleftrightarrow> trusted_import_of (ci_context_id row) e \<and>
     (case (map_of (e_payload e) ''trusted_attestation_id'', map_of (e_payload e) ''trusted_attestation_digest'',
            map_of (e_payload e) ''trusted_policy_version'') of
        (Some (JStr i), Some (JStr digest), Some v) \<Rightarrow>
          non_blank i \<and> v = JStr (e_policy_version e) \<and>
          list_all (\<lambda>(k, c). as_number (case map_of (e_payload e) k of None \<Rightarrow> JNull | Some p \<Rightarrow> p) = c) (attested_fields row) \<and>
          content_hash (sha256 env) (attestation_envelope i (attested_fields row) (e_policy_version e)) = digest
      | _ \<Rightarrow> False)"

definition trusted_in :: "env \<Rightarrow> db \<Rightarrow> context_item_row \<Rightarrow> bool" where
  "trusted_in env db row \<longleftrightarrow> exists_row (\<lambda>e. e_project_id e = ci_project_id row \<and> trusts env row e) (events db)"

definition project_context :: "string \<Rightarrow> db \<Rightarrow> context_item_row list" where
  "project_context project_id db = sort_key (\<lambda>c. (- ci_priority c, - ci_effective_at c, ci_context_id c))
     (filter (\<lambda>c. ci_project_id c = project_id) (context_items db))"

definition superseder :: "env \<Rightarrow> db \<Rightarrow> int \<Rightarrow> context_item_row list \<Rightarrow> context_item_row \<Rightarrow> context_item_row option" where
  "superseder env db t rows row = fetch_one (\<lambda>s. ci_supersedes s = Some (ci_context_id row) \<and> ci_scope row = ci_scope s \<and>
     ci_normative_status s \<in> set INSTRUCTION_STATUSES \<and> trusted_in env db s \<and> is_current s t) rows"

fun any_overlap :: "string \<Rightarrow> string list \<Rightarrow> bool res" where
  "any_overlap scope [] = Inr False"
| "any_overlap scope (s # ss) = bindr (scopes_overlap scope s) (\<lambda>b. if b then Inr True else any_overlap scope ss)"

record assembly_request =
  aq_assembly_id :: string
  aq_project_id :: string
  aq_run_id :: string
  aq_task_id :: string
  aq_scopes :: "string list"
  aq_token_budget :: int
  aq_as_of :: time_arg
  aq_allowed_classifications :: "string list option"
  aq_actor :: string
  aq_policy_version :: string

record clean_assembly =
  qa_assembly_id :: string
  qa_project_id :: string
  qa_run_id :: string
  qa_task_id :: string
  qa_scopes :: "string list"
  qa_token_budget :: int
  qa_classifications :: "string list"
  qa_as_of :: int

definition clean_request :: "env \<Rightarrow> assembly_request \<Rightarrow> clean_assembly res" where
  "clean_request env q =
     bindr (contract_text (aq_assembly_id q)) (\<lambda>assembly_id.
     bindr (contract_text (aq_project_id q)) (\<lambda>project_id.
     bindr (contract_text (aq_run_id q)) (\<lambda>run_id.
     bindr (contract_text (aq_task_id q)) (\<lambda>task_id.
     bindr (mapr (\<lambda>s. bindr (contract_text s) normalize_scope) (aq_scopes q)) (\<lambda>scopes.
     if scopes = [] then Inl (ContractError ''scopes must not be empty'')
     else if aq_token_budget q < 1 then Inl (ContractError ''token_budget must be a positive integer'')
     else
     bindr (mapr (\<lambda>s. bindr (contract_text s) (\<lambda>s. Inr (lower s)))
              (case aq_allowed_classifications q of None \<Rightarrow> ACTIVE_INSTRUCTION_CLASSIFICATIONS | Some cs \<Rightarrow> cs)) (\<lambda>classifications.
     if \<not> set classifications \<subseteq> set KNOWN_CLASSIFICATIONS
     then Inl (ContractError ''unsupported allowed classifications'')
     else
     bindr (contract_instant (Some (now env)) (aq_as_of q)) (\<lambda>t.
       Inr \<lparr>qa_assembly_id = assembly_id, qa_project_id = project_id, qa_run_id = run_id, qa_task_id = task_id,
            qa_scopes = sort (remdups scopes), qa_token_budget = aq_token_budget q,
            qa_classifications = sort (remdups (filter (\<lambda>c. c \<in> set ACTIVE_INSTRUCTION_CLASSIFICATIONS) classifications)),
            qa_as_of = t\<rparr>)))))))"

text \<open>Why a row is not selected, if it is not.\<close>

definition reject_reason :: "env \<Rightarrow> db \<Rightarrow> clean_assembly \<Rightarrow> context_item_row list \<Rightarrow> int \<Rightarrow> context_item_row \<Rightarrow> string option res" where
  "reject_reason env db q rows used row =
     (let instruction = ci_normative_status row \<in> set INSTRUCTION_STATUSES in
      if source_digest env (ci_source_ref row) (ci_content row) \<noteq> ci_source_digest row then Inr (Some ''source_digest_mismatch'')
      else if instruction \<and> \<not> trusted_in env db row then Inr (Some ''untrusted_normative_source'')
      else
      bindr (any_overlap (ci_scope row) (qa_scopes q)) (\<lambda>overlaps.
      if \<not> overlaps then Inr (Some ''out_of_scope'')
      else if \<not> instruction then Inr (Some (''normative_status:'' @ ci_normative_status row))
      else if qa_as_of q < ci_effective_at row then Inr (Some ''not_effective'')
      else if (case ci_expires_at row of None \<Rightarrow> False | Some e \<Rightarrow> e \<le> qa_as_of q) then Inr (Some ''expired'')
      else case superseder env db (qa_as_of q) rows row of
          Some s \<Rightarrow> Inr (Some (''superseded_by:'' @ ci_context_id s))
        | None \<Rightarrow>
            if ci_classification row \<notin> set (qa_classifications q)
            then Inr (Some (if ci_classification row \<in> {''private'', ''confidential'', ''secret''} then ''private_classification''
                            else ''classification_not_allowed''))
            else if qa_token_budget q < used + ci_token_estimate row then Inr (Some ''token_budget'')
            else Inr None))"

record selection =
  sn_selected :: "context_item_row list"
  sn_rejected :: "(context_item_row \<times> string) list"
  sn_used :: int

definition select_row :: "env \<Rightarrow> db \<Rightarrow> clean_assembly \<Rightarrow> context_item_row list \<Rightarrow> context_item_row \<Rightarrow> selection \<Rightarrow> selection res" where
  "select_row env db q rows row s =
     bindr (reject_reason env db q rows (sn_used s) row) (\<lambda>reason. case reason of
       Some why \<Rightarrow> Inr (s\<lparr>sn_rejected := sn_rejected s @ [(row, why)]\<rparr>)
     | None \<Rightarrow> Inr (s\<lparr>sn_selected := sn_selected s @ [row], sn_used := sn_used s + ci_token_estimate row\<rparr>))"

definition select_rows :: "env \<Rightarrow> db \<Rightarrow> clean_assembly \<Rightarrow> selection res" where
  "select_rows env db q =
     (let rows = project_context (qa_project_id q) db in
      foldm (select_row env db q rows) rows \<lparr>sn_selected = [], sn_rejected = [], sn_used = 0\<rparr>)"

definition trace_item :: "context_item_row \<Rightarrow> dict" where
  "trace_item r = [(''context_id'', JStr (ci_context_id r)), (''scope'', JStr (ci_scope r)), (''source_ref'', JStr (ci_source_ref r)),
     (''source_digest'', JStr (ci_source_digest r)), (''classification'', JStr (ci_classification r)),
     (''normative_status'', JStr (ci_normative_status r)), (''priority'', JInt (ci_priority r)),
     (''token_estimate'', JInt (ci_token_estimate r))]"

definition selected_json :: "selection \<Rightarrow> json" where
  "selected_json s = JList (map (\<lambda>r. JObj (trace_item r @ [(''content'', JStr (ci_content r))])) (sn_selected s))"

definition rejected_json :: "selection \<Rightarrow> json" where
  "rejected_json s = JList (map (\<lambda>(r, why). JObj (trace_item r @ [(''reason'', JStr why)])) (sn_rejected s))"

definition assembly_trace :: "clean_assembly \<Rightarrow> selection \<Rightarrow> json" where
  "assembly_trace q s = JObj [(''assembly_id'', JStr (qa_assembly_id q)), (''project_id'', JStr (qa_project_id q)),
     (''run_id'', JStr (qa_run_id q)), (''task_id'', JStr (qa_task_id q)), (''as_of'', JInt (qa_as_of q)),
     (''scopes'', JList (map JStr (qa_scopes q))), (''allowed_classifications'', JList (map JStr (qa_classifications q))),
     (''token_budget'', JInt (qa_token_budget q)), (''used_tokens'', JInt (sn_used s)),
     (''selected'', selected_json s), (''rejected'', rejected_json s)]"

definition authorized_task :: "clean_assembly \<Rightarrow> db \<Rightarrow> task_spec res" where
  "authorized_task q db =
     (case (fetch_one (\<lambda>t. t_task_id t = qa_task_id q) (tasks db), fetch_one (\<lambda>r. r_run_id r = qa_run_id q) (runs db)) of
        (Some task, Some run) \<Rightarrow>
          if t_project_id task \<noteq> qa_project_id q \<or> r_project_id run \<noteq> qa_project_id q \<or> t_run_id task \<noteq> Some (qa_run_id q)
          then Inl (ContractError ''project, run, and task do not belong to the same execution'')
          else
          bindr (except_map (\<lambda>_. ContractError ''task has no valid compiled context authority'') (load_task_spec (t_spec task))) (\<lambda>spec.
          bindr (mapr (scope_allowed (ts_read_scope spec)) (qa_scopes q)) (\<lambda>allowed.
            if list_all id allowed then Inr spec
            else Inl (ContractError ''requested context scopes exceed TaskSpec read_scope'')))
      | _ \<Rightarrow> Inl (NotFoundError ''context assembly requires an existing run and task''))"

record assembly =
  as_request :: clean_assembly
  as_selection :: selection
  as_digest :: string
  as_event_id :: "string option"

definition assembly_event :: "clean_assembly \<Rightarrow> selection \<Rightarrow> string \<Rightarrow> string \<Rightarrow> string \<Rightarrow> string \<Rightarrow> event_cmd" where
  "assembly_event q s digest actor policy_version command_id = event_defaults\<lparr>c_aggregate_type := ''context_assembly'',
     c_aggregate_id := qa_assembly_id q, c_expected_version := 0, c_project_id := qa_project_id q, c_run_id := Some (qa_run_id q),
     c_task_id := Some (qa_task_id q), c_event_type := ''context_assembled'', c_actor := actor, c_command_id := command_id,
     c_correlation_id := qa_run_id q, c_policy_version := policy_version,
     c_payload := [(''assembly_digest'', JStr digest),
       (''selected_ids'', JList (map (\<lambda>r. JStr (ci_context_id r)) (sn_selected s))),
       (''rejected'', JList (map (\<lambda>(r, why). JObj [(''context_id'', JStr (ci_context_id r)), (''reason'', JStr why)]) (sn_rejected s)))]\<rparr>"

definition assemble :: "env \<Rightarrow> assembly_request \<Rightarrow> db \<Rightarrow> (assembly \<times> db) res" where
  "assemble env given db =
     bindr (clean_request env given) (\<lambda>q.
     bindr (authorized_task q db) (\<lambda>_.
     bindr (select_rows env db q) (\<lambda>s.
     let digest = content_hash (sha256 env) (assembly_trace q s) in
     case fetch_one (\<lambda>a. ca_assembly_id a = qa_assembly_id q) (context_assemblies db) of
       Some existing \<Rightarrow>
         if ca_assembly_digest existing \<noteq> digest then Inl (IntegrityError ''assembly_id reused for a different assembly'')
         else Inr (\<lparr>as_request = q, as_selection = s, as_digest = digest, as_event_id = None\<rparr>, db)
     | None \<Rightarrow>
         bindr (contract_text (aq_actor given)) (\<lambda>actor.
         let (command_id, db) = draw_uuid env db in
         bindr (contract_text (aq_policy_version given)) (\<lambda>policy_version.
         bindr (append_event env (assembly_event q s digest actor policy_version command_id) db) (\<lambda>(event, db).
         let row = \<lparr>ca_assembly_id = qa_assembly_id q, ca_project_id = qa_project_id q, ca_run_id = qa_run_id q,
               ca_task_id = qa_task_id q, ca_token_budget = qa_token_budget q, ca_selected = selected_json s,
               ca_rejected = rejected_json s, ca_assembly_digest = digest, ca_created_at = now env\<rparr> in
         bindr (insert_row (\<lambda>a b. ca_assembly_id a = ca_assembly_id b) row (context_assemblies db)) (\<lambda>rows.
           Inr (\<lparr>as_request = q, as_selection = s, as_digest = digest, as_event_id = Some (e_event_id event)\<rparr>,
                db\<lparr>context_assemblies := rows\<rparr>))))))))"

definition get_assembly :: "string \<Rightarrow> db \<Rightarrow> assembly_row res" where
  "get_assembly assembly_id db =
     bindr (contract_text assembly_id) (\<lambda>i.
       require (fetch_one (\<lambda>a. ca_assembly_id a = i) (context_assemblies db))
         (NotFoundError ''context assembly does not exist''))"

section \<open>What an assembly holds\<close>

lemma contract_text_Inr [simp]: "contract_text s = Inr t \<longleftrightarrow> non_blank s \<and> t = strip s"
  by (simp add: contract_text_def)

text \<open>An item that may be selected: intact, normative and trusted, in a requested scope, in force at the
  instant of the assembly, not superseded, of an allowed classification.\<close>

definition eligible :: "env \<Rightarrow> db \<Rightarrow> clean_assembly \<Rightarrow> context_item_row \<Rightarrow> bool" where
  "eligible env db q r \<longleftrightarrow> source_digest env (ci_source_ref r) (ci_content r) = ci_source_digest r \<and>
     ci_normative_status r \<in> set INSTRUCTION_STATUSES \<and> trusted_in env db r \<and>
     (\<exists>s \<in> set (qa_scopes q). scopes_overlap (ci_scope r) s = Inr True) \<and> is_current r (qa_as_of q) \<and>
     superseder env db (qa_as_of q) (project_context (qa_project_id q) db) r = None \<and>
     ci_classification r \<in> set (qa_classifications q)"

lemma any_overlap_True: "any_overlap s ss = Inr True \<Longrightarrow> \<exists>t \<in> set ss. scopes_overlap s t = Inr True"
  by (induction ss) (auto simp: bindr_eq_Inr split: if_splits)

lemma reject_reason_None:
  "reject_reason env db q (project_context (qa_project_id q) db) used r = Inr None \<Longrightarrow>
     eligible env db q r \<and> used + ci_token_estimate r \<le> qa_token_budget q"
  by (auto simp: reject_reason_def eligible_def is_current_def bindr_eq_Inr Let_def dest!: any_overlap_True
      simp del: fetch_one_None split: if_splits option.splits)

definition selection_sound :: "env \<Rightarrow> db \<Rightarrow> clean_assembly \<Rightarrow> context_item_row list \<Rightarrow> selection \<Rightarrow> bool" where
  "selection_sound env db q rows s \<longleftrightarrow> (\<forall>r \<in> set (sn_selected s). eligible env db q r) \<and>
     sn_used s = sum_list (map ci_token_estimate (sn_selected s)) \<and> sn_used s \<le> qa_token_budget q \<and>
     set (sn_selected s) \<union> fst ` set (sn_rejected s) = set rows \<and>
     (\<forall>(r, why) \<in> set (sn_rejected s). \<exists>used. reject_reason env db q (project_context (qa_project_id q) db) used r = Inr (Some why))"

lemma select_row_sound:
  assumes "select_row env db q (project_context (qa_project_id q) db) r s = Inr s'" "selection_sound env db q rows s"
  shows "selection_sound env db q (rows @ [r]) s'"
proof -
  from assms(1) obtain reason where
      r: "reject_reason env db q (project_context (qa_project_id q) db) (sn_used s) r = Inr reason"
    and s': "s' = (case reason of Some why \<Rightarrow> s\<lparr>sn_rejected := sn_rejected s @ [(r, why)]\<rparr>
       | None \<Rightarrow> s\<lparr>sn_selected := sn_selected s @ [r], sn_used := sn_used s + ci_token_estimate r\<rparr>)"
    by (auto simp: select_row_def bindr_eq_Inr split: option.splits)
  show ?thesis
  proof (cases reason)
    case None
    with r have "eligible env db q r" "sn_used s + ci_token_estimate r \<le> qa_token_budget q"
      using reject_reason_None by blast+
    with assms(2) s' None show ?thesis by (auto simp: selection_sound_def)
  next
    case (Some why)
    with assms(2) s' r show ?thesis by (fastforce simp: selection_sound_def)
  qed
qed

lemma select_loop_sound:
  assumes "foldm (select_row env db q (project_context (qa_project_id q) db)) rows s = Inr s'" "selection_sound env db q done_rows s"
  shows "selection_sound env db q (done_rows @ rows) s'"
  using assms
proof (induction rows arbitrary: s done_rows)
  case (Cons r rows)
  then obtain s1 where "select_row env db q (project_context (qa_project_id q) db) r s = Inr s1"
      "foldm (select_row env db q (project_context (qa_project_id q) db)) rows s1 = Inr s'"
    by (auto simp: bindr_eq_Inr)
  with Cons.IH [of s1 "done_rows @ [r]"] select_row_sound Cons.prems(2) show ?case by fastforce
qed simp

lemma select_rows_sound:
  assumes "select_rows env db q = Inr s" "0 \<le> qa_token_budget q"
  shows "selection_sound env db q (project_context (qa_project_id q) db) s"
proof -
  have "selection_sound env db q [] \<lparr>sn_selected = [], sn_rejected = [], sn_used = 0\<rparr>"
    using assms(2) by (simp add: selection_sound_def)
  from select_loop_sound [OF assms(1) [unfolded select_rows_def Let_def] this] show ?thesis by simp
qed

lemma project_context_set: "set (project_context p db) = {r \<in> set (context_items db). ci_project_id r = p}"
  by (auto simp: project_context_def)

lemma clean_request_Inr:
  assumes "clean_request env given = Inr q"
  shows "1 \<le> qa_token_budget q \<and> qa_scopes q \<noteq> [] \<and> set (qa_classifications q) \<subseteq> set ACTIVE_INSTRUCTION_CLASSIFICATIONS"
proof -
  have "returns (clean_request env given) (\<lambda>q. 1 \<le> qa_token_budget q \<and> qa_scopes q \<noteq> [] \<and>
      set (qa_classifications q) \<subseteq> set ACTIVE_INSTRUCTION_CLASSIFICATIONS)"
    unfolding clean_request_def
    by (intro registry_steps returnsI) (auto simp flip: set_empty)
  from returnsD [OF this assms] show ?thesis .
qed

lemma authorized_task_Inr:
  "authorized_task q db = Inr spec \<Longrightarrow> \<exists>t. fetch_one (\<lambda>t. t_task_id t = qa_task_id q) (tasks db) = Some t \<and>
     load_task_spec (t_spec t) = Inr spec \<and> (\<forall>s \<in> set (qa_scopes q). scope_allowed (ts_read_scope spec) s = Inr True)"
  by (auto simp: authorized_task_def bindr_eq_Inr except_map_eq_Inr mapr_eq_Inr list_all2_conv_all_nth list_all_length
      in_set_conv_nth simp del: fetch_one_None split: option.splits if_splits)

lemma assemble_Inr:
  assumes "assemble env given db = Inr (a, db')"
  shows "clean_request env given = Inr (as_request a) \<and> (\<exists>spec. authorized_task (as_request a) db = Inr spec) \<and>
     select_rows env db (as_request a) = Inr (as_selection a) \<and> context_items db' = context_items db"
proof -
  have "returns (assemble env given db) (\<lambda>(a, db'). clean_request env given = Inr (as_request a) \<and>
     (\<exists>spec. authorized_task (as_request a) db = Inr spec) \<and>
     select_rows env db (as_request a) = Inr (as_selection a) \<and> context_items db' = context_items db)"
    unfolding assemble_def draw_uuid_def
    by (intro registry_steps returnsI) (auto simp: bindr_eq_Inr dest!: append_event_frame)
  from returnsD [OF this assms] show ?thesis by simp
qed

section \<open>Where the items come from\<close>

lemma persist_Inr:
  assumes "persist env q r ty att db = Inr ((x, eid), db')"
  shows "x \<in> set (context_items db) \<and> context_items db' = context_items db \<or>
     x = r \<and> context_items db' = context_items db @ [r]"
proof -
  obtain d n where f: "fresh_id env (cq_command_id q) db = (d, db\<lparr>uuid_next := n\<rparr>)"
    using fresh_id_uuid by (metis prod.exhaust)
  have "returns (persist env q r ty att db) (\<lambda>((x, eid), db').
      x \<in> set (context_items db) \<and> context_items db' = context_items db \<or> x = r \<and> context_items db' = context_items db @ [r])"
    unfolding persist_def f
    by (intro registry_steps returnsI) (auto simp: bindr_eq_Inr dest!: append_event_frame fetch_one_SomeD)
  from returnsD [OF this assms] show ?thesis by simp
qed

lemma attestation_matches_iff:
  "attestation_matches r v a \<Longrightarrow> tsa_fields a = attested_fields r \<and> tsa_policy_version a = v"
  by (simp add: attestation_matches_def tsa_fields_def attested_fields_def)

lemma prepare_record_Inr:
  assumes "prepare_record env q = Inr r"
  shows "ci_source_digest r = source_digest env (ci_source_ref r) (ci_content r) \<and> 1 \<le> ci_token_estimate r \<and>
     ci_classification r \<in> set KNOWN_CLASSIFICATIONS"
proof -
  have "returns (prepare_record env q) (\<lambda>r. ci_source_digest r = source_digest env (ci_source_ref r) (ci_content r) \<and>
      1 \<le> ci_token_estimate r \<and> ci_classification r \<in> set KNOWN_CLASSIFICATIONS)"
    unfolding prepare_record_def by (intro registry_steps returnsI) auto
  from returnsD [OF this assms] show ?thesis .
qed

text \<open>An item attested: the verifier accepted an attestation of exactly its fields, under the policy version
  of the import.\<close>

definition attested :: "source_verifier \<Rightarrow> context_request \<Rightarrow> attestation \<Rightarrow> context_item_row \<Rightarrow> bool" where
  "attested verify q a r \<longleftrightarrow> verify a = Inr None \<and> tsa_fields a = attested_fields r \<and>
     tsa_policy_version a = strip (cq_policy_version q) \<and> non_blank (tsa_proof a) \<and> non_blank (tsa_attestation_id a)"

lemma validate_attested:
  "validate_trusted_attestation verify r (strip (cq_policy_version q)) a = Inr () \<Longrightarrow> attested verify q a r"
  by (auto simp: validate_trusted_attestation_def attested_def bindr_eq_Inr
      dest!: attestation_matches_iff split: if_splits)

lemma import_trusted_Inr:
  assumes "import_trusted verify env q a db = Inr ((x, eid), db')"
  shows "x \<in> set (context_items db) \<and> context_items db' = context_items db \<or>
     context_items db' = context_items db @ [x] \<and> attested verify q a x \<and>
     ci_source_digest x = source_digest env (ci_source_ref x) (ci_content x) \<and> 1 \<le> ci_token_estimate x"
proof -
  from assms obtain r where "prepare_record env q = Inr r" "validate_trusted_attestation verify r (strip (cq_policy_version q)) a = Inr ()"
      "persist env q r ''trusted_context_imported'' (Some a) db = Inr ((x, eid), db')"
    by (auto simp: import_trusted_def bindr_eq_Inr split: if_splits)
  then show ?thesis using persist_Inr prepare_record_Inr validate_attested by blast
qed

lemma register_context_Inr:
  assumes "register_context env q db = Inr ((x, eid), db')"
  shows "context_items db' = context_items db \<or>
     context_items db' = context_items db @ [x] \<and> ci_normative_status x \<in> set AUTHORING_STATUSES"
proof -
  from assms obtain r where "ci_normative_status r \<in> set AUTHORING_STATUSES"
      "persist env q r ''context_item_registered'' None db = Inr ((x, eid), db')"
    by (auto simp: register_context_def bindr_eq_Inr split: if_splits)
  then show ?thesis using persist_Inr by blast
qed

inductive context_step :: "source_verifier \<Rightarrow> db \<Rightarrow> db \<Rightarrow> bool" for verify where
  registered: "register_context env q db = Inr ((x, eid), db') \<Longrightarrow> context_step verify db db'"
| imported: "import_trusted verify env q a db = Inr ((x, eid), db') \<Longrightarrow> context_step verify db db'"
| assembled: "assemble env q db = Inr (a, db') \<Longrightarrow> context_step verify db db'"
| other_tables: "context_items db' = context_items db \<Longrightarrow> context_step verify db db'"

abbreviation context_run :: "source_verifier \<Rightarrow> db \<Rightarrow> db \<Rightarrow> bool" where
  "context_run verify \<equiv> (context_step verify)\<^sup>*\<^sup>*"

definition imported_by :: "source_verifier \<Rightarrow> db \<Rightarrow> context_item_row \<Rightarrow> bool" where
  "imported_by verify db0 r \<longleftrightarrow> (\<exists>env q a d d' eid. context_run verify db0 d \<and>
     import_trusted verify env q a d = Inr ((r, eid), d') \<and> attested verify q a r \<and>
     ci_source_digest r = source_digest env (ci_source_ref r) (ci_content r) \<and> 1 \<le> ci_token_estimate r)"

lemma normative_imported:
  assumes "context_run verify db0 db" "context_items db0 = []" "r \<in> set (context_items db)"
    and "ci_normative_status r \<in> set INSTRUCTION_STATUSES"
  shows "imported_by verify db0 r"
  using assms
proof (induction rule: rtranclp_induct)
  case (step d d')
  from step.hyps(2) show ?case
  proof cases
    case (registered env q x eid)
    from register_context_Inr [OF this] show ?thesis
    proof
      assume "context_items d' = context_items d"
      then show ?thesis using step by simp
    next
      assume x: "context_items d' = context_items d @ [x] \<and> ci_normative_status x \<in> set AUTHORING_STATUSES"
      then have "r \<noteq> x" using step.prems(3) by (auto simp: AUTHORING_STATUSES_def INSTRUCTION_STATUSES_def)
      then show ?thesis using step x by simp
    qed
  next
    case (imported env q a x eid)
    from import_trusted_Inr [OF this] show ?thesis
    proof
      assume "x \<in> set (context_items d) \<and> context_items d' = context_items d"
      then show ?thesis using step by simp
    next
      assume x: "context_items d' = context_items d @ [x] \<and> attested verify q a x \<and>
        ci_source_digest x = source_digest env (ci_source_ref x) (ci_content x) \<and> 1 \<le> ci_token_estimate x"
      show ?thesis
      proof (cases "r = x")
        case True
        then show ?thesis using imported x step.hyps(1) unfolding imported_by_def by blast
      qed (use step x in simp)
    qed
  next
    case (assembled env q a)
    then show ?thesis using step assemble_Inr by metis
  qed (use step in simp)
qed simp

text \<open>What an import writes into the ledger is what \<open>assemble\<close> trusts.\<close>

lemma import_trusts:
  assumes "tsa_fields a = attested_fields r" "non_blank (tsa_attestation_id a)"
    and "e_payload e = c_payload (context_event env q r ty pv (Some a) actor cid)"
    and "e_policy_version e = tsa_policy_version a" "trusted_import_of (ci_context_id r) e"
  shows "trusts env r e"
  using assms
  by (simp add: trusts_def context_event_def record_payload_def attested_fields_def attestation_fingerprint_def as_number_def
      jint_opt_def jopt_def split: option.split)

text \<open>C3. Context is earned: every item an assembly selects is intact, in a requested scope that the contract of
  the Task may read, in force, not superseded and of a classification instructions may have, and was imported under
  an attestation of exactly its fields that the verifier accepted; the selection stays inside the token budget; and
  every item of the project is either selected or rejected with the reason that applies to it.\<close>

theorem assembled_context_earned:
  assumes "context_run verify db0 db" "context_items db0 = []" "assemble env given db = Inr (a, db')"
  shows "(\<forall>r \<in> set (sn_selected (as_selection a)). r \<in> set (context_items db) \<and> eligible env db (as_request a) r \<and>
       ci_classification r \<in> set ACTIVE_INSTRUCTION_CLASSIFICATIONS \<and> imported_by verify db0 r) \<and>
     sum_list (map ci_token_estimate (sn_selected (as_selection a))) \<le> qa_token_budget (as_request a) \<and>
     (\<exists>t spec. fetch_one (\<lambda>t. t_task_id t = qa_task_id (as_request a)) (tasks db) = Some t \<and> load_task_spec (t_spec t) = Inr spec \<and>
       (\<forall>s \<in> set (qa_scopes (as_request a)). scope_allowed (ts_read_scope spec) s = Inr True)) \<and>
     (\<forall>r \<in> set (context_items db). ci_project_id r = qa_project_id (as_request a) \<longrightarrow>
       r \<in> set (sn_selected (as_selection a)) \<or>
       (\<exists>why used. (r, why) \<in> set (sn_rejected (as_selection a)) \<and>
          reject_reason env db (as_request a) (project_context (qa_project_id (as_request a)) db) used r = Inr (Some why)))"
proof -
  let ?q = "as_request a" and ?s = "as_selection a"
  from assemble_Inr [OF assms(3)] obtain spec where q: "clean_request env given = Inr ?q"
    and t: "authorized_task ?q db = Inr spec" and s: "select_rows env db ?q = Inr ?s" by blast
  from clean_request_Inr [OF q] have c: "0 \<le> qa_token_budget ?q" "set (qa_classifications ?q) \<subseteq> set ACTIVE_INSTRUCTION_CLASSIFICATIONS" by auto
  note sound = select_rows_sound [OF s c(1)]
  have sel: "r \<in> set (context_items db) \<and> eligible env db ?q r \<and> ci_classification r \<in> set ACTIVE_INSTRUCTION_CLASSIFICATIONS \<and>
      imported_by verify db0 r" if "r \<in> set (sn_selected ?s)" for r
  proof -
    from sound that have e: "eligible env db ?q r" "r \<in> set (project_context (qa_project_id ?q) db)"
      unfolding selection_sound_def by blast+
    then have "r \<in> set (context_items db)" "ci_normative_status r \<in> set INSTRUCTION_STATUSES"
        "ci_classification r \<in> set (qa_classifications ?q)"
      unfolding project_context_set eligible_def by blast+
    with e c(2) normative_imported [OF assms(1, 2)] show ?thesis by blast
  qed
  have rest: "r \<in> set (sn_selected ?s) \<or> (\<exists>why used. (r, why) \<in> set (sn_rejected ?s) \<and>
      reject_reason env db ?q (project_context (qa_project_id ?q) db) used r = Inr (Some why))"
    if "r \<in> set (context_items db)" "ci_project_id r = qa_project_id ?q" for r
  proof -
    from sound that have "r \<in> set (sn_selected ?s) \<union> fst ` set (sn_rejected ?s)"
      unfolding selection_sound_def project_context_set by blast
    then show ?thesis using sound unfolding selection_sound_def by fastforce
  qed
  from sound have "sum_list (map ci_token_estimate (sn_selected ?s)) \<le> qa_token_budget ?q"
    by (simp add: selection_sound_def)
  with sel rest authorized_task_Inr [OF t] show ?thesis by blast
qed

text \<open>Without a verifier nothing is ever selected.\<close>

lemma nothing_trusted_by_default:
  assumes "context_run deny_all db0 db" "context_items db0 = []" "assemble env given db = Inr (a, db')"
  shows "sn_selected (as_selection a) = []"
proof -
  from assms(3) have s: "selection_sound env db (as_request a) (project_context (qa_project_id (as_request a)) db) (as_selection a)"
    using assemble_Inr clean_request_Inr select_rows_sound by (metis order_trans zero_le_one)
  have "\<not> imported_by deny_all db0 r" for r by (simp add: imported_by_def attested_def deny_all_def)
  then have "r \<notin> set (sn_selected (as_selection a))" for r
    using s normative_imported [OF assms(1, 2)] unfolding selection_sound_def project_context_set eligible_def by blast
  then show ?thesis by (metis list.set_intros(1) neq_Nil_conv)
qed

section \<open>Instances\<close>

definition signature_verifier :: source_verifier where
  "signature_verifier a = (if tsa_proof a = ''signed'' then Inr None else Inl (AuthorizationError ''bad signature''))"

definition rule_request :: context_request where
  "rule_request = \<lparr>cq_context_id = ''c1'', cq_project_id = ''p1'', cq_scope = ''/work/docs'', cq_source_ref = ''doc'',
     cq_content = ''rule'', cq_classification = ''internal'', cq_normative_status = ''Active'', cq_priority = 1,
     cq_token_estimate = None, cq_observed_at = No_Time, cq_effective_at = At 3, cq_expires_at = At 9, cq_supersedes = None,
     cq_actor = ''sys'', cq_policy_version = ''v1'', cq_command_id = None, cq_correlation_id = None\<rparr>"

definition rule_attestation :: attestation where
  "rule_attestation = \<lparr>tsa_attestation_id = ''a1'', tsa_proof = ''signed'', tsa_context_id = JStr ''c1'', tsa_project_id = JStr ''p1'',
     tsa_scope = JStr ''/work/docs'', tsa_source_ref = JStr ''doc'',
     tsa_source_digest = JStr (source_digest (sample_env 5) ''doc'' ''rule''), tsa_classification = JStr ''internal'',
     tsa_normative_status = JStr ''active'', tsa_priority = JInt 1, tsa_token_estimate = JInt 1, tsa_observed_at = JInt 5,
     tsa_effective_at = JInt 3, tsa_expires_at = JInt 9, tsa_supersedes = JNull, tsa_policy_version = ''v1''\<rparr>"

definition context_db :: db where
  "context_db = (policy_db [] [])\<lparr>tasks := [(sample_task_row TS_RUNNING 1)\<lparr>t_spec :=
     JObj (task_to_dict (provider_task\<lparr>ts_read_scope := [''/work/**'']\<rparr>))\<rparr>]\<rparr>"

definition rule_assembly :: assembly_request where
  "rule_assembly = \<lparr>aq_assembly_id = ''as1'', aq_project_id = ''p1'', aq_run_id = ''r1'', aq_task_id = ''t1'',
     aq_scopes = [''/work/docs''], aq_token_budget = 5, aq_as_of = No_Time, aq_allowed_classifications = None,
     aq_actor = ''sys'', aq_policy_version = ''v1''\<rparr>"

definition rule_item :: context_item_row where
  "rule_item = \<lparr>ci_context_id = ''c1'', ci_project_id = ''p1'', ci_scope = ''/work/docs'', ci_source_ref = ''doc'',
     ci_source_digest = source_digest (sample_env 5) ''doc'' ''rule'', ci_content = ''rule'', ci_classification = ''internal'',
     ci_normative_status = ''active'', ci_priority = 1, ci_token_estimate = 1, ci_observed_at = 5, ci_effective_at = 3,
     ci_expires_at = Some 9, ci_supersedes = None, ci_created_at = 5\<rparr>"

definition rule_query :: clean_assembly where
  "rule_query = \<lparr>qa_assembly_id = ''as1'', qa_project_id = ''p1'', qa_run_id = ''r1'', qa_task_id = ''t1'', qa_scopes = [''/work/docs''],
     qa_token_budget = 5, qa_classifications = [''internal'', ''public'', ''publicable''], qa_as_of = 6\<rparr>"

lemma rule_checks:
  "prepare_record (sample_env 5) rule_request = Inr rule_item" "clean_request (sample_env 6) rule_assembly = Inr rule_query"
  "authorized_task rule_query context_db = Inr (provider_task\<lparr>ts_read_scope := [''/work/**'']\<rparr>)"
  "contract_text ''v1'' = Inr ''v1''" "contract_text ''sys'' = Inr ''sys''" "contract_text ''a1'' = Inr ''a1''"
  "contract_text ''signed'' = Inr ''signed''" "scopes_overlap ''/work/docs'' ''/work/docs'' = Inr True" "non_blank ''a1''"
  by (code_simp+)

lemma rule_attested: "validate_trusted_attestation signature_verifier rule_item ''v1'' rule_attestation = Inr ()"
  by (simp add: validate_trusted_attestation_def attestation_matches_def attested_fields_def tsa_fields_def rule_attestation_def
      rule_item_def rule_checks signature_verifier_def jint_opt_def jopt_def)

definition rule_event :: event_row where
  "rule_event = new_event (sample_env 5) (context_db\<lparr>uuid_next := Suc (uuid_next context_db)\<rparr>)
     (context_event (sample_env 5) rule_request rule_item ''trusted_context_imported'' ''v1'' (Some rule_attestation) ''sys'' (CHR ''u'' # show_nat 0)) []"

definition rule_db :: db where
  "rule_db = context_db\<lparr>events := [rule_event], uuid_next := Suc (Suc 0), context_items := [rule_item]\<rparr>"

lemma context_db_tables: "events context_db = []" "context_items context_db = []" "uuid_next context_db = 0" "context_assemblies context_db = []"
  by (simp_all add: context_db_def policy_db_def sample_rows)

lemma rule_values:
  "cq_policy_version rule_request = ''v1''" "cq_actor rule_request = ''sys''" "cq_command_id rule_request = None"
  "cq_correlation_id rule_request = None" "ci_context_id rule_item = ''c1''" "ci_project_id rule_item = ''p1''"
  "ci_normative_status rule_item = ''active''" "ci_supersedes rule_item = None" "ci_classification rule_item = ''internal''"
  "tsa_attestation_id rule_attestation = ''a1''" "tsa_policy_version rule_attestation = ''v1''"
  by (simp_all add: rule_request_def rule_item_def rule_attestation_def)

lemma rule_imported:
  "import_trusted signature_verifier (sample_env 5) rule_request rule_attestation context_db =
     Inr ((rule_item, Some (e_event_id rule_event)), rule_db)"
  by (simp add: import_trusted_def rule_checks rule_values rule_attested persist_def require_supersedable_def INSTRUCTION_STATUSES_def
      context_db_tables fresh_id_def draw_uuid_def event_run context_event_def event_defaults_def rule_db_def rule_event_def
      Let_def cong: bind_eval)

lemma rule_trusted: "trusted_in (sample_env 6) rule_db rule_item"
proof -
  have p: "e_payload rule_event = c_payload (context_event (sample_env 5) rule_request rule_item ''trusted_context_imported'' ''v1''
      (Some rule_attestation) ''sys'' (CHR ''u'' # show_nat 0))" by (simp add: rule_event_def)
  have f: "tsa_fields rule_attestation = attested_fields rule_item"
    by (simp add: tsa_fields_def attested_fields_def rule_attestation_def rule_item_def jint_opt_def jopt_def)
  have v: "e_policy_version rule_event = tsa_policy_version rule_attestation"
    by (simp add: rule_event_def new_event_def Let_def context_event_def rule_values)
  have i: "trusted_import_of (ci_context_id rule_item) rule_event" "e_project_id rule_event = ci_project_id rule_item"
    "non_blank (tsa_attestation_id rule_attestation)"
    by (simp_all add: trusted_import_of_def rule_event_def context_event_def rule_values rule_checks)
  have "trusts (sample_env 6) = trusts (sample_env 5)" unfolding trusts_def sample_env_simps ..
  with import_trusts [OF f i(3) p v i(1)] i(2) show ?thesis by (simp add: trusted_in_def rule_db_def)
qed

lemma rule_selected: "select_rows (sample_env 6) rule_db rule_query = Inr \<lparr>sn_selected = [rule_item], sn_rejected = [], sn_used = 1\<rparr>"
proof -
  have rows: "project_context ''p1'' rule_db = [rule_item]" by (simp add: project_context_def rule_db_def rule_values)
  have "superseder (sample_env 6) rule_db 6 [rule_item] rule_item = None" by (simp add: superseder_def rule_values)
  moreover have "source_digest (sample_env 6) ''doc'' ''rule'' = source_digest (sample_env 5) ''doc'' ''rule''"
    by (simp add: source_digest_def)
  ultimately have "reject_reason (sample_env 6) rule_db rule_query [rule_item] 0 rule_item = Inr None"
    using rule_trusted rule_checks(8)
    by (simp add: reject_reason_def rule_query_def rule_item_def INSTRUCTION_STATUSES_def Let_def)
  with rows show ?thesis by (simp add: select_rows_def select_row_def rule_query_def rule_item_def Let_def)
qed

lemma rule_assembled: "\<exists>a db. assemble (sample_env 6) rule_assembly rule_db = Inr (a, db) \<and> sn_selected (as_selection a) = [rule_item]"
proof -
  have t: "authorized_task rule_query rule_db = authorized_task rule_query context_db"
    by (simp add: authorized_task_def rule_db_def cong: if_cong)
  have h: "heads_ok [rule_event]" by (simp add: rule_event_def context_db_tables)
  have v: "aq_actor rule_assembly = ''sys''" "aq_policy_version rule_assembly = ''v1''" by (simp_all add: rule_assembly_def)
  have d: "events rule_db = [rule_event]" "context_assemblies rule_db = []" "uuid_next rule_db = Suc (Suc 0)"
    "e_aggregate_type rule_event = ''context_item''" "e_event_id rule_event = CHR ''u'' # show_nat (Suc 0)"
    by (simp_all add: rule_db_def rule_event_def context_db_tables context_event_def)
  have "show_nat (Suc (Suc (Suc 0))) \<noteq> show_nat (Suc 0)" using show_nat_inject by fastforce
  then show ?thesis
    by (simp add: assemble_def rule_checks rule_selected t d h v assembly_event_def event_defaults_def draw_uuid_def event_run Let_def
        cong: bind_eval)
qed

lemma assembled_context_earned_witness:
  "\<exists>a db'. context_run signature_verifier context_db rule_db \<and> assemble (sample_env 6) rule_assembly rule_db = Inr (a, db') \<and>
     sn_selected (as_selection a) = [rule_item] \<and> eligible (sample_env 6) rule_db (as_request a) rule_item \<and>
     imported_by signature_verifier context_db rule_item"
proof -
  from rule_imported have run: "context_run signature_verifier context_db rule_db" by (blast intro: context_step.imported)
  from rule_assembled obtain a db' where a: "assemble (sample_env 6) rule_assembly rule_db = Inr (a, db')"
    "sn_selected (as_selection a) = [rule_item]" by blast
  from assembled_context_earned [OF run context_db_tables(2) a(1)] a run show ?thesis by auto
qed

end
