(* ===== verification/Memory.thy ===== *)
theory Memory
  imports Context
begin

text \<open>
  \<open>memory.py\<close>: durable memory.  A candidate is seeded by passing evidence, inside the write scope of the
  Task and no less classified than the artifacts behind the evidence; it is promoted to limited and then to
  active, each time by an owner whose approval names exactly this promotion and who decided it after a passing
  held-out evaluation of this candidate.
\<close>

section \<open>Candidates\<close>

definition MEMORY_TRANSITIONS :: "(string \<times> string) list" where
  "MEMORY_TRANSITIONS = [(''candidate'', ''limited''), (''limited'', ''active'')]"

definition CLASSIFICATION_RANK :: "(string \<times> int) list" where
  "CLASSIFICATION_RANK = [(''public'', 0), (''publicable'', 0), (''internal'', 1), (''private'', 2), (''confidential'', 2), (''secret'', 3)]"

definition classification_rank :: "string \<Rightarrow> int" where
  "classification_rank c = (case map_of CLASSIFICATION_RANK c of None \<Rightarrow> 3 | Some n \<Rightarrow> n)"

definition candidate_digest :: "env \<Rightarrow> memory_row \<Rightarrow> string" where
  "candidate_digest env m = content_hash (sha256 env) (JObj [(''memory_id'', JStr (m_memory_id m)),
     (''project_id'', JStr (m_project_id m)), (''source_evidence_id'', JStr (m_source_evidence_id m)),
     (''source_digest'', JStr (m_source_digest m)), (''scope'', JStr (m_scope m)), (''classification'', JStr (m_classification m)),
     (''content'', JStr (m_content m)), (''effective_at'', JInt (m_effective_at m)), (''expires_at'', jint_opt (m_expires_at m)),
     (''supersedes'', jopt (m_supersedes m)), (''created_at'', JInt (m_created_at m))])"

definition artifact_json :: "artifact_row \<Rightarrow> json" where
  "artifact_json a = JObj [(''artifact_id'', JStr (af_artifact_id a)), (''kind'', JStr (af_kind a)), (''uri'', JStr (af_uri a)),
     (''content_digest'', JStr (af_content_digest a)), (''confidentiality'', JStr (af_confidentiality a)),
     (''producer_principal_id'', JStr (af_producer a))]"

definition evidence_json :: "evidence_row \<Rightarrow> artifact_row list \<Rightarrow> json" where
  "evidence_json c rows = JObj [(''evidence_id'', JStr (ev_evidence_id c)), (''project_id'', JStr (ev_project_id c)),
     (''run_id'', JStr (ev_run_id c)), (''task_id'', JStr (ev_task_id c)), (''claim'', JStr (ev_claim c)),
     (''evidence_state'', JStr (evidence_state_value (ev_state c))),
     (''artifact_refs_json'', JStr (canonical_json (JList (map JStr (ev_artifact_refs c))))),
     (''verifier_principal_id'', JStr (ev_verifier c)), (''verifier_version'', JStr (ev_verifier_version c)),
     (''environment'', JStr (ev_environment c)), (''evaluator_verdict'', JStr (evaluator_verdict_value (ev_verdict c))),
     (''non_claims_json'', JStr (canonical_json (JList (map JStr (ev_non_claims c))))),
     (''created_at'', JInt (ev_created_at c)), (''artifacts'', JList (map artifact_json (sort_key af_artifact_id rows)))]"

definition evidence_provenance :: "env \<Rightarrow> evidence_row \<Rightarrow> db \<Rightarrow> (string \<times> artifact_row list) res" where
  "evidence_provenance env c db =
     (let refs = ev_artifact_refs c; rows = filter (\<lambda>a. af_artifact_id a \<in> set refs) (artifacts db) in
      if refs = [] \<or> [] \<in> set refs \<or> \<not> distinct refs
      then Inl (EvidenceError ''source evidence must reference unique artifact IDs'')
      else if \<not> set refs \<subseteq> set (map af_artifact_id rows)
      then Inl (EvidenceError ''source evidence artifacts do not exist'')
      else Inr (content_hash (sha256 env) (evidence_json c rows), rows))"

record promotion =
  pm_from_status :: string
  pm_target_status :: string
  pm_candidate_digest :: string
  pm_resource :: string
  pm_request_digest :: string

definition promotion_of :: "env \<Rightarrow> memory_row \<Rightarrow> string \<Rightarrow> promotion" where
  "promotion_of env m tgt =
     (let digest = candidate_digest env m; resource = ''memory://'' @ m_memory_id m in
      \<lparr>pm_from_status = m_status m, pm_target_status = tgt, pm_candidate_digest = digest, pm_resource = resource,
       pm_request_digest = content_hash (sha256 env) (JObj [(''memory_id'', JStr (m_memory_id m)),
         (''candidate_digest'', JStr digest), (''from_status'', JStr (m_status m)), (''target_status'', JStr tgt),
         (''capability'', JStr ''durable_memory_promotion''), (''action'', JStr ''promote_memory''),
         (''resource'', JStr resource)])\<rparr>)"

definition promotion_request :: "env \<Rightarrow> memory_row \<Rightarrow> string \<Rightarrow> promotion res" where
  "promotion_request env m given =
     bindr (contract_text given) (\<lambda>text.
       if map_of MEMORY_TRANSITIONS (m_status m) \<noteq> Some (lower text)
       then Inl (ContractError ''memory promotion must follow candidate -> limited -> active'')
       else Inr (promotion_of env m (lower text)))"

record candidate_request =
  mq_memory_id :: string
  mq_project_id :: string
  mq_source_evidence_id :: string
  mq_scope :: string
  mq_classification :: string
  mq_content :: string
  mq_ttl_seconds :: int
  mq_effective_at :: time_arg
  mq_expires_at :: time_arg
  mq_supersedes :: "string option"
  mq_actor :: "auth_session option"
  mq_policy_version :: string

definition DEFAULT_TTL :: int where
  "DEFAULT_TTL = 30 * 24 * 60 * 60"

text \<open>The checks before the transaction.\<close>

record clean_candidate =
  mc_memory_id :: string
  mc_project_id :: string
  mc_source_evidence_id :: string
  mc_scope :: string
  mc_classification :: string
  mc_content :: string
  mc_supersedes :: "string option"
  mc_effective_at :: int
  mc_expires_at :: int

definition clean_candidate_request :: "env \<Rightarrow> candidate_request \<Rightarrow> clean_candidate res" where
  "clean_candidate_request env q =
     bindr (contract_text (mq_memory_id q)) (\<lambda>memory_id.
     bindr (contract_text (mq_project_id q)) (\<lambda>project_id.
     bindr (contract_text (mq_source_evidence_id q)) (\<lambda>evidence_id.
     bindr (contract_text (mq_scope q)) (\<lambda>raw_scope.
     bindr (normalize_scope raw_scope) (\<lambda>scope.
     bindr (contract_text (mq_classification q)) (\<lambda>given_class.
     bindr (contract_text (mq_content q)) (\<lambda>content.
     let classification = lower given_class in
     if classification \<notin> set KNOWN_CLASSIFICATIONS then Inl (ContractError ''unsupported classification'')
     else
     bindr (case mq_supersedes q of None \<Rightarrow> Inr None | Some s \<Rightarrow> bindr (contract_text s) (\<lambda>s.
              if s = memory_id then Inl (ContractError ''a memory item cannot supersede itself'') else Inr (Some s))) (\<lambda>supersedes.
     if mq_ttl_seconds q < 1 then Inl (ContractError ''ttl_seconds must be a positive integer'')
     else if mq_expires_at q \<noteq> No_Time \<and> mq_ttl_seconds q \<noteq> DEFAULT_TTL
     then Inl (ContractError ''provide either expires_at or a non-default ttl_seconds, not both'')
     else
     bindr (contract_instant (Some (now env)) (mq_effective_at q)) (\<lambda>effective.
     bindr (contract_instant (Some (effective + seconds (mq_ttl_seconds q))) (mq_expires_at q)) (\<lambda>expiry.
     if expiry \<le> effective then Inl (ContractError ''memory expiry must be later than effective_at'')
     else Inr \<lparr>mc_memory_id = memory_id, mc_project_id = project_id, mc_source_evidence_id = evidence_id, mc_scope = scope,
            mc_classification = classification, mc_content = content, mc_supersedes = supersedes,
            mc_effective_at = effective, mc_expires_at = expiry\<rparr>))))))))))"

text \<open>The claim joined with its Task.\<close>

definition joined_evidence :: "string \<Rightarrow> db \<Rightarrow> (evidence_row \<times> task_row) option" where
  "joined_evidence evidence_id db =
     (case fetch_one (\<lambda>c. ev_evidence_id c = evidence_id) (evidence_claims db) of
        None \<Rightarrow> None
      | Some c \<Rightarrow> map_option (\<lambda>t. (c, t)) (fetch_one (\<lambda>t. t_task_id t = ev_task_id c) (tasks db)))"

definition same_candidate :: "clean_candidate \<Rightarrow> memory_row \<Rightarrow> bool" where
  "same_candidate q m \<longleftrightarrow> m_project_id m = mc_project_id q \<and> m_source_evidence_id m = mc_source_evidence_id q \<and>
     m_scope m = mc_scope q \<and> m_classification m = mc_classification q \<and> m_content m = mc_content q \<and>
     m_supersedes m = mc_supersedes q"

definition require_seed :: "env \<Rightarrow> clean_candidate \<Rightarrow> db \<Rightarrow> (evidence_row \<times> string) res" where
  "require_seed env q db =
     bindr (require (joined_evidence (mc_source_evidence_id q) db) (NotFoundError ''source evidence does not exist'')) (\<lambda>(c, t).
     if ev_project_id c \<noteq> mc_project_id q then Inl (ContractError ''memory project must match source evidence project'')
     else
     bindr (except_map (\<lambda>_. ContractError ''source task has no valid compiled memory authority'') (load_task_spec (t_spec t))) (\<lambda>spec.
     bindr (scope_allowed (ts_write_scope spec) (mc_scope q)) (\<lambda>inside.
     if \<not> inside then Inl (AuthorizationError ''memory scope exceeds source TaskSpec write_scope'')
     else if \<not> passing_evidence (ev_verdict c)
     then Inl (EvidenceError ''failed or pending evidence cannot seed a promotable memory'')
     else
     bindr (evidence_provenance env c db) (\<lambda>(digest, rows).
     if \<not> list_all (\<lambda>a. classification_rank (af_confidentiality a) \<le> classification_rank (mc_classification q)) rows
     then Inl (ContractError ''memory classification cannot be less restrictive than its evidence artifacts'')
     else
     bindr (case mc_supersedes q of
              None \<Rightarrow> Inr ()
            | Some s \<Rightarrow>
                bindr (require (fetch_one (\<lambda>m. m_memory_id m = s) (memory_items db))
                         (NotFoundError ''superseded memory does not exist'')) (\<lambda>previous.
                  ensure (m_project_id previous = mc_project_id q \<and> m_scope previous = mc_scope q)
                    (ContractError ''memory supersession requires the same project and scope''))) (\<lambda>_.
       Inr (c, digest))))))"

definition memory_payload :: "memory_row \<Rightarrow> dict" where
  "memory_payload m = [(''memory_id'', JStr (m_memory_id m)), (''project_id'', JStr (m_project_id m)),
     (''source_evidence_id'', JStr (m_source_evidence_id m)), (''source_digest'', JStr (m_source_digest m)),
     (''scope'', JStr (m_scope m)), (''classification'', JStr (m_classification m)), (''status'', JStr (m_status m)),
     (''effective_at'', JInt (m_effective_at m)), (''expires_at'', jint_opt (m_expires_at m)), (''supersedes'', jopt (m_supersedes m)),
     (''promotion_approval_id'', jopt (m_promotion_approval_id m)), (''heldout_eval_id'', jopt (m_heldout_eval_id m)),
     (''created_at'', JInt (m_created_at m))]"

definition memory_event :: "evidence_row \<Rightarrow> memory_row \<Rightarrow> int \<Rightarrow> string \<Rightarrow> string \<Rightarrow> string \<Rightarrow> string \<Rightarrow> dict \<Rightarrow> event_cmd" where
  "memory_event c m version event_type actor command_id policy_version payload = event_defaults\<lparr>c_aggregate_type := ''memory_item'',
     c_aggregate_id := m_memory_id m, c_expected_version := version, c_project_id := m_project_id m, c_run_id := Some (ev_run_id c),
     c_task_id := Some (ev_task_id c), c_event_type := event_type, c_actor := actor, c_command_id := command_id,
     c_correlation_id := ev_run_id c, c_policy_version := policy_version, c_confidentiality := m_classification m,
     c_payload := payload\<rparr>"

text \<open>The result: the row, the digest of the candidate and, where one was written, the event.\<close>

type_synonym memory_result = "memory_row \<times> string \<times> string option"

definition create_candidate :: "env \<Rightarrow> candidate_request \<Rightarrow> db \<Rightarrow> (memory_result \<times> db) res" where
  "create_candidate env given db =
     bindr (clean_candidate_request env given) (\<lambda>q.
     bindr (verify_session env None (mq_actor given) db) (\<lambda>actor.
     if set (pr_roles actor) \<inter> {WORKER, EVALUATOR, SYSTEM} = {}
     then Inl (AuthorizationError ''memory candidate actor requires worker, evaluator, or system role'')
     else case fetch_one (\<lambda>m. m_memory_id m = mc_memory_id q) (memory_items db) of
       Some current \<Rightarrow>
         if same_candidate q current then Inr ((current, candidate_digest env current, None), db)
         else Inl (IntegrityError ''memory_id already exists with different content'')
     | None \<Rightarrow>
         bindr (require_seed env q db) (\<lambda>(c, digest).
         let m = \<lparr>m_memory_id = mc_memory_id q, m_project_id = mc_project_id q, m_source_evidence_id = mc_source_evidence_id q,
               m_source_digest = digest, m_scope = mc_scope q, m_classification = mc_classification q, m_content = mc_content q,
               m_status = ''candidate'', m_effective_at = mc_effective_at q, m_expires_at = Some (mc_expires_at q),
               m_supersedes = mc_supersedes q, m_promotion_approval_id = None, m_heldout_eval_id = None, m_created_at = now env\<rparr>;
             (command_id, db) = draw_uuid env db in
         bindr (contract_text (mq_policy_version given)) (\<lambda>policy_version.
         bindr (append_event env (memory_event c m 0 ''memory_candidate_created'' (pr_principal_id actor) command_id policy_version
                  (memory_payload m)) db) (\<lambda>(event, db).
         bindr (insert_row (\<lambda>a b. m_memory_id a = m_memory_id b) m (memory_items db)) (\<lambda>rows.
           Inr ((m, candidate_digest env m, Some (e_event_id event)), db\<lparr>memory_items := rows\<rparr>)))))))"

section \<open>Promotion\<close>

definition find_memory :: "string \<Rightarrow> db \<Rightarrow> memory_row res" where
  "find_memory memory_id db =
     require (fetch_one (\<lambda>m. m_memory_id m = memory_id) (memory_items db)) (NotFoundError ''memory does not exist'')"

definition get_promotion_request :: "env \<Rightarrow> string \<Rightarrow> string \<Rightarrow> db \<Rightarrow> promotion res" where
  "get_promotion_request env memory_id target_status db =
     bindr (contract_text memory_id) (\<lambda>i. bindr (find_memory i db) (\<lambda>m. promotion_request env m target_status))"

definition get_memory :: "env \<Rightarrow> string \<Rightarrow> db \<Rightarrow> (memory_row \<times> string) res" where
  "get_memory env memory_id db =
     bindr (contract_text memory_id) (\<lambda>i. bindr (find_memory i db) (\<lambda>m. Inr (m, candidate_digest env m)))"

record promote_request =
  tq_memory_id :: string
  tq_target_status :: string
  tq_approval_id :: string
  tq_heldout_eval_id :: string
  tq_human_approver :: "auth_session option"
  tq_policy_version :: string

text \<open>The provenance of the candidate, once more.\<close>

definition require_provenance :: "env \<Rightarrow> memory_row \<Rightarrow> db \<Rightarrow> (evidence_row \<times> task_row) res" where
  "require_provenance env m db =
     bindr (require (joined_evidence (m_source_evidence_id m) db)
              (EvidenceError ''memory provenance evidence is no longer available'')) (\<lambda>(c, t).
     if \<not> passing_evidence (ev_verdict c) then Inl (EvidenceError ''memory provenance evidence is no longer passing'')
     else
     bindr (evidence_provenance env c db) (\<lambda>(digest, _).
       if digest \<noteq> m_source_digest m then Inl (EvidenceError ''memory provenance changed after candidate creation'')
       else Inr (c, t)))"

definition exact_approval :: "memory_row \<Rightarrow> promotion \<Rightarrow> evidence_row \<Rightarrow> task_row \<Rightarrow> string \<Rightarrow> approval_row \<Rightarrow> bool" where
  "exact_approval m request c t approver ap \<longleftrightarrow>
     ap_project_id ap = m_project_id m \<and> ap_goal_id ap = t_goal_id t \<and> ap_run_id ap = ev_run_id c \<and> ap_task_id ap = ev_task_id c \<and>
     ap_capability ap = DURABLE_MEMORY_PROMOTION \<and> ap_action ap = ''promote_memory'' \<and> ap_resource ap = pm_resource request \<and>
     ap_request_digest ap = pm_request_digest request \<and> ap_decision ap = ''approved'' \<and> ap_approver ap = Some approver \<and>
     ap_decided_at ap \<noteq> None \<and> ap_expires_at ap \<noteq> None"

definition require_approval ::
    "env \<Rightarrow> string \<Rightarrow> memory_row \<Rightarrow> promotion \<Rightarrow> evidence_row \<Rightarrow> task_row \<Rightarrow> string \<Rightarrow> db \<Rightarrow> int res" where
  "require_approval env approval_id m request c t approver db =
     bindr (require (fetch_one (\<lambda>a. ap_approval_id a = approval_id) (approvals db))
              (AuthorizationError ''promotion approval does not exist'')) (\<lambda>ap.
     if \<not> exact_approval m request c t approver ap
     then Inl (AuthorizationError ''approval does not exactly authorize this memory promotion'')
     else
     bindr (require (ap_expires_at ap) (ContractError ''must include a timezone'')) (\<lambda>expires.
     bindr (require (ap_decided_at ap) (ContractError ''must include a timezone'')) (\<lambda>decided.
       if expires \<le> now env then Inl (AuthorizationError ''memory promotion approval has expired'')
       else Inr decided)))"

definition heldout_passes :: "memory_row \<Rightarrow> promotion \<Rightarrow> eval_row \<Rightarrow> bool" where
  "heldout_passes m request ev \<longleftrightarrow> el_project_id ev = m_project_id m \<and> el_candidate_digest ev = pm_candidate_digest request \<and>
     el_dataset_split ev = ''held_out'' \<and> el_status ev = ''pass'' \<and> el_safety_failures ev = JList []"

text \<open>The time of the last promotion of an item in the ledger.\<close>

definition last_promoted :: "string \<Rightarrow> db \<Rightarrow> int option" where
  "last_promoted memory_id db = map_option e_occurred_at (min_by (\<lambda>e. - e_aggregate_version e)
     (filter (\<lambda>e. e_aggregate_type e = ''memory_item'' \<and> e_aggregate_id e = memory_id \<and> e_event_type e = ''memory_promoted'')
       (events db)))"

definition require_fresh_eval :: "memory_row \<Rightarrow> eval_row \<Rightarrow> db \<Rightarrow> unit res" where
  "require_fresh_eval m ev db =
     (if m_status m \<noteq> ''limited'' then Inr ()
      else if m_heldout_eval_id m = Some (el_eval_id ev)
      then Inl (EvidenceError ''active memory promotion requires new post-limited evaluation evidence'')
      else if (case fetch_one (\<lambda>p. Some (el_eval_id p) = m_heldout_eval_id m) (eval_runs db) of
                 None \<Rightarrow> False | Some prior \<Rightarrow> el_dataset_digest prior = el_dataset_digest ev)
      then Inl (EvidenceError ''active memory promotion requires a fresh validation dataset'')
      else if (case last_promoted (m_memory_id m) db of None \<Rightarrow> True | Some t \<Rightarrow> el_created_at ev \<le> t)
      then Inl (EvidenceError ''active memory promotion requires evaluation after limited rollout'')
      else Inr ())"

definition promoted :: "promotion \<Rightarrow> string \<Rightarrow> string \<Rightarrow> memory_row \<Rightarrow> memory_row" where
  "promoted request approval_id eval_id m =
     m\<lparr>m_status := pm_target_status request, m_promotion_approval_id := Some approval_id, m_heldout_eval_id := Some eval_id\<rparr>"

definition promote_payload :: "promotion \<Rightarrow> string \<Rightarrow> string \<Rightarrow> string \<Rightarrow> dict" where
  "promote_payload request memory_id approval_id eval_id = [(''memory_id'', JStr memory_id),
     (''from_status'', JStr (pm_from_status request)), (''target_status'', JStr (pm_target_status request)),
     (''candidate_digest'', JStr (pm_candidate_digest request)), (''approval_id'', JStr approval_id),
     (''heldout_eval_id'', JStr eval_id)]"

definition promote :: "env \<Rightarrow> promote_request \<Rightarrow> db \<Rightarrow> (memory_result \<times> db) res" where
  "promote env q db =
     bindr (contract_text (tq_memory_id q)) (\<lambda>memory_id.
     bindr (contract_text (tq_approval_id q)) (\<lambda>approval_id.
     bindr (contract_text (tq_heldout_eval_id q)) (\<lambda>eval_id.
     bindr (require_role env OWNER (tq_human_approver q) db) (\<lambda>approver.
     bindr (find_memory memory_id db) (\<lambda>m.
     bindr (require (m_expires_at m) (ContractError ''must include a timezone'')) (\<lambda>expires.
     if expires \<le> now env then Inl (EvidenceError ''expired memory candidates cannot be promoted'')
     else
     bindr (promotion_request env m (tq_target_status q)) (\<lambda>request.
     bindr (require_provenance env m db) (\<lambda>(c, t).
     bindr (require_approval env approval_id m request c t (pr_principal_id approver) db) (\<lambda>decided.
     bindr (require (fetch_one (\<lambda>v. el_eval_id v = eval_id) (eval_runs db))
              (EvidenceError ''held-out evaluation does not exist'')) (\<lambda>ev.
     if \<not> heldout_passes m request ev
     then Inl (EvidenceError ''promotion requires a matching passing held-out eval with no safety failures'')
     else
     bindr (require_fresh_eval m ev db) (\<lambda>_.
     if decided < el_created_at ev
     then Inl (AuthorizationError ''human approval must be decided after the held-out evaluation'')
     else
     let rows = update_where (\<lambda>x. m_memory_id x = memory_id) (promoted request approval_id eval_id) (memory_items db);
         version = current_version ''memory_item'' memory_id (events db); (command_id, db) = draw_uuid env db in
     bindr (contract_text (tq_policy_version q)) (\<lambda>policy_version.
     bindr (append_event env (memory_event c m version ''memory_promoted'' (pr_principal_id approver) command_id policy_version
              (promote_payload request memory_id approval_id eval_id)) db) (\<lambda>(event, db).
     bindr (require (fetch_one (\<lambda>x. m_memory_id x = memory_id) rows) (PyTypeError ''NoneType'')) (\<lambda>row.
       Inr ((row, pm_candidate_digest request, Some (e_event_id event)), db\<lparr>memory_items := rows\<rparr>)))))))))))))))"

section \<open>What a creation and a promotion establish\<close>

lemma fetch_promoted [simp]:
  "fetch_one (\<lambda>x. m_memory_id x = k) (update_where (\<lambda>x. m_memory_id x = k) (promoted request a e) rows) =
     map_option (promoted request a e) (fetch_one (\<lambda>x. m_memory_id x = k) rows)"
  by (induction rows) (auto simp: promoted_def)

text \<open>The evidence a candidate is seeded by: passing, of a Task whose write scope holds the memory, and resting on
  artifacts that are no more classified than it.\<close>

definition seed_sound :: "db \<Rightarrow> memory_row \<Rightarrow> bool" where
  "seed_sound db m \<longleftrightarrow> (\<exists>c t spec. joined_evidence (m_source_evidence_id m) db = Some (c, t) \<and> ev_project_id c = m_project_id m \<and>
     passing_evidence (ev_verdict c) \<and> load_task_spec (t_spec t) = Inr spec \<and>
     scope_allowed (ts_write_scope spec) (m_scope m) = Inr True \<and>
     (\<forall>a \<in> set (artifacts db). af_artifact_id a \<in> set (ev_artifact_refs c) \<longrightarrow>
        classification_rank (af_confidentiality a) \<le> classification_rank (m_classification m)))"

lemma require_seed_Inr:
  assumes "require_seed env q db = Inr (c, digest)"
    and "m_source_evidence_id m = mc_source_evidence_id q" "m_project_id m = mc_project_id q" "m_scope m = mc_scope q"
      "m_classification m = mc_classification q"
  shows "seed_sound db m"
  using assms(1) unfolding require_seed_def seed_sound_def assms(2-5)
  by (auto simp: bindr_eq_Inr except_map_eq_Inr evidence_provenance_def Let_def list_all_iff split: if_splits)

lemma create_candidate_Inr:
  assumes "create_candidate env given db = Inr ((m, digest, eid), db')"
  shows "(memory_items db' = memory_items db \<or> m_status m = ''candidate'' \<and> seed_sound db m \<and>
       (\<forall>x \<in> set (memory_items db). m_memory_id x \<noteq> m_memory_id m) \<and> memory_items db' = memory_items db @ [m] \<and>
       (\<exists>p. verify_session env None (mq_actor given) db = Inr p \<and> set (pr_roles p) \<inter> {WORKER, EVALUATOR, SYSTEM} \<noteq> {})) \<and>
     eval_runs db' = eval_runs db"
proof -
  have "returns (create_candidate env given db) (\<lambda>((m, digest, eid), db').
      (memory_items db' = memory_items db \<or> m_status m = ''candidate'' \<and> seed_sound db m \<and>
       (\<forall>x \<in> set (memory_items db). m_memory_id x \<noteq> m_memory_id m) \<and> memory_items db' = memory_items db @ [m] \<and>
       (\<exists>p. verify_session env None (mq_actor given) db = Inr p \<and> set (pr_roles p) \<inter> {WORKER, EVALUATOR, SYSTEM} \<noteq> {})) \<and>
      eval_runs db' = eval_runs db)"
    unfolding create_candidate_def draw_uuid_def
    by (intro registry_steps returnsI, (clarsimp simp: bindr_eq_Inr)+)
      (drule append_event_frame, drule require_seed_Inr, auto)
  from returnsD [OF this assms] show ?thesis by simp
qed

text \<open>The approval of a promotion: decided by the owner for exactly this request, and still in force.\<close>

definition authorizes :: "env \<Rightarrow> approval_row \<Rightarrow> principal_record \<Rightarrow> promotion \<Rightarrow> bool" where
  "authorizes env ap p request \<longleftrightarrow> ap_decision ap = ''approved'' \<and> ap_approver ap = Some (pr_principal_id p) \<and>
     ap_capability ap = DURABLE_MEMORY_PROMOTION \<and> ap_resource ap = pm_resource request \<and>
     ap_request_digest ap = pm_request_digest request \<and> (\<exists>t. ap_expires_at ap = Some t \<and> now env < t)"

definition promotion_sound :: "env \<Rightarrow> promote_request \<Rightarrow> db \<Rightarrow> memory_row \<Rightarrow> eval_row \<Rightarrow> memory_row \<Rightarrow> bool" where
  "promotion_sound env q db x ev m \<longleftrightarrow> (\<exists>p request ap decided.
     fetch_one (\<lambda>v. m_memory_id v = m_memory_id m) (memory_items db) = Some x \<and>
     require_role env OWNER (tq_human_approver q) db = Inr p \<and> promotion_request env x (tq_target_status q) = Inr request \<and>
     ap \<in> set (approvals db) \<and> authorizes env ap p request \<and> ap_decided_at ap = Some decided \<and>
     fetch_one (\<lambda>v. el_eval_id v = el_eval_id ev) (eval_runs db) = Some ev \<and> heldout_passes x request ev \<and>
     require_fresh_eval x ev db = Inr () \<and> el_created_at ev \<le> decided \<and>
     m = promoted request (ap_approval_id ap) (el_eval_id ev) x)"

lemma require_approval_Inr:
  assumes "require_approval env i m request c t a db = Inr decided" "a = pr_principal_id p"
  shows "\<exists>ap \<in> set (approvals db). ap_approval_id ap = i \<and> authorizes env ap p request \<and> ap_decided_at ap = Some decided"
  using assms by (auto simp: require_approval_def bindr_eq_Inr exact_approval_def authorizes_def split: if_splits dest!: fetch_one_SomeD)

lemma promote_Inr:
  assumes "promote env q db = Inr ((m, digest, eid), db')"
  shows "\<exists>x ev. promotion_sound env q db x ev m \<and> eval_runs db' = eval_runs db \<and>
     (\<exists>f. f x = m \<and> (\<forall>r. m_memory_id (f r) = m_memory_id r) \<and>
        memory_items db' = update_where (\<lambda>r. m_memory_id r = m_memory_id m) f (memory_items db))"
proof -
  have "returns (promote env q db) (\<lambda>((m, digest, eid), db'). eval_runs db' = eval_runs db \<and>
     (\<exists>x. fetch_one (\<lambda>v. m_memory_id v = strip (tq_memory_id q)) (memory_items db) = Some x \<and>
     (\<exists>p. require_role env OWNER (tq_human_approver q) db = Inr p \<and>
     (\<exists>request. promotion_request env x (tq_target_status q) = Inr request \<and>
     (\<exists>c t decided. require_approval env (strip (tq_approval_id q)) x request c t (pr_principal_id p) db = Inr decided \<and>
     (\<exists>ev. fetch_one (\<lambda>v. el_eval_id v = strip (tq_heldout_eval_id q)) (eval_runs db) = Some ev \<and> heldout_passes x request ev \<and>
        require_fresh_eval x ev db = Inr () \<and> el_created_at ev \<le> decided)) \<and>
     m = promoted request (strip (tq_approval_id q)) (strip (tq_heldout_eval_id q)) x \<and>
     memory_items db' = update_where (\<lambda>r. m_memory_id r = strip (tq_memory_id q))
       (promoted request (strip (tq_approval_id q)) (strip (tq_heldout_eval_id q))) (memory_items db)))))"
    unfolding promote_def draw_uuid_def find_memory_def
    by (intro registry_steps returnsI, clarsimp simp: bindr_eq_Inr, drule append_event_frame, simp)
      (metis not_less)
  from returnsD [OF this assms] obtain x p request c t decided ev where
      x: "fetch_one (\<lambda>v. m_memory_id v = strip (tq_memory_id q)) (memory_items db) = Some x"
    and p: "require_role env OWNER (tq_human_approver q) db = Inr p" "promotion_request env x (tq_target_status q) = Inr request"
    and a: "require_approval env (strip (tq_approval_id q)) x request c t (pr_principal_id p) db = Inr decided"
    and ev: "fetch_one (\<lambda>v. el_eval_id v = strip (tq_heldout_eval_id q)) (eval_runs db) = Some ev" "heldout_passes x request ev"
      "require_fresh_eval x ev db = Inr ()" "el_created_at ev \<le> decided"
    and m: "m = promoted request (strip (tq_approval_id q)) (strip (tq_heldout_eval_id q)) x"
      "memory_items db' = update_where (\<lambda>r. m_memory_id r = strip (tq_memory_id q))
         (promoted request (strip (tq_approval_id q)) (strip (tq_heldout_eval_id q))) (memory_items db)"
      "eval_runs db' = eval_runs db" by auto
  from fetch_one_SomeD [OF x] fetch_one_SomeD [OF ev(1)] m(1)
  have ids: "m_memory_id m = strip (tq_memory_id q)" "el_eval_id ev = strip (tq_heldout_eval_id q)" by (simp_all add: promoted_def)
  from require_approval_Inr [OF a refl] obtain ap where ap: "ap \<in> set (approvals db)" "ap_approval_id ap = strip (tq_approval_id q)"
      "authorizes env ap p request" "ap_decided_at ap = Some decided" by blast
  have "promotion_sound env q db x ev m"
    unfolding promotion_sound_def ids ap(2) [symmetric] using x p ap ev m(1)
    by (intro exI [of _ p] exI [of _ request] exI [of _ ap] exI [of _ decided]) simp
  moreover have "\<forall>r. m_memory_id (promoted request (strip (tq_approval_id q)) (strip (tq_heldout_eval_id q)) r) = m_memory_id r"
    by (simp add: promoted_def)
  ultimately show ?thesis using m ids(1)
    by (intro exI [of _ x] exI [of _ ev] conjI exI [of _ "promoted request (strip (tq_approval_id q)) (strip (tq_heldout_eval_id q))"]) simp_all
qed

section \<open>Histories of the registry\<close>

text \<open>Other services leave the memory items and the evaluations that were recorded alone.\<close>

definition evals_kept :: "db \<Rightarrow> db \<Rightarrow> bool" where
  "evals_kept db db' \<longleftrightarrow> (\<forall>i e. fetch_one (\<lambda>v. el_eval_id v = i) (eval_runs db) = Some e \<longrightarrow>
     fetch_one (\<lambda>v. el_eval_id v = i) (eval_runs db') = Some e)"

inductive memory_step :: "db \<Rightarrow> db \<Rightarrow> bool" where
  created: "create_candidate env q db = Inr (r, db') \<Longrightarrow> memory_step db db'"
| promoting: "promote env q db = Inr (r, db') \<Longrightarrow> memory_step db db'"
| others: "memory_items db' = memory_items db \<Longrightarrow> evals_kept db db' \<Longrightarrow> memory_step db db'"

abbreviation memory_run :: "db \<Rightarrow> db \<Rightarrow> bool" where
  "memory_run \<equiv> memory_step\<^sup>*\<^sup>*"

definition seeded :: "db \<Rightarrow> memory_row \<Rightarrow> bool" where
  "seeded db0 m \<longleftrightarrow> (\<exists>env q d d' dg eid p. memory_run db0 d \<and> create_candidate env q d = Inr ((m, dg, eid), d') \<and>
     verify_session env None (mq_actor q) d = Inr p \<and> set (pr_roles p) \<inter> {WORKER, EVALUATOR, SYSTEM} \<noteq> {} \<and>
     m_status m = ''candidate'' \<and> seed_sound d m)"

definition promoted_in :: "db \<Rightarrow> memory_row \<Rightarrow> eval_row \<Rightarrow> memory_row \<Rightarrow> bool" where
  "promoted_in db0 x ev m \<longleftrightarrow> (\<exists>env q d d' dg eid. memory_run db0 d \<and> promote env q d = Inr ((m, dg, eid), d') \<and>
     promotion_sound env q d x ev m)"

text \<open>What stands behind an item of each status.\<close>

definition memory_earned :: "db \<Rightarrow> db \<Rightarrow> memory_row \<Rightarrow> bool" where
  "memory_earned db0 db m \<longleftrightarrow>
     m_status m = ''candidate'' \<and> seeded db0 m \<or>
     m_status m = ''limited'' \<and> (\<exists>c ev. seeded db0 c \<and> promoted_in db0 c ev m \<and>
        fetch_one (\<lambda>v. el_eval_id v = el_eval_id ev) (eval_runs db) = Some ev) \<or>
     m_status m = ''active'' \<and> (\<exists>c ev l ev'. seeded db0 c \<and> promoted_in db0 c ev l \<and> m_status l = ''limited'' \<and>
        promoted_in db0 l ev' m \<and> el_eval_id ev' \<noteq> el_eval_id ev \<and> el_dataset_digest ev' \<noteq> el_dataset_digest ev)"

lemma memory_earned_later:
  "memory_earned db0 db m \<Longrightarrow> evals_kept db db' \<Longrightarrow> memory_earned db0 db' m"
  unfolding memory_earned_def evals_kept_def by blast

lemma step_keeps_evals: "memory_step db db' \<Longrightarrow> evals_kept db db'"
proof (induction rule: memory_step.induct)
  case (created env q db r db')
  then show ?case by (cases r) (auto simp: evals_kept_def dest!: create_candidate_Inr)
next
  case (promoting env q db r db')
  then show ?case by (cases r) (auto simp: evals_kept_def dest!: promote_Inr)
qed

lemma memory_step_keys:
  "memory_step db db' \<Longrightarrow> distinct (map m_memory_id (memory_items db)) \<Longrightarrow> distinct (map m_memory_id (memory_items db'))"
proof (induction rule: memory_step.induct)
  case (created env q db r db')
  obtain m dg eid where "r = (m, dg, eid)" by (metis prod.exhaust)
  with create_candidate_Inr [of env q db m dg eid db'] created
  have "memory_items db' = memory_items db \<or>
      m_memory_id m \<notin> m_memory_id ` set (memory_items db) \<and> memory_items db' = memory_items db @ [m]" by (metis imageE)
  with created.prems show ?case by auto
next
  case (promoting env q db r db')
  then show ?case by (cases r) (auto dest!: promote_Inr simp: map_update_where)
qed simp

lemma memory_run_keys:
  "memory_run db db' \<Longrightarrow> distinct (map m_memory_id (memory_items db)) \<Longrightarrow> distinct (map m_memory_id (memory_items db'))"
  by (induction rule: rtranclp_induct) (auto dest: memory_step_keys)

text \<open>A promotion moves a candidate to limited and a limited item to active, by evaluations of different datasets.\<close>

lemma promotion_sound_status:
  assumes "promotion_sound env q d x ev m"
  shows "x \<in> set (memory_items d)" "m_memory_id x = m_memory_id m" "m_heldout_eval_id m = Some (el_eval_id ev)"
    "fetch_one (\<lambda>v. el_eval_id v = el_eval_id ev) (eval_runs d) = Some ev"
    "m_status x = ''candidate'' \<and> m_status m = ''limited'' \<or> m_status x = ''limited'' \<and> m_status m = ''active''"
proof -
  from assms obtain request where r: "promotion_request env x (tq_target_status q) = Inr request"
      "m_status m = pm_target_status request" "m_heldout_eval_id m = Some (el_eval_id ev)"
      "fetch_one (\<lambda>v. m_memory_id v = m_memory_id m) (memory_items d) = Some x"
      "fetch_one (\<lambda>v. el_eval_id v = el_eval_id ev) (eval_runs d) = Some ev"
    by (auto simp: promotion_sound_def promoted_def)
  then show "x \<in> set (memory_items d)" "m_memory_id x = m_memory_id m" "m_heldout_eval_id m = Some (el_eval_id ev)"
      "fetch_one (\<lambda>v. el_eval_id v = el_eval_id ev) (eval_runs d) = Some ev"
    by (auto dest: fetch_one_SomeD)
  show "m_status x = ''candidate'' \<and> m_status m = ''limited'' \<or> m_status x = ''limited'' \<and> m_status m = ''active''"
    using r(1, 2) by (auto simp: promotion_request_def promotion_of_def MEMORY_TRANSITIONS_def bindr_eq_Inr Let_def split: if_splits)
qed

lemma fresh_eval_differs:
  assumes "promotion_sound env q d x ev' m" "m_status x = ''limited''" "m_heldout_eval_id x = Some (el_eval_id ev)"
    and "fetch_one (\<lambda>v. el_eval_id v = el_eval_id ev) (eval_runs d) = Some ev"
  shows "el_eval_id ev' \<noteq> el_eval_id ev" "el_dataset_digest ev' \<noteq> el_dataset_digest ev"
proof -
  from assms(1) have "require_fresh_eval x ev' d = Inr ()" by (auto simp: promotion_sound_def)
  with assms(2-4) show "el_eval_id ev' \<noteq> el_eval_id ev" "el_dataset_digest ev' \<noteq> el_dataset_digest ev"
    by (auto simp: require_fresh_eval_def split: if_splits)
qed

lemma promotion_earns:
  assumes "memory_run db0 d" "promote env q d = Inr ((m, dg, eid), d')" "promotion_sound env q d x ev m" "memory_earned db0 d x"
  shows "memory_earned db0 d m"
proof -
  have p: "promoted_in db0 x ev m" unfolding promoted_in_def using assms(1-3) by blast
  note s = promotion_sound_status [OF assms(3)]
  from s(5) show ?thesis
  proof
    assume "m_status x = ''candidate'' \<and> m_status m = ''limited''"
    with assms(4) p s(4) show ?thesis unfolding memory_earned_def by auto
  next
    assume a: "m_status x = ''limited'' \<and> m_status m = ''active''"
    with assms(4) obtain c ev0 where c: "seeded db0 c" "promoted_in db0 c ev0 x"
        "fetch_one (\<lambda>v. el_eval_id v = el_eval_id ev0) (eval_runs d) = Some ev0"
      unfolding memory_earned_def by auto
    from c(2) promotion_sound_status(3) have "m_heldout_eval_id x = Some (el_eval_id ev0)" unfolding promoted_in_def by blast
    from fresh_eval_differs [OF assms(3) conjunct1 [OF a] this c(3)] a c p show ?thesis unfolding memory_earned_def by blast
  qed
qed

lemma memory_items_earned:
  assumes "memory_run db0 db" "memory_items db0 = []" "m \<in> set (memory_items db)"
  shows "memory_earned db0 db m"
  using assms
proof (induction arbitrary: m rule: rtranclp_induct)
  case (step d d')
  have kept: "evals_kept d d'" using step_keeps_evals [OF step.hyps(2)] .
  have old: "memory_earned db0 d' x" if "x \<in> set (memory_items d)" for x
    using step.IH [OF step.prems(1) that] kept by (rule memory_earned_later)
  from step.hyps(2) show ?case
  proof cases
    case (created env q r)
    obtain x dg eid where r: "r = (x, dg, eid)" by (metis prod.exhaust)
    from create_candidate_Inr [OF created [unfolded r]] have "memory_items d' = memory_items d \<or>
        memory_items d' = memory_items d @ [x] \<and> seeded db0 x \<and> m_status x = ''candidate''"
      using created r step.hyps(1) unfolding seeded_def by blast
    then show ?thesis
    proof
      assume x: "memory_items d' = memory_items d @ [x] \<and> seeded db0 x \<and> m_status x = ''candidate''"
      then have "memory_earned db0 d' x" unfolding memory_earned_def by blast
      then show ?thesis using old step.prems(2) x by auto
    qed (use old step.prems(2) in simp)
  next
    case (promoting env q r)
    obtain y dg eid where r: "r = (y, dg, eid)" by (metis prod.exhaust)
    from promote_Inr [OF promoting [unfolded r]] obtain x ev f where s: "promotion_sound env q d x ev y"
      and f: "f x = y" "memory_items d' = update_where (\<lambda>v. m_memory_id v = m_memory_id y) f (memory_items d)" by blast
    note st = promotion_sound_status [OF s]
    have y: "memory_earned db0 d' y"
      using promotion_earns [OF step.hyps(1) promoting [unfolded r] s step.IH [OF step.prems(1) st(1)]] kept
      by (rule memory_earned_later)
    from step.prems(2) f(2) obtain z where z: "z \<in> set (memory_items d)" "m = (if m_memory_id z = m_memory_id y then f z else z)"
      by (auto simp: set_update_where)
    show ?thesis
    proof (cases "m_memory_id z = m_memory_id y")
      case True
      have "distinct (map m_memory_id (memory_items d))" using memory_run_keys [OF step.hyps(1)] step.prems(1) by simp
      from key_unique [OF this z(1) st(1)] True st(2) have "z = x" by simp
      with True z(2) f(1) y show ?thesis by simp
    qed (use old z in simp)
  next
    case others
    then show ?thesis using old step.prems(2) by simp
  qed
qed simp

lemma promotion_sound_content:
  "promotion_sound env q d x ev m \<Longrightarrow> m_content m = m_content x \<and> m_scope m = m_scope x \<and> m_classification m = m_classification x \<and>
     m_source_evidence_id m = m_source_evidence_id x \<and> m_memory_id m = m_memory_id x"
  by (auto simp: promotion_sound_def promoted_def)

lemma promoted_in_content:
  "promoted_in db0 x ev m \<Longrightarrow> m_content m = m_content x \<and> m_scope m = m_scope x \<and> m_classification m = m_classification x \<and>
     m_source_evidence_id m = m_source_evidence_id x \<and> m_memory_id m = m_memory_id x"
  using promotion_sound_content unfolding promoted_in_def by blast

text \<open>C2. Durable memory is earned: an active item has the content of a candidate that a live worker, evaluator or
  system principal seeded by passing evidence inside the write scope of its Task, and was promoted twice, each time
  by a live owner whose approval names exactly that promotion and was decided after a passing held-out evaluation of
  that candidate; the two evaluations are different and ran on different datasets.  A limited item was promoted once.\<close>

theorem durable_memory_earned:
  assumes "memory_run db0 db" "memory_items db0 = []" "m \<in> set (memory_items db)"
  shows "m_status m \<in> {''candidate'', ''limited'', ''active''} \<and>
    (m_status m = ''limited'' \<longrightarrow> (\<exists>c ev. seeded db0 c \<and> promoted_in db0 c ev m \<and> m_content m = m_content c)) \<and>
    (m_status m = ''active'' \<longrightarrow> (\<exists>c ev l ev'. seeded db0 c \<and> promoted_in db0 c ev l \<and> promoted_in db0 l ev' m \<and>
       el_eval_id ev' \<noteq> el_eval_id ev \<and> el_dataset_digest ev' \<noteq> el_dataset_digest ev \<and> m_memory_id m = m_memory_id c \<and>
       m_content m = m_content c \<and> m_scope m = m_scope c \<and> m_classification m = m_classification c))"
proof (intro conjI impI)
  note earned = memory_items_earned [OF assms]
  then show "m_status m \<in> {''candidate'', ''limited'', ''active''}" unfolding memory_earned_def by blast
  show "\<exists>c ev. seeded db0 c \<and> promoted_in db0 c ev m \<and> m_content m = m_content c" if "m_status m = ''limited''"
    using earned that promoted_in_content unfolding memory_earned_def by fastforce
  show "\<exists>c ev l ev'. seeded db0 c \<and> promoted_in db0 c ev l \<and> promoted_in db0 l ev' m \<and>
       el_eval_id ev' \<noteq> el_eval_id ev \<and> el_dataset_digest ev' \<noteq> el_dataset_digest ev \<and> m_memory_id m = m_memory_id c \<and>
       m_content m = m_content c \<and> m_scope m = m_scope c \<and> m_classification m = m_classification c" if "m_status m = ''active''"
  proof -
    from earned that obtain c ev l ev' where c: "seeded db0 c" "promoted_in db0 c ev l" "promoted_in db0 l ev' m"
        "el_eval_id ev' \<noteq> el_eval_id ev" "el_dataset_digest ev' \<noteq> el_dataset_digest ev"
      unfolding memory_earned_def by auto
    from promoted_in_content [OF c(2)] promoted_in_content [OF c(3)] c show ?thesis by metis
  qed
qed

section \<open>Instances\<close>

definition seed_claim :: evidence_row where
  "seed_claim = \<lparr>ev_evidence_id = ''e1'', ev_project_id = ''p1'', ev_run_id = ''r1'', ev_task_id = ''t1'', ev_claim = ''built'',
     ev_state = ES_STRUCTURE, ev_artifact_refs = [''a1''], ev_verifier = ''eve'', ev_verifier_version = ''1'',
     ev_environment = ''ci'', ev_verdict = VD_PASS, ev_non_claims = [], ev_created_at = 1\<rparr>"

definition seed_artifact :: artifact_row where
  "seed_artifact = \<lparr>af_artifact_id = ''a1'', af_project_id = ''p1'', af_run_id = ''r1'', af_task_id = ''t1'', af_producer = ''will'',
     af_kind = ''log'', af_uri = ''file:///log'', af_content_digest = replicate 64 (CHR ''c''), af_confidentiality = ''internal'',
     af_created_at = 1\<rparr>"

definition memory_task :: task_row where
  "memory_task = (sample_task_row TS_RUNNING 1)\<lparr>t_spec := JObj (task_to_dict (provider_task\<lparr>ts_write_scope := [''/work/**'']\<rparr>))\<rparr>"

definition memory_db :: db where
  "memory_db = (policy_db [] [])\<lparr>tasks := [memory_task], evidence_claims := [seed_claim], artifacts := [seed_artifact]\<rparr>"

definition lesson_request :: candidate_request where
  "lesson_request = \<lparr>mq_memory_id = ''m1'', mq_project_id = ''p1'', mq_source_evidence_id = ''e1'', mq_scope = ''/work/docs'',
     mq_classification = ''internal'', mq_content = ''lesson'', mq_ttl_seconds = DEFAULT_TTL, mq_effective_at = No_Time,
     mq_expires_at = At 100, mq_supersedes = None, mq_actor = Some (sample_session ''will''), mq_policy_version = ''v1''\<rparr>"

definition lesson :: memory_row where
  "lesson = \<lparr>m_memory_id = ''m1'', m_project_id = ''p1'', m_source_evidence_id = ''e1'',
     m_source_digest = content_hash toy_hash (evidence_json seed_claim [seed_artifact]), m_scope = ''/work/docs'',
     m_classification = ''internal'', m_content = ''lesson'', m_status = ''candidate'', m_effective_at = 5, m_expires_at = Some 100,
     m_supersedes = None, m_promotion_approval_id = None, m_heldout_eval_id = None, m_created_at = 5\<rparr>"

definition heldout_eval :: "string \<Rightarrow> memory_row \<Rightarrow> int \<Rightarrow> eval_row" where
  "heldout_eval i m t = \<lparr>el_eval_id = i, el_project_id = ''p1'', el_candidate_digest = candidate_digest (sample_env 0) m,
     el_dataset_name = i, el_dataset_split = ''held_out'', el_dataset_digest = i, el_evaluator = ''eve'', el_evaluator_version = ''1'',
     el_status = ''pass'', el_metrics = JObj [], el_safety_failures = JList [], el_attestation_id = i, el_attestation_digest = i,
     el_created_at = t\<rparr>"

definition memory_approval :: "string \<Rightarrow> memory_row \<Rightarrow> string \<Rightarrow> int \<Rightarrow> approval_row" where
  "memory_approval i m tgt t = sample_approval\<lparr>ap_approval_id := i, ap_capability := DURABLE_MEMORY_PROMOTION,
     ap_action := ''promote_memory'', ap_resource := ''memory://m1'',
     ap_request_digest := pm_request_digest (promotion_of (sample_env 0) m tgt), ap_decided_at := Some t, ap_expires_at := Some 90\<rparr>"

definition promote_lesson :: "string \<Rightarrow> string \<Rightarrow> string \<Rightarrow> promote_request" where
  "promote_lesson tgt a v = \<lparr>tq_memory_id = ''m1'', tq_target_status = tgt, tq_approval_id = a, tq_heldout_eval_id = v,
     tq_human_approver = Some (sample_session ''olga''), tq_policy_version = ''v1''\<rparr>"

definition limited_lesson :: memory_row where
  "limited_lesson = promoted (promotion_of (sample_env 0) lesson ''limited'') ''ap1'' ''v1'' lesson"

definition active_lesson :: memory_row where
  "active_lesson = promoted (promotion_of (sample_env 0) limited_lesson ''active'') ''ap2'' ''v2'' limited_lesson"

lemma lesson_checks:
  "contract_text ''m1'' = Inr ''m1''" "contract_text ''v1'' = Inr ''v1''" "contract_text ''v2'' = Inr ''v2''"
  "contract_text ''ap1'' = Inr ''ap1''" "contract_text ''ap2'' = Inr ''ap2''" "contract_text ''limited'' = Inr ''limited''"
  "contract_text ''active'' = Inr ''active''" "lower ''limited'' = ''limited''" "lower ''active'' = ''active''"
  "clean_candidate_request (sample_env 5) lesson_request = Inr \<lparr>mc_memory_id = ''m1'', mc_project_id = ''p1'',
     mc_source_evidence_id = ''e1'', mc_scope = ''/work/docs'', mc_classification = ''internal'', mc_content = ''lesson'',
     mc_supersedes = None, mc_effective_at = 5, mc_expires_at = 100\<rparr>"
  "load_task_spec (t_spec memory_task) = Inr (provider_task\<lparr>ts_write_scope := [''/work/**'']\<rparr>)"
  "scope_covers ''/work/**'' ''/work/docs'' = Inr True"
  by (code_simp+)

lemma lesson_provenance:
  assumes "artifacts db = [seed_artifact]"
  shows "evidence_provenance (sample_env t) seed_claim db = Inr (m_source_digest lesson, [seed_artifact])"
  using assms by (simp add: evidence_provenance_def lesson_def seed_claim_def seed_artifact_def Let_def)

lemma seed_values:
  "ev_project_id seed_claim = ''p1''" "ev_run_id seed_claim = ''r1''" "ev_task_id seed_claim = ''t1''" "ev_verdict seed_claim = VD_PASS"
  "ev_evidence_id seed_claim = ''e1''" "af_confidentiality seed_artifact = ''internal''"
  by (simp_all add: seed_claim_def seed_artifact_def)

lemma lesson_digest: "candidate_digest (sample_env t) = candidate_digest (sample_env 0)" "promotion_of (sample_env t) = promotion_of (sample_env 0)"
  by (simp_all add: candidate_digest_def promotion_of_def fun_eq_iff)

lemma promotion_values [simp]:
  "pm_target_status (promotion_of env m tgt) = tgt" "pm_from_status (promotion_of env m tgt) = m_status m"
  "pm_candidate_digest (promotion_of env m tgt) = candidate_digest env m"
  "pm_resource (promotion_of env m tgt) = ''memory://'' @ m_memory_id m"
  by (simp_all add: promotion_of_def Let_def)

lemma limited_values:
  "candidate_digest env limited_lesson = candidate_digest env lesson" "m_memory_id limited_lesson = ''m1''"
  "m_status limited_lesson = ''limited''" "m_expires_at limited_lesson = Some 100" "m_heldout_eval_id limited_lesson = Some ''v1''"
  "m_source_evidence_id limited_lesson = ''e1''" "m_source_digest limited_lesson = m_source_digest lesson"
  "m_project_id limited_lesson = ''p1''" "m_classification limited_lesson = ''internal''"
  by (simp_all add: limited_lesson_def promoted_def lesson_def candidate_digest_def)

lemma lesson_values:
  "m_memory_id lesson = ''m1''" "m_status lesson = ''candidate''" "m_expires_at lesson = Some 100" "m_heldout_eval_id lesson = None"
  "m_source_evidence_id lesson = ''e1''" "m_project_id lesson = ''p1''" "m_classification lesson = ''internal''"
  by (simp_all add: lesson_def)

definition lesson_event :: event_row where
  "lesson_event = new_event (sample_env 5) (memory_db\<lparr>uuid_next := Suc 0\<rparr>) (memory_event seed_claim lesson 0
     ''memory_candidate_created'' ''will'' (CHR ''u'' # show_nat 0) ''v1'' (memory_payload lesson)) []"

definition memory_db1 :: db where
  "memory_db1 = memory_db\<lparr>events := [lesson_event], uuid_next := Suc (Suc 0), memory_items := [lesson]\<rparr>"

lemma memory_db_tables: "events memory_db = []" "memory_items memory_db = []" "uuid_next memory_db = 0" "artifacts memory_db = [seed_artifact]"
  "evidence_claims memory_db = [seed_claim]" "tasks memory_db = [memory_task]" "eval_runs memory_db = []" "t_task_id memory_task = ''t1''"
  "t_goal_id memory_task = ''g1''"
  by (simp_all add: memory_db_def policy_db_def sample_rows memory_task_def sample_task_row_def)

lemma lesson_created:
  "create_candidate (sample_env 5) lesson_request memory_db =
     Inr ((lesson, candidate_digest (sample_env 0) lesson, Some (e_event_id lesson_event)), memory_db1)"
proof -
  have j: "joined_evidence ''e1'' memory_db = Some (seed_claim, memory_task)"
    by (simp add: joined_evidence_def memory_db_tables seed_claim_def)
  have s: "require_seed (sample_env 5) \<lparr>mc_memory_id = ''m1'', mc_project_id = ''p1'', mc_source_evidence_id = ''e1'',
      mc_scope = ''/work/docs'', mc_classification = ''internal'', mc_content = ''lesson'', mc_supersedes = None,
      mc_effective_at = 5, mc_expires_at = 100\<rparr> memory_db = Inr (seed_claim, m_source_digest lesson)"
    by (simp add: require_seed_def j lesson_checks except_map_def passing_evidence_def classification_rank_def CLASSIFICATION_RANK_def
        seed_values lesson_provenance [OF memory_db_tables(4)])
  have a: "verify_session (sample_env 5) None (mq_actor lesson_request) memory_db =
     Inr \<lparr>pr_principal_id = ''will'', pr_display_name = ''will'', pr_roles = [WORKER], pr_enabled = True, pr_credential_version = 1\<rparr>"
    by (simp add: lesson_request_def memory_db_def policy_db_def identity_eval sample_eval Let_def cong: bind_eval)
  have l: "\<lparr>m_memory_id = ''m1'', m_project_id = ''p1'', m_source_evidence_id = ''e1'', m_source_digest = m_source_digest lesson,
      m_scope = ''/work/docs'', m_classification = ''internal'', m_content = ''lesson'', m_status = ''candidate'', m_effective_at = 5,
      m_expires_at = Some 100, m_supersedes = None, m_promotion_approval_id = None, m_heldout_eval_id = None, m_created_at = 5\<rparr> = lesson"
    by (simp add: lesson_def)
  have p: "mq_policy_version lesson_request = ''v1''" by (simp add: lesson_request_def)
  show ?thesis
    by (simp add: create_candidate_def lesson_checks a s l p memory_db_tables draw_uuid_def event_run memory_event_def event_defaults_def
        lesson_digest(1) [of 5] lesson_values lesson_event_def memory_db1_def Let_def cong: bind_eval)
qed

text \<open>The two promotions.  Between them the evaluations and approvals are recorded.\<close>

definition memory_db2 :: db where
  "memory_db2 = memory_db1\<lparr>eval_runs := [heldout_eval ''v1'' lesson 10],
     approvals := [memory_approval ''ap1'' lesson ''limited'' 15]\<rparr>"

definition limited_event :: event_row where
  "limited_event = new_event (sample_env 20) (memory_db2\<lparr>uuid_next := Suc (Suc (Suc 0))\<rparr>) (memory_event seed_claim lesson 1
     ''memory_promoted'' ''olga'' (CHR ''u'' # show_nat (Suc (Suc 0))) ''v1''
     (promote_payload (promotion_of (sample_env 0) lesson ''limited'') ''m1'' ''ap1'' ''v1'')) []"

definition memory_db3 :: db where
  "memory_db3 = memory_db2\<lparr>events := [lesson_event, limited_event], uuid_next := Suc (Suc (Suc (Suc 0))), memory_items := [limited_lesson]\<rparr>"

definition memory_db4 :: db where
  "memory_db4 = memory_db3\<lparr>eval_runs := [heldout_eval ''v1'' lesson 10, heldout_eval ''v2'' lesson 30],
     approvals := [memory_approval ''ap1'' lesson ''limited'' 15, memory_approval ''ap2'' limited_lesson ''active'' 35]\<rparr>"

lemma memory_db2_tables:
  "events memory_db2 = [lesson_event]" "memory_items memory_db2 = [lesson]" "uuid_next memory_db2 = Suc (Suc 0)"
  "artifacts memory_db2 = [seed_artifact]" "evidence_claims memory_db2 = [seed_claim]" "tasks memory_db2 = [memory_task]"
  "eval_runs memory_db2 = [heldout_eval ''v1'' lesson 10]" "approvals memory_db2 = [memory_approval ''ap1'' lesson ''limited'' 15]"
  by (simp_all add: memory_db2_def memory_db1_def memory_db_tables)

lemma memory_db4_tables:
  "events memory_db4 = [lesson_event, limited_event]" "memory_items memory_db4 = [limited_lesson]"
  "uuid_next memory_db4 = Suc (Suc (Suc (Suc 0)))" "artifacts memory_db4 = [seed_artifact]" "evidence_claims memory_db4 = [seed_claim]"
  "tasks memory_db4 = [memory_task]" "eval_runs memory_db4 = [heldout_eval ''v1'' lesson 10, heldout_eval ''v2'' lesson 30]"
  "approvals memory_db4 = [memory_approval ''ap1'' lesson ''limited'' 15, memory_approval ''ap2'' limited_lesson ''active'' 35]"
  by (simp_all add: memory_db4_def memory_db3_def memory_db2_tables)

lemma event_values:
  "e_event_id lesson_event = CHR ''u'' # show_nat (Suc 0)" "e_aggregate_type lesson_event = ''memory_item''"
  "e_aggregate_id lesson_event = ''m1''" "e_aggregate_version lesson_event = 1" "e_event_type lesson_event = ''memory_candidate_created''"
  "e_event_id limited_event = CHR ''u'' # show_nat (Suc (Suc (Suc 0)))" "e_aggregate_type limited_event = ''memory_item''"
  "e_aggregate_id limited_event = ''m1''" "e_aggregate_version limited_event = 2" "e_event_type limited_event = ''memory_promoted''"
  "e_occurred_at limited_event = 20" "heads_ok [lesson_event]" "heads_ok [lesson_event, limited_event]"
proof -
  show e: "e_event_id lesson_event = CHR ''u'' # show_nat (Suc 0)" "e_aggregate_type lesson_event = ''memory_item''"
    "e_aggregate_id lesson_event = ''m1''" "e_aggregate_version lesson_event = 1" "e_event_type lesson_event = ''memory_candidate_created''"
    "heads_ok [lesson_event]"
    by (simp_all add: lesson_event_def memory_event_def event_defaults_def memory_db_tables lesson_values current_version_def aggregate_events_def)
  from e show "e_event_id limited_event = CHR ''u'' # show_nat (Suc (Suc (Suc 0)))" "e_aggregate_type limited_event = ''memory_item''"
    "e_aggregate_id limited_event = ''m1''" "e_aggregate_version limited_event = 2" "e_event_type limited_event = ''memory_promoted''"
    "e_occurred_at limited_event = 20" "heads_ok [lesson_event, limited_event]"
    by (simp_all add: limited_event_def memory_event_def event_defaults_def memory_db2_tables lesson_values current_version_def aggregate_events_def)
qed

lemma memory_owner:
  "require_role (sample_env t) OWNER (Some (sample_session ''olga'')) memory_db2 = require_role (sample_env t) OWNER (Some (sample_session ''olga'')) memory_db"
  "require_role (sample_env t) OWNER (Some (sample_session ''olga'')) memory_db4 = require_role (sample_env t) OWNER (Some (sample_session ''olga'')) memory_db"
  by (simp_all add: memory_db4_def memory_db3_def memory_db2_def memory_db1_def identity_eval cong: if_cong)

lemma memory_owner_found:
  "t < 1000000 \<Longrightarrow> require_role (sample_env t) OWNER (Some (sample_session ''olga'')) memory_db =
     Inr \<lparr>pr_principal_id = ''olga'', pr_display_name = ''olga'', pr_roles = [OWNER], pr_enabled = True, pr_credential_version = 1\<rparr>"
  by (simp add: memory_db_def policy_db_def identity_eval sample_eval Let_def cong: bind_eval)

lemma lesson_evidence:
  "joined_evidence ''e1'' memory_db2 = Some (seed_claim, memory_task)" "joined_evidence ''e1'' memory_db4 = Some (seed_claim, memory_task)"
  by (simp_all add: joined_evidence_def memory_db2_tables memory_db4_tables memory_db_tables seed_values)

lemma lesson_promotions:
  "promotion_request (sample_env t) lesson ''limited'' = Inr (promotion_of (sample_env 0) lesson ''limited'')"
  "promotion_request (sample_env t) limited_lesson ''active'' = Inr (promotion_of (sample_env 0) limited_lesson ''active'')"
  by (simp_all add: promotion_request_def MEMORY_TRANSITIONS_def lesson_checks lesson_values limited_values lesson_digest(2) [of t]
      del: lower_simps)

lemma lesson_provenances:
  "require_provenance (sample_env t) lesson memory_db2 = Inr (seed_claim, memory_task)"
  "require_provenance (sample_env t) limited_lesson memory_db4 = Inr (seed_claim, memory_task)"
  by (simp_all add: require_provenance_def lesson_values limited_values lesson_evidence seed_values passing_evidence_def
      lesson_provenance [OF memory_db2_tables(4)] lesson_provenance [OF memory_db4_tables(4)])

lemma lesson_approvals:
  "require_approval (sample_env 20) ''ap1'' lesson (promotion_of (sample_env 0) lesson ''limited'') seed_claim memory_task ''olga'' memory_db2 = Inr 15"
  "require_approval (sample_env 40) ''ap2'' limited_lesson (promotion_of (sample_env 0) limited_lesson ''active'') seed_claim memory_task ''olga'' memory_db4 = Inr 35"
  by (simp_all add: require_approval_def memory_db2_tables memory_db4_tables memory_approval_def exact_approval_def sample_approval_def
      lesson_values limited_values seed_values memory_db_tables)

lemma lesson_evals:
  "heldout_passes lesson (promotion_of (sample_env 0) lesson ''limited'') (heldout_eval ''v1'' lesson 10)"
  "heldout_passes limited_lesson (promotion_of (sample_env 0) limited_lesson ''active'') (heldout_eval ''v2'' lesson 30)"
  "require_fresh_eval lesson (heldout_eval ''v1'' lesson 10) memory_db2 = Inr ()"
  "require_fresh_eval limited_lesson (heldout_eval ''v2'' lesson 30) memory_db4 = Inr ()"
  by (simp_all add: heldout_passes_def heldout_eval_def lesson_values limited_values require_fresh_eval_def memory_db4_tables
      last_promoted_def event_values)

lemma lesson_limited: "\<exists>eid. promote (sample_env 20) (promote_lesson ''limited'' ''ap1'' ''v1'') memory_db2 =
  Inr ((limited_lesson, candidate_digest (sample_env 0) lesson, Some eid), memory_db3)"
proof -
  have ids: "show_nat (Suc (Suc (Suc 0))) \<noteq> show_nat (Suc 0)" using show_nat_inject by fastforce
  have m: "promoted (promotion_of (sample_env 0) lesson ''limited'') ''ap1'' ''v1'' lesson = limited_lesson"
    "m_memory_id limited_lesson = ''m1''" by (simp_all add: limited_lesson_def promoted_def lesson_values)
  have v: "el_created_at (heldout_eval ''v1'' lesson 10) = 10" "el_eval_id (heldout_eval ''v1'' lesson 10) = ''v1''"
    by (simp_all add: heldout_eval_def)
  show ?thesis
    by (simp add: promote_def promote_lesson_def lesson_checks memory_owner memory_owner_found find_memory_def memory_db2_tables
        lesson_values lesson_promotions lesson_provenances lesson_approvals lesson_evals v m ids draw_uuid_def event_run
        memory_event_def event_defaults_def event_values limited_event_def memory_db3_def seed_values Let_def cong: bind_eval)
qed

lemma lesson_active: "\<exists>eid db. promote (sample_env 40) (promote_lesson ''active'' ''ap2'' ''v2'') memory_db4 =
  Inr ((active_lesson, candidate_digest (sample_env 0) lesson, Some eid), db) \<and> memory_items db = [active_lesson]"
proof -
  have ids: "show_nat (Suc (Suc (Suc (Suc (Suc 0))))) \<noteq> show_nat (Suc 0)"
    "show_nat (Suc (Suc (Suc (Suc (Suc 0))))) \<noteq> show_nat (Suc (Suc (Suc 0)))" using show_nat_inject by fastforce+
  have m: "promoted (promotion_of (sample_env 0) limited_lesson ''active'') ''ap2'' ''v2'' limited_lesson = active_lesson"
    "m_memory_id active_lesson = ''m1''" by (simp_all add: active_lesson_def promoted_def limited_values)
  have v: "el_created_at (heldout_eval ''v2'' lesson 30) = 30" "el_eval_id (heldout_eval ''v2'' lesson 30) = ''v2''"
    "el_eval_id (heldout_eval ''v1'' lesson 10) = ''v1''"
    by (simp_all add: heldout_eval_def)
  show ?thesis
    by (simp add: promote_def promote_lesson_def lesson_checks memory_owner memory_owner_found find_memory_def memory_db4_tables
        limited_values lesson_promotions lesson_provenances lesson_approvals lesson_evals v m ids draw_uuid_def event_run
        memory_event_def event_defaults_def event_values seed_values Let_def cong: bind_eval)
qed

lemma durable_memory_earned_witness:
  "\<exists>db c ev l ev'. memory_run memory_db db \<and> memory_items db = [active_lesson] \<and> seeded memory_db c \<and> promoted_in memory_db c ev l \<and>
     promoted_in memory_db l ev' active_lesson \<and> el_dataset_digest ev' \<noteq> el_dataset_digest ev \<and> m_content active_lesson = m_content c"
proof -
  from lesson_limited obtain e1 where l: "promote (sample_env 20) (promote_lesson ''limited'' ''ap1'' ''v1'') memory_db2 =
    Inr ((limited_lesson, candidate_digest (sample_env 0) lesson, Some e1), memory_db3)" by blast
  from lesson_active obtain e2 db where a: "promote (sample_env 40) (promote_lesson ''active'' ''ap2'' ''v2'') memory_db4 =
    Inr ((active_lesson, candidate_digest (sample_env 0) lesson, Some e2), db)" "memory_items db = [active_lesson]" by blast
  have "memory_step memory_db1 memory_db2"
    by (rule memory_step.others) (simp_all add: memory_db2_def memory_db1_def evals_kept_def memory_db_tables)
  moreover have "memory_step memory_db3 memory_db4"
    by (rule memory_step.others) (simp_all add: memory_db4_def memory_db3_def memory_db2_def evals_kept_def)
  ultimately have run: "memory_run memory_db db"
    using lesson_created l a(1) by (meson converse_rtranclp_into_rtranclp memory_step.created memory_step.promoting rtranclp.rtrancl_refl)
  have "m_status active_lesson = ''active''" by (simp add: active_lesson_def promoted_def)
  then have "\<exists>c ev l ev'. seeded memory_db c \<and> promoted_in memory_db c ev l \<and> promoted_in memory_db l ev' active_lesson \<and>
       el_dataset_digest ev' \<noteq> el_dataset_digest ev \<and> m_content active_lesson = m_content c"
    using durable_memory_earned [OF run memory_db_tables(2), of active_lesson] a(2) by (auto simp: conj_assoc)
  then show ?thesis using run a(2) by blast
qed

end
